(* ===== verification/Prelude.thy ===== *)
theory Prelude
  imports Complex_Main
begin

text \<open>
  What every component shares: the thrown error and the result of an operation that may
  throw, the sequencing of such operations, the JavaScript \<open>??\<close> and "key in patch"
  idioms, and lemmas on lists and histories.  A TypeScript function that throws a
  \<open>TypeError\<close> is a function into \<open>type_error + 'a\<close>, with \<open>Inl\<close> for the throw; the
  aggregates are frozen objects, so a throw leaves the caller's value as it was.
\<close>

named_theorems result_simps \<open>inversion of successful results\<close>
named_theorems field_frames \<open>what an operation leaves unchanged\<close>

section \<open>Results\<close>

datatype type_error = TypeError string

type_synonym 'a result = "type_error + 'a"

definition result_bind :: "'e + 'a \<Rightarrow> ('a \<Rightarrow> 'e + 'b) \<Rightarrow> 'e + 'b" where
  "result_bind m f = (case m of Inl e \<Rightarrow> Inl e | Inr x \<Rightarrow> f x)"

definition result_map :: "('a \<Rightarrow> 'b) \<Rightarrow> 'e + 'a \<Rightarrow> 'e + 'b" where
  "result_map f m = (case m of Inl e \<Rightarrow> Inl e | Inr x \<Rightarrow> Inr (f x))"

lemma result_bind_Inl [simp]: "result_bind (Inl e) f = Inl e"
  by (simp add: result_bind_def)

lemma result_bind_Inr [simp]: "result_bind (Inr x) f = f x"
  by (simp add: result_bind_def)

lemma result_map_Inl [simp]: "result_map f (Inl e) = Inl e"
  by (simp add: result_map_def)

lemma result_map_Inr [simp]: "result_map f (Inr x) = Inr (f x)"
  by (simp add: result_map_def)

lemma result_bind_eq_Inr [result_simps]:
  "result_bind m f = Inr y \<longleftrightarrow> (\<exists>x. m = Inr x \<and> f x = Inr y)"
  by (cases m) auto

lemma result_map_eq_Inr [result_simps]:
  "result_map f m = Inr y \<longleftrightarrow> (\<exists>x. m = Inr x \<and> y = f x)"
  by (cases m) auto

lemma result_if_Inr [result_simps]:
  "(if b then Inl e else m) = Inr y \<longleftrightarrow> \<not> b \<and> m = Inr y"
  by auto

lemma result_if_Inl [result_simps]:
  "(if b then Inr x else m) = Inl e \<longleftrightarrow> \<not> b \<and> m = Inl e"
  by auto

text \<open>
  The caller's view of a throwing operation on an immutable value: when it throws, the
  caller still holds the old value.
\<close>

definition keep_on_throw :: "('a \<Rightarrow> 'e + 'a) \<Rightarrow> 'a \<Rightarrow> 'a" where
  "keep_on_throw f x = (case f x of Inl _ \<Rightarrow> x | Inr y \<Rightarrow> y)"

lemma keep_on_throw_Inl [simp]: "f x = Inl e \<Longrightarrow> keep_on_throw f x = x"
  by (simp add: keep_on_throw_def)

lemma keep_on_throw_Inr [simp]: "f x = Inr y \<Longrightarrow> keep_on_throw f x = y"
  by (simp add: keep_on_throw_def)

section \<open>Optional fields\<close>

text \<open>
  A field of a patch is absent (\<open>None\<close>), present with the value \<open>undefined\<close>
  (\<open>Some None\<close>), or present with a value.  \<open>in_patch\<close> is the source's
  \<open>"key" in patch ? patch.key : current.key\<close>, \<open>nullish\<close> its \<open>next ?? current\<close>.
\<close>

definition in_patch :: "'a option option \<Rightarrow> 'a option \<Rightarrow> 'a option" where
  "in_patch p current = (case p of None \<Rightarrow> current | Some v \<Rightarrow> v)"

definition nullish :: "'a option \<Rightarrow> 'a option \<Rightarrow> 'a option" where
  "nullish next current = (case next of None \<Rightarrow> current | Some v \<Rightarrow> Some v)"

definition value_or :: "'a option \<Rightarrow> 'a \<Rightarrow> 'a" where
  "value_or v d = (case v of None \<Rightarrow> d | Some x \<Rightarrow> x)"

lemma in_patch_simps [simp]:
  "in_patch None c = c" "in_patch (Some v) c = v"
  by (simp_all add: in_patch_def)

lemma nullish_simps [simp]:
  "nullish None c = c" "nullish (Some v) c = Some v"
  by (simp_all add: nullish_def)

lemma value_or_simps [simp]:
  "value_or None d = d" "value_or (Some x) d = x"
  by (simp_all add: value_or_def)

section \<open>Lists\<close>

lemma find_filter_hd: "List.find P xs = (case filter P xs of [] \<Rightarrow> None | y # _ \<Rightarrow> Some y)"
  by (induction xs) auto

lemma find_SomeD: "List.find P xs = Some x \<Longrightarrow> x \<in> set xs \<and> P x"
  by (induction xs) (auto split: if_splits)

lemma find_None_iff_all: "List.find P xs = None \<longleftrightarrow> (\<forall>x \<in> set xs. \<not> P x)"
  by (induction xs) auto

lemma fold_invariant:
  assumes "P s" and "\<And>x s. P s \<Longrightarrow> P (f x s)"
  shows "P (fold f xs s)"
  using assms(1) by (induction xs arbitrary: s) (auto intro: assms(2))

lemma distinct_map_filter_eq:
  "distinct (map f xs) \<Longrightarrow> x \<in> set xs \<Longrightarrow> y \<in> set xs \<Longrightarrow> f x = f y \<Longrightarrow> x = y"
  by (auto simp: distinct_map dest: inj_onD)

end
