(* ===== verification/JsText.thy ===== *)
theory JsText
  imports Prelude
begin

text \<open>
  JavaScript strings and the validators of \<open>packages/shared\<close> and
  \<open>packages/domain/src/common\<close>, \<open>identity\<close>, \<open>references\<close> and \<open>idempotency\<close>.  A
  string is a list of \<^typ>\<open>char\<close>, read as its UTF-16 code units below 256 (Latin-1);
  \<open>trim\<close>, \<open>toLowerCase\<close> and the \<open>\s\<close> class of a regular expression are written out
  on that range.
\<close>

section \<open>Characters\<close>

abbreviation code_unit :: "char \<Rightarrow> nat" where
  "code_unit c \<equiv> of_char c"

definition js_space :: "char \<Rightarrow> bool" where
  "js_space c \<longleftrightarrow> 9 \<le> code_unit c \<and> code_unit c \<le> 13 \<or> code_unit c = 32 \<or> code_unit c = 160"

definition js_upper_case :: "char \<Rightarrow> bool" where
  "js_upper_case c \<longleftrightarrow>
     65 \<le> code_unit c \<and> code_unit c \<le> 90 \<or>
     192 \<le> code_unit c \<and> code_unit c \<le> 222 \<and> code_unit c \<noteq> 215"

definition lower_char :: "char \<Rightarrow> char" where
  "lower_char c = (if js_upper_case c then char_of (code_unit c + 32) else c)"

definition digit_char :: "char \<Rightarrow> bool" where
  "digit_char c \<longleftrightarrow> 48 \<le> code_unit c \<and> code_unit c \<le> 57"

definition lower_letter :: "char \<Rightarrow> bool" where
  "lower_letter c \<longleftrightarrow> 97 \<le> code_unit c \<and> code_unit c \<le> 122"

definition upper_letter :: "char \<Rightarrow> bool" where
  "upper_letter c \<longleftrightarrow> 65 \<le> code_unit c \<and> code_unit c \<le> 90"

section \<open>String operations\<close>

definition js_trim :: "string \<Rightarrow> string" where
  "js_trim s = rev (dropWhile js_space (rev (dropWhile js_space s)))"

definition js_lower :: "string \<Rightarrow> string" where
  "js_lower s = map lower_char s"

definition js_starts_with :: "string \<Rightarrow> string \<Rightarrow> bool" where
  "js_starts_with s p \<longleftrightarrow> take (length p) s = p"

definition js_ends_with :: "string \<Rightarrow> string \<Rightarrow> bool" where
  "js_ends_with s p \<longleftrightarrow> drop (length s - length p) s = p"

definition js_join :: "string \<Rightarrow> string list \<Rightarrow> string" where
  "js_join sep xs = concat (case xs of [] \<Rightarrow> [] | x # ys \<Rightarrow> x # map (\<lambda>y. sep @ y) ys)"

text \<open>The decimal text of a number in a template literal.\<close>

definition digit_of :: "nat \<Rightarrow> char" where
  "digit_of d = char_of (48 + d)"

fun show_nat :: "nat \<Rightarrow> string" where
  "show_nat n = (if n < 10 then [digit_of n] else show_nat (n div 10) @ [digit_of (n mod 10)])"

declare show_nat.simps [simp del]

definition show_int :: "int \<Rightarrow> string" where
  "show_int i = (if i < 0 then ''-'' @ show_nat (nat (- i)) else show_nat (nat i))"

text \<open>\<open>Number.parseInt(text, 10)\<close>: \<open>None\<close> is NaN.\<close>

definition digit_value :: "char \<Rightarrow> nat" where
  "digit_value c = code_unit c - 48"

definition digits_value :: "string \<Rightarrow> nat" where
  "digits_value ds = foldl (\<lambda>n c. 10 * n + digit_value c) 0 ds"

definition parse_int :: "string \<Rightarrow> int option" where
  "parse_int text =
     (let t = dropWhile js_space text;
          negative = (js_starts_with t ''-'');
          body = (if js_starts_with t ''-'' \<or> js_starts_with t ''+'' then tl t else t);
          ds = takeWhile digit_char body
      in if ds = [] then None
         else Some (if negative then - int (digits_value ds) else int (digits_value ds)))"

definition max_safe_integer :: int where
  "max_safe_integer = 2 ^ 53 - 1"

section \<open>The validators\<close>

definition createOpaqueString :: "string \<Rightarrow> string \<Rightarrow> string result" where
  "createOpaqueString value label =
     (let normalized = js_trim value
      in if length normalized = 0 then Inl (TypeError (label @ '' must not be empty.''))
         else Inr normalized)"

definition createCorrelationId :: "string \<Rightarrow> string result" where
  "createCorrelationId value = createOpaqueString value ''CorrelationId''"

definition createRequestId :: "string \<Rightarrow> string result" where
  "createRequestId value = createOpaqueString value ''RequestId''"

definition createTraceId :: "string \<Rightarrow> string result" where
  "createTraceId value = createOpaqueString value ''TraceId''"

text \<open>The pattern \<open>^[a-z][a-z0-9_.-]*$\<close>.\<close>

definition safe_code_char :: "char \<Rightarrow> bool" where
  "safe_code_char c \<longleftrightarrow>
     lower_letter c \<or> digit_char c \<or> c = CHR ''_'' \<or> c = CHR ''.'' \<or> c = CHR ''-''"

definition isSafeDomainCode :: "string \<Rightarrow> bool" where
  "isSafeDomainCode s \<longleftrightarrow>
     (case s of [] \<Rightarrow> False | c # cs \<Rightarrow> lower_letter c \<and> list_all safe_code_char cs)"

definition createSafeDomainCode :: "string \<Rightarrow> string \<Rightarrow> string result" where
  "createSafeDomainCode value label =
     (let normalized = js_lower (js_trim value)
      in if \<not> isSafeDomainCode normalized
         then Inl (TypeError (label @ '' must be a safe lowercase domain code.''))
         else Inr normalized)"

text \<open>The pattern \<open>^[A-Za-z0-9._:-]+$\<close>.\<close>

definition token_char :: "char \<Rightarrow> bool" where
  "token_char c \<longleftrightarrow>
     upper_letter c \<or> lower_letter c \<or> digit_char c \<or>
     c = CHR ''.'' \<or> c = CHR ''_'' \<or> c = CHR '':'' \<or> c = CHR ''-''"

definition safe_token :: "string \<Rightarrow> bool" where
  "safe_token s \<longleftrightarrow> s \<noteq> [] \<and> list_all token_char s"

definition createDomainIdentity :: "string \<Rightarrow> string \<Rightarrow> string result" where
  "createDomainIdentity value label =
     (let normalized = js_trim value
      in if \<not> safe_token normalized
         then Inl (TypeError (label @ '' must be an opaque safe token.''))
         else createOpaqueString normalized label)"

definition createIdempotencyKey :: "string \<Rightarrow> string result" where
  "createIdempotencyKey value = createDomainIdentity value ''IdempotencyKey''"

text \<open>The pattern \<open>^[a-z0-9_.-]+@(s.whatsapp.net|g.us)$\<close>, its dots escaped.\<close>

definition direct_jid_suffix :: string where
  "direct_jid_suffix = ''@s.whatsapp.net''"

definition group_jid_suffix :: string where
  "group_jid_suffix = ''@g.us''"

definition jid_pattern_with :: "string \<Rightarrow> string \<Rightarrow> bool" where
  "jid_pattern_with s suffix \<longleftrightarrow>
     js_ends_with s suffix \<and> length suffix < length s \<and>
     list_all safe_code_char (take (length s - length suffix) s)"

definition jid_pattern :: "string \<Rightarrow> bool" where
  "jid_pattern s \<longleftrightarrow> jid_pattern_with s direct_jid_suffix \<or> jid_pattern_with s group_jid_suffix"

definition createJid :: "string \<Rightarrow> string result" where
  "createJid value =
     (let normalized = js_lower (js_trim value)
      in if \<not> jid_pattern normalized
         then Inl (TypeError ''JID must be a translated WhatsApp JID reference.'')
         else createOpaqueString normalized ''Jid'')"

definition redactJid :: "string \<Rightarrow> string" where
  "redactJid value = ''[confidential:jid]''"

text \<open>The pattern \<open>^\+[1-9]\d{6,14}$\<close> on the text without brackets, dashes and spaces.\<close>

definition phone_pattern :: "string \<Rightarrow> bool" where
  "phone_pattern s \<longleftrightarrow>
     (case s of
        p # d # ds \<Rightarrow> p = CHR ''+'' \<and> digit_char d \<and> d \<noteq> CHR ''0'' \<and>
                      list_all digit_char ds \<and> 6 \<le> length ds \<and> length ds \<le> 14
      | _ \<Rightarrow> False)"

definition phone_noise :: "char \<Rightarrow> bool" where
  "phone_noise c \<longleftrightarrow> c = CHR ''('' \<or> c = CHR '')'' \<or> c = CHR ''-'' \<or> js_space c"

definition createPhoneNumber :: "string \<Rightarrow> string result" where
  "createPhoneNumber value =
     (let normalized = filter (\<lambda>c. \<not> phone_noise c) (js_trim value)
      in if \<not> phone_pattern normalized
         then Inl (TypeError ''PhoneNumber must be an E.164-like confidential reference.'')
         else createOpaqueString normalized ''PhoneNumber'')"

definition redactPhoneNumber :: "string \<Rightarrow> string" where
  "redactPhoneNumber value = ''[confidential:phone-number]''"

text \<open>A non-empty text of at most \<open>bound\<close> code units, as the display names require.\<close>

definition bounded_text :: "nat \<Rightarrow> string \<Rightarrow> string \<Rightarrow> string result" where
  "bounded_text bound message value =
     (let normalized = js_trim value
      in if length normalized = 0 \<or> bound < length normalized then Inl (TypeError message)
         else Inr normalized)"

section \<open>Facts about characters and text\<close>

lemma code_unit_less: "code_unit c < 256"
  using of_char_mod_256 [of c, where 'a = nat] by (metis mod_less_divisor zero_less_numeral)

lemma code_unit_digit_of: "d < 10 \<Longrightarrow> code_unit (digit_of d) = 48 + d"
  by (simp add: digit_of_def)

lemma digit_char_digit_of: "d < 10 \<Longrightarrow> digit_char (digit_of d)"
  by (simp add: digit_char_def code_unit_digit_of)

lemma digit_value_digit_of: "d < 10 \<Longrightarrow> digit_value (digit_of d) = d"
  by (simp add: digit_value_def code_unit_digit_of)

lemma lower_letter_not_space: "lower_letter c \<Longrightarrow> \<not> js_space c"
  by (auto simp: lower_letter_def js_space_def)

lemma digit_not_space: "digit_char c \<Longrightarrow> \<not> js_space c"
  by (auto simp: digit_char_def js_space_def)

lemma safe_code_char_not_space: "safe_code_char c \<Longrightarrow> \<not> js_space c"
  by (auto simp: safe_code_char_def js_space_def lower_letter_def digit_char_def)

lemma token_char_not_space: "token_char c \<Longrightarrow> \<not> js_space c"
  by (auto simp: token_char_def js_space_def lower_letter_def upper_letter_def digit_char_def)

lemma safe_code_char_lower: "safe_code_char c \<Longrightarrow> lower_char c = c"
  by (auto simp: safe_code_char_def lower_char_def js_upper_case_def lower_letter_def digit_char_def)

lemma safe_code_char_token: "safe_code_char c \<Longrightarrow> token_char c"
  by (auto simp: safe_code_char_def token_char_def)

lemma lower_letter_safe_code: "lower_letter c \<Longrightarrow> safe_code_char c"
  by (simp add: safe_code_char_def)

lemma isSafeDomainCode_chars: "isSafeDomainCode s \<Longrightarrow> s \<noteq> [] \<and> list_all safe_code_char s"
  by (auto simp: isSafeDomainCode_def lower_letter_safe_code split: list.splits)

lemma js_trim_id: "list_all (\<lambda>c. \<not> js_space c) s \<Longrightarrow> js_trim s = s"
proof -
  assume a: "list_all (\<lambda>c. \<not> js_space c) s"
  have "dropWhile js_space xs = xs" if "list_all (\<lambda>c. \<not> js_space c) xs" for xs
    using that by (cases xs) auto
  with a show ?thesis by (simp add: js_trim_def)
qed

lemma js_lower_id: "list_all safe_code_char s \<Longrightarrow> js_lower s = s"
  by (simp add: js_lower_def list_all_iff safe_code_char_lower map_idI)

lemma list_all_not_space:
  "list_all safe_code_char s \<Longrightarrow> list_all (\<lambda>c. \<not> js_space c) s"
  "list_all token_char s \<Longrightarrow> list_all (\<lambda>c. \<not> js_space c) s"
  "list_all digit_char s \<Longrightarrow> list_all (\<lambda>c. \<not> js_space c) s"
  by (auto simp: list_all_iff dest: safe_code_char_not_space token_char_not_space digit_not_space)

lemma rev_dropWhile_fixpoint:
  "\<not> (xs \<noteq> [] \<and> P (last xs)) \<Longrightarrow> rev (dropWhile P (rev xs)) = xs"
  by (cases xs rule: rev_cases) auto

lemma js_trim_idem: "js_trim (js_trim s) = js_trim s"
proof -
  define t where "t = dropWhile js_space s"
  define u where "u = rev (dropWhile js_space (rev t))"
  have trim: "js_trim s = u" by (simp add: js_trim_def t_def u_def)
  have pre: "\<exists>v. t = u @ v"
    by (metis rev_append rev_rev_ident takeWhile_dropWhile_id u_def)
  have hd_u: "\<not> js_space (hd u)" if "u \<noteq> []"
  proof -
    from pre that have "hd u = hd t" "t \<noteq> []" by auto
    then show ?thesis using hd_dropWhile [of js_space s] by (simp add: t_def)
  qed
  have last_u: "\<not> (u \<noteq> [] \<and> js_space (last u))"
    using hd_dropWhile [of js_space "rev t"] by (auto simp: u_def last_rev)
  have "dropWhile js_space u = u"
    using hd_u by (cases u) auto
  then have "js_trim u = rev (dropWhile js_space (rev u))" by (simp add: js_trim_def)
  also have "\<dots> = u" using last_u by (rule rev_dropWhile_fixpoint)
  finally show ?thesis by (simp add: trim)
qed

lemma createSafeDomainCode_ok:
  assumes "createSafeDomainCode v l = Inr c"
  shows "isSafeDomainCode c" and "createSafeDomainCode c l' = Inr c"
proof -
  from assms show safe: "isSafeDomainCode c"
    by (simp add: createSafeDomainCode_def Let_def split: if_splits)
  then have "list_all safe_code_char c" using isSafeDomainCode_chars by blast
  then show "createSafeDomainCode c l' = Inr c"
    using safe by (simp add: createSafeDomainCode_def js_trim_id js_lower_id list_all_not_space)
qed

lemma createSafeDomainCode_id: "isSafeDomainCode c \<Longrightarrow> createSafeDomainCode c l = Inr c"
  using isSafeDomainCode_chars [of c]
  by (simp add: createSafeDomainCode_def js_trim_id js_lower_id list_all_not_space)

lemma createDomainIdentity_ok:
  assumes "createDomainIdentity v l = Inr t"
  shows "safe_token t" and "t = js_trim v" and "createDomainIdentity t l' = Inr t"
proof -
  from assms have s: "safe_token (js_trim v)" and t: "createOpaqueString (js_trim v) l = Inr t"
    by (simp_all add: createDomainIdentity_def Let_def split: if_splits)
  from t show eq: "t = js_trim v"
    by (simp add: createOpaqueString_def Let_def js_trim_idem split: if_splits)
  with s show "safe_token t" by simp
  then show "createDomainIdentity t l' = Inr t"
    using eq by (auto simp: createDomainIdentity_def createOpaqueString_def safe_token_def js_trim_idem)
qed

lemma createDomainIdentity_id: "safe_token t \<Longrightarrow> createDomainIdentity t l = Inr t"
  by (simp add: createDomainIdentity_def createOpaqueString_def safe_token_def js_trim_id
      list_all_not_space)

lemma bounded_text_ok:
  "bounded_text b m v = Inr t \<Longrightarrow> t \<noteq> [] \<and> length t \<le> b \<and> t = js_trim v"
  by (auto simp: bounded_text_def Let_def split: if_splits)

section \<open>Facts about decimal text\<close>

lemma show_nat_digits: "list_all digit_char (show_nat n)"
proof (induction n rule: show_nat.induct)
  case (1 n)
  then show ?case
    by (subst show_nat.simps) (auto simp: digit_char_digit_of)
qed

lemma show_nat_nonempty: "show_nat n \<noteq> []"
  by (subst show_nat.simps) simp

lemma digits_value_snoc: "digits_value (ds @ [c]) = 10 * digits_value ds + digit_value c"
  by (simp add: digits_value_def)

lemma digits_value_show_nat: "digits_value (show_nat n) = n"
proof (induction n rule: show_nat.induct)
  case (1 n)
  show ?case
  proof (cases "n < 10")
    case True
    then show ?thesis
      by (subst show_nat.simps) (simp add: digits_value_def digit_value_digit_of)
  next
    case False
    with 1 have "digits_value (show_nat (n div 10)) = n div 10" by simp
    then show ?thesis using False
      by (subst show_nat.simps) (simp add: digits_value_snoc digit_value_digit_of)
  qed
qed

lemma show_nat_inject [simp]: "show_nat m = show_nat n \<longleftrightarrow> m = n"
  by (metis digits_value_show_nat)

lemma show_int_nonneg: "0 \<le> i \<Longrightarrow> show_int i = show_nat (nat i)"
  by (simp add: show_int_def)

lemma show_int_inject_nonneg:
  "0 \<le> i \<Longrightarrow> 0 \<le> j \<Longrightarrow> show_int i = show_int j \<longleftrightarrow> i = j"
  by (auto simp: show_int_nonneg)

lemma parse_int_digits:
  assumes "ds \<noteq> []" "list_all digit_char ds"
  shows "parse_int ds = Some (int (digits_value ds))"
proof -
  obtain c cs where ds: "ds = c # cs" using assms(1) by (cases ds) auto
  then have c: "digit_char c" using assms(2) by simp
  then have "c \<noteq> CHR ''-''" "c \<noteq> CHR ''+''" "\<not> js_space c"
    by (auto simp: digit_char_def js_space_def)
  moreover have "takeWhile digit_char ds = ds"
    using assms(2) by (simp add: list_all_iff takeWhile_eq_all_conv)
  ultimately show ?thesis
    by (simp add: parse_int_def ds js_starts_with_def Let_def)
qed

lemma parse_int_show_nat: "parse_int (show_nat n) = Some (int n)"
  by (simp add: parse_int_digits show_nat_nonempty show_nat_digits digits_value_show_nat)

section \<open>ASCII letters\<close>

definition ascii_letter :: "char \<Rightarrow> bool" where
  "ascii_letter c \<longleftrightarrow> lower_letter c \<or> upper_letter c"

lemma ascii_letters:
  "ascii_letter CHR ''a''" "ascii_letter CHR ''b''" "ascii_letter CHR ''c''"
  "ascii_letter CHR ''d''" "ascii_letter CHR ''e''" "ascii_letter CHR ''f''"
  "ascii_letter CHR ''g''" "ascii_letter CHR ''h''" "ascii_letter CHR ''i''"
  "ascii_letter CHR ''j''" "ascii_letter CHR ''k''" "ascii_letter CHR ''l''"
  "ascii_letter CHR ''m''" "ascii_letter CHR ''n''" "ascii_letter CHR ''o''"
  "ascii_letter CHR ''p''" "ascii_letter CHR ''q''" "ascii_letter CHR ''r''"
  "ascii_letter CHR ''s''" "ascii_letter CHR ''t''" "ascii_letter CHR ''u''"
  "ascii_letter CHR ''v''" "ascii_letter CHR ''w''" "ascii_letter CHR ''x''"
  "ascii_letter CHR ''y''" "ascii_letter CHR ''z''" "ascii_letter CHR ''A''"
  "ascii_letter CHR ''B''" "ascii_letter CHR ''C''" "ascii_letter CHR ''D''"
  "ascii_letter CHR ''E''" "ascii_letter CHR ''F''" "ascii_letter CHR ''G''"
  "ascii_letter CHR ''H''" "ascii_letter CHR ''I''" "ascii_letter CHR ''J''"
  "ascii_letter CHR ''K''" "ascii_letter CHR ''L''" "ascii_letter CHR ''M''"
  "ascii_letter CHR ''N''" "ascii_letter CHR ''O''" "ascii_letter CHR ''P''"
  "ascii_letter CHR ''Q''" "ascii_letter CHR ''R''" "ascii_letter CHR ''S''"
  "ascii_letter CHR ''T''" "ascii_letter CHR ''U''" "ascii_letter CHR ''V''"
  "ascii_letter CHR ''W''" "ascii_letter CHR ''X''" "ascii_letter CHR ''Y''"
  "ascii_letter CHR ''Z''"
  by (simp_all add: ascii_letter_def lower_letter_def upper_letter_def)

lemma lower_ascii_letter: "ascii_letter c \<Longrightarrow> lower_letter (lower_char c)"
  by (auto simp: ascii_letter_def lower_letter_def upper_letter_def lower_char_def js_upper_case_def
      of_char_of)

lemma ascii_letter_token: "ascii_letter c \<Longrightarrow> token_char c"
  by (auto simp: ascii_letter_def token_char_def)

end
