(* ===== verification/Vocabulary.thy ===== *)
theory Vocabulary
  imports JsText
begin

text \<open>
  The string unions of \<open>packages/domain/src\<close> (statuses, categories, outcomes, roles,
  capabilities): one datatype each, with its literal texts, the array of its values in the
  source's order and the \<open>create...\<close> reader.  The readers share
  \<open>common/string-union-value.ts\<close>; the locale \<open>string_union\<close> states once what a reader
  promises, and each union interprets it.
\<close>

section \<open>common/string-union-value.ts\<close>

definition isStringUnionValue :: "string \<Rightarrow> string list \<Rightarrow> bool" where
  "isStringUnionValue value allowedValues \<longleftrightarrow> value \<in> set allowedValues"

definition createStringUnionValue :: "string \<Rightarrow> string list \<Rightarrow> string \<Rightarrow> string result" where
  "createStringUnionValue value allowedValues label =
     (if \<not> isStringUnionValue value allowedValues
      then Inl (TypeError (label @ '' must be one of '' @ js_join '', '' allowedValues @ ''.''))
      else Inr value)"

text \<open>The typed readers: the text is narrowed to the constructor that carries it.\<close>

definition narrow :: "('a \<Rightarrow> string) \<Rightarrow> 'a list \<Rightarrow> string \<Rightarrow> 'a option" where
  "narrow nm vals value = List.find (\<lambda>v. nm v = value) vals"

definition read_union :: "('a \<Rightarrow> string) \<Rightarrow> 'a list \<Rightarrow> string \<Rightarrow> string \<Rightarrow> 'a result" where
  "read_union nm vals value label =
     (case createStringUnionValue value (map nm vals) label of
        Inl e \<Rightarrow> Inl e
      | Inr s \<Rightarrow> (case narrow nm vals s of
                    Some v \<Rightarrow> Inr v
                  | None \<Rightarrow> Inl (TypeError label)))"

definition read_included :: "('a \<Rightarrow> string) \<Rightarrow> 'a list \<Rightarrow> string \<Rightarrow> string \<Rightarrow> 'a result" where
  "read_included nm vals value message =
     (case narrow nm vals value of None \<Rightarrow> Inl (TypeError message) | Some v \<Rightarrow> Inr v)"

lemma narrow_SomeD: "narrow nm vals s = Some v \<Longrightarrow> s = nm v \<and> v \<in> set vals"
  unfolding narrow_def by (auto dest: find_SomeD)

lemma narrow_None_iff: "narrow nm vals s = None \<longleftrightarrow> s \<notin> set (map nm vals)"
  unfolding narrow_def find_None_iff_all by auto

lemma narrow_name:
  assumes "distinct (map nm vals)" "v \<in> set vals"
  shows "narrow nm vals (nm v) = Some v"
proof (cases "narrow nm vals (nm v)")
  case None
  then show ?thesis using assms(2) unfolding narrow_None_iff by auto
next
  case (Some w)
  from narrow_SomeD [OF this] have "nm v = nm w" "w \<in> set vals" by auto
  then have "w = v" using distinct_map_filter_eq [OF assms(1)] assms(2) by metis
  with Some show ?thesis by simp
qed

text \<open>The error branch after a successful membership test is never taken.\<close>

lemma read_union_eq:
  "read_union nm vals s l =
     (case narrow nm vals s of
        Some v \<Rightarrow> Inr v
      | None \<Rightarrow> Inl (TypeError (l @ '' must be one of '' @ js_join '', '' (map nm vals) @ ''.'')))"
proof (cases "narrow nm vals s")
  case None
  then show ?thesis
    using narrow_None_iff [of nm vals s]
    by (simp add: read_union_def createStringUnionValue_def isStringUnionValue_def)
next
  case (Some v)
  then have "s \<in> set (map nm vals)" using narrow_None_iff [of nm vals s] by auto
  then show ?thesis using Some
    by (simp add: read_union_def createStringUnionValue_def isStringUnionValue_def)
qed

locale string_union =
  fixes nm :: "'a \<Rightarrow> string" and vals :: "'a list"
  assumes distinct_names: "distinct (map nm vals)"
    and complete: "v \<in> set vals"
begin

lemma narrow_roundtrip [simp]: "narrow nm vals (nm v) = Some v"
  by (rule narrow_name [OF distinct_names complete])

lemma name_inject [simp]: "nm v = nm w \<longleftrightarrow> v = w"
  by (metis narrow_roundtrip option.inject)

lemma read_roundtrip: "read_union nm vals (nm v) l = Inr v"
  by (simp add: read_union_eq)

lemma read_iff: "read_union nm vals s l = Inr v \<longleftrightarrow> s = nm v"
  by (auto simp: read_union_eq split: option.splits dest: narrow_SomeD)

lemma read_included_roundtrip: "read_included nm vals (nm v) m = Inr v"
  by (simp add: read_included_def)

lemma read_included_iff: "read_included nm vals s m = Inr v \<longleftrightarrow> s = nm v"
  by (auto simp: read_included_def split: option.splits dest: narrow_SomeD)

text \<open>The typed reader agrees with the source's reader of strings, throws included.\<close>

lemma read_agrees: "result_map nm (read_union nm vals s l) = createStringUnionValue s (map nm vals) l"
proof (cases "narrow nm vals s")
  case None
  then have "s \<notin> set (map nm vals)" by (simp add: narrow_None_iff)
  with None show ?thesis
    by (auto simp: read_union_eq createStringUnionValue_def isStringUnionValue_def)
next
  case (Some v)
  then have "s = nm v" "s \<in> set (map nm vals)" using complete by (auto dest: narrow_SomeD)
  with Some show ?thesis
    by (simp add: read_union_eq createStringUnionValue_def isStringUnionValue_def)
qed

end

section \<open>The unions\<close>

subsection \<open>errors/domain-error-category.ts\<close>

datatype domain_error_category =
    Cat_business_rule_violation
  | Cat_invalid_state_transition
  | Cat_unsupported_capability
  | Cat_policy_violation
  | Cat_identity_error
  | Cat_consistency_error
  | Cat_sensitive_data_violation
  | Cat_retention_rule_violation
  | Cat_access_decision_violation
  | Cat_external_signal_classification_error
  | Cat_configuration_domain_error

fun domain_error_category_name :: "domain_error_category \<Rightarrow> string" where
    "domain_error_category_name Cat_business_rule_violation = ''business_rule_violation''"
  | "domain_error_category_name Cat_invalid_state_transition = ''invalid_state_transition''"
  | "domain_error_category_name Cat_unsupported_capability = ''unsupported_capability''"
  | "domain_error_category_name Cat_policy_violation = ''policy_violation''"
  | "domain_error_category_name Cat_identity_error = ''identity_error''"
  | "domain_error_category_name Cat_consistency_error = ''consistency_error''"
  | "domain_error_category_name Cat_sensitive_data_violation = ''sensitive_data_violation''"
  | "domain_error_category_name Cat_retention_rule_violation = ''retention_rule_violation''"
  | "domain_error_category_name Cat_access_decision_violation = ''access_decision_violation''"
  | "domain_error_category_name Cat_external_signal_classification_error = ''external_signal_classification_error''"
  | "domain_error_category_name Cat_configuration_domain_error = ''configuration_domain_error''"

definition domainErrorCategories :: "domain_error_category list" where
  "domainErrorCategories =
    [Cat_business_rule_violation, Cat_invalid_state_transition, Cat_unsupported_capability,
     Cat_policy_violation, Cat_identity_error, Cat_consistency_error,
     Cat_sensitive_data_violation, Cat_retention_rule_violation, Cat_access_decision_violation,
     Cat_external_signal_classification_error, Cat_configuration_domain_error]"

definition createDomainErrorCategory :: "string \<Rightarrow> domain_error_category result" where
  "createDomainErrorCategory value = read_union domain_error_category_name domainErrorCategories value ''DomainErrorCategory''"

interpretation domain_error_category: string_union domain_error_category_name domainErrorCategories
proof
  show "distinct (map domain_error_category_name domainErrorCategories)" by (simp add: domainErrorCategories_def)
  show "v \<in> set domainErrorCategories" for v by (cases v) (simp_all add: domainErrorCategories_def)
qed

subsection \<open>errors/domain-owner-context.ts\<close>

datatype domain_owner_context =
    Owner_instance
  | Owner_session
  | Owner_messaging
  | Owner_media
  | Owner_chat
  | Owner_contact
  | Owner_label
  | Owner_group
  | Owner_webhook_delivery
  | Owner_guardrails
  | Owner_provider_integration
  | Owner_operations
  | Owner_security_access
  | Owner_audit
  | Owner_health
  | Owner_configuration
  | Owner_observability

fun domain_owner_context_name :: "domain_owner_context \<Rightarrow> string" where
    "domain_owner_context_name Owner_instance = ''instance''"
  | "domain_owner_context_name Owner_session = ''session''"
  | "domain_owner_context_name Owner_messaging = ''messaging''"
  | "domain_owner_context_name Owner_media = ''media''"
  | "domain_owner_context_name Owner_chat = ''chat''"
  | "domain_owner_context_name Owner_contact = ''contact''"
  | "domain_owner_context_name Owner_label = ''label''"
  | "domain_owner_context_name Owner_group = ''group''"
  | "domain_owner_context_name Owner_webhook_delivery = ''webhook_delivery''"
  | "domain_owner_context_name Owner_guardrails = ''guardrails''"
  | "domain_owner_context_name Owner_provider_integration = ''provider_integration''"
  | "domain_owner_context_name Owner_operations = ''operations''"
  | "domain_owner_context_name Owner_security_access = ''security_access''"
  | "domain_owner_context_name Owner_audit = ''audit''"
  | "domain_owner_context_name Owner_health = ''health''"
  | "domain_owner_context_name Owner_configuration = ''configuration''"
  | "domain_owner_context_name Owner_observability = ''observability''"

definition domainOwnerContexts :: "domain_owner_context list" where
  "domainOwnerContexts =
    [Owner_instance, Owner_session, Owner_messaging, Owner_media, Owner_chat, Owner_contact,
     Owner_label, Owner_group, Owner_webhook_delivery, Owner_guardrails,
     Owner_provider_integration, Owner_operations, Owner_security_access, Owner_audit,
     Owner_health, Owner_configuration, Owner_observability]"

definition createDomainOwnerContext :: "string \<Rightarrow> domain_owner_context result" where
  "createDomainOwnerContext value = read_union domain_owner_context_name domainOwnerContexts value ''DomainOwnerContext''"

interpretation domain_owner_context: string_union domain_owner_context_name domainOwnerContexts
proof
  show "distinct (map domain_owner_context_name domainOwnerContexts)" by (simp add: domainOwnerContexts_def)
  show "v \<in> set domainOwnerContexts" for v by (cases v) (simp_all add: domainOwnerContexts_def)
qed

subsection \<open>errors/failure-category.ts\<close>

datatype failure_category =
    Fail_business
  | Fail_validation
  | Fail_provider
  | Fail_webhook
  | Fail_network
  | Fail_configuration
  | Fail_queue
  | Fail_worker
  | Fail_media
  | Fail_session
  | Fail_security
  | Fail_unexpected

fun failure_category_name :: "failure_category \<Rightarrow> string" where
    "failure_category_name Fail_business = ''business''"
  | "failure_category_name Fail_validation = ''validation''"
  | "failure_category_name Fail_provider = ''provider''"
  | "failure_category_name Fail_webhook = ''webhook''"
  | "failure_category_name Fail_network = ''network''"
  | "failure_category_name Fail_configuration = ''configuration''"
  | "failure_category_name Fail_queue = ''queue''"
  | "failure_category_name Fail_worker = ''worker''"
  | "failure_category_name Fail_media = ''media''"
  | "failure_category_name Fail_session = ''session''"
  | "failure_category_name Fail_security = ''security''"
  | "failure_category_name Fail_unexpected = ''unexpected''"

definition failureCategories :: "failure_category list" where
  "failureCategories =
    [Fail_business, Fail_validation, Fail_provider, Fail_webhook, Fail_network,
     Fail_configuration, Fail_queue, Fail_worker, Fail_media, Fail_session, Fail_security,
     Fail_unexpected]"

definition createFailureCategory :: "string \<Rightarrow> failure_category result" where
  "createFailureCategory value = read_union failure_category_name failureCategories value ''FailureCategory''"

interpretation failure_category: string_union failure_category_name failureCategories
proof
  show "distinct (map failure_category_name failureCategories)" by (simp add: failureCategories_def)
  show "v \<in> set failureCategories" for v by (cases v) (simp_all add: failureCategories_def)
qed

subsection \<open>errors/recoverability.ts\<close>

datatype recoverability =
    Rec_caller_correctable
  | Rec_operator_correctable
  | Rec_time_correctable
  | Rec_terminal
  | Rec_design_blocked

fun recoverability_name :: "recoverability \<Rightarrow> string" where
    "recoverability_name Rec_caller_correctable = ''caller_correctable''"
  | "recoverability_name Rec_operator_correctable = ''operator_correctable''"
  | "recoverability_name Rec_time_correctable = ''time_correctable''"
  | "recoverability_name Rec_terminal = ''terminal''"
  | "recoverability_name Rec_design_blocked = ''design_blocked''"

definition recoverabilityKinds :: "recoverability list" where
  "recoverabilityKinds =
    [Rec_caller_correctable, Rec_operator_correctable, Rec_time_correctable, Rec_terminal,
     Rec_design_blocked]"

definition createRecoverability :: "string \<Rightarrow> recoverability result" where
  "createRecoverability value = read_union recoverability_name recoverabilityKinds value ''Recoverability''"

interpretation recoverability: string_union recoverability_name recoverabilityKinds
proof
  show "distinct (map recoverability_name recoverabilityKinds)" by (simp add: recoverabilityKinds_def)
  show "v \<in> set recoverabilityKinds" for v by (cases v) (simp_all add: recoverabilityKinds_def)
qed

subsection \<open>status/access-decision-status.ts\<close>

datatype access_decision_status =
    Access_requested
  | Access_granted
  | Access_denied
  | Access_expired

fun access_decision_status_name :: "access_decision_status \<Rightarrow> string" where
    "access_decision_status_name Access_requested = ''requested''"
  | "access_decision_status_name Access_granted = ''granted''"
  | "access_decision_status_name Access_denied = ''denied''"
  | "access_decision_status_name Access_expired = ''expired''"

definition accessDecisionStatuses :: "access_decision_status list" where
  "accessDecisionStatuses =
    [Access_requested, Access_granted, Access_denied, Access_expired]"

definition createAccessDecisionStatus :: "string \<Rightarrow> access_decision_status result" where
  "createAccessDecisionStatus value = read_union access_decision_status_name accessDecisionStatuses value ''AccessDecisionStatus''"

interpretation access_decision_status: string_union access_decision_status_name accessDecisionStatuses
proof
  show "distinct (map access_decision_status_name accessDecisionStatuses)" by (simp add: accessDecisionStatuses_def)
  show "v \<in> set accessDecisionStatuses" for v by (cases v) (simp_all add: accessDecisionStatuses_def)
qed

subsection \<open>status/audit-record-status.ts\<close>

datatype audit_record_status =
    Audit_requested
  | Audit_recorded
  | Audit_retained
  | Audit_retention_expired

fun audit_record_status_name :: "audit_record_status \<Rightarrow> string" where
    "audit_record_status_name Audit_requested = ''requested''"
  | "audit_record_status_name Audit_recorded = ''recorded''"
  | "audit_record_status_name Audit_retained = ''retained''"
  | "audit_record_status_name Audit_retention_expired = ''retention_expired''"

definition auditRecordStatuses :: "audit_record_status list" where
  "auditRecordStatuses =
    [Audit_requested, Audit_recorded, Audit_retained, Audit_retention_expired]"

definition createAuditRecordStatus :: "string \<Rightarrow> audit_record_status result" where
  "createAuditRecordStatus value = read_union audit_record_status_name auditRecordStatuses value ''AuditRecordStatus''"

interpretation audit_record_status: string_union audit_record_status_name auditRecordStatuses
proof
  show "distinct (map audit_record_status_name auditRecordStatuses)" by (simp add: auditRecordStatuses_def)
  show "v \<in> set auditRecordStatuses" for v by (cases v) (simp_all add: auditRecordStatuses_def)
qed

subsection \<open>status/chat-status.ts\<close>

datatype chat_status =
    Chat_open
  | Chat_archived
  | Chat_deleted

fun chat_status_name :: "chat_status \<Rightarrow> string" where
    "chat_status_name Chat_open = ''open''"
  | "chat_status_name Chat_archived = ''archived''"
  | "chat_status_name Chat_deleted = ''deleted''"

definition chatStatuses :: "chat_status list" where
  "chatStatuses =
    [Chat_open, Chat_archived, Chat_deleted]"

definition createChatStatus :: "string \<Rightarrow> chat_status result" where
  "createChatStatus value = read_union chat_status_name chatStatuses value ''ChatStatus''"

interpretation chat_status: string_union chat_status_name chatStatuses
proof
  show "distinct (map chat_status_name chatStatuses)" by (simp add: chatStatuses_def)
  show "v \<in> set chatStatuses" for v by (cases v) (simp_all add: chatStatuses_def)
qed

subsection \<open>status/configuration-safety.ts\<close>

datatype configuration_safety =
    Safety_valid
  | Safety_invalid
  | Safety_unsafe
  | Safety_guardrail_bypass_rejected

fun configuration_safety_name :: "configuration_safety \<Rightarrow> string" where
    "configuration_safety_name Safety_valid = ''valid''"
  | "configuration_safety_name Safety_invalid = ''invalid''"
  | "configuration_safety_name Safety_unsafe = ''unsafe''"
  | "configuration_safety_name Safety_guardrail_bypass_rejected = ''guardrail_bypass_rejected''"

definition configurationSafetyValues :: "configuration_safety list" where
  "configurationSafetyValues =
    [Safety_valid, Safety_invalid, Safety_unsafe, Safety_guardrail_bypass_rejected]"

definition createConfigurationSafety :: "string \<Rightarrow> configuration_safety result" where
  "createConfigurationSafety value = read_union configuration_safety_name configurationSafetyValues value ''ConfigurationSafety''"

interpretation configuration_safety: string_union configuration_safety_name configurationSafetyValues
proof
  show "distinct (map configuration_safety_name configurationSafetyValues)" by (simp add: configurationSafetyValues_def)
  show "v \<in> set configurationSafetyValues" for v by (cases v) (simp_all add: configurationSafetyValues_def)
qed

subsection \<open>status/configuration-snapshot-status.ts\<close>

datatype configuration_snapshot_status =
    Config_proposed
  | Config_validated
  | Config_rejected
  | Config_active
  | Config_superseded
  | Config_retired

fun configuration_snapshot_status_name :: "configuration_snapshot_status \<Rightarrow> string" where
    "configuration_snapshot_status_name Config_proposed = ''proposed''"
  | "configuration_snapshot_status_name Config_validated = ''validated''"
  | "configuration_snapshot_status_name Config_rejected = ''rejected''"
  | "configuration_snapshot_status_name Config_active = ''active''"
  | "configuration_snapshot_status_name Config_superseded = ''superseded''"
  | "configuration_snapshot_status_name Config_retired = ''retired''"

definition configurationSnapshotStatuses :: "configuration_snapshot_status list" where
  "configurationSnapshotStatuses =
    [Config_proposed, Config_validated, Config_rejected, Config_active, Config_superseded,
     Config_retired]"

definition createConfigurationSnapshotStatus :: "string \<Rightarrow> configuration_snapshot_status result" where
  "createConfigurationSnapshotStatus value = read_union configuration_snapshot_status_name configurationSnapshotStatuses value ''ConfigurationSnapshotStatus''"

interpretation configuration_snapshot_status: string_union configuration_snapshot_status_name configurationSnapshotStatuses
proof
  show "distinct (map configuration_snapshot_status_name configurationSnapshotStatuses)" by (simp add: configurationSnapshotStatuses_def)
  show "v \<in> set configurationSnapshotStatuses" for v by (cases v) (simp_all add: configurationSnapshotStatuses_def)
qed

subsection \<open>status/contact-status.ts\<close>

datatype contact_status =
    Contact_discovered
  | Contact_active
  | Contact_blocked
  | Contact_deleted

fun contact_status_name :: "contact_status \<Rightarrow> string" where
    "contact_status_name Contact_discovered = ''discovered''"
  | "contact_status_name Contact_active = ''active''"
  | "contact_status_name Contact_blocked = ''blocked''"
  | "contact_status_name Contact_deleted = ''deleted''"

definition contactStatuses :: "contact_status list" where
  "contactStatuses =
    [Contact_discovered, Contact_active, Contact_blocked, Contact_deleted]"

definition createContactStatus :: "string \<Rightarrow> contact_status result" where
  "createContactStatus value = read_union contact_status_name contactStatuses value ''ContactStatus''"

interpretation contact_status: string_union contact_status_name contactStatuses
proof
  show "distinct (map contact_status_name contactStatuses)" by (simp add: contactStatuses_def)
  show "v \<in> set contactStatuses" for v by (cases v) (simp_all add: contactStatuses_def)
qed

subsection \<open>status/group-status.ts\<close>

datatype group_status =
    Group_discovered
  | Group_active
  | Group_left
  | Group_deleted

fun group_status_name :: "group_status \<Rightarrow> string" where
    "group_status_name Group_discovered = ''discovered''"
  | "group_status_name Group_active = ''active''"
  | "group_status_name Group_left = ''left''"
  | "group_status_name Group_deleted = ''deleted''"

definition groupStatuses :: "group_status list" where
  "groupStatuses =
    [Group_discovered, Group_active, Group_left, Group_deleted]"

definition createGroupStatus :: "string \<Rightarrow> group_status result" where
  "createGroupStatus value = read_union group_status_name groupStatuses value ''GroupStatus''"

interpretation group_status: string_union group_status_name groupStatuses
proof
  show "distinct (map group_status_name groupStatuses)" by (simp add: groupStatuses_def)
  show "v \<in> set groupStatuses" for v by (cases v) (simp_all add: groupStatuses_def)
qed

subsection \<open>status/guardrail-decision-status.ts\<close>

datatype guardrail_decision_status =
    Guard_requested
  | Guard_evaluated
  | Guard_passed
  | Guard_blocked
  | Guard_throttled
  | Guard_action_required
  | Guard_expired

fun guardrail_decision_status_name :: "guardrail_decision_status \<Rightarrow> string" where
    "guardrail_decision_status_name Guard_requested = ''requested''"
  | "guardrail_decision_status_name Guard_evaluated = ''evaluated''"
  | "guardrail_decision_status_name Guard_passed = ''passed''"
  | "guardrail_decision_status_name Guard_blocked = ''blocked''"
  | "guardrail_decision_status_name Guard_throttled = ''throttled''"
  | "guardrail_decision_status_name Guard_action_required = ''action_required''"
  | "guardrail_decision_status_name Guard_expired = ''expired''"

definition guardrailDecisionStatuses :: "guardrail_decision_status list" where
  "guardrailDecisionStatuses =
    [Guard_requested, Guard_evaluated, Guard_passed, Guard_blocked, Guard_throttled,
     Guard_action_required, Guard_expired]"

definition createGuardrailDecisionStatus :: "string \<Rightarrow> guardrail_decision_status result" where
  "createGuardrailDecisionStatus value = read_union guardrail_decision_status_name guardrailDecisionStatuses value ''GuardrailDecisionStatus''"

interpretation guardrail_decision_status: string_union guardrail_decision_status_name guardrailDecisionStatuses
proof
  show "distinct (map guardrail_decision_status_name guardrailDecisionStatuses)" by (simp add: guardrailDecisionStatuses_def)
  show "v \<in> set guardrailDecisionStatuses" for v by (cases v) (simp_all add: guardrailDecisionStatuses_def)
qed

subsection \<open>status/health-category.ts\<close>

datatype health_category =
    Health_healthy
  | Health_degraded
  | Health_unavailable
  | Health_action_required
  | Health_recovered
  | Health_unknown

fun health_category_name :: "health_category \<Rightarrow> string" where
    "health_category_name Health_healthy = ''healthy''"
  | "health_category_name Health_degraded = ''degraded''"
  | "health_category_name Health_unavailable = ''unavailable''"
  | "health_category_name Health_action_required = ''action_required''"
  | "health_category_name Health_recovered = ''recovered''"
  | "health_category_name Health_unknown = ''unknown''"

definition healthCategories :: "health_category list" where
  "healthCategories =
    [Health_healthy, Health_degraded, Health_unavailable, Health_action_required,
     Health_recovered, Health_unknown]"

definition createHealthCategory :: "string \<Rightarrow> health_category result" where
  "createHealthCategory value = read_union health_category_name healthCategories value ''HealthCategory''"

interpretation health_category: string_union health_category_name healthCategories
proof
  show "distinct (map health_category_name healthCategories)" by (simp add: healthCategories_def)
  show "v \<in> set healthCategories" for v by (cases v) (simp_all add: healthCategories_def)
qed

subsection \<open>status/instance-status.ts\<close>

datatype instance_status =
    Inst_created
  | Inst_connecting
  | Inst_qr_pending
  | Inst_connected
  | Inst_disconnected
  | Inst_logged_out
  | Inst_action_required
  | Inst_destroyed

fun instance_status_name :: "instance_status \<Rightarrow> string" where
    "instance_status_name Inst_created = ''created''"
  | "instance_status_name Inst_connecting = ''connecting''"
  | "instance_status_name Inst_qr_pending = ''qr_pending''"
  | "instance_status_name Inst_connected = ''connected''"
  | "instance_status_name Inst_disconnected = ''disconnected''"
  | "instance_status_name Inst_logged_out = ''logged_out''"
  | "instance_status_name Inst_action_required = ''action_required''"
  | "instance_status_name Inst_destroyed = ''destroyed''"

definition instanceStatuses :: "instance_status list" where
  "instanceStatuses =
    [Inst_created, Inst_connecting, Inst_qr_pending, Inst_connected, Inst_disconnected,
     Inst_logged_out, Inst_action_required, Inst_destroyed]"

definition createInstanceStatus :: "string \<Rightarrow> instance_status result" where
  "createInstanceStatus value = read_union instance_status_name instanceStatuses value ''InstanceStatus''"

interpretation instance_status: string_union instance_status_name instanceStatuses
proof
  show "distinct (map instance_status_name instanceStatuses)" by (simp add: instanceStatuses_def)
  show "v \<in> set instanceStatuses" for v by (cases v) (simp_all add: instanceStatuses_def)
qed

subsection \<open>status/job-status.ts\<close>

datatype job_status =
    Job_queued
  | Job_reserved
  | Job_running
  | Job_completed
  | Job_retrying
  | Job_dead

fun job_status_name :: "job_status \<Rightarrow> string" where
    "job_status_name Job_queued = ''queued''"
  | "job_status_name Job_reserved = ''reserved''"
  | "job_status_name Job_running = ''running''"
  | "job_status_name Job_completed = ''completed''"
  | "job_status_name Job_retrying = ''retrying''"
  | "job_status_name Job_dead = ''dead''"

definition jobStatuses :: "job_status list" where
  "jobStatuses =
    [Job_queued, Job_reserved, Job_running, Job_completed, Job_retrying, Job_dead]"

definition createJobStatus :: "string \<Rightarrow> job_status result" where
  "createJobStatus value = read_union job_status_name jobStatuses value ''JobStatus''"

interpretation job_status: string_union job_status_name jobStatuses
proof
  show "distinct (map job_status_name jobStatuses)" by (simp add: jobStatuses_def)
  show "v \<in> set jobStatuses" for v by (cases v) (simp_all add: jobStatuses_def)
qed

subsection \<open>status/label-status.ts\<close>

datatype label_status =
    Label_active
  | Label_archived
  | Label_deleted

fun label_status_name :: "label_status \<Rightarrow> string" where
    "label_status_name Label_active = ''active''"
  | "label_status_name Label_archived = ''archived''"
  | "label_status_name Label_deleted = ''deleted''"

definition labelStatuses :: "label_status list" where
  "labelStatuses =
    [Label_active, Label_archived, Label_deleted]"

definition createLabelStatus :: "string \<Rightarrow> label_status result" where
  "createLabelStatus value = read_union label_status_name labelStatuses value ''LabelStatus''"

interpretation label_status: string_union label_status_name labelStatuses
proof
  show "distinct (map label_status_name labelStatuses)" by (simp add: labelStatuses_def)
  show "v \<in> set labelStatuses" for v by (cases v) (simp_all add: labelStatuses_def)
qed

subsection \<open>status/media-asset-status.ts\<close>

datatype media_asset_status =
    Asset_received
  | Asset_accepted
  | Asset_processing
  | Asset_processed
  | Asset_attached
  | Asset_failed
  | Asset_cleaned

fun media_asset_status_name :: "media_asset_status \<Rightarrow> string" where
    "media_asset_status_name Asset_received = ''received''"
  | "media_asset_status_name Asset_accepted = ''accepted''"
  | "media_asset_status_name Asset_processing = ''processing''"
  | "media_asset_status_name Asset_processed = ''processed''"
  | "media_asset_status_name Asset_attached = ''attached''"
  | "media_asset_status_name Asset_failed = ''failed''"
  | "media_asset_status_name Asset_cleaned = ''cleaned''"

definition mediaAssetStatuses :: "media_asset_status list" where
  "mediaAssetStatuses =
    [Asset_received, Asset_accepted, Asset_processing, Asset_processed, Asset_attached,
     Asset_failed, Asset_cleaned]"

definition createMediaAssetStatus :: "string \<Rightarrow> media_asset_status result" where
  "createMediaAssetStatus value = read_union media_asset_status_name mediaAssetStatuses value ''MediaAssetStatus''"

interpretation media_asset_status: string_union media_asset_status_name mediaAssetStatuses
proof
  show "distinct (map media_asset_status_name mediaAssetStatuses)" by (simp add: mediaAssetStatuses_def)
  show "v \<in> set mediaAssetStatuses" for v by (cases v) (simp_all add: mediaAssetStatuses_def)
qed

subsection \<open>status/message-status.ts\<close>

datatype message_status =
    Msg_created
  | Msg_evaluated
  | Msg_queued
  | Msg_processing
  | Msg_sent
  | Msg_delivered
  | Msg_read
  | Msg_failed
  | Msg_cancelled

fun message_status_name :: "message_status \<Rightarrow> string" where
    "message_status_name Msg_created = ''created''"
  | "message_status_name Msg_evaluated = ''evaluated''"
  | "message_status_name Msg_queued = ''queued''"
  | "message_status_name Msg_processing = ''processing''"
  | "message_status_name Msg_sent = ''sent''"
  | "message_status_name Msg_delivered = ''delivered''"
  | "message_status_name Msg_read = ''read''"
  | "message_status_name Msg_failed = ''failed''"
  | "message_status_name Msg_cancelled = ''cancelled''"

definition messageStatuses :: "message_status list" where
  "messageStatuses =
    [Msg_created, Msg_evaluated, Msg_queued, Msg_processing, Msg_sent, Msg_delivered, Msg_read,
     Msg_failed, Msg_cancelled]"

definition createMessageStatus :: "string \<Rightarrow> message_status result" where
  "createMessageStatus value = read_union message_status_name messageStatuses value ''MessageStatus''"

interpretation message_status: string_union message_status_name messageStatuses
proof
  show "distinct (map message_status_name messageStatuses)" by (simp add: messageStatuses_def)
  show "v \<in> set messageStatuses" for v by (cases v) (simp_all add: messageStatuses_def)
qed

subsection \<open>status/provider-profile-status.ts\<close>

datatype provider_profile_status =
    Prov_candidate
  | Prov_supported
  | Prov_degraded
  | Prov_unsupported
  | Prov_retired

fun provider_profile_status_name :: "provider_profile_status \<Rightarrow> string" where
    "provider_profile_status_name Prov_candidate = ''candidate''"
  | "provider_profile_status_name Prov_supported = ''supported''"
  | "provider_profile_status_name Prov_degraded = ''degraded''"
  | "provider_profile_status_name Prov_unsupported = ''unsupported''"
  | "provider_profile_status_name Prov_retired = ''retired''"

definition providerProfileStatuses :: "provider_profile_status list" where
  "providerProfileStatuses =
    [Prov_candidate, Prov_supported, Prov_degraded, Prov_unsupported, Prov_retired]"

definition createProviderProfileStatus :: "string \<Rightarrow> provider_profile_status result" where
  "createProviderProfileStatus value = read_union provider_profile_status_name providerProfileStatuses value ''ProviderProfileStatus''"

interpretation provider_profile_status: string_union provider_profile_status_name providerProfileStatuses
proof
  show "distinct (map provider_profile_status_name providerProfileStatuses)" by (simp add: providerProfileStatuses_def)
  show "v \<in> set providerProfileStatuses" for v by (cases v) (simp_all add: providerProfileStatuses_def)
qed

subsection \<open>status/session-status.ts\<close>

datatype session_status =
    Sess_empty
  | Sess_pending
  | Sess_active
  | Sess_expired
  | Sess_revoked
  | Sess_cleanup

fun session_status_name :: "session_status \<Rightarrow> string" where
    "session_status_name Sess_empty = ''empty''"
  | "session_status_name Sess_pending = ''pending''"
  | "session_status_name Sess_active = ''active''"
  | "session_status_name Sess_expired = ''expired''"
  | "session_status_name Sess_revoked = ''revoked''"
  | "session_status_name Sess_cleanup = ''cleanup''"

definition sessionStatuses :: "session_status list" where
  "sessionStatuses =
    [Sess_empty, Sess_pending, Sess_active, Sess_expired, Sess_revoked, Sess_cleanup]"

definition createSessionStatus :: "string \<Rightarrow> session_status result" where
  "createSessionStatus value = read_union session_status_name sessionStatuses value ''SessionStatus''"

interpretation session_status: string_union session_status_name sessionStatuses
proof
  show "distinct (map session_status_name sessionStatuses)" by (simp add: sessionStatuses_def)
  show "v \<in> set sessionStatuses" for v by (cases v) (simp_all add: sessionStatuses_def)
qed

subsection \<open>status/telemetry-signal-status.ts\<close>

datatype telemetry_signal_status =
    Tele_captured
  | Tele_sanitized
  | Tele_projected
  | Tele_dropped

fun telemetry_signal_status_name :: "telemetry_signal_status \<Rightarrow> string" where
    "telemetry_signal_status_name Tele_captured = ''captured''"
  | "telemetry_signal_status_name Tele_sanitized = ''sanitized''"
  | "telemetry_signal_status_name Tele_projected = ''projected''"
  | "telemetry_signal_status_name Tele_dropped = ''dropped''"

definition telemetrySignalStatuses :: "telemetry_signal_status list" where
  "telemetrySignalStatuses =
    [Tele_captured, Tele_sanitized, Tele_projected, Tele_dropped]"

definition createTelemetrySignalStatus :: "string \<Rightarrow> telemetry_signal_status result" where
  "createTelemetrySignalStatus value = read_union telemetry_signal_status_name telemetrySignalStatuses value ''TelemetrySignalStatus''"

interpretation telemetry_signal_status: string_union telemetry_signal_status_name telemetrySignalStatuses
proof
  show "distinct (map telemetry_signal_status_name telemetrySignalStatuses)" by (simp add: telemetrySignalStatuses_def)
  show "v \<in> set telemetrySignalStatuses" for v by (cases v) (simp_all add: telemetrySignalStatuses_def)
qed

subsection \<open>status/webhook-delivery-status.ts\<close>

datatype webhook_delivery_status =
    Deliv_pending
  | Deliv_delivering
  | Deliv_delivered
  | Deliv_retrying
  | Deliv_failed
  | Deliv_dead_letter
  | Deliv_cancelled

fun webhook_delivery_status_name :: "webhook_delivery_status \<Rightarrow> string" where
    "webhook_delivery_status_name Deliv_pending = ''pending''"
  | "webhook_delivery_status_name Deliv_delivering = ''delivering''"
  | "webhook_delivery_status_name Deliv_delivered = ''delivered''"
  | "webhook_delivery_status_name Deliv_retrying = ''retrying''"
  | "webhook_delivery_status_name Deliv_failed = ''failed''"
  | "webhook_delivery_status_name Deliv_dead_letter = ''dead_letter''"
  | "webhook_delivery_status_name Deliv_cancelled = ''cancelled''"

definition webhookDeliveryStatuses :: "webhook_delivery_status list" where
  "webhookDeliveryStatuses =
    [Deliv_pending, Deliv_delivering, Deliv_delivered, Deliv_retrying, Deliv_failed,
     Deliv_dead_letter, Deliv_cancelled]"

definition createWebhookDeliveryStatus :: "string \<Rightarrow> webhook_delivery_status result" where
  "createWebhookDeliveryStatus value = read_union webhook_delivery_status_name webhookDeliveryStatuses value ''WebhookDeliveryStatus''"

interpretation webhook_delivery_status: string_union webhook_delivery_status_name webhookDeliveryStatuses
proof
  show "distinct (map webhook_delivery_status_name webhookDeliveryStatuses)" by (simp add: webhookDeliveryStatuses_def)
  show "v \<in> set webhookDeliveryStatuses" for v by (cases v) (simp_all add: webhookDeliveryStatuses_def)
qed

subsection \<open>status/webhook-subscription-status.ts\<close>

datatype webhook_subscription_status =
    Subs_proposed
  | Subs_validated
  | Subs_active
  | Subs_suspended
  | Subs_invalid
  | Subs_retired

fun webhook_subscription_status_name :: "webhook_subscription_status \<Rightarrow> string" where
    "webhook_subscription_status_name Subs_proposed = ''proposed''"
  | "webhook_subscription_status_name Subs_validated = ''validated''"
  | "webhook_subscription_status_name Subs_active = ''active''"
  | "webhook_subscription_status_name Subs_suspended = ''suspended''"
  | "webhook_subscription_status_name Subs_invalid = ''invalid''"
  | "webhook_subscription_status_name Subs_retired = ''retired''"

definition webhookSubscriptionStatuses :: "webhook_subscription_status list" where
  "webhookSubscriptionStatuses =
    [Subs_proposed, Subs_validated, Subs_active, Subs_suspended, Subs_invalid, Subs_retired]"

definition createWebhookSubscriptionStatus :: "string \<Rightarrow> webhook_subscription_status result" where
  "createWebhookSubscriptionStatus value = read_union webhook_subscription_status_name webhookSubscriptionStatuses value ''WebhookSubscriptionStatus''"

interpretation webhook_subscription_status: string_union webhook_subscription_status_name webhookSubscriptionStatuses
proof
  show "distinct (map webhook_subscription_status_name webhookSubscriptionStatuses)" by (simp add: webhookSubscriptionStatuses_def)
  show "v \<in> set webhookSubscriptionStatuses" for v by (cases v) (simp_all add: webhookSubscriptionStatuses_def)
qed

subsection \<open>policies/access-outcome.ts\<close>

datatype access_outcome =
    Outcome_granted
  | Outcome_denied

fun access_outcome_name :: "access_outcome \<Rightarrow> string" where
    "access_outcome_name Outcome_granted = ''granted''"
  | "access_outcome_name Outcome_denied = ''denied''"

definition accessOutcomes :: "access_outcome list" where
  "accessOutcomes =
    [Outcome_granted, Outcome_denied]"

definition createAccessOutcome :: "string \<Rightarrow> access_outcome result" where
  "createAccessOutcome value = read_union access_outcome_name accessOutcomes value ''AccessOutcome''"

interpretation access_outcome: string_union access_outcome_name accessOutcomes
proof
  show "distinct (map access_outcome_name accessOutcomes)" by (simp add: accessOutcomes_def)
  show "v \<in> set accessOutcomes" for v by (cases v) (simp_all add: accessOutcomes_def)
qed

subsection \<open>policies/guardrail-outcome.ts\<close>

datatype guardrail_outcome =
    Guardrail_allow
  | Guardrail_block
  | Guardrail_throttle
  | Guardrail_action_required

fun guardrail_outcome_name :: "guardrail_outcome \<Rightarrow> string" where
    "guardrail_outcome_name Guardrail_allow = ''allow''"
  | "guardrail_outcome_name Guardrail_block = ''block''"
  | "guardrail_outcome_name Guardrail_throttle = ''throttle''"
  | "guardrail_outcome_name Guardrail_action_required = ''action_required''"

definition guardrailOutcomes :: "guardrail_outcome list" where
  "guardrailOutcomes =
    [Guardrail_allow, Guardrail_block, Guardrail_throttle, Guardrail_action_required]"

definition createGuardrailOutcome :: "string \<Rightarrow> guardrail_outcome result" where
  "createGuardrailOutcome value = read_union guardrail_outcome_name guardrailOutcomes value ''GuardrailOutcome''"

interpretation guardrail_outcome: string_union guardrail_outcome_name guardrailOutcomes
proof
  show "distinct (map guardrail_outcome_name guardrailOutcomes)" by (simp add: guardrailOutcomes_def)
  show "v \<in> set guardrailOutcomes" for v by (cases v) (simp_all add: guardrailOutcomes_def)
qed

subsection \<open>policies/retention-policy.ts\<close>

datatype retention_category =
    Retain_message_metadata
  | Retain_webhook_delivery
  | Retain_audit_record
  | Retain_media_metadata
  | Retain_diagnostic_capture
  | Retain_session_state
  | Retain_projection

fun retention_category_name :: "retention_category \<Rightarrow> string" where
    "retention_category_name Retain_message_metadata = ''message_metadata''"
  | "retention_category_name Retain_webhook_delivery = ''webhook_delivery''"
  | "retention_category_name Retain_audit_record = ''audit_record''"
  | "retention_category_name Retain_media_metadata = ''media_metadata''"
  | "retention_category_name Retain_diagnostic_capture = ''diagnostic_capture''"
  | "retention_category_name Retain_session_state = ''session_state''"
  | "retention_category_name Retain_projection = ''projection''"

definition retentionCategories :: "retention_category list" where
  "retentionCategories =
    [Retain_message_metadata, Retain_webhook_delivery, Retain_audit_record,
     Retain_media_metadata, Retain_diagnostic_capture, Retain_session_state, Retain_projection]"

interpretation retention_category: string_union retention_category_name retentionCategories
proof
  show "distinct (map retention_category_name retentionCategories)" by (simp add: retentionCategories_def)
  show "v \<in> set retentionCategories" for v by (cases v) (simp_all add: retentionCategories_def)
qed

subsection \<open>group/group-member-role.ts\<close>

datatype group_member_role =
    Role_member
  | Role_admin
  | Role_owner

fun group_member_role_name :: "group_member_role \<Rightarrow> string" where
    "group_member_role_name Role_member = ''member''"
  | "group_member_role_name Role_admin = ''admin''"
  | "group_member_role_name Role_owner = ''owner''"

definition groupMemberRoles :: "group_member_role list" where
  "groupMemberRoles =
    [Role_member, Role_admin, Role_owner]"

definition createGroupMemberRole :: "string \<Rightarrow> group_member_role result" where
  "createGroupMemberRole value = read_union group_member_role_name groupMemberRoles value ''GroupMemberRole''"

interpretation group_member_role: string_union group_member_role_name groupMemberRoles
proof
  show "distinct (map group_member_role_name groupMemberRoles)" by (simp add: groupMemberRoles_def)
  show "v \<in> set groupMemberRoles" for v by (cases v) (simp_all add: groupMemberRoles_def)
qed

subsection \<open>group/group-provider-capability.ts\<close>

datatype group_provider_capability =
    Cap_group_list
  | Cap_group_detail
  | Cap_group_message_send
  | Cap_group_member_admin
  | Cap_group_invite_link
  | Cap_group_metadata_update
  | Cap_group_local_state

fun group_provider_capability_name :: "group_provider_capability \<Rightarrow> string" where
    "group_provider_capability_name Cap_group_list = ''group_list''"
  | "group_provider_capability_name Cap_group_detail = ''group_detail''"
  | "group_provider_capability_name Cap_group_message_send = ''group_message_send''"
  | "group_provider_capability_name Cap_group_member_admin = ''group_member_admin''"
  | "group_provider_capability_name Cap_group_invite_link = ''group_invite_link''"
  | "group_provider_capability_name Cap_group_metadata_update = ''group_metadata_update''"
  | "group_provider_capability_name Cap_group_local_state = ''group_local_state''"

definition groupProviderCapabilities :: "group_provider_capability list" where
  "groupProviderCapabilities =
    [Cap_group_list, Cap_group_detail, Cap_group_message_send, Cap_group_member_admin,
     Cap_group_invite_link, Cap_group_metadata_update, Cap_group_local_state]"

definition createGroupProviderCapability :: "string \<Rightarrow> group_provider_capability result" where
  "createGroupProviderCapability value = read_union group_provider_capability_name groupProviderCapabilities value ''GroupProviderCapability''"

interpretation group_provider_capability: string_union group_provider_capability_name groupProviderCapabilities
proof
  show "distinct (map group_provider_capability_name groupProviderCapabilities)" by (simp add: groupProviderCapabilities_def)
  show "v \<in> set groupProviderCapabilities" for v by (cases v) (simp_all add: groupProviderCapabilities_def)
qed

subsection \<open>messaging/message-direction.ts\<close>

datatype message_direction =
    Dir_inbound
  | Dir_outbound

fun message_direction_name :: "message_direction \<Rightarrow> string" where
    "message_direction_name Dir_inbound = ''inbound''"
  | "message_direction_name Dir_outbound = ''outbound''"

definition messageDirections :: "message_direction list" where
  "messageDirections =
    [Dir_inbound, Dir_outbound]"

definition createMessageDirection :: "string \<Rightarrow> message_direction result" where
  "createMessageDirection value =
    read_included message_direction_name messageDirections value
      ''MessageDirection must be inbound or outbound.''"

interpretation message_direction: string_union message_direction_name messageDirections
proof
  show "distinct (map message_direction_name messageDirections)" by (simp add: messageDirections_def)
  show "v \<in> set messageDirections" for v by (cases v) (simp_all add: messageDirections_def)
qed

subsection \<open>messaging/message-type.ts\<close>

datatype message_type =
    Type_text
  | Type_image
  | Type_video
  | Type_document
  | Type_audio

fun message_type_name :: "message_type \<Rightarrow> string" where
    "message_type_name Type_text = ''text''"
  | "message_type_name Type_image = ''image''"
  | "message_type_name Type_video = ''video''"
  | "message_type_name Type_document = ''document''"
  | "message_type_name Type_audio = ''audio''"

definition supportedMessageTypes :: "message_type list" where
  "supportedMessageTypes =
    [Type_text, Type_image, Type_video, Type_document, Type_audio]"

definition createMessageType :: "string \<Rightarrow> message_type result" where
  "createMessageType value =
    read_included message_type_name supportedMessageTypes value
      ''MessageType must be one of text, image, video, document, or audio.''"

interpretation message_type: string_union message_type_name supportedMessageTypes
proof
  show "distinct (map message_type_name supportedMessageTypes)" by (simp add: supportedMessageTypes_def)
  show "v \<in> set supportedMessageTypes" for v by (cases v) (simp_all add: supportedMessageTypes_def)
qed

subsection \<open>media/media-category.ts\<close>

datatype media_category =
    Media_image
  | Media_video
  | Media_document
  | Media_audio

fun media_category_name :: "media_category \<Rightarrow> string" where
    "media_category_name Media_image = ''image''"
  | "media_category_name Media_video = ''video''"
  | "media_category_name Media_document = ''document''"
  | "media_category_name Media_audio = ''audio''"

definition mediaCategories :: "media_category list" where
  "mediaCategories =
    [Media_image, Media_video, Media_document, Media_audio]"

definition createMediaCategory :: "string \<Rightarrow> media_category result" where
  "createMediaCategory value =
    read_included media_category_name mediaCategories value
      ''MediaCategory must be image, video, document, or audio.''"

interpretation media_category: string_union media_category_name mediaCategories
proof
  show "distinct (map media_category_name mediaCategories)" by (simp add: mediaCategories_def)
  show "v \<in> set mediaCategories" for v by (cases v) (simp_all add: mediaCategories_def)
qed

subsection \<open>events/domain-event.ts\<close>

datatype domain_aggregate_type =
    Agg_Instance
  | Agg_Session
  | Agg_Message
  | Agg_MediaAsset
  | Agg_Chat
  | Agg_Contact
  | Agg_Label
  | Agg_Group
  | Agg_WebhookSubscription
  | Agg_WebhookDelivery
  | Agg_GuardrailDecision
  | Agg_ProviderProfile
  | Agg_WorkerJob
  | Agg_AccessDecision
  | Agg_AuditRecord
  | Agg_HealthStatus
  | Agg_ConfigurationSnapshot
  | Agg_TelemetrySignal

fun domain_aggregate_type_name :: "domain_aggregate_type \<Rightarrow> string" where
    "domain_aggregate_type_name Agg_Instance = ''Instance''"
  | "domain_aggregate_type_name Agg_Session = ''Session''"
  | "domain_aggregate_type_name Agg_Message = ''Message''"
  | "domain_aggregate_type_name Agg_MediaAsset = ''MediaAsset''"
  | "domain_aggregate_type_name Agg_Chat = ''Chat''"
  | "domain_aggregate_type_name Agg_Contact = ''Contact''"
  | "domain_aggregate_type_name Agg_Label = ''Label''"
  | "domain_aggregate_type_name Agg_Group = ''Group''"
  | "domain_aggregate_type_name Agg_WebhookSubscription = ''WebhookSubscription''"
  | "domain_aggregate_type_name Agg_WebhookDelivery = ''WebhookDelivery''"
  | "domain_aggregate_type_name Agg_GuardrailDecision = ''GuardrailDecision''"
  | "domain_aggregate_type_name Agg_ProviderProfile = ''ProviderProfile''"
  | "domain_aggregate_type_name Agg_WorkerJob = ''WorkerJob''"
  | "domain_aggregate_type_name Agg_AccessDecision = ''AccessDecision''"
  | "domain_aggregate_type_name Agg_AuditRecord = ''AuditRecord''"
  | "domain_aggregate_type_name Agg_HealthStatus = ''HealthStatus''"
  | "domain_aggregate_type_name Agg_ConfigurationSnapshot = ''ConfigurationSnapshot''"
  | "domain_aggregate_type_name Agg_TelemetrySignal = ''TelemetrySignal''"

definition domainAggregateTypes :: "domain_aggregate_type list" where
  "domainAggregateTypes =
    [Agg_Instance, Agg_Session, Agg_Message, Agg_MediaAsset, Agg_Chat, Agg_Contact, Agg_Label,
     Agg_Group, Agg_WebhookSubscription, Agg_WebhookDelivery, Agg_GuardrailDecision,
     Agg_ProviderProfile, Agg_WorkerJob, Agg_AccessDecision, Agg_AuditRecord, Agg_HealthStatus,
     Agg_ConfigurationSnapshot, Agg_TelemetrySignal]"

interpretation domain_aggregate_type: string_union domain_aggregate_type_name domainAggregateTypes
proof
  show "distinct (map domain_aggregate_type_name domainAggregateTypes)" by (simp add: domainAggregateTypes_def)
  show "v \<in> set domainAggregateTypes" for v by (cases v) (simp_all add: domainAggregateTypes_def)
qed

subsection \<open>specifications/domain-specifications.ts\<close>

datatype data_classification =
    Data_public
  | Data_internal
  | Data_confidential
  | Data_secret

fun data_classification_name :: "data_classification \<Rightarrow> string" where
    "data_classification_name Data_public = ''public''"
  | "data_classification_name Data_internal = ''internal''"
  | "data_classification_name Data_confidential = ''confidential''"
  | "data_classification_name Data_secret = ''secret''"

definition dataClassifications :: "data_classification list" where
  "dataClassifications =
    [Data_public, Data_internal, Data_confidential, Data_secret]"

interpretation data_classification: string_union data_classification_name dataClassifications
proof
  show "distinct (map data_classification_name dataClassifications)" by (simp add: dataClassifications_def)
  show "v \<in> set dataClassifications" for v by (cases v) (simp_all add: dataClassifications_def)
qed

subsection \<open>policies/domain-policies.ts\<close>

datatype policy_outcome =
    Policy_allow
  | Policy_reject
  | Policy_block
  | Policy_throttle
  | Policy_action_required
  | Policy_retry
  | Policy_dead_letter
  | Policy_recover

fun policy_outcome_name :: "policy_outcome \<Rightarrow> string" where
    "policy_outcome_name Policy_allow = ''allow''"
  | "policy_outcome_name Policy_reject = ''reject''"
  | "policy_outcome_name Policy_block = ''block''"
  | "policy_outcome_name Policy_throttle = ''throttle''"
  | "policy_outcome_name Policy_action_required = ''action_required''"
  | "policy_outcome_name Policy_retry = ''retry''"
  | "policy_outcome_name Policy_dead_letter = ''dead_letter''"
  | "policy_outcome_name Policy_recover = ''recover''"

definition policyOutcomes :: "policy_outcome list" where
  "policyOutcomes =
    [Policy_allow, Policy_reject, Policy_block, Policy_throttle, Policy_action_required,
     Policy_retry, Policy_dead_letter, Policy_recover]"

interpretation policy_outcome: string_union policy_outcome_name policyOutcomes
proof
  show "distinct (map policy_outcome_name policyOutcomes)" by (simp add: policyOutcomes_def)
  show "v \<in> set policyOutcomes" for v by (cases v) (simp_all add: policyOutcomes_def)
qed

end
