(* ===== verification/DomainEvents.thy ===== *)
theory DomainEvents
  imports Vocabulary
begin

text \<open>
  \<open>packages/domain/src/events/domain-event.ts\<close>: the event names, in the source's order and
  grouped by the aggregate that raises them (one datatype per group keeps case analysis
  small), the event record, and \<open>appendDomainEvent\<close>, the only way an aggregate's event list
  grows.
\<close>

section \<open>Event names\<close>

datatype instance_event =
    InstanceCreated
  | InstanceQrRequired
  | InstanceConnected
  | InstanceDisconnected
  | InstanceLoggedOut
  | InstanceActionRequired
  | InstanceDestroyed

datatype session_event =
    SessionPairingStarted
  | SessionPending
  | SessionActivated
  | SessionExpired
  | SessionRevoked
  | SessionRecoveryRequired
  | SessionCleaned

datatype message_event =
    InboundMessageReceived
  | UnsupportedMessageReceived
  | MessageAccepted
  | MessageRejected
  | MessageQueued
  | MessageProcessingStarted
  | MessageDispatched
  | MessageDelivered
  | MessageRead
  | MessageFailed
  | MessageCancelled

datatype media_event =
    MediaAccepted
  | MediaProcessingStarted
  | MediaProcessed
  | MediaAttached
  | MediaFailed
  | MediaExpired
  | MediaCleaned
  | DiagnosticCaptureRequested

datatype group_event =
    GroupDiscovered
  | GroupStatusUpdated
  | GroupMetadataUpdated
  | GroupMemberAdded
  | GroupMemberRemoved
  | GroupMemberRoleChanged
  | GroupInviteLinkUpdated
  | GroupLocalStateUpdated

datatype webhook_subscription_event =
    WebhookSubscriptionProposed
  | WebhookSubscriptionValidated
  | WebhookSubscriptionActivated
  | WebhookSubscriptionSuspended
  | WebhookSubscriptionInvalidated
  | WebhookSubscriptionRetired

datatype webhook_delivery_event =
    WebhookDeliveryScheduled
  | WebhookDeliveryStarted
  | WebhookDeliverySucceeded
  | WebhookDeliveryRetryScheduled
  | WebhookDeliveryFailed
  | WebhookDeliveryDeadLettered
  | WebhookDeliveryCancelled

datatype guardrail_event =
    GuardrailEvaluated
  | GuardrailPassed
  | GuardrailBlocked
  | GuardrailThrottled
  | GuardrailActionRequired

datatype provider_event =
    ProviderProfileSupported
  | ProviderProfileDegraded
  | ProviderProfileUnsupported
  | ProviderCapabilityChanged
  | ProviderFailureClassified

datatype worker_job_event =
    WorkerJobQueued
  | WorkerJobReserved
  | WorkerJobStarted
  | WorkerJobCompleted
  | WorkerJobRetryScheduled
  | WorkerJobDead
  | WorkerJobRecoveryRequired

datatype access_event =
    AccessGranted
  | AccessDenied
  | PrivilegedActionMarked
  | SecretAccessRequested
  | AccessDecisionExpired

datatype audit_event =
    AuditRecordRequested
  | AuditRecorded
  | AuditRedactionApplied
  | AuditRetentionExpired

datatype health_event =
    HealthStatusChanged
  | HealthDegraded
  | HealthRecovered
  | HealthActionRequired

datatype configuration_event =
    ConfigurationValidated
  | ConfigurationRejected
  | ConfigurationActivated
  | ConfigurationGuardrailBypassRejected
  | ConfigurationSuperseded

datatype telemetry_event =
    TelemetryCaptured
  | TelemetrySanitized
  | TelemetryDropped
  | TelemetryProjected

datatype domain_event_name =
    InstanceEvent instance_event
  | SessionEvent session_event
  | MessageEvent message_event
  | MediaEvent media_event
  | GroupEvent group_event
  | SubscriptionEvent webhook_subscription_event
  | DeliveryEvent webhook_delivery_event
  | GuardrailEvent guardrail_event
  | ProviderEvent provider_event
  | WorkerJobEvent worker_job_event
  | AccessEvent access_event
  | AuditEvent audit_event
  | HealthEvent health_event
  | ConfigurationEvent configuration_event
  | TelemetryEvent telemetry_event

fun instance_event_name :: "instance_event \<Rightarrow> string" where
    "instance_event_name InstanceCreated = ''InstanceCreated''"
  | "instance_event_name InstanceQrRequired = ''InstanceQrRequired''"
  | "instance_event_name InstanceConnected = ''InstanceConnected''"
  | "instance_event_name InstanceDisconnected = ''InstanceDisconnected''"
  | "instance_event_name InstanceLoggedOut = ''InstanceLoggedOut''"
  | "instance_event_name InstanceActionRequired = ''InstanceActionRequired''"
  | "instance_event_name InstanceDestroyed = ''InstanceDestroyed''"

fun session_event_name :: "session_event \<Rightarrow> string" where
    "session_event_name SessionPairingStarted = ''SessionPairingStarted''"
  | "session_event_name SessionPending = ''SessionPending''"
  | "session_event_name SessionActivated = ''SessionActivated''"
  | "session_event_name SessionExpired = ''SessionExpired''"
  | "session_event_name SessionRevoked = ''SessionRevoked''"
  | "session_event_name SessionRecoveryRequired = ''SessionRecoveryRequired''"
  | "session_event_name SessionCleaned = ''SessionCleaned''"

fun message_event_name :: "message_event \<Rightarrow> string" where
    "message_event_name InboundMessageReceived = ''InboundMessageReceived''"
  | "message_event_name UnsupportedMessageReceived = ''UnsupportedMessageReceived''"
  | "message_event_name MessageAccepted = ''MessageAccepted''"
  | "message_event_name MessageRejected = ''MessageRejected''"
  | "message_event_name MessageQueued = ''MessageQueued''"
  | "message_event_name MessageProcessingStarted = ''MessageProcessingStarted''"
  | "message_event_name MessageDispatched = ''MessageDispatched''"
  | "message_event_name MessageDelivered = ''MessageDelivered''"
  | "message_event_name MessageRead = ''MessageRead''"
  | "message_event_name MessageFailed = ''MessageFailed''"
  | "message_event_name MessageCancelled = ''MessageCancelled''"

fun media_event_name :: "media_event \<Rightarrow> string" where
    "media_event_name MediaAccepted = ''MediaAccepted''"
  | "media_event_name MediaProcessingStarted = ''MediaProcessingStarted''"
  | "media_event_name MediaProcessed = ''MediaProcessed''"
  | "media_event_name MediaAttached = ''MediaAttached''"
  | "media_event_name MediaFailed = ''MediaFailed''"
  | "media_event_name MediaExpired = ''MediaExpired''"
  | "media_event_name MediaCleaned = ''MediaCleaned''"
  | "media_event_name DiagnosticCaptureRequested = ''DiagnosticCaptureRequested''"

fun group_event_name :: "group_event \<Rightarrow> string" where
    "group_event_name GroupDiscovered = ''GroupDiscovered''"
  | "group_event_name GroupStatusUpdated = ''GroupStatusUpdated''"
  | "group_event_name GroupMetadataUpdated = ''GroupMetadataUpdated''"
  | "group_event_name GroupMemberAdded = ''GroupMemberAdded''"
  | "group_event_name GroupMemberRemoved = ''GroupMemberRemoved''"
  | "group_event_name GroupMemberRoleChanged = ''GroupMemberRoleChanged''"
  | "group_event_name GroupInviteLinkUpdated = ''GroupInviteLinkUpdated''"
  | "group_event_name GroupLocalStateUpdated = ''GroupLocalStateUpdated''"

fun webhook_subscription_event_name :: "webhook_subscription_event \<Rightarrow> string" where
    "webhook_subscription_event_name WebhookSubscriptionProposed = ''WebhookSubscriptionProposed''"
  | "webhook_subscription_event_name WebhookSubscriptionValidated = ''WebhookSubscriptionValidated''"
  | "webhook_subscription_event_name WebhookSubscriptionActivated = ''WebhookSubscriptionActivated''"
  | "webhook_subscription_event_name WebhookSubscriptionSuspended = ''WebhookSubscriptionSuspended''"
  | "webhook_subscription_event_name WebhookSubscriptionInvalidated = ''WebhookSubscriptionInvalidated''"
  | "webhook_subscription_event_name WebhookSubscriptionRetired = ''WebhookSubscriptionRetired''"

fun webhook_delivery_event_name :: "webhook_delivery_event \<Rightarrow> string" where
    "webhook_delivery_event_name WebhookDeliveryScheduled = ''WebhookDeliveryScheduled''"
  | "webhook_delivery_event_name WebhookDeliveryStarted = ''WebhookDeliveryStarted''"
  | "webhook_delivery_event_name WebhookDeliverySucceeded = ''WebhookDeliverySucceeded''"
  | "webhook_delivery_event_name WebhookDeliveryRetryScheduled = ''WebhookDeliveryRetryScheduled''"
  | "webhook_delivery_event_name WebhookDeliveryFailed = ''WebhookDeliveryFailed''"
  | "webhook_delivery_event_name WebhookDeliveryDeadLettered = ''WebhookDeliveryDeadLettered''"
  | "webhook_delivery_event_name WebhookDeliveryCancelled = ''WebhookDeliveryCancelled''"

fun guardrail_event_name :: "guardrail_event \<Rightarrow> string" where
    "guardrail_event_name GuardrailEvaluated = ''GuardrailEvaluated''"
  | "guardrail_event_name GuardrailPassed = ''GuardrailPassed''"
  | "guardrail_event_name GuardrailBlocked = ''GuardrailBlocked''"
  | "guardrail_event_name GuardrailThrottled = ''GuardrailThrottled''"
  | "guardrail_event_name GuardrailActionRequired = ''GuardrailActionRequired''"

fun provider_event_name :: "provider_event \<Rightarrow> string" where
    "provider_event_name ProviderProfileSupported = ''ProviderProfileSupported''"
  | "provider_event_name ProviderProfileDegraded = ''ProviderProfileDegraded''"
  | "provider_event_name ProviderProfileUnsupported = ''ProviderProfileUnsupported''"
  | "provider_event_name ProviderCapabilityChanged = ''ProviderCapabilityChanged''"
  | "provider_event_name ProviderFailureClassified = ''ProviderFailureClassified''"

fun worker_job_event_name :: "worker_job_event \<Rightarrow> string" where
    "worker_job_event_name WorkerJobQueued = ''WorkerJobQueued''"
  | "worker_job_event_name WorkerJobReserved = ''WorkerJobReserved''"
  | "worker_job_event_name WorkerJobStarted = ''WorkerJobStarted''"
  | "worker_job_event_name WorkerJobCompleted = ''WorkerJobCompleted''"
  | "worker_job_event_name WorkerJobRetryScheduled = ''WorkerJobRetryScheduled''"
  | "worker_job_event_name WorkerJobDead = ''WorkerJobDead''"
  | "worker_job_event_name WorkerJobRecoveryRequired = ''WorkerJobRecoveryRequired''"

fun access_event_name :: "access_event \<Rightarrow> string" where
    "access_event_name AccessGranted = ''AccessGranted''"
  | "access_event_name AccessDenied = ''AccessDenied''"
  | "access_event_name PrivilegedActionMarked = ''PrivilegedActionMarked''"
  | "access_event_name SecretAccessRequested = ''SecretAccessRequested''"
  | "access_event_name AccessDecisionExpired = ''AccessDecisionExpired''"

fun audit_event_name :: "audit_event \<Rightarrow> string" where
    "audit_event_name AuditRecordRequested = ''AuditRecordRequested''"
  | "audit_event_name AuditRecorded = ''AuditRecorded''"
  | "audit_event_name AuditRedactionApplied = ''AuditRedactionApplied''"
  | "audit_event_name AuditRetentionExpired = ''AuditRetentionExpired''"

fun health_event_name :: "health_event \<Rightarrow> string" where
    "health_event_name HealthStatusChanged = ''HealthStatusChanged''"
  | "health_event_name HealthDegraded = ''HealthDegraded''"
  | "health_event_name HealthRecovered = ''HealthRecovered''"
  | "health_event_name HealthActionRequired = ''HealthActionRequired''"

fun configuration_event_name :: "configuration_event \<Rightarrow> string" where
    "configuration_event_name ConfigurationValidated = ''ConfigurationValidated''"
  | "configuration_event_name ConfigurationRejected = ''ConfigurationRejected''"
  | "configuration_event_name ConfigurationActivated = ''ConfigurationActivated''"
  | "configuration_event_name ConfigurationGuardrailBypassRejected = ''ConfigurationGuardrailBypassRejected''"
  | "configuration_event_name ConfigurationSuperseded = ''ConfigurationSuperseded''"

fun telemetry_event_name :: "telemetry_event \<Rightarrow> string" where
    "telemetry_event_name TelemetryCaptured = ''TelemetryCaptured''"
  | "telemetry_event_name TelemetrySanitized = ''TelemetrySanitized''"
  | "telemetry_event_name TelemetryDropped = ''TelemetryDropped''"
  | "telemetry_event_name TelemetryProjected = ''TelemetryProjected''"

fun domain_event_name_text :: "domain_event_name \<Rightarrow> string" where
    "domain_event_name_text (InstanceEvent e) = instance_event_name e"
  | "domain_event_name_text (SessionEvent e) = session_event_name e"
  | "domain_event_name_text (MessageEvent e) = message_event_name e"
  | "domain_event_name_text (MediaEvent e) = media_event_name e"
  | "domain_event_name_text (GroupEvent e) = group_event_name e"
  | "domain_event_name_text (SubscriptionEvent e) = webhook_subscription_event_name e"
  | "domain_event_name_text (DeliveryEvent e) = webhook_delivery_event_name e"
  | "domain_event_name_text (GuardrailEvent e) = guardrail_event_name e"
  | "domain_event_name_text (ProviderEvent e) = provider_event_name e"
  | "domain_event_name_text (WorkerJobEvent e) = worker_job_event_name e"
  | "domain_event_name_text (AccessEvent e) = access_event_name e"
  | "domain_event_name_text (AuditEvent e) = audit_event_name e"
  | "domain_event_name_text (HealthEvent e) = health_event_name e"
  | "domain_event_name_text (ConfigurationEvent e) = configuration_event_name e"
  | "domain_event_name_text (TelemetryEvent e) = telemetry_event_name e"

definition instance_events :: "instance_event list" where
  "instance_events =
    [InstanceCreated, InstanceQrRequired, InstanceConnected, InstanceDisconnected,
     InstanceLoggedOut, InstanceActionRequired, InstanceDestroyed]"

definition session_events :: "session_event list" where
  "session_events =
    [SessionPairingStarted, SessionPending, SessionActivated, SessionExpired, SessionRevoked,
     SessionRecoveryRequired, SessionCleaned]"

definition message_events :: "message_event list" where
  "message_events =
    [InboundMessageReceived, UnsupportedMessageReceived, MessageAccepted, MessageRejected,
     MessageQueued, MessageProcessingStarted, MessageDispatched, MessageDelivered, MessageRead,
     MessageFailed, MessageCancelled]"

definition media_events :: "media_event list" where
  "media_events =
    [MediaAccepted, MediaProcessingStarted, MediaProcessed, MediaAttached, MediaFailed,
     MediaExpired, MediaCleaned, DiagnosticCaptureRequested]"

definition group_events :: "group_event list" where
  "group_events =
    [GroupDiscovered, GroupStatusUpdated, GroupMetadataUpdated, GroupMemberAdded,
     GroupMemberRemoved, GroupMemberRoleChanged, GroupInviteLinkUpdated,
     GroupLocalStateUpdated]"

definition webhook_subscription_events :: "webhook_subscription_event list" where
  "webhook_subscription_events =
    [WebhookSubscriptionProposed, WebhookSubscriptionValidated, WebhookSubscriptionActivated,
     WebhookSubscriptionSuspended, WebhookSubscriptionInvalidated, WebhookSubscriptionRetired]"

definition webhook_delivery_events :: "webhook_delivery_event list" where
  "webhook_delivery_events =
    [WebhookDeliveryScheduled, WebhookDeliveryStarted, WebhookDeliverySucceeded,
     WebhookDeliveryRetryScheduled, WebhookDeliveryFailed, WebhookDeliveryDeadLettered,
     WebhookDeliveryCancelled]"

definition guardrail_events :: "guardrail_event list" where
  "guardrail_events =
    [GuardrailEvaluated, GuardrailPassed, GuardrailBlocked, GuardrailThrottled,
     GuardrailActionRequired]"

definition provider_events :: "provider_event list" where
  "provider_events =
    [ProviderProfileSupported, ProviderProfileDegraded, ProviderProfileUnsupported,
     ProviderCapabilityChanged, ProviderFailureClassified]"

definition worker_job_events :: "worker_job_event list" where
  "worker_job_events =
    [WorkerJobQueued, WorkerJobReserved, WorkerJobStarted, WorkerJobCompleted,
     WorkerJobRetryScheduled, WorkerJobDead, WorkerJobRecoveryRequired]"

definition access_events :: "access_event list" where
  "access_events =
    [AccessGranted, AccessDenied, PrivilegedActionMarked, SecretAccessRequested,
     AccessDecisionExpired]"

definition audit_events :: "audit_event list" where
  "audit_events =
    [AuditRecordRequested, AuditRecorded, AuditRedactionApplied, AuditRetentionExpired]"

definition health_events :: "health_event list" where
  "health_events =
    [HealthStatusChanged, HealthDegraded, HealthRecovered, HealthActionRequired]"

definition configuration_events :: "configuration_event list" where
  "configuration_events =
    [ConfigurationValidated, ConfigurationRejected, ConfigurationActivated,
     ConfigurationGuardrailBypassRejected, ConfigurationSuperseded]"

definition telemetry_events :: "telemetry_event list" where
  "telemetry_events =
    [TelemetryCaptured, TelemetrySanitized, TelemetryDropped, TelemetryProjected]"

definition domainEventNames :: "domain_event_name list" where
  "domainEventNames =
     map InstanceEvent instance_events @
     map SessionEvent session_events @
     map MessageEvent message_events @
     map MediaEvent media_events @
     map GroupEvent group_events @
     map SubscriptionEvent webhook_subscription_events @
     map DeliveryEvent webhook_delivery_events @
     map GuardrailEvent guardrail_events @
     map ProviderEvent provider_events @
     map WorkerJobEvent worker_job_events @
     map AccessEvent access_events @
     map AuditEvent audit_events @
     map HealthEvent health_events @
     map ConfigurationEvent configuration_events @
     map TelemetryEvent telemetry_events"

lemma instance_events_complete: "e \<in> set instance_events"
  by (cases e) (simp_all add: instance_events_def)

lemma session_events_complete: "e \<in> set session_events"
  by (cases e) (simp_all add: session_events_def)

lemma message_events_complete: "e \<in> set message_events"
  by (cases e) (simp_all add: message_events_def)

lemma media_events_complete: "e \<in> set media_events"
  by (cases e) (simp_all add: media_events_def)

lemma group_events_complete: "e \<in> set group_events"
  by (cases e) (simp_all add: group_events_def)

lemma webhook_subscription_events_complete: "e \<in> set webhook_subscription_events"
  by (cases e) (simp_all add: webhook_subscription_events_def)

lemma webhook_delivery_events_complete: "e \<in> set webhook_delivery_events"
  by (cases e) (simp_all add: webhook_delivery_events_def)

lemma guardrail_events_complete: "e \<in> set guardrail_events"
  by (cases e) (simp_all add: guardrail_events_def)

lemma provider_events_complete: "e \<in> set provider_events"
  by (cases e) (simp_all add: provider_events_def)

lemma worker_job_events_complete: "e \<in> set worker_job_events"
  by (cases e) (simp_all add: worker_job_events_def)

lemma access_events_complete: "e \<in> set access_events"
  by (cases e) (simp_all add: access_events_def)

lemma audit_events_complete: "e \<in> set audit_events"
  by (cases e) (simp_all add: audit_events_def)

lemma health_events_complete: "e \<in> set health_events"
  by (cases e) (simp_all add: health_events_def)

lemma configuration_events_complete: "e \<in> set configuration_events"
  by (cases e) (simp_all add: configuration_events_def)

lemma telemetry_events_complete: "e \<in> set telemetry_events"
  by (cases e) (simp_all add: telemetry_events_def)

lemmas event_list_defs =
  instance_events_def
  session_events_def
  message_events_def
  media_events_def
  group_events_def
  webhook_subscription_events_def
  webhook_delivery_events_def
  guardrail_events_def
  provider_events_def
  worker_job_events_def
  access_events_def
  audit_events_def
  health_events_def
  configuration_events_def
  telemetry_events_def

lemmas event_lists_complete =
  instance_events_complete
  session_events_complete
  message_events_complete
  media_events_complete
  group_events_complete
  webhook_subscription_events_complete
  webhook_delivery_events_complete
  guardrail_events_complete
  provider_events_complete
  worker_job_events_complete
  access_events_complete
  audit_events_complete
  health_events_complete
  configuration_events_complete
  telemetry_events_complete

section \<open>Events\<close>

record domain_event =
  ev_name :: domain_event_name
  ev_aggregateType :: domain_aggregate_type
  ev_aggregateId :: string

definition createDomainEvent :: "domain_event \<Rightarrow> domain_event result" where
  "createDomainEvent input =
     result_bind
       (read_union domain_event_name_text domainEventNames
          (domain_event_name_text (ev_name input)) ''DomainEventName'')
       (\<lambda>name. result_bind
          (read_union domain_aggregate_type_name domainAggregateTypes
             (domain_aggregate_type_name (ev_aggregateType input)) ''DomainAggregateType'')
          (\<lambda>kind. Inr \<lparr>ev_name = name, ev_aggregateType = kind,
                          ev_aggregateId = ev_aggregateId input\<rparr>))"

definition appendDomainEvent ::
    "domain_event list \<Rightarrow> domain_aggregate_type \<Rightarrow> string \<Rightarrow> domain_event_name \<Rightarrow>
     domain_event list result" where
  "appendDomainEvent events aggregateType aggregateId name =
     result_map (\<lambda>e. events @ [e])
       (createDomainEvent \<lparr>ev_name = name, ev_aggregateType = aggregateType,
                           ev_aggregateId = aggregateId\<rparr>)"

lemma domainEventNames_complete: "n \<in> set domainEventNames"
  by (cases n) (simp_all add: domainEventNames_def event_lists_complete)

lemma domain_event_names_distinct: "distinct (map domain_event_name_text domainEventNames)"
  by (simp add: domainEventNames_def event_list_defs)

interpretation domain_event_name: string_union domain_event_name_text domainEventNames
  by unfold_locales (rule domain_event_names_distinct, rule domainEventNames_complete)

text \<open>For the typed names the runtime checks of \<open>createDomainEvent\<close> always pass.\<close>

lemma createDomainEvent_typed [simp]: "createDomainEvent e = Inr e"
  by (simp add: createDomainEvent_def domain_event_name.read_roundtrip
      domain_aggregate_type.read_roundtrip)

lemma appendDomainEvent_typed [simp]:
  "appendDomainEvent events k i n =
     Inr (events @ [\<lparr>ev_name = n, ev_aggregateType = k, ev_aggregateId = i\<rparr>])"
  by (simp add: appendDomainEvent_def)

text \<open>The aggregate a name belongs to.\<close>

fun raised_by :: "domain_event_name \<Rightarrow> domain_aggregate_type" where
  "raised_by (InstanceEvent e) = Agg_Instance"
| "raised_by (SessionEvent e) = Agg_Session"
| "raised_by (MessageEvent e) = Agg_Message"
| "raised_by (MediaEvent e) = Agg_MediaAsset"
| "raised_by (GroupEvent e) = Agg_Group"
| "raised_by (SubscriptionEvent e) = Agg_WebhookSubscription"
| "raised_by (DeliveryEvent e) = Agg_WebhookDelivery"
| "raised_by (GuardrailEvent e) = Agg_GuardrailDecision"
| "raised_by (ProviderEvent e) = Agg_ProviderProfile"
| "raised_by (WorkerJobEvent e) = Agg_WorkerJob"
| "raised_by (AccessEvent e) = Agg_AccessDecision"
| "raised_by (AuditEvent e) = Agg_AuditRecord"
| "raised_by (HealthEvent e) = Agg_HealthStatus"
| "raised_by (ConfigurationEvent e) = Agg_ConfigurationSnapshot"
| "raised_by (TelemetryEvent e) = Agg_TelemetrySignal"

end
