(* ===== verification/StatusMachine.thy ===== *)
theory StatusMachine
  imports DomainEvents
begin

text \<open>
  \<open>packages/domain/src/aggregates/status-transition.ts\<close> and the contract every aggregate with
  a status shares.  An aggregate is a frozen record; its operations return a new one or throw.
  The locale \<open>aggregate_lifecycle\<close> states what one operation promises about the status, the
  identity and the event list, and derives what that means for a whole history of operations,
  throwing ones included.  Each aggregate's theory interprets it on its own operations.
\<close>

section \<open>aggregates/status-transition.ts\<close>

definition transitionStatus ::
    "('s \<Rightarrow> string) \<Rightarrow> 's \<Rightarrow> 's \<Rightarrow> ('s \<Rightarrow> 's list) \<Rightarrow> string \<Rightarrow> 's result" where
  "transitionStatus nm current next transitions label =
     (if current = next then Inr next
      else if next \<notin> set (transitions current)
      then Inl (TypeError (label @ '' cannot transition from '' @ nm current @ '' to '' @ nm next @ ''.''))
      else Inr next)"

definition assertNotTerminal :: "('s \<Rightarrow> string) \<Rightarrow> 's \<Rightarrow> 's list \<Rightarrow> string \<Rightarrow> unit result" where
  "assertNotTerminal nm status terminalStatuses label =
     (if status \<in> set terminalStatuses
      then Inl (TypeError (label @ '' is terminal in status '' @ nm status @ ''.''))
      else Inr ())"

lemma transitionStatus_Inr [result_simps]:
  "transitionStatus nm s t tr l = Inr u \<longleftrightarrow> u = t \<and> (t = s \<or> t \<in> set (tr s))"
  by (auto simp: transitionStatus_def)

lemma transitionStatus_Inl:
  "transitionStatus nm s t tr l = Inl e \<longleftrightarrow>
     t \<noteq> s \<and> t \<notin> set (tr s) \<and>
     e = TypeError (l @ '' cannot transition from '' @ nm s @ '' to '' @ nm t @ ''.'')"
  by (auto simp: transitionStatus_def)

lemma assertNotTerminal_Inr [result_simps]:
  "assertNotTerminal nm s ts l = Inr u \<longleftrightarrow> s \<notin> set ts"
  by (auto simp: assertNotTerminal_def)

section \<open>Histories of an aggregate\<close>

text \<open>
  \<open>history step cs a\<close> performs the operations \<open>cs\<close> in turn; one that throws leaves the
  caller with the value it had.  \<open>follows transitions\<close> is reachability in the table.
\<close>

definition history :: "('c \<Rightarrow> 'a \<Rightarrow> 'a result) \<Rightarrow> 'c list \<Rightarrow> 'a \<Rightarrow> 'a" where
  "history step cs a = fold (\<lambda>c. keep_on_throw (step c)) cs a"

definition follows :: "('s \<Rightarrow> 's list) \<Rightarrow> 's \<Rightarrow> 's \<Rightarrow> bool" where
  "follows transitions = (\<lambda>s t. t \<in> set (transitions s))\<^sup>*\<^sup>*"

definition own_event :: "domain_aggregate_type \<Rightarrow> string \<Rightarrow> domain_event \<Rightarrow> bool" where
  "own_event k i e \<longleftrightarrow>
     ev_aggregateType e = k \<and> ev_aggregateId e = i \<and> raised_by (ev_name e) = k"

lemma history_Nil [simp]: "history step [] a = a"
  by (simp add: history_def)

lemma history_Cons [simp]: "history step (c # cs) a = history step cs (keep_on_throw (step c) a)"
  by (simp add: history_def)

lemma follows_refl [simp]: "follows tr s s"
  by (simp add: follows_def)

lemma follows_terminal: "follows tr s t \<Longrightarrow> tr s = [] \<Longrightarrow> t = s"
  unfolding follows_def by (induction rule: converse_rtranclp_induct) auto

text \<open>What every successful operation keeps, every history keeps.\<close>

lemma history_invariant:
  assumes "P a" and "\<And>c a b. P a \<Longrightarrow> step c a = Inr b \<Longrightarrow> P b"
  shows "P (history step cs a)"
  using assms(1)
proof (induction cs arbitrary: a)
  case Nil
  then show ?case by simp
next
  case (Cons c cs)
  have "P (keep_on_throw (step c) a)"
    using Cons.prems assms(2) by (cases "step c a") auto
  then show ?case using Cons.IH by simp
qed

locale aggregate_lifecycle =
  fixes status :: "'a \<Rightarrow> 's"
    and ident :: "'a \<Rightarrow> string"
    and events :: "'a \<Rightarrow> domain_event list"
    and kind :: domain_aggregate_type
    and transitions :: "'s \<Rightarrow> 's list"
    and step :: "'c \<Rightarrow> 'a \<Rightarrow> 'a result"
  assumes step_status:
      "step c a = Inr b \<Longrightarrow> status b = status a \<or> status b \<in> set (transitions (status a))"
    and step_ident: "step c a = Inr b \<Longrightarrow> ident b = ident a"
    and step_events:
      "step c a = Inr b \<Longrightarrow>
         \<exists>es. events b = events a @ es \<and> list_all (own_event kind (ident a)) es"
begin

lemma keep_status: "follows transitions (status a) (status (keep_on_throw (step c) a))"
proof (cases "step c a")
  case (Inl e)
  then show ?thesis by simp
next
  case (Inr b)
  then show ?thesis using step_status [OF Inr] by (auto simp: follows_def)
qed

lemma keep_ident: "ident (keep_on_throw (step c) a) = ident a"
  by (cases "step c a") (auto dest: step_ident)

lemma keep_events:
  "\<exists>es. events (keep_on_throw (step c) a) = events a @ es \<and> list_all (own_event kind (ident a)) es"
proof (cases "step c a")
  case (Inl e)
  then have "events (keep_on_throw (step c) a) = events a @ [] \<and>
      list_all (own_event kind (ident a)) []" by simp
  then show ?thesis by blast
next
  case (Inr b)
  then show ?thesis using step_events [OF Inr] by simp
qed

lemma history_ident: "ident (history step cs a) = ident a"
  by (induction cs arbitrary: a) (simp_all add: keep_ident)

lemma history_status: "follows transitions (status a) (status (history step cs a))"
proof (induction cs arbitrary: a)
  case Nil
  show ?case by simp
next
  case (Cons c cs)
  from keep_status [of a c] Cons.IH [of "keep_on_throw (step c) a"]
  show ?case unfolding follows_def by simp
qed

lemma history_events:
  "\<exists>es. events (history step cs a) = events a @ es \<and> list_all (own_event kind (ident a)) es"
proof (induction cs arbitrary: a)
  case Nil
  show ?case by (intro exI [of _ "[]"]) simp
next
  case (Cons c cs)
  obtain es where es: "events (keep_on_throw (step c) a) = events a @ es"
      "list_all (own_event kind (ident a)) es"
    using keep_events by blast
  obtain fs where fs: "events (history step cs (keep_on_throw (step c) a)) =
      events (keep_on_throw (step c) a) @ fs" "list_all (own_event kind (ident a)) fs"
    using Cons.IH [of "keep_on_throw (step c) a"] by (auto simp: keep_ident)
  from es fs have "events (history step (c # cs) a) = events a @ (es @ fs) \<and>
      list_all (own_event kind (ident a)) (es @ fs)" by simp
  then show ?case by blast
qed

text \<open>A status without outgoing transitions is never left.\<close>

lemma history_terminal: "transitions (status a) = [] \<Longrightarrow> status (history step cs a) = status a"
  using history_status [of a cs] by (rule follows_terminal)

text \<open>Events are never lost or rewritten, and an aggregate only raises its own.\<close>

lemma history_events_prefix: "take (length (events a)) (events (history step cs a)) = events a"
  using history_events [of cs a] by auto

lemma history_own_events:
  assumes "list_all (own_event kind (ident a)) (events a)"
  shows "list_all (own_event kind (ident a)) (events (history step cs a))"
  using history_events [of cs a] assms by auto

end

text \<open>
  A lifecycle whose table only climbs a rank: the status never falls back, and a status that
  was left is never entered again.
\<close>

locale ranked_lifecycle = aggregate_lifecycle +
  fixes rank :: "'b \<Rightarrow> nat"
  assumes rank_less: "t \<in> set (transitions s) \<Longrightarrow> rank s < rank t"
begin

lemma follows_rank: "follows transitions s t \<Longrightarrow> s = t \<or> rank s < rank t"
  unfolding follows_def
proof (induction rule: rtranclp_induct)
  case base
  show ?case by simp
next
  case (step t u)
  from rank_less [OF step.hyps(2)] step.IH show ?case by auto
qed

lemma history_rank: "rank (status a) \<le> rank (status (history step cs a))"
  using follows_rank [OF history_status [of a cs]] by auto

lemma history_no_return:
  assumes "status (history step cs a) \<noteq> status a"
  shows "status (history step ds (history step cs a)) \<noteq> status a"
proof -
  have "rank (status a) < rank (status (history step cs a))"
    using follows_rank [OF history_status [of a cs]] assms by auto
  also have "\<dots> \<le> rank (status (history step ds (history step cs a)))"
    by (rule history_rank)
  finally show ?thesis by auto
qed

end

end
