(* ===== verification/PolicyValues.thy ===== *)
theory PolicyValues
  imports StatusMachine
begin

text \<open>
  Numbers as the source reads them, and the value objects of \<open>packages/domain/src/policies\<close>,
  \<open>errors/domain-error.ts\<close>, \<open>specifications/specification-result.ts\<close> and the identities of
  \<open>identity/aggregate-ids.ts\<close>.  A raw \<open>number\<close> is a \<open>jsnum\<close>; what a validator has accepted
  as an integer is an \<^typ>\<open>int\<close>.
\<close>

section \<open>Numbers\<close>

datatype jsnum = Fin rat | PosInf | NegInf | NaN

abbreviation num_of :: "int \<Rightarrow> jsnum" where
  "num_of i \<equiv> Fin (of_int i)"

text \<open>\<open>as_int v\<close> is the integer \<open>v\<close> stands for, if \<open>Number.isInteger(v)\<close>.\<close>

definition as_int :: "jsnum \<Rightarrow> int option" where
  "as_int v = (case v of Fin q \<Rightarrow> (if of_int \<lfloor>q\<rfloor> = q then Some \<lfloor>q\<rfloor> else None) | _ \<Rightarrow> None)"

definition isInteger :: "jsnum \<Rightarrow> bool" where
  "isInteger v \<longleftrightarrow> as_int v \<noteq> None"

lemma as_int_num_of [simp]: "as_int (num_of i) = Some i"
  by (simp add: as_int_def)

lemma as_int_numeral [simp]:
  "as_int (Fin (numeral k)) = Some (numeral k)" "as_int (Fin 0) = Some 0" "as_int (Fin 1) = Some 1"
  using as_int_num_of [of "numeral k"] as_int_num_of [of 0] as_int_num_of [of 1] by simp_all

lemma as_int_Some_iff: "as_int v = Some i \<longleftrightarrow> v = num_of i"
  by (auto simp: as_int_def split: jsnum.splits if_splits)

section \<open>policies/retry-policy.ts, attempt-number.ts, dead-letter-reason.ts, retention-policy.ts\<close>

record retry_policy =
  rp_maxAttempts :: int
  rp_initialDelayMilliseconds :: int
  rp_backoffMultiplier :: rat

definition assertPositiveInteger :: "jsnum \<Rightarrow> string \<Rightarrow> int result" where
  "assertPositiveInteger value label =
     (case as_int value of
        Some n \<Rightarrow> (if n \<le> 0 then Inl (TypeError (label @ '' must be a positive integer.'')) else Inr n)
      | None \<Rightarrow> Inl (TypeError (label @ '' must be a positive integer.'')))"

definition assertNonNegativeInteger :: "jsnum \<Rightarrow> string \<Rightarrow> int result" where
  "assertNonNegativeInteger value label =
     (case as_int value of
        Some n \<Rightarrow> (if n < 0 then Inl (TypeError (label @ '' must be a non-negative integer.'')) else Inr n)
      | None \<Rightarrow> Inl (TypeError (label @ '' must be a non-negative integer.'')))"

definition createRetryPolicy :: "jsnum \<Rightarrow> jsnum \<Rightarrow> jsnum \<Rightarrow> retry_policy result" where
  "createRetryPolicy maxAttempts initialDelayMilliseconds backoffMultiplier =
     result_bind (assertPositiveInteger maxAttempts ''RetryPolicy.maxAttempts'') (\<lambda>m.
     result_bind
       (assertNonNegativeInteger initialDelayMilliseconds ''RetryPolicy.initialDelayMilliseconds'')
       (\<lambda>d. case backoffMultiplier of
              Fin b \<Rightarrow>
                (if b < 1
                 then Inl (TypeError ''RetryPolicy.backoffMultiplier must be finite and at least 1.'')
                 else Inr \<lparr>rp_maxAttempts = m, rp_initialDelayMilliseconds = d,
                            rp_backoffMultiplier = b\<rparr>)
            | _ \<Rightarrow> Inl (TypeError ''RetryPolicy.backoffMultiplier must be finite and at least 1.'')))"

definition valid_retry_policy :: "retry_policy \<Rightarrow> bool" where
  "valid_retry_policy p \<longleftrightarrow>
     0 < rp_maxAttempts p \<and> 0 \<le> rp_initialDelayMilliseconds p \<and> 1 \<le> rp_backoffMultiplier p"

definition createAttemptNumber :: "jsnum \<Rightarrow> retry_policy option \<Rightarrow> int result" where
  "createAttemptNumber value retryPolicy =
     (case as_int value of
        None \<Rightarrow> Inl (TypeError ''AttemptNumber must be a positive integer.'')
      | Some n \<Rightarrow>
          if n \<le> 0 then Inl (TypeError ''AttemptNumber must be a positive integer.'')
          else (case retryPolicy of
                  Some p \<Rightarrow>
                    if rp_maxAttempts p < n
                    then Inl (TypeError ''AttemptNumber must not exceed RetryPolicy.maxAttempts.'')
                    else Inr n
                | None \<Rightarrow> Inr n))"

record dead_letter_reason =
  dlr_code :: string
  dlr_category :: failure_category

definition createDeadLetterReason :: "string \<Rightarrow> string \<Rightarrow> dead_letter_reason result" where
  "createDeadLetterReason code category =
     result_bind (createSafeDomainCode code ''DeadLetterReason.code'') (\<lambda>c.
     result_bind (createFailureCategory category) (\<lambda>k.
     Inr \<lparr>dlr_code = c, dlr_category = k\<rparr>))"

record retention_policy =
  ret_category :: retention_category
  ret_retentionDays :: int

definition createRetentionPolicy :: "string \<Rightarrow> jsnum \<Rightarrow> retention_policy result" where
  "createRetentionPolicy category retentionDays =
     (case as_int retentionDays of
        None \<Rightarrow> Inl (TypeError ''RetentionPolicy.retentionDays must be a non-negative integer.'')
      | Some d \<Rightarrow>
          if d < 0
          then Inl (TypeError ''RetentionPolicy.retentionDays must be a non-negative integer.'')
          else result_map (\<lambda>c. \<lparr>ret_category = c, ret_retentionDays = d\<rparr>)
                 (read_union retention_category_name retentionCategories category
                    ''RetentionCategory''))"

lemma createAttemptNumber_int:
  "createAttemptNumber (num_of n) (Some p) =
     (if n \<le> 0 then Inl (TypeError ''AttemptNumber must be a positive integer.'')
      else if rp_maxAttempts p < n
      then Inl (TypeError ''AttemptNumber must not exceed RetryPolicy.maxAttempts.'')
      else Inr n)"
  by (simp add: createAttemptNumber_def)

lemma createAttemptNumber_ok:
  "createAttemptNumber v (Some p) = Inr n \<longleftrightarrow> v = num_of n \<and> 0 < n \<and> n \<le> rp_maxAttempts p"
  by (auto simp: createAttemptNumber_def as_int_Some_iff split: option.splits if_splits)

lemma createRetryPolicy_valid: "createRetryPolicy m d b = Inr p \<Longrightarrow> valid_retry_policy p"
  by (auto simp: createRetryPolicy_def assertPositiveInteger_def assertNonNegativeInteger_def
      valid_retry_policy_def result_simps split: option.splits if_splits jsnum.splits)

lemma createFailureCategory_name [simp]: "createFailureCategory (failure_category_name c) = Inr c"
  by (simp add: createFailureCategory_def failure_category.read_roundtrip)

lemma createFailureCategory_queue [simp]: "createFailureCategory ''queue'' = Inr Fail_queue"
  using createFailureCategory_name [of Fail_queue] by simp

lemma createDeadLetterReason_queue:
  "createDeadLetterReason code ''queue'' =
     result_map (\<lambda>c. \<lparr>dlr_code = c, dlr_category = Fail_queue\<rparr>)
       (createSafeDomainCode code ''DeadLetterReason.code'')"
  by (simp add: createDeadLetterReason_def result_map_def result_bind_def split: sum.splits)

section \<open>errors/domain-error.ts and specifications/specification-result.ts\<close>

datatype error_context_value = Ctx_string string | Ctx_number jsnum | Ctx_bool bool | Ctx_null

record domain_error =
  err_category :: domain_error_category
  err_ownerContext :: domain_owner_context
  err_reasonCode :: string
  err_message :: string
  err_recoverability :: recoverability
  err_context :: "(string \<times> error_context_value) list option"

record domain_error_input =
  ein_category :: string
  ein_ownerContext :: string
  ein_reasonCode :: string
  ein_message :: string
  ein_recoverability :: string
  ein_context :: "(string \<times> error_context_value) list option"

definition assertNonEmptyMessage :: "string \<Rightarrow> string result" where
  "assertNonEmptyMessage value =
     (let message = js_trim value
      in if length message = 0 then Inl (TypeError ''DomainError.message must not be empty.'')
         else Inr message)"

text \<open>An object written key by key: a repeated key keeps its place and takes the new value.\<close>

fun put_key :: "(string \<times> 'v) list \<Rightarrow> string \<Rightarrow> 'v \<Rightarrow> (string \<times> 'v) list" where
  "put_key [] k v = [(k, v)]"
| "put_key ((k', v') # kvs) k v =
     (if k' = k then (k, v) # kvs else (k', v') # put_key kvs k v)"

fun freezeContext_from ::
    "(string \<times> error_context_value) list \<Rightarrow> (string \<times> error_context_value) list \<Rightarrow>
     (string \<times> error_context_value) list result" where
  "freezeContext_from safe [] = Inr safe"
| "freezeContext_from safe ((k, v) # kvs) =
     result_bind (createSafeDomainCode k ''DomainError.context key'')
       (\<lambda>k'. freezeContext_from (put_key safe k' v) kvs)"

definition freezeContext ::
    "(string \<times> error_context_value) list \<Rightarrow> (string \<times> error_context_value) list result" where
  "freezeContext context = freezeContext_from [] context"

definition createDomainError :: "domain_error_input \<Rightarrow> domain_error result" where
  "createDomainError input =
     result_bind (createSafeDomainCode (ein_reasonCode input) ''DomainError.reasonCode'') (\<lambda>reason.
     result_bind (createDomainErrorCategory (ein_category input)) (\<lambda>category.
     result_bind (createDomainOwnerContext (ein_ownerContext input)) (\<lambda>owner.
     result_bind (assertNonEmptyMessage (ein_message input)) (\<lambda>message.
     result_bind (createRecoverability (ein_recoverability input)) (\<lambda>recover.
     result_bind
       (case ein_context input of None \<Rightarrow> Inr None | Some c \<Rightarrow> result_map Some (freezeContext c))
       (\<lambda>context.
     Inr \<lparr>err_category = category, err_ownerContext = owner, err_reasonCode = reason,
          err_message = message, err_recoverability = recover, err_context = context\<rparr>))))))"

datatype specification_result = Passed | Failed domain_error

definition passSpecification :: specification_result where
  "passSpecification = Passed"

definition isSpecificationPass :: "specification_result \<Rightarrow> bool" where
  "isSpecificationPass r = (case r of Passed \<Rightarrow> True | Failed _ \<Rightarrow> False)"

definition failSpecification ::
    "domain_error_category \<Rightarrow> domain_owner_context \<Rightarrow> string \<Rightarrow> string \<Rightarrow> recoverability \<Rightarrow>
     specification_result result" where
  "failSpecification category ownerContext reasonCode message recoverability =
     result_map Failed
       (createDomainError
          \<lparr>ein_category = domain_error_category_name category,
           ein_ownerContext = domain_owner_context_name ownerContext,
           ein_reasonCode = reasonCode, ein_message = message,
           ein_recoverability = recoverability_name recoverability, ein_context = None\<rparr>)"

text \<open>With literal codes and messages, as the specifications use it, \<open>failSpecification\<close> returns.\<close>

lemma failSpecification_returns:
  assumes "isSafeDomainCode code" "js_trim msg = msg" "msg \<noteq> []"
  shows "failSpecification c w code msg r =
     Inr (Failed \<lparr>err_category = c, err_ownerContext = w, err_reasonCode = code,
                   err_message = msg, err_recoverability = r, err_context = None\<rparr>)"
  using assms
  by (simp add: failSpecification_def createDomainError_def createSafeDomainCode_id
      createDomainErrorCategory_def domain_error_category.read_roundtrip
      createDomainOwnerContext_def domain_owner_context.read_roundtrip
      createRecoverability_def recoverability.read_roundtrip assertNonEmptyMessage_def)

section \<open>identity/aggregate-ids.ts\<close>

type_synonym identity = string

definition createInstanceId :: "string \<Rightarrow> identity result" where
  "createInstanceId value = createDomainIdentity value ''InstanceId''"

definition createSessionId :: "string \<Rightarrow> identity result" where
  "createSessionId value = createDomainIdentity value ''SessionId''"

definition createMessageId :: "string \<Rightarrow> identity result" where
  "createMessageId value = createDomainIdentity value ''MessageId''"

definition createJobId :: "string \<Rightarrow> identity result" where
  "createJobId value = createDomainIdentity value ''JobId''"

definition createWebhookId :: "string \<Rightarrow> identity result" where
  "createWebhookId value = createDomainIdentity value ''WebhookId''"

definition createWebhookDeliveryId :: "string \<Rightarrow> identity result" where
  "createWebhookDeliveryId value = createDomainIdentity value ''WebhookDeliveryId''"

definition createGuardrailDecisionId :: "string \<Rightarrow> identity result" where
  "createGuardrailDecisionId value = createDomainIdentity value ''GuardrailDecisionId''"

end
