(* ===== verification/Messages.thy ===== *)
theory Messages
  imports PolicyValues
begin

text \<open>
  \<open>packages/domain/src/messaging/message.ts\<close>: the message aggregate.  \<open>message_command\<close> lists
  the operations a caller can perform on an existing message, \<open>message_step\<close> performs one.
  The lemmas give the table's consequences: which statuses an inbound or an outbound message
  can reach, that a message is never queued or sent without a guardrail decision, and what a
  history leaves unchanged.
\<close>

section \<open>Data\<close>

fun messageTransitions :: "message_status \<Rightarrow> message_status list" where
  "messageTransitions Msg_created = [Msg_evaluated, Msg_failed, Msg_cancelled]"
| "messageTransitions Msg_evaluated = [Msg_queued, Msg_failed, Msg_cancelled]"
| "messageTransitions Msg_queued = [Msg_processing, Msg_failed, Msg_cancelled]"
| "messageTransitions Msg_processing =
     [Msg_sent, Msg_delivered, Msg_read, Msg_failed, Msg_cancelled]"
| "messageTransitions Msg_sent = [Msg_delivered, Msg_read, Msg_failed]"
| "messageTransitions Msg_delivered = [Msg_read]"
| "messageTransitions Msg_read = []"
| "messageTransitions Msg_failed = []"
| "messageTransitions Msg_cancelled = []"

record message =
  msg_id :: identity
  msg_instanceId :: identity
  msg_direction :: message_direction
  msg_type :: message_type
  msg_status :: message_status
  msg_guardrailDecisionId :: "identity option"
  msg_mediaId :: "identity option"
  msg_failureCategory :: "failure_category option"
  msg_retentionPolicy :: "retention_policy option"
  msg_domainEvents :: "domain_event list"

record message_input =
  mi_id :: identity
  mi_instanceId :: identity
  mi_type :: message_type
  mi_mediaId :: "identity option"
  mi_retentionPolicy :: "retention_policy option"

section \<open>Operations\<close>

definition baseMessage :: "message_input \<Rightarrow> message_direction \<Rightarrow> domain_event list \<Rightarrow> message" where
  "baseMessage input direction evs =
     \<lparr>msg_id = mi_id input, msg_instanceId = mi_instanceId input, msg_direction = direction,
      msg_type = mi_type input, msg_status = Msg_created, msg_guardrailDecisionId = None,
      msg_mediaId = mi_mediaId input, msg_failureCategory = None,
      msg_retentionPolicy = mi_retentionPolicy input, msg_domainEvents = evs\<rparr>"

definition createOutboundMessageIntent :: "message_input \<Rightarrow> message" where
  "createOutboundMessageIntent input = baseMessage input Dir_outbound []"

definition createInboundMessage :: "message_input \<Rightarrow> message result" where
  "createInboundMessage input =
     result_map (baseMessage input Dir_inbound)
       (appendDomainEvent [] Agg_Message (mi_id input) (MessageEvent InboundMessageReceived))"

definition transitionMessage ::
    "message \<Rightarrow> message_status \<Rightarrow> message_event \<Rightarrow> identity option option \<Rightarrow>
     failure_category option option \<Rightarrow> message result" where
  "transitionMessage m status eventName guardrailPatch failurePatch =
     result_bind
       (transitionStatus message_status_name (msg_status m) status messageTransitions ''Message'')
       (\<lambda>next. result_bind
          (appendDomainEvent (msg_domainEvents m) Agg_Message (msg_id m) (MessageEvent eventName))
          (\<lambda>evs. Inr
             \<lparr>msg_id = msg_id m, msg_instanceId = msg_instanceId m,
              msg_direction = msg_direction m, msg_type = msg_type m, msg_status = next,
              msg_guardrailDecisionId = in_patch guardrailPatch (msg_guardrailDecisionId m),
              msg_mediaId = msg_mediaId m,
              msg_failureCategory = in_patch failurePatch (msg_failureCategory m),
              msg_retentionPolicy = msg_retentionPolicy m, msg_domainEvents = evs\<rparr>))"

definition acceptMessage :: "message \<Rightarrow> identity \<Rightarrow> message result" where
  "acceptMessage m guardrailDecisionId =
     (if msg_direction m \<noteq> Dir_outbound
      then Inl (TypeError ''Only outbound messages require guardrail acceptance.'')
      else transitionMessage m Msg_evaluated MessageAccepted (Some (Some guardrailDecisionId)) None)"

definition rejectMessage :: "message \<Rightarrow> failure_category \<Rightarrow> message result" where
  "rejectMessage m failureCategory =
     transitionMessage m Msg_failed MessageRejected None (Some (Some failureCategory))"

definition assertOutboundGuardrail :: "message \<Rightarrow> unit result" where
  "assertOutboundGuardrail m =
     (if msg_direction m = Dir_outbound \<and> msg_guardrailDecisionId m = None
      then Inl (TypeError ''Outbound Message acceptance requires a GuardrailDecision.'')
      else Inr ())"

definition queueMessage :: "message \<Rightarrow> message result" where
  "queueMessage m =
     result_bind (assertOutboundGuardrail m)
       (\<lambda>_. transitionMessage m Msg_queued MessageQueued None None)"

definition markMessageProcessing :: "message \<Rightarrow> message result" where
  "markMessageProcessing m = transitionMessage m Msg_processing MessageProcessingStarted None None"

definition markMessageSent :: "message \<Rightarrow> message result" where
  "markMessageSent m = transitionMessage m Msg_sent MessageDispatched None None"

definition markMessageDelivered :: "message \<Rightarrow> message result" where
  "markMessageDelivered m = transitionMessage m Msg_delivered MessageDelivered None None"

definition markMessageRead :: "message \<Rightarrow> message result" where
  "markMessageRead m = transitionMessage m Msg_read MessageRead None None"

definition failMessage :: "message \<Rightarrow> failure_category \<Rightarrow> message result" where
  "failMessage m failureCategory =
     transitionMessage m Msg_failed MessageFailed None (Some (Some failureCategory))"

definition cancelMessage :: "message \<Rightarrow> message result" where
  "cancelMessage m = transitionMessage m Msg_cancelled MessageCancelled None None"

datatype message_command =
    AcceptMessage identity
  | RejectMessage failure_category
  | QueueMessage
  | MarkMessageProcessing
  | MarkMessageSent
  | MarkMessageDelivered
  | MarkMessageRead
  | FailMessage failure_category
  | CancelMessage

fun message_step :: "message_command \<Rightarrow> message \<Rightarrow> message result" where
  "message_step (AcceptMessage g) m = acceptMessage m g"
| "message_step (RejectMessage c) m = rejectMessage m c"
| "message_step QueueMessage m = queueMessage m"
| "message_step MarkMessageProcessing m = markMessageProcessing m"
| "message_step MarkMessageSent m = markMessageSent m"
| "message_step MarkMessageDelivered m = markMessageDelivered m"
| "message_step MarkMessageRead m = markMessageRead m"
| "message_step (FailMessage c) m = failMessage m c"
| "message_step CancelMessage m = cancelMessage m"

section \<open>One operation\<close>

lemmas message_op_defs =
  acceptMessage_def rejectMessage_def queueMessage_def assertOutboundGuardrail_def
  markMessageProcessing_def markMessageSent_def markMessageDelivered_def markMessageRead_def
  failMessage_def cancelMessage_def transitionMessage_def

text \<open>The status an operation aims at, the event it records and the guard before the table.\<close>

fun message_target :: "message_command \<Rightarrow> message_status" where
  "message_target (AcceptMessage _) = Msg_evaluated"
| "message_target (RejectMessage _) = Msg_failed"
| "message_target QueueMessage = Msg_queued"
| "message_target MarkMessageProcessing = Msg_processing"
| "message_target MarkMessageSent = Msg_sent"
| "message_target MarkMessageDelivered = Msg_delivered"
| "message_target MarkMessageRead = Msg_read"
| "message_target (FailMessage _) = Msg_failed"
| "message_target CancelMessage = Msg_cancelled"

fun message_event_of :: "message_command \<Rightarrow> message_event" where
  "message_event_of (AcceptMessage _) = MessageAccepted"
| "message_event_of (RejectMessage _) = MessageRejected"
| "message_event_of QueueMessage = MessageQueued"
| "message_event_of MarkMessageProcessing = MessageProcessingStarted"
| "message_event_of MarkMessageSent = MessageDispatched"
| "message_event_of MarkMessageDelivered = MessageDelivered"
| "message_event_of MarkMessageRead = MessageRead"
| "message_event_of (FailMessage _) = MessageFailed"
| "message_event_of CancelMessage = MessageCancelled"

fun message_guard :: "message_command \<Rightarrow> message \<Rightarrow> bool" where
  "message_guard (AcceptMessage _) m \<longleftrightarrow> msg_direction m = Dir_outbound"
| "message_guard QueueMessage m \<longleftrightarrow>
     \<not> (msg_direction m = Dir_outbound \<and> msg_guardrailDecisionId m = None)"
| "message_guard _ m \<longleftrightarrow> True"

fun message_guardrail_after :: "message_command \<Rightarrow> message \<Rightarrow> identity option" where
  "message_guardrail_after (AcceptMessage g) m = Some g"
| "message_guardrail_after _ m = msg_guardrailDecisionId m"

fun message_failure_after :: "message_command \<Rightarrow> message \<Rightarrow> failure_category option" where
  "message_failure_after (RejectMessage c) m = Some c"
| "message_failure_after (FailMessage c) m = Some c"
| "message_failure_after _ m = msg_failureCategory m"

lemma message_step_ok_iff:
  "message_step c m = Inr m' \<longleftrightarrow>
     message_guard c m \<and>
     (message_target c = msg_status m \<or> message_target c \<in> set (messageTransitions (msg_status m))) \<and>
     m' = m\<lparr>msg_status := message_target c,
            msg_guardrailDecisionId := message_guardrail_after c m,
            msg_failureCategory := message_failure_after c m,
            msg_domainEvents := msg_domainEvents m @
              [\<lparr>ev_name = MessageEvent (message_event_of c), ev_aggregateType = Agg_Message,
                ev_aggregateId = msg_id m\<rparr>]\<rparr>"
  by (cases c) (auto simp: message_op_defs result_simps)

declare message_step.simps [simp del]

section \<open>The lifecycle\<close>

fun message_rank :: "message_status \<Rightarrow> nat" where
  "message_rank Msg_created = 0"
| "message_rank Msg_evaluated = 1"
| "message_rank Msg_queued = 2"
| "message_rank Msg_processing = 3"
| "message_rank Msg_sent = 4"
| "message_rank Msg_delivered = 5"
| "message_rank Msg_read = 6"
| "message_rank Msg_failed = 7"
| "message_rank Msg_cancelled = 7"

interpretation message: ranked_lifecycle msg_status msg_id msg_domainEvents Agg_Message
  messageTransitions message_step message_rank
proof
  show "msg_status b = msg_status a \<or> msg_status b \<in> set (messageTransitions (msg_status a))"
    if "message_step c a = Inr b" for a b c
    using that by (auto simp: message_step_ok_iff)
  show "msg_id b = msg_id a" if "message_step c a = Inr b" for a b c
    using that by (auto simp: message_step_ok_iff)
  show "\<exists>es. msg_domainEvents b = msg_domainEvents a @ es \<and>
      list_all (own_event Agg_Message (msg_id a)) es"
    if "message_step c a = Inr b" for a b c
    using that by (auto simp: message_step_ok_iff own_event_def)
  show "message_rank s < message_rank t" if "t \<in> set (messageTransitions s)" for s t
    using that by (cases s) auto
qed

text \<open>
  What a message built by one of the two constructors keeps: an outbound message past
  \<open>created\<close>, unless it failed or was cancelled, carries its guardrail decision; an inbound
  message is never evaluated, queued, processed or sent.
\<close>

fun needs_guardrail :: "message_status \<Rightarrow> bool" where
  "needs_guardrail Msg_created = False"
| "needs_guardrail Msg_failed = False"
| "needs_guardrail Msg_cancelled = False"
| "needs_guardrail _ = True"

definition message_wf :: "message \<Rightarrow> bool" where
  "message_wf m \<longleftrightarrow>
     (needs_guardrail (msg_status m) \<longrightarrow>
        msg_direction m = Dir_outbound \<and> msg_guardrailDecisionId m \<noteq> None) \<and>
     (msg_direction m = Dir_inbound \<longrightarrow> msg_guardrailDecisionId m = None)"

lemma message_wf_created:
  "message_wf (createOutboundMessageIntent input)"
  "createInboundMessage input = Inr m \<Longrightarrow> message_wf m"
  by (auto simp: message_wf_def createOutboundMessageIntent_def createInboundMessage_def
      baseMessage_def)

text \<open>The table read backwards: where a status can be entered from.\<close>

lemma messageTransitions_into:
  "Msg_evaluated \<in> set (messageTransitions s) \<longleftrightarrow> s = Msg_created"
  "Msg_queued \<in> set (messageTransitions s) \<longleftrightarrow> s = Msg_evaluated"
  "Msg_processing \<in> set (messageTransitions s) \<longleftrightarrow> s = Msg_queued"
  "Msg_sent \<in> set (messageTransitions s) \<longleftrightarrow> s = Msg_processing"
  "Msg_delivered \<in> set (messageTransitions s) \<longleftrightarrow> s = Msg_processing \<or> s = Msg_sent"
  "Msg_read \<in> set (messageTransitions s) \<longleftrightarrow>
     s = Msg_processing \<or> s = Msg_sent \<or> s = Msg_delivered"
  by (cases s; simp)+

lemma message_step_wf: "message_wf m \<Longrightarrow> message_step c m = Inr m' \<Longrightarrow> message_wf m'"
  by (cases c; cases "msg_direction m")
    (auto simp: message_step_ok_iff message_wf_def messageTransitions_into)

lemma message_history_wf: "message_wf m \<Longrightarrow> message_wf (history message_step cs m)"
  by (rule history_invariant [where P = message_wf]) (auto dest: message_step_wf)

lemma message_step_frame [field_frames]:
  "message_step c m = Inr m' \<Longrightarrow>
     msg_instanceId m' = msg_instanceId m \<and> msg_direction m' = msg_direction m \<and>
     msg_type m' = msg_type m \<and> msg_mediaId m' = msg_mediaId m \<and>
     msg_retentionPolicy m' = msg_retentionPolicy m"
  by (auto simp: message_step_ok_iff)

lemma message_history_direction:
  "msg_direction (history message_step cs m) = msg_direction m"
  by (rule history_invariant [where P = "\<lambda>n. msg_direction n = msg_direction m"])
    (auto dest: message_step_frame)

end
