(* ===== verification/Instances.thy ===== *)
theory Instances
  imports PolicyValues
begin

text \<open>
  \<open>packages/domain/src/instance/instance.ts\<close> and \<open>session/session.ts\<close>: the WhatsApp
  instance and its pairing session, with their transition tables, operations and the
  invariants their constructors establish.
\<close>

section \<open>The instance\<close>

fun instanceTransitions :: "instance_status \<Rightarrow> instance_status list" where
  "instanceTransitions Inst_created = [Inst_connecting, Inst_destroyed]"
| "instanceTransitions Inst_connecting =
     [Inst_qr_pending, Inst_connected, Inst_disconnected, Inst_logged_out, Inst_action_required,
      Inst_destroyed]"
| "instanceTransitions Inst_qr_pending =
     [Inst_connected, Inst_disconnected, Inst_logged_out, Inst_action_required, Inst_destroyed]"
| "instanceTransitions Inst_connected =
     [Inst_disconnected, Inst_logged_out, Inst_action_required, Inst_destroyed]"
| "instanceTransitions Inst_disconnected =
     [Inst_connecting, Inst_connected, Inst_logged_out, Inst_action_required, Inst_destroyed]"
| "instanceTransitions Inst_logged_out = [Inst_connecting, Inst_action_required, Inst_destroyed]"
| "instanceTransitions Inst_action_required =
     [Inst_connecting, Inst_disconnected, Inst_logged_out, Inst_destroyed]"
| "instanceTransitions Inst_destroyed = []"

record instance_metadata =
  im_displayName :: "string option"

record wa_instance =
  inst_id :: identity
  inst_status :: instance_status
  inst_metadata :: instance_metadata
  inst_currentSessionId :: "identity option"
  inst_actionRequiredReason :: "string option"
  inst_domainEvents :: "domain_event list"

definition normalizeInstanceMetadata :: "instance_metadata \<Rightarrow> instance_metadata" where
  "normalizeInstanceMetadata metadata = \<lparr>im_displayName = im_displayName metadata\<rparr>"

definition freezeInstance :: "wa_instance \<Rightarrow> wa_instance" where
  "freezeInstance i = i\<lparr>inst_metadata := normalizeInstanceMetadata (inst_metadata i)\<rparr>"

definition createInstance :: "identity \<Rightarrow> instance_metadata \<Rightarrow> wa_instance result" where
  "createInstance i metadata =
     result_map
       (\<lambda>evs. freezeInstance
          \<lparr>inst_id = i, inst_status = Inst_created,
           inst_metadata = normalizeInstanceMetadata metadata, inst_currentSessionId = None,
           inst_actionRequiredReason = None, inst_domainEvents = evs\<rparr>)
       (appendDomainEvent [] Agg_Instance i (InstanceEvent InstanceCreated))"

definition createInstanceDisplayName :: "string \<Rightarrow> string result" where
  "createInstanceDisplayName value =
     result_bind (bounded_text 120 ''InstanceDisplayName must be non-empty and bounded.'' value)
       (\<lambda>normalized. createOpaqueString normalized ''InstanceDisplayName'')"

definition transitionInstance ::
    "wa_instance \<Rightarrow> instance_status \<Rightarrow> instance_event option \<Rightarrow> identity option option \<Rightarrow>
     string option option \<Rightarrow> wa_instance result" where
  "transitionInstance i status eventName sessionPatch reasonPatch =
     result_bind
       (transitionStatus instance_status_name (inst_status i) status instanceTransitions ''Instance'')
       (\<lambda>next. result_bind
          (case eventName of
             None \<Rightarrow> Inr (inst_domainEvents i)
           | Some n \<Rightarrow>
               appendDomainEvent (inst_domainEvents i) Agg_Instance (inst_id i) (InstanceEvent n))
          (\<lambda>evs. Inr (freezeInstance
             \<lparr>inst_id = inst_id i, inst_status = next,
              inst_metadata = normalizeInstanceMetadata (inst_metadata i),
              inst_currentSessionId = in_patch sessionPatch (inst_currentSessionId i),
              inst_actionRequiredReason = in_patch reasonPatch (inst_actionRequiredReason i),
              inst_domainEvents = evs\<rparr>)))"

definition markInstanceConnecting :: "wa_instance \<Rightarrow> wa_instance result" where
  "markInstanceConnecting i = transitionInstance i Inst_connecting None None None"

definition markInstanceQrPending :: "wa_instance \<Rightarrow> wa_instance result" where
  "markInstanceQrPending i =
     transitionInstance i Inst_qr_pending (Some InstanceQrRequired) None None"

definition markInstanceConnected :: "wa_instance \<Rightarrow> identity \<Rightarrow> wa_instance result" where
  "markInstanceConnected i currentSessionId =
     transitionInstance i Inst_connected (Some InstanceConnected)
       (Some (Some currentSessionId)) (Some None)"

definition markInstanceDisconnected :: "wa_instance \<Rightarrow> wa_instance result" where
  "markInstanceDisconnected i =
     transitionInstance i Inst_disconnected (Some InstanceDisconnected) (Some None) None"

text \<open>The patch is built, and its reason code checked, before the transition is.\<close>

definition markInstanceLoggedOut :: "wa_instance \<Rightarrow> string \<Rightarrow> wa_instance result" where
  "markInstanceLoggedOut i reasonCode =
     result_bind (createSafeDomainCode reasonCode ''Instance.actionRequiredReason'') (\<lambda>reason.
       transitionInstance i Inst_logged_out (Some InstanceLoggedOut) (Some None)
         (Some (Some reason)))"

definition requireInstanceAction :: "wa_instance \<Rightarrow> string \<Rightarrow> wa_instance result" where
  "requireInstanceAction i reasonCode =
     result_bind (createSafeDomainCode reasonCode ''Instance.actionRequiredReason'') (\<lambda>reason.
       transitionInstance i Inst_action_required (Some InstanceActionRequired) None
         (Some (Some reason)))"

definition destroyInstance :: "wa_instance \<Rightarrow> wa_instance result" where
  "destroyInstance i =
     transitionInstance i Inst_destroyed (Some InstanceDestroyed) (Some None) None"

datatype instance_command =
    MarkConnecting
  | MarkQrPending
  | MarkConnected identity
  | MarkDisconnected
  | MarkLoggedOut string
  | RequireInstanceAction string
  | DestroyInstance

fun instance_step :: "instance_command \<Rightarrow> wa_instance \<Rightarrow> wa_instance result" where
  "instance_step MarkConnecting i = markInstanceConnecting i"
| "instance_step MarkQrPending i = markInstanceQrPending i"
| "instance_step (MarkConnected s) i = markInstanceConnected i s"
| "instance_step MarkDisconnected i = markInstanceDisconnected i"
| "instance_step (MarkLoggedOut r) i = markInstanceLoggedOut i r"
| "instance_step (RequireInstanceAction r) i = requireInstanceAction i r"
| "instance_step DestroyInstance i = destroyInstance i"

lemmas instance_op_defs =
  markInstanceConnecting_def markInstanceQrPending_def markInstanceConnected_def
  markInstanceDisconnected_def markInstanceLoggedOut_def requireInstanceAction_def
  destroyInstance_def transitionInstance_def freezeInstance_def normalizeInstanceMetadata_def

text \<open>What an operation aims at, records and writes; \<open>None\<close> for a reason that is not a safe code.\<close>

fun instance_target :: "instance_command \<Rightarrow> instance_status" where
  "instance_target MarkConnecting = Inst_connecting"
| "instance_target MarkQrPending = Inst_qr_pending"
| "instance_target (MarkConnected _) = Inst_connected"
| "instance_target MarkDisconnected = Inst_disconnected"
| "instance_target (MarkLoggedOut _) = Inst_logged_out"
| "instance_target (RequireInstanceAction _) = Inst_action_required"
| "instance_target DestroyInstance = Inst_destroyed"

fun instance_events_of :: "instance_command \<Rightarrow> instance_event list" where
  "instance_events_of MarkConnecting = []"
| "instance_events_of MarkQrPending = [InstanceQrRequired]"
| "instance_events_of (MarkConnected _) = [InstanceConnected]"
| "instance_events_of MarkDisconnected = [InstanceDisconnected]"
| "instance_events_of (MarkLoggedOut _) = [InstanceLoggedOut]"
| "instance_events_of (RequireInstanceAction _) = [InstanceActionRequired]"
| "instance_events_of DestroyInstance = [InstanceDestroyed]"

fun instance_session_after :: "instance_command \<Rightarrow> wa_instance \<Rightarrow> identity option" where
  "instance_session_after (MarkConnected s) i = Some s"
| "instance_session_after MarkDisconnected i = None"
| "instance_session_after (MarkLoggedOut _) i = None"
| "instance_session_after DestroyInstance i = None"
| "instance_session_after _ i = inst_currentSessionId i"

definition instance_reason :: "string \<Rightarrow> string option" where
  "instance_reason r =
     (case createSafeDomainCode r ''Instance.actionRequiredReason'' of
        Inl _ \<Rightarrow> None | Inr c \<Rightarrow> Some c)"

fun instance_reason_after :: "instance_command \<Rightarrow> wa_instance \<Rightarrow> string option" where
  "instance_reason_after (MarkConnected _) i = None"
| "instance_reason_after (MarkLoggedOut r) i = instance_reason r"
| "instance_reason_after (RequireInstanceAction r) i = instance_reason r"
| "instance_reason_after _ i = inst_actionRequiredReason i"

fun instance_guard :: "instance_command \<Rightarrow> bool" where
  "instance_guard (MarkLoggedOut r) \<longleftrightarrow> instance_reason r \<noteq> None"
| "instance_guard (RequireInstanceAction r) \<longleftrightarrow> instance_reason r \<noteq> None"
| "instance_guard _ \<longleftrightarrow> True"

lemma instance_reason_Inr:
  "createSafeDomainCode r ''Instance.actionRequiredReason'' = Inr c \<longleftrightarrow> instance_reason r = Some c"
  by (simp add: instance_reason_def split: sum.splits)

lemma instance_reason_safe: "instance_reason r = Some c \<Longrightarrow> isSafeDomainCode c"
  unfolding instance_reason_Inr [symmetric] by (rule createSafeDomainCode_ok)

lemma instance_step_ok_iff:
  "instance_step c i = Inr i' \<longleftrightarrow>
     instance_guard c \<and>
     (instance_target c = inst_status i \<or>
      instance_target c \<in> set (instanceTransitions (inst_status i))) \<and>
     i' = i\<lparr>inst_status := instance_target c,
            inst_currentSessionId := instance_session_after c i,
            inst_actionRequiredReason := instance_reason_after c i,
            inst_domainEvents := inst_domainEvents i @
              map (\<lambda>n. \<lparr>ev_name = InstanceEvent n, ev_aggregateType = Agg_Instance,
                         ev_aggregateId = inst_id i\<rparr>) (instance_events_of c)\<rparr>"
  by (cases c) (auto simp: instance_op_defs result_simps instance_reason_Inr)

declare instance_step.simps [simp del]

interpretation wa_instance: aggregate_lifecycle inst_status inst_id inst_domainEvents Agg_Instance
  instanceTransitions instance_step
proof
  show "inst_status b = inst_status a \<or> inst_status b \<in> set (instanceTransitions (inst_status a))"
    if "instance_step c a = Inr b" for a b c
    using that by (auto simp: instance_step_ok_iff)
  show "inst_id b = inst_id a" if "instance_step c a = Inr b" for a b c
    using that by (auto simp: instance_step_ok_iff)
  show "\<exists>es. inst_domainEvents b = inst_domainEvents a @ es \<and>
      list_all (own_event Agg_Instance (inst_id a)) es"
    if "instance_step c a = Inr b" for a b c
    using that by (auto simp: instance_step_ok_iff own_event_def list_all_iff)
qed

text \<open>
  A connected instance has its session and no pending reason; a disconnected, logged out or
  destroyed one has no session; \<open>logged_out\<close> and \<open>action_required\<close> carry a safe reason code.
\<close>

fun sessionless_status :: "instance_status \<Rightarrow> bool" where
  "sessionless_status Inst_created = True"
| "sessionless_status Inst_disconnected = True"
| "sessionless_status Inst_logged_out = True"
| "sessionless_status Inst_destroyed = True"
| "sessionless_status _ = False"

fun reasoned_status :: "instance_status \<Rightarrow> bool" where
  "reasoned_status Inst_logged_out = True"
| "reasoned_status Inst_action_required = True"
| "reasoned_status _ = False"

definition instance_wf :: "wa_instance \<Rightarrow> bool" where
  "instance_wf i \<longleftrightarrow>
     (inst_status i = Inst_connected \<longrightarrow>
        inst_currentSessionId i \<noteq> None \<and> inst_actionRequiredReason i = None) \<and>
     (sessionless_status (inst_status i) \<longrightarrow> inst_currentSessionId i = None) \<and>
     (reasoned_status (inst_status i) \<longrightarrow> inst_actionRequiredReason i \<noteq> None) \<and>
     (\<forall>r. inst_actionRequiredReason i = Some r \<longrightarrow> isSafeDomainCode r)"

lemma createInstance_wf: "createInstance i md = Inr a \<Longrightarrow> instance_wf a"
  by (auto simp: createInstance_def instance_wf_def freezeInstance_def)

lemma instance_step_wf: "instance_wf i \<Longrightarrow> instance_step c i = Inr i' \<Longrightarrow> instance_wf i'"
  by (cases c) (auto simp: instance_step_ok_iff instance_wf_def dest: instance_reason_safe)

lemma instance_history_wf: "instance_wf i \<Longrightarrow> instance_wf (history instance_step cs i)"
  by (rule history_invariant [where P = instance_wf]) (auto dest: instance_step_wf)

section \<open>The session\<close>

fun sessionTransitions :: "session_status \<Rightarrow> session_status list" where
  "sessionTransitions Sess_empty = [Sess_pending, Sess_cleanup]"
| "sessionTransitions Sess_pending = [Sess_active, Sess_expired, Sess_revoked, Sess_cleanup]"
| "sessionTransitions Sess_active = [Sess_expired, Sess_revoked, Sess_cleanup]"
| "sessionTransitions Sess_expired = [Sess_pending, Sess_revoked, Sess_cleanup]"
| "sessionTransitions Sess_revoked = [Sess_cleanup]"
| "sessionTransitions Sess_cleanup = []"

record session =
  sess_id :: identity
  sess_instanceId :: identity
  sess_status :: session_status
  sess_requiresRecovery :: bool
  sess_retentionPolicy :: "retention_policy option"
  sess_domainEvents :: "domain_event list"

definition createSession :: "identity \<Rightarrow> identity \<Rightarrow> session" where
  "createSession i instanceId =
     \<lparr>sess_id = i, sess_instanceId = instanceId, sess_status = Sess_empty,
      sess_requiresRecovery = False, sess_retentionPolicy = None, sess_domainEvents = []\<rparr>"

definition transitionSession ::
    "session \<Rightarrow> session_status \<Rightarrow> session_event \<Rightarrow> bool option \<Rightarrow>
     retention_policy option option \<Rightarrow> session result" where
  "transitionSession s status eventName recoveryPatch retentionPatch =
     result_bind
       (transitionStatus session_status_name (sess_status s) status sessionTransitions ''Session'')
       (\<lambda>next. result_bind
          (appendDomainEvent (sess_domainEvents s) Agg_Session (sess_id s) (SessionEvent eventName))
          (\<lambda>evs. Inr
             \<lparr>sess_id = sess_id s, sess_instanceId = sess_instanceId s, sess_status = next,
              sess_requiresRecovery = value_or recoveryPatch (sess_requiresRecovery s),
              sess_retentionPolicy = in_patch retentionPatch (sess_retentionPolicy s),
              sess_domainEvents = evs\<rparr>))"

definition startSessionPairing :: "session \<Rightarrow> session result" where
  "startSessionPairing s = transitionSession s Sess_pending SessionPairingStarted (Some False) None"

definition markSessionPending :: "session \<Rightarrow> session result" where
  "markSessionPending s = transitionSession s Sess_pending SessionPending None None"

definition activateSession :: "session \<Rightarrow> session result" where
  "activateSession s = transitionSession s Sess_active SessionActivated (Some False) None"

definition expireSession :: "session \<Rightarrow> session result" where
  "expireSession s = transitionSession s Sess_expired SessionExpired (Some True) None"

definition revokeSession :: "session \<Rightarrow> session result" where
  "revokeSession s = transitionSession s Sess_revoked SessionRevoked (Some True) None"

definition requireSessionRecovery :: "session \<Rightarrow> session result" where
  "requireSessionRecovery s =
     result_map (\<lambda>evs. s\<lparr>sess_requiresRecovery := True, sess_domainEvents := evs\<rparr>)
       (appendDomainEvent (sess_domainEvents s) Agg_Session (sess_id s)
          (SessionEvent SessionRecoveryRequired))"

definition cleanupSession :: "session \<Rightarrow> retention_policy option \<Rightarrow> session result" where
  "cleanupSession s retentionPolicy =
     transitionSession s Sess_cleanup SessionCleaned None (Some retentionPolicy)"

definition isSessionSendCapable :: "session \<Rightarrow> bool" where
  "isSessionSendCapable s \<longleftrightarrow> sess_status s = Sess_active"

datatype session_command =
    StartPairing
  | MarkPending
  | ActivateSession
  | ExpireSession
  | RevokeSession
  | RequireRecovery
  | CleanupSession "retention_policy option"

fun session_step :: "session_command \<Rightarrow> session \<Rightarrow> session result" where
  "session_step StartPairing s = startSessionPairing s"
| "session_step MarkPending s = markSessionPending s"
| "session_step ActivateSession s = activateSession s"
| "session_step ExpireSession s = expireSession s"
| "session_step RevokeSession s = revokeSession s"
| "session_step RequireRecovery s = requireSessionRecovery s"
| "session_step (CleanupSession r) s = cleanupSession s r"

lemmas session_op_defs =
  startSessionPairing_def markSessionPending_def activateSession_def expireSession_def
  revokeSession_def requireSessionRecovery_def cleanupSession_def transitionSession_def

interpretation session: aggregate_lifecycle sess_status sess_id sess_domainEvents Agg_Session
  sessionTransitions session_step
proof
  show "sess_status b = sess_status a \<or> sess_status b \<in> set (sessionTransitions (sess_status a))"
    if "session_step c a = Inr b" for a b c
    using that by (cases c) (auto simp: session_op_defs result_simps)
  show "sess_id b = sess_id a" if "session_step c a = Inr b" for a b c
    using that by (cases c) (auto simp: session_op_defs result_simps)
  show "\<exists>es. sess_domainEvents b = sess_domainEvents a @ es \<and>
      list_all (own_event Agg_Session (sess_id a)) es"
    if "session_step c a = Inr b" for a b c
    using that by (cases c) (auto simp: session_op_defs result_simps own_event_def)
qed

text \<open>An expired or revoked session asks for recovery, and an \<open>empty\<close> one has no events to lose.\<close>

definition session_wf :: "session \<Rightarrow> bool" where
  "session_wf s \<longleftrightarrow>
     (sess_status s \<in> {Sess_expired, Sess_revoked} \<longrightarrow> sess_requiresRecovery s)"

lemma session_wf_created: "session_wf (createSession i j)"
  by (simp add: session_wf_def createSession_def)

lemma session_step_wf: "session_wf s \<Longrightarrow> session_step c s = Inr s' \<Longrightarrow> session_wf s'"
  by (cases c) (auto simp: session_op_defs session_wf_def result_simps)

text \<open>Once revoked, a session can only be cleaned up: it is never active again.\<close>

lemma session_revoked_follows:
  "follows sessionTransitions Sess_revoked t \<Longrightarrow> t = Sess_revoked \<or> t = Sess_cleanup"
  unfolding follows_def by (induction rule: rtranclp_induct) auto

end
