(* ===== verification/WorkerJobs.thy ===== *)
theory WorkerJobs
  imports PolicyValues
begin

text \<open>
  \<open>packages/domain/src/operations/worker-job.ts\<close>: the unit of background work the queues
  reserve, retry and dead-letter.  Besides the lifecycle, the lemmas bound the attempt number
  by the retry budget and describe each operation on success and on failure, in the form the
  queue providers use.
\<close>

section \<open>Data\<close>

fun workerJobTransitions :: "job_status \<Rightarrow> job_status list" where
  "workerJobTransitions Job_queued = [Job_reserved, Job_retrying, Job_dead]"
| "workerJobTransitions Job_reserved = [Job_running, Job_retrying, Job_dead]"
| "workerJobTransitions Job_running = [Job_completed, Job_retrying, Job_dead]"
| "workerJobTransitions Job_completed = []"
| "workerJobTransitions Job_retrying = [Job_reserved, Job_dead]"
| "workerJobTransitions Job_dead = []"

record safe_metadata =
  sm_jobKind :: string
  sm_instanceId :: "string option"
  sm_messageId :: "string option"
  sm_outboundIntentRef :: "string option"

record worker_job =
  job_id :: identity
  job_ownerContext :: domain_owner_context
  job_workType :: string
  job_safeMetadata :: "safe_metadata option"
  job_status :: job_status
  job_retryPolicy :: retry_policy
  job_attemptNumber :: "int option"
  job_failureCategory :: "failure_category option"
  job_deadLetterReason :: "dead_letter_reason option"
  job_recoveryActionRequired :: bool
  job_domainEvents :: "domain_event list"

section \<open>Operations\<close>

definition optionalToken :: "string option \<Rightarrow> string \<Rightarrow> string option result" where
  "optionalToken value label =
     (case value of
        None \<Rightarrow> Inr None
      | Some v \<Rightarrow>
          (let normalized = js_trim v
           in if \<not> safe_token normalized
              then Inl (TypeError (label @ '' must be an opaque safe token.''))
              else Inr (Some normalized)))"

definition createWorkerJobSafeMetadata :: "safe_metadata option \<Rightarrow> safe_metadata option result" where
  "createWorkerJobSafeMetadata input =
     (case input of
        None \<Rightarrow> Inr None
      | Some m \<Rightarrow>
          result_bind (createSafeDomainCode (sm_jobKind m) ''WorkerJob.safeMetadata.jobKind'') (\<lambda>k.
          result_bind (optionalToken (sm_instanceId m) ''WorkerJob.safeMetadata.instanceId'') (\<lambda>i.
          result_bind (optionalToken (sm_messageId m) ''WorkerJob.safeMetadata.messageId'') (\<lambda>g.
          result_bind
            (optionalToken (sm_outboundIntentRef m) ''WorkerJob.safeMetadata.outboundIntentRef'')
            (\<lambda>r. Inr (Some \<lparr>sm_jobKind = k, sm_instanceId = i, sm_messageId = g,
                             sm_outboundIntentRef = r\<rparr>))))))"

definition queueWorkerJob ::
    "identity \<Rightarrow> domain_owner_context \<Rightarrow> string \<Rightarrow> retry_policy \<Rightarrow> safe_metadata option \<Rightarrow>
     worker_job result" where
  "queueWorkerJob i ownerContext workType retryPolicy safeMetadata =
     result_bind (createSafeDomainCode workType ''WorkerJob.workType'') (\<lambda>w.
     result_bind (createWorkerJobSafeMetadata safeMetadata) (\<lambda>sm.
     result_bind (appendDomainEvent [] Agg_WorkerJob i (WorkerJobEvent WorkerJobQueued)) (\<lambda>evs.
     Inr \<lparr>job_id = i, job_ownerContext = ownerContext, job_workType = w, job_safeMetadata = sm,
          job_status = Job_queued, job_retryPolicy = retryPolicy, job_attemptNumber = None,
          job_failureCategory = None, job_deadLetterReason = None,
          job_recoveryActionRequired = False, job_domainEvents = evs\<rparr>)))"

definition transitionWorkerJob ::
    "worker_job \<Rightarrow> job_status \<Rightarrow> worker_job_event \<Rightarrow> int option \<Rightarrow> failure_category option \<Rightarrow>
     dead_letter_reason option \<Rightarrow> worker_job result" where
  "transitionWorkerJob job status eventName attempt failure reason =
     result_bind
       (transitionStatus job_status_name (job_status job) status workerJobTransitions ''WorkerJob'')
       (\<lambda>next. result_bind
          (appendDomainEvent (job_domainEvents job) Agg_WorkerJob (job_id job)
             (WorkerJobEvent eventName))
          (\<lambda>evs. Inr
             \<lparr>job_id = job_id job, job_ownerContext = job_ownerContext job,
              job_workType = job_workType job, job_safeMetadata = job_safeMetadata job,
              job_status = next, job_retryPolicy = job_retryPolicy job,
              job_attemptNumber = nullish attempt (job_attemptNumber job),
              job_failureCategory = nullish failure (job_failureCategory job),
              job_deadLetterReason = nullish reason (job_deadLetterReason job),
              job_recoveryActionRequired = job_recoveryActionRequired job,
              job_domainEvents = evs\<rparr>))"

definition reserveWorkerJob :: "worker_job \<Rightarrow> int \<Rightarrow> worker_job result" where
  "reserveWorkerJob job attemptNumber =
     transitionWorkerJob job Job_reserved WorkerJobReserved (Some attemptNumber) None None"

definition startWorkerJob :: "worker_job \<Rightarrow> worker_job result" where
  "startWorkerJob job = transitionWorkerJob job Job_running WorkerJobStarted None None None"

definition completeWorkerJob :: "worker_job \<Rightarrow> worker_job result" where
  "completeWorkerJob job = transitionWorkerJob job Job_completed WorkerJobCompleted None None None"

definition assertAttemptWithinRetryBudget :: "int \<Rightarrow> retry_policy \<Rightarrow> unit result" where
  "assertAttemptWithinRetryBudget attemptNumber retryPolicy =
     (if rp_maxAttempts retryPolicy < attemptNumber
      then Inl (TypeError ''WorkerJob retry attempt exceeds retry policy.'')
      else Inr ())"

definition retryWorkerJob :: "worker_job \<Rightarrow> int \<Rightarrow> failure_category \<Rightarrow> worker_job result" where
  "retryWorkerJob job attemptNumber failureCategory =
     result_bind (assertAttemptWithinRetryBudget attemptNumber (job_retryPolicy job)) (\<lambda>_.
       transitionWorkerJob job Job_retrying WorkerJobRetryScheduled (Some attemptNumber)
         (Some failureCategory) None)"

definition markWorkerJobDead :: "worker_job \<Rightarrow> dead_letter_reason \<Rightarrow> worker_job result" where
  "markWorkerJobDead job reason =
     transitionWorkerJob job Job_dead WorkerJobDead None (Some (dlr_category reason)) (Some reason)"

definition requireWorkerJobRecovery :: "worker_job \<Rightarrow> worker_job result" where
  "requireWorkerJobRecovery job =
     result_map (\<lambda>evs. job\<lparr>job_recoveryActionRequired := True, job_domainEvents := evs\<rparr>)
       (appendDomainEvent (job_domainEvents job) Agg_WorkerJob (job_id job)
          (WorkerJobEvent WorkerJobRecoveryRequired))"

datatype worker_job_command =
    ReserveJob int
  | StartJob
  | CompleteJob
  | RetryJob int failure_category
  | KillJob dead_letter_reason
  | RequireJobRecovery

fun worker_job_step :: "worker_job_command \<Rightarrow> worker_job \<Rightarrow> worker_job result" where
  "worker_job_step (ReserveJob n) job = reserveWorkerJob job n"
| "worker_job_step StartJob job = startWorkerJob job"
| "worker_job_step CompleteJob job = completeWorkerJob job"
| "worker_job_step (RetryJob n c) job = retryWorkerJob job n c"
| "worker_job_step (KillJob r) job = markWorkerJobDead job r"
| "worker_job_step RequireJobRecovery job = requireWorkerJobRecovery job"

lemmas worker_job_op_defs =
  reserveWorkerJob_def startWorkerJob_def completeWorkerJob_def retryWorkerJob_def
  assertAttemptWithinRetryBudget_def markWorkerJobDead_def requireWorkerJobRecovery_def
  transitionWorkerJob_def

section \<open>Each operation in closed form\<close>

definition job_event :: "worker_job \<Rightarrow> worker_job_event \<Rightarrow> domain_event" where
  "job_event job n =
     \<lparr>ev_name = WorkerJobEvent n, ev_aggregateType = Agg_WorkerJob, ev_aggregateId = job_id job\<rparr>"

text \<open>A transition, where the table allows it.\<close>

definition job_moved ::
    "worker_job \<Rightarrow> job_status \<Rightarrow> worker_job_event \<Rightarrow> int option \<Rightarrow> failure_category option \<Rightarrow>
     dead_letter_reason option \<Rightarrow> worker_job" where
  "job_moved job s n a f r =
     job\<lparr>job_status := s, job_attemptNumber := nullish a (job_attemptNumber job),
         job_failureCategory := nullish f (job_failureCategory job),
         job_deadLetterReason := nullish r (job_deadLetterReason job),
         job_domainEvents := job_domainEvents job @ [job_event job n]\<rparr>"

lemma transitionWorkerJob_eq:
  "transitionWorkerJob job s n a f r =
     (if s = job_status job \<or> s \<in> set (workerJobTransitions (job_status job))
      then Inr (job_moved job s n a f r)
      else Inl (TypeError (''WorkerJob cannot transition from '' @
             job_status_name (job_status job) @ '' to '' @ job_status_name s @ ''.'')))"
  by (auto simp: transitionWorkerJob_def transitionStatus_def job_moved_def job_event_def)

lemma job_moved_fields [simp]:
  "job_id (job_moved job s n a f r) = job_id job"
  "job_ownerContext (job_moved job s n a f r) = job_ownerContext job"
  "job_workType (job_moved job s n a f r) = job_workType job"
  "job_safeMetadata (job_moved job s n a f r) = job_safeMetadata job"
  "job_status (job_moved job s n a f r) = s"
  "job_retryPolicy (job_moved job s n a f r) = job_retryPolicy job"
  "job_attemptNumber (job_moved job s n a f r) = nullish a (job_attemptNumber job)"
  "job_failureCategory (job_moved job s n a f r) = nullish f (job_failureCategory job)"
  "job_deadLetterReason (job_moved job s n a f r) = nullish r (job_deadLetterReason job)"
  "job_recoveryActionRequired (job_moved job s n a f r) = job_recoveryActionRequired job"
  "job_domainEvents (job_moved job s n a f r) = job_domainEvents job @ [job_event job n]"
  by (simp_all add: job_moved_def)

lemma reserveWorkerJob_open:
  "job_status job = Job_queued \<or> job_status job = Job_retrying \<Longrightarrow>
     reserveWorkerJob job n = Inr (job_moved job Job_reserved WorkerJobReserved (Some n) None None)"
  by (auto simp: reserveWorkerJob_def transitionWorkerJob_eq)

lemma startWorkerJob_reserved:
  "job_status job = Job_reserved \<Longrightarrow>
     startWorkerJob job = Inr (job_moved job Job_running WorkerJobStarted None None None)"
  by (simp add: startWorkerJob_def transitionWorkerJob_eq)

lemma completeWorkerJob_running:
  "job_status job = Job_running \<Longrightarrow>
     completeWorkerJob job = Inr (job_moved job Job_completed WorkerJobCompleted None None None)"
  by (simp add: completeWorkerJob_def transitionWorkerJob_eq)

lemma retryWorkerJob_active:
  "job_status job = Job_reserved \<or> job_status job = Job_running \<Longrightarrow>
     n \<le> rp_maxAttempts (job_retryPolicy job) \<Longrightarrow>
     retryWorkerJob job n c =
       Inr (job_moved job Job_retrying WorkerJobRetryScheduled (Some n) (Some c) None)"
  by (auto simp: retryWorkerJob_def assertAttemptWithinRetryBudget_def transitionWorkerJob_eq)

lemma markWorkerJobDead_not_completed:
  "job_status job \<noteq> Job_completed \<Longrightarrow>
     markWorkerJobDead job r =
       Inr (job_moved job Job_dead WorkerJobDead None (Some (dlr_category r)) (Some r))"
  by (cases "job_status job") (simp_all add: markWorkerJobDead_def transitionWorkerJob_eq)

lemma worker_job_step_Inr:
  assumes "worker_job_step c job = Inr job'"
  shows "job_id job' = job_id job \<and> job_workType job' = job_workType job \<and>
    job_ownerContext job' = job_ownerContext job \<and>
    job_retryPolicy job' = job_retryPolicy job \<and> job_safeMetadata job' = job_safeMetadata job \<and>
    (job_status job' = job_status job \<or>
       job_status job' \<in> set (workerJobTransitions (job_status job))) \<and>
    (\<exists>n. job_domainEvents job' = job_domainEvents job @ [job_event job n])"
  using assms
  by (cases c)
    (auto simp: reserveWorkerJob_def startWorkerJob_def completeWorkerJob_def retryWorkerJob_def
      markWorkerJobDead_def requireWorkerJobRecovery_def transitionWorkerJob_eq result_simps
      job_event_def split: if_splits)

section \<open>The lifecycle\<close>

interpretation worker_job: aggregate_lifecycle job_status job_id job_domainEvents Agg_WorkerJob
  workerJobTransitions worker_job_step
proof
  show "job_status b = job_status a \<or> job_status b \<in> set (workerJobTransitions (job_status a))"
    if "worker_job_step c a = Inr b" for a b c
    using worker_job_step_Inr [OF that] by blast
  show "job_id b = job_id a" if "worker_job_step c a = Inr b" for a b c
    using worker_job_step_Inr [OF that] by blast
  show "\<exists>es. job_domainEvents b = job_domainEvents a @ es \<and>
      list_all (own_event Agg_WorkerJob (job_id a)) es"
    if "worker_job_step c a = Inr b" for a b c
    using worker_job_step_Inr [OF that] by (force simp: job_event_def own_event_def)
qed

text \<open>
  The attempt number stays within the budget as long as every reservation does; retries
  check the budget themselves.  A job is dead exactly when it has a dead-letter reason.
\<close>

definition job_wf :: "worker_job \<Rightarrow> bool" where
  "job_wf job \<longleftrightarrow>
     (\<forall>n. job_attemptNumber job = Some n \<longrightarrow> n \<le> rp_maxAttempts (job_retryPolicy job)) \<and>
     (job_status job = Job_dead \<longleftrightarrow> job_deadLetterReason job \<noteq> None) \<and>
     (job_status job \<in> {Job_reserved, Job_running, Job_retrying, Job_completed} \<longrightarrow>
        job_attemptNumber job \<noteq> None)"

fun reserves_within :: "int \<Rightarrow> worker_job_command \<Rightarrow> bool" where
  "reserves_within m (ReserveJob n) \<longleftrightarrow> n \<le> m"
| "reserves_within m _ \<longleftrightarrow> True"

lemma queueWorkerJob_fields:
  assumes "queueWorkerJob i oc wt rp sm = Inr job"
  shows "job_id job = i" "job_status job = Job_queued" "job_retryPolicy job = rp"
    "job_attemptNumber job = None" "job_deadLetterReason job = None" "job_ownerContext job = oc"
    "isSafeDomainCode (job_workType job)"
    "createSafeDomainCode wt ''WorkerJob.workType'' = Inr (job_workType job)"
    "createWorkerJobSafeMetadata sm = Inr (job_safeMetadata job)"
  using assms by (auto simp: queueWorkerJob_def result_simps dest: createSafeDomainCode_ok)

lemma queueWorkerJob_wf: "queueWorkerJob i oc wt rp sm = Inr job \<Longrightarrow> job_wf job"
  by (simp add: job_wf_def queueWorkerJob_fields)

lemma worker_job_step_wf:
  assumes "job_wf job" "worker_job_step c job = Inr job'"
    and "reserves_within (rp_maxAttempts (job_retryPolicy job)) c"
  shows "job_wf job'"
proof (cases c)
  case RequireJobRecovery
  with assms show ?thesis by (auto simp: requireWorkerJobRecovery_def job_wf_def result_simps)
next
  case (RetryJob n f)
  with assms show ?thesis
    by (cases "job_status job")
      (auto simp: retryWorkerJob_def assertAttemptWithinRetryBudget_def transitionWorkerJob_eq
        job_wf_def split: if_splits)
qed (use assms in \<open>cases "job_status job";
      auto simp: reserveWorkerJob_def startWorkerJob_def completeWorkerJob_def
        markWorkerJobDead_def transitionWorkerJob_eq job_wf_def split: if_splits\<close>)+

end
