(* ===== verification/Webhooks.thy ===== *)
theory Webhooks
  imports PolicyValues
begin

text \<open>
  \<open>packages/domain/src/webhook\<close>: the subscription, its target URL and one delivery.
  The URL parser of the platform (\<open>new URL\<close>) is a parameter of \<open>createWebhookUrl\<close>.
\<close>

section \<open>webhook-url.ts\<close>

record parsed_url =
  url_protocol :: string
  url_username :: string
  url_password :: string
  url_hash :: string
  url_text :: string

definition createWebhookUrl :: "(string \<Rightarrow> parsed_url result) \<Rightarrow> string \<Rightarrow> string result" where
  "createWebhookUrl parse_url value =
     result_bind (parse_url value) (\<lambda>url.
       if url_protocol url \<noteq> ''https:'' \<and> url_protocol url \<noteq> ''http:''
       then Inl (TypeError ''WebhookUrl must use http or https.'')
       else if url_username url \<noteq> [] \<or> url_password url \<noteq> [] \<or> url_hash url \<noteq> []
       then Inl (TypeError ''WebhookUrl must not include credentials or fragments.'')
       else createOpaqueString (url_text url) ''WebhookUrl'')"

lemma createWebhookUrl_safe:
  "createWebhookUrl parse_url value = Inr u \<Longrightarrow>
     \<exists>url. parse_url value = Inr url \<and> url_protocol url \<in> {''https:'', ''http:''} \<and>
           url_username url = [] \<and> url_password url = [] \<and> url_hash url = [] \<and>
           u = js_trim (url_text url) \<and> u \<noteq> []"
  by (auto simp: createWebhookUrl_def createOpaqueString_def Let_def result_simps split: if_splits)

section \<open>webhook-subscription.ts\<close>

fun webhookSubscriptionTransitions ::
    "webhook_subscription_status \<Rightarrow> webhook_subscription_status list" where
  "webhookSubscriptionTransitions Subs_proposed = [Subs_validated, Subs_invalid, Subs_retired]"
| "webhookSubscriptionTransitions Subs_validated = [Subs_active, Subs_invalid, Subs_retired]"
| "webhookSubscriptionTransitions Subs_active = [Subs_suspended, Subs_invalid, Subs_retired]"
| "webhookSubscriptionTransitions Subs_suspended = [Subs_active, Subs_invalid, Subs_retired]"
| "webhookSubscriptionTransitions Subs_invalid = [Subs_validated, Subs_retired]"
| "webhookSubscriptionTransitions Subs_retired = []"

record webhook_subscription =
  subs_id :: identity
  subs_targetUrl :: string
  subs_status :: webhook_subscription_status
  subs_domainEvents :: "domain_event list"

definition createWebhookSubscription :: "identity \<Rightarrow> string \<Rightarrow> webhook_subscription result" where
  "createWebhookSubscription i targetUrl =
     result_map
       (\<lambda>evs. \<lparr>subs_id = i, subs_targetUrl = targetUrl, subs_status = Subs_proposed,
               subs_domainEvents = evs\<rparr>)
       (appendDomainEvent [] Agg_WebhookSubscription i
          (SubscriptionEvent WebhookSubscriptionProposed))"

definition transitionWebhookSubscription ::
    "webhook_subscription \<Rightarrow> webhook_subscription_status \<Rightarrow> webhook_subscription_event \<Rightarrow>
     webhook_subscription result" where
  "transitionWebhookSubscription s status eventName =
     result_bind
       (transitionStatus webhook_subscription_status_name (subs_status s) status
          webhookSubscriptionTransitions ''WebhookSubscription'')
       (\<lambda>next. result_bind
          (appendDomainEvent (subs_domainEvents s) Agg_WebhookSubscription (subs_id s)
             (SubscriptionEvent eventName))
          (\<lambda>evs. Inr
             \<lparr>subs_id = subs_id s, subs_targetUrl = subs_targetUrl s, subs_status = next,
              subs_domainEvents = evs\<rparr>))"

definition validateWebhookSubscription ::
    "webhook_subscription \<Rightarrow> webhook_subscription result" where
  "validateWebhookSubscription s =
     transitionWebhookSubscription s Subs_validated WebhookSubscriptionValidated"

definition activateWebhookSubscription ::
    "webhook_subscription \<Rightarrow> webhook_subscription result" where
  "activateWebhookSubscription s =
     (if subs_status s \<noteq> Subs_validated \<and> subs_status s \<noteq> Subs_suspended
      then Inl (TypeError ''WebhookSubscription must be validated before activation.'')
      else transitionWebhookSubscription s Subs_active WebhookSubscriptionActivated)"

definition suspendWebhookSubscription ::
    "webhook_subscription \<Rightarrow> webhook_subscription result" where
  "suspendWebhookSubscription s =
     transitionWebhookSubscription s Subs_suspended WebhookSubscriptionSuspended"

definition invalidateWebhookSubscription ::
    "webhook_subscription \<Rightarrow> webhook_subscription result" where
  "invalidateWebhookSubscription s =
     transitionWebhookSubscription s Subs_invalid WebhookSubscriptionInvalidated"

definition retireWebhookSubscription ::
    "webhook_subscription \<Rightarrow> webhook_subscription result" where
  "retireWebhookSubscription s =
     transitionWebhookSubscription s Subs_retired WebhookSubscriptionRetired"

datatype subscription_command =
    ValidateSubscription
  | ActivateSubscription
  | SuspendSubscription
  | InvalidateSubscription
  | RetireSubscription

fun subscription_step ::
    "subscription_command \<Rightarrow> webhook_subscription \<Rightarrow> webhook_subscription result" where
  "subscription_step ValidateSubscription s = validateWebhookSubscription s"
| "subscription_step ActivateSubscription s = activateWebhookSubscription s"
| "subscription_step SuspendSubscription s = suspendWebhookSubscription s"
| "subscription_step InvalidateSubscription s = invalidateWebhookSubscription s"
| "subscription_step RetireSubscription s = retireWebhookSubscription s"

lemmas subscription_op_defs =
  validateWebhookSubscription_def activateWebhookSubscription_def suspendWebhookSubscription_def
  invalidateWebhookSubscription_def retireWebhookSubscription_def
  transitionWebhookSubscription_def

interpretation subscription: aggregate_lifecycle subs_status subs_id subs_domainEvents
  Agg_WebhookSubscription webhookSubscriptionTransitions subscription_step
proof
  show "subs_status b = subs_status a \<or>
      subs_status b \<in> set (webhookSubscriptionTransitions (subs_status a))"
    if "subscription_step c a = Inr b" for a b c
    using that by (cases c) (auto simp: subscription_op_defs result_simps)
  show "subs_id b = subs_id a" if "subscription_step c a = Inr b" for a b c
    using that by (cases c) (auto simp: subscription_op_defs result_simps)
  show "\<exists>es. subs_domainEvents b = subs_domainEvents a @ es \<and>
      list_all (own_event Agg_WebhookSubscription (subs_id a)) es"
    if "subscription_step c a = Inr b" for a b c
    using that by (cases c) (auto simp: subscription_op_defs result_simps own_event_def)
qed

text \<open>
  A subscription is active only after a validation: the event of one stands in its list
  before the activation.
\<close>

definition was_validated :: "webhook_subscription \<Rightarrow> bool" where
  "was_validated s \<longleftrightarrow>
     SubscriptionEvent WebhookSubscriptionValidated \<in> set (map ev_name (subs_domainEvents s))"

fun post_validation_status :: "webhook_subscription_status \<Rightarrow> bool" where
  "post_validation_status Subs_validated = True"
| "post_validation_status Subs_active = True"
| "post_validation_status Subs_suspended = True"
| "post_validation_status _ = False"

definition subscription_wf :: "webhook_subscription \<Rightarrow> bool" where
  "subscription_wf s \<longleftrightarrow> (post_validation_status (subs_status s) \<longrightarrow> was_validated s)"

lemma webhookSubscriptionTransitions_into:
  "Subs_active \<in> set (webhookSubscriptionTransitions s) \<longleftrightarrow> s = Subs_validated \<or> s = Subs_suspended"
  "Subs_suspended \<in> set (webhookSubscriptionTransitions s) \<longleftrightarrow> s = Subs_active"
  by (cases s; simp)+

lemma createWebhookSubscription_wf: "createWebhookSubscription i u = Inr s \<Longrightarrow> subscription_wf s"
  by (auto simp: createWebhookSubscription_def subscription_wf_def)

lemma subscription_step_wf:
  "subscription_wf s \<Longrightarrow> subscription_step c s = Inr s' \<Longrightarrow> subscription_wf s'"
  by (cases c)
    (auto simp: subscription_op_defs result_simps subscription_wf_def was_validated_def
      webhookSubscriptionTransitions_into)

lemma subscription_history_wf:
  "subscription_wf s \<Longrightarrow> subscription_wf (history subscription_step cs s)"
  by (rule history_invariant [where P = subscription_wf]) (auto dest: subscription_step_wf)

section \<open>webhook-delivery.ts\<close>

fun webhookDeliveryTransitions :: "webhook_delivery_status \<Rightarrow> webhook_delivery_status list" where
  "webhookDeliveryTransitions Deliv_pending =
     [Deliv_delivering, Deliv_failed, Deliv_dead_letter, Deliv_cancelled]"
| "webhookDeliveryTransitions Deliv_delivering =
     [Deliv_delivered, Deliv_retrying, Deliv_failed, Deliv_dead_letter]"
| "webhookDeliveryTransitions Deliv_delivered = []"
| "webhookDeliveryTransitions Deliv_retrying =
     [Deliv_delivering, Deliv_failed, Deliv_dead_letter, Deliv_cancelled]"
| "webhookDeliveryTransitions Deliv_failed = []"
| "webhookDeliveryTransitions Deliv_dead_letter = []"
| "webhookDeliveryTransitions Deliv_cancelled = []"

record webhook_delivery =
  del_id :: identity
  del_webhookId :: identity
  del_sourceSignalRef :: string
  del_status :: webhook_delivery_status
  del_retryPolicy :: retry_policy
  del_attemptNumber :: "int option"
  del_failureCategory :: "failure_category option"
  del_deadLetterReason :: "dead_letter_reason option"
  del_domainEvents :: "domain_event list"

definition scheduleWebhookDelivery ::
    "identity \<Rightarrow> identity \<Rightarrow> string \<Rightarrow> retry_policy \<Rightarrow> webhook_delivery result" where
  "scheduleWebhookDelivery i webhookId sourceSignalRef retryPolicy =
     result_bind (createSafeDomainCode sourceSignalRef ''WebhookDelivery.sourceSignalRef'') (\<lambda>ref.
     result_bind
       (appendDomainEvent [] Agg_WebhookDelivery i (DeliveryEvent WebhookDeliveryScheduled))
       (\<lambda>evs. Inr
          \<lparr>del_id = i, del_webhookId = webhookId, del_sourceSignalRef = ref,
           del_status = Deliv_pending, del_retryPolicy = retryPolicy, del_attemptNumber = None,
           del_failureCategory = None, del_deadLetterReason = None, del_domainEvents = evs\<rparr>))"

definition transitionWebhookDelivery ::
    "webhook_delivery \<Rightarrow> webhook_delivery_status \<Rightarrow> webhook_delivery_event \<Rightarrow> int option \<Rightarrow>
     failure_category option \<Rightarrow> dead_letter_reason option \<Rightarrow> webhook_delivery result" where
  "transitionWebhookDelivery d status eventName attempt failure reason =
     result_bind
       (transitionStatus webhook_delivery_status_name (del_status d) status
          webhookDeliveryTransitions ''WebhookDelivery'')
       (\<lambda>next. result_bind
          (appendDomainEvent (del_domainEvents d) Agg_WebhookDelivery (del_id d)
             (DeliveryEvent eventName))
          (\<lambda>evs. Inr
             \<lparr>del_id = del_id d, del_webhookId = del_webhookId d,
              del_sourceSignalRef = del_sourceSignalRef d, del_status = next,
              del_retryPolicy = del_retryPolicy d,
              del_attemptNumber = nullish attempt (del_attemptNumber d),
              del_failureCategory = nullish failure (del_failureCategory d),
              del_deadLetterReason = nullish reason (del_deadLetterReason d),
              del_domainEvents = evs\<rparr>))"

definition startWebhookDelivery :: "webhook_delivery \<Rightarrow> int \<Rightarrow> webhook_delivery result" where
  "startWebhookDelivery d attemptNumber =
     transitionWebhookDelivery d Deliv_delivering WebhookDeliveryStarted (Some attemptNumber) None None"

definition succeedWebhookDelivery :: "webhook_delivery \<Rightarrow> webhook_delivery result" where
  "succeedWebhookDelivery d =
     transitionWebhookDelivery d Deliv_delivered WebhookDeliverySucceeded None None None"

definition assertDeliveryWithinRetryBudget :: "int \<Rightarrow> retry_policy \<Rightarrow> unit result" where
  "assertDeliveryWithinRetryBudget attemptNumber retryPolicy =
     (if rp_maxAttempts retryPolicy < attemptNumber
      then Inl (TypeError ''WebhookDelivery retry attempt exceeds retry policy.'')
      else Inr ())"

definition retryWebhookDelivery ::
    "webhook_delivery \<Rightarrow> int \<Rightarrow> failure_category \<Rightarrow> webhook_delivery result" where
  "retryWebhookDelivery d attemptNumber failureCategory =
     result_bind (assertDeliveryWithinRetryBudget attemptNumber (del_retryPolicy d)) (\<lambda>_.
       transitionWebhookDelivery d Deliv_retrying WebhookDeliveryRetryScheduled
         (Some attemptNumber) (Some failureCategory) None)"

definition failWebhookDelivery ::
    "webhook_delivery \<Rightarrow> failure_category \<Rightarrow> webhook_delivery result" where
  "failWebhookDelivery d failureCategory =
     transitionWebhookDelivery d Deliv_failed WebhookDeliveryFailed None (Some failureCategory) None"

definition deadLetterWebhookDelivery ::
    "webhook_delivery \<Rightarrow> dead_letter_reason \<Rightarrow> webhook_delivery result" where
  "deadLetterWebhookDelivery d reason =
     transitionWebhookDelivery d Deliv_dead_letter WebhookDeliveryDeadLettered None
       (Some (dlr_category reason)) (Some reason)"

definition cancelWebhookDelivery :: "webhook_delivery \<Rightarrow> webhook_delivery result" where
  "cancelWebhookDelivery d =
     transitionWebhookDelivery d Deliv_cancelled WebhookDeliveryCancelled None None None"

datatype delivery_command =
    StartDelivery int
  | SucceedDelivery
  | RetryDelivery int failure_category
  | FailDelivery failure_category
  | DeadLetterDelivery dead_letter_reason
  | CancelDelivery

fun delivery_step :: "delivery_command \<Rightarrow> webhook_delivery \<Rightarrow> webhook_delivery result" where
  "delivery_step (StartDelivery n) d = startWebhookDelivery d n"
| "delivery_step SucceedDelivery d = succeedWebhookDelivery d"
| "delivery_step (RetryDelivery n c) d = retryWebhookDelivery d n c"
| "delivery_step (FailDelivery c) d = failWebhookDelivery d c"
| "delivery_step (DeadLetterDelivery r) d = deadLetterWebhookDelivery d r"
| "delivery_step CancelDelivery d = cancelWebhookDelivery d"

lemmas delivery_op_defs =
  startWebhookDelivery_def succeedWebhookDelivery_def retryWebhookDelivery_def
  assertDeliveryWithinRetryBudget_def failWebhookDelivery_def deadLetterWebhookDelivery_def
  cancelWebhookDelivery_def transitionWebhookDelivery_def

interpretation delivery: aggregate_lifecycle del_status del_id del_domainEvents
  Agg_WebhookDelivery webhookDeliveryTransitions delivery_step
proof
  show "del_status b = del_status a \<or> del_status b \<in> set (webhookDeliveryTransitions (del_status a))"
    if "delivery_step c a = Inr b" for a b c
    using that by (cases c) (auto simp: delivery_op_defs result_simps)
  show "del_id b = del_id a" if "delivery_step c a = Inr b" for a b c
    using that by (cases c) (auto simp: delivery_op_defs result_simps)
  show "\<exists>es. del_domainEvents b = del_domainEvents a @ es \<and>
      list_all (own_event Agg_WebhookDelivery (del_id a)) es"
    if "delivery_step c a = Inr b" for a b c
    using that by (cases c) (auto simp: delivery_op_defs result_simps own_event_def)
qed

text \<open>
  A delivery that succeeded, or waits for a retry, was started with an attempt number; the
  attempt number of a retry is within the budget; dead letters carry their reason.
\<close>

definition delivery_wf :: "webhook_delivery \<Rightarrow> bool" where
  "delivery_wf d \<longleftrightarrow>
     (del_status d \<in> {Deliv_delivering, Deliv_delivered, Deliv_retrying} \<longrightarrow>
        del_attemptNumber d \<noteq> None) \<and>
     (\<forall>n. del_attemptNumber d = Some n \<longrightarrow> n \<le> rp_maxAttempts (del_retryPolicy d)) \<and>
     (del_status d = Deliv_dead_letter \<longleftrightarrow> del_deadLetterReason d \<noteq> None)"

fun starts_within :: "int \<Rightarrow> delivery_command \<Rightarrow> bool" where
  "starts_within m (StartDelivery n) \<longleftrightarrow> n \<le> m"
| "starts_within m _ \<longleftrightarrow> True"

lemma scheduleWebhookDelivery_wf: "scheduleWebhookDelivery i w r p = Inr d \<Longrightarrow> delivery_wf d"
  by (auto simp: scheduleWebhookDelivery_def delivery_wf_def result_simps)

lemma delivery_step_wf:
  assumes "delivery_wf d" "delivery_step c d = Inr d'"
    and "starts_within (rp_maxAttempts (del_retryPolicy d)) c"
  shows "delivery_wf d'"
  using assms
  by (cases c; cases "del_status d")
    (auto simp: delivery_op_defs transitionStatus_def delivery_wf_def split: if_splits)

lemma delivery_step_policy: "delivery_step c d = Inr d' \<Longrightarrow> del_retryPolicy d' = del_retryPolicy d"
  by (cases c) (auto simp: delivery_op_defs result_simps)

lemma delivery_history_wf:
  assumes "delivery_wf d \<and> del_retryPolicy d = p"
    and "list_all (starts_within (rp_maxAttempts p)) cs"
  shows "delivery_wf (history delivery_step cs d) \<and> del_retryPolicy (history delivery_step cs d) = p"
  using assms
proof (induction cs arbitrary: d)
  case Nil
  then show ?case by simp
next
  case (Cons c cs)
  have "delivery_wf (keep_on_throw (delivery_step c) d) \<and>
      del_retryPolicy (keep_on_throw (delivery_step c) d) = p"
    using Cons.prems
    by (cases "delivery_step c d") (auto simp: delivery_step_policy intro: delivery_step_wf)
  from Cons.IH [OF this] Cons.prems(2) show ?case by simp
qed

end
