(* ===== verification/MediaAssets.thy ===== *)
theory MediaAssets
  imports PolicyValues
begin

text \<open>\<open>packages/domain/src/media/media-asset.ts\<close>: the media asset and its lifecycle.\<close>

fun mediaAssetTransitions :: "media_asset_status \<Rightarrow> media_asset_status list" where
  "mediaAssetTransitions Asset_received = [Asset_accepted, Asset_failed, Asset_cleaned]"
| "mediaAssetTransitions Asset_accepted = [Asset_processing, Asset_failed, Asset_cleaned]"
| "mediaAssetTransitions Asset_processing = [Asset_processed, Asset_failed, Asset_cleaned]"
| "mediaAssetTransitions Asset_processed = [Asset_attached, Asset_failed, Asset_cleaned]"
| "mediaAssetTransitions Asset_attached = [Asset_cleaned]"
| "mediaAssetTransitions Asset_failed = [Asset_cleaned]"
| "mediaAssetTransitions Asset_cleaned = []"

record media_asset =
  ma_id :: identity
  ma_category :: media_category
  ma_status :: media_asset_status
  ma_retentionPolicy :: retention_policy
  ma_messageId :: "identity option"
  ma_failureCategory :: "failure_category option"
  ma_diagnosticCaptureRequested :: bool
  ma_domainEvents :: "domain_event list"

definition createMediaAsset :: "identity \<Rightarrow> media_category \<Rightarrow> retention_policy \<Rightarrow> media_asset" where
  "createMediaAsset i category retentionPolicy =
     \<lparr>ma_id = i, ma_category = category, ma_status = Asset_received,
      ma_retentionPolicy = retentionPolicy, ma_messageId = None, ma_failureCategory = None,
      ma_diagnosticCaptureRequested = False, ma_domainEvents = []\<rparr>"

definition transitionMediaAsset ::
    "media_asset \<Rightarrow> media_asset_status \<Rightarrow> media_event \<Rightarrow> identity option \<Rightarrow>
     failure_category option \<Rightarrow> media_asset result" where
  "transitionMediaAsset m status eventName messageId failure =
     result_bind
       (transitionStatus media_asset_status_name (ma_status m) status mediaAssetTransitions
          ''MediaAsset'')
       (\<lambda>next. result_bind
          (appendDomainEvent (ma_domainEvents m) Agg_MediaAsset (ma_id m) (MediaEvent eventName))
          (\<lambda>evs. Inr
             \<lparr>ma_id = ma_id m, ma_category = ma_category m, ma_status = next,
              ma_retentionPolicy = ma_retentionPolicy m,
              ma_messageId = nullish messageId (ma_messageId m),
              ma_failureCategory = nullish failure (ma_failureCategory m),
              ma_diagnosticCaptureRequested = ma_diagnosticCaptureRequested m,
              ma_domainEvents = evs\<rparr>))"

definition acceptMediaAsset :: "media_asset \<Rightarrow> media_asset result" where
  "acceptMediaAsset m = transitionMediaAsset m Asset_accepted MediaAccepted None None"

definition markMediaProcessing :: "media_asset \<Rightarrow> media_asset result" where
  "markMediaProcessing m = transitionMediaAsset m Asset_processing MediaProcessingStarted None None"

definition markMediaProcessed :: "media_asset \<Rightarrow> media_asset result" where
  "markMediaProcessed m = transitionMediaAsset m Asset_processed MediaProcessed None None"

definition attachMediaAsset :: "media_asset \<Rightarrow> identity \<Rightarrow> media_asset result" where
  "attachMediaAsset m messageId =
     transitionMediaAsset m Asset_attached MediaAttached (Some messageId) None"

definition failMediaAsset :: "media_asset \<Rightarrow> failure_category \<Rightarrow> media_asset result" where
  "failMediaAsset m failureCategory =
     transitionMediaAsset m Asset_failed MediaFailed None (Some failureCategory)"

definition cleanMediaAsset :: "media_asset \<Rightarrow> media_asset result" where
  "cleanMediaAsset m = transitionMediaAsset m Asset_cleaned MediaCleaned None None"

definition requestDiagnosticCapture :: "media_asset \<Rightarrow> media_asset result" where
  "requestDiagnosticCapture m =
     result_bind
       (assertNotTerminal media_asset_status_name (ma_status m) [Asset_cleaned] ''MediaAsset'')
       (\<lambda>_. result_map
          (\<lambda>evs. m\<lparr>ma_diagnosticCaptureRequested := True, ma_domainEvents := evs\<rparr>)
          (appendDomainEvent (ma_domainEvents m) Agg_MediaAsset (ma_id m)
             (MediaEvent DiagnosticCaptureRequested)))"

datatype media_command =
    AcceptMedia
  | ProcessMedia
  | MarkMediaProcessed
  | AttachMedia identity
  | FailMedia failure_category
  | CleanMedia
  | CaptureDiagnostics

fun media_step :: "media_command \<Rightarrow> media_asset \<Rightarrow> media_asset result" where
  "media_step AcceptMedia m = acceptMediaAsset m"
| "media_step ProcessMedia m = markMediaProcessing m"
| "media_step MarkMediaProcessed m = markMediaProcessed m"
| "media_step (AttachMedia g) m = attachMediaAsset m g"
| "media_step (FailMedia c) m = failMediaAsset m c"
| "media_step CleanMedia m = cleanMediaAsset m"
| "media_step CaptureDiagnostics m = requestDiagnosticCapture m"

lemmas media_op_defs =
  acceptMediaAsset_def markMediaProcessing_def markMediaProcessed_def attachMediaAsset_def
  failMediaAsset_def cleanMediaAsset_def requestDiagnosticCapture_def transitionMediaAsset_def

fun media_rank :: "media_asset_status \<Rightarrow> nat" where
  "media_rank Asset_received = 0"
| "media_rank Asset_accepted = 1"
| "media_rank Asset_processing = 2"
| "media_rank Asset_processed = 3"
| "media_rank Asset_attached = 4"
| "media_rank Asset_failed = 5"
| "media_rank Asset_cleaned = 6"

interpretation media: ranked_lifecycle ma_status ma_id ma_domainEvents Agg_MediaAsset
  mediaAssetTransitions media_step media_rank
proof
  show "ma_status b = ma_status a \<or> ma_status b \<in> set (mediaAssetTransitions (ma_status a))"
    if "media_step c a = Inr b" for a b c
    using that by (cases c) (auto simp: media_op_defs result_simps)
  show "ma_id b = ma_id a" if "media_step c a = Inr b" for a b c
    using that by (cases c) (auto simp: media_op_defs result_simps)
  show "\<exists>es. ma_domainEvents b = ma_domainEvents a @ es \<and>
      list_all (own_event Agg_MediaAsset (ma_id a)) es"
    if "media_step c a = Inr b" for a b c
    using that by (cases c) (auto simp: media_op_defs result_simps own_event_def)
  show "media_rank s < media_rank t" if "t \<in> set (mediaAssetTransitions s)" for s t
    using that by (cases s) auto
qed

text \<open>An attached asset belongs to a message, a failed one has its category.\<close>

definition media_wf :: "media_asset \<Rightarrow> bool" where
  "media_wf m \<longleftrightarrow>
     (ma_status m = Asset_attached \<longrightarrow> ma_messageId m \<noteq> None) \<and>
     (ma_status m = Asset_failed \<longrightarrow> ma_failureCategory m \<noteq> None)"

lemma media_step_wf: "media_wf m \<Longrightarrow> media_step c m = Inr m' \<Longrightarrow> media_wf m'"
  by (cases c) (auto simp: media_op_defs result_simps media_wf_def)

lemma createMediaAsset_wf: "media_wf (createMediaAsset i category p)"
  by (simp add: media_wf_def createMediaAsset_def)

lemma media_history_wf: "media_wf m \<Longrightarrow> media_wf (history media_step cs m)"
  by (rule history_invariant [where P = media_wf, OF _ media_step_wf])

end
