(* ===== verification/Governance.thy ===== *)
theory Governance
  imports PolicyValues
begin

text \<open>
  The control aggregates of \<open>packages/domain/src\<close>: guardrail decisions, provider profiles,
  access decisions, audit records, health statuses, configuration snapshots and telemetry
  signals.  Each has its table and operations, interprets the shared lifecycle contract, and
  has an invariant that ties its status to the facts the specifications rely on.
\<close>

section \<open>guardrails/guardrail-decision.ts\<close>

fun guardrailDecisionTransitions :: "guardrail_decision_status \<Rightarrow> guardrail_decision_status list" where
  "guardrailDecisionTransitions Guard_requested =
     [Guard_evaluated, Guard_passed, Guard_blocked, Guard_throttled, Guard_action_required,
      Guard_expired]"
| "guardrailDecisionTransitions Guard_evaluated =
     [Guard_passed, Guard_blocked, Guard_throttled, Guard_action_required, Guard_expired]"
| "guardrailDecisionTransitions Guard_passed = [Guard_expired]"
| "guardrailDecisionTransitions Guard_blocked = [Guard_expired]"
| "guardrailDecisionTransitions Guard_throttled = [Guard_expired]"
| "guardrailDecisionTransitions Guard_action_required = [Guard_expired]"
| "guardrailDecisionTransitions Guard_expired = []"

record guardrail_decision =
  gd_id :: identity
  gd_evaluatedIntentRef :: string
  gd_status :: guardrail_decision_status
  gd_outcome :: "guardrail_outcome option"
  gd_reasonCode :: "string option"
  gd_domainEvents :: "domain_event list"

definition requestGuardrailDecision :: "identity \<Rightarrow> string \<Rightarrow> guardrail_decision result" where
  "requestGuardrailDecision i evaluatedIntentRef =
     result_map
       (\<lambda>ref. \<lparr>gd_id = i, gd_evaluatedIntentRef = ref, gd_status = Guard_requested,
               gd_outcome = None, gd_reasonCode = None, gd_domainEvents = []\<rparr>)
       (createSafeDomainCode evaluatedIntentRef ''GuardrailDecision.evaluatedIntentRef'')"

definition transitionGuardrailDecision ::
    "guardrail_decision \<Rightarrow> guardrail_decision_status \<Rightarrow> guardrail_event \<Rightarrow>
     guardrail_outcome option \<Rightarrow> string option \<Rightarrow> guardrail_decision result" where
  "transitionGuardrailDecision d status eventName outcome reasonCode =
     result_bind
       (transitionStatus guardrail_decision_status_name (gd_status d) status
          guardrailDecisionTransitions ''GuardrailDecision'')
       (\<lambda>next. result_bind
          (case reasonCode of
             None \<Rightarrow> Inr None
           | Some r \<Rightarrow> result_map Some (createSafeDomainCode r ''GuardrailDecision.reasonCode''))
          (\<lambda>reason. result_bind
             (appendDomainEvent (gd_domainEvents d) Agg_GuardrailDecision (gd_id d)
                (GuardrailEvent eventName))
             (\<lambda>evs. Inr
                \<lparr>gd_id = gd_id d, gd_evaluatedIntentRef = gd_evaluatedIntentRef d,
                 gd_status = next, gd_outcome = nullish outcome (gd_outcome d),
                 gd_reasonCode = nullish reason (gd_reasonCode d), gd_domainEvents = evs\<rparr>)))"

definition evaluateGuardrailDecision :: "guardrail_decision \<Rightarrow> guardrail_decision result" where
  "evaluateGuardrailDecision d =
     transitionGuardrailDecision d Guard_evaluated GuardrailEvaluated None None"

definition passGuardrailDecision :: "guardrail_decision \<Rightarrow> string \<Rightarrow> guardrail_decision result" where
  "passGuardrailDecision d reasonCode =
     transitionGuardrailDecision d Guard_passed GuardrailPassed (Some Guardrail_allow)
       (Some reasonCode)"

definition blockGuardrailDecision :: "guardrail_decision \<Rightarrow> string \<Rightarrow> guardrail_decision result" where
  "blockGuardrailDecision d reasonCode =
     transitionGuardrailDecision d Guard_blocked GuardrailBlocked (Some Guardrail_block)
       (Some reasonCode)"

definition throttleGuardrailDecision ::
    "guardrail_decision \<Rightarrow> string \<Rightarrow> guardrail_decision result" where
  "throttleGuardrailDecision d reasonCode =
     transitionGuardrailDecision d Guard_throttled GuardrailThrottled (Some Guardrail_throttle)
       (Some reasonCode)"

definition requireGuardrailAction :: "guardrail_decision \<Rightarrow> string \<Rightarrow> guardrail_decision result" where
  "requireGuardrailAction d reasonCode =
     transitionGuardrailDecision d Guard_action_required GuardrailActionRequired
       (Some Guardrail_action_required) (Some reasonCode)"

datatype guardrail_command =
    EvaluateGuardrail
  | PassGuardrail string
  | BlockGuardrail string
  | ThrottleGuardrail string
  | RequireGuardrailAction string

fun guardrail_step :: "guardrail_command \<Rightarrow> guardrail_decision \<Rightarrow> guardrail_decision result" where
  "guardrail_step EvaluateGuardrail d = evaluateGuardrailDecision d"
| "guardrail_step (PassGuardrail r) d = passGuardrailDecision d r"
| "guardrail_step (BlockGuardrail r) d = blockGuardrailDecision d r"
| "guardrail_step (ThrottleGuardrail r) d = throttleGuardrailDecision d r"
| "guardrail_step (RequireGuardrailAction r) d = requireGuardrailAction d r"

lemmas guardrail_op_defs =
  evaluateGuardrailDecision_def passGuardrailDecision_def blockGuardrailDecision_def
  throttleGuardrailDecision_def requireGuardrailAction_def transitionGuardrailDecision_def

fun guardrail_rank :: "guardrail_decision_status \<Rightarrow> nat" where
  "guardrail_rank Guard_requested = 0"
| "guardrail_rank Guard_evaluated = 1"
| "guardrail_rank Guard_expired = 3"
| "guardrail_rank _ = 2"

interpretation guardrail: ranked_lifecycle gd_status gd_id gd_domainEvents Agg_GuardrailDecision
  guardrailDecisionTransitions guardrail_step guardrail_rank
proof
  show "gd_status b = gd_status a \<or> gd_status b \<in> set (guardrailDecisionTransitions (gd_status a))"
    if "guardrail_step c a = Inr b" for a b c
    using that by (cases c) (auto simp: guardrail_op_defs result_simps)
  show "gd_id b = gd_id a" if "guardrail_step c a = Inr b" for a b c
    using that by (cases c) (auto simp: guardrail_op_defs result_simps)
  show "\<exists>es. gd_domainEvents b = gd_domainEvents a @ es \<and>
      list_all (own_event Agg_GuardrailDecision (gd_id a)) es"
    if "guardrail_step c a = Inr b" for a b c
    using that by (cases c) (auto simp: guardrail_op_defs result_simps own_event_def)
  show "guardrail_rank s < guardrail_rank t" if "t \<in> set (guardrailDecisionTransitions s)" for s t
    using that by (cases s) auto
qed

text \<open>The outcome a decided status stands for; the outcome field agrees with it.\<close>

fun decided_outcome :: "guardrail_decision_status \<Rightarrow> guardrail_outcome option" where
  "decided_outcome Guard_passed = Some Guardrail_allow"
| "decided_outcome Guard_blocked = Some Guardrail_block"
| "decided_outcome Guard_throttled = Some Guardrail_throttle"
| "decided_outcome Guard_action_required = Some Guardrail_action_required"
| "decided_outcome _ = None"

definition guardrail_wf :: "guardrail_decision \<Rightarrow> bool" where
  "guardrail_wf d \<longleftrightarrow>
     (\<forall>out. decided_outcome (gd_status d) = Some out \<longrightarrow>
        gd_outcome d = Some out \<and> gd_reasonCode d \<noteq> None) \<and>
     (gd_status d = Guard_requested \<or> gd_status d = Guard_evaluated \<longrightarrow> gd_outcome d = None)"

lemma requestGuardrailDecision_wf: "requestGuardrailDecision i r = Inr d \<Longrightarrow> guardrail_wf d"
  by (auto simp: requestGuardrailDecision_def guardrail_wf_def result_simps)

lemma guardrailDecisionTransitions_evaluated:
  "Guard_evaluated \<in> set (guardrailDecisionTransitions s) \<longleftrightarrow> s = Guard_requested"
  by (cases s) auto

lemma guardrail_step_wf: "guardrail_wf d \<Longrightarrow> guardrail_step c d = Inr d' \<Longrightarrow> guardrail_wf d'"
  by (cases c)
    (auto simp: guardrail_op_defs result_simps guardrail_wf_def
      guardrailDecisionTransitions_evaluated)

lemma guardrail_history_wf: "guardrail_wf d \<Longrightarrow> guardrail_wf (history guardrail_step cs d)"
  by (rule history_invariant [where P = guardrail_wf, OF _ guardrail_step_wf])

section \<open>provider/provider-profile.ts\<close>

fun providerProfileTransitions :: "provider_profile_status \<Rightarrow> provider_profile_status list" where
  "providerProfileTransitions Prov_candidate =
     [Prov_supported, Prov_degraded, Prov_unsupported, Prov_retired]"
| "providerProfileTransitions Prov_supported = [Prov_degraded, Prov_unsupported, Prov_retired]"
| "providerProfileTransitions Prov_degraded = [Prov_supported, Prov_unsupported, Prov_retired]"
| "providerProfileTransitions Prov_unsupported = [Prov_candidate, Prov_retired]"
| "providerProfileTransitions Prov_retired = []"

record provider_profile =
  pp_id :: identity
  pp_providerKind :: string
  pp_status :: provider_profile_status
  pp_supportedMessageTypes :: "message_type list"
  pp_supportedGroupCapabilities :: "group_provider_capability list"
  pp_failureCategory :: "failure_category option"
  pp_domainEvents :: "domain_event list"

definition createProviderProfile :: "identity \<Rightarrow> string \<Rightarrow> provider_profile result" where
  "createProviderProfile i providerKind =
     result_map
       (\<lambda>k. \<lparr>pp_id = i, pp_providerKind = k, pp_status = Prov_candidate,
             pp_supportedMessageTypes = [], pp_supportedGroupCapabilities = [],
             pp_failureCategory = None, pp_domainEvents = []\<rparr>)
       (createSafeDomainCode providerKind ''ProviderProfile.providerKind'')"

definition transitionProviderProfile ::
    "provider_profile \<Rightarrow> provider_profile_status \<Rightarrow> provider_event option \<Rightarrow>
     message_type list option \<Rightarrow> group_provider_capability list option \<Rightarrow>
     failure_category option \<Rightarrow> provider_profile result" where
  "transitionProviderProfile p status eventName types capabilities failure =
     result_bind
       (transitionStatus provider_profile_status_name (pp_status p) status
          providerProfileTransitions ''ProviderProfile'')
       (\<lambda>next. result_bind
          (case eventName of
             None \<Rightarrow> Inr (pp_domainEvents p)
           | Some n \<Rightarrow>
               appendDomainEvent (pp_domainEvents p) Agg_ProviderProfile (pp_id p) (ProviderEvent n))
          (\<lambda>evs. Inr
             \<lparr>pp_id = pp_id p, pp_providerKind = pp_providerKind p, pp_status = next,
              pp_supportedMessageTypes = value_or types (pp_supportedMessageTypes p),
              pp_supportedGroupCapabilities =
                value_or capabilities (pp_supportedGroupCapabilities p),
              pp_failureCategory = nullish failure (pp_failureCategory p),
              pp_domainEvents = evs\<rparr>))"

definition markProviderSupported ::
    "provider_profile \<Rightarrow> message_type list \<Rightarrow> group_provider_capability list \<Rightarrow>
     provider_profile result" where
  "markProviderSupported p types capabilities =
     transitionProviderProfile p Prov_supported (Some ProviderProfileSupported) (Some types)
       (Some capabilities) None"

definition markProviderDegraded ::
    "provider_profile \<Rightarrow> failure_category \<Rightarrow> provider_profile result" where
  "markProviderDegraded p failureCategory =
     transitionProviderProfile p Prov_degraded (Some ProviderProfileDegraded) None None
       (Some failureCategory)"

definition markProviderUnsupported ::
    "provider_profile \<Rightarrow> failure_category \<Rightarrow> provider_profile result" where
  "markProviderUnsupported p failureCategory =
     transitionProviderProfile p Prov_unsupported (Some ProviderProfileUnsupported) None None
       (Some failureCategory)"

definition retireProviderProfile :: "provider_profile \<Rightarrow> provider_profile result" where
  "retireProviderProfile p = transitionProviderProfile p Prov_retired None None None None"

datatype provider_command =
    SupportProvider "message_type list" "group_provider_capability list"
  | DegradeProvider failure_category
  | UnsupportProvider failure_category
  | RetireProvider

fun provider_step :: "provider_command \<Rightarrow> provider_profile \<Rightarrow> provider_profile result" where
  "provider_step (SupportProvider ts cs) p = markProviderSupported p ts cs"
| "provider_step (DegradeProvider f) p = markProviderDegraded p f"
| "provider_step (UnsupportProvider f) p = markProviderUnsupported p f"
| "provider_step RetireProvider p = retireProviderProfile p"

lemmas provider_op_defs =
  markProviderSupported_def markProviderDegraded_def markProviderUnsupported_def
  retireProviderProfile_def transitionProviderProfile_def

interpretation provider: aggregate_lifecycle pp_status pp_id pp_domainEvents Agg_ProviderProfile
  providerProfileTransitions provider_step
proof
  show "pp_status b = pp_status a \<or> pp_status b \<in> set (providerProfileTransitions (pp_status a))"
    if "provider_step c a = Inr b" for a b c
    using that by (cases c) (auto simp: provider_op_defs result_simps)
  show "pp_id b = pp_id a" if "provider_step c a = Inr b" for a b c
    using that by (cases c) (auto simp: provider_op_defs result_simps)
  show "\<exists>es. pp_domainEvents b = pp_domainEvents a @ es \<and>
      list_all (own_event Agg_ProviderProfile (pp_id a)) es"
    if "provider_step c a = Inr b" for a b c
    using that by (cases c) (auto simp: provider_op_defs result_simps own_event_def)
qed

section \<open>security/access-decision.ts\<close>

fun accessDecisionTransitions :: "access_decision_status \<Rightarrow> access_decision_status list" where
  "accessDecisionTransitions Access_requested = [Access_granted, Access_denied, Access_expired]"
| "accessDecisionTransitions Access_granted = [Access_expired]"
| "accessDecisionTransitions Access_denied = [Access_expired]"
| "accessDecisionTransitions Access_expired = []"

record access_decision =
  ad_id :: identity
  ad_actorRef :: string
  ad_capability :: string
  ad_status :: access_decision_status
  ad_outcome :: "access_outcome option"
  ad_privileged :: bool
  ad_auditEligible :: bool
  ad_domainEvents :: "domain_event list"

definition requestAccessDecision :: "identity \<Rightarrow> string \<Rightarrow> string \<Rightarrow> access_decision result" where
  "requestAccessDecision i actorRef capability =
     result_bind (createSafeDomainCode actorRef ''AccessDecision.actorRef'') (\<lambda>a.
     result_bind (createSafeDomainCode capability ''AccessDecision.capability'') (\<lambda>c.
     Inr \<lparr>ad_id = i, ad_actorRef = a, ad_capability = c, ad_status = Access_requested,
          ad_outcome = None, ad_privileged = False, ad_auditEligible = False,
          ad_domainEvents = []\<rparr>))"

definition transitionAccessDecision ::
    "access_decision \<Rightarrow> access_decision_status \<Rightarrow> access_event \<Rightarrow> access_outcome option \<Rightarrow>
     access_decision result" where
  "transitionAccessDecision d status eventName outcome =
     result_bind
       (transitionStatus access_decision_status_name (ad_status d) status
          accessDecisionTransitions ''AccessDecision'')
       (\<lambda>next. result_bind
          (appendDomainEvent (ad_domainEvents d) Agg_AccessDecision (ad_id d)
             (AccessEvent eventName))
          (\<lambda>evs. Inr
             \<lparr>ad_id = ad_id d, ad_actorRef = ad_actorRef d, ad_capability = ad_capability d,
              ad_status = next, ad_outcome = nullish outcome (ad_outcome d),
              ad_privileged = ad_privileged d, ad_auditEligible = ad_auditEligible d,
              ad_domainEvents = evs\<rparr>))"

definition grantAccessDecision :: "access_decision \<Rightarrow> access_decision result" where
  "grantAccessDecision d =
     transitionAccessDecision d Access_granted AccessGranted (Some Outcome_granted)"

definition denyAccessDecision :: "access_decision \<Rightarrow> access_decision result" where
  "denyAccessDecision d =
     transitionAccessDecision d Access_denied AccessDenied (Some Outcome_denied)"

definition markPrivilegedAction :: "access_decision \<Rightarrow> access_decision result" where
  "markPrivilegedAction d =
     result_map
       (\<lambda>evs. d\<lparr>ad_privileged := True, ad_auditEligible := True, ad_domainEvents := evs\<rparr>)
       (appendDomainEvent (ad_domainEvents d) Agg_AccessDecision (ad_id d)
          (AccessEvent PrivilegedActionMarked))"

definition expireAccessDecision :: "access_decision \<Rightarrow> access_decision result" where
  "expireAccessDecision d = transitionAccessDecision d Access_expired AccessDecisionExpired None"

datatype access_command = GrantAccess | DenyAccess | MarkPrivileged | ExpireAccess

fun access_step :: "access_command \<Rightarrow> access_decision \<Rightarrow> access_decision result" where
  "access_step GrantAccess d = grantAccessDecision d"
| "access_step DenyAccess d = denyAccessDecision d"
| "access_step MarkPrivileged d = markPrivilegedAction d"
| "access_step ExpireAccess d = expireAccessDecision d"

lemmas access_op_defs =
  grantAccessDecision_def denyAccessDecision_def markPrivilegedAction_def expireAccessDecision_def
  transitionAccessDecision_def

fun access_rank :: "access_decision_status \<Rightarrow> nat" where
  "access_rank Access_requested = 0"
| "access_rank Access_granted = 1"
| "access_rank Access_denied = 1"
| "access_rank Access_expired = 2"

interpretation access: ranked_lifecycle ad_status ad_id ad_domainEvents Agg_AccessDecision
  accessDecisionTransitions access_step access_rank
proof
  show "ad_status b = ad_status a \<or> ad_status b \<in> set (accessDecisionTransitions (ad_status a))"
    if "access_step c a = Inr b" for a b c
    using that by (cases c) (auto simp: access_op_defs result_simps)
  show "ad_id b = ad_id a" if "access_step c a = Inr b" for a b c
    using that by (cases c) (auto simp: access_op_defs result_simps)
  show "\<exists>es. ad_domainEvents b = ad_domainEvents a @ es \<and>
      list_all (own_event Agg_AccessDecision (ad_id a)) es"
    if "access_step c a = Inr b" for a b c
    using that by (cases c) (auto simp: access_op_defs result_simps own_event_def)
  show "access_rank s < access_rank t" if "t \<in> set (accessDecisionTransitions s)" for s t
    using that by (cases s) auto
qed

definition access_wf :: "access_decision \<Rightarrow> bool" where
  "access_wf d \<longleftrightarrow>
     (ad_status d = Access_granted \<longrightarrow> ad_outcome d = Some Outcome_granted) \<and>
     (ad_status d = Access_denied \<longrightarrow> ad_outcome d = Some Outcome_denied) \<and>
     (ad_status d = Access_requested \<longrightarrow> ad_outcome d = None) \<and>
     (ad_privileged d \<longleftrightarrow> ad_auditEligible d)"

lemma requestAccessDecision_wf: "requestAccessDecision i a c = Inr d \<Longrightarrow> access_wf d"
  by (auto simp: requestAccessDecision_def access_wf_def result_simps)

lemma access_step_wf: "access_wf d \<Longrightarrow> access_step c d = Inr d' \<Longrightarrow> access_wf d'"
  by (cases c; cases "ad_status d")
    (simp_all add: access_op_defs result_simps access_wf_def transitionStatus_def,
     auto simp: access_wf_def)

section \<open>audit/audit-record.ts\<close>

fun auditRecordTransitions :: "audit_record_status \<Rightarrow> audit_record_status list" where
  "auditRecordTransitions Audit_requested = [Audit_recorded, Audit_retention_expired]"
| "auditRecordTransitions Audit_recorded = [Audit_retained, Audit_retention_expired]"
| "auditRecordTransitions Audit_retained = [Audit_retention_expired]"
| "auditRecordTransitions Audit_retention_expired = []"

record audit_record =
  ar_id :: identity
  ar_auditCategory :: string
  ar_status :: audit_record_status
  ar_retentionPolicy :: retention_policy
  ar_evidenceSummaryCode :: "string option"
  ar_redacted :: bool
  ar_domainEvents :: "domain_event list"

definition requestAuditRecord ::
    "identity \<Rightarrow> string \<Rightarrow> retention_policy \<Rightarrow> audit_record result" where
  "requestAuditRecord i auditCategory retentionPolicy =
     result_bind (createSafeDomainCode auditCategory ''AuditRecord.auditCategory'') (\<lambda>c.
     result_bind (appendDomainEvent [] Agg_AuditRecord i (AuditEvent AuditRecordRequested)) (\<lambda>evs.
     Inr \<lparr>ar_id = i, ar_auditCategory = c, ar_status = Audit_requested,
          ar_retentionPolicy = retentionPolicy, ar_evidenceSummaryCode = None,
          ar_redacted = False, ar_domainEvents = evs\<rparr>))"

definition transitionAuditRecord ::
    "audit_record \<Rightarrow> audit_record_status \<Rightarrow> audit_event option \<Rightarrow> string option \<Rightarrow>
     audit_record result" where
  "transitionAuditRecord r status eventName evidence =
     result_bind
       (transitionStatus audit_record_status_name (ar_status r) status auditRecordTransitions
          ''AuditRecord'')
       (\<lambda>next. result_bind
          (case evidence of
             None \<Rightarrow> Inr None
           | Some e \<Rightarrow> result_map Some (createSafeDomainCode e ''AuditRecord.evidenceSummaryCode''))
          (\<lambda>code. result_bind
             (case eventName of
                None \<Rightarrow> Inr (ar_domainEvents r)
              | Some n \<Rightarrow>
                  appendDomainEvent (ar_domainEvents r) Agg_AuditRecord (ar_id r) (AuditEvent n))
             (\<lambda>evs. Inr
                \<lparr>ar_id = ar_id r, ar_auditCategory = ar_auditCategory r, ar_status = next,
                 ar_retentionPolicy = ar_retentionPolicy r,
                 ar_evidenceSummaryCode = nullish code (ar_evidenceSummaryCode r),
                 ar_redacted = ar_redacted r, ar_domainEvents = evs\<rparr>)))"

definition recordAuditEvidence :: "audit_record \<Rightarrow> string \<Rightarrow> audit_record result" where
  "recordAuditEvidence r evidenceSummaryCode =
     transitionAuditRecord r Audit_recorded (Some AuditRecorded) (Some evidenceSummaryCode)"

definition applyAuditRedaction :: "audit_record \<Rightarrow> audit_record result" where
  "applyAuditRedaction r =
     result_map (\<lambda>evs. r\<lparr>ar_redacted := True, ar_domainEvents := evs\<rparr>)
       (appendDomainEvent (ar_domainEvents r) Agg_AuditRecord (ar_id r)
          (AuditEvent AuditRedactionApplied))"

definition retainAuditRecord :: "audit_record \<Rightarrow> audit_record result" where
  "retainAuditRecord r = transitionAuditRecord r Audit_retained None None"

definition expireAuditRetention :: "audit_record \<Rightarrow> audit_record result" where
  "expireAuditRetention r =
     transitionAuditRecord r Audit_retention_expired (Some AuditRetentionExpired) None"

datatype audit_command = RecordEvidence string | ApplyRedaction | RetainAudit | ExpireAudit

fun audit_step :: "audit_command \<Rightarrow> audit_record \<Rightarrow> audit_record result" where
  "audit_step (RecordEvidence e) r = recordAuditEvidence r e"
| "audit_step ApplyRedaction r = applyAuditRedaction r"
| "audit_step RetainAudit r = retainAuditRecord r"
| "audit_step ExpireAudit r = expireAuditRetention r"

lemmas audit_op_defs =
  recordAuditEvidence_def applyAuditRedaction_def retainAuditRecord_def expireAuditRetention_def
  transitionAuditRecord_def

fun audit_rank :: "audit_record_status \<Rightarrow> nat" where
  "audit_rank Audit_requested = 0"
| "audit_rank Audit_recorded = 1"
| "audit_rank Audit_retained = 2"
| "audit_rank Audit_retention_expired = 3"

interpretation audit: ranked_lifecycle ar_status ar_id ar_domainEvents Agg_AuditRecord
  auditRecordTransitions audit_step audit_rank
proof
  show "ar_status b = ar_status a \<or> ar_status b \<in> set (auditRecordTransitions (ar_status a))"
    if "audit_step c a = Inr b" for a b c
    using that by (cases c) (auto simp: audit_op_defs result_simps)
  show "ar_id b = ar_id a" if "audit_step c a = Inr b" for a b c
    using that by (cases c) (auto simp: audit_op_defs result_simps)
  show "\<exists>es. ar_domainEvents b = ar_domainEvents a @ es \<and>
      list_all (own_event Agg_AuditRecord (ar_id a)) es"
    if "audit_step c a = Inr b" for a b c
    using that by (cases c) (auto simp: audit_op_defs result_simps own_event_def)
  show "audit_rank s < audit_rank t" if "t \<in> set (auditRecordTransitions s)" for s t
    using that by (cases s) auto
qed

text \<open>Redaction is never undone, and recorded evidence has a code.\<close>

definition audit_wf :: "audit_record \<Rightarrow> bool" where
  "audit_wf r \<longleftrightarrow>
     (ar_status r = Audit_recorded \<or> ar_status r = Audit_retained \<longrightarrow>
        ar_evidenceSummaryCode r \<noteq> None) \<and>
     (\<forall>e. ar_evidenceSummaryCode r = Some e \<longrightarrow> isSafeDomainCode e)"

lemma requestAuditRecord_wf: "requestAuditRecord i c p = Inr r \<Longrightarrow> audit_wf r"
  by (auto simp: requestAuditRecord_def audit_wf_def result_simps)

lemma auditRecordTransitions_retained:
  "Audit_retained \<in> set (auditRecordTransitions s) \<longleftrightarrow> s = Audit_recorded"
  by (cases s) auto

lemma audit_step_wf: "audit_wf r \<Longrightarrow> audit_step c r = Inr r' \<Longrightarrow> audit_wf r'"
  by (cases c)
    (auto simp: audit_op_defs result_simps audit_wf_def auditRecordTransitions_retained
      dest: createSafeDomainCode_ok)

lemma audit_redaction_kept: "ar_redacted r \<Longrightarrow> ar_redacted (history audit_step cs r)"
proof (rule history_invariant [where P = ar_redacted])
  show "ar_redacted b" if "ar_redacted a" "audit_step c a = Inr b" for a b c
    using that by (cases c) (auto simp: audit_op_defs result_simps)
qed

section \<open>health/health-status.ts\<close>

record health_status =
  hs_id :: identity
  hs_subjectRef :: string
  hs_category :: health_category
  hs_causeCategory :: "string option"
  hs_domainEvents :: "domain_event list"

definition createHealthStatus :: "identity \<Rightarrow> string \<Rightarrow> health_status result" where
  "createHealthStatus i subjectRef =
     result_map
       (\<lambda>s. \<lparr>hs_id = i, hs_subjectRef = s, hs_category = Health_unknown, hs_causeCategory = None,
             hs_domainEvents = []\<rparr>)
       (createSafeDomainCode subjectRef ''HealthStatus.subjectRef'')"

definition classifyHealth ::
    "health_status \<Rightarrow> health_category \<Rightarrow> health_event \<Rightarrow> string option \<Rightarrow> health_status result" where
  "classifyHealth h category eventName causeCategory =
     result_bind
       (case causeCategory of
          None \<Rightarrow> Inr (hs_causeCategory h)
        | Some c \<Rightarrow> result_map Some (createSafeDomainCode c ''HealthStatus.causeCategory''))
       (\<lambda>cause. result_map
          (\<lambda>evs. \<lparr>hs_id = hs_id h, hs_subjectRef = hs_subjectRef h, hs_category = category,
                  hs_causeCategory = cause, hs_domainEvents = evs\<rparr>)
          (appendDomainEvent (hs_domainEvents h) Agg_HealthStatus (hs_id h) (HealthEvent eventName)))"

definition classifyHealthy :: "health_status \<Rightarrow> health_status result" where
  "classifyHealthy h = classifyHealth h Health_healthy HealthStatusChanged None"

definition classifyDegraded :: "health_status \<Rightarrow> string \<Rightarrow> health_status result" where
  "classifyDegraded h cause = classifyHealth h Health_degraded HealthDegraded (Some cause)"

definition classifyUnavailable :: "health_status \<Rightarrow> string \<Rightarrow> health_status result" where
  "classifyUnavailable h cause = classifyHealth h Health_unavailable HealthDegraded (Some cause)"

definition markHealthActionRequired :: "health_status \<Rightarrow> string \<Rightarrow> health_status result" where
  "markHealthActionRequired h cause =
     classifyHealth h Health_action_required HealthActionRequired (Some cause)"

definition markHealthRecovered :: "health_status \<Rightarrow> health_status result" where
  "markHealthRecovered h = classifyHealth h Health_recovered HealthRecovered None"

text \<open>Health has no table: any category may follow any other.\<close>

lemma classifyHealth_category:
  "classifyHealth h c n k = Inr h' \<Longrightarrow> hs_category h' = c \<and> hs_id h' = hs_id h"
  by (auto simp: classifyHealth_def result_simps)

section \<open>configuration/configuration-snapshot.ts\<close>

fun configurationSnapshotTransitions ::
    "configuration_snapshot_status \<Rightarrow> configuration_snapshot_status list" where
  "configurationSnapshotTransitions Config_proposed = [Config_validated, Config_rejected]"
| "configurationSnapshotTransitions Config_validated =
     [Config_active, Config_rejected, Config_retired]"
| "configurationSnapshotTransitions Config_rejected = [Config_retired]"
| "configurationSnapshotTransitions Config_active = [Config_superseded, Config_retired]"
| "configurationSnapshotTransitions Config_superseded = [Config_retired]"
| "configurationSnapshotTransitions Config_retired = []"

record configuration_snapshot =
  cs_id :: identity
  cs_status :: configuration_snapshot_status
  cs_safety :: configuration_safety
  cs_auditEligible :: bool
  cs_domainEvents :: "domain_event list"

definition proposeConfigurationSnapshot ::
    "identity \<Rightarrow> configuration_safety \<Rightarrow> configuration_snapshot" where
  "proposeConfigurationSnapshot i safety =
     \<lparr>cs_id = i, cs_status = Config_proposed, cs_safety = safety, cs_auditEligible = False,
      cs_domainEvents = []\<rparr>"

definition transitionConfigurationSnapshot ::
    "configuration_snapshot \<Rightarrow> configuration_snapshot_status \<Rightarrow> configuration_event \<Rightarrow>
     bool option \<Rightarrow> configuration_snapshot result" where
  "transitionConfigurationSnapshot s status eventName auditEligible =
     result_bind
       (transitionStatus configuration_snapshot_status_name (cs_status s) status
          configurationSnapshotTransitions ''ConfigurationSnapshot'')
       (\<lambda>next. result_bind
          (appendDomainEvent (cs_domainEvents s) Agg_ConfigurationSnapshot (cs_id s)
             (ConfigurationEvent eventName))
          (\<lambda>evs. Inr
             \<lparr>cs_id = cs_id s, cs_status = next, cs_safety = cs_safety s,
              cs_auditEligible = value_or auditEligible (cs_auditEligible s),
              cs_domainEvents = evs\<rparr>))"

definition validateConfigurationSnapshot ::
    "configuration_snapshot \<Rightarrow> configuration_snapshot result" where
  "validateConfigurationSnapshot s =
     (if cs_safety s \<noteq> Safety_valid
      then Inl (TypeError ''Only valid configuration can be validated.'')
      else transitionConfigurationSnapshot s Config_validated ConfigurationValidated None)"

definition rejectConfigurationSnapshot ::
    "configuration_snapshot \<Rightarrow> configuration_snapshot result" where
  "rejectConfigurationSnapshot s =
     transitionConfigurationSnapshot s Config_rejected ConfigurationRejected (Some True)"

definition rejectGuardrailBypassConfiguration ::
    "configuration_snapshot \<Rightarrow> configuration_snapshot result" where
  "rejectGuardrailBypassConfiguration s =
     (if cs_safety s \<noteq> Safety_guardrail_bypass_rejected
      then Inl (TypeError
        ''ConfigurationSnapshot must be classified as guardrail bypass rejected.'')
      else transitionConfigurationSnapshot s Config_rejected ConfigurationGuardrailBypassRejected
             (Some True))"

definition activateConfigurationSnapshot ::
    "configuration_snapshot \<Rightarrow> configuration_snapshot result" where
  "activateConfigurationSnapshot s =
     (if cs_status s \<noteq> Config_validated \<or> cs_safety s \<noteq> Safety_valid
      then Inl (TypeError ''Only validated safe configuration can become active.'')
      else transitionConfigurationSnapshot s Config_active ConfigurationActivated None)"

definition supersedeConfigurationSnapshot ::
    "configuration_snapshot \<Rightarrow> configuration_snapshot result" where
  "supersedeConfigurationSnapshot s =
     transitionConfigurationSnapshot s Config_superseded ConfigurationSuperseded None"

datatype configuration_command =
    ValidateConfiguration
  | RejectConfiguration
  | RejectGuardrailBypass
  | ActivateConfiguration
  | SupersedeConfiguration

fun configuration_step ::
    "configuration_command \<Rightarrow> configuration_snapshot \<Rightarrow> configuration_snapshot result" where
  "configuration_step ValidateConfiguration s = validateConfigurationSnapshot s"
| "configuration_step RejectConfiguration s = rejectConfigurationSnapshot s"
| "configuration_step RejectGuardrailBypass s = rejectGuardrailBypassConfiguration s"
| "configuration_step ActivateConfiguration s = activateConfigurationSnapshot s"
| "configuration_step SupersedeConfiguration s = supersedeConfigurationSnapshot s"

lemmas configuration_op_defs =
  validateConfigurationSnapshot_def rejectConfigurationSnapshot_def
  rejectGuardrailBypassConfiguration_def activateConfigurationSnapshot_def
  supersedeConfigurationSnapshot_def transitionConfigurationSnapshot_def

fun configuration_rank :: "configuration_snapshot_status \<Rightarrow> nat" where
  "configuration_rank Config_proposed = 0"
| "configuration_rank Config_validated = 1"
| "configuration_rank Config_rejected = 2"
| "configuration_rank Config_active = 2"
| "configuration_rank Config_superseded = 3"
| "configuration_rank Config_retired = 4"

interpretation configuration: ranked_lifecycle cs_status cs_id cs_domainEvents
  Agg_ConfigurationSnapshot configurationSnapshotTransitions configuration_step configuration_rank
proof
  show "cs_status b = cs_status a \<or>
      cs_status b \<in> set (configurationSnapshotTransitions (cs_status a))"
    if "configuration_step c a = Inr b" for a b c
    using that by (cases c) (auto simp: configuration_op_defs result_simps)
  show "cs_id b = cs_id a" if "configuration_step c a = Inr b" for a b c
    using that by (cases c) (auto simp: configuration_op_defs result_simps)
  show "\<exists>es. cs_domainEvents b = cs_domainEvents a @ es \<and>
      list_all (own_event Agg_ConfigurationSnapshot (cs_id a)) es"
    if "configuration_step c a = Inr b" for a b c
    using that by (cases c) (auto simp: configuration_op_defs result_simps own_event_def)
  show "configuration_rank s < configuration_rank t"
    if "t \<in> set (configurationSnapshotTransitions s)" for s t
    using that by (cases s) auto
qed

text \<open>
  A configuration that was ever validated, and so one that is active or superseded, is safe;
  a rejected one is eligible for audit.
\<close>

definition configuration_wf :: "configuration_snapshot \<Rightarrow> bool" where
  "configuration_wf s \<longleftrightarrow>
     (cs_status s = Config_validated \<or> cs_status s = Config_active \<or> cs_status s = Config_superseded
        \<longrightarrow> cs_safety s = Safety_valid) \<and>
     (cs_status s = Config_rejected \<longrightarrow> cs_auditEligible s)"

lemma proposeConfigurationSnapshot_wf: "configuration_wf (proposeConfigurationSnapshot i safety)"
  by (simp add: proposeConfigurationSnapshot_def configuration_wf_def)

lemma configurationSnapshotTransitions_superseded:
  "Config_superseded \<in> set (configurationSnapshotTransitions s) \<longleftrightarrow> s = Config_active"
  by (cases s) auto

lemma configuration_step_wf:
  "configuration_wf s \<Longrightarrow> configuration_step c s = Inr s' \<Longrightarrow> configuration_wf s'"
  by (cases c)
    (auto simp: configuration_op_defs result_simps configuration_wf_def
      configurationSnapshotTransitions_superseded)

lemma configuration_history_wf:
  "configuration_wf s \<Longrightarrow> configuration_wf (history configuration_step cs s)"
  by (rule history_invariant [where P = configuration_wf, OF _ configuration_step_wf])

section \<open>observability/telemetry-signal.ts\<close>

fun telemetrySignalTransitions :: "telemetry_signal_status \<Rightarrow> telemetry_signal_status list" where
  "telemetrySignalTransitions Tele_captured = [Tele_sanitized, Tele_dropped]"
| "telemetrySignalTransitions Tele_sanitized = [Tele_projected, Tele_dropped]"
| "telemetrySignalTransitions Tele_projected = []"
| "telemetrySignalTransitions Tele_dropped = []"

record telemetry_signal =
  ts_id :: identity
  ts_sourceContextRef :: string
  ts_status :: telemetry_signal_status
  ts_redacted :: bool
  ts_domainEvents :: "domain_event list"

definition captureTelemetrySignal :: "identity \<Rightarrow> string \<Rightarrow> telemetry_signal result" where
  "captureTelemetrySignal i sourceContextRef =
     result_bind (createSafeDomainCode sourceContextRef ''TelemetrySignal.sourceContextRef'') (\<lambda>r.
     result_bind
       (appendDomainEvent [] Agg_TelemetrySignal i (TelemetryEvent TelemetryCaptured)) (\<lambda>evs.
     Inr \<lparr>ts_id = i, ts_sourceContextRef = r, ts_status = Tele_captured, ts_redacted = False,
          ts_domainEvents = evs\<rparr>))"

definition transitionTelemetrySignal ::
    "telemetry_signal \<Rightarrow> telemetry_signal_status \<Rightarrow> telemetry_event \<Rightarrow> bool option \<Rightarrow>
     telemetry_signal result" where
  "transitionTelemetrySignal s status eventName redacted =
     result_bind
       (transitionStatus telemetry_signal_status_name (ts_status s) status
          telemetrySignalTransitions ''TelemetrySignal'')
       (\<lambda>next. result_bind
          (appendDomainEvent (ts_domainEvents s) Agg_TelemetrySignal (ts_id s)
             (TelemetryEvent eventName))
          (\<lambda>evs. Inr
             \<lparr>ts_id = ts_id s, ts_sourceContextRef = ts_sourceContextRef s, ts_status = next,
              ts_redacted = value_or redacted (ts_redacted s), ts_domainEvents = evs\<rparr>))"

definition sanitizeTelemetrySignal :: "telemetry_signal \<Rightarrow> telemetry_signal result" where
  "sanitizeTelemetrySignal s =
     transitionTelemetrySignal s Tele_sanitized TelemetrySanitized (Some True)"

definition projectTelemetrySignal :: "telemetry_signal \<Rightarrow> telemetry_signal result" where
  "projectTelemetrySignal s = transitionTelemetrySignal s Tele_projected TelemetryProjected None"

definition dropTelemetrySignal :: "telemetry_signal \<Rightarrow> telemetry_signal result" where
  "dropTelemetrySignal s = transitionTelemetrySignal s Tele_dropped TelemetryDropped (Some True)"

datatype telemetry_command = SanitizeSignal | ProjectSignal | DropSignal

fun telemetry_step :: "telemetry_command \<Rightarrow> telemetry_signal \<Rightarrow> telemetry_signal result" where
  "telemetry_step SanitizeSignal s = sanitizeTelemetrySignal s"
| "telemetry_step ProjectSignal s = projectTelemetrySignal s"
| "telemetry_step DropSignal s = dropTelemetrySignal s"

lemmas telemetry_op_defs =
  sanitizeTelemetrySignal_def projectTelemetrySignal_def dropTelemetrySignal_def
  transitionTelemetrySignal_def

fun telemetry_rank :: "telemetry_signal_status \<Rightarrow> nat" where
  "telemetry_rank Tele_captured = 0"
| "telemetry_rank Tele_sanitized = 1"
| "telemetry_rank Tele_projected = 2"
| "telemetry_rank Tele_dropped = 2"

interpretation telemetry: ranked_lifecycle ts_status ts_id ts_domainEvents Agg_TelemetrySignal
  telemetrySignalTransitions telemetry_step telemetry_rank
proof
  show "ts_status b = ts_status a \<or> ts_status b \<in> set (telemetrySignalTransitions (ts_status a))"
    if "telemetry_step c a = Inr b" for a b c
    using that by (cases c) (auto simp: telemetry_op_defs result_simps)
  show "ts_id b = ts_id a" if "telemetry_step c a = Inr b" for a b c
    using that by (cases c) (auto simp: telemetry_op_defs result_simps)
  show "\<exists>es. ts_domainEvents b = ts_domainEvents a @ es \<and>
      list_all (own_event Agg_TelemetrySignal (ts_id a)) es"
    if "telemetry_step c a = Inr b" for a b c
    using that by (cases c) (auto simp: telemetry_op_defs result_simps own_event_def)
  show "telemetry_rank s < telemetry_rank t" if "t \<in> set (telemetrySignalTransitions s)" for s t
    using that by (cases s) auto
qed

text \<open>Only redacted telemetry is projected.\<close>

definition telemetry_wf :: "telemetry_signal \<Rightarrow> bool" where
  "telemetry_wf s \<longleftrightarrow> ts_status s \<noteq> Tele_captured \<longrightarrow> ts_redacted s"

lemma captureTelemetrySignal_wf: "captureTelemetrySignal i r = Inr s \<Longrightarrow> telemetry_wf s"
  by (auto simp: captureTelemetrySignal_def telemetry_wf_def result_simps)

lemma telemetrySignalTransitions_projected:
  "Tele_projected \<in> set (telemetrySignalTransitions s) \<longleftrightarrow> s = Tele_sanitized"
  by (cases s) auto

lemma telemetry_step_wf: "telemetry_wf s \<Longrightarrow> telemetry_step c s = Inr s' \<Longrightarrow> telemetry_wf s'"
  by (cases c)
    (auto simp: telemetry_op_defs result_simps telemetry_wf_def
      telemetrySignalTransitions_projected)

lemma telemetry_history_wf: "telemetry_wf s \<Longrightarrow> telemetry_wf (history telemetry_step cs s)"
  by (rule history_invariant [where P = telemetry_wf, OF _ telemetry_step_wf])

end
