(* ===== verification/Specifications.thy ===== *)
theory Specifications
  imports Messages Instances WorkerJobs Webhooks MediaAssets Governance
begin

text \<open>
  \<open>packages/domain/src/specifications/domain-specifications.ts\<close>: the side-effect free
  questions the application asks before it acts.  A specification answers \<open>Passed\<close> or a domain
  error that names its category, owner and reason; building that error validates the reason
  code and could throw, so each specification is a \<open>result\<close>.  The lemmas \<open>..._eq\<close> show that
  none throws and give its answer on every branch.
\<close>

section \<open>Inputs\<close>

datatype intent_scope =
    Scope_single_message | Scope_broadcast | Scope_campaign | Scope_group_admin | Scope_automation

record can_send_message_input =
  csi_messageType :: string
  csi_session :: "session option"
  csi_guardrailDecision :: "guardrail_decision option"
  csi_providerProfile :: "provider_profile option"
  csi_mediaAsset :: "media_asset option"
  csi_intentScope :: intent_scope

record webhook_deliverability_input =
  wdi_subscription :: "webhook_subscription option"
  wdi_sourceSignalRef :: string
  wdi_dataClassification :: data_classification
  wdi_idempotencyKeyPresent :: bool
  wdi_signalSelected :: bool

record audit_evidence_safety_input =
  aes_sourceSignalRef :: string
  aes_dataClassification :: data_classification
  aes_redacted :: bool
  aes_retentionCategoryPresent :: bool

record telemetry_projection_safety_input =
  tps_dataClassification :: data_classification
  tps_redacted :: bool
  tps_correlationSafe :: bool
  tps_projectionCategoryApproved :: bool

section \<open>The specifications\<close>

definition isSupportedMessageType :: "string \<Rightarrow> bool" where
  "isSupportedMessageType value \<longleftrightarrow> value \<in> set (map message_type_name supportedMessageTypes)"

definition isMessageTypeSupported :: "string \<Rightarrow> specification_result result" where
  "isMessageTypeSupported value =
     (if isSupportedMessageType value then Inr passSpecification
      else failSpecification Cat_unsupported_capability Owner_messaging
             ''unsupported_message_type'' ''Message type is outside MVP send scope.''
             Rec_design_blocked)"

definition isMediaTypeSupported :: "string \<Rightarrow> specification_result result" where
  "isMediaTypeSupported value =
     (if value \<in> set (map media_category_name mediaCategories) then Inr passSpecification
      else failSpecification Cat_unsupported_capability Owner_media
             ''unsupported_media_type'' ''Media category is outside MVP media scope.''
             Rec_design_blocked)"

definition session_usable :: "session option \<Rightarrow> bool" where
  "session_usable s \<longleftrightarrow>
     (case s of None \<Rightarrow> False
      | Some s \<Rightarrow> sess_status s = Sess_active \<and> \<not> sess_requiresRecovery s)"

definition isSessionUsable :: "session option \<Rightarrow> specification_result result" where
  "isSessionUsable s =
     (if session_usable s then Inr passSpecification
      else failSpecification Cat_business_rule_violation Owner_session
             ''session_not_usable'' ''Session must be active and not recovery-required.''
             Rec_operator_correctable)"

definition guardrail_passing :: "guardrail_decision option \<Rightarrow> string option \<Rightarrow> bool" where
  "guardrail_passing decision evaluatedIntentRef \<longleftrightarrow>
     (case decision of None \<Rightarrow> False
      | Some d \<Rightarrow> gd_outcome d = Some Guardrail_allow \<and> gd_status d = Guard_passed \<and>
          (evaluatedIntentRef = None \<or> evaluatedIntentRef = Some (gd_evaluatedIntentRef d)))"

definition isGuardrailDecisionPassing ::
    "guardrail_decision option \<Rightarrow> string option \<Rightarrow> specification_result result" where
  "isGuardrailDecisionPassing decision evaluatedIntentRef =
     (if guardrail_passing decision evaluatedIntentRef then Inr passSpecification
      else failSpecification Cat_policy_violation Owner_guardrails
             ''guardrail_not_passing'' ''Guardrail decision must explicitly allow the same intent.''
             Rec_caller_correctable)"

definition provider_available :: "provider_profile \<Rightarrow> bool" where
  "provider_available p \<longleftrightarrow> pp_status p = Prov_supported \<or> pp_status p = Prov_degraded"

definition isProviderCapabilitySupported ::
    "provider_profile option \<Rightarrow> message_type \<Rightarrow> specification_result result" where
  "isProviderCapabilitySupported profile messageType =
     (if (case profile of None \<Rightarrow> False
          | Some p \<Rightarrow> provider_available p \<and> messageType \<in> set (pp_supportedMessageTypes p))
      then Inr passSpecification
      else failSpecification Cat_unsupported_capability Owner_provider_integration
             ''provider_capability_not_supported''
             ''Provider profile does not support the approved product capability.''
             Rec_operator_correctable)"

definition isGroupProviderCapabilitySupported ::
    "provider_profile option \<Rightarrow> group_provider_capability \<Rightarrow> specification_result result" where
  "isGroupProviderCapabilitySupported profile capability =
     (if (case profile of None \<Rightarrow> False
          | Some p \<Rightarrow> provider_available p \<and> capability \<in> set (pp_supportedGroupCapabilities p))
      then Inr passSpecification
      else failSpecification Cat_unsupported_capability Owner_group
             ''group_provider_capability_not_supported''
             ''Provider profile does not support the approved group capability.''
             Rec_operator_correctable)"

text \<open>The category is compared with the message type as text, as the source does.\<close>

definition media_matches :: "media_asset \<Rightarrow> message_type \<Rightarrow> bool" where
  "media_matches m messageType \<longleftrightarrow>
     media_category_name (ma_category m) = message_type_name messageType \<and>
     (ma_status m = Asset_processed \<or> ma_status m = Asset_attached)"

definition isMediaReadyForMessage ::
    "media_asset option \<Rightarrow> message_type \<Rightarrow> specification_result result" where
  "isMediaReadyForMessage mediaAsset messageType =
     (if messageType = Type_text then Inr passSpecification
      else case mediaAsset of
        None \<Rightarrow>
          failSpecification Cat_business_rule_violation Owner_media ''media_required''
            ''Media-bearing message requires a media asset.'' Rec_caller_correctable
      | Some m \<Rightarrow>
          if \<not> media_matches m messageType
          then failSpecification Cat_business_rule_violation Owner_media ''media_not_ready''
                 ''Media asset must match the message type and be processed or attached.''
                 Rec_caller_correctable
          else Inr passSpecification)"

text \<open>The checks are all evaluated before the first failing one is chosen.\<close>

fun evaluate_all :: "'a result list \<Rightarrow> 'a list result" where
  "evaluate_all [] = Inr []"
| "evaluate_all (r # rs) = result_bind r (\<lambda>x. result_map ((#) x) (evaluate_all rs))"

definition first_failing :: "specification_result list \<Rightarrow> specification_result" where
  "first_failing checks =
     value_or (List.find (\<lambda>r. \<not> isSpecificationPass r) checks) passSpecification"

definition canSendMessage :: "can_send_message_input \<Rightarrow> specification_result result" where
  "canSendMessage input =
     result_bind (isMessageTypeSupported (csi_messageType input)) (\<lambda>typeResult.
       if \<not> isSpecificationPass typeResult then Inr typeResult
       else if csi_intentScope input \<noteq> Scope_single_message
       then failSpecification Cat_unsupported_capability Owner_messaging
              ''unsupported_intent_scope''
              ''Broadcast, campaign, group administration, and automation scope are out of MVP.''
              Rec_design_blocked
       else case narrow message_type_name supportedMessageTypes (csi_messageType input) of
         None \<Rightarrow> Inr typeResult
       | Some messageType \<Rightarrow>
           result_map first_failing
             (evaluate_all
               [isSessionUsable (csi_session input),
                isGuardrailDecisionPassing (csi_guardrailDecision input) None,
                isProviderCapabilitySupported (csi_providerProfile input) messageType,
                isMediaReadyForMessage (csi_mediaAsset input) messageType]))"

definition canReconnectInstance :: "string \<Rightarrow> bool \<Rightarrow> bool \<Rightarrow> specification_result result" where
  "canReconnectInstance instanceStatus sessionUsableOrRecoverable concurrentReconnectActive =
     (if instanceStatus \<noteq> ''destroyed'' \<and> instanceStatus \<noteq> ''logged_out'' \<and>
         sessionUsableOrRecoverable \<and> \<not> concurrentReconnectActive
      then Inr passSpecification
      else failSpecification Cat_invalid_state_transition Owner_instance
             ''reconnect_not_allowed''
             ''Instance reconnect requires recoverable instance/session state.''
             Rec_operator_correctable)"

definition isWebhookSubscriptionActive ::
    "webhook_subscription option \<Rightarrow> specification_result result" where
  "isWebhookSubscriptionActive subscription =
     (if (case subscription of None \<Rightarrow> False | Some s \<Rightarrow> subs_status s = Subs_active)
      then Inr passSpecification
      else failSpecification Cat_invalid_state_transition Owner_webhook_delivery
             ''webhook_subscription_not_active''
             ''Webhook subscription must be active before delivery scheduling.''
             Rec_caller_correctable)"

definition isWebhookDeliverable ::
    "webhook_deliverability_input \<Rightarrow> specification_result result" where
  "isWebhookDeliverable input =
     result_bind (isWebhookSubscriptionActive (wdi_subscription input)) (\<lambda>activeResult.
       if \<not> isSpecificationPass activeResult then Inr activeResult
       else if \<not> wdi_signalSelected input \<or> wdi_dataClassification input = Data_secret \<or>
               \<not> wdi_idempotencyKeyPresent input
       then failSpecification
              (if wdi_dataClassification input = Data_secret then Cat_sensitive_data_violation
               else Cat_policy_violation)
              Owner_webhook_delivery ''webhook_not_deliverable''
              ''Webhook delivery requires selected signal, safe data, and idempotency.''
              Rec_caller_correctable
       else Inr passSpecification)"

definition canRetryWebhookDelivery :: "webhook_delivery \<Rightarrow> jsnum \<Rightarrow> specification_result result" where
  "canRetryWebhookDelivery delivery nextAttempt =
     (if del_status delivery \<notin> {Deliv_delivered, Deliv_dead_letter, Deliv_cancelled, Deliv_failed} \<and>
         (case as_int nextAttempt of None \<Rightarrow> False
          | Some n \<Rightarrow> n \<le> rp_maxAttempts (del_retryPolicy delivery))
      then Inr passSpecification
      else failSpecification Cat_policy_violation Owner_webhook_delivery
             ''webhook_retry_not_allowed''
             ''Webhook retry requires non-terminal state and remaining retry budget.''
             Rec_time_correctable)"

definition canReserveWorkerJob :: "worker_job \<Rightarrow> specification_result result" where
  "canReserveWorkerJob job =
     (if job_status job = Job_queued \<or> job_status job = Job_retrying then Inr passSpecification
      else failSpecification Cat_invalid_state_transition Owner_operations
             ''worker_job_not_reservable''
             ''WorkerJob can only be reserved from queued or retrying state.''
             Rec_time_correctable)"

definition canCompleteWorkerJob :: "worker_job \<Rightarrow> bool \<Rightarrow> specification_result result" where
  "canCompleteWorkerJob job resultClassificationSafe =
     (if job_status job = Job_running \<and> resultClassificationSafe then Inr passSpecification
      else failSpecification Cat_consistency_error Owner_operations
             ''worker_job_not_completable''
             ''WorkerJob completion requires running state and safe result classification.''
             Rec_caller_correctable)"

definition canPerformPrivilegedMutation ::
    "access_decision option \<Rightarrow> string \<Rightarrow> specification_result result" where
  "canPerformPrivilegedMutation decision capability =
     (if (case decision of None \<Rightarrow> False
          | Some d \<Rightarrow> ad_status d = Access_granted \<and> ad_outcome d = Some Outcome_granted \<and>
              ad_capability d = capability \<and> ad_auditEligible d)
      then Inr passSpecification
      else failSpecification Cat_access_decision_violation Owner_security_access
             ''privileged_access_not_granted''
             ''Privileged mutation requires granted access and audit eligibility.''
             Rec_caller_correctable)"

definition canActivateConfiguration ::
    "configuration_snapshot \<Rightarrow> bool \<Rightarrow> specification_result result" where
  "canActivateConfiguration snapshot accessGranted =
     (if cs_status snapshot = Config_validated \<and> cs_safety snapshot = Safety_valid \<and> accessGranted
      then Inr passSpecification
      else failSpecification
             (if cs_safety snapshot = Safety_guardrail_bypass_rejected then Cat_policy_violation
              else Cat_configuration_domain_error)
             Owner_configuration ''configuration_not_activatable''
             ''Configuration must be validated, safe, and access-approved before activation.''
             Rec_caller_correctable)"

definition isAuditEvidenceSafe :: "audit_evidence_safety_input \<Rightarrow> specification_result result" where
  "isAuditEvidenceSafe input =
     (if 0 < length (aes_sourceSignalRef input) \<and> aes_dataClassification input \<noteq> Data_secret \<and>
         (aes_dataClassification input \<noteq> Data_confidential \<or> aes_redacted input) \<and>
         aes_retentionCategoryPresent input
      then Inr passSpecification
      else failSpecification
             (if aes_dataClassification input = Data_secret then Cat_sensitive_data_violation
              else Cat_retention_rule_violation)
             Owner_audit ''audit_evidence_not_safe''
             ''Audit evidence requires safe source, redaction, and explicit retention.''
             Rec_caller_correctable)"

definition isTelemetryProjectionSafe ::
    "telemetry_projection_safety_input \<Rightarrow> specification_result result" where
  "isTelemetryProjectionSafe input =
     (if tps_dataClassification input \<noteq> Data_secret \<and>
         (tps_dataClassification input \<noteq> Data_confidential \<or> tps_redacted input) \<and>
         tps_correlationSafe input \<and> tps_projectionCategoryApproved input
      then Inr passSpecification
      else failSpecification Cat_sensitive_data_violation Owner_observability
             ''telemetry_projection_not_safe''
             ''Telemetry projection requires sanitized data and safe correlation.''
             Rec_caller_correctable)"

section \<open>No specification throws\<close>

text \<open>The literal codes and messages satisfy the validators of \<open>createDomainError\<close>.\<close>

lemma spec_codes [simp]:
  "isSafeDomainCode ''unsupported_message_type''"
  "isSafeDomainCode ''unsupported_media_type''"
  "isSafeDomainCode ''session_not_usable''"
  "isSafeDomainCode ''guardrail_not_passing''"
  "isSafeDomainCode ''provider_capability_not_supported''"
  "isSafeDomainCode ''group_provider_capability_not_supported''"
  "isSafeDomainCode ''media_required''"
  "isSafeDomainCode ''media_not_ready''"
  "isSafeDomainCode ''unsupported_intent_scope''"
  "isSafeDomainCode ''reconnect_not_allowed''"
  "isSafeDomainCode ''webhook_subscription_not_active''"
  "isSafeDomainCode ''webhook_not_deliverable''"
  "isSafeDomainCode ''webhook_retry_not_allowed''"
  "isSafeDomainCode ''worker_job_not_reservable''"
  "isSafeDomainCode ''worker_job_not_completable''"
  "isSafeDomainCode ''privileged_access_not_granted''"
  "isSafeDomainCode ''configuration_not_activatable''"
  "isSafeDomainCode ''audit_evidence_not_safe''"
  "isSafeDomainCode ''telemetry_projection_not_safe''"
  by code_simp+

lemma spec_messages [simp]:
  "js_trim ''Message type is outside MVP send scope.'' =
     ''Message type is outside MVP send scope.''"
  "js_trim ''Media category is outside MVP media scope.'' =
     ''Media category is outside MVP media scope.''"
  "js_trim ''Session must be active and not recovery-required.'' =
     ''Session must be active and not recovery-required.''"
  "js_trim ''Guardrail decision must explicitly allow the same intent.'' =
     ''Guardrail decision must explicitly allow the same intent.''"
  "js_trim ''Provider profile does not support the approved product capability.'' =
     ''Provider profile does not support the approved product capability.''"
  "js_trim ''Provider profile does not support the approved group capability.'' =
     ''Provider profile does not support the approved group capability.''"
  "js_trim ''Media-bearing message requires a media asset.'' =
     ''Media-bearing message requires a media asset.''"
  "js_trim ''Media asset must match the message type and be processed or attached.'' =
     ''Media asset must match the message type and be processed or attached.''"
  "js_trim ''Broadcast, campaign, group administration, and automation scope are out of MVP.'' =
     ''Broadcast, campaign, group administration, and automation scope are out of MVP.''"
  "js_trim ''Instance reconnect requires recoverable instance/session state.'' =
     ''Instance reconnect requires recoverable instance/session state.''"
  "js_trim ''Webhook subscription must be active before delivery scheduling.'' =
     ''Webhook subscription must be active before delivery scheduling.''"
  "js_trim ''Webhook delivery requires selected signal, safe data, and idempotency.'' =
     ''Webhook delivery requires selected signal, safe data, and idempotency.''"
  "js_trim ''Webhook retry requires non-terminal state and remaining retry budget.'' =
     ''Webhook retry requires non-terminal state and remaining retry budget.''"
  "js_trim ''WorkerJob can only be reserved from queued or retrying state.'' =
     ''WorkerJob can only be reserved from queued or retrying state.''"
  "js_trim ''WorkerJob completion requires running state and safe result classification.'' =
     ''WorkerJob completion requires running state and safe result classification.''"
  "js_trim ''Privileged mutation requires granted access and audit eligibility.'' =
     ''Privileged mutation requires granted access and audit eligibility.''"
  "js_trim ''Configuration must be validated, safe, and access-approved before activation.'' =
     ''Configuration must be validated, safe, and access-approved before activation.''"
  "js_trim ''Audit evidence requires safe source, redaction, and explicit retention.'' =
     ''Audit evidence requires safe source, redaction, and explicit retention.''"
  "js_trim ''Telemetry projection requires sanitized data and safe correlation.'' =
     ''Telemetry projection requires sanitized data and safe correlation.''"
  by code_simp+

definition domain_failure ::
    "domain_error_category \<Rightarrow> domain_owner_context \<Rightarrow> string \<Rightarrow> string \<Rightarrow> recoverability \<Rightarrow>
     specification_result" where
  "domain_failure c w code msg r =
     Failed \<lparr>err_category = c, err_ownerContext = w, err_reasonCode = code, err_message = msg,
             err_recoverability = r, err_context = None\<rparr>"

lemma domain_failure_not_passed [simp]:
  "domain_failure c w code msg r \<noteq> Passed" "Passed \<noteq> domain_failure c w code msg r"
  by (simp_all add: domain_failure_def)

lemma failSpecification_domain [simp]:
  "isSafeDomainCode code \<Longrightarrow> js_trim msg = msg \<Longrightarrow> msg \<noteq> [] \<Longrightarrow>
     failSpecification c w code msg r = Inr (domain_failure c w code msg r)"
  by (simp add: failSpecification_returns domain_failure_def)

lemma isSpecificationPass_iff [simp]: "isSpecificationPass r \<longleftrightarrow> r = Passed"
  by (simp add: isSpecificationPass_def split: specification_result.splits)

lemma passSpecification_Passed [simp]: "passSpecification = Passed"
  by (simp add: passSpecification_def)

named_theorems spec_answers \<open>the answer of each specification\<close>

lemma isMessageTypeSupported_eq [spec_answers]:
  "isMessageTypeSupported v =
     Inr (if isSupportedMessageType v then Passed
          else domain_failure Cat_unsupported_capability Owner_messaging
                 ''unsupported_message_type'' ''Message type is outside MVP send scope.''
                 Rec_design_blocked)"
  by (simp add: isMessageTypeSupported_def)

lemma isMediaTypeSupported_eq [spec_answers]:
  "isMediaTypeSupported v =
     Inr (if v \<in> set (map media_category_name mediaCategories) then Passed
          else domain_failure Cat_unsupported_capability Owner_media
                 ''unsupported_media_type'' ''Media category is outside MVP media scope.''
                 Rec_design_blocked)"
  by (simp add: isMediaTypeSupported_def)

lemma isSessionUsable_eq [spec_answers]:
  "isSessionUsable s =
     Inr (if session_usable s then Passed
          else domain_failure Cat_business_rule_violation Owner_session ''session_not_usable''
                 ''Session must be active and not recovery-required.'' Rec_operator_correctable)"
  by (simp add: isSessionUsable_def)

lemma isGuardrailDecisionPassing_eq [spec_answers]:
  "isGuardrailDecisionPassing d i =
     Inr (if guardrail_passing d i then Passed
          else domain_failure Cat_policy_violation Owner_guardrails ''guardrail_not_passing''
                 ''Guardrail decision must explicitly allow the same intent.''
                 Rec_caller_correctable)"
  by (simp add: isGuardrailDecisionPassing_def)

definition provider_sends :: "provider_profile option \<Rightarrow> message_type \<Rightarrow> bool" where
  "provider_sends p t \<longleftrightarrow>
     (\<exists>q. p = Some q \<and> provider_available q \<and> t \<in> set (pp_supportedMessageTypes q))"

definition media_ready :: "media_asset option \<Rightarrow> message_type \<Rightarrow> bool" where
  "media_ready m t \<longleftrightarrow> t = Type_text \<or> (\<exists>a. m = Some a \<and> media_matches a t)"

lemma isProviderCapabilitySupported_passes:
  "isProviderCapabilitySupported p t = Inr r \<Longrightarrow> r = Passed \<longleftrightarrow> provider_sends p t"
  by (auto simp: isProviderCapabilitySupported_def provider_sends_def split: if_splits option.splits)

lemma isProviderCapabilitySupported_eq [spec_answers]:
  "isProviderCapabilitySupported p t =
     Inr (if provider_sends p t then Passed
          else domain_failure Cat_unsupported_capability Owner_provider_integration
                 ''provider_capability_not_supported''
                 ''Provider profile does not support the approved product capability.''
                 Rec_operator_correctable)"
  by (cases p) (auto simp: isProviderCapabilitySupported_def provider_sends_def)

lemma isMediaReadyForMessage_answers [spec_answers]:
  "isMediaReadyForMessage m t =
     Inr (if media_ready m t then Passed
          else if m = None
          then domain_failure Cat_business_rule_violation Owner_media ''media_required''
                 ''Media-bearing message requires a media asset.'' Rec_caller_correctable
          else domain_failure Cat_business_rule_violation Owner_media ''media_not_ready''
                 ''Media asset must match the message type and be processed or attached.''
                 Rec_caller_correctable)"
  by (cases m) (auto simp: isMediaReadyForMessage_def media_ready_def)

section \<open>Sending a message\<close>

lemma isSupportedMessageType_iff: "isSupportedMessageType v \<longleftrightarrow> (\<exists>t. v = message_type_name t)"
  using message_type.complete by (auto simp: isSupportedMessageType_def)

text \<open>The five conditions of a permitted send, as one predicate.\<close>

definition send_permitted :: "can_send_message_input \<Rightarrow> message_type \<Rightarrow> bool" where
  "send_permitted input t \<longleftrightarrow>
     csi_intentScope input = Scope_single_message \<and> session_usable (csi_session input) \<and>
     guardrail_passing (csi_guardrailDecision input) None \<and>
     provider_sends (csi_providerProfile input) t \<and> media_ready (csi_mediaAsset input) t"

lemma canSendMessage_typed:
  assumes "csi_messageType input = message_type_name t"
    and "csi_intentScope input = Scope_single_message"
  shows "canSendMessage input =
     Inr (first_failing
           [projr (isSessionUsable (csi_session input)),
            projr (isGuardrailDecisionPassing (csi_guardrailDecision input) None),
            projr (isProviderCapabilitySupported (csi_providerProfile input) t),
            projr (isMediaReadyForMessage (csi_mediaAsset input) t)])"
proof -
  have "isSupportedMessageType (csi_messageType input)"
    using assms(1) isSupportedMessageType_iff by auto
  then show ?thesis
    using assms by (simp add: canSendMessage_def spec_answers)
qed

lemma canSendMessage_answers: "\<exists>r. canSendMessage input = Inr r"
proof (cases "isSupportedMessageType (csi_messageType input) \<and>
    csi_intentScope input = Scope_single_message")
  case True
  then obtain t where "csi_messageType input = message_type_name t"
    using isSupportedMessageType_iff by blast
  then show ?thesis using True canSendMessage_typed by blast
next
  case False
  then show ?thesis by (auto simp: canSendMessage_def spec_answers)
qed

lemma first_failing_Passed: "first_failing rs = Passed \<longleftrightarrow> (\<forall>r \<in> set rs. r = Passed)"
  by (induction rs) (auto simp: first_failing_def)

lemma canSendMessage_passes:
  "canSendMessage input = Inr Passed \<longleftrightarrow>
     (\<exists>t. csi_messageType input = message_type_name t \<and> send_permitted input t)"
proof (cases "isSupportedMessageType (csi_messageType input) \<and>
    csi_intentScope input = Scope_single_message")
  case True
  then obtain t where t: "csi_messageType input = message_type_name t"
    using isSupportedMessageType_iff by blast
  then have "canSendMessage input = Inr Passed \<longleftrightarrow> send_permitted input t"
    using True
    by (simp add: canSendMessage_typed first_failing_Passed spec_answers send_permitted_def)
  with t show ?thesis by auto
next
  case False
  then show ?thesis
    by (auto simp: canSendMessage_def spec_answers isSupportedMessageType_iff send_permitted_def)
qed

section \<open>The remaining answers\<close>

lemma isGroupProviderCapabilitySupported_passes [spec_answers]:
  "isGroupProviderCapabilitySupported p c = Inr Passed \<longleftrightarrow>
     (\<exists>q. p = Some q \<and> provider_available q \<and> c \<in> set (pp_supportedGroupCapabilities q))"
  by (cases p) (auto simp: isGroupProviderCapabilitySupported_def)

lemma canReconnectInstance_passes [spec_answers]:
  "canReconnectInstance s u c = Inr Passed \<longleftrightarrow>
     s \<noteq> ''destroyed'' \<and> s \<noteq> ''logged_out'' \<and> u \<and> \<not> c"
  by (auto simp: canReconnectInstance_def)

lemma isWebhookSubscriptionActive_eq [spec_answers]:
  "isWebhookSubscriptionActive s =
     Inr (if (\<exists>t. s = Some t \<and> subs_status t = Subs_active) then Passed
          else domain_failure Cat_invalid_state_transition Owner_webhook_delivery
                 ''webhook_subscription_not_active''
                 ''Webhook subscription must be active before delivery scheduling.''
                 Rec_caller_correctable)"
  by (cases s) (auto simp: isWebhookSubscriptionActive_def)

lemma isWebhookDeliverable_passes [spec_answers]:
  "isWebhookDeliverable input = Inr Passed \<longleftrightarrow>
     (\<exists>s. wdi_subscription input = Some s \<and> subs_status s = Subs_active) \<and>
     wdi_signalSelected input \<and> wdi_dataClassification input \<noteq> Data_secret \<and>
     wdi_idempotencyKeyPresent input"
  by (auto simp: isWebhookDeliverable_def spec_answers)

lemma canRetryWebhookDelivery_passes [spec_answers]:
  "canRetryWebhookDelivery d n = Inr Passed \<longleftrightarrow>
     del_status d \<in> {Deliv_pending, Deliv_delivering, Deliv_retrying} \<and>
     (\<exists>k. n = num_of k \<and> k \<le> rp_maxAttempts (del_retryPolicy d))"
  by (cases "del_status d"; cases "as_int n")
    (auto simp: canRetryWebhookDelivery_def as_int_Some_iff)

lemma canReserveWorkerJob_passes [spec_answers]:
  "canReserveWorkerJob job = Inr Passed \<longleftrightarrow> job_status job = Job_queued \<or> job_status job = Job_retrying"
  by (simp add: canReserveWorkerJob_def)

lemma canCompleteWorkerJob_passes [spec_answers]:
  "canCompleteWorkerJob job safe = Inr Passed \<longleftrightarrow> job_status job = Job_running \<and> safe"
  by (simp add: canCompleteWorkerJob_def)

lemma canPerformPrivilegedMutation_passes [spec_answers]:
  "canPerformPrivilegedMutation d c = Inr Passed \<longleftrightarrow>
     (\<exists>a. d = Some a \<and> ad_status a = Access_granted \<and> ad_outcome a = Some Outcome_granted \<and>
          ad_capability a = c \<and> ad_auditEligible a)"
  by (cases d) (auto simp: canPerformPrivilegedMutation_def)

lemma canActivateConfiguration_passes [spec_answers]:
  "canActivateConfiguration s g = Inr Passed \<longleftrightarrow>
     cs_status s = Config_validated \<and> cs_safety s = Safety_valid \<and> g"
  by (auto simp: canActivateConfiguration_def)

lemma isAuditEvidenceSafe_passes [spec_answers]:
  "isAuditEvidenceSafe i = Inr Passed \<longleftrightarrow>
     aes_sourceSignalRef i \<noteq> [] \<and> aes_dataClassification i \<noteq> Data_secret \<and>
     (aes_dataClassification i = Data_confidential \<longrightarrow> aes_redacted i) \<and>
     aes_retentionCategoryPresent i"
  by (auto simp: isAuditEvidenceSafe_def)

lemma isTelemetryProjectionSafe_passes [spec_answers]:
  "isTelemetryProjectionSafe i = Inr Passed \<longleftrightarrow>
     tps_dataClassification i \<noteq> Data_secret \<and>
     (tps_dataClassification i = Data_confidential \<longrightarrow> tps_redacted i) \<and>
     tps_correlationSafe i \<and> tps_projectionCategoryApproved i"
  by (auto simp: isTelemetryProjectionSafe_def)

lemma specifications_answer:
  "\<exists>r. isGroupProviderCapabilitySupported p c = Inr r"
  "\<exists>r. canReconnectInstance s u x = Inr r"
  "\<exists>r. isWebhookDeliverable w = Inr r"
  "\<exists>r. canRetryWebhookDelivery d n = Inr r"
  "\<exists>r. canReserveWorkerJob job = Inr r"
  "\<exists>r. canCompleteWorkerJob job safe = Inr r"
  "\<exists>r. canPerformPrivilegedMutation a cap = Inr r"
  "\<exists>r. canActivateConfiguration snap g = Inr r"
  "\<exists>r. isAuditEvidenceSafe ae = Inr r"
  "\<exists>r. isTelemetryProjectionSafe te = Inr r"
  by (simp_all add: isGroupProviderCapabilitySupported_def canReconnectInstance_def
      isWebhookDeliverable_def isWebhookSubscriptionActive_eq canRetryWebhookDelivery_def
      canReserveWorkerJob_def canCompleteWorkerJob_def canPerformPrivilegedMutation_def
      canActivateConfiguration_def isAuditEvidenceSafe_def isTelemetryProjectionSafe_def)

end
