(* ===== verification/Policies.thy ===== *)
theory Policies
  imports Specifications
begin

text \<open>
  \<open>packages/domain/src/policies/domain-policies.ts\<close>, which turns specifications into policy
  outcomes, and \<open>packages/domain/src/services/domain-services.ts\<close>, the decisions the
  application handlers ask for.  The lemmas state when each decision permits the action, that
  none throws, and that the retry decisions agree with what the aggregates then accept.
\<close>

section \<open>policies/domain-policies.ts\<close>

record policy_decision =
  pd_outcome :: policy_outcome
  pd_specification :: specification_result

record compliance_guardrail_input =
  cgi_intentScope :: intent_scope
  cgi_rateLimitAllowed :: bool
  cgi_abuseRiskDetected :: bool
  cgi_configurationSafety :: string
  cgi_direction :: message_direction

definition decisionFromSpecification ::
    "specification_result result \<Rightarrow> policy_outcome \<Rightarrow> policy_outcome \<Rightarrow> policy_decision result" where
  "decisionFromSpecification specification passOutcome failOutcome =
     result_map
       (\<lambda>s. \<lparr>pd_outcome = if isSpecificationPass s then passOutcome else failOutcome,
             pd_specification = s\<rparr>)
       specification"

text \<open>The policies that build their decision inline: the failure is only built when needed.\<close>

definition decide_inline ::
    "bool \<Rightarrow> policy_outcome \<Rightarrow> policy_outcome \<Rightarrow> specification_result result \<Rightarrow>
     policy_decision result" where
  "decide_inline valid passOutcome failOutcome failure =
     (if valid then Inr \<lparr>pd_outcome = passOutcome, pd_specification = Passed\<rparr>
      else result_map (\<lambda>s. \<lparr>pd_outcome = failOutcome, pd_specification = s\<rparr>) failure)"

definition evaluateMessageSendingPolicy :: "can_send_message_input \<Rightarrow> policy_decision result" where
  "evaluateMessageSendingPolicy input =
     decisionFromSpecification (canSendMessage input) Policy_allow Policy_reject"

definition translated_status_texts :: "string list" where
  "translated_status_texts = [''sent'', ''delivered'', ''read'', ''failed'']"

definition evaluateMessageStatusPolicy :: "string \<Rightarrow> bool \<Rightarrow> policy_decision result" where
  "evaluateMessageStatusPolicy translatedStatus staleObservation =
     decide_inline (\<not> staleObservation \<and> translatedStatus \<in> set translated_status_texts)
       Policy_allow Policy_reject
       (failSpecification Cat_external_signal_classification_error Owner_messaging
          ''message_status_not_translated'' ''Message status must be translated and non-stale.''
          Rec_time_correctable)"

definition evaluateWebhookRetryPolicy :: "webhook_delivery \<Rightarrow> jsnum \<Rightarrow> policy_decision result" where
  "evaluateWebhookRetryPolicy delivery nextAttempt =
     decisionFromSpecification (canRetryWebhookDelivery delivery nextAttempt)
       Policy_retry Policy_dead_letter"

definition evaluateWorkerJobRetryPolicy :: "worker_job \<Rightarrow> jsnum \<Rightarrow> policy_decision result" where
  "evaluateWorkerJobRetryPolicy job nextAttempt =
     decide_inline
       (job_status job \<notin> {Job_completed, Job_dead} \<and>
        (case as_int nextAttempt of None \<Rightarrow> False
         | Some n \<Rightarrow> n \<le> rp_maxAttempts (job_retryPolicy job)))
       Policy_retry Policy_dead_letter
       (failSpecification Cat_policy_violation Owner_operations ''worker_retry_not_allowed''
          ''WorkerJob retry requires non-terminal state and remaining retry budget.''
          Rec_time_correctable)"

definition evaluateSessionRevocationPolicy :: "session \<Rightarrow> policy_decision result" where
  "evaluateSessionRevocationPolicy s =
     decisionFromSpecification (isSessionUsable (Some s)) Policy_allow Policy_action_required"

definition evaluateInstanceConnectionPolicy ::
    "session option \<Rightarrow> bool \<Rightarrow> bool \<Rightarrow> policy_decision result" where
  "evaluateInstanceConnectionPolicy s translatedProviderReady providerActionRequired =
     result_bind (isSessionUsable s) (\<lambda>usable.
       decide_inline
         (isSpecificationPass usable \<and> translatedProviderReady \<and> \<not> providerActionRequired)
         Policy_allow (if providerActionRequired then Policy_action_required else Policy_reject)
         (failSpecification Cat_business_rule_violation Owner_instance ''instance_not_send_capable''
            ''Instance requires usable session and translated provider readiness.''
            Rec_operator_correctable))"

definition evaluateMediaRetentionPolicy ::
    "media_asset \<Rightarrow> bool \<Rightarrow> bool \<Rightarrow> policy_decision result" where
  "evaluateMediaRetentionPolicy media diagnosticCaptureRequested retentionBounded =
     decide_inline
       (ma_status media \<noteq> Asset_cleaned \<and> (\<not> diagnosticCaptureRequested \<or> retentionBounded))
       Policy_allow Policy_reject
       (failSpecification Cat_retention_rule_violation Owner_media ''media_retention_not_allowed''
          ''Media retention requires explicit bounded retention.'' Rec_caller_correctable)"

definition evaluateComplianceGuardrailPolicy ::
    "compliance_guardrail_input \<Rightarrow> guardrail_outcome" where
  "evaluateComplianceGuardrailPolicy input =
     (if cgi_configurationSafety input = ''guardrail_bypass_rejected'' \<or> cgi_abuseRiskDetected input
      then Guardrail_block
      else if \<not> cgi_rateLimitAllowed input then Guardrail_throttle
      else if cgi_direction input \<noteq> Dir_outbound \<or> cgi_intentScope input \<noteq> Scope_single_message
      then Guardrail_action_required
      else Guardrail_allow)"

definition evaluateProviderCapabilityPolicy ::
    "provider_profile option \<Rightarrow> message_type \<Rightarrow> policy_decision result" where
  "evaluateProviderCapabilityPolicy profile messageType =
     decisionFromSpecification (isProviderCapabilitySupported profile messageType)
       Policy_allow Policy_reject"

definition evaluateGroupProviderCapabilityPolicy ::
    "provider_profile option \<Rightarrow> group_provider_capability \<Rightarrow> policy_decision result" where
  "evaluateGroupProviderCapabilityPolicy profile capability =
     decisionFromSpecification (isGroupProviderCapabilitySupported profile capability)
       Policy_allow Policy_reject"

definition evaluateConfigurationSafetyPolicy ::
    "configuration_snapshot \<Rightarrow> bool \<Rightarrow> policy_decision result" where
  "evaluateConfigurationSafetyPolicy snapshot accessGranted =
     decisionFromSpecification (canActivateConfiguration snapshot accessGranted)
       Policy_allow Policy_reject"

definition evaluateAuditRedactionPolicy ::
    "audit_evidence_safety_input \<Rightarrow> policy_decision result" where
  "evaluateAuditRedactionPolicy input =
     decisionFromSpecification (isAuditEvidenceSafe input) Policy_allow Policy_reject"

definition evaluatePrivilegedActionPolicy ::
    "access_decision option \<Rightarrow> string \<Rightarrow> policy_decision result" where
  "evaluatePrivilegedActionPolicy decision capability =
     decisionFromSpecification (canPerformPrivilegedMutation decision capability)
       Policy_allow Policy_reject"

definition evaluateHealthProjectionPolicy :: "bool \<Rightarrow> string \<Rightarrow> policy_decision" where
  "evaluateHealthProjectionPolicy sourceSignalActionable previousHealth =
     \<lparr>pd_outcome =
        (if sourceSignalActionable \<or> previousHealth \<noteq> ''healthy'' then Policy_allow
         else Policy_reject),
      pd_specification = Passed\<rparr>"

definition evaluateTelemetrySafetyPolicy ::
    "telemetry_projection_safety_input \<Rightarrow> policy_decision result" where
  "evaluateTelemetrySafetyPolicy input =
     decisionFromSpecification (isTelemetryProjectionSafe input) Policy_allow Policy_reject"

definition evaluateWebhookSchedulingPolicy ::
    "webhook_deliverability_input \<Rightarrow> policy_decision result" where
  "evaluateWebhookSchedulingPolicy input =
     decisionFromSpecification (isWebhookDeliverable input) Policy_allow Policy_reject"

definition isUnsafeForExternalDelivery :: "data_classification \<Rightarrow> bool" where
  "isUnsafeForExternalDelivery c \<longleftrightarrow> c = Data_secret"

section \<open>services/domain-services.ts\<close>

record delivery_status_decision =
  dsd_accepted :: bool
  dsd_nextStatus :: "message_status option"
  dsd_reasonCode :: string

datatype recommended_status =
    Recommend_connected | Recommend_disconnected | Recommend_logged_out | Recommend_action_required

record instance_readiness_decision =
  ird_sendCapable :: bool
  ird_recommendedStatus :: recommended_status
  ird_specification :: specification_result

record session_recovery_decision =
  srd_usable :: bool
  srd_requiresRecovery :: bool
  srd_cleanupEligible :: bool
  srd_specification :: specification_result

record retry_eligibility_decision =
  red_retryable :: bool
  red_policy :: policy_decision

definition decideMessageAcceptance :: "can_send_message_input \<Rightarrow> policy_decision result" where
  "decideMessageAcceptance input = evaluateMessageSendingPolicy input"

definition classifyMessageDeliveryStatus :: "string \<Rightarrow> bool \<Rightarrow> delivery_status_decision" where
  "classifyMessageDeliveryStatus translatedStatus staleObservation =
     (if staleObservation
      then \<lparr>dsd_accepted = False, dsd_nextStatus = None, dsd_reasonCode = ''stale_observation''\<rparr>
      else if translatedStatus \<in> set translated_status_texts
      then \<lparr>dsd_accepted = True,
            dsd_nextStatus = narrow message_status_name messageStatuses translatedStatus,
            dsd_reasonCode = ''translated_status_accepted''\<rparr>
      else \<lparr>dsd_accepted = False, dsd_nextStatus = None,
            dsd_reasonCode = ''unsupported_translated_status''\<rparr>)"

definition decideInstanceReadiness ::
    "wa_instance \<Rightarrow> session option \<Rightarrow> bool \<Rightarrow> bool \<Rightarrow> bool \<Rightarrow> instance_readiness_decision result"
  where
  "decideInstanceReadiness i s translatedProviderReady providerLoggedOut providerActionRequired =
     result_map
       (\<lambda>sessionSpec.
          let sendCapable = inst_status i \<noteq> Inst_destroyed \<and> translatedProviderReady \<and>
                isSpecificationPass sessionSpec
          in if sendCapable
             then \<lparr>ird_sendCapable = True, ird_recommendedStatus = Recommend_connected,
                   ird_specification = sessionSpec\<rparr>
             else \<lparr>ird_sendCapable = False,
                   ird_recommendedStatus =
                     (if providerLoggedOut then Recommend_logged_out
                      else if providerActionRequired then Recommend_action_required
                      else Recommend_disconnected),
                   ird_specification = sessionSpec\<rparr>)
       (isSessionUsable s)"

definition decideReconnectEligibility ::
    "wa_instance \<Rightarrow> bool \<Rightarrow> bool \<Rightarrow> specification_result result" where
  "decideReconnectEligibility i sessionUsableOrRecoverable concurrentReconnectActive =
     canReconnectInstance (instance_status_name (inst_status i)) sessionUsableOrRecoverable
       concurrentReconnectActive"

definition decideSessionRecovery :: "session \<Rightarrow> session_recovery_decision result" where
  "decideSessionRecovery s =
     result_map
       (\<lambda>specification.
          \<lparr>srd_usable = isSpecificationPass specification,
           srd_requiresRecovery =
             (sess_requiresRecovery s \<or> sess_status s = Sess_expired \<or> sess_status s = Sess_revoked),
           srd_cleanupEligible = (sess_status s \<in> {Sess_expired, Sess_revoked, Sess_cleanup}),
           srd_specification = specification\<rparr>)
       (isSessionUsable (Some s))"

definition decideWebhookScheduling :: "webhook_deliverability_input \<Rightarrow> policy_decision result" where
  "decideWebhookScheduling input =
     result_map
       (\<lambda>s. \<lparr>pd_outcome = if isSpecificationPass s then Policy_allow else Policy_reject,
             pd_specification = s\<rparr>)
       (isWebhookDeliverable input)"

definition decideWebhookDeliveryForSubscription ::
    "webhook_deliverability_input \<Rightarrow> policy_decision result" where
  "decideWebhookDeliveryForSubscription input = decideWebhookScheduling input"

datatype retry_eligibility_input =
    DeliveryEligibility webhook_delivery jsnum
  | JobEligibility worker_job jsnum

definition decideRetryEligibility ::
    "retry_eligibility_input \<Rightarrow> retry_eligibility_decision result" where
  "decideRetryEligibility input =
     result_map
       (\<lambda>policy. \<lparr>red_retryable = (pd_outcome policy = Policy_retry), red_policy = policy\<rparr>)
       (case input of
          DeliveryEligibility delivery nextAttempt \<Rightarrow> evaluateWebhookRetryPolicy delivery nextAttempt
        | JobEligibility job nextAttempt \<Rightarrow> evaluateWorkerJobRetryPolicy job nextAttempt)"

definition decideMediaReadiness ::
    "media_asset option \<Rightarrow> message_type \<Rightarrow> specification_result result" where
  "decideMediaReadiness media messageType = isMediaReadyForMessage media messageType"

definition decideGuardrailEvaluation :: "compliance_guardrail_input \<Rightarrow> guardrail_outcome" where
  "decideGuardrailEvaluation input = evaluateComplianceGuardrailPolicy input"

definition classifyProviderCompatibility ::
    "provider_profile option \<Rightarrow> message_type \<Rightarrow> policy_decision result" where
  "classifyProviderCompatibility profile messageType =
     evaluateProviderCapabilityPolicy profile messageType"

definition decideAuditEvidenceSafety :: "audit_evidence_safety_input \<Rightarrow> policy_decision result" where
  "decideAuditEvidenceSafety input = evaluateAuditRedactionPolicy input"

definition decideHealthClassification :: "bool \<Rightarrow> string \<Rightarrow> policy_decision" where
  "decideHealthClassification sourceSignalActionable previousHealth =
     evaluateHealthProjectionPolicy sourceSignalActionable previousHealth"

definition decideConfigurationActivation ::
    "configuration_snapshot \<Rightarrow> bool \<Rightarrow> policy_decision result" where
  "decideConfigurationActivation snapshot accessGranted =
     evaluateConfigurationSafetyPolicy snapshot accessGranted"

definition decideTelemetryProjection ::
    "telemetry_projection_safety_input \<Rightarrow> policy_decision result" where
  "decideTelemetryProjection input = evaluateTelemetrySafetyPolicy input"

section \<open>What the decisions permit\<close>

lemma policy_codes [simp]:
  "isSafeDomainCode ''message_status_not_translated''"
  "isSafeDomainCode ''worker_retry_not_allowed''"
  "isSafeDomainCode ''instance_not_send_capable''"
  "isSafeDomainCode ''media_retention_not_allowed''"
  by code_simp+

lemma policy_messages [simp]:
  "js_trim ''Message status must be translated and non-stale.'' =
     ''Message status must be translated and non-stale.''"
  "js_trim ''WorkerJob retry requires non-terminal state and remaining retry budget.'' =
     ''WorkerJob retry requires non-terminal state and remaining retry budget.''"
  "js_trim ''Instance requires usable session and translated provider readiness.'' =
     ''Instance requires usable session and translated provider readiness.''"
  "js_trim ''Media retention requires explicit bounded retention.'' =
     ''Media retention requires explicit bounded retention.''"
  by code_simp+

lemma decisionFromSpecification_permits:
  assumes "\<exists>r. s = Inr r" "p \<noteq> q"
  shows "(\<exists>d. decisionFromSpecification s p q = Inr d \<and> pd_outcome d = p) \<longleftrightarrow> s = Inr Passed"
proof -
  obtain r where "s = Inr r" using assms(1) by blast
  then show ?thesis
    using assms(2) by (cases "r = Passed") (simp_all add: decisionFromSpecification_def)
qed

lemma decideMessageAcceptance_allows:
  "(\<exists>d. decideMessageAcceptance input = Inr d \<and> pd_outcome d = Policy_allow) \<longleftrightarrow>
     (\<exists>t. csi_messageType input = message_type_name t \<and> send_permitted input t)"
  using decisionFromSpecification_permits [OF canSendMessage_answers, of Policy_allow Policy_reject]
  by (simp add: decideMessageAcceptance_def evaluateMessageSendingPolicy_def canSendMessage_passes)

text \<open>
  The retry decision for a worker job says yes exactly where the aggregate's own retry, from a
  status with a retry transition, is accepted: same budget, no terminal status.
\<close>

lemma evaluateWorkerJobRetryPolicy_retries:
  "(\<exists>d. evaluateWorkerJobRetryPolicy job n = Inr d \<and> pd_outcome d = Policy_retry) \<longleftrightarrow>
     job_status job \<noteq> Job_completed \<and> job_status job \<noteq> Job_dead \<and>
     (\<exists>k. n = num_of k \<and> k \<le> rp_maxAttempts (job_retryPolicy job))"
  by (cases "as_int n")
    (auto simp: evaluateWorkerJobRetryPolicy_def decide_inline_def as_int_Some_iff)

lemma retryWorkerJob_accepts_policy:
  assumes "evaluateWorkerJobRetryPolicy job (num_of k) = Inr d" "pd_outcome d = Policy_retry"
  shows "\<exists>job'. retryWorkerJob job k c = Inr job' \<and> job_status job' = Job_retrying"
proof -
  from assms evaluateWorkerJobRetryPolicy_retries [of job "num_of k"]
  have "job_status job \<noteq> Job_completed" "job_status job \<noteq> Job_dead"
      "k \<le> rp_maxAttempts (job_retryPolicy job)"
    by auto
  then show ?thesis
    by (cases "job_status job")
      (auto simp: retryWorkerJob_def assertAttemptWithinRetryBudget_def transitionWorkerJob_eq)
qed

lemma decideRetryEligibility_job:
  "(\<exists>d. decideRetryEligibility (JobEligibility job n) = Inr d \<and> red_retryable d) \<longleftrightarrow>
     job_status job \<noteq> Job_completed \<and> job_status job \<noteq> Job_dead \<and>
     (\<exists>k. n = num_of k \<and> k \<le> rp_maxAttempts (job_retryPolicy job))"
  unfolding evaluateWorkerJobRetryPolicy_retries [symmetric]
  by (auto simp: decideRetryEligibility_def result_simps)

lemma evaluateWebhookRetryPolicy_retries:
  "(\<exists>d. evaluateWebhookRetryPolicy del n = Inr d \<and> pd_outcome d = Policy_retry) \<longleftrightarrow>
     canRetryWebhookDelivery del n = Inr Passed"
  unfolding evaluateWebhookRetryPolicy_def
  by (rule decisionFromSpecification_permits) (simp_all add: specifications_answer)

lemma decideRetryEligibility_delivery:
  "(\<exists>d. decideRetryEligibility (DeliveryEligibility del n) = Inr d \<and> red_retryable d) \<longleftrightarrow>
     canRetryWebhookDelivery del n = Inr Passed"
  unfolding evaluateWebhookRetryPolicy_retries [symmetric]
  by (auto simp: decideRetryEligibility_def result_simps)

lemma classifyMessageDeliveryStatus_accepts:
  "dsd_accepted (classifyMessageDeliveryStatus t stale) \<longleftrightarrow>
     \<not> stale \<and> (\<exists>s \<in> {Msg_sent, Msg_delivered, Msg_read, Msg_failed}. t = message_status_name s \<and>
       dsd_nextStatus (classifyMessageDeliveryStatus t stale) = Some s)"
  using message_status.narrow_roundtrip [of Msg_sent] message_status.narrow_roundtrip [of Msg_delivered]
    message_status.narrow_roundtrip [of Msg_read] message_status.narrow_roundtrip [of Msg_failed]
  by (auto simp: classifyMessageDeliveryStatus_def translated_status_texts_def)

text \<open>A session that may be used is one that needs no recovery and is not up for cleanup.\<close>

lemma decideSessionRecovery_usable:
  assumes "decideSessionRecovery s = Inr d" "srd_usable d"
  shows "\<not> srd_requiresRecovery d \<and> \<not> srd_cleanupEligible d"
  using assms
  by (auto simp: decideSessionRecovery_def result_simps isSessionUsable_eq session_usable_def
      split: if_splits)

lemma decideInstanceReadiness_send:
  assumes "decideInstanceReadiness i s ready out act = Inr d" "ird_sendCapable d"
  shows "inst_status i \<noteq> Inst_destroyed \<and> ready \<and> session_usable s \<and>
     ird_recommendedStatus d = Recommend_connected"
  using assms
  by (auto simp: decideInstanceReadiness_def result_simps isSessionUsable_eq Let_def
      split: if_splits)

text \<open>A snapshot the activation decision allows is one \<open>activateConfigurationSnapshot\<close> accepts.\<close>

lemma decideConfigurationActivation_activates:
  assumes "decideConfigurationActivation snap g = Inr d" "pd_outcome d = Policy_allow"
  shows "\<exists>snap'. activateConfigurationSnapshot snap = Inr snap' \<and> cs_status snap' = Config_active"
proof -
  have "canActivateConfiguration snap g = Inr Passed"
    using assms decisionFromSpecification_permits
      [OF specifications_answer(8), of Policy_allow Policy_reject snap g]
    by (auto simp: decideConfigurationActivation_def evaluateConfigurationSafetyPolicy_def)
  then show ?thesis
    by (simp add: canActivateConfiguration_passes activateConfigurationSnapshot_def
        transitionConfigurationSnapshot_def transitionStatus_def)
qed

end
