(* ===== verification/GroupAggregate.thy ===== *)
theory GroupAggregate
  imports PolicyValues
begin

text \<open>
  \<open>packages/domain/src/group/group.ts\<close>: the group aggregate with its member list, action log,
  invite link and local flags.  Every operation but the status changes needs an active group.
  The invariant says that members are unique by JID, texts are trimmed and non-empty and the
  JID is a group's; the membership operations are related to the map from JID to role.
\<close>

section \<open>Data\<close>

fun groupTransitions :: "group_status \<Rightarrow> group_status list" where
  "groupTransitions Group_discovered = [Group_active, Group_left, Group_deleted]"
| "groupTransitions Group_active = [Group_left, Group_deleted]"
| "groupTransitions Group_left = [Group_active, Group_deleted]"
| "groupTransitions Group_deleted = []"

datatype group_action_kind =
    Act_send_message
  | Act_add_member
  | Act_remove_member
  | Act_promote_member
  | Act_demote_member
  | Act_refresh_invite_link
  | Act_update_metadata
  | Act_mute
  | Act_unmute
  | Act_archive
  | Act_unarchive
  | Act_pin
  | Act_unpin

definition groupActionKinds :: "group_action_kind list" where
  "groupActionKinds =
     [Act_send_message, Act_add_member, Act_remove_member, Act_promote_member,
      Act_demote_member, Act_refresh_invite_link, Act_update_metadata, Act_mute, Act_unmute,
      Act_archive, Act_unarchive, Act_pin, Act_unpin]"

record group_metadata =
  gmd_subject :: string
  gmd_description :: "string option"

record group_member =
  mem_jid :: string
  mem_role :: group_member_role
  mem_joinedAt :: "int option"

record group_invite_link =
  inv_id :: identity
  inv_urlRef :: string
  inv_active :: bool

record group_action =
  act_id :: identity
  act_kind :: group_action_kind
  act_actorRef :: string
  act_auditRequired :: bool
  act_targetJid :: "string option"

record wa_group =
  grp_id :: identity
  grp_instanceId :: identity
  grp_jid :: string
  grp_status :: group_status
  grp_metadata :: group_metadata
  grp_members :: "group_member list"
  grp_actions :: "group_action list"
  grp_inviteLink :: "group_invite_link option"
  grp_muted :: bool
  grp_archived :: bool
  grp_pinned :: bool
  grp_domainEvents :: "domain_event list"

section \<open>Helpers\<close>

definition normalizeNonEmpty :: "string \<Rightarrow> string \<Rightarrow> string result" where
  "normalizeNonEmpty value label =
     (let normalized = js_trim value
      in if length normalized = 0 then Inl (TypeError (label @ '' must not be empty.''))
         else Inr normalized)"

definition normalizeMetadata :: "group_metadata \<Rightarrow> group_metadata result" where
  "normalizeMetadata metadata =
     result_bind (normalizeNonEmpty (gmd_subject metadata) ''GroupMetadata.subject'') (\<lambda>subject.
     result_bind
       (case gmd_description metadata of
          None \<Rightarrow> Inr None
        | Some d \<Rightarrow> result_map Some (normalizeNonEmpty d ''GroupMetadata.description''))
       (\<lambda>description. Inr \<lparr>gmd_subject = subject, gmd_description = description\<rparr>))"

definition normalizeInviteLink :: "group_invite_link \<Rightarrow> group_invite_link result" where
  "normalizeInviteLink l =
     result_map (\<lambda>u. \<lparr>inv_id = inv_id l, inv_urlRef = u, inv_active = inv_active l\<rparr>)
       (normalizeNonEmpty (inv_urlRef l) ''GroupInviteLink.urlRef'')"

text \<open>The \<open>map\<close> over the members with its \<open>seen\<close> set.\<close>

fun freeze_from :: "string list \<Rightarrow> group_member list \<Rightarrow> group_member list result" where
  "freeze_from seen [] = Inr []"
| "freeze_from seen (m # ms) =
     (if mem_jid m \<in> set seen
      then Inl (TypeError ''Group members must be unique by JID.'')
      else result_map (\<lambda>rest. m # rest) (freeze_from (mem_jid m # seen) ms))"

definition freezeMembers :: "group_member list \<Rightarrow> group_member list result" where
  "freezeMembers members = freeze_from [] members"

definition appendAction :: "group_action list \<Rightarrow> group_action \<Rightarrow> group_action list" where
  "appendAction actions action = actions @ [action]"

definition findMember :: "wa_group \<Rightarrow> string \<Rightarrow> group_member option" where
  "findMember g memberJid = List.find (\<lambda>m. mem_jid m = memberJid) (grp_members g)"

definition requireMember :: "wa_group \<Rightarrow> string \<Rightarrow> group_member result" where
  "requireMember g memberJid =
     (case findMember g memberJid of
        None \<Rightarrow> Inl (TypeError ''Group member does not exist.'')
      | Some m \<Rightarrow> Inr m)"

definition assertActiveGroup :: "wa_group \<Rightarrow> unit result" where
  "assertActiveGroup g =
     (if grp_status g \<noteq> Group_active
      then Inl (TypeError ''Group operation requires active Group status.'') else Inr ())"

definition assertGroupJid :: "string \<Rightarrow> unit result" where
  "assertGroupJid jid =
     (if \<not> js_ends_with jid group_jid_suffix
      then Inl (TypeError ''Group JID must be a WhatsApp group JID.'') else Inr ())"

definition isAuditRequiredGroupAction :: "group_action_kind \<Rightarrow> bool" where
  "isAuditRequiredGroupAction kind \<longleftrightarrow>
     kind \<notin> {Act_send_message, Act_mute, Act_unmute, Act_archive, Act_unarchive, Act_pin, Act_unpin}"

text \<open>
  \<open>patchGroup\<close>: the keys of the patch, \<open>None\<close> where the patch has none.  The patches of the
  source never carry an \<open>undefined\<close> invite link.
\<close>

record group_patch =
  gp_status :: "group_status option"
  gp_metadata :: "group_metadata option"
  gp_members :: "group_member list option"
  gp_actions :: "group_action list option"
  gp_inviteLink :: "group_invite_link option option"
  gp_muted :: "bool option"
  gp_archived :: "bool option"
  gp_pinned :: "bool option"
  gp_domainEvents :: "domain_event list option"

definition no_patch :: group_patch where
  "no_patch =
     \<lparr>gp_status = None, gp_metadata = None, gp_members = None, gp_actions = None,
      gp_inviteLink = None, gp_muted = None, gp_archived = None, gp_pinned = None,
      gp_domainEvents = None\<rparr>"

definition patchGroup :: "wa_group \<Rightarrow> group_patch \<Rightarrow> wa_group" where
  "patchGroup g p =
     \<lparr>grp_id = grp_id g, grp_instanceId = grp_instanceId g, grp_jid = grp_jid g,
      grp_status = value_or (gp_status p) (grp_status g),
      grp_metadata = value_or (gp_metadata p) (grp_metadata g),
      grp_members = value_or (gp_members p) (grp_members g),
      grp_actions = value_or (gp_actions p) (grp_actions g),
      grp_inviteLink = in_patch (gp_inviteLink p) (grp_inviteLink g),
      grp_muted = value_or (gp_muted p) (grp_muted g),
      grp_archived = value_or (gp_archived p) (grp_archived g),
      grp_pinned = value_or (gp_pinned p) (grp_pinned g),
      grp_domainEvents = value_or (gp_domainEvents p) (grp_domainEvents g)\<rparr>"

definition group_event_added :: "wa_group \<Rightarrow> group_event \<Rightarrow> domain_event list result" where
  "group_event_added g n =
     appendDomainEvent (grp_domainEvents g) Agg_Group (grp_id g) (GroupEvent n)"

section \<open>Operations\<close>

definition createGroup ::
    "identity \<Rightarrow> identity \<Rightarrow> string \<Rightarrow> group_metadata \<Rightarrow> group_member list option \<Rightarrow>
     wa_group result" where
  "createGroup i instanceId jid metadata members =
     result_bind (assertGroupJid jid) (\<lambda>_.
     result_bind (normalizeMetadata metadata) (\<lambda>md.
     result_bind (freezeMembers (value_or members [])) (\<lambda>ms.
     result_bind (appendDomainEvent [] Agg_Group i (GroupEvent GroupDiscovered)) (\<lambda>evs.
     Inr \<lparr>grp_id = i, grp_instanceId = instanceId, grp_jid = jid, grp_status = Group_discovered,
          grp_metadata = md, grp_members = ms, grp_actions = [], grp_inviteLink = None,
          grp_muted = False, grp_archived = False, grp_pinned = False,
          grp_domainEvents = evs\<rparr>))))"

definition transitionGroup :: "wa_group \<Rightarrow> group_status \<Rightarrow> group_event \<Rightarrow> wa_group result" where
  "transitionGroup g status eventName =
     result_bind
       (transitionStatus group_status_name (grp_status g) status groupTransitions ''Group'')
       (\<lambda>next. result_bind (group_event_added g eventName) (\<lambda>evs.
          Inr (patchGroup g (no_patch\<lparr>gp_status := Some next, gp_domainEvents := Some evs\<rparr>))))"

definition activateGroup :: "wa_group \<Rightarrow> wa_group result" where
  "activateGroup g = transitionGroup g Group_active GroupStatusUpdated"

definition markGroupLeft :: "wa_group \<Rightarrow> wa_group result" where
  "markGroupLeft g = transitionGroup g Group_left GroupStatusUpdated"

definition deleteGroup :: "wa_group \<Rightarrow> wa_group result" where
  "deleteGroup g = transitionGroup g Group_deleted GroupStatusUpdated"

definition updateGroupMetadata ::
    "wa_group \<Rightarrow> string option \<Rightarrow> string option \<Rightarrow> group_action \<Rightarrow> wa_group result" where
  "updateGroupMetadata g subject description action =
     result_bind (assertActiveGroup g) (\<lambda>_.
     result_bind
       (normalizeMetadata
          \<lparr>gmd_subject = value_or subject (gmd_subject (grp_metadata g)),
           gmd_description = nullish description (gmd_description (grp_metadata g))\<rparr>) (\<lambda>md.
     result_bind (group_event_added g GroupMetadataUpdated) (\<lambda>evs.
     Inr (patchGroup g (no_patch\<lparr>gp_metadata := Some md,
                                 gp_actions := Some (appendAction (grp_actions g) action),
                                 gp_domainEvents := Some evs\<rparr>)))))"

definition addGroupMember :: "wa_group \<Rightarrow> group_member \<Rightarrow> group_action \<Rightarrow> wa_group result" where
  "addGroupMember g member action =
     result_bind (assertActiveGroup g) (\<lambda>_.
     if findMember g (mem_jid member) \<noteq> None
     then Inl (TypeError ''Group member already exists.'')
     else
       result_bind (freezeMembers (grp_members g @ [member])) (\<lambda>ms.
       result_bind (group_event_added g GroupMemberAdded) (\<lambda>evs.
       Inr (patchGroup g (no_patch\<lparr>gp_members := Some ms,
                                   gp_actions := Some (appendAction (grp_actions g) action),
                                   gp_domainEvents := Some evs\<rparr>)))))"

definition removeGroupMember :: "wa_group \<Rightarrow> string \<Rightarrow> group_action \<Rightarrow> wa_group result" where
  "removeGroupMember g memberJid action =
     result_bind (assertActiveGroup g) (\<lambda>_.
     result_bind (requireMember g memberJid) (\<lambda>member.
     if mem_role member = Role_owner
     then Inl (TypeError ''Group owner cannot be removed by a member action.'')
     else
       result_bind (freezeMembers (filter (\<lambda>m. mem_jid m \<noteq> memberJid) (grp_members g))) (\<lambda>ms.
       result_bind (group_event_added g GroupMemberRemoved) (\<lambda>evs.
       Inr (patchGroup g (no_patch\<lparr>gp_members := Some ms,
                                   gp_actions := Some (appendAction (grp_actions g) action),
                                   gp_domainEvents := Some evs\<rparr>))))))"

definition replaceMemberRole ::
    "wa_group \<Rightarrow> group_member \<Rightarrow> group_member_role \<Rightarrow> group_action \<Rightarrow> wa_group result" where
  "replaceMemberRole g member role action =
     result_bind
       (freezeMembers
          (map (\<lambda>m. if mem_jid m = mem_jid member then m\<lparr>mem_role := role\<rparr> else m)
             (grp_members g))) (\<lambda>ms.
     result_bind (group_event_added g GroupMemberRoleChanged) (\<lambda>evs.
     Inr (patchGroup g (no_patch\<lparr>gp_members := Some ms,
                                 gp_actions := Some (appendAction (grp_actions g) action),
                                 gp_domainEvents := Some evs\<rparr>))))"

definition promoteGroupMember :: "wa_group \<Rightarrow> string \<Rightarrow> group_action \<Rightarrow> wa_group result" where
  "promoteGroupMember g memberJid action =
     result_bind (assertActiveGroup g) (\<lambda>_.
     result_bind (requireMember g memberJid) (\<lambda>member.
     if mem_role member = Role_owner
     then Inl (TypeError ''Group owner role cannot be changed.'')
     else replaceMemberRole g member Role_admin action))"

definition demoteGroupMember :: "wa_group \<Rightarrow> string \<Rightarrow> group_action \<Rightarrow> wa_group result" where
  "demoteGroupMember g memberJid action =
     result_bind (assertActiveGroup g) (\<lambda>_.
     result_bind (requireMember g memberJid) (\<lambda>member.
     if mem_role member = Role_owner
     then Inl (TypeError ''Group owner role cannot be changed.'')
     else replaceMemberRole g member Role_member action))"

definition setGroupInviteLink ::
    "wa_group \<Rightarrow> group_invite_link \<Rightarrow> group_action \<Rightarrow> wa_group result" where
  "setGroupInviteLink g inviteLink action =
     result_bind (assertActiveGroup g) (\<lambda>_.
     result_bind (normalizeInviteLink inviteLink) (\<lambda>link.
     result_bind (group_event_added g GroupInviteLinkUpdated) (\<lambda>evs.
     Inr (patchGroup g (no_patch\<lparr>gp_inviteLink := Some (Some link),
                                 gp_actions := Some (appendAction (grp_actions g) action),
                                 gp_domainEvents := Some evs\<rparr>)))))"

text \<open>\<open>patchLocalState\<close> with the flags of its patch.\<close>

definition patchLocalState ::
    "wa_group \<Rightarrow> bool option \<Rightarrow> bool option \<Rightarrow> bool option \<Rightarrow> group_action \<Rightarrow> wa_group result" where
  "patchLocalState g muted archived pinned action =
     result_bind (assertActiveGroup g) (\<lambda>_.
     result_bind (group_event_added g GroupLocalStateUpdated) (\<lambda>evs.
     Inr (patchGroup g (no_patch\<lparr>gp_muted := muted, gp_archived := archived, gp_pinned := pinned,
                                 gp_actions := Some (appendAction (grp_actions g) action),
                                 gp_domainEvents := Some evs\<rparr>))))"

definition setGroupMuted :: "wa_group \<Rightarrow> bool \<Rightarrow> group_action \<Rightarrow> wa_group result" where
  "setGroupMuted g muted action = patchLocalState g (Some muted) None None action"

definition setGroupArchived :: "wa_group \<Rightarrow> bool \<Rightarrow> group_action \<Rightarrow> wa_group result" where
  "setGroupArchived g archived action = patchLocalState g None (Some archived) None action"

definition setGroupPinned :: "wa_group \<Rightarrow> bool \<Rightarrow> group_action \<Rightarrow> wa_group result" where
  "setGroupPinned g pinned action = patchLocalState g None None (Some pinned) action"

definition createGroupMember ::
    "string \<Rightarrow> group_member_role option \<Rightarrow> int option \<Rightarrow> group_member" where
  "createGroupMember jid role joinedAt =
     \<lparr>mem_jid = jid, mem_role = value_or role Role_member, mem_joinedAt = joinedAt\<rparr>"

definition createGroupAction ::
    "identity \<Rightarrow> group_action_kind \<Rightarrow> string \<Rightarrow> string option \<Rightarrow> group_action result" where
  "createGroupAction i kind actorRef targetJid =
     (if kind \<notin> set groupActionKinds
      then Inl (TypeError ''Group action kind is not approved.'')
      else
        result_map
          (\<lambda>a. \<lparr>act_id = i, act_kind = kind, act_actorRef = a,
                act_auditRequired = isAuditRequiredGroupAction kind, act_targetJid = targetJid\<rparr>)
          (normalizeNonEmpty actorRef ''GroupAction.actorRef''))"

definition createGroupInviteLink ::
    "identity \<Rightarrow> string \<Rightarrow> bool option \<Rightarrow> group_invite_link result" where
  "createGroupInviteLink i urlRef active =
     normalizeInviteLink \<lparr>inv_id = i, inv_urlRef = urlRef, inv_active = value_or active True\<rparr>"

datatype group_command =
    ActivateGroup
  | LeaveGroup
  | DeleteGroup
  | UpdateMetadata "string option" "string option" group_action
  | AddMember group_member group_action
  | RemoveMember string group_action
  | PromoteMember string group_action
  | DemoteMember string group_action
  | SetInviteLink group_invite_link group_action
  | SetMuted bool group_action
  | SetArchived bool group_action
  | SetPinned bool group_action

fun group_step :: "group_command \<Rightarrow> wa_group \<Rightarrow> wa_group result" where
  "group_step ActivateGroup g = activateGroup g"
| "group_step LeaveGroup g = markGroupLeft g"
| "group_step DeleteGroup g = deleteGroup g"
| "group_step (UpdateMetadata s d a) g = updateGroupMetadata g s d a"
| "group_step (AddMember m a) g = addGroupMember g m a"
| "group_step (RemoveMember j a) g = removeGroupMember g j a"
| "group_step (PromoteMember j a) g = promoteGroupMember g j a"
| "group_step (DemoteMember j a) g = demoteGroupMember g j a"
| "group_step (SetInviteLink l a) g = setGroupInviteLink g l a"
| "group_step (SetMuted b a) g = setGroupMuted g b a"
| "group_step (SetArchived b a) g = setGroupArchived g b a"
| "group_step (SetPinned b a) g = setGroupPinned g b a"

section \<open>Members\<close>

abbreviation member_jids :: "group_member list \<Rightarrow> string list" where
  "member_jids ms \<equiv> map mem_jid ms"

lemma freeze_from_Inr:
  "freeze_from seen ms = Inr ms' \<longleftrightarrow>
     ms' = ms \<and> distinct (member_jids ms) \<and> set (member_jids ms) \<inter> set seen = {}"
  by (induction ms arbitrary: seen ms') (auto simp: result_simps)

lemma freezeMembers_Inr [result_simps]:
  "freezeMembers ms = Inr ms' \<longleftrightarrow> ms' = ms \<and> distinct (member_jids ms)"
  by (simp add: freezeMembers_def freeze_from_Inr)

lemma assertActiveGroup_Inr [result_simps]:
  "assertActiveGroup g = Inr u \<longleftrightarrow> grp_status g = Group_active"
  by (auto simp: assertActiveGroup_def)

lemma requireMember_Inr [result_simps]:
  "requireMember g j = Inr m \<longleftrightarrow> findMember g j = Some m"
  by (auto simp: requireMember_def split: option.splits)

lemma findMember_Some: "findMember g j = Some m \<Longrightarrow> m \<in> set (grp_members g) \<and> mem_jid m = j"
  unfolding findMember_def by (rule find_SomeD)

lemma findMember_None: "findMember g j = None \<longleftrightarrow> j \<notin> set (member_jids (grp_members g))"
  by (auto simp: findMember_def find_None_iff_all)

lemma group_event_added_eq [simp]:
  "group_event_added g n = Inr (grp_domainEvents g @
     [\<lparr>ev_name = GroupEvent n, ev_aggregateType = Agg_Group, ev_aggregateId = grp_id g\<rparr>])"
  by (simp add: group_event_added_def)

text \<open>The role each JID has, as the abstract view of the member list.\<close>

definition role_of :: "wa_group \<Rightarrow> string \<Rightarrow> group_member_role option" where
  "role_of g j = map_option mem_role (findMember g j)"

lemma find_append: "List.find P (xs @ ys) = (case List.find P xs of None \<Rightarrow> List.find P ys | Some x \<Rightarrow> Some x)"
  by (induction xs) auto

lemma find_jid_filter_other:
  "List.find (\<lambda>m. mem_jid m = k) (filter (\<lambda>m. mem_jid m \<noteq> j) ms) =
     (if k = j then None else List.find (\<lambda>m. mem_jid m = k) ms)"
  by (induction ms) auto

lemma find_jid_map_role:
  "map_option mem_role (List.find (\<lambda>m. mem_jid m = k)
      (map (\<lambda>m. if mem_jid m = j then m\<lparr>mem_role := r\<rparr> else m) ms)) =
     (if k = j \<and> List.find (\<lambda>m. mem_jid m = k) ms \<noteq> None then Some r
      else map_option mem_role (List.find (\<lambda>m. mem_jid m = k) ms))"
  by (induction ms) auto

section \<open>What an operation changes\<close>

lemmas group_op_defs =
  activateGroup_def markGroupLeft_def deleteGroup_def transitionGroup_def updateGroupMetadata_def
  addGroupMember_def removeGroupMember_def promoteGroupMember_def demoteGroupMember_def
  replaceMemberRole_def setGroupInviteLink_def setGroupMuted_def setGroupArchived_def
  setGroupPinned_def patchLocalState_def patchGroup_def no_patch_def

fun group_target :: "group_command \<Rightarrow> group_status option" where
  "group_target ActivateGroup = Some Group_active"
| "group_target LeaveGroup = Some Group_left"
| "group_target DeleteGroup = Some Group_deleted"
| "group_target _ = None"

text \<open>Status changes follow the table and write nothing else; all other commands need an active group.\<close>

lemma group_step_status:
  assumes "group_step c g = Inr g'" "group_target c = Some s"
  shows "(s = grp_status g \<or> s \<in> set (groupTransitions (grp_status g))) \<and>
    g' = g\<lparr>grp_status := s, grp_domainEvents := grp_domainEvents g @
           [\<lparr>ev_name = GroupEvent GroupStatusUpdated, ev_aggregateType = Agg_Group,
             ev_aggregateId = grp_id g\<rparr>]\<rparr>"
  using assms by (cases c) (auto simp: group_op_defs result_simps)

lemma group_step_active:
  assumes "group_step c g = Inr g'" "group_target c = None"
  shows "grp_status g = Group_active \<and> grp_status g' = Group_active \<and>
    (\<exists>n. grp_domainEvents g' = grp_domainEvents g @
       [\<lparr>ev_name = GroupEvent n, ev_aggregateType = Agg_Group, ev_aggregateId = grp_id g\<rparr>]) \<and>
    (\<exists>a. grp_actions g' = grp_actions g @ [a])"
  using assms by (cases c) (auto simp: group_op_defs result_simps appendAction_def)

lemma group_step_ids [field_frames]:
  "group_step c g = Inr g' \<Longrightarrow>
     grp_id g' = grp_id g \<and> grp_instanceId g' = grp_instanceId g \<and> grp_jid g' = grp_jid g"
  by (cases c) (auto simp: group_op_defs result_simps)

interpretation group: aggregate_lifecycle grp_status grp_id grp_domainEvents Agg_Group
  groupTransitions group_step
proof
  fix a b c
  assume step: "group_step c a = Inr b"
  show "grp_id b = grp_id a" using group_step_ids [OF step] by simp
  show "grp_status b = grp_status a \<or> grp_status b \<in> set (groupTransitions (grp_status a))"
    using group_step_status [OF step] group_step_active [OF step] by (cases "group_target c") auto
  show "\<exists>es. grp_domainEvents b = grp_domainEvents a @ es \<and>
      list_all (own_event Agg_Group (grp_id a)) es"
    using group_step_status [OF step] group_step_active [OF step]
    by (cases "group_target c") (auto simp: own_event_def)
qed

section \<open>The invariant\<close>

definition trimmed_text :: "string \<Rightarrow> bool" where
  "trimmed_text s \<longleftrightarrow> s \<noteq> [] \<and> js_trim s = s"

definition group_wf :: "wa_group \<Rightarrow> bool" where
  "group_wf g \<longleftrightarrow>
     distinct (member_jids (grp_members g)) \<and>
     js_ends_with (grp_jid g) group_jid_suffix \<and>
     trimmed_text (gmd_subject (grp_metadata g)) \<and>
     (\<forall>d. gmd_description (grp_metadata g) = Some d \<longrightarrow> trimmed_text d) \<and>
     (\<forall>l. grp_inviteLink g = Some l \<longrightarrow> trimmed_text (inv_urlRef l))"

lemma normalizeNonEmpty_ok: "normalizeNonEmpty v l = Inr t \<Longrightarrow> trimmed_text t"
  by (auto simp: normalizeNonEmpty_def trimmed_text_def js_trim_idem Let_def split: if_splits)

lemma normalizeMetadata_ok:
  "normalizeMetadata md = Inr md' \<Longrightarrow>
     trimmed_text (gmd_subject md') \<and>
     (\<forall>d. gmd_description md' = Some d \<longrightarrow> trimmed_text d)"
  by (auto simp: normalizeMetadata_def result_simps dest: normalizeNonEmpty_ok split: option.splits)

lemma normalizeInviteLink_ok: "normalizeInviteLink l = Inr l' \<Longrightarrow> trimmed_text (inv_urlRef l')"
  by (auto simp: normalizeInviteLink_def result_simps dest: normalizeNonEmpty_ok)

lemma createGroup_wf: "createGroup i inst jid md ms = Inr g \<Longrightarrow> group_wf g"
  by (auto simp: createGroup_def group_wf_def result_simps assertGroupJid_def
      dest: normalizeMetadata_ok)

lemma group_step_wf: "group_wf g \<Longrightarrow> group_step c g = Inr g' \<Longrightarrow> group_wf g'"
  by (cases c)
    (auto simp: group_op_defs result_simps group_wf_def
      dest: normalizeMetadata_ok normalizeInviteLink_ok)

lemma group_history_wf: "group_wf g \<Longrightarrow> group_wf (history group_step cs g)"
  by (rule history_invariant [where P = group_wf, OF _ group_step_wf])

section \<open>Membership\<close>

lemma addGroupMember_role:
  assumes "addGroupMember g m a = Inr g'"
  shows "role_of g' = (role_of g)(mem_jid m \<mapsto> mem_role m)" and "role_of g (mem_jid m) = None"
proof -
  from assms have none: "findMember g (mem_jid m) = None"
    by (auto simp: addGroupMember_def result_simps split: if_splits)
  then show "role_of g (mem_jid m) = None" by (simp add: role_of_def)
  from assms have ms: "grp_members g' = grp_members g @ [m]"
    by (auto simp: group_op_defs result_simps split: if_splits)
  show "role_of g' = (role_of g)(mem_jid m \<mapsto> mem_role m)"
    using none by (auto simp: role_of_def findMember_def ms find_append split: option.splits)
qed

lemma removeGroupMember_role:
  assumes "removeGroupMember g j a = Inr g'"
  shows "role_of g' = (role_of g)(j := None)" and "role_of g j \<noteq> None" and "role_of g j \<noteq> Some Role_owner"
proof -
  from assms obtain m where m: "findMember g j = Some m" "mem_role m \<noteq> Role_owner"
    by (auto simp: removeGroupMember_def result_simps split: if_splits)
  then show "role_of g j \<noteq> None" "role_of g j \<noteq> Some Role_owner" by (auto simp: role_of_def)
  from assms have "grp_members g' = filter (\<lambda>m. mem_jid m \<noteq> j) (grp_members g)"
    by (auto simp: group_op_defs result_simps split: if_splits)
  then show "role_of g' = (role_of g)(j := None)"
    by (auto simp: role_of_def findMember_def find_jid_filter_other)
qed

lemma replaceMemberRole_role:
  assumes "replaceMemberRole g m r a = Inr g'" "findMember g (mem_jid m) \<noteq> None"
  shows "role_of g' = (role_of g)(mem_jid m \<mapsto> r)"
proof -
  from assms(1) have "grp_members g' =
      map (\<lambda>n. if mem_jid n = mem_jid m then n\<lparr>mem_role := r\<rparr> else n) (grp_members g)"
    by (auto simp: replaceMemberRole_def patchGroup_def no_patch_def result_simps)
  then show ?thesis using assms(2)
    by (auto simp: role_of_def findMember_def find_jid_map_role)
qed

lemma promoteGroupMember_role:
  assumes "promoteGroupMember g j a = Inr g'"
  shows "role_of g' = (role_of g)(j \<mapsto> Role_admin)" and "role_of g j \<noteq> Some Role_owner"
proof -
  from assms obtain m where m: "findMember g j = Some m" "mem_role m \<noteq> Role_owner"
      and rep: "replaceMemberRole g m Role_admin a = Inr g'"
    by (auto simp: promoteGroupMember_def result_simps split: if_splits)
  have j: "mem_jid m = j" using findMember_Some [OF m(1)] by simp
  show "role_of g' = (role_of g)(j \<mapsto> Role_admin)"
    using replaceMemberRole_role [OF rep] m(1) j by simp
  show "role_of g j \<noteq> Some Role_owner" using m by (simp add: role_of_def)
qed

lemma demoteGroupMember_role:
  assumes "demoteGroupMember g j a = Inr g'"
  shows "role_of g' = (role_of g)(j \<mapsto> Role_member)" and "role_of g j \<noteq> Some Role_owner"
proof -
  from assms obtain m where m: "findMember g j = Some m" "mem_role m \<noteq> Role_owner"
      and rep: "replaceMemberRole g m Role_member a = Inr g'"
    by (auto simp: demoteGroupMember_def result_simps split: if_splits)
  have j: "mem_jid m = j" using findMember_Some [OF m(1)] by simp
  show "role_of g' = (role_of g)(j \<mapsto> Role_member)"
    using replaceMemberRole_role [OF rep] m(1) j by simp
  show "role_of g j \<noteq> Some Role_owner" using m by (simp add: role_of_def)
qed

text \<open>Whoever owns the group keeps owning it, whatever is done to the group.\<close>

lemma group_step_owner:
  assumes "group_step c g = Inr g'" "role_of g j = Some Role_owner"
  shows "role_of g' j = Some Role_owner"
proof (cases c)
  case (AddMember m a)
  with assms addGroupMember_role [of g m a g'] show ?thesis by auto
next
  case (RemoveMember k a)
  with assms removeGroupMember_role [of g k a g'] show ?thesis by auto
next
  case (PromoteMember k a)
  with assms promoteGroupMember_role [of g k a g'] show ?thesis by auto
next
  case (DemoteMember k a)
  with assms demoteGroupMember_role [of g k a g'] show ?thesis by auto
qed (use assms in \<open>auto simp: group_op_defs result_simps role_of_def findMember_def\<close>)

end
