(* ===== verification/Navigation.thy ===== *)
theory Navigation
  imports PolicyValues
begin

text \<open>
  \<open>packages/domain/src/chat/chat.ts\<close>, \<open>contact/contact.ts\<close> and \<open>label/label.ts\<close>: the
  navigation aggregates.  They record no events and have no transition table: a status change
  is a patch.  Their invariants bound texts and counters, keep labels unique and tie the kind
  of a chat to its JID.
\<close>

section \<open>Chats\<close>

datatype chat_kind = Kind_direct | Kind_group

record chat =
  chat_id :: identity
  chat_instanceId :: identity
  chat_jid :: string
  chat_kind :: chat_kind
  chat_status :: chat_status
  chat_labelIds :: "identity list"
  chat_unreadCount :: int
  chat_muted :: bool
  chat_pinned :: bool

definition inferChatKind :: "string \<Rightarrow> chat_kind" where
  "inferChatKind jid = (if js_ends_with jid group_jid_suffix then Kind_group else Kind_direct)"

definition assertKindMatchesJid :: "chat_kind \<Rightarrow> string \<Rightarrow> unit result" where
  "assertKindMatchesJid kind jid =
     (if (kind = Kind_group) \<noteq> js_ends_with jid group_jid_suffix
      then Inl (TypeError ''Chat kind must match the translated JID namespace.'') else Inr ())"

definition normalizeUnreadCount :: "jsnum \<Rightarrow> int result" where
  "normalizeUnreadCount value =
     (case as_int value of
        None \<Rightarrow> Inl (TypeError ''Chat unread count must be a non-negative integer.'')
      | Some n \<Rightarrow>
          if n < 0 then Inl (TypeError ''Chat unread count must be a non-negative integer.'')
          else Inr n)"

text \<open>\<open>[...new Set(xs)]\<close>: the first occurrence of each value, in insertion order.\<close>

fun set_order_from :: "'a list \<Rightarrow> 'a list \<Rightarrow> 'a list" where
  "set_order_from seen [] = []"
| "set_order_from seen (x # xs) =
     (if x \<in> set seen then set_order_from seen xs else x # set_order_from (x # seen) xs)"

definition freezeUniqueLabelIds :: "identity list \<Rightarrow> identity list result" where
  "freezeUniqueLabelIds labelIds =
     (let labels = set_order_from [] labelIds
      in if length labels \<noteq> length labelIds
         then Inl (TypeError ''Chat labels must be unique.'') else Inr labels)"

definition createChat ::
    "identity \<Rightarrow> identity \<Rightarrow> string \<Rightarrow> chat_kind option \<Rightarrow> identity list option \<Rightarrow> jsnum option \<Rightarrow>
     bool option \<Rightarrow> bool option \<Rightarrow> chat result" where
  "createChat i instanceId jid kind labelIds unreadCount muted pinned =
     (let k = value_or kind (inferChatKind jid)
      in result_bind (assertKindMatchesJid k jid) (\<lambda>_.
         result_bind (freezeUniqueLabelIds (value_or labelIds [])) (\<lambda>labels.
         result_bind (normalizeUnreadCount (value_or unreadCount (num_of 0))) (\<lambda>unread.
         Inr \<lparr>chat_id = i, chat_instanceId = instanceId, chat_jid = jid, chat_kind = k,
              chat_status = Chat_open, chat_labelIds = labels, chat_unreadCount = unread,
              chat_muted = value_or muted False, chat_pinned = value_or pinned False\<rparr>))))"

text \<open>\<open>patchChat\<close>, with the keys the operations use.\<close>

definition patchChat ::
    "chat \<Rightarrow> chat_status option \<Rightarrow> identity list option \<Rightarrow> int option \<Rightarrow> bool option \<Rightarrow>
     bool option \<Rightarrow> chat" where
  "patchChat c status labelIds unreadCount muted pinned =
     \<lparr>chat_id = chat_id c, chat_instanceId = chat_instanceId c, chat_jid = chat_jid c,
      chat_kind = chat_kind c, chat_status = value_or status (chat_status c),
      chat_labelIds = value_or labelIds (chat_labelIds c),
      chat_unreadCount = value_or unreadCount (chat_unreadCount c),
      chat_muted = value_or muted (chat_muted c), chat_pinned = value_or pinned (chat_pinned c)\<rparr>"

definition archiveChat :: "chat \<Rightarrow> chat" where
  "archiveChat c = patchChat c (Some Chat_archived) None None None None"

definition reopenChat :: "chat \<Rightarrow> chat" where
  "reopenChat c = patchChat c (Some Chat_open) None None None None"

definition deleteChat :: "chat \<Rightarrow> chat" where
  "deleteChat c = patchChat c (Some Chat_deleted) None None None None"

definition setChatUnreadCount :: "chat \<Rightarrow> jsnum \<Rightarrow> chat result" where
  "setChatUnreadCount c unreadCount =
     result_map (\<lambda>n. patchChat c None None (Some n) None None) (normalizeUnreadCount unreadCount)"

definition setChatMuted :: "chat \<Rightarrow> bool \<Rightarrow> chat" where
  "setChatMuted c muted = patchChat c None None None (Some muted) None"

definition setChatPinned :: "chat \<Rightarrow> bool \<Rightarrow> chat" where
  "setChatPinned c pinned = patchChat c None None None None (Some pinned)"

definition assignChatLabel :: "chat \<Rightarrow> identity \<Rightarrow> chat result" where
  "assignChatLabel c labelId =
     result_map (\<lambda>ls. patchChat c None (Some ls) None None None)
       (freezeUniqueLabelIds (chat_labelIds c @ [labelId]))"

definition removeChatLabel :: "chat \<Rightarrow> identity \<Rightarrow> chat result" where
  "removeChatLabel c labelId =
     result_map (\<lambda>ls. patchChat c None (Some ls) None None None)
       (freezeUniqueLabelIds (filter (\<lambda>l. l \<noteq> labelId) (chat_labelIds c)))"

datatype chat_command =
    ArchiveChat
  | ReopenChat
  | DeleteChat
  | SetUnread jsnum
  | MuteChat bool
  | PinChat bool
  | AssignLabel identity
  | RemoveLabel identity

fun chat_step :: "chat_command \<Rightarrow> chat \<Rightarrow> chat result" where
  "chat_step ArchiveChat c = Inr (archiveChat c)"
| "chat_step ReopenChat c = Inr (reopenChat c)"
| "chat_step DeleteChat c = Inr (deleteChat c)"
| "chat_step (SetUnread n) c = setChatUnreadCount c n"
| "chat_step (MuteChat b) c = Inr (setChatMuted c b)"
| "chat_step (PinChat b) c = Inr (setChatPinned c b)"
| "chat_step (AssignLabel l) c = assignChatLabel c l"
| "chat_step (RemoveLabel l) c = removeChatLabel c l"

lemmas chat_op_defs =
  archiveChat_def reopenChat_def deleteChat_def setChatUnreadCount_def setChatMuted_def
  setChatPinned_def assignChatLabel_def removeChatLabel_def patchChat_def

lemma set_order_from_length: "length (set_order_from seen xs) \<le> length xs"
  by (induction xs arbitrary: seen) (auto intro: le_SucI)

lemma set_order_from_full:
  "length (set_order_from seen xs) = length xs \<longleftrightarrow> distinct xs \<and> set xs \<inter> set seen = {}"
proof (induction xs arbitrary: seen)
  case Nil
  show ?case by simp
next
  case (Cons x xs)
  have "length (set_order_from seen xs) \<noteq> Suc (length xs)"
    using set_order_from_length [of seen xs] by simp
  then show ?case using Cons.IH by auto
qed

lemma set_order_from_id: "distinct xs \<Longrightarrow> set xs \<inter> set seen = {} \<Longrightarrow> set_order_from seen xs = xs"
  by (induction xs arbitrary: seen) auto

lemma freezeUniqueLabelIds_Inr [result_simps]:
  "freezeUniqueLabelIds ls = Inr ls' \<longleftrightarrow> ls' = ls \<and> distinct ls"
  by (auto simp: freezeUniqueLabelIds_def Let_def set_order_from_full set_order_from_id)

lemma normalizeUnreadCount_Inr [result_simps]:
  "normalizeUnreadCount v = Inr n \<longleftrightarrow> v = num_of n \<and> 0 \<le> n"
  by (auto simp: normalizeUnreadCount_def as_int_Some_iff split: option.splits if_splits)

definition chat_wf :: "chat \<Rightarrow> bool" where
  "chat_wf c \<longleftrightarrow>
     distinct (chat_labelIds c) \<and> 0 \<le> chat_unreadCount c \<and>
     (chat_kind c = Kind_group \<longleftrightarrow> js_ends_with (chat_jid c) group_jid_suffix)"

lemma createChat_wf: "createChat i inst jid k ls n m p = Inr c \<Longrightarrow> chat_wf c"
  by (auto simp: createChat_def Let_def chat_wf_def result_simps assertKindMatchesJid_def)

lemma chat_step_wf: "chat_wf c \<Longrightarrow> chat_step cmd c = Inr c' \<Longrightarrow> chat_wf c'"
  by (cases cmd) (auto simp: chat_op_defs chat_wf_def result_simps)

lemma chat_history_wf: "chat_wf c \<Longrightarrow> chat_wf (history chat_step cs c)"
  by (rule history_invariant [where P = chat_wf, OF _ chat_step_wf])

lemma createChat_defaults_to_kind:
  "createChat i inst jid None None None None None \<noteq> Inl e"
  by (auto simp: createChat_def Let_def assertKindMatchesJid_def inferChatKind_def
      freezeUniqueLabelIds_def normalizeUnreadCount_def as_int_num_of [of 0, simplified])

section \<open>Contacts\<close>

record contact =
  con_id :: identity
  con_instanceId :: identity
  con_jid :: string
  con_status :: contact_status
  con_displayName :: "string option"
  con_phoneNumber :: "string option"

definition assertDirectJid :: "string \<Rightarrow> unit result" where
  "assertDirectJid jid =
     (if \<not> js_ends_with jid direct_jid_suffix
      then Inl (TypeError ''Contact JID must be a WhatsApp direct-contact JID.'') else Inr ())"

definition createContact ::
    "identity \<Rightarrow> identity \<Rightarrow> string \<Rightarrow> string option \<Rightarrow> string option \<Rightarrow> contact result" where
  "createContact i instanceId jid displayName phoneNumber =
     result_map
       (\<lambda>_. \<lparr>con_id = i, con_instanceId = instanceId, con_jid = jid,
             con_status = Contact_discovered, con_displayName = displayName,
             con_phoneNumber = phoneNumber\<rparr>)
       (assertDirectJid jid)"

definition createContactDisplayName :: "string \<Rightarrow> string result" where
  "createContactDisplayName value =
     result_bind (bounded_text 120 ''ContactDisplayName must be non-empty and bounded.'' value)
       (\<lambda>normalized. createOpaqueString normalized ''ContactDisplayName'')"

definition patchContact ::
    "contact \<Rightarrow> contact_status option \<Rightarrow> string option option \<Rightarrow> string option option \<Rightarrow> contact" where
  "patchContact c status displayName phoneNumber =
     \<lparr>con_id = con_id c, con_instanceId = con_instanceId c, con_jid = con_jid c,
      con_status = value_or status (con_status c),
      con_displayName = in_patch displayName (con_displayName c),
      con_phoneNumber = in_patch phoneNumber (con_phoneNumber c)\<rparr>"

definition activateContact :: "contact \<Rightarrow> contact" where
  "activateContact c = patchContact c (Some Contact_active) None None"

definition blockContact :: "contact \<Rightarrow> contact" where
  "blockContact c = patchContact c (Some Contact_blocked) None None"

definition deleteContact :: "contact \<Rightarrow> contact" where
  "deleteContact c = patchContact c (Some Contact_deleted) None None"

definition updateContactProfile ::
    "contact \<Rightarrow> string option option \<Rightarrow> string option option \<Rightarrow> contact" where
  "updateContactProfile c displayName phoneNumber = patchContact c None displayName phoneNumber"

definition redactContact :: "contact \<Rightarrow> contact" where
  "redactContact c =
     \<lparr>con_id = con_id c, con_instanceId = con_instanceId c, con_jid = redactJid (con_jid c),
      con_status = con_status c,
      con_displayName =
        (case con_displayName c of
           None \<Rightarrow> None | Some _ \<Rightarrow> Some ''[confidential:contact-display-name]''),
      con_phoneNumber =
        (case con_phoneNumber c of None \<Rightarrow> None | Some p \<Rightarrow> Some (redactPhoneNumber p))\<rparr>"

text \<open>
  The redacted contact does not depend on the confidential values: two contacts that agree on
  identity, instance, status and on which optional values they have are redacted alike.
\<close>

lemma redactContact_hides:
  assumes "con_id c = con_id d" "con_instanceId c = con_instanceId d" "con_status c = con_status d"
    and "con_displayName c = None \<longleftrightarrow> con_displayName d = None"
    and "con_phoneNumber c = None \<longleftrightarrow> con_phoneNumber d = None"
  shows "redactContact c = redactContact d"
  using assms by (auto simp: redactContact_def redactJid_def redactPhoneNumber_def split: option.splits)

section \<open>Labels\<close>

record label =
  lab_id :: identity
  lab_instanceId :: identity
  lab_name :: string
  lab_colorCode :: "string option"
  lab_status :: label_status

definition normalizeLabelName :: "string \<Rightarrow> string result" where
  "normalizeLabelName name = bounded_text 64 ''Label name must be non-empty and bounded.'' name"

definition normalizeColorCode :: "string \<Rightarrow> string result" where
  "normalizeColorCode colorCode = createSafeDomainCode colorCode ''Label.colorCode''"

definition createLabel :: "identity \<Rightarrow> identity \<Rightarrow> string \<Rightarrow> string option \<Rightarrow> label result" where
  "createLabel i instanceId name colorCode =
     result_bind (normalizeLabelName name) (\<lambda>n.
     result_bind
       (case colorCode of None \<Rightarrow> Inr None | Some c \<Rightarrow> result_map Some (normalizeColorCode c))
       (\<lambda>c. Inr \<lparr>lab_id = i, lab_instanceId = instanceId, lab_name = n, lab_colorCode = c,
                 lab_status = Label_active\<rparr>))"

definition patchLabel :: "label \<Rightarrow> string option \<Rightarrow> string option option \<Rightarrow> label_status option \<Rightarrow> label" where
  "patchLabel l name colorCode status =
     \<lparr>lab_id = lab_id l, lab_instanceId = lab_instanceId l, lab_name = value_or name (lab_name l),
      lab_colorCode = in_patch colorCode (lab_colorCode l),
      lab_status = value_or status (lab_status l)\<rparr>"

definition renameLabel :: "label \<Rightarrow> string \<Rightarrow> label result" where
  "renameLabel l name = result_map (\<lambda>n. patchLabel l (Some n) None None) (normalizeLabelName name)"

definition archiveLabel :: "label \<Rightarrow> label" where
  "archiveLabel l = patchLabel l None None (Some Label_archived)"

definition deleteLabel :: "label \<Rightarrow> label" where
  "deleteLabel l = patchLabel l None None (Some Label_deleted)"

datatype label_command = RenameLabel string | ArchiveLabel | DeleteLabel

fun label_step :: "label_command \<Rightarrow> label \<Rightarrow> label result" where
  "label_step (RenameLabel n) l = renameLabel l n"
| "label_step ArchiveLabel l = Inr (archiveLabel l)"
| "label_step DeleteLabel l = Inr (deleteLabel l)"

definition label_wf :: "label \<Rightarrow> bool" where
  "label_wf l \<longleftrightarrow>
     lab_name l \<noteq> [] \<and> length (lab_name l) \<le> 64 \<and> js_trim (lab_name l) = lab_name l \<and>
     (\<forall>c. lab_colorCode l = Some c \<longrightarrow> isSafeDomainCode c)"

lemma normalizeLabelName_ok:
  "normalizeLabelName v = Inr n \<Longrightarrow> n \<noteq> [] \<and> length n \<le> 64 \<and> js_trim n = n"
  unfolding normalizeLabelName_def using bounded_text_ok js_trim_idem by metis

lemma createLabel_wf: "createLabel i inst n c = Inr l \<Longrightarrow> label_wf l"
  by (auto simp: createLabel_def label_wf_def result_simps normalizeColorCode_def
      dest: normalizeLabelName_ok createSafeDomainCode_ok split: option.splits)

lemma label_step_wf: "label_wf l \<Longrightarrow> label_step c l = Inr l' \<Longrightarrow> label_wf l'"
  by (cases c)
    (auto simp: renameLabel_def archiveLabel_def deleteLabel_def patchLabel_def label_wf_def
      result_simps dest: normalizeLabelName_ok)

end
