(* ===== verification/Factories.thy ===== *)
theory Factories
  imports Specifications GroupAggregate Navigation
begin

text \<open>
  \<open>packages/domain/src/factories/domain-factories.ts\<close>: the constructors the application calls,
  which create an aggregate and take its first steps.  What a factory returns satisfies the
  invariant of its aggregate, so every history of a factory's aggregate does.
\<close>

section \<open>The factories\<close>

definition createInstanceAggregate :: "identity \<Rightarrow> instance_metadata option \<Rightarrow> wa_instance result" where
  "createInstanceAggregate i metadata =
     createInstance i (value_or metadata \<lparr>im_displayName = None\<rparr>)"

definition createSessionAggregate :: "identity \<Rightarrow> identity \<Rightarrow> bool option \<Rightarrow> session result" where
  "createSessionAggregate i instanceId startPairing =
     (let s = createSession i instanceId
      in if startPairing = Some True then startSessionPairing s else Inr s)"

definition createOutboundMessageAggregate ::
    "message_input \<Rightarrow> identity option \<Rightarrow> message result" where
  "createOutboundMessageAggregate input guardrailDecisionId =
     (let m = createOutboundMessageIntent input
      in case guardrailDecisionId of None \<Rightarrow> Inr m | Some g \<Rightarrow> acceptMessage m g)"

definition createInboundMessageAggregate :: "message_input \<Rightarrow> message result" where
  "createInboundMessageAggregate input = createInboundMessage input"

definition createMediaAssetAggregate ::
    "identity \<Rightarrow> media_category \<Rightarrow> retention_policy \<Rightarrow> bool option \<Rightarrow> bool option \<Rightarrow>
     media_asset result" where
  "createMediaAssetAggregate i category retentionPolicy accept diagnosticCapture =
     result_bind
       (if accept = Some True
        then acceptMediaAsset (createMediaAsset i category retentionPolicy)
        else Inr (createMediaAsset i category retentionPolicy))
       (\<lambda>media. if diagnosticCapture = Some True then requestDiagnosticCapture media else Inr media)"

definition createChatAggregate ::
    "identity \<Rightarrow> identity \<Rightarrow> string \<Rightarrow> identity list option \<Rightarrow> chat result" where
  "createChatAggregate i instanceId jid labelIds =
     createChat i instanceId jid None labelIds None None None"

definition createContactAggregate ::
    "identity \<Rightarrow> identity \<Rightarrow> string \<Rightarrow> string option \<Rightarrow> string option \<Rightarrow> contact result" where
  "createContactAggregate i instanceId jid displayName phoneNumber =
     createContact i instanceId jid displayName phoneNumber"

definition createLabelAggregate ::
    "identity \<Rightarrow> identity \<Rightarrow> string \<Rightarrow> string option \<Rightarrow> label result" where
  "createLabelAggregate i instanceId name colorCode = createLabel i instanceId name colorCode"

definition createGroupAggregate ::
    "identity \<Rightarrow> identity \<Rightarrow> string \<Rightarrow> group_metadata \<Rightarrow> wa_group result" where
  "createGroupAggregate i instanceId jid metadata = createGroup i instanceId jid metadata None"

definition createWebhookSubscriptionAggregate ::
    "identity \<Rightarrow> string \<Rightarrow> webhook_subscription result" where
  "createWebhookSubscriptionAggregate i targetUrl = createWebhookSubscription i targetUrl"

definition createWebhookDeliveryAggregate ::
    "identity \<Rightarrow> identity \<Rightarrow> string \<Rightarrow> retry_policy \<Rightarrow> webhook_delivery result" where
  "createWebhookDeliveryAggregate i webhookId sourceSignalRef retryPolicy =
     scheduleWebhookDelivery i webhookId sourceSignalRef retryPolicy"

definition createGuardrailDecisionAggregate ::
    "identity \<Rightarrow> string \<Rightarrow> guardrail_outcome \<Rightarrow> string \<Rightarrow> guardrail_decision result" where
  "createGuardrailDecisionAggregate i evaluatedIntentRef outcome reasonCode =
     result_bind (requestGuardrailDecision i evaluatedIntentRef) (\<lambda>decision.
       case outcome of
         Guardrail_allow \<Rightarrow> passGuardrailDecision decision reasonCode
       | Guardrail_block \<Rightarrow> blockGuardrailDecision decision reasonCode
       | Guardrail_throttle \<Rightarrow> throttleGuardrailDecision decision reasonCode
       | Guardrail_action_required \<Rightarrow> requireGuardrailAction decision reasonCode)"

definition requireFailureCategory :: "failure_category option \<Rightarrow> failure_category result" where
  "requireFailureCategory value =
     (case value of
        None \<Rightarrow> Inl (TypeError
          ''FailureCategory is required for degraded or unsupported provider profile.'')
      | Some c \<Rightarrow> Inr c)"

datatype initial_provider_status =
    Initial_candidate | Initial_supported | Initial_degraded | Initial_unsupported

definition createProviderProfileAggregate ::
    "identity \<Rightarrow> string \<Rightarrow> initial_provider_status \<Rightarrow> message_type list option \<Rightarrow>
     group_provider_capability list option \<Rightarrow> failure_category option \<Rightarrow>
     provider_profile result" where
  "createProviderProfileAggregate i providerKind status types capabilities failure =
     result_bind (createProviderProfile i providerKind) (\<lambda>profile.
       case status of
         Initial_supported \<Rightarrow>
           markProviderSupported profile (value_or types []) (value_or capabilities [])
       | Initial_degraded \<Rightarrow>
           result_bind (requireFailureCategory failure) (markProviderDegraded profile)
       | Initial_unsupported \<Rightarrow>
           result_bind (requireFailureCategory failure) (markProviderUnsupported profile)
       | Initial_candidate \<Rightarrow> Inr profile)"

definition createWorkerJobAggregate ::
    "identity \<Rightarrow> domain_owner_context \<Rightarrow> string \<Rightarrow> retry_policy \<Rightarrow> worker_job result" where
  "createWorkerJobAggregate i ownerContext workType retryPolicy =
     queueWorkerJob i ownerContext workType retryPolicy None"

definition createAccessDecisionAggregate ::
    "identity \<Rightarrow> string \<Rightarrow> string \<Rightarrow> access_outcome \<Rightarrow> bool option \<Rightarrow> access_decision result" where
  "createAccessDecisionAggregate i actorRef capability outcome privileged =
     result_bind (requestAccessDecision i actorRef capability) (\<lambda>requested.
     result_bind (if privileged = Some True then markPrivilegedAction requested else Inr requested)
       (\<lambda>decision. if outcome = Outcome_granted then grantAccessDecision decision
                   else denyAccessDecision decision))"

definition createAuditRecordAggregate ::
    "identity \<Rightarrow> string \<Rightarrow> retention_policy \<Rightarrow> string \<Rightarrow> bool option \<Rightarrow> audit_record result" where
  "createAuditRecordAggregate i auditCategory retentionPolicy evidenceSummaryCode redacted =
     result_bind (requestAuditRecord i auditCategory retentionPolicy) (\<lambda>requested.
     result_bind (if redacted = Some True then applyAuditRedaction requested else Inr requested)
       (\<lambda>maybeRedacted. recordAuditEvidence maybeRedacted evidenceSummaryCode))"

definition createHealthStatusAggregate ::
    "identity \<Rightarrow> string \<Rightarrow> health_category \<Rightarrow> string option \<Rightarrow> health_status result" where
  "createHealthStatusAggregate i subjectRef category causeCategory =
     result_bind (createHealthStatus i subjectRef) (\<lambda>health.
       case category of
         Health_healthy \<Rightarrow> classifyHealthy health
       | Health_degraded \<Rightarrow> classifyDegraded health (value_or causeCategory ''unknown'')
       | Health_unavailable \<Rightarrow> classifyUnavailable health (value_or causeCategory ''unknown'')
       | Health_action_required \<Rightarrow>
           markHealthActionRequired health (value_or causeCategory ''unknown'')
       | Health_recovered \<Rightarrow> markHealthRecovered health
       | Health_unknown \<Rightarrow> Inr health)"

definition createConfigurationSnapshotAggregate ::
    "identity \<Rightarrow> configuration_safety \<Rightarrow> configuration_snapshot result" where
  "createConfigurationSnapshotAggregate i safety =
     (let snapshot = proposeConfigurationSnapshot i safety
      in if safety = Safety_valid then validateConfigurationSnapshot snapshot
         else if safety = Safety_guardrail_bypass_rejected
         then rejectGuardrailBypassConfiguration snapshot
         else rejectConfigurationSnapshot snapshot)"

definition createTelemetrySignalAggregate ::
    "identity \<Rightarrow> string \<Rightarrow> bool \<Rightarrow> telemetry_signal result" where
  "createTelemetrySignalAggregate i sourceContextRef safeForProjection =
     result_bind (captureTelemetrySignal i sourceContextRef) (\<lambda>signal.
       if safeForProjection then sanitizeTelemetrySignal signal else dropTelemetrySignal signal)"

section \<open>What the factories return\<close>

lemma createOutboundMessageAggregate_ok:
  "createOutboundMessageAggregate input g = Inr m \<Longrightarrow>
     message_wf m \<and> msg_guardrailDecisionId m = g \<and>
     msg_status m = (if g = None then Msg_created else Msg_evaluated)"
  by (cases g)
    (auto simp: createOutboundMessageAggregate_def Let_def createOutboundMessageIntent_def
      baseMessage_def acceptMessage_def transitionMessage_def message_wf_def result_simps)

lemma createOutboundMessageAggregate_never_throws:
  "\<exists>m. createOutboundMessageAggregate input g = Inr m"
  by (cases g)
    (auto simp: createOutboundMessageAggregate_def Let_def createOutboundMessageIntent_def
      baseMessage_def acceptMessage_def transitionMessage_def transitionStatus_def)

lemma createInboundMessageAggregate_ok:
  "createInboundMessageAggregate input = Inr m \<Longrightarrow>
     message_wf m \<and> msg_direction m = Dir_inbound \<and> msg_status m = Msg_created"
  using message_wf_created(2) [of input m]
  by (auto simp: createInboundMessageAggregate_def createInboundMessage_def baseMessage_def
      result_simps)

lemma createInstanceAggregate_ok:
  "createInstanceAggregate i md = Inr a \<Longrightarrow> instance_wf a"
  unfolding createInstanceAggregate_def by (rule createInstance_wf)

lemma createSessionAggregate_ok:
  "createSessionAggregate i inst p = Inr s \<Longrightarrow>
     session_wf s \<and> sess_status s = (if p = Some True then Sess_pending else Sess_empty)"
  by (auto simp: createSessionAggregate_def Let_def createSession_def startSessionPairing_def
      transitionSession_def session_wf_def result_simps split: if_splits)

lemma createGroupAggregate_ok:
  "createGroupAggregate i inst jid md = Inr g \<Longrightarrow> group_wf g \<and> grp_members g = []"
  using createGroup_wf [of i inst jid md None g]
  by (auto simp: createGroupAggregate_def createGroup_def result_simps freezeMembers_def Let_def
      split: if_splits)

lemma createGuardrailDecisionAggregate_ok:
  assumes "createGuardrailDecisionAggregate i ref outcome code = Inr d"
  shows "guardrail_wf d \<and> gd_outcome d = Some outcome \<and>
     (guardrail_passing (Some d) None \<longleftrightarrow> outcome = Guardrail_allow)"
proof -
  obtain d0 where d0: "requestGuardrailDecision i ref = Inr d0"
    using assms by (auto simp: createGuardrailDecisionAggregate_def result_simps)
  have wf: "guardrail_wf d0" by (rule requestGuardrailDecision_wf [OF d0])
  have st: "gd_status d0 = Guard_requested"
    using d0 by (auto simp: requestGuardrailDecision_def result_simps)
  from assms d0 show ?thesis
    by (cases outcome)
      (auto simp: createGuardrailDecisionAggregate_def guardrail_op_defs result_simps
        guardrail_passing_def guardrail_wf_def st)
qed

lemma createConfigurationSnapshotAggregate_ok:
  "createConfigurationSnapshotAggregate i safety = Inr s \<Longrightarrow>
     configuration_wf s \<and>
     cs_status s = (if safety = Safety_valid then Config_validated else Config_rejected)"
  by (cases safety)
    (auto simp: createConfigurationSnapshotAggregate_def Let_def configuration_op_defs
      proposeConfigurationSnapshot_def configuration_wf_def result_simps)

lemma createConfigurationSnapshotAggregate_never_throws:
  "\<exists>s. createConfigurationSnapshotAggregate i safety = Inr s"
  by (cases safety)
    (auto simp: createConfigurationSnapshotAggregate_def Let_def configuration_op_defs
      proposeConfigurationSnapshot_def transitionStatus_def)

lemma createTelemetrySignalAggregate_ok:
  "createTelemetrySignalAggregate i ref safe = Inr s \<Longrightarrow>
     telemetry_wf s \<and> ts_redacted s \<and>
     ts_status s = (if safe then Tele_sanitized else Tele_dropped)"
  by (cases safe)
    (auto simp: createTelemetrySignalAggregate_def captureTelemetrySignal_def telemetry_op_defs
      telemetry_wf_def result_simps)

lemma createAccessDecisionAggregate_ok:
  "createAccessDecisionAggregate i a c out p = Inr d \<Longrightarrow>
     ad_outcome d = Some out \<and> (ad_auditEligible d \<longleftrightarrow> p = Some True) \<and>
     (ad_status d = (if out = Outcome_granted then Access_granted else Access_denied))"
  by (cases out)
    (auto simp: createAccessDecisionAggregate_def requestAccessDecision_def access_op_defs
      result_simps split: if_splits)

text \<open>
  A granted decision permits the mutation it names only when it was requested as privileged:
  an ordinary grant is not audit eligible.
\<close>

lemma createAccessDecisionAggregate_privileged:
  assumes "createAccessDecisionAggregate i a c out p = Inr d"
  shows "canPerformPrivilegedMutation (Some d) (ad_capability d) = Inr Passed \<longleftrightarrow>
     out = Outcome_granted \<and> p = Some True"
  using createAccessDecisionAggregate_ok [OF assms]
  by (cases out) (auto simp: canPerformPrivilegedMutation_passes)

lemma createMediaAssetAggregate_ok:
  "createMediaAssetAggregate i cat ret acc diag = Inr m \<Longrightarrow>
     ma_status m = (if acc = Some True then Asset_accepted else Asset_received) \<and>
     (ma_diagnosticCaptureRequested m \<longleftrightarrow> diag = Some True)"
  by (auto simp: createMediaAssetAggregate_def createMediaAsset_def media_op_defs result_simps
      split: if_splits)

lemma createAuditRecordAggregate_ok:
  "createAuditRecordAggregate i cat ret ev red = Inr r \<Longrightarrow>
     ar_status r = Audit_recorded \<and> (ar_redacted r \<longleftrightarrow> red = Some True) \<and>
     ar_evidenceSummaryCode r \<noteq> None"
  by (auto simp: createAuditRecordAggregate_def requestAuditRecord_def audit_op_defs result_simps
      split: if_splits)

end
