(* ===== verification/JobStore.thy ===== *)
theory JobStore
  imports WorkerJobs
begin

text \<open>
  What the two queue providers share: the port types of
  \<open>packages/application/src/ports/application-port.ts\<close> and \<open>queue-provider.ts\<close>, the errors a
  provider raises, and the worker-job repository they store jobs in.  The repository port is the
  record \<open>job_repository\<close> of its methods, the optional atomic ones included; the locale
  \<open>worker_job_repository\<close> states what the providers rely on, and the two implementations, the
  in-memory one and the PostgreSQL one of \<open>packages/infrastructure-persistence/src\<close>, interpret it.
\<close>

section \<open>ports/application-port.ts\<close>

datatype port_failure_category =
    Port_unavailable | Port_timeout | Port_conflict | Port_rejected | Port_unsafe_payload
  | Port_unsupported | Port_unknown

datatype safe_port_value = Port_string string | Port_number jsnum | Port_bool bool

record port_failure =
  pf_category :: port_failure_category
  pf_code :: string
  pf_message :: string
  pf_retryable :: bool
  pf_ownerContext :: "domain_owner_context option"
  pf_failureCategory :: "failure_category option"
  pf_safeMetadata :: "(string \<times> safe_port_value) list option"

type_synonym 'a port_result = "port_failure + 'a"

definition createApplicationPortFailure :: "port_failure \<Rightarrow> port_failure" where
  "createApplicationPortFailure input = input"

section \<open>ports/queue-provider.ts\<close>

datatype queue_work_type =
    Work_outbound_message | Work_media_processing | Work_webhook_delivery | Work_reconnect
  | Work_retention_cleanup | Work_health_refresh

fun queue_work_type_name :: "queue_work_type \<Rightarrow> string" where
  "queue_work_type_name Work_outbound_message = ''outbound_message''"
| "queue_work_type_name Work_media_processing = ''media_processing''"
| "queue_work_type_name Work_webhook_delivery = ''webhook_delivery''"
| "queue_work_type_name Work_reconnect = ''reconnect''"
| "queue_work_type_name Work_retention_cleanup = ''retention_cleanup''"
| "queue_work_type_name Work_health_refresh = ''health_refresh''"

definition queueWorkTypes :: "queue_work_type list" where
  "queueWorkTypes =
     [Work_outbound_message, Work_media_processing, Work_webhook_delivery, Work_reconnect,
      Work_retention_cleanup, Work_health_refresh]"

interpretation queue_work_type: string_union queue_work_type_name queueWorkTypes
proof
  show "distinct (map queue_work_type_name queueWorkTypes)" by (simp add: queueWorkTypes_def)
  show "v \<in> set queueWorkTypes" for v by (cases v) (simp_all add: queueWorkTypes_def)
qed

record queue_work =
  qw_jobId :: identity
  qw_ownerContext :: domain_owner_context
  qw_ownerRef :: string
  qw_workType :: queue_work_type
  qw_retryPolicy :: retry_policy
  qw_idempotencyKey :: string
  qw_safeInputRef :: "string option"
  qw_safeMetadata :: "safe_metadata option"

record reservation =
  rsv_jobId :: identity
  rsv_reservationRef :: string
  rsv_attempt :: int
  rsv_ownerContext :: "domain_owner_context option"
  rsv_ownerRef :: "string option"
  rsv_workType :: "queue_work_type option"
  rsv_safeInputRef :: "string option"
  rsv_safeMetadata :: "safe_metadata option"

record receipt =
  rec_jobId :: identity
  rec_visible :: bool
  rec_queueRef :: string

section \<open>Errors of a provider, and actions that may throw\<close>

text \<open>
  A provider throws its own error, passes a \<open>TypeError\<close> of the domain on, or meets anything else
  (a database error).  An action keeps the state changes made before a throw.
\<close>

datatype queue_error =
    Provider_error string string bool failure_category
  | Rejected string
  | Unexpected

type_synonym ('s, 'a) action = "'s \<Rightarrow> (queue_error + 'a) \<times> 's"

definition act_return :: "'a \<Rightarrow> ('s, 'a) action" where
  "act_return x s = (Inr x, s)"

definition act_throw :: "queue_error \<Rightarrow> ('s, 'a) action" where
  "act_throw e s = (Inl e, s)"

definition act_bind :: "('s, 'a) action \<Rightarrow> ('a \<Rightarrow> ('s, 'b) action) \<Rightarrow> ('s, 'b) action" where
  "act_bind m f s = (case m s of (Inl e, t) \<Rightarrow> (Inl e, t) | (Inr x, t) \<Rightarrow> f x t)"

definition act_lift :: "'a result \<Rightarrow> ('s, 'a) action" where
  "act_lift r s = (case r of Inl (TypeError m) \<Rightarrow> (Inl (Rejected m), s) | Inr x \<Rightarrow> (Inr x, s))"

definition act_get :: "('s \<Rightarrow> 'a) \<Rightarrow> ('s, 'a) action" where
  "act_get f s = (Inr (f s), s)"

definition act_modify :: "('s \<Rightarrow> 's) \<Rightarrow> ('s, unit) action" where
  "act_modify f s = (Inr (), f s)"

definition capturePortFailure ::
    "(queue_error \<Rightarrow> port_failure) \<Rightarrow> ('s, 'a) action \<Rightarrow> 's \<Rightarrow> 'a port_result \<times> 's" where
  "capturePortFailure conv m s =
     (case m s of (Inl e, t) \<Rightarrow> (Inl (conv e), t) | (Inr x, t) \<Rightarrow> (Inr x, t))"

lemma act_simps [simp]:
  "act_return x s = (Inr x, s)"
  "act_throw e s = (Inl e, s)"
  "act_get g s = (Inr (g s), s)"
  "act_modify h s = (Inr (), h s)"
  "act_lift (Inr x) s = (Inr x, s)"
  "act_lift (Inl (TypeError m)) s = (Inl (Rejected m), s)"
  by (simp_all add: act_return_def act_throw_def act_get_def act_modify_def act_lift_def)

lemma act_bind_eq [simp]:
  "m s = (Inr x, t) \<Longrightarrow> act_bind m f s = f x t"
  "m s = (Inl e, t) \<Longrightarrow> act_bind m f s = (Inl e, t)"
  by (simp_all add: act_bind_def)

lemma act_bind_Inr:
  "act_bind m f s = (Inr y, u) \<longleftrightarrow> (\<exists>x t. m s = (Inr x, t) \<and> f x t = (Inr y, u))"
  by (auto simp: act_bind_def split: prod.splits sum.splits)

lemma act_lift_Inr [simp]: "act_lift r s = (Inr x, t) \<longleftrightarrow> r = Inr x \<and> t = s"
  by (cases r) (auto simp: act_lift_def split: type_error.splits)

lemma act_lift_snd [simp]: "snd (act_lift r s) = s"
  by (cases r) (auto simp: act_lift_def split: type_error.splits)

lemma capturePortFailure_Inr [simp]:
  "capturePortFailure c m s = (Inr x, t) \<longleftrightarrow> m s = (Inr x, t)"
  by (auto simp: capturePortFailure_def split: prod.splits sum.splits)

lemma capturePortFailure_snd [simp]: "snd (capturePortFailure c m s) = snd (m s)"
  by (auto simp: capturePortFailure_def split: prod.splits sum.splits)

lemma capturePortFailure_Inl: "m s = (Inl e, t) \<Longrightarrow> capturePortFailure c m s = (Inl (c e), t)"
  by (simp add: capturePortFailure_def)

section \<open>The repository port\<close>

text \<open>
  The methods of \<open>WorkerJobRepositoryPort\<close> with the optional ones: recording an idempotency key,
  and the atomic group a database offers.  The source declares the five members of the group
  optional one by one; its repositories have all of them or none.
\<close>

record 'r atomic_jobs =
  at_reserveNext :: "string \<Rightarrow> int \<Rightarrow> int \<Rightarrow> (worker_job \<Rightarrow> worker_job result) \<Rightarrow> 'r \<Rightarrow>
    queue_error + worker_job option \<times> 'r"
  at_recoverExpired :: "string list \<Rightarrow> int \<Rightarrow> (worker_job \<Rightarrow> worker_job result) \<Rightarrow> 'r \<Rightarrow>
    queue_error + worker_job list \<times> 'r"
  at_setVisibleAt :: "identity \<Rightarrow> int \<Rightarrow> 'r \<Rightarrow> 'r"
  at_clearVisibleAt :: "identity \<Rightarrow> 'r \<Rightarrow> 'r"
  at_getVisibleAt :: "identity \<Rightarrow> 'r \<Rightarrow> int option"

record 'r job_repository =
  jr_load :: "identity \<Rightarrow> 'r \<Rightarrow> worker_job option"
  jr_save :: "worker_job \<Rightarrow> 'r \<Rightarrow> 'r"
  jr_findByStatus :: "job_status \<Rightarrow> 'r \<Rightarrow> worker_job list"
  jr_findByIdempotencyKey :: "string \<Rightarrow> 'r \<Rightarrow> worker_job option"
  jr_recordIdempotencyKey :: "string \<Rightarrow> identity \<Rightarrow> 'r \<Rightarrow> queue_error + 'r"
  jr_atomic :: "'r atomic_jobs option"

text \<open>Which jobs a reservation may take, and whose lease has run out, given the visibility times.\<close>

definition reservable :: "string \<Rightarrow> int \<Rightarrow> (identity \<Rightarrow> int option) \<Rightarrow> worker_job \<Rightarrow> bool" where
  "reservable workType now vis w \<longleftrightarrow>
     job_workType w = workType \<and>
     (job_status w = Job_queued \<or>
      job_status w = Job_retrying \<and> value_or (vis (job_id w)) 0 \<le> now)"

definition lease_expired :: "string list \<Rightarrow> int \<Rightarrow> (identity \<Rightarrow> int option) \<Rightarrow> worker_job \<Rightarrow> bool" where
  "lease_expired workTypes now vis w \<longleftrightarrow>
     job_workType w \<in> set workTypes \<and>
     (job_status w = Job_reserved \<or> job_status w = Job_running) \<and>
     value_or (vis (job_id w)) 0 \<le> now"

locale worker_job_repository =
  fixes repo :: "'r job_repository"
    and inv :: "'r \<Rightarrow> bool"
    and key_owner :: "string \<Rightarrow> 'r \<Rightarrow> identity option"
  assumes load_id: "inv r \<Longrightarrow> jr_load repo i r = Some w \<Longrightarrow> job_id w = i"
    and save_inv: "inv r \<Longrightarrow> inv (jr_save repo w r)"
    and load_save: "inv r \<Longrightarrow>
      jr_load repo i (jr_save repo w r) = (if i = job_id w then Some w else jr_load repo i r)"
    and find_status: "inv r \<Longrightarrow>
      w \<in> set (jr_findByStatus repo s r) \<longleftrightarrow> jr_load repo (job_id w) r = Some w \<and> job_status w = s"
    and find_distinct: "inv r \<Longrightarrow> distinct (map job_id (jr_findByStatus repo s r))"
    and find_key: "inv r \<Longrightarrow> jr_findByIdempotencyKey repo k r =
      (case key_owner k r of None \<Rightarrow> None | Some i \<Rightarrow> jr_load repo i r)"
    and key_save: "inv r \<Longrightarrow> key_owner k r = Some i \<Longrightarrow> key_owner k (jr_save repo w r) = Some i"
    and record_inv: "inv r \<Longrightarrow> jr_recordIdempotencyKey repo k i r = Inr r' \<Longrightarrow> inv r'"
    and load_record: "inv r \<Longrightarrow> jr_recordIdempotencyKey repo k i r = Inr r' \<Longrightarrow>
      jr_load repo j r' = jr_load repo j r"
    and key_record: "inv r \<Longrightarrow> jr_recordIdempotencyKey repo k i r = Inr r' \<Longrightarrow>
      jr_load repo i r \<noteq> None \<Longrightarrow> key_owner k r' = Some i"
    and key_record_other: "inv r \<Longrightarrow> jr_recordIdempotencyKey repo k i r = Inr r' \<Longrightarrow>
      key_owner k' r = Some j \<Longrightarrow> k' \<noteq> k \<Longrightarrow> j \<noteq> i \<Longrightarrow> key_owner k' r' = Some j"
    and set_inv: "inv r \<Longrightarrow> jr_atomic repo = Some a \<Longrightarrow> inv (at_setVisibleAt a i v r)"
    and clear_inv: "inv r \<Longrightarrow> jr_atomic repo = Some a \<Longrightarrow> inv (at_clearVisibleAt a i r)"
    and load_set: "inv r \<Longrightarrow> jr_atomic repo = Some a \<Longrightarrow>
      jr_load repo j (at_setVisibleAt a i v r) = jr_load repo j r"
    and load_clear: "inv r \<Longrightarrow> jr_atomic repo = Some a \<Longrightarrow>
      jr_load repo j (at_clearVisibleAt a i r) = jr_load repo j r"
    and key_set: "inv r \<Longrightarrow> jr_atomic repo = Some a \<Longrightarrow>
      key_owner k (at_setVisibleAt a i v r) = key_owner k r"
    and key_clear: "inv r \<Longrightarrow> jr_atomic repo = Some a \<Longrightarrow>
      key_owner k (at_clearVisibleAt a i r) = key_owner k r"
    and get_set: "inv r \<Longrightarrow> jr_atomic repo = Some a \<Longrightarrow> jr_load repo i r \<noteq> None \<Longrightarrow>
      at_getVisibleAt a j (at_setVisibleAt a i v r) =
        (if j = i then Some v else at_getVisibleAt a j r)"
    and get_clear: "inv r \<Longrightarrow> jr_atomic repo = Some a \<Longrightarrow>
      at_getVisibleAt a j (at_clearVisibleAt a i r) =
        (if j = i then None else at_getVisibleAt a j r)"
    and get_save: "inv r \<Longrightarrow> jr_atomic repo = Some a \<Longrightarrow> jr_load repo (job_id w) r \<noteq> None \<or> j \<noteq> job_id w \<Longrightarrow>
      at_getVisibleAt a j (jr_save repo w r) = at_getVisibleAt a j r"
    and get_record: "inv r \<Longrightarrow> jr_atomic repo = Some a \<Longrightarrow>
      jr_recordIdempotencyKey repo k i r = Inr r' \<Longrightarrow> at_getVisibleAt a j r' = at_getVisibleAt a j r"
    and reserve_none: "inv r \<Longrightarrow> jr_atomic repo = Some a \<Longrightarrow>
      at_reserveNext a t now v f r = Inr (None, r') \<Longrightarrow>
      r' = r \<and> (\<forall>i w. jr_load repo i r = Some w \<longrightarrow>
        \<not> reservable t now (\<lambda>j. at_getVisibleAt a j r) w)"
    and reserve_some: "inv r \<Longrightarrow> jr_atomic repo = Some a \<Longrightarrow>
      (\<And>x y. f x = Inr y \<Longrightarrow> job_id y = job_id x) \<Longrightarrow>
      at_reserveNext a t now v f r = Inr (Some w', r') \<Longrightarrow>
      (\<exists>w. jr_load repo (job_id w') r = Some w \<and>
        reservable t now (\<lambda>j. at_getVisibleAt a j r) w \<and> f w = Inr w') \<and>
      inv r' \<and>
      (\<forall>i. jr_load repo i r' = (if i = job_id w' then Some w' else jr_load repo i r)) \<and>
      (\<forall>i. at_getVisibleAt a i r' = (if i = job_id w' then Some v else at_getVisibleAt a i r)) \<and>
      (\<forall>k. key_owner k r' = key_owner k r)"
    and reserve_throw: "inv r \<Longrightarrow> jr_atomic repo = Some a \<Longrightarrow>
      at_reserveNext a t now v f r = Inl e \<Longrightarrow>
      \<exists>w m. jr_load repo (job_id w) r = Some w \<and>
        reservable t now (\<lambda>j. at_getVisibleAt a j r) w \<and> f w = Inl m"
    and recover_all: "inv r \<Longrightarrow> jr_atomic repo = Some a \<Longrightarrow>
      (\<And>w. jr_load repo (job_id w) r = Some w \<Longrightarrow>
        lease_expired types now (\<lambda>j. at_getVisibleAt a j r) w \<Longrightarrow>
        f w = Inr (g w) \<and> job_id (g w) = job_id w) \<Longrightarrow>
      \<exists>ws r'. at_recoverExpired a types now f r = Inr (ws, r') \<and> inv r' \<and>
        (\<forall>i. jr_load repo i r' = map_option
          (\<lambda>w. if lease_expired types now (\<lambda>j. at_getVisibleAt a j r) w then g w else w)
          (jr_load repo i r)) \<and>
        (\<forall>i. at_getVisibleAt a i r' = (case jr_load repo i r of
            None \<Rightarrow> at_getVisibleAt a i r
          | Some w \<Rightarrow> if lease_expired types now (\<lambda>j. at_getVisibleAt a j r) w
              then (if job_status (g w) = Job_retrying then Some now else None)
              else at_getVisibleAt a i r)) \<and>
        (\<forall>k. key_owner k r' = key_owner k r)"

end
