(* ===== verification/JobRepositories.thy ===== *)
theory JobRepositories
  imports JobStore
begin

text \<open>
  The two worker-job repositories of \<open>packages/infrastructure-persistence/src\<close>:
  \<open>InMemoryWorkerJobRepository\<close> of \<open>in-memory-repositories.ts\<close>, maps in insertion order, and
  \<open>PostgresqlWorkerJobRepository\<close> of \<open>postgresql-repositories.ts\<close>, whose SQL statements are
  functions on the rows of \<open>omniwa_worker_jobs\<close>.  A statement that throws inside a transaction
  rolls back, so it leaves the table as it was.  Both interpret the port's contract.
\<close>

section \<open>InMemoryWorkerJobRepository\<close>

record mem_jobs =
  mj_records :: "worker_job list"
  mj_keys :: "string \<Rightarrow> identity option"

text \<open>\<open>Map.set\<close>: a known key keeps its place.\<close>

fun put_job :: "worker_job list \<Rightarrow> worker_job \<Rightarrow> worker_job list" where
  "put_job [] w = [w]"
| "put_job (x # xs) w = (if job_id x = job_id w then w # xs else x # put_job xs w)"

definition mem_load :: "identity \<Rightarrow> mem_jobs \<Rightarrow> worker_job option" where
  "mem_load i r = List.find (\<lambda>w. job_id w = i) (mj_records r)"

definition mem_save :: "worker_job \<Rightarrow> mem_jobs \<Rightarrow> mem_jobs" where
  "mem_save w r = r\<lparr>mj_records := put_job (mj_records r) w\<rparr>"

definition mem_findByStatus :: "job_status \<Rightarrow> mem_jobs \<Rightarrow> worker_job list" where
  "mem_findByStatus s r = filter (\<lambda>w. job_status w = s) (mj_records r)"

definition mem_findByOwnerContext :: "domain_owner_context \<Rightarrow> mem_jobs \<Rightarrow> worker_job list" where
  "mem_findByOwnerContext c r = filter (\<lambda>w. job_ownerContext w = c) (mj_records r)"

definition mem_findByIdempotencyKey :: "string \<Rightarrow> mem_jobs \<Rightarrow> worker_job option" where
  "mem_findByIdempotencyKey k r =
     (case mj_keys r k of None \<Rightarrow> None | Some i \<Rightarrow> mem_load i r)"

definition mem_recordIdempotencyKey :: "string \<Rightarrow> identity \<Rightarrow> mem_jobs \<Rightarrow> queue_error + mem_jobs" where
  "mem_recordIdempotencyKey k i r = Inr (r\<lparr>mj_keys := (mj_keys r)(k \<mapsto> i)\<rparr>)"

definition mem_repository :: "mem_jobs job_repository" where
  "mem_repository =
     \<lparr>jr_load = mem_load, jr_save = mem_save, jr_findByStatus = mem_findByStatus,
      jr_findByIdempotencyKey = mem_findByIdempotencyKey,
      jr_recordIdempotencyKey = mem_recordIdempotencyKey, jr_atomic = None\<rparr>"

definition mem_empty :: mem_jobs where
  "mem_empty = \<lparr>mj_records = [], mj_keys = (\<lambda>_. None)\<rparr>"

definition mem_inv :: "mem_jobs \<Rightarrow> bool" where
  "mem_inv r \<longleftrightarrow> distinct (map job_id (mj_records r))"

lemma put_job_ids: "job_id ` set (put_job xs w) = insert (job_id w) (job_id ` set xs)"
  by (induction xs) auto

lemma put_job_distinct: "distinct (map job_id xs) \<Longrightarrow> distinct (map job_id (put_job xs w))"
  using put_job_ids by (induction xs) (auto simp: image_iff)

lemma find_put_job:
  "List.find (\<lambda>x. job_id x = i) (put_job xs w) =
     (if i = job_id w then Some w else List.find (\<lambda>x. job_id x = i) xs)"
  by (induction xs) auto

lemma find_job_iff:
  "distinct (map job_id xs) \<Longrightarrow>
     List.find (\<lambda>x. job_id x = i) xs = Some w \<longleftrightarrow> w \<in> set xs \<and> job_id w = i"
  by (induction xs) (auto simp: image_iff)

lemma distinct_map_filter_ids: "distinct (map job_id xs) \<Longrightarrow> distinct (map job_id (filter P xs))"
  by (simp add: distinct_map_filter)

lemmas mem_defs =
  mem_repository_def mem_load_def mem_save_def mem_findByStatus_def mem_findByIdempotencyKey_def
  mem_recordIdempotencyKey_def mem_inv_def

interpretation mem_repo: worker_job_repository mem_repository mem_inv "\<lambda>k r. mj_keys r k"
  by unfold_locales
    (auto simp: mem_defs find_put_job find_job_iff distinct_map_filter_ids put_job_distinct
      dest: find_SomeD split: option.splits)

section \<open>PostgresqlWorkerJobRepository\<close>

record job_row =
  row_job :: worker_job
  row_key :: "string option"
  row_visible :: "int option"

type_synonym job_table = "job_row list"

abbreviation row_id :: "job_row \<Rightarrow> identity" where
  "row_id r \<equiv> job_id (row_job r)"

text \<open>\<open>ORDER BY id\<close> under the database's collation, which is a parameter.\<close>

fun insert_row :: "(string \<Rightarrow> string \<Rightarrow> bool) \<Rightarrow> job_row \<Rightarrow> job_row list \<Rightarrow> job_row list" where
  "insert_row le x [] = [x]"
| "insert_row le x (y # ys) = (if le (row_id x) (row_id y) then x # y # ys else y # insert_row le x ys)"

definition order_rows :: "(string \<Rightarrow> string \<Rightarrow> bool) \<Rightarrow> job_row list \<Rightarrow> job_row list" where
  "order_rows le rows = foldr (insert_row le) rows []"

definition pg_row :: "identity \<Rightarrow> job_table \<Rightarrow> job_row option" where
  "pg_row i t = List.find (\<lambda>r. row_id r = i) t"

definition pg_load :: "identity \<Rightarrow> job_table \<Rightarrow> worker_job option" where
  "pg_load i t = map_option row_job (pg_row i t)"

text \<open>
  \<open>INSERT ... ON CONFLICT (id) DO UPDATE\<close>: the key written is the key the row already has, and
  the visibility column is not in the statement.
\<close>

definition findWorkerJobIdempotencyKeyByJobId :: "identity \<Rightarrow> job_table \<Rightarrow> string option" where
  "findWorkerJobIdempotencyKeyByJobId i t =
     (case pg_row i t of None \<Rightarrow> None | Some r \<Rightarrow> row_key r)"

definition pg_save :: "worker_job \<Rightarrow> job_table \<Rightarrow> job_table" where
  "pg_save w t =
     (let excluded = findWorkerJobIdempotencyKeyByJobId (job_id w) t
      in if pg_row (job_id w) t = None
         then t @ [\<lparr>row_job = w, row_key = excluded, row_visible = None\<rparr>]
         else map (\<lambda>r. if row_id r = job_id w
                       then r\<lparr>row_job := w, row_key := nullish (row_key r) excluded\<rparr> else r) t)"

definition pg_findByStatus ::
    "(string \<Rightarrow> string \<Rightarrow> bool) \<Rightarrow> job_status \<Rightarrow> job_table \<Rightarrow> worker_job list" where
  "pg_findByStatus le s t =
     map row_job (order_rows le (filter (\<lambda>r. job_status (row_job r) = s) t))"

definition pg_findByIdempotencyKey :: "string \<Rightarrow> job_table \<Rightarrow> worker_job option" where
  "pg_findByIdempotencyKey k t = map_option row_job (List.find (\<lambda>r. row_key r = Some k) t)"

text \<open>The column is \<open>UNIQUE\<close>: a key another row holds makes the statement fail.\<close>

definition pg_recordIdempotencyKey :: "string \<Rightarrow> identity \<Rightarrow> job_table \<Rightarrow> queue_error + job_table" where
  "pg_recordIdempotencyKey k i t =
     (if pg_row i t \<noteq> None \<and> (\<exists>r \<in> set t. row_key r = Some k \<and> row_id r \<noteq> i)
      then Inl Unexpected
      else Inr (map (\<lambda>r. if row_id r = i then r\<lparr>row_key := Some k\<rparr> else r) t))"

definition pg_reservable :: "string \<Rightarrow> int \<Rightarrow> job_row \<Rightarrow> bool" where
  "pg_reservable workType now r \<longleftrightarrow>
     job_workType (row_job r) = workType \<and>
     (job_status (row_job r) = Job_queued \<or>
      job_status (row_job r) = Job_retrying \<and> value_or (row_visible r) 0 \<le> now)"

definition pg_update :: "worker_job \<Rightarrow> int option \<Rightarrow> job_table \<Rightarrow> job_table" where
  "pg_update w visible t =
     map (\<lambda>r. if row_id r = job_id w then r\<lparr>row_job := w, row_visible := visible\<rparr> else r) t"

definition pg_reserveNextVisibleWorkerJob ::
    "(string \<Rightarrow> string \<Rightarrow> bool) \<Rightarrow> string \<Rightarrow> int \<Rightarrow> int \<Rightarrow> (worker_job \<Rightarrow> worker_job result) \<Rightarrow>
     job_table \<Rightarrow> queue_error + worker_job option \<times> job_table" where
  "pg_reserveNextVisibleWorkerJob le workType now leaseUntil reserve t =
     (case order_rows le (filter (pg_reservable workType now) t) of
        [] \<Rightarrow> Inr (None, t)
      | row # _ \<Rightarrow>
          (case reserve (row_job row) of
             Inl (TypeError m) \<Rightarrow> Inl (Rejected m)
           | Inr w \<Rightarrow> Inr (Some w, pg_update w (Some leaseUntil) t)))"

definition pg_expired :: "string list \<Rightarrow> int \<Rightarrow> job_row \<Rightarrow> bool" where
  "pg_expired workTypes now r \<longleftrightarrow>
     job_workType (row_job r) \<in> set workTypes \<and>
     (job_status (row_job r) = Job_reserved \<or> job_status (row_job r) = Job_running) \<and>
     value_or (row_visible r) 0 \<le> now"

fun pg_recover_rows ::
    "int \<Rightarrow> (worker_job \<Rightarrow> worker_job result) \<Rightarrow> job_row list \<Rightarrow> worker_job list \<Rightarrow> job_table \<Rightarrow>
     queue_error + worker_job list \<times> job_table" where
  "pg_recover_rows now recover [] recovered t = Inr (recovered, t)"
| "pg_recover_rows now recover (row # rows) recovered t =
     (case recover (row_job row) of
        Inl (TypeError m) \<Rightarrow> Inl (Rejected m)
      | Inr w \<Rightarrow>
          pg_recover_rows now recover rows (recovered @ [w])
            (pg_update w (if job_status w = Job_retrying then Some now else None) t))"

definition pg_recoverExpiredWorkerJobLeases ::
    "(string \<Rightarrow> string \<Rightarrow> bool) \<Rightarrow> string list \<Rightarrow> int \<Rightarrow> (worker_job \<Rightarrow> worker_job result) \<Rightarrow>
     job_table \<Rightarrow> queue_error + worker_job list \<times> job_table" where
  "pg_recoverExpiredWorkerJobLeases le workTypes now recover t =
     pg_recover_rows now recover (order_rows le (filter (pg_expired workTypes now) t)) [] t"

definition pg_setWorkerJobVisibleAt :: "identity \<Rightarrow> int \<Rightarrow> job_table \<Rightarrow> job_table" where
  "pg_setWorkerJobVisibleAt i v t =
     map (\<lambda>r. if row_id r = i then r\<lparr>row_visible := Some v\<rparr> else r) t"

definition pg_clearWorkerJobVisibleAt :: "identity \<Rightarrow> job_table \<Rightarrow> job_table" where
  "pg_clearWorkerJobVisibleAt i t =
     map (\<lambda>r. if row_id r = i then r\<lparr>row_visible := None\<rparr> else r) t"

definition pg_getWorkerJobVisibleAt :: "identity \<Rightarrow> job_table \<Rightarrow> int option" where
  "pg_getWorkerJobVisibleAt i t = (case pg_row i t of None \<Rightarrow> None | Some r \<Rightarrow> row_visible r)"

definition pg_atomic :: "(string \<Rightarrow> string \<Rightarrow> bool) \<Rightarrow> job_table atomic_jobs" where
  "pg_atomic le =
     \<lparr>at_reserveNext = pg_reserveNextVisibleWorkerJob le,
      at_recoverExpired = pg_recoverExpiredWorkerJobLeases le,
      at_setVisibleAt = pg_setWorkerJobVisibleAt,
      at_clearVisibleAt = pg_clearWorkerJobVisibleAt,
      at_getVisibleAt = pg_getWorkerJobVisibleAt\<rparr>"

definition pg_repository :: "(string \<Rightarrow> string \<Rightarrow> bool) \<Rightarrow> job_table job_repository" where
  "pg_repository le =
     \<lparr>jr_load = pg_load, jr_save = pg_save, jr_findByStatus = pg_findByStatus le,
      jr_findByIdempotencyKey = pg_findByIdempotencyKey,
      jr_recordIdempotencyKey = pg_recordIdempotencyKey, jr_atomic = Some (pg_atomic le)\<rparr>"

section \<open>The table as a map\<close>

text \<open>The primary key and the unique column.\<close>

definition pg_inv :: "job_table \<Rightarrow> bool" where
  "pg_inv t \<longleftrightarrow> distinct (map row_id t) \<and>
     (\<forall>r \<in> set t. \<forall>s \<in> set t. \<forall>k.
        row_key r = Some k \<longrightarrow> row_key s = Some k \<longrightarrow> row_id r = row_id s)"

definition pg_key_owner :: "string \<Rightarrow> job_table \<Rightarrow> identity option" where
  "pg_key_owner k t = map_option row_id (List.find (\<lambda>r. row_key r = Some k) t)"

lemma insert_row_set: "set (insert_row le x xs) = insert x (set xs)"
  by (induction xs) auto

lemma insert_row_distinct:
  "distinct (map row_id (insert_row le x xs)) \<longleftrightarrow> distinct (map row_id (x # xs))"
  by (induction xs) (auto simp: insert_row_set)

lemma order_rows_set [simp]: "set (order_rows le rows) = set rows"
  unfolding order_rows_def by (induction rows) (simp_all add: insert_row_set)

lemma order_rows_distinct: "distinct (map row_id rows) \<Longrightarrow> distinct (map row_id (order_rows le rows))"
proof (induction rows)
  case Nil
  show ?case by (simp add: order_rows_def)
next
  case (Cons x rows)
  have "set (foldr (insert_row le) rows []) = set rows"
    using order_rows_set [of le rows] by (simp add: order_rows_def)
  with Cons show ?case by (simp add: order_rows_def insert_row_distinct)
qed

lemma find_row_iff:
  "distinct (map row_id t) \<Longrightarrow>
     List.find (\<lambda>r. row_id r = i) t = Some x \<longleftrightarrow> x \<in> set t \<and> row_id x = i"
  by (induction t) (auto simp: image_iff)

text \<open>A statement that rewrites the rows of one job.\<close>

lemma find_row_map:
  assumes "\<And>r. row_id (f r) = row_id r"
  shows "List.find (\<lambda>r. row_id r = i) (map f t) = map_option f (List.find (\<lambda>r. row_id r = i) t)"
  by (induction t) (simp_all add: assms)

lemma map_row_ids:
  assumes "\<And>r. row_id (f r) = row_id r"
  shows "map row_id (map f t) = map row_id t"
  using assms by simp

lemma find_key_map:
  assumes "\<And>r. row_id (f r) = row_id r" "\<And>r. row_key (f r) = row_key r"
  shows "List.find (\<lambda>r. row_key r = Some k) (map f t) =
     map_option f (List.find (\<lambda>r. row_key r = Some k) t)"
  by (induction t) (simp_all add: assms)

lemma pg_inv_map:
  assumes "\<And>r. row_id (f r) = row_id r" "\<And>r. row_key (f r) = row_key r"
  shows "pg_inv (map f t) = pg_inv t"
  unfolding pg_inv_def map_row_ids [of f, OF assms(1)] by (simp add: assms)

lemma pg_key_owner_map:
  assumes "\<And>r. row_id (f r) = row_id r" "\<And>r. row_key (f r) = row_key r"
  shows "pg_key_owner k (map f t) = pg_key_owner k t"
  by (simp add: pg_key_owner_def find_key_map [of f, OF assms] option.map_comp comp_def assms(1))

lemma pg_inv_key:
  "pg_inv t \<Longrightarrow> r \<in> set t \<Longrightarrow> s \<in> set t \<Longrightarrow> row_key r = Some k \<Longrightarrow> row_key s = Some k \<Longrightarrow>
     row_id r = row_id s"
  unfolding pg_inv_def by blast

lemma pg_inv_distinct: "pg_inv t \<Longrightarrow> distinct (map row_id t)"
  by (simp add: pg_inv_def)

lemma pg_key_owner_iff:
  "pg_inv t \<Longrightarrow> pg_key_owner k t = Some i \<longleftrightarrow> (\<exists>r \<in> set t. row_key r = Some k \<and> row_id r = i)"
proof
  assume "pg_key_owner k t = Some i"
  then show "\<exists>r \<in> set t. row_key r = Some k \<and> row_id r = i"
    by (auto simp: pg_key_owner_def dest!: find_SomeD)
next
  assume inv: "pg_inv t" and "\<exists>r \<in> set t. row_key r = Some k \<and> row_id r = i"
  then obtain r where r: "r \<in> set t" "row_key r = Some k" "row_id r = i" by blast
  then obtain s where s: "List.find (\<lambda>r. row_key r = Some k) t = Some s"
    using find_None_iff_all [of "\<lambda>r. row_key r = Some k" t] by (cases "List.find (\<lambda>r. row_key r = Some k) t") auto
  then have "s \<in> set t" "row_key s = Some k" by (auto dest: find_SomeD)
  then have "row_id s = i" using pg_inv_key [OF inv _ r(1) _ r(2)] r(3) by simp
  with s show "pg_key_owner k t = Some i" by (simp add: pg_key_owner_def)
qed

lemma pg_load_key:
  assumes "pg_inv t"
  shows "pg_findByIdempotencyKey k t =
     (case pg_key_owner k t of None \<Rightarrow> None | Some i \<Rightarrow> pg_load i t)"
proof (cases "List.find (\<lambda>r. row_key r = Some k) t")
  case None
  then show ?thesis by (simp add: pg_findByIdempotencyKey_def pg_key_owner_def)
next
  case (Some r)
  then have "r \<in> set t" by (auto dest: find_SomeD)
  then have "pg_row (row_id r) t = Some r"
    using find_row_iff [OF pg_inv_distinct [OF assms]] by (simp add: pg_row_def)
  with Some show ?thesis
    by (simp add: pg_findByIdempotencyKey_def pg_key_owner_def pg_load_def)
qed

text \<open>Looking a job up is looking its row up.\<close>

lemma pg_load_iff:
  "pg_inv t \<Longrightarrow> pg_load i t = Some w \<longleftrightarrow> (\<exists>r \<in> set t. row_job r = w \<and> job_id w = i)"
  using find_row_iff [OF pg_inv_distinct] by (auto simp: pg_load_def pg_row_def)

lemma pg_row_iff: "pg_inv t \<Longrightarrow> pg_row i t = Some r \<longleftrightarrow> r \<in> set t \<and> row_id r = i"
  unfolding pg_row_def by (rule find_row_iff [OF pg_inv_distinct])

lemma pg_row_visible:
  assumes "pg_inv t" "r \<in> set t"
  shows "pg_getWorkerJobVisibleAt (row_id r) t = row_visible r"
proof -
  have "pg_row (row_id r) t = Some r" using assms by (simp add: pg_row_iff)
  then show ?thesis by (simp add: pg_getWorkerJobVisibleAt_def)
qed

lemma pg_load_map:
  assumes "\<And>r. row_id (f r) = row_id r"
  shows "pg_load i (map f t) = map_option (\<lambda>r. row_job (f r)) (pg_row i t)"
  by (simp add: pg_load_def pg_row_def find_row_map [of f, OF assms] option.map_comp comp_def)

lemma pg_row_map:
  assumes "\<And>r. row_id (f r) = row_id r"
  shows "pg_row i (map f t) = map_option f (pg_row i t)"
  by (simp add: pg_row_def find_row_map [of f, OF assms])

lemma pg_row_SomeD: "pg_row i t = Some r \<Longrightarrow> r \<in> set t \<and> row_id r = i"
  unfolding pg_row_def by (rule find_SomeD)

lemma pg_row_append:
  "pg_row i (t @ [r]) = (case pg_row i t of Some x \<Rightarrow> Some x | None \<Rightarrow> if row_id r = i then Some r else None)"
  unfolding pg_row_def by (induction t) auto

lemma pg_row_None: "pg_row i t = None \<longleftrightarrow> i \<notin> row_id ` set t"
  by (auto simp: pg_row_def find_None_iff_all)

section \<open>The statements on the map\<close>

abbreviation save_row :: "worker_job \<Rightarrow> job_table \<Rightarrow> job_row \<Rightarrow> job_row" where
  "save_row w t r \<equiv>
     (if row_id r = job_id w
      then r\<lparr>row_job := w, row_key := nullish (row_key r) (findWorkerJobIdempotencyKeyByJobId (job_id w) t)\<rparr>
      else r)"

text \<open>On an existing row \<open>COALESCE\<close> finds the row's own key either way.\<close>

lemma save_row_key: "pg_inv t \<Longrightarrow> r \<in> set t \<Longrightarrow> row_key (save_row w t r) = row_key r"
  using find_row_iff [OF pg_inv_distinct, of t "row_id r" r]
  by (cases "row_key r") (auto simp: findWorkerJobIdempotencyKeyByJobId_def pg_row_def)

lemma row_key_same: "x\<lparr>row_job := w, row_key := row_key x\<rparr> = x\<lparr>row_job := w\<rparr>"
  by (cases x) simp

lemma pg_save_eq:
  assumes "pg_inv t"
  shows "pg_save w t =
     (if pg_row (job_id w) t = None then t @ [\<lparr>row_job = w, row_key = None, row_visible = None\<rparr>]
      else map (\<lambda>r. if row_id r = job_id w then r\<lparr>row_job := w\<rparr> else r) t)"
proof (cases "pg_row (job_id w) t")
  case None
  then show ?thesis by (simp add: pg_save_def findWorkerJobIdempotencyKeyByJobId_def)
next
  case (Some x)
  have "pg_save w t = map (save_row w t) t"
    using Some by (simp only: pg_save_def Let_def option.distinct if_False)
  also have "\<dots> = map (\<lambda>r. if row_id r = job_id w then r\<lparr>row_job := w\<rparr> else r) t"
  proof (rule map_cong [OF refl])
    fix r assume r: "r \<in> set t"
    show "save_row w t r = (if row_id r = job_id w then r\<lparr>row_job := w\<rparr> else r)"
    proof (cases "row_id r = job_id w")
      case True
      have "nullish (row_key r) (findWorkerJobIdempotencyKeyByJobId (job_id w) t) = row_key r"
        using save_row_key [OF assms r, of w] unfolding if_P [OF True] by simp
      then show ?thesis using True by (simp only: if_True row_key_same)
    next
      case False
      then show ?thesis by (simp only: if_False)
    qed
  qed
  finally show ?thesis using Some by simp
qed

lemma pg_inv_append:
  assumes "pg_inv t" "row_id r \<notin> row_id ` set t" "row_key r = None"
  shows "pg_inv (t @ [r])"
  unfolding pg_inv_def
proof (intro conjI ballI allI impI)
  show "distinct (map row_id (t @ [r]))" using pg_inv_distinct [OF assms(1)] assms(2) by simp
next
  fix a b k
  assume ab: "a \<in> set (t @ [r])" "b \<in> set (t @ [r])" "row_key a = Some k" "row_key b = Some k"
  then have "a \<in> set t" "b \<in> set t" using assms(3) by auto
  then show "row_id a = row_id b" using pg_inv_key [OF assms(1)] ab by blast
qed

lemma pg_save_inv: assumes "pg_inv t" shows "pg_inv (pg_save w t)"
proof (cases "pg_row (job_id w) t")
  case None
  then show ?thesis
    using assms pg_inv_append [of t "\<lparr>row_job = w, row_key = None, row_visible = None\<rparr>"]
    unfolding pg_save_eq [OF assms] by (simp add: pg_row_None)
next
  case (Some r)
  then show ?thesis
    using assms pg_inv_map [of "\<lambda>r. if row_id r = job_id w then r\<lparr>row_job := w\<rparr> else r" t]
    unfolding pg_save_eq [OF assms] by simp
qed

lemma pg_row_save:
  assumes "pg_inv t"
  shows "pg_row i (pg_save w t) =
     (if i = job_id w
      then Some (case pg_row i t of None \<Rightarrow> \<lparr>row_job = w, row_key = None, row_visible = None\<rparr>
                 | Some r \<Rightarrow> r\<lparr>row_job := w\<rparr>)
      else pg_row i t)"
proof (cases "pg_row (job_id w) t")
  case None
  then show ?thesis unfolding pg_save_eq [OF assms] by (auto simp: pg_row_append split: option.splits)
next
  case (Some r)
  then show ?thesis
    unfolding pg_save_eq [OF assms]
    using pg_row_map [of "\<lambda>r. if row_id r = job_id w then r\<lparr>row_job := w\<rparr> else r" i t] pg_row_SomeD
    by (cases "pg_row i t") (auto dest: pg_row_SomeD)
qed

lemma pg_key_save:
  assumes "pg_inv t" "pg_key_owner k t = Some i"
  shows "pg_key_owner k (pg_save w t) = Some i"
proof -
  obtain r where r: "r \<in> set t" "row_key r = Some k" "row_id r = i"
    using assms pg_key_owner_iff by blast
  have "\<exists>s \<in> set (pg_save w t). row_key s = Some k \<and> row_id s = i"
  proof (cases "pg_row (job_id w) t")
    case None
    then have "r \<in> set (pg_save w t)" using r(1) by (simp add: pg_save_eq [OF assms(1)])
    with r show ?thesis by blast
  next
    case (Some x)
    let ?f = "\<lambda>r. if row_id r = job_id w then r\<lparr>row_job := w\<rparr> else r"
    have eq: "pg_save w t = map ?f t" using Some by (simp add: pg_save_eq [OF assms(1)])
    have "?f r \<in> set (map ?f t)" unfolding list.set_map using r(1) by (rule imageI)
    then have "?f r \<in> set (pg_save w t)" unfolding eq .
    moreover have "row_key (?f r) = Some k" "row_id (?f r) = i" using r(2,3) by simp_all
    ultimately show ?thesis by (intro bexI [of _ "?f r"] conjI)
  qed
  then show ?thesis using pg_key_owner_iff [OF pg_save_inv [OF assms(1)]] by blast
qed

abbreviation update_row :: "worker_job \<Rightarrow> int option \<Rightarrow> job_row \<Rightarrow> job_row" where
  "update_row w v r \<equiv> (if row_id r = job_id w then r\<lparr>row_job := w, row_visible := v\<rparr> else r)"

lemma pg_update_inv: "pg_inv (pg_update w v t) = pg_inv t"
  unfolding pg_update_def by (rule pg_inv_map) auto

lemma pg_update_key: "pg_key_owner k (pg_update w v t) = pg_key_owner k t"
  unfolding pg_update_def by (rule pg_key_owner_map) auto

lemma pg_row_update: "pg_row i (pg_update w v t) = map_option (update_row w v) (pg_row i t)"
  unfolding pg_update_def by (rule pg_row_map) auto

lemma pg_load_update:
  "pg_load i (pg_update w v t) = (if i = job_id w then map_option (\<lambda>_. w) (pg_load i t) else pg_load i t)"
  by (cases "pg_row i t") (auto simp: pg_load_def pg_row_update dest: pg_row_SomeD)

lemma pg_get_update:
  "pg_getWorkerJobVisibleAt i (pg_update w v t) =
     (if i = job_id w \<and> pg_row i t \<noteq> None then v else pg_getWorkerJobVisibleAt i t)"
  by (cases "pg_row i t") (auto simp: pg_getWorkerJobVisibleAt_def pg_row_update dest: pg_row_SomeD)


text \<open>The candidates of a query are the jobs the contract speaks of.\<close>

lemma pg_reservable_row:
  assumes "pg_inv t" "r \<in> set t"
  shows "pg_reservable wt now r \<longleftrightarrow>
     reservable wt now (\<lambda>j. pg_getWorkerJobVisibleAt j t) (row_job r)"
  using pg_row_visible [OF assms] by (simp add: pg_reservable_def reservable_def)

lemma pg_expired_row:
  assumes "pg_inv t" "r \<in> set t"
  shows "pg_expired types now r \<longleftrightarrow>
     lease_expired types now (\<lambda>j. pg_getWorkerJobVisibleAt j t) (row_job r)"
  using pg_row_visible [OF assms] by (simp add: pg_expired_def lease_expired_def)

lemma pg_load_of_row: "pg_inv t \<Longrightarrow> r \<in> set t \<Longrightarrow> pg_load (row_id r) t = Some (row_job r)"
  by (auto simp: pg_load_iff)

lemma pg_reserve_none:
  assumes "pg_inv t" "pg_reserveNextVisibleWorkerJob le wt now v f t = Inr (None, t')"
  shows "t' = t \<and> (\<forall>i w. pg_load i t = Some w \<longrightarrow>
     \<not> reservable wt now (\<lambda>j. pg_getWorkerJobVisibleAt j t) w)"
proof (cases "order_rows le (filter (pg_reservable wt now) t)")
  case Nil
  then have "filter (pg_reservable wt now) t = []"
    using order_rows_set [of le "filter (pg_reservable wt now) t"] by simp
  moreover have "t' = t" using Nil assms(2) by (simp add: pg_reserveNextVisibleWorkerJob_def)
  ultimately show ?thesis
    using assms(1) pg_reservable_row by (auto simp: pg_load_iff filter_empty_conv)
next
  case (Cons r rs)
  then show ?thesis using assms(2)
    by (simp add: pg_reserveNextVisibleWorkerJob_def split: sum.splits type_error.splits)
qed

lemma pg_reserve_candidate:
  assumes "order_rows le (filter (pg_reservable wt now) t) = r # rs" "pg_inv t"
  shows "r \<in> set t \<and> pg_load (row_id r) t = Some (row_job r) \<and>
     reservable wt now (\<lambda>j. pg_getWorkerJobVisibleAt j t) (row_job r)"
proof -
  have "r \<in> set (order_rows le (filter (pg_reservable wt now) t))" using assms(1) by simp
  then have "r \<in> set (filter (pg_reservable wt now) t)" unfolding order_rows_set .
  then show ?thesis using assms(2) pg_reservable_row pg_load_of_row by auto
qed

lemma pg_reserve_some:
  assumes inv: "pg_inv t" and keep: "\<And>x y. f x = Inr y \<Longrightarrow> job_id y = job_id x"
    and res: "pg_reserveNextVisibleWorkerJob le wt now v f t = Inr (Some w', t')"
  shows "(\<exists>w. pg_load (job_id w') t = Some w \<and>
        reservable wt now (\<lambda>j. pg_getWorkerJobVisibleAt j t) w \<and> f w = Inr w') \<and>
      t' = pg_update w' (Some v) t"
proof (cases "order_rows le (filter (pg_reservable wt now) t)")
  case Nil
  then show ?thesis using res by (simp add: pg_reserveNextVisibleWorkerJob_def)
next
  case (Cons r rs)
  from res Cons have f: "f (row_job r) = Inr w'" and t': "t' = pg_update w' (Some v) t"
    by (simp_all add: pg_reserveNextVisibleWorkerJob_def split: sum.splits type_error.splits)
  with pg_reserve_candidate [OF Cons inv] keep [OF f] show ?thesis by auto
qed

lemma pg_reserve_throw:
  assumes "pg_inv t" "pg_reserveNextVisibleWorkerJob le wt now v f t = Inl e"
  shows "\<exists>w m. pg_load (job_id w) t = Some w \<and>
     reservable wt now (\<lambda>j. pg_getWorkerJobVisibleAt j t) w \<and> f w = Inl m"
proof (cases "order_rows le (filter (pg_reservable wt now) t)")
  case Nil
  then show ?thesis using assms(2) by (simp add: pg_reserveNextVisibleWorkerJob_def)
next
  case (Cons r rs)
  then have "\<exists>m. f (row_job r) = Inl m"
    using assms(2)
    by (auto simp: pg_reserveNextVisibleWorkerJob_def split: sum.splits type_error.splits)
  with pg_reserve_candidate [OF Cons assms(1)] show ?thesis by blast
qed

text \<open>Recovering a list of rows updates each of their jobs once.\<close>

lemma pg_recover_rows_ok:
  assumes "\<And>r. r \<in> set rows \<Longrightarrow> f (row_job r) = Inr (g (row_job r)) \<and> job_id (g (row_job r)) = row_id r"
    and "distinct (map row_id rows)" and "pg_inv t"
    and "\<And>r. r \<in> set rows \<Longrightarrow> pg_row (row_id r) t = Some r"
  shows "\<exists>ws t'. pg_recover_rows now f rows done t = Inr (ws, t') \<and> pg_inv t' \<and>
     (\<forall>i. pg_row i t' = (case pg_row i t of None \<Rightarrow> None
        | Some r \<Rightarrow> Some (if r \<in> set rows
            then update_row (g (row_job r))
                   (if job_status (g (row_job r)) = Job_retrying then Some now else None) r
            else r))) \<and>
     (\<forall>k. pg_key_owner k t' = pg_key_owner k t)"
  using assms
proof (induction rows arbitrary: "done" t)
  case Nil
  then show ?case by (auto split: option.splits)
next
  case (Cons r rows)
  let ?w = "g (row_job r)"
  let ?v = "if job_status ?w = Job_retrying then Some now else None"
  let ?t = "pg_update ?w ?v t"
  have w: "f (row_job r) = Inr ?w" "job_id ?w = row_id r" using Cons.prems(1) by auto
  have other: "row_id s \<noteq> row_id r" if "s \<in> set rows" for s
  proof -
    have "row_id r \<notin> row_id ` set rows" using Cons.prems(2) by simp
    moreover have "row_id s \<in> row_id ` set rows" using that by (rule imageI)
    ultimately show ?thesis by metis
  qed
  have rows: "pg_row (row_id s) ?t = Some s" if "s \<in> set rows" for s
    using Cons.prems(4) [of s] that other [OF that] w by (simp add: pg_row_update)
  obtain ws t' where t': "pg_recover_rows now f rows (done @ [?w]) ?t = Inr (ws, t')" "pg_inv t'"
      and row': "\<And>i. pg_row i t' = (case pg_row i ?t of None \<Rightarrow> None
        | Some r \<Rightarrow> Some (if r \<in> set rows
            then update_row (g (row_job r))
                   (if job_status (g (row_job r)) = Job_retrying then Some now else None) r
            else r))"
      and key': "\<And>k. pg_key_owner k t' = pg_key_owner k ?t"
    using Cons.IH [of ?t "done @ [?w]"] Cons.prems rows by (auto simp: pg_update_inv)
  have "pg_row i t' = (case pg_row i t of None \<Rightarrow> None
        | Some s \<Rightarrow> Some (if s \<in> set (r # rows)
            then update_row (g (row_job s))
                   (if job_status (g (row_job s)) = Job_retrying then Some now else None) s
            else s))" for i
  proof (cases "pg_row i t")
    case None
    then show ?thesis by (simp add: row' pg_row_update)
  next
    case (Some s)
    show ?thesis
    proof (cases "i = row_id r")
      case True
      then have s: "s = r" using Some Cons.prems(4) [of r] by simp
      have "row_id (update_row ?w ?v r) = row_id r" using w by simp
      then have "update_row ?w ?v r \<notin> set rows" using other by blast
      then show ?thesis using Some s w by (simp add: row' pg_row_update)
    next
      case False
      then have "row_id s \<noteq> row_id r" "s \<noteq> r" using Some by (auto dest: pg_row_SomeD)
      then show ?thesis using Some w by (simp add: row' pg_row_update)
    qed
  qed
  with t' key' w show ?case by (auto simp: pg_update_key)
qed

lemma pg_recover_all:
  assumes inv: "pg_inv t"
    and f: "\<And>w. pg_load (job_id w) t = Some w \<Longrightarrow>
        lease_expired types now (\<lambda>j. pg_getWorkerJobVisibleAt j t) w \<Longrightarrow>
        f w = Inr (g w) \<and> job_id (g w) = job_id w"
  shows "\<exists>ws t'. pg_recoverExpiredWorkerJobLeases le types now f t = Inr (ws, t') \<and> pg_inv t' \<and>
        (\<forall>i. pg_load i t' = map_option
          (\<lambda>w. if lease_expired types now (\<lambda>j. pg_getWorkerJobVisibleAt j t) w then g w else w)
          (pg_load i t)) \<and>
        (\<forall>i. pg_getWorkerJobVisibleAt i t' = (case pg_load i t of
            None \<Rightarrow> pg_getWorkerJobVisibleAt i t
          | Some w \<Rightarrow> if lease_expired types now (\<lambda>j. pg_getWorkerJobVisibleAt j t) w
              then (if job_status (g w) = Job_retrying then Some now else None)
              else pg_getWorkerJobVisibleAt i t)) \<and>
        (\<forall>k. pg_key_owner k t' = pg_key_owner k t)"
proof -
  let ?rows = "order_rows le (filter (pg_expired types now) t)"
  have rows: "r \<in> set ?rows \<longleftrightarrow> r \<in> set t \<and> pg_expired types now r" for r by simp
  have ok: "f (row_job r) = Inr (g (row_job r)) \<and> job_id (g (row_job r)) = row_id r"
    if "r \<in> set ?rows" for r
    using that rows f [of "row_job r"] pg_load_of_row [OF inv] pg_expired_row [OF inv] by blast
  have dist: "distinct (map row_id ?rows)"
    by (rule order_rows_distinct) (simp add: distinct_map_filter pg_inv_distinct [OF inv])
  have at: "pg_row (row_id r) t = Some r" if "r \<in> set ?rows" for r
    using that rows pg_row_iff [OF inv] by blast
  from pg_recover_rows_ok [of ?rows f g t now "[]", OF ok dist inv at]
  obtain ws t' where run: "pg_recover_rows now f ?rows [] t = Inr (ws, t')" and inv': "pg_inv t'"
      and row: "\<And>i. pg_row i t' = (case pg_row i t of None \<Rightarrow> None
        | Some r \<Rightarrow> Some (if r \<in> set ?rows
            then update_row (g (row_job r))
                   (if job_status (g (row_job r)) = Job_retrying then Some now else None) r
            else r))"
      and key: "\<And>k. pg_key_owner k t' = pg_key_owner k t"
    by blast
  have exp: "r \<in> set ?rows \<longleftrightarrow>
      lease_expired types now (\<lambda>j. pg_getWorkerJobVisibleAt j t) (row_job r)"
    if "pg_row i t = Some r" for i r
    using that rows pg_expired_row [OF inv] pg_row_SomeD by blast
  have load: "pg_load i t' = map_option
      (\<lambda>w. if lease_expired types now (\<lambda>j. pg_getWorkerJobVisibleAt j t) w then g w else w)
      (pg_load i t)" for i
  proof (cases "pg_row i t")
    case None
    then show ?thesis by (simp add: pg_load_def row)
  next
    case (Some r)
    then show ?thesis using exp [OF Some] ok [of r] by (auto simp: pg_load_def row)
  qed
  have get: "pg_getWorkerJobVisibleAt i t' = (case pg_load i t of
            None \<Rightarrow> pg_getWorkerJobVisibleAt i t
          | Some w \<Rightarrow> if lease_expired types now (\<lambda>j. pg_getWorkerJobVisibleAt j t) w
              then (if job_status (g w) = Job_retrying then Some now else None)
              else pg_getWorkerJobVisibleAt i t)" for i
  proof (cases "pg_row i t")
    case None
    then show ?thesis by (simp add: pg_load_def pg_getWorkerJobVisibleAt_def row)
  next
    case (Some r)
    show ?thesis
    proof (cases "r \<in> set ?rows")
      case True
      then show ?thesis
        using Some exp [OF Some] ok [OF True]
        by (simp add: pg_load_def pg_getWorkerJobVisibleAt_def row del: order_rows_set)
    next
      case False
      then have "\<not> lease_expired types now (\<lambda>j. pg_getWorkerJobVisibleAt j t) (row_job r)"
        using exp [OF Some] by blast
      then show ?thesis
        using Some False
        by (simp add: pg_load_def pg_getWorkerJobVisibleAt_def [of i t'] row del: order_rows_set)
          (simp add: pg_getWorkerJobVisibleAt_def)
    qed
  qed
  show ?thesis
    unfolding pg_recoverExpiredWorkerJobLeases_def using run inv' load get key by blast
qed

section \<open>The table implements the port\<close>

abbreviation key_row :: "string \<Rightarrow> identity \<Rightarrow> job_row \<Rightarrow> job_row" where
  "key_row k i r \<equiv> (if row_id r = i then r\<lparr>row_key := Some k\<rparr> else r)"

lemma pg_record_Inr:
  assumes "pg_recordIdempotencyKey k i t = Inr t'"
  shows "t' = map (key_row k i) t \<and>
     (pg_row i t = None \<or> (\<forall>r \<in> set t. row_key r = Some k \<longrightarrow> row_id r = i))"
  using assms by (auto simp: pg_recordIdempotencyKey_def split: if_splits)

lemma pg_record_inv:
  assumes "pg_inv t" "pg_recordIdempotencyKey k i t = Inr t'"
  shows "pg_inv t'"
  unfolding pg_inv_def
proof (intro conjI ballI allI impI)
  have t': "t' = map (key_row k i) t" using pg_record_Inr [OF assms(2)] by blast
  have ids: "map row_id t' = map row_id t" unfolding t' by (rule map_row_ids) simp
  then show "distinct (map row_id t')" using pg_inv_distinct [OF assms(1)] by simp
  fix a b l
  assume ab: "a \<in> set t'" "b \<in> set t'" "row_key a = Some l" "row_key b = Some l"
  then obtain x y where x: "x \<in> set t" "a = key_row k i x" and y: "y \<in> set t" "b = key_row k i y"
    unfolding t' by auto
  have only: "row_id z = i" if "row_id u = i" "u \<in> set t" "z \<in> set t" "row_key z = Some k" for u z
  proof -
    have "pg_row i t \<noteq> None" using that(1,2) unfolding pg_row_None by blast
    then show ?thesis using pg_record_Inr [OF assms(2)] that(3,4) by metis
  qed
  show "row_id a = row_id b"
  proof (cases "row_id x = i"; cases "row_id y = i")
    assume "row_id x \<noteq> i" "row_id y \<noteq> i"
    then show ?thesis using ab x y pg_inv_key [OF assms(1), of x y l] by simp
  next
    assume "row_id x = i" "row_id y \<noteq> i"
    then show ?thesis using ab x y only [of x y] by simp
  next
    assume "row_id x \<noteq> i" "row_id y = i"
    then show ?thesis using ab x y only [of y x] by simp
  qed (use x y in simp)
qed

lemma map_member: "x \<in> set t \<Longrightarrow> f x \<in> set (map f t)"
  by simp

lemma pg_row_record:
  "pg_recordIdempotencyKey k i t = Inr t' \<Longrightarrow> pg_row j t' = map_option (key_row k i) (pg_row j t)"
  using pg_record_Inr pg_row_map [of "key_row k i" j t] by auto

lemma pg_key_record:
  assumes "pg_inv t" "pg_recordIdempotencyKey k i t = Inr t'" "pg_load i t \<noteq> None"
  shows "pg_key_owner k t' = Some i"
proof -
  obtain r where "pg_row i t = Some r" using assms(3) by (auto simp: pg_load_def)
  then have r: "r \<in> set t" "row_id r = i" by (auto dest: pg_row_SomeD)
  have t': "t' = map (key_row k i) t" using pg_record_Inr [OF assms(2)] by blast
  have "key_row k i r \<in> set t'" unfolding t' by (rule map_member [OF r(1)])
  then have "r\<lparr>row_key := Some k\<rparr> \<in> set t'" using r(2) by simp
  then show ?thesis
    unfolding pg_key_owner_iff [OF pg_record_inv [OF assms(1,2)]]
    using r(2) by (intro bexI [of _ "r\<lparr>row_key := Some k\<rparr>"]) simp_all
qed

lemma pg_key_record_other:
  assumes "pg_inv t" "pg_recordIdempotencyKey k i t = Inr t'" "pg_key_owner l t = Some j"
    "l \<noteq> k" "j \<noteq> i"
  shows "pg_key_owner l t' = Some j"
proof -
  obtain r where r: "r \<in> set t" "row_key r = Some l" "row_id r = j"
    using assms(3) unfolding pg_key_owner_iff [OF assms(1)] by blast
  have t': "t' = map (key_row k i) t" using pg_record_Inr [OF assms(2)] by blast
  have "key_row k i r \<in> set t'" unfolding t' by (rule map_member [OF r(1)])
  then have "r \<in> set t'" using r(3) assms(5) by simp
  then show ?thesis
    unfolding pg_key_owner_iff [OF pg_record_inv [OF assms(1,2)]] using r by blast
qed

lemma pg_findByStatus_iff:
  assumes "pg_inv t"
  shows "w \<in> set (pg_findByStatus le s t) \<longleftrightarrow> pg_load (job_id w) t = Some w \<and> job_status w = s"
  using pg_load_iff [OF assms] by (auto simp: pg_findByStatus_def)

lemma pg_findByStatus_distinct:
  assumes "pg_inv t"
  shows "distinct (map job_id (pg_findByStatus le s t))"
proof -
  have "distinct (map row_id (order_rows le (filter (\<lambda>r. job_status (row_job r) = s) t)))"
    by (rule order_rows_distinct) (simp add: distinct_map_filter pg_inv_distinct [OF assms])
  then show ?thesis by (simp add: pg_findByStatus_def comp_def)
qed

lemma pg_row_set:
  "pg_row j (pg_setWorkerJobVisibleAt i v t) =
     map_option (\<lambda>r. if row_id r = i then r\<lparr>row_visible := Some v\<rparr> else r) (pg_row j t)"
  unfolding pg_setWorkerJobVisibleAt_def by (rule pg_row_map) simp

lemma pg_row_clear:
  "pg_row j (pg_clearWorkerJobVisibleAt i t) =
     map_option (\<lambda>r. if row_id r = i then r\<lparr>row_visible := None\<rparr> else r) (pg_row j t)"
  unfolding pg_clearWorkerJobVisibleAt_def by (rule pg_row_map) simp

lemma pg_frame_set:
  "pg_inv (pg_setWorkerJobVisibleAt i v t) = pg_inv t"
  "pg_key_owner k (pg_setWorkerJobVisibleAt i v t) = pg_key_owner k t"
  "pg_load j (pg_setWorkerJobVisibleAt i v t) = pg_load j t"
proof -
  show "pg_inv (pg_setWorkerJobVisibleAt i v t) = pg_inv t"
    unfolding pg_setWorkerJobVisibleAt_def by (rule pg_inv_map) simp_all
  show "pg_key_owner k (pg_setWorkerJobVisibleAt i v t) = pg_key_owner k t"
    unfolding pg_setWorkerJobVisibleAt_def by (rule pg_key_owner_map) simp_all
  show "pg_load j (pg_setWorkerJobVisibleAt i v t) = pg_load j t"
    by (cases "pg_row j t") (simp_all add: pg_load_def pg_row_set)
qed

lemma pg_frame_clear:
  "pg_inv (pg_clearWorkerJobVisibleAt i t) = pg_inv t"
  "pg_key_owner k (pg_clearWorkerJobVisibleAt i t) = pg_key_owner k t"
  "pg_load j (pg_clearWorkerJobVisibleAt i t) = pg_load j t"
proof -
  show "pg_inv (pg_clearWorkerJobVisibleAt i t) = pg_inv t"
    unfolding pg_clearWorkerJobVisibleAt_def by (rule pg_inv_map) simp_all
  show "pg_key_owner k (pg_clearWorkerJobVisibleAt i t) = pg_key_owner k t"
    unfolding pg_clearWorkerJobVisibleAt_def by (rule pg_key_owner_map) simp_all
  show "pg_load j (pg_clearWorkerJobVisibleAt i t) = pg_load j t"
    by (cases "pg_row j t") (simp_all add: pg_load_def pg_row_clear)
qed

lemma pg_get_set:
  "pg_load i t \<noteq> None \<Longrightarrow> pg_getWorkerJobVisibleAt j (pg_setWorkerJobVisibleAt i v t) =
     (if j = i then Some v else pg_getWorkerJobVisibleAt j t)"
  by (cases "pg_row j t")
    (auto simp: pg_row_set pg_load_def pg_getWorkerJobVisibleAt_def dest: pg_row_SomeD)

lemma pg_get_clear:
  "pg_getWorkerJobVisibleAt j (pg_clearWorkerJobVisibleAt i t) =
     (if j = i then None else pg_getWorkerJobVisibleAt j t)"
  by (cases "pg_row j t")
    (auto simp: pg_row_clear pg_getWorkerJobVisibleAt_def dest: pg_row_SomeD)

lemma pg_get_save:
  "pg_inv t \<Longrightarrow> pg_load (job_id w) t \<noteq> None \<or> j \<noteq> job_id w \<Longrightarrow>
     pg_getWorkerJobVisibleAt j (pg_save w t) = pg_getWorkerJobVisibleAt j t"
  by (auto simp: pg_getWorkerJobVisibleAt_def pg_row_save pg_load_def split: option.splits)

lemma pg_load_save:
  "pg_inv t \<Longrightarrow> pg_load i (pg_save w t) = (if i = job_id w then Some w else pg_load i t)"
  by (auto simp: pg_load_def pg_row_save split: option.splits)

lemma pg_load_record:
  "pg_recordIdempotencyKey k i t = Inr t' \<Longrightarrow> pg_load j t' = pg_load j t"
  by (cases "pg_row j t") (auto simp: pg_load_def pg_row_record)

lemma pg_get_record:
  "pg_recordIdempotencyKey k i t = Inr t' \<Longrightarrow>
     pg_getWorkerJobVisibleAt j t' = pg_getWorkerJobVisibleAt j t"
  by (cases "pg_row j t") (auto simp: pg_getWorkerJobVisibleAt_def pg_row_record)

lemma pg_update_effect:
  assumes "pg_inv t" "pg_load (job_id w') t \<noteq> None"
  shows "pg_inv (pg_update w' v t) \<and>
     (\<forall>i. pg_load i (pg_update w' v t) = (if i = job_id w' then Some w' else pg_load i t)) \<and>
     (\<forall>i. pg_getWorkerJobVisibleAt i (pg_update w' v t) =
        (if i = job_id w' then v else pg_getWorkerJobVisibleAt i t)) \<and>
     (\<forall>k. pg_key_owner k (pg_update w' v t) = pg_key_owner k t)"
  using assms
  by (auto simp: pg_update_inv pg_load_update pg_get_update pg_update_key)
    (auto simp: pg_load_def)

lemma pg_methods:
  "jr_load (pg_repository le) = pg_load"
  "jr_save (pg_repository le) = pg_save"
  "jr_findByStatus (pg_repository le) = pg_findByStatus le"
  "jr_findByIdempotencyKey (pg_repository le) = pg_findByIdempotencyKey"
  "jr_recordIdempotencyKey (pg_repository le) = pg_recordIdempotencyKey"
  "jr_atomic (pg_repository le) = Some a \<longleftrightarrow> a = pg_atomic le"
  "at_reserveNext (pg_atomic le) = pg_reserveNextVisibleWorkerJob le"
  "at_recoverExpired (pg_atomic le) = pg_recoverExpiredWorkerJobLeases le"
  "at_setVisibleAt (pg_atomic le) = pg_setWorkerJobVisibleAt"
  "at_clearVisibleAt (pg_atomic le) = pg_clearWorkerJobVisibleAt"
  "at_getVisibleAt (pg_atomic le) = pg_getWorkerJobVisibleAt"
  by (auto simp: pg_repository_def pg_atomic_def)

lemma pg_reserve_effect:
  assumes "pg_inv t" "\<And>x y. f x = Inr y \<Longrightarrow> job_id y = job_id x"
    "pg_reserveNextVisibleWorkerJob le wt now v f t = Inr (Some w', t')"
  shows "(\<exists>w. pg_load (job_id w') t = Some w \<and>
        reservable wt now (\<lambda>j. pg_getWorkerJobVisibleAt j t) w \<and> f w = Inr w') \<and>
      pg_inv t' \<and>
      (\<forall>i. pg_load i t' = (if i = job_id w' then Some w' else pg_load i t)) \<and>
      (\<forall>i. pg_getWorkerJobVisibleAt i t' =
        (if i = job_id w' then Some v else pg_getWorkerJobVisibleAt i t)) \<and>
      (\<forall>k. pg_key_owner k t' = pg_key_owner k t)"
proof -
  obtain w where w: "pg_load (job_id w') t = Some w" "f w = Inr w'"
      "reservable wt now (\<lambda>j. pg_getWorkerJobVisibleAt j t) w"
      and t': "t' = pg_update w' (Some v) t"
    using pg_reserve_some [of t f le wt now v w' t'] assms by blast
  from w(1) have "pg_load (job_id w') t \<noteq> None" by simp
  from pg_update_effect [OF assms(1) this] w show ?thesis unfolding t' by simp
qed

lemma pg_load_id: "pg_load i t = Some w \<Longrightarrow> job_id w = i"
  by (auto simp: pg_load_def dest: pg_row_SomeD)

interpretation pg_repo: worker_job_repository "pg_repository le" pg_inv pg_key_owner
proof (unfold_locales, unfold pg_methods, goal_cases)
  case 23
  show ?case
    unfolding 23(2) pg_methods
    by (rule pg_reserve_effect [OF 23(1,3) 23(4) [unfolded 23(2) pg_methods]])
next
  case 24
  show ?case
    unfolding 24(2) pg_methods by (rule pg_reserve_throw [OF 24(1) 24(3) [unfolded 24(2) pg_methods]])
next
  case 25
  show ?case
    unfolding 25(2) pg_methods by (rule pg_recover_all [OF 25(1) 25(3) [unfolded 25(2) pg_methods]])
qed (simp_all add: pg_methods pg_save_inv pg_load_save pg_findByStatus_iff
    pg_findByStatus_distinct pg_load_key pg_key_save pg_record_inv pg_load_record pg_load_id
    pg_frame_set pg_frame_clear pg_get_set pg_get_clear pg_get_save pg_get_record
    pg_key_record pg_key_record_other pg_reserve_none pg_reserve_throw)

end
