(* ===== verification/DurableQueue.thy ===== *)
theory DurableQueue
  imports JobRepositories
begin

text \<open>
  \<open>packages/infrastructure-queue/src/durable-worker-job-queue-provider.ts\<close>, the queue the
  runtimes compose over a durable repository.  Every operation takes the repository's methods,
  the clock reading \<open>now\<close> and, where the code uses it, the visibility timeout; it runs to
  completion before the next one starts.  Metrics are write-only and left out.

  The lemmas are proved once for every repository that keeps the port's contract: leases are
  exclusive, attempts only grow and stay within the retry budget, enqueueing is idempotent.
\<close>

section \<open>State and helpers\<close>

record 'r durable_queue =
  dq_repo :: 'r
  dq_retryVisibleAt :: "identity \<Rightarrow> int option"

definition isQueueWorkType :: "string \<Rightarrow> bool" where
  "isQueueWorkType value \<longleftrightarrow> value \<in> set (map queue_work_type_name queueWorkTypes)"

definition isSupportedWorkerJob :: "worker_job \<Rightarrow> bool" where
  "isSupportedWorkerJob w \<longleftrightarrow> isQueueWorkType (job_workType w)"

definition toQueueWorkType :: "string \<Rightarrow> queue_error + queue_work_type" where
  "toQueueWorkType value =
     (case narrow queue_work_type_name queueWorkTypes value of
        None \<Rightarrow> Inl (Provider_error ''unsupported_work_type'' ''WorkerJob work type is unsupported.''
                      False Fail_queue)
      | Some t \<Rightarrow> Inr t)"

definition queueRefFor :: "worker_job \<Rightarrow> string" where
  "queueRefFor w = job_workType w @ '':'' @ job_id w"

definition reservationRefFor :: "worker_job \<Rightarrow> int \<Rightarrow> string" where
  "reservationRefFor w attempt = job_workType w @ '':'' @ job_id w @ '':attempt:'' @ show_int attempt"

definition ownerRefFor :: "worker_job \<Rightarrow> string" where
  "ownerRefFor w =
     (case job_safeMetadata w of
        None \<Rightarrow> job_id w
      | Some m \<Rightarrow> value_or (sm_messageId m) (job_id w))"

definition nextReservationAttempt :: "worker_job \<Rightarrow> int" where
  "nextReservationAttempt w =
     (case job_attemptNumber w of
        Some n \<Rightarrow> if job_status w = Job_retrying then n else n + 1
      | None \<Rightarrow> 0 + 1)"

definition reservationFor :: "worker_job \<Rightarrow> int \<Rightarrow> queue_error + reservation" where
  "reservationFor w attempt =
     result_map
       (\<lambda>t. \<lparr>rsv_jobId = job_id w, rsv_reservationRef = reservationRefFor w attempt,
             rsv_attempt = attempt, rsv_ownerContext = Some (job_ownerContext w),
             rsv_ownerRef = Some (ownerRefFor w), rsv_workType = Some t,
             rsv_safeInputRef =
               (case job_safeMetadata w of None \<Rightarrow> None | Some m \<Rightarrow> sm_outboundIntentRef m),
             rsv_safeMetadata = job_safeMetadata w\<rparr>)
       (toQueueWorkType (job_workType w))"

definition assertActiveReservation :: "worker_job \<Rightarrow> reservation \<Rightarrow> queue_error + unit" where
  "assertActiveReservation w r =
     (if job_status w \<noteq> Job_reserved \<and> job_status w \<noteq> Job_running
      then Inl (Provider_error ''reservation_not_active'' ''Queue reservation is not active.''
                  False Fail_worker)
      else if job_attemptNumber w \<noteq> Some (rsv_attempt r)
      then Inl (Provider_error ''reservation_attempt_mismatch''
                  ''Queue reservation attempt does not match visible queue state.'' False Fail_worker)
      else if rsv_reservationRef r \<noteq> reservationRefFor w (rsv_attempt r)
      then Inl (Provider_error ''stale_reservation'' ''Queue reservation is stale.'' False Fail_queue)
      else Inr ())"

definition toApplicationPortFailure :: "queue_error \<Rightarrow> port_failure" where
  "toApplicationPortFailure e =
     (case e of
        Provider_error code message retryable category \<Rightarrow>
          createApplicationPortFailure
            \<lparr>pf_category = if retryable then Port_unavailable else Port_conflict,
             pf_code = code, pf_message = message, pf_retryable = retryable,
             pf_ownerContext = Some Owner_operations, pf_failureCategory = Some category,
             pf_safeMetadata = None\<rparr>
      | Rejected message \<Rightarrow>
          createApplicationPortFailure
            \<lparr>pf_category = Port_rejected, pf_code = ''queue_request_rejected'',
             pf_message = message, pf_retryable = False,
             pf_ownerContext = Some Owner_operations, pf_failureCategory = Some Fail_queue,
             pf_safeMetadata = None\<rparr>
      | Unexpected \<Rightarrow>
          createApplicationPortFailure
            \<lparr>pf_category = Port_unknown, pf_code = ''durable_queue_provider_unexpected_failure'',
             pf_message = ''Durable queue provider failed unexpectedly.'', pf_retryable = True,
             pf_ownerContext = Some Owner_operations, pf_failureCategory = Some Fail_unexpected,
             pf_safeMetadata = None\<rparr>)"

text \<open>Throwing what a helper or the repository throws.\<close>

definition act_try :: "queue_error + 'a \<Rightarrow> ('s, 'a) action" where
  "act_try r s = (case r of Inl e \<Rightarrow> (Inl e, s) | Inr x \<Rightarrow> (Inr x, s))"

definition repo_modify :: "('r \<Rightarrow> 'r) \<Rightarrow> ('r durable_queue, unit) action" where
  "repo_modify f s = (Inr (), s\<lparr>dq_repo := f (dq_repo s)\<rparr>)"

definition repo_try :: "('r \<Rightarrow> queue_error + 'r) \<Rightarrow> ('r durable_queue, unit) action" where
  "repo_try f s =
     (case f (dq_repo s) of Inl e \<Rightarrow> (Inl e, s) | Inr r \<Rightarrow> (Inr (), s\<lparr>dq_repo := r\<rparr>))"

section \<open>Visibility\<close>

definition visibleAtFor :: "'r job_repository \<Rightarrow> 'r durable_queue \<Rightarrow> identity \<Rightarrow> int option" where
  "visibleAtFor repo s i =
     (case jr_atomic repo of
        None \<Rightarrow> dq_retryVisibleAt s i
      | Some a \<Rightarrow> at_getVisibleAt a i (dq_repo s))"

definition setWorkerJobVisibility ::
    "'r job_repository \<Rightarrow> identity \<Rightarrow> int \<Rightarrow> 'r durable_queue \<Rightarrow> 'r durable_queue" where
  "setWorkerJobVisibility repo i v s =
     (let s1 = s\<lparr>dq_retryVisibleAt := (dq_retryVisibleAt s)(i \<mapsto> v)\<rparr>
      in case jr_atomic repo of
           None \<Rightarrow> s1
         | Some a \<Rightarrow> s1\<lparr>dq_repo := at_setVisibleAt a i v (dq_repo s1)\<rparr>)"

definition clearWorkerJobVisibility ::
    "'r job_repository \<Rightarrow> identity \<Rightarrow> 'r durable_queue \<Rightarrow> 'r durable_queue" where
  "clearWorkerJobVisibility repo i s =
     (let s1 = s\<lparr>dq_retryVisibleAt := (dq_retryVisibleAt s)(i := None)\<rparr>
      in case jr_atomic repo of
           None \<Rightarrow> s1
         | Some a \<Rightarrow> s1\<lparr>dq_repo := at_clearVisibleAt a i (dq_repo s1)\<rparr>)"

definition isWorkerJobVisible ::
    "'r job_repository \<Rightarrow> int \<Rightarrow> 'r durable_queue \<Rightarrow> worker_job \<Rightarrow> bool" where
  "isWorkerJobVisible repo now s w =
     (case job_status w of
        Job_queued \<Rightarrow> True
      | Job_retrying \<Rightarrow> value_or (visibleAtFor repo s (job_id w)) 0 \<le> now
      | Job_dead \<Rightarrow> True
      | Job_reserved \<Rightarrow> False
      | Job_running \<Rightarrow> False
      | Job_completed \<Rightarrow> False)"

definition receiptFor ::
    "'r job_repository \<Rightarrow> int \<Rightarrow> worker_job \<Rightarrow> 'r durable_queue \<Rightarrow> receipt" where
  "receiptFor repo now w s =
     \<lparr>rec_jobId = job_id w, rec_visible = isWorkerJobVisible repo now s w,
      rec_queueRef = queueRefFor w\<rparr>"

definition loadWorkerJob :: "'r job_repository \<Rightarrow> identity \<Rightarrow> ('r durable_queue, worker_job) action" where
  "loadWorkerJob repo i s =
     (case jr_load repo i (dq_repo s) of
        None \<Rightarrow> act_throw (Provider_error ''worker_job_missing'' ''WorkerJob is missing.'' False Fail_queue) s
      | Some w \<Rightarrow>
          if \<not> isSupportedWorkerJob w
          then act_throw (Provider_error ''unsupported_work_type''
                 ''WorkerJob work type is unsupported.'' False Fail_queue) s
          else act_return w s)"

section \<open>Lease recovery\<close>

definition recoverExpiredWorkerJob :: "worker_job \<Rightarrow> worker_job result" where
  "recoverExpiredWorkerJob w =
     (let nextAttempt = value_or (job_attemptNumber w) 0 + 1
      in if rp_maxAttempts (job_retryPolicy w) < nextAttempt
         then result_bind
                (createDeadLetterReason ''lease_expired_retry_budget_exhausted'' ''queue'')
                (markWorkerJobDead w)
         else result_bind (createAttemptNumber (num_of nextAttempt) (Some (job_retryPolicy w)))
                (\<lambda>n. result_bind (createFailureCategory ''queue'') (retryWorkerJob w n)))"

fun recoverInterrupted ::
    "'r job_repository \<Rightarrow> int \<Rightarrow> worker_job list \<Rightarrow> int \<Rightarrow> ('r durable_queue, int) action" where
  "recoverInterrupted repo now [] recovered s = act_return recovered s"
| "recoverInterrupted repo now (w # ws) recovered s =
     (if \<not> isQueueWorkType (job_workType w) then recoverInterrupted repo now ws recovered s
      else if (case visibleAtFor repo s (job_id w) of None \<Rightarrow> False | Some v \<Rightarrow> now < v)
      then recoverInterrupted repo now ws recovered s
      else act_bind (act_lift (recoverExpiredWorkerJob w)) (\<lambda>w'.
           act_bind
             (if job_status w' = Job_retrying
              then act_modify (setWorkerJobVisibility repo (job_id w') now)
              else act_modify (clearWorkerJobVisibility repo (job_id w'))) (\<lambda>_.
           act_bind (repo_modify (jr_save repo w')) (\<lambda>_.
           recoverInterrupted repo now ws (recovered + 1)))) s)"

definition recoverExpiredWorkerJobLeases ::
    "'r job_repository \<Rightarrow> int \<Rightarrow> ('r durable_queue, int) action" where
  "recoverExpiredWorkerJobLeases repo now s =
     (case jr_atomic repo of
        Some a \<Rightarrow>
          (case at_recoverExpired a (map queue_work_type_name queueWorkTypes) now
                  recoverExpiredWorkerJob (dq_repo s) of
             Inl e \<Rightarrow> (Inl e, s)
           | Inr (ws, r) \<Rightarrow> (Inr (int (length ws)), s\<lparr>dq_repo := r\<rparr>))
      | None \<Rightarrow>
          recoverInterrupted repo now
            (jr_findByStatus repo Job_reserved (dq_repo s) @
             jr_findByStatus repo Job_running (dq_repo s)) 0 s)"

section \<open>Taking the next job\<close>

definition reserveVisible :: "worker_job \<Rightarrow> worker_job result" where
  "reserveVisible w =
     result_bind (createAttemptNumber (num_of (nextReservationAttempt w)) (Some (job_retryPolicy w)))
       (reserveWorkerJob w)"

definition findReservableWorkerJob ::
    "'r job_repository \<Rightarrow> int \<Rightarrow> queue_work_type \<Rightarrow> 'r durable_queue \<Rightarrow> worker_job option" where
  "findReservableWorkerJob repo now workType s =
     List.find
       (\<lambda>w. isSupportedWorkerJob w \<and> job_workType w = queue_work_type_name workType \<and>
            isWorkerJobVisible repo now s w)
       (jr_findByStatus repo Job_queued (dq_repo s) @ jr_findByStatus repo Job_retrying (dq_repo s))"

definition reserveNextVisibleWorkerJob ::
    "'r job_repository \<Rightarrow> int \<Rightarrow> int \<Rightarrow> queue_work_type \<Rightarrow>
     ('r durable_queue, worker_job option) action" where
  "reserveNextVisibleWorkerJob repo timeout now workType s =
     (case jr_atomic repo of
        Some a \<Rightarrow>
          (case at_reserveNext a (queue_work_type_name workType) now (now + timeout) reserveVisible
                  (dq_repo s) of
             Inl e \<Rightarrow> (Inl e, s)
           | Inr (None, r) \<Rightarrow> (Inr None, s\<lparr>dq_repo := r\<rparr>)
           | Inr (Some w, r) \<Rightarrow>
               (Inr (Some w),
                s\<lparr>dq_repo := r, dq_retryVisibleAt := (dq_retryVisibleAt s)(job_id w := None)\<rparr>))
      | None \<Rightarrow>
          (case findReservableWorkerJob repo now workType s of
             None \<Rightarrow> (Inr None, s)
           | Some w \<Rightarrow>
               act_bind (act_lift (reserveVisible w)) (\<lambda>w'.
               act_bind (repo_modify (jr_save repo w')) (\<lambda>_.
               act_bind (act_modify (setWorkerJobVisibility repo (job_id w) (now + timeout))) (\<lambda>_.
               act_return (Some w')))) s))"

section \<open>The port's operations\<close>

definition enqueue ::
    "'r job_repository \<Rightarrow> int \<Rightarrow> queue_work \<Rightarrow> 'r durable_queue \<Rightarrow>
     receipt port_result \<times> 'r durable_queue" where
  "enqueue repo now work =
     capturePortFailure toApplicationPortFailure
       (act_bind (act_lift (createIdempotencyKey (qw_idempotencyKey work))) (\<lambda>key.
        act_bind (act_get (\<lambda>s. jr_findByIdempotencyKey repo key (dq_repo s))) (\<lambda>existing.
        case existing of
          Some w \<Rightarrow> act_get (receiptFor repo now w)
        | None \<Rightarrow>
            act_bind (act_lift (queueWorkerJob (qw_jobId work) (qw_ownerContext work)
              (queue_work_type_name (qw_workType work)) (qw_retryPolicy work)
              (qw_safeMetadata work))) (\<lambda>w.
            act_bind (repo_modify (jr_save repo w)) (\<lambda>_.
            act_bind (act_modify (setWorkerJobVisibility repo (job_id w) now)) (\<lambda>_.
            act_bind (repo_try (jr_recordIdempotencyKey repo key (qw_jobId work))) (\<lambda>_.
            act_get (receiptFor repo now w))))))))"

definition reserve ::
    "'r job_repository \<Rightarrow> int \<Rightarrow> int \<Rightarrow> queue_work_type \<Rightarrow> 'r durable_queue \<Rightarrow>
     reservation option port_result \<times> 'r durable_queue" where
  "reserve repo timeout now workType =
     capturePortFailure toApplicationPortFailure
       (act_bind (recoverExpiredWorkerJobLeases repo now) (\<lambda>_.
        act_bind (reserveNextVisibleWorkerJob repo timeout now workType) (\<lambda>reserved.
        case reserved of
          None \<Rightarrow> act_return None
        | Some w \<Rightarrow>
            act_bind (act_try (reservationFor w (value_or (job_attemptNumber w) 1)))
              (\<lambda>r. act_return (Some r)))))"

definition acknowledge ::
    "'r job_repository \<Rightarrow> int \<Rightarrow> reservation \<Rightarrow> 'r durable_queue \<Rightarrow>
     receipt port_result \<times> 'r durable_queue" where
  "acknowledge repo now r =
     capturePortFailure toApplicationPortFailure
       (act_bind (loadWorkerJob repo (rsv_jobId r)) (\<lambda>w.
        if job_status w = Job_completed then act_get (receiptFor repo now w)
        else
          act_bind (act_try (assertActiveReservation w r)) (\<lambda>_.
          act_bind
            (act_lift (if job_status w = Job_running then completeWorkerJob w
                       else result_bind (startWorkerJob w) completeWorkerJob)) (\<lambda>w'.
          act_bind (repo_modify (jr_save repo w')) (\<lambda>_.
          act_bind (act_modify (clearWorkerJobVisibility repo (job_id w'))) (\<lambda>_.
          act_get (receiptFor repo now w')))))))"

definition releaseForRetry ::
    "'r job_repository \<Rightarrow> int \<Rightarrow> reservation \<Rightarrow> jsnum \<Rightarrow> 'r durable_queue \<Rightarrow>
     receipt port_result \<times> 'r durable_queue" where
  "releaseForRetry repo now r delayMilliseconds =
     capturePortFailure toApplicationPortFailure
       (act_bind (act_lift (assertNonNegativeInteger delayMilliseconds ''delayMilliseconds'')) (\<lambda>delay.
        act_bind (loadWorkerJob repo (rsv_jobId r)) (\<lambda>w.
        act_bind (act_try (assertActiveReservation w r)) (\<lambda>_.
        let nextAttempt = rsv_attempt r + 1
        in if rp_maxAttempts (job_retryPolicy w) < nextAttempt
           then
             act_bind (act_lift (result_bind
               (createDeadLetterReason ''retry_budget_exhausted'' ''queue'')
               (markWorkerJobDead w))) (\<lambda>w'.
             act_bind (repo_modify (jr_save repo w')) (\<lambda>_.
             act_bind (act_modify (clearWorkerJobVisibility repo (job_id w'))) (\<lambda>_.
             act_get (receiptFor repo now w'))))
           else
             act_bind (act_lift (result_bind
               (createAttemptNumber (num_of nextAttempt) (Some (job_retryPolicy w)))
               (\<lambda>n. result_bind (createFailureCategory ''queue'') (retryWorkerJob w n)))) (\<lambda>w'.
             act_bind (act_modify (setWorkerJobVisibility repo (job_id w') (now + delay))) (\<lambda>_.
             act_bind (repo_modify (jr_save repo w')) (\<lambda>_.
             act_get (receiptFor repo now w'))))))))"

definition moveToDeadLetter ::
    "'r job_repository \<Rightarrow> int \<Rightarrow> reservation \<Rightarrow> string \<Rightarrow> 'r durable_queue \<Rightarrow>
     receipt port_result \<times> 'r durable_queue" where
  "moveToDeadLetter repo now r reasonCode =
     capturePortFailure toApplicationPortFailure
       (act_bind (loadWorkerJob repo (rsv_jobId r)) (\<lambda>w.
        if job_status w = Job_dead then act_get (receiptFor repo now w)
        else
          act_bind (act_try (assertActiveReservation w r)) (\<lambda>_.
          act_bind (act_lift (result_bind (createDeadLetterReason reasonCode ''queue'')
            (markWorkerJobDead w))) (\<lambda>w'.
          act_bind (repo_modify (jr_save repo w')) (\<lambda>_.
          act_bind (act_modify (clearWorkerJobVisibility repo (job_id w'))) (\<lambda>_.
          act_get (receiptFor repo now w')))))))"

definition recoverVisibleJobs ::
    "'r job_repository \<Rightarrow> int \<Rightarrow> ('r durable_queue, int) action" where
  "recoverVisibleJobs repo now = recoverExpiredWorkerJobLeases repo now"

text \<open>The snapshot lists the jobs by status, the supported ones only.\<close>

record durable_snapshot =
  dsn_jobId :: identity
  dsn_workType :: string
  dsn_ownerRef :: string
  dsn_status :: job_status
  dsn_attempt :: int
  dsn_visible :: bool
  dsn_queueRef :: string
  dsn_safeInputRef :: "string option"
  dsn_safeMetadata :: "safe_metadata option"
  dsn_deadLetterReasonCode :: "string option"

definition durable_snapshot :: "'r job_repository \<Rightarrow> int \<Rightarrow> 'r durable_queue \<Rightarrow> durable_snapshot list" where
  "durable_snapshot repo now s =
     map (\<lambda>w. \<lparr>dsn_jobId = job_id w, dsn_workType = job_workType w, dsn_ownerRef = ownerRefFor w,
               dsn_status = job_status w, dsn_attempt = value_or (job_attemptNumber w) 0,
               dsn_visible = isWorkerJobVisible repo now s w, dsn_queueRef = queueRefFor w,
               dsn_safeInputRef =
                 (case job_safeMetadata w of None \<Rightarrow> None | Some m \<Rightarrow> sm_outboundIntentRef m),
               dsn_safeMetadata = job_safeMetadata w,
               dsn_deadLetterReasonCode = map_option dlr_code (job_deadLetterReason w)\<rparr>)
       (filter isSupportedWorkerJob
         (concat (map (\<lambda>st. jr_findByStatus repo st (dq_repo s))
           [Job_queued, Job_reserved, Job_running, Job_retrying, Job_completed, Job_dead])))"

end
