(* ===== verification/DurableQueueLaws.thy ===== *)
theory DurableQueueLaws
  imports DurableQueue
begin

text \<open>
  What the durable queue promises over any repository that keeps the port's contract.  The state
  is read as two maps, the jobs and their visibility times; each operation is described by what
  it does to them, and the invariants of a history follow.
\<close>

section \<open>Jobs a queue holds\<close>

definition queue_job :: "worker_job \<Rightarrow> bool" where
  "queue_job w \<longleftrightarrow>
     job_wf w \<and> 0 < rp_maxAttempts (job_retryPolicy w) \<and>
     (\<forall>n. job_attemptNumber w = Some n \<longrightarrow> 1 \<le> n) \<and>
     (job_status w = Job_queued \<longrightarrow> job_attemptNumber w = None)"

definition lease_expired_reason :: dead_letter_reason where
  "lease_expired_reason =
     \<lparr>dlr_code = ''lease_expired_retry_budget_exhausted'', dlr_category = Fail_queue\<rparr>"

definition recovered :: "worker_job \<Rightarrow> worker_job" where
  "recovered w =
     (let n = value_or (job_attemptNumber w) 0
      in if rp_maxAttempts (job_retryPolicy w) < n + 1
         then job_moved w Job_dead WorkerJobDead None (Some Fail_queue) (Some lease_expired_reason)
         else job_moved w Job_retrying WorkerJobRetryScheduled (Some (n + 1)) (Some Fail_queue) None)"

definition taken :: "worker_job \<Rightarrow> worker_job" where
  "taken w = job_moved w Job_reserved WorkerJobReserved (Some (nextReservationAttempt w)) None None"

lemma lease_codes [simp]:
  "createSafeDomainCode ''lease_expired_retry_budget_exhausted'' l =
     Inr ''lease_expired_retry_budget_exhausted''"
  "createSafeDomainCode ''retry_budget_exhausted'' l = Inr ''retry_budget_exhausted''"
proof -
  have "isSafeDomainCode ''lease_expired_retry_budget_exhausted''"
      "isSafeDomainCode ''retry_budget_exhausted''" by code_simp+
  then show "createSafeDomainCode ''lease_expired_retry_budget_exhausted'' l =
       Inr ''lease_expired_retry_budget_exhausted''"
      "createSafeDomainCode ''retry_budget_exhausted'' l = Inr ''retry_budget_exhausted''"
    by (simp_all add: createSafeDomainCode_id)
qed

lemma queue_job_attempt:
  "queue_job w \<Longrightarrow> job_status w = Job_reserved \<or> job_status w = Job_running \<or> job_status w = Job_retrying \<Longrightarrow>
     \<exists>n. job_attemptNumber w = Some n \<and> 1 \<le> n \<and> n \<le> rp_maxAttempts (job_retryPolicy w)"
  by (auto simp: queue_job_def job_wf_def)

lemma recovered_id [simp]: "job_id (recovered w) = job_id w"
  by (simp add: recovered_def Let_def)

lemma recovered_status:
  "job_status (recovered w) =
     (if rp_maxAttempts (job_retryPolicy w) < value_or (job_attemptNumber w) 0 + 1 then Job_dead
      else Job_retrying)"
  by (simp add: recovered_def Let_def)

lemma recoverExpiredWorkerJob_eq:
  assumes "queue_job w" "job_status w = Job_reserved \<or> job_status w = Job_running"
  shows "recoverExpiredWorkerJob w = Inr (recovered w)"
proof -
  obtain n where n: "job_attemptNumber w = Some n" "1 \<le> n"
    using queue_job_attempt [of w] assms by auto
  have nc: "job_status w \<noteq> Job_completed" using assms(2) by auto
  show ?thesis
  proof (cases "rp_maxAttempts (job_retryPolicy w) < n + 1")
    case True
    then show ?thesis
      using n nc
      by (simp add: recoverExpiredWorkerJob_def recovered_def createDeadLetterReason_queue
          markWorkerJobDead_not_completed lease_expired_reason_def)
  next
    case False
    have "createAttemptNumber (num_of (n + 1)) (Some (job_retryPolicy w)) = Inr (n + 1)"
      unfolding createAttemptNumber_int using False n by simp
    then show ?thesis
      using n False assms(2)
      by (simp add: recoverExpiredWorkerJob_def recovered_def retryWorkerJob_active)
  qed
qed

lemma recovered_queue_job:
  assumes "queue_job w" "job_status w = Job_reserved \<or> job_status w = Job_running"
  shows "queue_job (recovered w)"
proof -
  obtain n where n: "job_attemptNumber w = Some n" "1 \<le> n" "n \<le> rp_maxAttempts (job_retryPolicy w)"
    using queue_job_attempt [of w] assms by auto
  have "job_deadLetterReason w = None" using assms by (auto simp: queue_job_def job_wf_def)
  then show ?thesis
    using n assms(1) by (auto simp: recovered_def Let_def queue_job_def job_wf_def)
qed

lemma nextReservationAttempt_bounds:
  assumes "queue_job w" "job_status w = Job_queued \<or> job_status w = Job_retrying"
  shows "1 \<le> nextReservationAttempt w \<and>
     nextReservationAttempt w \<le> rp_maxAttempts (job_retryPolicy w)"
  using assms queue_job_attempt [of w]
  by (auto simp: nextReservationAttempt_def queue_job_def)

lemma reserveVisible_eq:
  assumes "queue_job w" "job_status w = Job_queued \<or> job_status w = Job_retrying"
  shows "reserveVisible w = Inr (taken w)"
proof -
  have "createAttemptNumber (num_of (nextReservationAttempt w)) (Some (job_retryPolicy w)) =
      Inr (nextReservationAttempt w)"
    unfolding createAttemptNumber_int using nextReservationAttempt_bounds [OF assms] by simp
  then show ?thesis
    using assms(2) by (simp add: reserveVisible_def taken_def reserveWorkerJob_open)
qed

lemma reserveVisible_id: "reserveVisible x = Inr y \<Longrightarrow> job_id y = job_id x"
  by (auto simp: reserveVisible_def result_simps reserveWorkerJob_def transitionWorkerJob_eq
      split: if_splits)

lemma taken_fields [simp]:
  "job_id (taken w) = job_id w" "job_status (taken w) = Job_reserved"
  "job_attemptNumber (taken w) = Some (nextReservationAttempt w)"
  "job_workType (taken w) = job_workType w"
  "job_retryPolicy (taken w) = job_retryPolicy w"
  by (simp_all add: taken_def)

lemma taken_queue_job:
  assumes "queue_job w" "job_status w = Job_queued \<or> job_status w = Job_retrying"
  shows "queue_job (taken w)"
proof -
  have "job_deadLetterReason w = None" using assms by (auto simp: queue_job_def job_wf_def)
  then show ?thesis
    using nextReservationAttempt_bounds [OF assms] assms(1)
    by (auto simp: taken_def queue_job_def job_wf_def)
qed

lemma toQueueWorkType_name [simp]: "toQueueWorkType (queue_work_type_name t) = Inr t"
  by (simp add: toQueueWorkType_def)

lemma isQueueWorkType_iff: "isQueueWorkType v \<longleftrightarrow> (\<exists>t. v = queue_work_type_name t)"
  using queue_work_type.complete by (auto simp: isQueueWorkType_def)

text \<open>The reservation an operation presents is the one the job carries.\<close>

definition holds :: "reservation \<Rightarrow> worker_job \<Rightarrow> bool" where
  "holds r w \<longleftrightarrow>
     (job_status w = Job_reserved \<or> job_status w = Job_running) \<and>
     job_attemptNumber w = Some (rsv_attempt r) \<and>
     rsv_reservationRef r = reservationRefFor w (rsv_attempt r)"

definition finished :: "worker_job \<Rightarrow> worker_job" where
  "finished w =
     (if job_status w = Job_running then job_moved w Job_completed WorkerJobCompleted None None None
      else job_moved (job_moved w Job_running WorkerJobStarted None None None)
             Job_completed WorkerJobCompleted None None None)"

definition buried :: "string \<Rightarrow> worker_job \<Rightarrow> worker_job" where
  "buried code w =
     job_moved w Job_dead WorkerJobDead None (Some Fail_queue)
       (Some \<lparr>dlr_code = code, dlr_category = Fail_queue\<rparr>)"

definition rescheduled :: "int \<Rightarrow> worker_job \<Rightarrow> worker_job" where
  "rescheduled n w =
     job_moved w Job_retrying WorkerJobRetryScheduled (Some n) (Some Fail_queue) None"

lemma assertActiveReservation_holds: "assertActiveReservation w r = Inr () \<longleftrightarrow> holds r w"
  by (auto simp: assertActiveReservation_def holds_def)

lemma settled_fields [simp]:
  "job_id (finished w) = job_id w" "job_status (finished w) = Job_completed"
  "job_id (buried c w) = job_id w" "job_status (buried c w) = Job_dead"
  "job_id (rescheduled n w) = job_id w" "job_status (rescheduled n w) = Job_retrying"
  "job_attemptNumber (finished w) = job_attemptNumber w"
  "job_attemptNumber (buried c w) = job_attemptNumber w"
  "job_attemptNumber (rescheduled n w) = Some n"
  by (simp_all add: finished_def buried_def rescheduled_def)

lemma settled_queue_job:
  assumes "queue_job w" "holds r w"
  shows "queue_job (finished w)" "queue_job (buried c w)"
    "1 \<le> n \<Longrightarrow> n \<le> rp_maxAttempts (job_retryPolicy w) \<Longrightarrow> queue_job (rescheduled n w)"
  using assms by (auto simp: holds_def finished_def buried_def rescheduled_def queue_job_def job_wf_def)

lemma finished_eq:
  assumes "holds r w"
  shows "(if job_status w = Job_running then completeWorkerJob w
          else result_bind (startWorkerJob w) completeWorkerJob) = Inr (finished w)"
  using assms
  by (auto simp: holds_def finished_def completeWorkerJob_running startWorkerJob_reserved)

lemma buried_eq:
  assumes "holds r w" "createSafeDomainCode code ''DeadLetterReason.code'' = Inr c"
  shows "result_bind (createDeadLetterReason code ''queue'') (markWorkerJobDead w) = Inr (buried c w)"
  using assms
  by (auto simp: holds_def buried_def createDeadLetterReason_queue markWorkerJobDead_not_completed)

lemma rescheduled_eq:
  assumes "holds r w" "0 < n" "n \<le> rp_maxAttempts (job_retryPolicy w)"
  shows "result_bind (createAttemptNumber (num_of n) (Some (job_retryPolicy w)))
           (\<lambda>n. result_bind (createFailureCategory ''queue'') (retryWorkerJob w n)) =
         Inr (rescheduled n w)"
proof -
  have "createAttemptNumber (num_of n) (Some (job_retryPolicy w)) = Inr n"
    unfolding createAttemptNumber_int using assms by simp
  then show ?thesis using assms by (simp add: holds_def rescheduled_def retryWorkerJob_active)
qed

section \<open>The state as two maps\<close>

definition dq_job :: "'r job_repository \<Rightarrow> 'r durable_queue \<Rightarrow> identity \<Rightarrow> worker_job option" where
  "dq_job repo s i = jr_load repo i (dq_repo s)"

definition dq_ok :: "'r job_repository \<Rightarrow> ('r \<Rightarrow> bool) \<Rightarrow> 'r durable_queue \<Rightarrow> bool" where
  "dq_ok repo good s \<longleftrightarrow> good (dq_repo s) \<and> (\<forall>i w. dq_job repo s i = Some w \<longrightarrow> queue_job w)"

abbreviation queue_expired :: "int \<Rightarrow> (identity \<Rightarrow> int option) \<Rightarrow> worker_job \<Rightarrow> bool" where
  "queue_expired \<equiv> lease_expired (map queue_work_type_name queueWorkTypes)"

text \<open>What recovery does to the two maps, for the leases in force at \<open>now\<close>.\<close>

definition recovered_jobs ::
    "int \<Rightarrow> (identity \<Rightarrow> int option) \<Rightarrow> (identity \<Rightarrow> worker_job option) \<Rightarrow>
     identity \<Rightarrow> worker_job option" where
  "recovered_jobs now vis jobs i =
     map_option (\<lambda>w. if queue_expired now vis w then recovered w else w) (jobs i)"

definition recovered_vis ::
    "int \<Rightarrow> (identity \<Rightarrow> int option) \<Rightarrow> (identity \<Rightarrow> worker_job option) \<Rightarrow>
     identity \<Rightarrow> int option" where
  "recovered_vis now vis jobs i =
     (case jobs i of
        None \<Rightarrow> vis i
      | Some w \<Rightarrow>
          if queue_expired now vis w
          then (if job_status (recovered w) = Job_retrying then Some now else None) else vis i)"

lemma queue_expired_status:
  "queue_expired now vis w \<Longrightarrow> job_status w = Job_reserved \<or> job_status w = Job_running"
  by (simp add: lease_expired_def)

lemma recovered_cong:
  assumes "jobs i = jobs' i" "vis i = vis' i" "\<And>w. jobs i = Some w \<Longrightarrow> job_id w = i"
  shows "recovered_jobs now vis jobs i = recovered_jobs now vis' jobs' i"
    "recovered_vis now vis jobs i = recovered_vis now vis' jobs' i"
proof -
  have exp: "queue_expired now vis w = queue_expired now vis' w" if "jobs i = Some w" for w
    unfolding lease_expired_def using assms(3) [OF that] assms(2) by simp
  have jobs': "jobs' i = jobs i" using assms(1) by (rule sym)
  show "recovered_jobs now vis jobs i = recovered_jobs now vis' jobs' i"
    unfolding recovered_jobs_def jobs' using exp by (cases "jobs i") simp_all
  show "recovered_vis now vis jobs i = recovered_vis now vis' jobs' i"
    unfolding recovered_vis_def jobs' using exp assms(2) by (cases "jobs i") simp_all
qed

context worker_job_repository
begin

lemma dq_job_id: "inv (dq_repo s) \<Longrightarrow> dq_job repo s i = Some w \<Longrightarrow> job_id w = i"
  unfolding dq_job_def by (rule load_id)

lemma dq_save:
  assumes "inv (dq_repo s)" "t = s\<lparr>dq_repo := jr_save repo w (dq_repo s)\<rparr>"
  shows "inv (dq_repo t)" "dq_job repo t = (dq_job repo s)(job_id w \<mapsto> w)"
    "dq_job repo s (job_id w) \<noteq> None \<or> i \<noteq> job_id w \<Longrightarrow> visibleAtFor repo t i = visibleAtFor repo s i"
    "key_owner k (dq_repo s) = Some j \<Longrightarrow> key_owner k (dq_repo t) = Some j"
  using assms save_inv [OF assms(1)] load_save [OF assms(1)] key_save [OF assms(1)]
    get_save [OF assms(1), of _ w i]
  by (auto simp: dq_job_def visibleAtFor_def fun_eq_iff split: option.splits)

lemma dq_set_visible:
  assumes "inv (dq_repo s)" "dq_job repo s i \<noteq> None" "t = setWorkerJobVisibility repo i v s"
  shows "inv (dq_repo t)" "dq_job repo t = dq_job repo s"
    "visibleAtFor repo t = (visibleAtFor repo s)(i \<mapsto> v)"
    "key_owner k (dq_repo t) = key_owner k (dq_repo s)"
  using assms set_inv [OF assms(1)] load_set [OF assms(1)] key_set [OF assms(1)]
    get_set [OF assms(1)]
  by (auto simp: dq_job_def visibleAtFor_def setWorkerJobVisibility_def Let_def fun_eq_iff
      split: option.splits)

lemma dq_clear_visible:
  assumes "inv (dq_repo s)" "t = clearWorkerJobVisibility repo i s"
  shows "inv (dq_repo t)" "dq_job repo t = dq_job repo s"
    "visibleAtFor repo t = (visibleAtFor repo s)(i := None)"
    "key_owner k (dq_repo t) = key_owner k (dq_repo s)"
  using assms clear_inv [OF assms(1)] load_clear [OF assms(1)] key_clear [OF assms(1)]
    get_clear [OF assms(1)]
  by (auto simp: dq_job_def visibleAtFor_def clearWorkerJobVisibility_def Let_def fun_eq_iff
      split: option.splits)

lemma dq_okD:
  assumes "dq_ok repo inv s" "dq_job repo s i = Some w"
  shows "queue_job w" "job_id w = i"
  using assms dq_job_id by (auto simp: dq_ok_def)

lemma dq_ok_inv: "dq_ok repo inv s \<Longrightarrow> inv (dq_repo s)"
  by (simp add: dq_ok_def)

text \<open>One lease taken back: the visibility time is written, then the job.\<close>

lemma recover_one:
  assumes ok: "dq_ok repo inv s" and w: "dq_job repo s (job_id w) = Some w"
    and st: "job_status w = Job_reserved \<or> job_status w = Job_running"
    and t: "t = (if job_status (recovered w) = Job_retrying
                 then setWorkerJobVisibility repo (job_id w) now s
                 else clearWorkerJobVisibility repo (job_id w) s)"
    and u: "u = t\<lparr>dq_repo := jr_save repo (recovered w) (dq_repo t)\<rparr>"
  shows "dq_ok repo inv u" "dq_job repo u = (dq_job repo s)(job_id w \<mapsto> recovered w)"
    "visibleAtFor repo u = (visibleAtFor repo s)(job_id w :=
       (if job_status (recovered w) = Job_retrying then Some now else None))"
    "key_owner k (dq_repo s) = Some j \<Longrightarrow> key_owner k (dq_repo u) = Some j"
proof -
  note i = dq_ok_inv [OF ok]
  have ex: "dq_job repo s (job_id w) \<noteq> None" using w by simp
  have t': "inv (dq_repo t)" "dq_job repo t = dq_job repo s"
      "visibleAtFor repo t = (visibleAtFor repo s)(job_id w :=
         (if job_status (recovered w) = Job_retrying then Some now else None))"
      "key_owner k (dq_repo t) = key_owner k (dq_repo s)" for k
    using dq_set_visible [OF i ex refl, where v = now] dq_clear_visible [OF i refl, where i = "job_id w"]
    unfolding t by (simp_all split: if_splits)
  note sv = dq_save [OF t'(1) u]
  show jobs: "dq_job repo u = (dq_job repo s)(job_id w \<mapsto> recovered w)"
    using sv(2) t'(2) by simp
  show "visibleAtFor repo u = (visibleAtFor repo s)(job_id w :=
       (if job_status (recovered w) = Job_retrying then Some now else None))"
  proof
    fix i show "visibleAtFor repo u i = ((visibleAtFor repo s)(job_id w :=
       (if job_status (recovered w) = Job_retrying then Some now else None))) i"
      using sv(3) [of i] ex t'(2,3) by simp
  qed
  show "key_owner k (dq_repo s) = Some j \<Longrightarrow> key_owner k (dq_repo u) = Some j"
    using sv(4) t'(4) by simp
  show "dq_ok repo inv u"
    using ok recovered_queue_job [OF dq_okD(1) [OF ok w] st] sv(1)
    unfolding dq_ok_def jobs by auto
qed

lemma recoverInterrupted_effect:
  assumes "dq_ok repo inv s" and "0 \<le> now" and "distinct (map job_id ws)"
    and "\<And>w. w \<in> set ws \<Longrightarrow> dq_job repo s (job_id w) = Some w \<and>
          (job_status w = Job_reserved \<or> job_status w = Job_running)"
  shows "\<exists>n t. recoverInterrupted repo now ws k s = (Inr n, t) \<and> dq_ok repo inv t \<and>
     (\<forall>i. dq_job repo t i =
        (if i \<in> job_id ` set ws then recovered_jobs now (visibleAtFor repo s) (dq_job repo s) i
         else dq_job repo s i)) \<and>
     (\<forall>i. visibleAtFor repo t i =
        (if i \<in> job_id ` set ws then recovered_vis now (visibleAtFor repo s) (dq_job repo s) i
         else visibleAtFor repo s i)) \<and>
     (\<forall>key j. key_owner key (dq_repo s) = Some j \<longrightarrow> key_owner key (dq_repo t) = Some j)"
  using assms
proof (induction ws arbitrary: s k)
  case Nil
  then show ?case by simp
next
  case (Cons w ws)
  let ?V = "visibleAtFor repo s" and ?J = "dq_job repo s"
  have w: "?J (job_id w) = Some w" "job_status w = Job_reserved \<or> job_status w = Job_running"
    using Cons.prems(4) [of w] by auto
  have dist: "job_id w \<notin> job_id ` set ws" "distinct (map job_id ws)" using Cons.prems(3) by auto
  show ?case
  proof (cases "queue_expired now ?V w")
    case False
    then have skip: "recoverInterrupted repo now (w # ws) k s = recoverInterrupted repo now ws k s"
      using w(2) \<open>0 \<le> now\<close>
      by (auto simp: lease_expired_def isQueueWorkType_def split: option.splits)
    have same: "recovered_jobs now ?V ?J (job_id w) = ?J (job_id w)"
        "recovered_vis now ?V ?J (job_id w) = ?V (job_id w)"
      using False w(1) by (simp_all add: recovered_jobs_def recovered_vis_def)
    obtain n t where "recoverInterrupted repo now ws k s = (Inr n, t)" "dq_ok repo inv t"
        "\<And>i. dq_job repo t i = (if i \<in> job_id ` set ws then recovered_jobs now ?V ?J i else ?J i)"
        "\<And>i. visibleAtFor repo t i = (if i \<in> job_id ` set ws then recovered_vis now ?V ?J i else ?V i)"
        "\<And>key j. key_owner key (dq_repo s) = Some j \<Longrightarrow> key_owner key (dq_repo t) = Some j"
      using Cons.IH [of s k] Cons.prems dist by auto
    then show ?thesis using same unfolding skip by auto
  next
    case True
    define v where "v = (if job_status (recovered w) = Job_retrying then Some now else None)"
    define t where "t = (if job_status (recovered w) = Job_retrying
                 then setWorkerJobVisibility repo (job_id w) now s
                 else clearWorkerJobVisibility repo (job_id w) s)"
    define u where "u = t\<lparr>dq_repo := jr_save repo (recovered w) (dq_repo t)\<rparr>"
    note one = recover_one [OF Cons.prems(1) w t_def u_def]
    have u: "dq_job repo u = ?J(job_id w \<mapsto> recovered w)" "visibleAtFor repo u = ?V(job_id w := v)"
      using one(2,3) by (simp_all add: v_def)
    have run: "recoverInterrupted repo now (w # ws) k s = recoverInterrupted repo now ws (k + 1) u"
      using True recoverExpiredWorkerJob_eq [OF dq_okD(1) [OF Cons.prems(1) w(1)] w(2)]
      by (auto simp: lease_expired_def isQueueWorkType_def repo_modify_def t_def u_def
          split: option.splits)
    have pres: "dq_job repo u (job_id x) = Some x \<and>
        (job_status x = Job_reserved \<or> job_status x = Job_running)" if "x \<in> set ws" for x
    proof -
      have "job_id x \<noteq> job_id w" using dist(1) that by (metis imageI)
      then show ?thesis using Cons.prems(4) [of x] that u(1) by simp
    qed
    obtain n t' where IH: "recoverInterrupted repo now ws (k + 1) u = (Inr n, t')" "dq_ok repo inv t'"
        "\<And>i. dq_job repo t' i = (if i \<in> job_id ` set ws
           then recovered_jobs now (visibleAtFor repo u) (dq_job repo u) i else dq_job repo u i)"
        "\<And>i. visibleAtFor repo t' i = (if i \<in> job_id ` set ws
           then recovered_vis now (visibleAtFor repo u) (dq_job repo u) i else visibleAtFor repo u i)"
        "\<And>key j. key_owner key (dq_repo u) = Some j \<Longrightarrow> key_owner key (dq_repo t') = Some j"
      using Cons.IH [OF one(1) \<open>0 \<le> now\<close> dist(2) pres, of "k + 1"] by blast
    have rec: "recovered_jobs now ?V ?J (job_id w) = Some (recovered w)"
        "recovered_vis now ?V ?J (job_id w) = v"
      using True w(1) by (simp_all add: recovered_jobs_def recovered_vis_def v_def)
    have other: "recovered_jobs now (visibleAtFor repo u) (dq_job repo u) i = recovered_jobs now ?V ?J i"
        "recovered_vis now (visibleAtFor repo u) (dq_job repo u) i = recovered_vis now ?V ?J i"
      if "i \<noteq> job_id w" for i
      using recovered_cong [of ?J i "dq_job repo u" ?V "visibleAtFor repo u" now] that u
        dq_okD(2) [OF Cons.prems(1)] by auto
    have "dq_job repo t' i = (if i \<in> job_id ` set (w # ws) then recovered_jobs now ?V ?J i else ?J i)" for i
      using IH(3) [of i] other [of i] rec dist(1) u by (cases "i = job_id w") auto
    moreover have "visibleAtFor repo t' i =
        (if i \<in> job_id ` set (w # ws) then recovered_vis now ?V ?J i else ?V i)" for i
      using IH(4) [of i] other [of i] rec dist(1) u by (cases "i = job_id w") auto
    ultimately show ?thesis
      unfolding run using IH(1,2,5) one(4) by blast
  qed
qed

text \<open>Recovery over either kind of repository.\<close>

lemma not_expired_kept:
  assumes "\<And>w. dq_job repo s i = Some w \<Longrightarrow> job_status w \<noteq> Job_reserved \<and> job_status w \<noteq> Job_running"
  shows "recovered_jobs now (visibleAtFor repo s) (dq_job repo s) i = dq_job repo s i"
    "recovered_vis now (visibleAtFor repo s) (dq_job repo s) i = visibleAtFor repo s i"
  using assms
  by (cases "dq_job repo s i"; simp add: recovered_jobs_def recovered_vis_def lease_expired_def)+

lemma interrupted_list:
  assumes "inv r"
  defines "ws \<equiv> jr_findByStatus repo Job_reserved r @ jr_findByStatus repo Job_running r"
  shows "distinct (map job_id ws)"
    "w \<in> set ws \<longleftrightarrow> jr_load repo (job_id w) r = Some w \<and>
       (job_status w = Job_reserved \<or> job_status w = Job_running)"
proof -
  have "x \<noteq> y \<Longrightarrow> job_id x \<noteq> job_id y" if "x \<in> set (jr_findByStatus repo Job_reserved r)"
      "y \<in> set (jr_findByStatus repo Job_running r)" for x y
    using that find_status [OF assms(1)] by force
  moreover have "x \<noteq> y" if "x \<in> set (jr_findByStatus repo Job_reserved r)"
      "y \<in> set (jr_findByStatus repo Job_running r)" for x y
    using that find_status [OF assms(1)] by force
  ultimately show "distinct (map job_id ws)"
    using find_distinct [OF assms(1)] unfolding ws_def by fastforce
  show "w \<in> set ws \<longleftrightarrow> jr_load repo (job_id w) r = Some w \<and>
       (job_status w = Job_reserved \<or> job_status w = Job_running)"
    using find_status [OF assms(1)] unfolding ws_def by auto
qed

lemma recover_effect:
  assumes ok: "dq_ok repo inv s" and now: "0 \<le> now"
  shows "\<exists>n t. recoverExpiredWorkerJobLeases repo now s = (Inr n, t) \<and> dq_ok repo inv t \<and>
     dq_job repo t = recovered_jobs now (visibleAtFor repo s) (dq_job repo s) \<and>
     visibleAtFor repo t = recovered_vis now (visibleAtFor repo s) (dq_job repo s) \<and>
     (\<forall>key j. key_owner key (dq_repo s) = Some j \<longrightarrow> key_owner key (dq_repo t) = Some j)"
proof (cases "jr_atomic repo")
  case None
  let ?ws = "jr_findByStatus repo Job_reserved (dq_repo s) @ jr_findByStatus repo Job_running (dq_repo s)"
  note ws = interrupted_list [OF dq_ok_inv [OF ok]]
  have pre: "dq_job repo s (job_id w) = Some w \<and>
      (job_status w = Job_reserved \<or> job_status w = Job_running)" if "w \<in> set ?ws" for w
    using ws(2) [of w] that by (simp add: dq_job_def)
  obtain n t where t: "recoverInterrupted repo now ?ws 0 s = (Inr n, t)" "dq_ok repo inv t"
      "\<And>i. dq_job repo t i = (if i \<in> job_id ` set ?ws
         then recovered_jobs now (visibleAtFor repo s) (dq_job repo s) i else dq_job repo s i)"
      "\<And>i. visibleAtFor repo t i = (if i \<in> job_id ` set ?ws
         then recovered_vis now (visibleAtFor repo s) (dq_job repo s) i else visibleAtFor repo s i)"
      "\<And>key j. key_owner key (dq_repo s) = Some j \<Longrightarrow> key_owner key (dq_repo t) = Some j"
    using recoverInterrupted_effect [OF ok now ws(1) pre, of 0] by blast
  have out: "recovered_jobs now (visibleAtFor repo s) (dq_job repo s) i = dq_job repo s i"
      "recovered_vis now (visibleAtFor repo s) (dq_job repo s) i = visibleAtFor repo s i"
    if "i \<notin> job_id ` set ?ws" for i
  proof -
    have "job_status w \<noteq> Job_reserved \<and> job_status w \<noteq> Job_running" if w: "dq_job repo s i = Some w" for w
    proof (rule ccontr)
      assume "\<not> ?thesis"
      then have "w \<in> set ?ws" using ws(2) [of w] w dq_okD(2) [OF ok w] by (auto simp: dq_job_def)
      then show False using \<open>i \<notin> job_id ` set ?ws\<close> dq_okD(2) [OF ok w] by (metis imageI)
    qed
    then show "recovered_jobs now (visibleAtFor repo s) (dq_job repo s) i = dq_job repo s i"
        "recovered_vis now (visibleAtFor repo s) (dq_job repo s) i = visibleAtFor repo s i"
      using not_expired_kept by blast+
  qed
  have "dq_job repo t = recovered_jobs now (visibleAtFor repo s) (dq_job repo s)"
      "visibleAtFor repo t = recovered_vis now (visibleAtFor repo s) (dq_job repo s)"
    using t(3,4) out by (auto simp: fun_eq_iff simp del: set_append)
  moreover have "recoverExpiredWorkerJobLeases repo now s = (Inr n, t)"
    using None t(1) by (simp add: recoverExpiredWorkerJobLeases_def)
  ultimately show ?thesis using t(2,5) by blast
next
  case (Some a)
  have vis: "visibleAtFor repo u i = at_getVisibleAt a i (dq_repo u)" for u i
    using Some by (simp add: visibleAtFor_def)
  have pre: "recoverExpiredWorkerJob w = Inr (recovered w) \<and> job_id (recovered w) = job_id w"
    if "jr_load repo (job_id w) (dq_repo s) = Some w"
      "queue_expired now (\<lambda>j. at_getVisibleAt a j (dq_repo s)) w" for w
    using recoverExpiredWorkerJob_eq [OF dq_okD(1) [OF ok] queue_expired_status] that
    by (simp add: dq_job_def)
  from recover_all [OF dq_ok_inv [OF ok] Some pre]
  obtain ws r where r: "at_recoverExpired a (map queue_work_type_name queueWorkTypes) now
        recoverExpiredWorkerJob (dq_repo s) = Inr (ws, r)" "inv r"
      "\<And>i. jr_load repo i r = map_option
          (\<lambda>w. if queue_expired now (\<lambda>j. at_getVisibleAt a j (dq_repo s)) w then recovered w else w)
          (jr_load repo i (dq_repo s))"
      "\<And>i. at_getVisibleAt a i r = (case jr_load repo i (dq_repo s) of
            None \<Rightarrow> at_getVisibleAt a i (dq_repo s)
          | Some w \<Rightarrow> if queue_expired now (\<lambda>j. at_getVisibleAt a j (dq_repo s)) w
              then (if job_status (recovered w) = Job_retrying then Some now else None)
              else at_getVisibleAt a i (dq_repo s))"
      "\<And>k. key_owner k r = key_owner k (dq_repo s)"
    by blast
  let ?t = "s\<lparr>dq_repo := r\<rparr>"
  have jobs: "dq_job repo ?t = recovered_jobs now (visibleAtFor repo s) (dq_job repo s)"
    unfolding dq_job_def recovered_jobs_def vis [of s, abs_def] by (simp add: r(3) fun_eq_iff)
  have viss: "visibleAtFor repo ?t = recovered_vis now (visibleAtFor repo s) (dq_job repo s)"
    unfolding dq_job_def recovered_vis_def vis [abs_def]
    by (simp add: r(4) fun_eq_iff)
  have "queue_job w" if prem: "dq_job repo ?t i = Some w" for i w
  proof -
    obtain x where "dq_job repo s i = Some x"
        "w = (if queue_expired now (visibleAtFor repo s) x then recovered x else x)"
      using prem unfolding jobs recovered_jobs_def by auto
    then show ?thesis
      using dq_okD(1) [OF ok] recovered_queue_job queue_expired_status by metis
  qed
  then have "dq_ok repo inv ?t" using r(2) by (simp add: dq_ok_def)
  moreover have "recoverExpiredWorkerJobLeases repo now s = (Inr (int (length ws)), ?t)"
    using Some r(1) by (simp add: recoverExpiredWorkerJobLeases_def)
  ultimately show ?thesis using jobs viss r(5) by (metis durable_queue.select_convs(1)
        durable_queue.surjective durable_queue.update_convs(1))
qed

text \<open>Taking a visible job.\<close>

lemma visible_reservable:
  "job_status w = Job_queued \<or> job_status w = Job_retrying \<Longrightarrow>
     isWorkerJobVisible repo now s w \<and> job_workType w = t \<longleftrightarrow>
     reservable t now (visibleAtFor repo s) w"
  by (auto simp: isWorkerJobVisible_def reservable_def)

lemma find_reservable:
  assumes "inv (dq_repo s)"
  shows "findReservableWorkerJob repo now t s = None \<Longrightarrow>
      dq_job repo s i = Some w \<Longrightarrow> \<not> reservable (queue_work_type_name t) now (visibleAtFor repo s) w"
    "findReservableWorkerJob repo now t s = Some w \<Longrightarrow>
      dq_job repo s (job_id w) = Some w \<and> reservable (queue_work_type_name t) now (visibleAtFor repo s) w"
proof -
  let ?ws = "jr_findByStatus repo Job_queued (dq_repo s) @ jr_findByStatus repo Job_retrying (dq_repo s)"
  have mem: "w \<in> set ?ws \<longleftrightarrow> dq_job repo s (job_id w) = Some w \<and>
      (job_status w = Job_queued \<or> job_status w = Job_retrying)" for w
    using find_status [OF assms] by (auto simp: dq_job_def)
  show "findReservableWorkerJob repo now t s = Some w \<Longrightarrow>
      dq_job repo s (job_id w) = Some w \<and> reservable (queue_work_type_name t) now (visibleAtFor repo s) w"
    unfolding findReservableWorkerJob_def using mem [of w] visible_reservable [of w now s]
    by (metis (mono_tags, lifting) find_SomeD)
  show "\<not> reservable (queue_work_type_name t) now (visibleAtFor repo s) w"
    if none: "findReservableWorkerJob repo now t s = None" and w: "dq_job repo s i = Some w"
  proof
    assume res: "reservable (queue_work_type_name t) now (visibleAtFor repo s) w"
    then have st: "job_status w = Job_queued \<or> job_status w = Job_retrying"
      by (auto simp: reservable_def)
    have "w \<in> set ?ws" using mem [of w] w st dq_job_id [OF assms w] by simp
    moreover have "isSupportedWorkerJob w" "job_workType w = queue_work_type_name t"
        "isWorkerJobVisible repo now s w"
      using res visible_reservable [OF st]
      by (auto simp: isSupportedWorkerJob_def isQueueWorkType_iff reservable_def)
    ultimately show False
      using none unfolding findReservableWorkerJob_def find_None_iff_all by blast
  qed
qed

lemma save_then_clear:
  assumes ok: "dq_ok repo inv s" and w: "dq_job repo s (job_id w) \<noteq> None" "queue_job w"
    and u: "u = clearWorkerJobVisibility repo (job_id w) (s\<lparr>dq_repo := jr_save repo w (dq_repo s)\<rparr>)"
  shows "dq_ok repo inv u" "dq_job repo u = (dq_job repo s)(job_id w \<mapsto> w)"
    "visibleAtFor repo u = (visibleAtFor repo s)(job_id w := None)"
    "key_owner k (dq_repo s) = Some j \<Longrightarrow> key_owner k (dq_repo u) = Some j"
proof -
  note sv = dq_save [OF dq_ok_inv [OF ok] refl, where w = w]
  note cl = dq_clear_visible [OF sv(1) u]
  show jobs: "dq_job repo u = (dq_job repo s)(job_id w \<mapsto> w)" using sv(2) cl(2) by simp
  show "visibleAtFor repo u = (visibleAtFor repo s)(job_id w := None)"
    using sv(3) w(1) cl(3) by (auto simp: fun_eq_iff)
  show "key_owner k (dq_repo s) = Some j \<Longrightarrow> key_owner k (dq_repo u) = Some j"
    using sv(4) cl(4) by simp
  show "dq_ok repo inv u" using cl(1) ok w(2) unfolding dq_ok_def jobs by auto
qed

lemma set_then_save:
  assumes ok: "dq_ok repo inv s" and w: "dq_job repo s (job_id w) \<noteq> None" "queue_job w"
    and t: "t = setWorkerJobVisibility repo (job_id w) v s"
    and u: "u = t\<lparr>dq_repo := jr_save repo w (dq_repo t)\<rparr>"
  shows "dq_ok repo inv u" "dq_job repo u = (dq_job repo s)(job_id w \<mapsto> w)"
    "visibleAtFor repo u = (visibleAtFor repo s)(job_id w \<mapsto> v)"
    "key_owner k (dq_repo s) = Some j \<Longrightarrow> key_owner k (dq_repo u) = Some j"
proof -
  note st = dq_set_visible [OF dq_ok_inv [OF ok] w(1) t]
  note sv = dq_save [OF st(1) u]
  show jobs: "dq_job repo u = (dq_job repo s)(job_id w \<mapsto> w)" using sv(2) st(2) by simp
  show "visibleAtFor repo u = (visibleAtFor repo s)(job_id w \<mapsto> v)"
    using sv(3) w(1) st(2,3) by (auto simp: fun_eq_iff)
  show "key_owner k (dq_repo s) = Some j \<Longrightarrow> key_owner k (dq_repo u) = Some j"
    using sv(4) st(4) by simp
  show "dq_ok repo inv u" using sv(1) ok w(2) unfolding dq_ok_def jobs by auto
qed

lemma save_then_set:
  assumes ok: "dq_ok repo inv s" and w: "queue_job w"
    and u: "u = setWorkerJobVisibility repo (job_id w) v (s\<lparr>dq_repo := jr_save repo w (dq_repo s)\<rparr>)"
  shows "dq_ok repo inv u" "dq_job repo u = (dq_job repo s)(job_id w \<mapsto> w)"
    "visibleAtFor repo u = (visibleAtFor repo s)(job_id w \<mapsto> v)"
    "key_owner k (dq_repo s) = Some j \<Longrightarrow> key_owner k (dq_repo u) = Some j"
proof -
  note sv = dq_save [OF dq_ok_inv [OF ok] refl, where w = w]
  have "dq_job repo (s\<lparr>dq_repo := jr_save repo w (dq_repo s)\<rparr>) (job_id w) \<noteq> None"
    using sv(2) by simp
  note st = dq_set_visible [OF sv(1) this u]
  show jobs: "dq_job repo u = (dq_job repo s)(job_id w \<mapsto> w)" using sv(2) st(2) by simp
  show "visibleAtFor repo u = (visibleAtFor repo s)(job_id w \<mapsto> v)"
    using sv(3) st(3) by (auto simp: fun_eq_iff)
  show "key_owner k (dq_repo s) = Some j \<Longrightarrow> key_owner k (dq_repo u) = Some j"
    using sv(4) st(4) by simp
  show "dq_ok repo inv u" using st(1) ok w unfolding dq_ok_def jobs by auto
qed

text \<open>Taking the next visible job, from either kind of repository.\<close>

lemma reserveNext_effect:
  assumes ok: "dq_ok repo inv s"
  shows "(\<exists>u. reserveNextVisibleWorkerJob repo timeout now t s = (Inr None, u) \<and> dq_ok repo inv u \<and>
       dq_job repo u = dq_job repo s \<and> visibleAtFor repo u = visibleAtFor repo s \<and>
       (\<forall>k j. key_owner k (dq_repo s) = Some j \<longrightarrow> key_owner k (dq_repo u) = Some j) \<and>
       (\<forall>i w. dq_job repo s i = Some w \<longrightarrow>
          \<not> reservable (queue_work_type_name t) now (visibleAtFor repo s) w)) \<or>
     (\<exists>w u. reserveNextVisibleWorkerJob repo timeout now t s = (Inr (Some (taken w)), u) \<and>
       dq_ok repo inv u \<and> dq_job repo s (job_id w) = Some w \<and>
       reservable (queue_work_type_name t) now (visibleAtFor repo s) w \<and>
       dq_job repo u = (dq_job repo s)(job_id w \<mapsto> taken w) \<and>
       visibleAtFor repo u = (visibleAtFor repo s)(job_id w \<mapsto> now + timeout) \<and>
       (\<forall>k j. key_owner k (dq_repo s) = Some j \<longrightarrow> key_owner k (dq_repo u) = Some j))"
    (is "?empty \<or> ?some")
proof (cases "jr_atomic repo")
  case None
  note i = dq_ok_inv [OF ok]
  show ?thesis
  proof (cases "findReservableWorkerJob repo now t s")
    case none: None
    have "reserveNextVisibleWorkerJob repo timeout now t s = (Inr None, s)"
      using None none by (simp add: reserveNextVisibleWorkerJob_def)
    then have ?empty using ok find_reservable(1) [OF i none] by blast
    then show ?thesis ..
  next
    case (Some w)
    from find_reservable(2) [OF i Some]
    have w: "dq_job repo s (job_id w) = Some w"
        "reservable (queue_work_type_name t) now (visibleAtFor repo s) w" by auto
    have st: "job_status w = Job_queued \<or> job_status w = Job_retrying"
      using w(2) by (auto simp: reservable_def)
    note q = dq_okD(1) [OF ok w(1)]
    let ?u = "setWorkerJobVisibility repo (job_id (taken w)) (now + timeout)
        (s\<lparr>dq_repo := jr_save repo (taken w) (dq_repo s)\<rparr>)"
    have run: "reserveNextVisibleWorkerJob repo timeout now t s = (Inr (Some (taken w)), ?u)"
      using None Some reserveVisible_eq [OF q st]
      by (simp add: reserveNextVisibleWorkerJob_def repo_modify_def)
    have ?some
      using run w save_then_set [OF ok taken_queue_job [OF q st] refl, where v = "now + timeout"]
      unfolding taken_fields by blast
    then show ?thesis ..
  qed
next
  case (Some a)
  note i = dq_ok_inv [OF ok]
  have vis: "visibleAtFor repo u = (\<lambda>i. at_getVisibleAt a i (dq_repo u))" for u
    using Some by (simp add: visibleAtFor_def fun_eq_iff)
  let ?call = "at_reserveNext a (queue_work_type_name t) now (now + timeout) reserveVisible (dq_repo s)"
  show ?thesis
  proof (cases ?call)
    case (Inl e)
    then obtain w m where "dq_job repo s (job_id w) = Some w"
        "reservable (queue_work_type_name t) now (visibleAtFor repo s) w" "reserveVisible w = Inl m"
      using reserve_throw [OF i Some] unfolding vis dq_job_def by blast
    moreover have "job_status w = Job_queued \<or> job_status w = Job_retrying"
      using calculation(2) by (auto simp: reservable_def)
    ultimately show ?thesis using reserveVisible_eq [OF dq_okD(1) [OF ok]] by auto
  next
    case (Inr x)
    obtain o' r where x: "x = (o', r)" by (cases x)
    show ?thesis
    proof (cases o')
      case None
      with Inr x have call: "?call = Inr (None, r)" by simp
      have "reserveNextVisibleWorkerJob repo timeout now t s = (Inr None, s)"
        using Some call reserve_none [OF i Some call] by (simp add: reserveNextVisibleWorkerJob_def)
      then have ?empty using ok reserve_none [OF i Some call] unfolding vis dq_job_def by blast
      then show ?thesis ..
    next
      case w': (Some w')
      with Inr x have call: "?call = Inr (Some w', r)" by simp
      from reserve_some [OF i Some reserveVisible_id call]
      obtain w where w: "dq_job repo s (job_id w') = Some w"
          "reservable (queue_work_type_name t) now (visibleAtFor repo s) w" "reserveVisible w = Inr w'"
        and r: "inv r" "\<And>i. jr_load repo i r = (if i = job_id w' then Some w' else jr_load repo i (dq_repo s))"
          "\<And>i. at_getVisibleAt a i r =
             (if i = job_id w' then Some (now + timeout) else at_getVisibleAt a i (dq_repo s))"
          "\<And>k. key_owner k r = key_owner k (dq_repo s)"
        unfolding vis dq_job_def by blast
      have st: "job_status w = Job_queued \<or> job_status w = Job_retrying"
        using w(2) by (auto simp: reservable_def)
      note q = dq_okD(1) [OF ok w(1)]
      have w'_eq: "w' = taken w" and ids: "job_id w' = job_id w"
        using w(3) reserveVisible_eq [OF q st] by auto
      let ?u = "s\<lparr>dq_repo := r, dq_retryVisibleAt := (dq_retryVisibleAt s)(job_id w' := None)\<rparr>"
      have run: "reserveNextVisibleWorkerJob repo timeout now t s = (Inr (Some (taken w)), ?u)"
        using Some call w'_eq by (simp add: reserveNextVisibleWorkerJob_def)
      have jobs: "dq_job repo ?u = (dq_job repo s)(job_id w \<mapsto> taken w)"
        using r(2) ids w'_eq by (auto simp: dq_job_def fun_eq_iff)
      have viss: "visibleAtFor repo ?u = (visibleAtFor repo s)(job_id w \<mapsto> now + timeout)"
        unfolding vis using r(3) ids by (auto simp: fun_eq_iff)
      have "dq_ok repo inv ?u"
        using ok r(1) taken_queue_job [OF q st] unfolding dq_ok_def jobs by auto
      then have ?some using run w(1,2) ids jobs viss r(4) by fastforce
      then show ?thesis ..
    qed
  qed
qed

end

end
