(* ===== verification/DurableQueueHistory.thy ===== *)
theory DurableQueueHistory
  imports DurableQueueLaws
begin

text \<open>
  The operations of the durable queue described on the two maps, and what a whole history of
  timed operations keeps: every job well formed and within its retry budget, leases exclusive
  until they run out, the attempts of a job strictly increasing from one reservation to the next,
  and an idempotency key bound to its job for good.
\<close>

definition becomes ::
    "'r job_repository \<Rightarrow> ('r \<Rightarrow> bool) \<Rightarrow> (string \<Rightarrow> 'r \<Rightarrow> identity option) \<Rightarrow> 'r durable_queue \<Rightarrow>
     identity \<Rightarrow> worker_job \<Rightarrow> int option \<Rightarrow> 'r durable_queue \<Rightarrow> bool" where
  "becomes repo good owner s i w v u \<longleftrightarrow>
     dq_ok repo good u \<and> dq_job repo u = (dq_job repo s)(i \<mapsto> w) \<and>
     visibleAtFor repo u = (visibleAtFor repo s)(i := v) \<and>
     (\<forall>k j. owner k (dq_repo s) = Some j \<longrightarrow> owner k (dq_repo u) = Some j)"

definition budget_exhausted :: "reservation \<Rightarrow> worker_job \<Rightarrow> bool" where
  "budget_exhausted r w \<longleftrightarrow> rp_maxAttempts (job_retryPolicy w) < rsv_attempt r + 1"

definition missing_job_error :: queue_error where
  "missing_job_error = Provider_error ''worker_job_missing'' ''WorkerJob is missing.'' False Fail_queue"

lemma act_try_Inr [simp]: "act_try (Inr x) s = (Inr x, s)"
  by (simp add: act_try_def)

lemma act_try_Inl [simp]: "act_try (Inl e) s = (Inl e, s)"
  by (simp add: act_try_def)

lemma repo_modify_eq [simp]: "repo_modify f s = (Inr (), s\<lparr>dq_repo := f (dq_repo s)\<rparr>)"
  by (simp add: repo_modify_def)

lemma not_holds_refused: "\<not> holds r w \<Longrightarrow> \<exists>e. assertActiveReservation w r = Inl e"
  using assertActiveReservation_holds [of w r]
  by (cases "assertActiveReservation w r") auto

lemma capture_eq [simp]:
  "m s = (Inr x, t) \<Longrightarrow> capturePortFailure c m s = (Inr x, t)"
  "m s = (Inl e, t) \<Longrightarrow> capturePortFailure c m s = (Inl (c e), t)"
  by (simp_all add: capturePortFailure_def)

section \<open>Timed commands\<close>

datatype queue_command =
    Enqueue queue_work
  | Reserve queue_work_type
  | Acknowledge reservation
  | ReleaseForRetry reservation jsnum
  | MoveToDeadLetter reservation string
  | RecoverVisible

fun queue_step ::
    "'r job_repository \<Rightarrow> int \<Rightarrow> int \<times> queue_command \<Rightarrow> 'r durable_queue \<Rightarrow> 'r durable_queue" where
  "queue_step repo timeout (now, Enqueue work) s = snd (enqueue repo now work s)"
| "queue_step repo timeout (now, Reserve t) s = snd (reserve repo timeout now t s)"
| "queue_step repo timeout (now, Acknowledge r) s = snd (acknowledge repo now r s)"
| "queue_step repo timeout (now, ReleaseForRetry r d) s = snd (releaseForRetry repo now r d s)"
| "queue_step repo timeout (now, MoveToDeadLetter r c) s = snd (moveToDeadLetter repo now r c s)"
| "queue_step repo timeout (now, RecoverVisible) s = snd (recoverVisibleJobs repo now s)"

definition queue_history ::
    "'r job_repository \<Rightarrow> int \<Rightarrow> (int \<times> queue_command) list \<Rightarrow> 'r durable_queue \<Rightarrow> 'r durable_queue" where
  "queue_history repo timeout cs s = fold (queue_step repo timeout) cs s"

text \<open>
  The clock is not negative and an enqueued policy has a budget, as \<open>createRetryPolicy\<close> ensures.
\<close>

fun command_ok :: "int \<times> queue_command \<Rightarrow> bool" where
  "command_ok (now, Enqueue work) \<longleftrightarrow> 0 \<le> now \<and> 0 < rp_maxAttempts (qw_retryPolicy work)"
| "command_ok (now, _) \<longleftrightarrow> 0 \<le> now"

fun enqueues :: "queue_command \<Rightarrow> identity option" where
  "enqueues (Enqueue work) = Some (qw_jobId work)"
| "enqueues _ = None"

fun settles :: "queue_command \<Rightarrow> (identity \<times> int) option" where
  "settles (Acknowledge r) = Some (rsv_jobId r, rsv_attempt r)"
| "settles (ReleaseForRetry r d) = Some (rsv_jobId r, rsv_attempt r)"
| "settles (MoveToDeadLetter r c) = Some (rsv_jobId r, rsv_attempt r)"
| "settles _ = None"

text \<open>How far a job has come: it grows with every reservation and never falls.\<close>

definition progress :: "worker_job \<Rightarrow> int" where
  "progress w =
     2 * value_or (job_attemptNumber w) 0 - (if job_status w = Job_retrying then 1 else 0)"

lemma progress_recovered:
  "job_status w = Job_reserved \<or> job_status w = Job_running \<Longrightarrow> progress w \<le> progress (recovered w)"
  by (cases "job_attemptNumber w") (auto simp: progress_def recovered_def Let_def)

lemma progress_taken:
  "queue_job w \<Longrightarrow> job_status w = Job_queued \<or> job_status w = Job_retrying \<Longrightarrow>
     progress w < progress (taken w) \<and> progress (taken w) = 2 * nextReservationAttempt w"
  using queue_job_attempt [of w]
  by (auto simp: progress_def nextReservationAttempt_def queue_job_def split: option.splits)

lemma progress_settled:
  assumes "holds r w"
  shows "progress w \<le> progress (finished w)" "progress w \<le> progress (buried c w)"
    "progress w \<le> progress (rescheduled (rsv_attempt r + 1) w)"
  using assms by (auto simp: progress_def holds_def)

lemma policy_kept [simp]:
  "job_retryPolicy (recovered w) = job_retryPolicy w" "job_retryPolicy (finished w) = job_retryPolicy w"
  "job_retryPolicy (buried c w) = job_retryPolicy w" "job_retryPolicy (rescheduled n w) = job_retryPolicy w"
  by (simp_all add: recovered_def finished_def buried_def rescheduled_def Let_def)

context worker_job_repository
begin

lemma load_eq:
  "dq_job repo s i = Some w \<Longrightarrow> isSupportedWorkerJob w \<Longrightarrow> loadWorkerJob repo i s = (Inr w, s)"
  "dq_job repo s i = None \<Longrightarrow> loadWorkerJob repo i s = (Inl missing_job_error, s)"
  "dq_job repo s i = Some w \<Longrightarrow> \<not> isSupportedWorkerJob w \<Longrightarrow>
     loadWorkerJob repo i s = (Inl (Provider_error ''unsupported_work_type''
       ''WorkerJob work type is unsupported.'' False Fail_queue), s)"
  by (simp_all add: loadWorkerJob_def dq_job_def missing_job_error_def)

lemma becomes_clear:
  assumes "dq_ok repo inv s" "dq_job repo s i = Some w" "job_id w' = job_id w" "queue_job w'"
  shows "becomes repo inv key_owner s i w' None
     (clearWorkerJobVisibility repo (job_id w') (s\<lparr>dq_repo := jr_save repo w' (dq_repo s)\<rparr>))"
proof -
  have i: "job_id w' = i" using dq_okD(2) [OF assms(1,2)] assms(3) by simp
  then have "dq_job repo s (job_id w') \<noteq> None" using assms(2) by simp
  from save_then_clear [OF assms(1) this assms(4) refl] show ?thesis
    unfolding becomes_def i by blast
qed

lemma becomes_set:
  assumes "dq_ok repo inv s" "dq_job repo s i = Some w" "job_id w' = job_id w" "queue_job w'"
    and "t = setWorkerJobVisibility repo (job_id w') v s"
  shows "becomes repo inv key_owner s i w' (Some v) (t\<lparr>dq_repo := jr_save repo w' (dq_repo t)\<rparr>)"
proof -
  have i: "job_id w' = i" using dq_okD(2) [OF assms(1,2)] assms(3) by simp
  then have "dq_job repo s (job_id w') \<noteq> None" using assms(2) by simp
  from set_then_save [OF assms(1) this assms(4,5) refl] show ?thesis
    unfolding becomes_def i by blast
qed

text \<open>Acknowledging.\<close>

lemma acknowledge_holds:
  assumes "dq_ok repo inv s" "dq_job repo s (rsv_jobId r) = Some w" "isSupportedWorkerJob w" "holds r w"
  shows "\<exists>u. acknowledge repo now r s = (Inr (receiptFor repo now (finished w) u), u) \<and>
     becomes repo inv key_owner s (rsv_jobId r) (finished w) None u"
proof -
  let ?u = "clearWorkerJobVisibility repo (job_id (finished w))
      (s\<lparr>dq_repo := jr_save repo (finished w) (dq_repo s)\<rparr>)"
  have "becomes repo inv key_owner s (rsv_jobId r) (finished w) None ?u"
    by (rule becomes_clear [OF assms(1,2)])
      (simp_all add: settled_queue_job(1) [OF dq_okD(1) [OF assms(1,2)] assms(4)])
  moreover have "job_status w \<noteq> Job_completed" using assms(4) by (auto simp: holds_def)
  then have "acknowledge repo now r s = (Inr (receiptFor repo now (finished w) ?u), ?u)"
    using assms(4)
    by (simp add: acknowledge_def load_eq(1) [OF assms(2,3)] finished_eq [OF assms(4)]
        iffD2 [OF assertActiveReservation_holds])
  ultimately show ?thesis by blast
qed

lemma acknowledge_refused:
  assumes "\<And>w. dq_job repo s (rsv_jobId r) = Some w \<Longrightarrow> \<not> isSupportedWorkerJob w \<or>
      job_status w \<noteq> Job_completed \<and> \<not> holds r w"
  shows "\<exists>e. acknowledge repo now r s = (Inl e, s)"
proof (cases "dq_job repo s (rsv_jobId r)")
  case None
  then show ?thesis by (simp add: acknowledge_def load_eq)
next
  case (Some w)
  show ?thesis
  proof (cases "isSupportedWorkerJob w")
    case True
    then have n: "job_status w \<noteq> Job_completed" "\<not> holds r w" using assms Some by auto
    from not_holds_refused [OF n(2)] obtain e where "assertActiveReservation w r = Inl e" ..
    then show ?thesis using n(1) by (simp add: acknowledge_def load_eq(1) [OF Some True])
  next
    case False
    then show ?thesis by (simp add: acknowledge_def load_eq(3) [OF Some])
  qed
qed

lemma acknowledge_completed:
  assumes "dq_job repo s (rsv_jobId r) = Some w" "isSupportedWorkerJob w" "job_status w = Job_completed"
  shows "acknowledge repo now r s = (Inr (receiptFor repo now w s), s)"
  by (simp add: acknowledge_def load_eq(1) [OF assms(1,2)] assms(3))

text \<open>Releasing for a retry.\<close>

lemma releaseForRetry_holds:
  assumes ok: "dq_ok repo inv s" and w: "dq_job repo s (rsv_jobId r) = Some w" "isSupportedWorkerJob w"
    and h: "holds r w" and d: "0 \<le> d"
  shows "budget_exhausted r w \<Longrightarrow> \<exists>u. releaseForRetry repo now r (num_of d) s =
      (Inr (receiptFor repo now (buried ''retry_budget_exhausted'' w) u), u) \<and>
      becomes repo inv key_owner s (rsv_jobId r) (buried ''retry_budget_exhausted'' w) None u"
    and "\<not> budget_exhausted r w \<Longrightarrow> \<exists>u. releaseForRetry repo now r (num_of d) s =
      (Inr (receiptFor repo now (rescheduled (rsv_attempt r + 1) w) u), u) \<and>
      becomes repo inv key_owner s (rsv_jobId r) (rescheduled (rsv_attempt r + 1) w) (Some (now + d)) u"
proof -
  note q = dq_okD(1) [OF ok w(1)]
  have delay: "assertNonNegativeInteger (num_of d) l = Inr d" for l
    using d by (simp add: assertNonNegativeInteger_def)
  have act: "assertActiveReservation w r = Inr ()" using h assertActiveReservation_holds by blast
  show "\<exists>u. releaseForRetry repo now r (num_of d) s =
      (Inr (receiptFor repo now (buried ''retry_budget_exhausted'' w) u), u) \<and>
      becomes repo inv key_owner s (rsv_jobId r) (buried ''retry_budget_exhausted'' w) None u"
    if "budget_exhausted r w"
  proof -
    let ?w = "buried ''retry_budget_exhausted'' w"
    let ?u = "clearWorkerJobVisibility repo (job_id ?w) (s\<lparr>dq_repo := jr_save repo ?w (dq_repo s)\<rparr>)"
    have "becomes repo inv key_owner s (rsv_jobId r) ?w None ?u"
      by (rule becomes_clear [OF ok w(1)]) (simp_all add: settled_queue_job(2) [OF q h])
    moreover have "releaseForRetry repo now r (num_of d) s = (Inr (receiptFor repo now ?w ?u), ?u)"
      using that
      by (simp add: releaseForRetry_def delay load_eq(1) [OF w] act budget_exhausted_def
          buried_eq [OF h lease_codes(2)])
    ultimately show ?thesis by blast
  qed
  show "\<exists>u. releaseForRetry repo now r (num_of d) s =
      (Inr (receiptFor repo now (rescheduled (rsv_attempt r + 1) w) u), u) \<and>
      becomes repo inv key_owner s (rsv_jobId r) (rescheduled (rsv_attempt r + 1) w) (Some (now + d)) u"
    if nb: "\<not> budget_exhausted r w"
  proof -
    let ?w = "rescheduled (rsv_attempt r + 1) w"
    let ?t = "setWorkerJobVisibility repo (job_id ?w) (now + d) s"
    let ?u = "?t\<lparr>dq_repo := jr_save repo ?w (dq_repo ?t)\<rparr>"
    have n: "1 \<le> rsv_attempt r" using queue_job_attempt [OF q] h by (auto simp: holds_def)
    have le: "rsv_attempt r + 1 \<le> rp_maxAttempts (job_retryPolicy w)"
      using nb by (simp add: budget_exhausted_def)
    have "queue_job ?w" by (rule settled_queue_job(3) [OF q h _ le]) (use n in simp)
    then have "becomes repo inv key_owner s (rsv_jobId r) ?w (Some (now + d)) ?u"
      by (intro becomes_set [OF ok w(1) _ _ refl]) simp_all
    moreover have "releaseForRetry repo now r (num_of d) s = (Inr (receiptFor repo now ?w ?u), ?u)"
      using nb rescheduled_eq [OF h _ le] n
      by (simp add: releaseForRetry_def delay load_eq(1) [OF w] act budget_exhausted_def)
    ultimately show ?thesis by blast
  qed
qed

lemma releaseForRetry_refused:
  assumes "\<And>w d. dq_job repo s (rsv_jobId r) = Some w \<Longrightarrow> as_int delay = Some d \<Longrightarrow> 0 \<le> d \<Longrightarrow>
      \<not> isSupportedWorkerJob w \<or> \<not> holds r w"
  shows "\<exists>e. releaseForRetry repo now r delay s = (Inl e, s)"
proof (cases "assertNonNegativeInteger delay ''delayMilliseconds''")
  case (Inl e)
  then show ?thesis by (cases e) (simp add: releaseForRetry_def)
next
  case (Inr d)
  then have d: "as_int delay = Some d" "0 \<le> d"
    by (auto simp: assertNonNegativeInteger_def split: option.splits if_splits)
  show ?thesis
  proof (cases "dq_job repo s (rsv_jobId r)")
    case None
    then show ?thesis by (simp add: releaseForRetry_def Inr load_eq)
  next
    case (Some w)
    show ?thesis
    proof (cases "isSupportedWorkerJob w")
      case True
      then obtain e where "assertActiveReservation w r = Inl e"
        using not_holds_refused assms [OF Some d] by blast
      then show ?thesis by (simp add: releaseForRetry_def Inr load_eq(1) [OF Some True])
    next
      case False
      then show ?thesis by (simp add: releaseForRetry_def Inr load_eq(3) [OF Some])
    qed
  qed
qed

text \<open>Moving to the dead letters.\<close>

lemma moveToDeadLetter_holds:
  assumes ok: "dq_ok repo inv s" and w: "dq_job repo s (rsv_jobId r) = Some w" "isSupportedWorkerJob w"
    and h: "holds r w" and c: "createSafeDomainCode code ''DeadLetterReason.code'' = Inr c"
  shows "\<exists>u. moveToDeadLetter repo now r code s = (Inr (receiptFor repo now (buried c w) u), u) \<and>
     becomes repo inv key_owner s (rsv_jobId r) (buried c w) None u"
proof -
  let ?u = "clearWorkerJobVisibility repo (job_id (buried c w))
      (s\<lparr>dq_repo := jr_save repo (buried c w) (dq_repo s)\<rparr>)"
  have "becomes repo inv key_owner s (rsv_jobId r) (buried c w) None ?u"
    by (rule becomes_clear [OF ok w(1)])
      (simp_all add: settled_queue_job(2) [OF dq_okD(1) [OF ok w(1)] h])
  moreover have "job_status w \<noteq> Job_dead" using h by (auto simp: holds_def)
  then have "moveToDeadLetter repo now r code s = (Inr (receiptFor repo now (buried c w) ?u), ?u)"
    using h by (simp add: moveToDeadLetter_def load_eq(1) [OF w] buried_eq [OF h c]
        iffD2 [OF assertActiveReservation_holds])
  ultimately show ?thesis by blast
qed

lemma moveToDeadLetter_frame:
  assumes "\<And>w. dq_job repo s (rsv_jobId r) = Some w \<Longrightarrow> \<not> isSupportedWorkerJob w \<or> \<not> holds r w \<or>
      (\<exists>e. createSafeDomainCode code ''DeadLetterReason.code'' = Inl e)"
  shows "snd (moveToDeadLetter repo now r code s) = s"
proof (cases "dq_job repo s (rsv_jobId r)")
  case None
  then show ?thesis by (simp add: moveToDeadLetter_def load_eq)
next
  case (Some w)
  show ?thesis
  proof (cases "isSupportedWorkerJob w \<and> job_status w \<noteq> Job_dead")
    case True
    then have sup: "isSupportedWorkerJob w" by simp
    from assms [OF Some] sup consider "\<not> holds r w"
      | e where "holds r w" "createSafeDomainCode code ''DeadLetterReason.code'' = Inl e" by blast
    then show ?thesis
    proof cases
      case 1
      from not_holds_refused [OF this] obtain e where "assertActiveReservation w r = Inl e" ..
      then show ?thesis using True by (simp add: moveToDeadLetter_def load_eq(1) [OF Some sup])
    next
      case (2 e)
      then show ?thesis using True
        by (cases e) (simp add: moveToDeadLetter_def load_eq(1) [OF Some sup]
            createDeadLetterReason_queue iffD2 [OF assertActiveReservation_holds])
    qed
  next
    case False
    then show ?thesis
      by (cases "isSupportedWorkerJob w")
        (simp_all add: moveToDeadLetter_def load_eq(1) [OF Some] load_eq(3) [OF Some])
  qed
qed

text \<open>Enqueueing.\<close>

lemma enqueue_known:
  assumes "createIdempotencyKey (qw_idempotencyKey work) = Inr key" "inv (dq_repo s)"
    and "key_owner key (dq_repo s) = Some i" "dq_job repo s i = Some w"
  shows "enqueue repo now work s = (Inr (receiptFor repo now w s), s)"
  using assms by (simp add: enqueue_def find_key dq_job_def)

lemma enqueue_rejected:
  assumes "createIdempotencyKey (qw_idempotencyKey work) = Inl e"
  shows "\<exists>f. enqueue repo now work s = (Inl f, s)"
  using assms by (cases e) (simp add: enqueue_def)

lemma queue_job_new:
  assumes "queueWorkerJob i oc t p m = Inr w" "0 < rp_maxAttempts p"
  shows "queue_job w"
  using assms queueWorkerJob_wf [OF assms(1)] by (simp add: queue_job_def queueWorkerJob_fields [OF assms(1)])

text \<open>A new key: the job is stored, made visible, and the key bound to it.\<close>

lemma enqueue_new:
  assumes ok: "dq_ok repo inv s"
    and key: "createIdempotencyKey (qw_idempotencyKey work) = Inr key"
    and none: "jr_findByIdempotencyKey repo key (dq_repo s) = None"
    and w: "queueWorkerJob (qw_jobId work) (qw_ownerContext work)
      (queue_work_type_name (qw_workType work)) (qw_retryPolicy work) (qw_safeMetadata work) = Inr w"
    and policy: "0 < rp_maxAttempts (qw_retryPolicy work)"
  shows "\<exists>res u. enqueue repo now work s = (res, u) \<and>
     dq_ok repo inv u \<and> dq_job repo u = (dq_job repo s)(qw_jobId work \<mapsto> w) \<and>
     visibleAtFor repo u = (visibleAtFor repo s)(qw_jobId work \<mapsto> now) \<and>
     (\<forall>k j. key_owner k (dq_repo s) = Some j \<longrightarrow> k \<noteq> key \<longrightarrow> j \<noteq> qw_jobId work \<longrightarrow>
        key_owner k (dq_repo u) = Some j) \<and>
     (\<forall>rcpt. res = Inr rcpt \<longrightarrow> key_owner key (dq_repo u) = Some (qw_jobId work) \<and>
        rcpt = receiptFor repo now w u)"
proof -
  note i = queueWorkerJob_fields(1) [OF w]
  let ?t = "setWorkerJobVisibility repo (job_id w) now (s\<lparr>dq_repo := jr_save repo w (dq_repo s)\<rparr>)"
  note t = save_then_set [OF ok queue_job_new [OF w policy] refl, where v = now]
  have run: "enqueue repo now work s =
      capturePortFailure toApplicationPortFailure
        (act_bind (repo_try (jr_recordIdempotencyKey repo key (qw_jobId work)))
           (\<lambda>_. act_get (receiptFor repo now w))) ?t"
    unfolding enqueue_def capturePortFailure_def by (simp add: key none w)
  have old: "key_owner k (dq_repo ?t) = Some j" if "key_owner k (dq_repo s) = Some j" for k j
    using t(4) [OF that] i by simp
  show ?thesis
  proof (cases "jr_recordIdempotencyKey repo key (qw_jobId work) (dq_repo ?t)")
    case (Inl e)
    then have "enqueue repo now work s = (Inl (toApplicationPortFailure e), ?t)"
      unfolding run by (simp add: repo_try_def)
    then show ?thesis using t(1,2,3) old i by auto
  next
    case (Inr r)
    let ?u = "?t\<lparr>dq_repo := r\<rparr>"
    have res: "enqueue repo now work s = (Inr (receiptFor repo now w ?u), ?u)"
      unfolding run using Inr by (simp add: repo_try_def)
    have it: "inv (dq_repo ?t)" using t(1) i by (simp add: dq_ok_def)
    have jobs: "dq_job repo ?u = dq_job repo ?t"
      using load_record [OF it Inr] by (simp add: dq_job_def fun_eq_iff)
    have viss: "visibleAtFor repo ?u = visibleAtFor repo ?t"
      using get_record [OF it _ Inr] by (auto simp: visibleAtFor_def fun_eq_iff split: option.splits)
    have ex: "jr_load repo (qw_jobId work) (dq_repo ?t) \<noteq> None"
      using t(2) i by (simp add: dq_job_def fun_eq_iff)
    have ku: "key_owner key (dq_repo ?u) = Some (qw_jobId work)"
      using key_record [OF it Inr ex] by simp
    have ko: "key_owner k (dq_repo ?u) = Some j"
      if "key_owner k (dq_repo s) = Some j" "k \<noteq> key" "j \<noteq> qw_jobId work" for k j
      using key_record_other [OF it Inr old [OF that(1)] that(2,3)] by simp
    have "dq_ok repo inv ?u"
      using t(1) i record_inv [OF it Inr] jobs by (simp add: dq_ok_def)
    then show ?thesis using res jobs viss ku ko t(2,3) i by auto
  qed
qed

text \<open>Reserving: expired leases are taken back first, then one visible job is taken.\<close>

lemma reservationFor_taken:
  assumes "job_workType w = queue_work_type_name t"
  shows "\<exists>r. reservationFor (taken w) (nextReservationAttempt w) = Inr r \<and>
     rsv_jobId r = job_id w \<and> rsv_attempt r = nextReservationAttempt w \<and> holds r (taken w)"
  using assms by (simp add: reservationFor_def holds_def reservationRefFor_def)

lemma reserve_effect:
  assumes ok: "dq_ok repo inv s" and now: "0 \<le> now"
  defines "J \<equiv> recovered_jobs now (visibleAtFor repo s) (dq_job repo s)"
    and "V \<equiv> recovered_vis now (visibleAtFor repo s) (dq_job repo s)"
  shows "(\<exists>u. reserve repo timeout now t s = (Inr None, u) \<and> dq_ok repo inv u \<and>
       dq_job repo u = J \<and> visibleAtFor repo u = V \<and>
       (\<forall>k j. key_owner k (dq_repo s) = Some j \<longrightarrow> key_owner k (dq_repo u) = Some j) \<and>
       (\<forall>i w. J i = Some w \<longrightarrow> \<not> reservable (queue_work_type_name t) now V w)) \<or>
     (\<exists>w r u. reserve repo timeout now t s = (Inr (Some r), u) \<and> dq_ok repo inv u \<and>
       J (job_id w) = Some w \<and> reservable (queue_work_type_name t) now V w \<and> queue_job w \<and>
       rsv_jobId r = job_id w \<and> rsv_attempt r = nextReservationAttempt w \<and> holds r (taken w) \<and>
       dq_job repo u = J(job_id w \<mapsto> taken w) \<and>
       visibleAtFor repo u = V(job_id w \<mapsto> now + timeout) \<and>
       (\<forall>k j. key_owner k (dq_repo s) = Some j \<longrightarrow> key_owner k (dq_repo u) = Some j))"
proof -
  obtain n s1 where s1: "recoverExpiredWorkerJobLeases repo now s = (Inr n, s1)" "dq_ok repo inv s1"
      "dq_job repo s1 = J" "visibleAtFor repo s1 = V"
      "\<And>k j. key_owner k (dq_repo s) = Some j \<Longrightarrow> key_owner k (dq_repo s1) = Some j"
    using recover_effect [OF ok now] unfolding J_def V_def by blast
  from reserveNext_effect [OF s1(2), of timeout now t] show ?thesis
  proof
    assume "\<exists>u. reserveNextVisibleWorkerJob repo timeout now t s1 = (Inr None, u) \<and> dq_ok repo inv u \<and>
       dq_job repo u = dq_job repo s1 \<and> visibleAtFor repo u = visibleAtFor repo s1 \<and>
       (\<forall>k j. key_owner k (dq_repo s1) = Some j \<longrightarrow> key_owner k (dq_repo u) = Some j) \<and>
       (\<forall>i w. dq_job repo s1 i = Some w \<longrightarrow>
          \<not> reservable (queue_work_type_name t) now (visibleAtFor repo s1) w)"
    then obtain u where u: "reserveNextVisibleWorkerJob repo timeout now t s1 = (Inr None, u)"
        "dq_ok repo inv u" "dq_job repo u = J" "visibleAtFor repo u = V"
        "\<And>k j. key_owner k (dq_repo s1) = Some j \<Longrightarrow> key_owner k (dq_repo u) = Some j"
        "\<And>i w. J i = Some w \<Longrightarrow> \<not> reservable (queue_work_type_name t) now V w"
      unfolding s1(3,4) by blast
    then have "reserve repo timeout now t s = (Inr None, u)"
      by (simp add: reserve_def s1(1))
    then show ?thesis using u s1(5) by blast
  next
    assume "\<exists>w u. reserveNextVisibleWorkerJob repo timeout now t s1 = (Inr (Some (taken w)), u) \<and>
       dq_ok repo inv u \<and> dq_job repo s1 (job_id w) = Some w \<and>
       reservable (queue_work_type_name t) now (visibleAtFor repo s1) w \<and>
       dq_job repo u = (dq_job repo s1)(job_id w \<mapsto> taken w) \<and>
       visibleAtFor repo u = (visibleAtFor repo s1)(job_id w \<mapsto> now + timeout) \<and>
       (\<forall>k j. key_owner k (dq_repo s1) = Some j \<longrightarrow> key_owner k (dq_repo u) = Some j)"
    then obtain w u where u: "reserveNextVisibleWorkerJob repo timeout now t s1 = (Inr (Some (taken w)), u)"
        "dq_ok repo inv u" "J (job_id w) = Some w" "reservable (queue_work_type_name t) now V w"
        "dq_job repo u = J(job_id w \<mapsto> taken w)" "visibleAtFor repo u = V(job_id w \<mapsto> now + timeout)"
        "\<And>k j. key_owner k (dq_repo s1) = Some j \<Longrightarrow> key_owner k (dq_repo u) = Some j"
      unfolding s1(3,4) by blast
    have "job_workType w = queue_work_type_name t" using u(4) by (simp add: reservable_def)
    from reservationFor_taken [OF this] obtain r where
      r: "reservationFor (taken w) (nextReservationAttempt w) = Inr r"
        "rsv_jobId r = job_id w" "rsv_attempt r = nextReservationAttempt w" "holds r (taken w)"
      by blast
    have "reserve repo timeout now t s = (Inr (Some r), u)"
      by (simp add: reserve_def s1(1) u(1) r(1))
    moreover have "queue_job w" using dq_okD(1) [OF s1(2)] u(3) s1(3) by simp
    ultimately show ?thesis using u(2-7) r(2-4) s1(5) by blast
  qed
qed

text \<open>What one recovery does to one job.\<close>

lemma recovered_job:
  assumes "dq_ok repo inv s" "dq_job repo s i = Some w"
  shows "\<exists>w'. recovered_jobs now (visibleAtFor repo s) (dq_job repo s) i = Some w' \<and>
     progress w \<le> progress w' \<and> job_retryPolicy w' = job_retryPolicy w"
  using assms(2) progress_recovered queue_expired_status by (auto simp: recovered_jobs_def)

lemma recovered_lease:
  assumes "dq_ok repo inv s" "dq_job repo s i = Some w" "visibleAtFor repo s i = Some v" "now < v"
  shows "recovered_jobs now (visibleAtFor repo s) (dq_job repo s) i = Some w"
    "recovered_vis now (visibleAtFor repo s) (dq_job repo s) i = Some v"
  using assms dq_okD(2) [OF assms(1,2)]
  by (auto simp: recovered_jobs_def recovered_vis_def lease_expired_def)

text \<open>The settling operations either leave the state or move the job they hold.\<close>

lemma settling_cases:
  assumes ok: "dq_ok repo inv s" and "settles c = Some (i, a)"
  shows "queue_step repo timeout (now, c) s = s \<or>
     (\<exists>w w' v r. dq_job repo s i = Some w \<and> holds r w \<and> rsv_attempt r = a \<and>
        becomes repo inv key_owner s i w' v (queue_step repo timeout (now, c) s) \<and>
        progress w \<le> progress w' \<and> job_retryPolicy w' = job_retryPolicy w)"
proof (cases c)
  case (Acknowledge r)
  then have r: "rsv_jobId r = i" "rsv_attempt r = a" using assms(2) by auto
  show ?thesis
  proof (cases "\<exists>w. dq_job repo s i = Some w \<and> isSupportedWorkerJob w \<and> holds r w")
    case True
    then obtain w where w: "dq_job repo s i = Some w" "isSupportedWorkerJob w" "holds r w" by blast
    from acknowledge_holds [OF ok w(1) [folded r(1)] w(2,3), of now] progress_settled(1) [OF w(3)]
    show ?thesis using w(1,3) r Acknowledge by force
  next
    case False
    have "snd (acknowledge repo now r s) = s"
    proof (cases "\<exists>w. dq_job repo s i = Some w \<and> isSupportedWorkerJob w \<and> job_status w = Job_completed")
      case True
      then show ?thesis using acknowledge_completed r(1) by force
    next
      case no: False
      then have "\<exists>e. acknowledge repo now r s = (Inl e, s)"
        using False r(1) by (intro acknowledge_refused) auto
      then show ?thesis by auto
    qed
    then show ?thesis using Acknowledge by simp
  qed
next
  case (ReleaseForRetry r d)
  then have r: "rsv_jobId r = i" "rsv_attempt r = a" using assms(2) by auto
  show ?thesis
  proof (cases "\<exists>w n. dq_job repo s i = Some w \<and> isSupportedWorkerJob w \<and> holds r w \<and>
      as_int d = Some n \<and> 0 \<le> n")
    case True
    then obtain w n where w: "dq_job repo s i = Some w" "isSupportedWorkerJob w" "holds r w"
        and n: "d = num_of n" "0 \<le> n" by (auto simp: as_int_Some_iff)
    note rel = releaseForRetry_holds [OF ok w(1) [folded r(1)] w(2,3) n(2), of now]
    show ?thesis
      using rel progress_settled [OF w(3)] w(1,3) r n(1) ReleaseForRetry
      by (cases "budget_exhausted r w") force+
  next
    case False
    have "\<exists>e. releaseForRetry repo now r d s = (Inl e, s)"
      by (rule releaseForRetry_refused) (use False r(1) in auto)
    then show ?thesis using ReleaseForRetry by auto
  qed
next
  case (MoveToDeadLetter r code)
  then have r: "rsv_jobId r = i" "rsv_attempt r = a" using assms(2) by auto
  show ?thesis
  proof (cases "\<exists>w c. dq_job repo s i = Some w \<and> isSupportedWorkerJob w \<and> holds r w \<and>
      createSafeDomainCode code ''DeadLetterReason.code'' = Inr c")
    case True
    then obtain w c where w: "dq_job repo s i = Some w" "isSupportedWorkerJob w" "holds r w"
        and c: "createSafeDomainCode code ''DeadLetterReason.code'' = Inr c" by blast
    from moveToDeadLetter_holds [OF ok w(1) [folded r(1)] w(2,3) c, of now]
      progress_settled(2) [OF w(3), of c]
    show ?thesis using w(1,3) r MoveToDeadLetter by force
  next
    case False
    have "snd (moveToDeadLetter repo now r code s) = s"
    proof (rule moveToDeadLetter_frame)
      fix w assume "dq_job repo s (rsv_jobId r) = Some w"
      then show "\<not> isSupportedWorkerJob w \<or> \<not> holds r w \<or>
          (\<exists>e. createSafeDomainCode code ''DeadLetterReason.code'' = Inl e)"
        using False r(1) by (cases "createSafeDomainCode code ''DeadLetterReason.code''") auto
    qed
    then show ?thesis using MoveToDeadLetter by simp
  qed
qed (use assms(2) in auto)

text \<open>Enqueueing either leaves the state or adds one job.\<close>

lemma enqueue_cases:
  assumes ok: "dq_ok repo inv s" and policy: "0 < rp_maxAttempts (qw_retryPolicy work)"
  shows "snd (enqueue repo now work s) = s \<or>
     (\<exists>key w. createIdempotencyKey (qw_idempotencyKey work) = Inr key \<and>
        jr_findByIdempotencyKey repo key (dq_repo s) = None \<and>
        dq_ok repo inv (snd (enqueue repo now work s)) \<and>
        dq_job repo (snd (enqueue repo now work s)) = (dq_job repo s)(qw_jobId work \<mapsto> w) \<and>
        visibleAtFor repo (snd (enqueue repo now work s)) =
          (visibleAtFor repo s)(qw_jobId work \<mapsto> now) \<and>
        (\<forall>k j. key_owner k (dq_repo s) = Some j \<longrightarrow> k \<noteq> key \<longrightarrow> j \<noteq> qw_jobId work \<longrightarrow>
           key_owner k (dq_repo (snd (enqueue repo now work s))) = Some j))"
proof (cases "createIdempotencyKey (qw_idempotencyKey work)")
  case (Inl e)
  then show ?thesis using enqueue_rejected by (metis snd_conv)
next
  case (Inr key)
  show ?thesis
  proof (cases "jr_findByIdempotencyKey repo key (dq_repo s)")
    case (Some w)
    then have "enqueue repo now work s = (Inr (receiptFor repo now w s), s)"
      by (simp add: enqueue_def Inr)
    then show ?thesis by simp
  next
    case None
    show ?thesis
    proof (cases "queueWorkerJob (qw_jobId work) (qw_ownerContext work)
      (queue_work_type_name (qw_workType work)) (qw_retryPolicy work) (qw_safeMetadata work)")
      case (Inl e)
      then have "snd (enqueue repo now work s) = s"
        by (cases e) (simp add: enqueue_def Inr None)
      then show ?thesis ..
    next
      case w: (Inr w)
      from enqueue_new [OF ok Inr None w policy, of now] Inr None show ?thesis by force
    qed
  qed
qed

section \<open>One step\<close>

lemma step_ok:
  assumes ok: "dq_ok repo inv s" and c: "command_ok c"
  shows "dq_ok repo inv (queue_step repo timeout c s)"
proof -
  obtain now cmd where nc: "c = (now, cmd)" by (cases c)
  have now: "0 \<le> now" using c nc by (cases cmd) auto
  show ?thesis
  proof (cases "settles cmd")
    case (Some ia)
    obtain i a where "ia = (i, a)" by (cases ia)
    then have "settles cmd = Some (i, a)" using Some by simp
    from settling_cases [OF ok this, of timeout now] ok show ?thesis
      unfolding nc by (auto simp: becomes_def)
  next
    case None
    then show ?thesis
    proof (cases cmd)
      case (Enqueue work)
      then show ?thesis using enqueue_cases [OF ok, of work now] c nc ok by auto
    next
      case (Reserve t)
      from reserve_effect [OF ok now, of timeout t] show ?thesis
        unfolding nc Reserve by auto
    next
      case RecoverVisible
      from recover_effect [OF ok now] show ?thesis
        unfolding nc RecoverVisible by (auto simp: recoverVisibleJobs_def)
    qed (use None in auto)
  qed
qed

lemma step_progress:
  assumes ok: "dq_ok repo inv s" and c: "command_ok c"
    and w: "dq_job repo s i = Some w" and fresh: "enqueues (snd c) \<noteq> Some i"
  shows "\<exists>w'. dq_job repo (queue_step repo timeout c s) i = Some w' \<and> progress w \<le> progress w' \<and>
     job_retryPolicy w' = job_retryPolicy w"
proof -
  obtain now cmd where nc: "c = (now, cmd)" by (cases c)
  have now: "0 \<le> now" using c nc by (cases cmd) auto
  note rec = recovered_job [OF ok w, of now]
  show ?thesis
  proof (cases "settles cmd")
    case (Some ja)
    obtain j a where "ja = (j, a)" by (cases ja)
    then have "settles cmd = Some (j, a)" using Some by simp
    from settling_cases [OF ok this, of timeout now] w show ?thesis
      unfolding nc by (cases "j = i") (auto simp: becomes_def)
  next
    case None
    then show ?thesis
    proof (cases cmd)
      case (Enqueue work)
      then have "qw_jobId work \<noteq> i" using fresh nc by simp
      then show ?thesis using enqueue_cases [OF ok, of work now] c nc w Enqueue by auto
    next
      case (Reserve t)
      from reserve_effect [OF ok now, of timeout t] rec show ?thesis
      proof (elim disjE exE conjE, goal_cases)
        case (1 u)
        then show ?thesis unfolding nc Reserve by auto
      next
        case (2 w' x r u)
        have id: "job_id x = i \<Longrightarrow> x = w'"
          using 2 by simp
        have "progress x \<le> progress (taken x)"
          using progress_taken [of x] 2 by (auto simp: reservable_def)
        then show ?thesis
          using 2 id unfolding nc Reserve by (cases "job_id x = i") auto
      qed
    next
      case RecoverVisible
      from recover_effect [OF ok now] rec show ?thesis
        unfolding nc RecoverVisible by (auto simp: recoverVisibleJobs_def)
    qed (use None in auto)
  qed
qed

text \<open>A lease in force is left alone by everything but its own settlement.\<close>

lemma step_lease:
  assumes ok: "dq_ok repo inv s" and c: "command_ok c"
    and w: "dq_job repo s i = Some w" "visibleAtFor repo s i = Some v" "fst c < v"
    and held: "job_status w = Job_reserved \<or> job_status w = Job_running"
      "job_attemptNumber w = Some a"
    and fresh: "enqueues (snd c) \<noteq> Some i" and other: "settles (snd c) \<noteq> Some (i, a)"
  shows "dq_job repo (queue_step repo timeout c s) i = Some w \<and>
     visibleAtFor repo (queue_step repo timeout c s) i = Some v"
proof -
  obtain now cmd where nc: "c = (now, cmd)" by (cases c)
  have now: "0 \<le> now" "now < v" using c w(3) nc by (cases cmd; auto)+
  note rec = recovered_lease [OF ok w(1,2) now(2)]
  show ?thesis
  proof (cases "settles cmd")
    case (Some ja)
    obtain j b where "ja = (j, b)" by (cases ja)
    then have st: "settles cmd = Some (j, b)" using Some by simp
    from settling_cases [OF ok st, of timeout now] show ?thesis
    proof (elim disjE exE conjE)
      assume "queue_step repo timeout (now, cmd) s = s"
      then show ?thesis using w nc by simp
    next
      fix x x' v' r
      assume x: "dq_job repo s j = Some x" "holds r x" "rsv_attempt r = b"
        "becomes repo inv key_owner s j x' v' (queue_step repo timeout (now, cmd) s)"
      have "j \<noteq> i"
      proof
        assume "j = i"
        then have "b = a" using x w(1) held(2) by (simp add: holds_def)
        then show False using other st \<open>j = i\<close> nc by simp
      qed
      then show ?thesis using x(4) w nc by (simp add: becomes_def)
    qed
  next
    case None
    then show ?thesis
    proof (cases cmd)
      case (Enqueue work)
      then have "qw_jobId work \<noteq> i" using fresh nc by simp
      then show ?thesis using enqueue_cases [OF ok, of work now] c nc w Enqueue by auto
    next
      case (Reserve t)
      from reserve_effect [OF ok now(1), of timeout t] show ?thesis
      proof (elim disjE exE conjE, goal_cases)
        case (1 u)
        then show ?thesis using rec unfolding nc Reserve by auto
      next
        case (2 x r u)
        have "job_id x \<noteq> i"
        proof
          assume "job_id x = i"
          then have "x = w" using 2 rec by simp
          then show False using 2 held(1) by (auto simp: reservable_def)
        qed
        then show ?thesis using 2 rec unfolding nc Reserve by auto
      qed
    next
      case RecoverVisible
      from recover_effect [OF ok now(1)] rec show ?thesis
        unfolding nc RecoverVisible by (auto simp: recoverVisibleJobs_def)
    qed (use None in auto)
  qed
qed

text \<open>A key stays bound to its job.\<close>

lemma step_key:
  assumes ok: "dq_ok repo inv s" and c: "command_ok c"
    and k: "key_owner k (dq_repo s) = Some i" "dq_job repo s i = Some w"
    and fresh: "enqueues (snd c) \<noteq> Some i"
  shows "key_owner k (dq_repo (queue_step repo timeout c s)) = Some i"
proof -
  obtain now cmd where nc: "c = (now, cmd)" by (cases c)
  have now: "0 \<le> now" using c nc by (cases cmd) auto
  show ?thesis
  proof (cases "settles cmd")
    case (Some ja)
    obtain j b where "ja = (j, b)" by (cases ja)
    then have "settles cmd = Some (j, b)" using Some by simp
    from settling_cases [OF ok this, of timeout now] k show ?thesis
      unfolding nc by (auto simp: becomes_def)
  next
    case None
    then show ?thesis
    proof (cases cmd)
      case (Enqueue work)
      have ne: "i \<noteq> qw_jobId work" using fresh nc Enqueue by simp
      have "jr_findByIdempotencyKey repo k (dq_repo s) = Some w"
        using find_key [OF dq_ok_inv [OF ok], of k] k by (simp add: dq_job_def)
      moreover have "x \<noteq> k" if "jr_findByIdempotencyKey repo x (dq_repo s) = None" for x
        using that calculation by auto
      ultimately show ?thesis
        using enqueue_cases [OF ok, of work now] c nc k ne Enqueue by (auto; blast)
    next
      case (Reserve t)
      from reserve_effect [OF ok now, of timeout t] k show ?thesis
        unfolding nc Reserve by auto
    next
      case RecoverVisible
      from recover_effect [OF ok now] k show ?thesis
        unfolding nc RecoverVisible by (auto simp: recoverVisibleJobs_def)
    qed (use None in auto)
  qed
qed

section \<open>Histories\<close>

lemma history_Cons_queue [simp]:
  "queue_history repo timeout [] s = s"
  "queue_history repo timeout (c # cs) s = queue_history repo timeout cs (queue_step repo timeout c s)"
  by (simp_all add: queue_history_def)

lemma history_ok:
  "dq_ok repo inv s \<Longrightarrow> list_all command_ok cs \<Longrightarrow> dq_ok repo inv (queue_history repo timeout cs s)"
  by (induction cs arbitrary: s) (simp_all add: step_ok)

lemma history_progress:
  assumes "dq_ok repo inv s" "list_all command_ok cs" "dq_job repo s i = Some w"
    and "\<forall>c \<in> set cs. enqueues (snd c) \<noteq> Some i"
  shows "\<exists>w'. dq_job repo (queue_history repo timeout cs s) i = Some w' \<and> progress w \<le> progress w' \<and>
     job_retryPolicy w' = job_retryPolicy w"
  using assms
proof (induction cs arbitrary: s w)
  case Nil
  then show ?case by simp
next
  case (Cons c cs)
  from step_progress [of s c i w timeout] Cons.prems obtain w1 where
    w1: "dq_job repo (queue_step repo timeout c s) i = Some w1" "progress w \<le> progress w1"
      "job_retryPolicy w1 = job_retryPolicy w" by auto
  have "dq_ok repo inv (queue_step repo timeout c s)" using step_ok Cons.prems by simp
  from Cons.IH [OF this _ w1(1)] Cons.prems w1(2,3) show ?case by force
qed

lemma history_lease:
  assumes "dq_ok repo inv s" "list_all command_ok cs"
    and "dq_job repo s i = Some w" "visibleAtFor repo s i = Some v"
    and "job_status w = Job_reserved \<or> job_status w = Job_running" "job_attemptNumber w = Some a"
    and "\<forall>c \<in> set cs. fst c < v \<and> enqueues (snd c) \<noteq> Some i \<and> settles (snd c) \<noteq> Some (i, a)"
  shows "dq_job repo (queue_history repo timeout cs s) i = Some w \<and>
     visibleAtFor repo (queue_history repo timeout cs s) i = Some v"
  using assms
proof (induction cs arbitrary: s)
  case Nil
  then show ?case by simp
next
  case (Cons c cs)
  have "dq_job repo (queue_step repo timeout c s) i = Some w \<and>
      visibleAtFor repo (queue_step repo timeout c s) i = Some v"
    using step_lease [of s c i w v a timeout] Cons.prems by auto
  then show ?case using Cons.IH [OF step_ok] Cons.prems by auto
qed

lemma history_key:
  assumes "dq_ok repo inv s" "list_all command_ok cs"
    and "key_owner k (dq_repo s) = Some i" "dq_job repo s i = Some w"
    and "\<forall>c \<in> set cs. enqueues (snd c) \<noteq> Some i"
  shows "key_owner k (dq_repo (queue_history repo timeout cs s)) = Some i \<and>
     dq_job repo (queue_history repo timeout cs s) i \<noteq> None"
  using assms
proof (induction cs arbitrary: s w)
  case Nil
  then show ?case by simp
next
  case (Cons c cs)
  have "key_owner k (dq_repo (queue_step repo timeout c s)) = Some i"
    using step_key [of s c k i w timeout] Cons.prems by auto
  moreover obtain w1 where "dq_job repo (queue_step repo timeout c s) i = Some w1"
    using step_progress [of s c i w timeout] Cons.prems by auto
  ultimately show ?case using Cons.IH [OF step_ok] Cons.prems by auto
qed

section \<open>What a reservation is worth\<close>

lemma reserve_result:
  assumes "dq_ok repo inv s" "0 \<le> now" "reserve repo timeout now t s = (Inr (Some r), u)"
  shows "dq_ok repo inv u \<and> visibleAtFor repo u (rsv_jobId r) = Some (now + timeout) \<and>
     (\<exists>w. queue_job w \<and> reservable (queue_work_type_name t) now
           (recovered_vis now (visibleAtFor repo s) (dq_job repo s)) w \<and>
        recovered_jobs now (visibleAtFor repo s) (dq_job repo s) (rsv_jobId r) = Some w \<and>
        dq_job repo u (rsv_jobId r) = Some (taken w) \<and> holds r (taken w) \<and>
        rsv_attempt r = nextReservationAttempt w)"
  using reserve_effect [OF assms(1,2), of timeout t] assms(3) by auto

lemma reserve_answers:
  assumes "dq_ok repo inv s" "0 \<le> now"
  shows "\<exists>a u. reserve repo timeout now t s = (Inr a, u) \<and>
     (a = None \<longleftrightarrow> (\<forall>i w. recovered_jobs now (visibleAtFor repo s) (dq_job repo s) i = Some w \<longrightarrow>
        \<not> reservable (queue_work_type_name t) now
            (recovered_vis now (visibleAtFor repo s) (dq_job repo s)) w))"
  using reserve_effect [OF assms, of timeout t] by blast

lemma reserve_keeps_hold:
  assumes ok: "dq_ok repo inv s" "0 \<le> now" and r: "reserve repo timeout now t s = (Inr (Some r), u)"
    and cs: "list_all command_ok cs"
      "\<forall>c \<in> set cs. fst c < now + timeout \<and> enqueues (snd c) \<noteq> Some (rsv_jobId r) \<and>
         settles (snd c) \<noteq> Some (rsv_jobId r, rsv_attempt r)"
  shows "dq_ok repo inv (queue_history repo timeout cs u) \<and>
     visibleAtFor repo (queue_history repo timeout cs u) (rsv_jobId r) = Some (now + timeout) \<and>
     (\<exists>w. dq_job repo (queue_history repo timeout cs u) (rsv_jobId r) = Some (taken w) \<and>
        holds r (taken w) \<and> isSupportedWorkerJob (taken w))"
proof -
  from reserve_result [OF ok r] obtain w where u: "dq_ok repo inv u"
      "visibleAtFor repo u (rsv_jobId r) = Some (now + timeout)"
      "dq_job repo u (rsv_jobId r) = Some (taken w)" "holds r (taken w)"
      "rsv_attempt r = nextReservationAttempt w" "job_workType w = queue_work_type_name t"
    by (auto simp: reservable_def)
  have at: "job_attemptNumber (taken w) = Some (rsv_attempt r)" using u(5) by simp
  have "isSupportedWorkerJob (taken w)"
    using u(6) by (auto simp: isSupportedWorkerJob_def isQueueWorkType_iff)
  then show ?thesis
    using history_lease [OF u(1) cs(1) u(3,2) _ at cs(2)] history_ok [OF u(1) cs(1)] u(4)
    by (intro conjI exI [of _ w]) simp_all
qed

lemma reserve_exclusive:
  assumes ok: "dq_ok repo inv s" "0 \<le> now" and r: "reserve repo timeout now t s = (Inr (Some r), u)"
    and cs: "list_all command_ok cs"
      "\<forall>c \<in> set cs. fst c < now + timeout \<and> enqueues (snd c) \<noteq> Some (rsv_jobId r) \<and>
         settles (snd c) \<noteq> Some (rsv_jobId r, rsv_attempt r)"
    and now': "0 \<le> now'" "now' < now + timeout"
    and r': "reserve repo timeout now' t' (queue_history repo timeout cs u) = (Inr (Some r'), u')"
  shows "rsv_jobId r' \<noteq> rsv_jobId r"
proof
  assume same: "rsv_jobId r' = rsv_jobId r"
  let ?h = "queue_history repo timeout cs u"
  from reserve_keeps_hold [OF ok r cs] obtain w where h: "dq_ok repo inv ?h"
      "visibleAtFor repo ?h (rsv_jobId r) = Some (now + timeout)"
      "dq_job repo ?h (rsv_jobId r) = Some (taken w)" by blast
  from reserve_result [OF h(1) now'(1) r'] obtain x where x:
      "reservable (queue_work_type_name t') now'
         (recovered_vis now' (visibleAtFor repo ?h) (dq_job repo ?h)) x"
      "recovered_jobs now' (visibleAtFor repo ?h) (dq_job repo ?h) (rsv_jobId r) = Some x"
    unfolding same by blast
  have "x = taken w" using recovered_lease(1) [OF h(1,3,2) now'(2)] x(2) by simp
  then show False using x(1) by (simp add: reservable_def)
qed

lemma reserve_then_acknowledge:
  assumes ok: "dq_ok repo inv s" "0 \<le> now" and r: "reserve repo timeout now t s = (Inr (Some r), u)"
    and cs: "list_all command_ok cs"
      "\<forall>c \<in> set cs. fst c < now + timeout \<and> enqueues (snd c) \<noteq> Some (rsv_jobId r) \<and>
         settles (snd c) \<noteq> Some (rsv_jobId r, rsv_attempt r)"
  shows "\<exists>rcpt v w. acknowledge repo now' r (queue_history repo timeout cs u) = (Inr rcpt, v) \<and>
     dq_job repo v (rsv_jobId r) = Some w \<and> job_status w = Job_completed \<and>
     acknowledge repo now'' r v = (Inr (receiptFor repo now'' w v), v)"
proof -
  let ?h = "queue_history repo timeout cs u"
  from reserve_keeps_hold [OF ok r cs] obtain w where h: "dq_ok repo inv ?h"
      "dq_job repo ?h (rsv_jobId r) = Some (taken w)" "holds r (taken w)"
      "isSupportedWorkerJob (taken w)" by blast
  from acknowledge_holds [OF h(1,2,4,3), of now'] obtain v where
    v: "acknowledge repo now' r ?h = (Inr (receiptFor repo now' (finished (taken w)) v), v)"
      "becomes repo inv key_owner ?h (rsv_jobId r) (finished (taken w)) None v" by blast
  have job: "dq_job repo v (rsv_jobId r) = Some (finished (taken w))"
    using v(2) by (simp add: becomes_def)
  have "isSupportedWorkerJob (finished (taken w))"
    using h(4) by (simp add: isSupportedWorkerJob_def finished_def)
  from acknowledge_completed [OF job this] v(1) job show ?thesis by simp
qed

lemma reserve_attempts_increase:
  assumes ok: "dq_ok repo inv s" "0 \<le> now" and r: "reserve repo timeout now t s = (Inr (Some r), u)"
    and cs: "list_all command_ok cs" "\<forall>c \<in> set cs. enqueues (snd c) \<noteq> Some (rsv_jobId r)"
    and now': "0 \<le> now'"
    and r': "reserve repo timeout now' t' (queue_history repo timeout cs u) = (Inr (Some r'), u')"
    and same: "rsv_jobId r' = rsv_jobId r"
  shows "rsv_attempt r < rsv_attempt r' \<and>
     (\<exists>w. dq_job repo u' (rsv_jobId r) = Some w \<and> rsv_attempt r' \<le> rp_maxAttempts (job_retryPolicy w))"
proof -
  let ?h = "queue_history repo timeout cs u"
  from reserve_result [OF ok r] obtain w where u: "dq_ok repo inv u" "queue_job w"
      "dq_job repo u (rsv_jobId r) = Some (taken w)" "rsv_attempt r = nextReservationAttempt w"
      "job_status w = Job_queued \<or> job_status w = Job_retrying"
    by (auto simp: reservable_def)
  have p1: "progress (taken w) = 2 * rsv_attempt r"
    using progress_taken [OF u(2,5)] u(4) by simp
  from history_progress [OF u(1) cs(1) u(3) cs(2)] obtain w1 where
    w1: "dq_job repo ?h (rsv_jobId r) = Some w1" "progress (taken w) \<le> progress w1" by blast
  note okh = history_ok [OF u(1) cs(1)]
  from recovered_job [OF okh w1(1), of now'] obtain w2 where
    w2: "recovered_jobs now' (visibleAtFor repo ?h) (dq_job repo ?h) (rsv_jobId r) = Some w2"
      "progress w1 \<le> progress w2" by blast
  from reserve_result [OF okh now' r'] same obtain x where
    x: "queue_job x" "recovered_jobs now' (visibleAtFor repo ?h) (dq_job repo ?h) (rsv_jobId r) = Some x"
      "dq_job repo u' (rsv_jobId r) = Some (taken x)" "rsv_attempt r' = nextReservationAttempt x"
      "job_status x = Job_queued \<or> job_status x = Job_retrying"
    by (auto simp: reservable_def)
  have "x = w2" using x(2) w2(1) by simp
  then have "2 * rsv_attempt r < 2 * rsv_attempt r'"
    using p1 w1(2) w2(2) progress_taken [OF x(1,5)] x(4) by simp
  moreover have "rsv_attempt r' \<le> rp_maxAttempts (job_retryPolicy (taken x))"
    using nextReservationAttempt_bounds [OF x(1,5)] x(4) by simp
  ultimately show ?thesis using x(3) by simp
qed

lemma enqueue_idempotent:
  assumes ok: "dq_ok repo inv s" and work: "0 < rp_maxAttempts (qw_retryPolicy work)"
    and first: "enqueue repo now work s = (Inr rcpt, u)"
    and cs: "list_all command_ok cs" "\<forall>c \<in> set cs. enqueues (snd c) \<noteq> Some (rec_jobId rcpt)"
    and again: "createIdempotencyKey (qw_idempotencyKey work') =
        createIdempotencyKey (qw_idempotencyKey work)"
  shows "\<exists>rcpt'. enqueue repo now' work' (queue_history repo timeout cs u) =
       (Inr rcpt', queue_history repo timeout cs u) \<and> rec_jobId rcpt' = rec_jobId rcpt"
proof -
  obtain key where key: "createIdempotencyKey (qw_idempotencyKey work) = Inr key"
    using first enqueue_rejected [of work _ now s]
    by (cases "createIdempotencyKey (qw_idempotencyKey work)") auto
  have "dq_ok repo inv u \<and> key_owner key (dq_repo u) = Some (rec_jobId rcpt) \<and>
      dq_job repo u (rec_jobId rcpt) \<noteq> None"
  proof (cases "jr_findByIdempotencyKey repo key (dq_repo s)")
    case (Some w)
    then obtain i where i: "key_owner key (dq_repo s) = Some i" "dq_job repo s i = Some w"
      using find_key [OF dq_ok_inv [OF ok], of key] by (auto simp: dq_job_def split: option.splits)
    from enqueue_known [OF key dq_ok_inv [OF ok] i, of now] first
    have "u = s" "rcpt = receiptFor repo now w s" by auto
    then show ?thesis using ok i dq_okD(2) [OF ok i(2)] by (simp add: receiptFor_def)
  next
    case None
    obtain w where w: "queueWorkerJob (qw_jobId work) (qw_ownerContext work)
      (queue_work_type_name (qw_workType work)) (qw_retryPolicy work) (qw_safeMetadata work) = Inr w"
    proof (cases "queueWorkerJob (qw_jobId work) (qw_ownerContext work)
      (queue_work_type_name (qw_workType work)) (qw_retryPolicy work) (qw_safeMetadata work)")
      case (Inl e)
      then show ?thesis using first by (cases e) (simp add: enqueue_def key None)
    qed blast
    from enqueue_new [OF ok key None w work, of now] first queueWorkerJob_fields(1) [OF w]
    show ?thesis by (auto simp: receiptFor_def)
  qed
  then have u: "dq_ok repo inv u" "key_owner key (dq_repo u) = Some (rec_jobId rcpt)"
      "dq_job repo u (rec_jobId rcpt) \<noteq> None" by blast+
  then obtain w where w: "dq_job repo u (rec_jobId rcpt) = Some w" by blast
  let ?h = "queue_history repo timeout cs u"
  from history_key [OF u(1) cs(1) u(2) w cs(2)] obtain x where
    h: "key_owner key (dq_repo ?h) = Some (rec_jobId rcpt)" "dq_job repo ?h (rec_jobId rcpt) = Some x"
    by blast
  note okh = history_ok [OF u(1) cs(1)]
  from enqueue_known [OF again [unfolded key] dq_ok_inv [OF okh] h, of now']
  show ?thesis using dq_okD(2) [OF okh h(2)] by (simp add: receiptFor_def)
qed

end

text \<open>The empty queue.\<close>

definition durable_empty :: "'r \<Rightarrow> 'r durable_queue" where
  "durable_empty r = \<lparr>dq_repo = r, dq_retryVisibleAt = (\<lambda>_. None)\<rparr>"

lemma durable_empty_ok:
  "dq_ok mem_repository mem_inv (durable_empty mem_empty)"
  "dq_ok (pg_repository le) pg_inv (durable_empty [])"
  by (simp_all add: dq_ok_def durable_empty_def dq_job_def mem_inv_def mem_empty_def
      mem_repository_def mem_load_def pg_methods pg_load_def pg_row_def pg_inv_def)

text \<open>The queue over each repository after a history, from the empty store.\<close>

definition durable_reached ::
    "(string \<Rightarrow> string \<Rightarrow> bool) \<Rightarrow> int \<Rightarrow> (int \<times> queue_command) list \<Rightarrow> job_table durable_queue" where
  "durable_reached le timeout cs =
     queue_history (pg_repository le) timeout cs (durable_empty [])"

definition durable_reached_mem :: "int \<Rightarrow> (int \<times> queue_command) list \<Rightarrow> mem_jobs durable_queue" where
  "durable_reached_mem timeout cs = queue_history mem_repository timeout cs (durable_empty mem_empty)"

lemma durable_reached_ok:
  "list_all command_ok cs \<Longrightarrow> dq_ok (pg_repository le) pg_inv (durable_reached le timeout cs)"
  unfolding durable_reached_def by (rule pg_repo.history_ok [OF durable_empty_ok(2)])

lemma durable_reached_mem_ok:
  "list_all command_ok cs \<Longrightarrow> dq_ok mem_repository mem_inv (durable_reached_mem timeout cs)"
  unfolding durable_reached_mem_def by (rule mem_repo.history_ok [OF durable_empty_ok(1)])

text \<open>The generic observations, on the PostgreSQL repository.\<close>

lemma pg_dq_job: "dq_job (pg_repository le) s i = pg_load i (dq_repo s)"
  by (simp add: dq_job_def pg_methods)

lemma pg_visibleAtFor: "visibleAtFor (pg_repository le) s i = pg_getWorkerJobVisibleAt i (dq_repo s)"
  by (simp add: visibleAtFor_def pg_methods pg_repository_def pg_atomic_def)

end
