(* ===== verification/ScenarioInputs.thy ===== *)
theory ScenarioInputs
  imports DurableQueueHistory
begin

text \<open>
  The history of queue operations the scenarios run: two outbound jobs with a budget of two
  attempts, or the first of them alone.
\<close>

definition demo_policy :: retry_policy where
  "demo_policy =
     \<lparr>rp_maxAttempts = 2, rp_initialDelayMilliseconds = 0, rp_backoffMultiplier = 1\<rparr>"

definition demo_work :: "string \<Rightarrow> string \<Rightarrow> queue_work" where
  "demo_work i k =
     \<lparr>qw_jobId = i, qw_ownerContext = Owner_messaging, qw_ownerRef = ''o'',
      qw_workType = Work_outbound_message, qw_retryPolicy = demo_policy, qw_idempotencyKey = k,
      qw_safeInputRef = None, qw_safeMetadata = None\<rparr>"

definition demo_le :: "string \<Rightarrow> string \<Rightarrow> bool" where
  "demo_le a b = True"

definition demo_one :: "(int \<times> queue_command) list" where
  "demo_one = [(0, Enqueue (demo_work ''j1'' ''k1''))]"

definition demo_history :: "(int \<times> queue_command) list" where
  "demo_history = [(0, Enqueue (demo_work ''j1'' ''k1'')), (0, Enqueue (demo_work ''j2'' ''k2''))]"

lemma demo_history_ok: "list_all command_ok demo_history"
  by code_simp

lemma demo_single_ok: "list_all command_ok demo_one"
  by code_simp

end
