(* ===== verification/Scenarios.thy ===== *)
theory Scenarios
  imports GroupAggregate ScenarioInputs
begin

text \<open>
  Concrete inputs the witnesses of the properties share: a two-job outbound queue over the
  PostgreSQL tables, its first reservations, and a group with an owner.  The lemmas are
  evaluations of the model on them.  The store's states hold functions, so an evaluation
  compares the answers of an operation and names the state after it.
\<close>

abbreviation demo_start :: "job_table durable_queue" where
  "demo_start \<equiv> durable_reached demo_le 30 []"

abbreviation demo_queue :: "job_table durable_queue" where
  "demo_queue \<equiv> durable_reached demo_le 30 demo_history"

abbreviation demo_single :: "job_table durable_queue" where
  "demo_single \<equiv> durable_reached demo_le 30 demo_one"

abbreviation demo_reserve ::
    "int \<Rightarrow> job_table durable_queue \<Rightarrow> reservation option port_result \<times> job_table durable_queue" where
  "demo_reserve now s \<equiv> reserve (pg_repository demo_le) 30 now Work_outbound_message s"

definition reserved_by :: "int \<Rightarrow> job_table durable_queue \<Rightarrow> reservation" where
  "reserved_by now s = the (projr (fst (demo_reserve now s)))"

abbreviation demo_enqueue :: "job_table durable_queue \<Rightarrow> receipt port_result \<times> job_table durable_queue" where
  "demo_enqueue s \<equiv> enqueue (pg_repository demo_le) 0 (demo_work ''j1'' ''k1'') s"

definition demo_stale :: reservation where
  "demo_stale =
     \<lparr>rsv_jobId = ''j1'', rsv_reservationRef = ''stale'', rsv_attempt = 1, rsv_ownerContext = None,
      rsv_ownerRef = None, rsv_workType = None, rsv_safeInputRef = None, rsv_safeMetadata = None\<rparr>"

definition demo_member :: group_member where
  "demo_member = \<lparr>mem_jid = ''2@s.whatsapp.net'', mem_role = Role_owner, mem_joinedAt = None\<rparr>"

definition demo_action :: group_action where
  "demo_action =
     \<lparr>act_id = ''a'', act_kind = Act_add_member, act_actorRef = ''u'', act_auditRequired = True,
      act_targetJid = None\<rparr>"

definition demo_owned_group :: "wa_group result" where
  "demo_owned_group =
     createGroup ''g'' ''i'' ''1@g.us'' \<lparr>gmd_subject = ''s'', gmd_description = None\<rparr>
       (Some [demo_member])"

definition demo_group :: wa_group where
  "demo_group =
     projr (result_bind
       (createGroup ''g'' ''i'' ''1@g.us'' \<lparr>gmd_subject = ''s'', gmd_description = None\<rparr> None)
       activateGroup)"

lemma demo_answers:
  "fst (demo_reserve 10 demo_queue) = Inr (Some (reserved_by 10 demo_queue))"
  "fst (demo_reserve 20 (snd (demo_reserve 10 demo_queue))) =
     Inr (Some (reserved_by 20 (snd (demo_reserve 10 demo_queue))))"
  "fst (demo_reserve 10 demo_single) = Inr (Some (reserved_by 10 demo_single))"
  "fst (demo_reserve 50 (snd (demo_reserve 10 demo_single))) =
     Inr (Some (reserved_by 50 (snd (demo_reserve 10 demo_single))))"
  "fst (demo_enqueue demo_start) =
     Inr \<lparr>rec_jobId = ''j1'', rec_visible = True, rec_queueRef = ''outbound_message:j1''\<rparr>"
  by code_simp+

lemma demo_stale_job:
  "\<exists>w. pg_load (rsv_jobId demo_stale) (dq_repo demo_single) = Some w \<and>
     isSupportedWorkerJob w \<and> \<not> holds demo_stale w"
proof -
  have "case pg_load (rsv_jobId demo_stale) (dq_repo demo_single) of None \<Rightarrow> False
      | Some w \<Rightarrow> isSupportedWorkerJob w \<and> \<not> holds demo_stale w"
    by code_simp
  then show ?thesis by (simp split: option.splits)
qed

lemma demo_first:
  "demo_reserve 10 demo_queue =
     (Inr (Some (reserved_by 10 demo_queue)), snd (demo_reserve 10 demo_queue))"
  by (rule prod_eqI) (simp_all add: demo_answers queue_history_def)

lemma demo_second:
  "demo_reserve 20 (queue_history (pg_repository demo_le) 30 [] (snd (demo_reserve 10 demo_queue))) =
     (Inr (Some (reserved_by 20 (snd (demo_reserve 10 demo_queue)))),
      snd (demo_reserve 20 (snd (demo_reserve 10 demo_queue))))"
  by (rule prod_eqI) (simp_all add: demo_answers queue_history_def)

lemma demo_single_first:
  "demo_reserve 10 demo_single =
     (Inr (Some (reserved_by 10 demo_single)), snd (demo_reserve 10 demo_single))"
  by (rule prod_eqI) (simp_all add: demo_answers queue_history_def)

lemma demo_single_again:
  "demo_reserve 50 (queue_history (pg_repository demo_le) 30 [] (snd (demo_reserve 10 demo_single))) =
     (Inr (Some (reserved_by 50 (snd (demo_reserve 10 demo_single)))),
      snd (demo_reserve 50 (snd (demo_reserve 10 demo_single))))"
  by (rule prod_eqI) (simp_all add: demo_answers queue_history_def)

lemma demo_single_same:
  "rsv_jobId (reserved_by 50 (snd (demo_reserve 10 demo_single))) =
     rsv_jobId (reserved_by 10 demo_single)"
  by code_simp

lemma demo_accepted:
  "demo_enqueue demo_start =
     (Inr \<lparr>rec_jobId = ''j1'', rec_visible = True, rec_queueRef = ''outbound_message:j1''\<rparr>,
      snd (demo_enqueue demo_start))"
  by (rule prod_eqI) (simp_all add: demo_answers queue_history_def)

end
