(* ===== verification/InMemoryQueue.thy ===== *)
theory InMemoryQueue
  imports DurableQueue "HOL-Library.AList"
begin

text \<open>
  \<open>packages/infrastructure-queue/src/in-memory-queue-provider.ts\<close>: the provider that keeps an
  entry per job beside the repository.  The names of \<open>durable-worker-job-queue-provider.ts\<close> come
  back with the suffix \<open>_mq\<close>.  \<open>entries\<close>, a JavaScript \<open>Map\<close>, is an association list in
  insertion order, and \<open>Map.set\<close> is \<open>AList.update\<close>; an entry is mutated by storing it anew.
  Metrics are write-only and left out.
\<close>

section \<open>State\<close>

datatype queue_entry_state = Entry_available | Entry_reserved | Entry_completed | Entry_dead

text \<open>A visibility time, or \<open>Number.POSITIVE_INFINITY\<close>.\<close>

datatype visible_at = At int | Never

fun visible_by :: "visible_at \<Rightarrow> int \<Rightarrow> bool" where
  "visible_by (At t) now \<longleftrightarrow> t \<le> now"
| "visible_by Never now \<longleftrightarrow> False"

record queue_entry =
  qe_work :: queue_work
  qe_visibleAt :: visible_at
  qe_attempt :: int
  qe_state :: queue_entry_state
  qe_reservationRef :: "string option"
  qe_deadLetterReasonCode :: "string option"

record 'r memory_queue =
  mq_repo :: 'r
  mq_entries :: "(identity \<times> queue_entry) list"
  mq_jobIdByIdempotencyKey :: "string \<Rightarrow> identity option"

definition mq_entry :: "'r memory_queue \<Rightarrow> identity \<Rightarrow> queue_entry option" where
  "mq_entry s i = map_of (mq_entries s) i"

definition set_entry :: "identity \<Rightarrow> queue_entry \<Rightarrow> 'r memory_queue \<Rightarrow> 'r memory_queue" where
  "set_entry i e s = s\<lparr>mq_entries := AList.update i e (mq_entries s)\<rparr>"

definition save_job ::
    "'r job_repository \<Rightarrow> worker_job \<Rightarrow> ('r memory_queue, unit) action" where
  "save_job repo w s = (Inr (), s\<lparr>mq_repo := jr_save repo w (mq_repo s)\<rparr>)"

definition record_key ::
    "'r job_repository \<Rightarrow> string \<Rightarrow> identity \<Rightarrow> ('r memory_queue, unit) action" where
  "record_key repo key i s =
     (case jr_recordIdempotencyKey repo key i (mq_repo s) of
        Inl e \<Rightarrow> (Inl e, s)
      | Inr r \<Rightarrow> (Inr (), s\<lparr>mq_repo := r\<rparr>))"

definition know_key :: "string \<Rightarrow> identity \<Rightarrow> 'r memory_queue \<Rightarrow> 'r memory_queue" where
  "know_key key i s =
     s\<lparr>mq_jobIdByIdempotencyKey := (mq_jobIdByIdempotencyKey s)(key \<mapsto> i)\<rparr>"

section \<open>Helpers\<close>

definition toApplicationPortFailure_mq :: "queue_error \<Rightarrow> port_failure" where
  "toApplicationPortFailure_mq e =
     (case e of
        Provider_error code message retryable category \<Rightarrow>
          createApplicationPortFailure
            \<lparr>pf_category = if retryable then Port_unavailable else Port_conflict,
             pf_code = code, pf_message = message, pf_retryable = retryable,
             pf_ownerContext = Some Owner_operations, pf_failureCategory = Some category,
             pf_safeMetadata = None\<rparr>
      | Rejected message \<Rightarrow>
          createApplicationPortFailure
            \<lparr>pf_category = Port_rejected, pf_code = ''queue_request_rejected'',
             pf_message = message, pf_retryable = False,
             pf_ownerContext = Some Owner_operations, pf_failureCategory = Some Fail_queue,
             pf_safeMetadata = None\<rparr>
      | Unexpected \<Rightarrow>
          createApplicationPortFailure
            \<lparr>pf_category = Port_unknown, pf_code = ''queue_provider_unexpected_failure'',
             pf_message = ''Queue provider failed unexpectedly.'', pf_retryable = True,
             pf_ownerContext = Some Owner_operations, pf_failureCategory = Some Fail_unexpected,
             pf_safeMetadata = None\<rparr>)"

definition queueStateForWorkerJob :: "worker_job \<Rightarrow> queue_entry_state" where
  "queueStateForWorkerJob w =
     (case job_status w of
        Job_queued \<Rightarrow> Entry_available
      | Job_retrying \<Rightarrow> Entry_available
      | Job_reserved \<Rightarrow> Entry_reserved
      | Job_running \<Rightarrow> Entry_reserved
      | Job_completed \<Rightarrow> Entry_completed
      | Job_dead \<Rightarrow> Entry_dead)"

definition isEntryVisible :: "int \<Rightarrow> queue_entry \<Rightarrow> bool" where
  "isEntryVisible now e \<longleftrightarrow>
     qe_state e = Entry_dead \<or>
     (qe_state e = Entry_available \<or> qe_state e = Entry_reserved) \<and> visible_by (qe_visibleAt e) now"

definition entry_work_type :: "'r memory_queue \<Rightarrow> identity \<Rightarrow> string" where
  "entry_work_type s i =
     (case mq_entry s i of None \<Rightarrow> ''unknown'' | Some e \<Rightarrow> queue_work_type_name (qw_workType (qe_work e)))"

definition queueRefFor_mq :: "'r memory_queue \<Rightarrow> identity \<Rightarrow> string" where
  "queueRefFor_mq s i = entry_work_type s i @ '':'' @ i"

definition reservationRefFor_mq :: "'r memory_queue \<Rightarrow> identity \<Rightarrow> int \<Rightarrow> string" where
  "reservationRefFor_mq s i attempt =
     entry_work_type s i @ '':'' @ i @ '':attempt:'' @ show_int attempt"

definition receiptFor_mq :: "int \<Rightarrow> identity \<Rightarrow> ('r memory_queue, receipt) action" where
  "receiptFor_mq now i s =
     (case mq_entry s i of
        None \<Rightarrow> act_throw (Provider_error ''queue_entry_missing'' ''Queue entry is missing.''
                  False Fail_queue) s
      | Some e \<Rightarrow> act_return \<lparr>rec_jobId = i, rec_visible = isEntryVisible now e,
                              rec_queueRef = queueRefFor_mq s i\<rparr> s)"

definition loadWorkerJob_mq ::
    "'r job_repository \<Rightarrow> identity \<Rightarrow> ('r memory_queue, worker_job) action" where
  "loadWorkerJob_mq repo i s =
     (case jr_load repo i (mq_repo s) of
        None \<Rightarrow> act_throw (Provider_error ''worker_job_missing'' ''WorkerJob is missing.'' False Fail_queue) s
      | Some w \<Rightarrow> act_return w s)"

definition findReservableEntry ::
    "int \<Rightarrow> queue_work_type \<Rightarrow> 'r memory_queue \<Rightarrow> (identity \<times> queue_entry) option" where
  "findReservableEntry now workType s =
     List.find
       (\<lambda>(i, e). qw_workType (qe_work e) = workType \<and> qe_state e = Entry_available \<and>
                 visible_by (qe_visibleAt e) now)
       (mq_entries s)"

definition resolveReservation :: "reservation \<Rightarrow> ('r memory_queue, queue_entry) action" where
  "resolveReservation r s =
     (case mq_entry s (rsv_jobId r) of
        None \<Rightarrow> act_throw (Provider_error ''unknown_reservation'' ''Queue reservation is unknown.''
                  False Fail_queue) s
      | Some e \<Rightarrow>
          if qe_reservationRef e \<noteq> Some (rsv_reservationRef r)
          then act_throw (Provider_error ''stale_reservation'' ''Queue reservation is stale.''
                 False Fail_queue) s
          else act_return e s)"

definition assertReserved :: "queue_entry \<Rightarrow> reservation \<Rightarrow> queue_error + unit" where
  "assertReserved e r =
     (if qe_state e \<noteq> Entry_reserved
      then Inl (Provider_error ''reservation_not_active'' ''Queue reservation is not active.''
                  False Fail_worker)
      else if qe_attempt e \<noteq> rsv_attempt r
      then Inl (Provider_error ''reservation_attempt_mismatch''
                  ''Queue reservation attempt does not match visible queue state.'' False Fail_worker)
      else Inr ())"

text \<open>The existing job of a key: what the repository knows, else what this provider knows.\<close>

definition findExistingJob ::
    "'r job_repository \<Rightarrow> string \<Rightarrow> ('r memory_queue, worker_job option) action" where
  "findExistingJob repo key s =
     (case jr_findByIdempotencyKey repo key (mq_repo s) of
        Some w \<Rightarrow> (Inr (Some w), know_key key (job_id w) s)
      | None \<Rightarrow>
          (case mq_jobIdByIdempotencyKey s key of
             None \<Rightarrow> (Inr None, s)
           | Some i \<Rightarrow> (Inr (jr_load repo i (mq_repo s)), s)))"

definition ensureQueueEntry :: "int \<Rightarrow> queue_work \<Rightarrow> worker_job \<Rightarrow> ('r memory_queue, unit) action" where
  "ensureQueueEntry now work w s =
     (if mq_entry s (job_id w) \<noteq> None then act_return () s
      else
        let state = queueStateForWorkerJob w;
            metadata = job_safeMetadata w
        in act_bind (act_try (toQueueWorkType (job_workType w))) (\<lambda>t.
           act_modify (set_entry (job_id w)
             \<lparr>qe_work =
                work\<lparr>qw_jobId := job_id w, qw_ownerContext := job_ownerContext w,
                     qw_ownerRef :=
                       value_or (Option.bind metadata sm_messageId) (qw_ownerRef work),
                     qw_workType := t, qw_retryPolicy := job_retryPolicy w,
                     qw_safeInputRef :=
                       nullish (Option.bind metadata sm_outboundIntentRef) (qw_safeInputRef work),
                     qw_safeMetadata := nullish metadata (qw_safeMetadata work)\<rparr>,
              qe_visibleAt = (if state = Entry_completed then Never else At now),
              qe_attempt = value_or (job_attemptNumber w) 0, qe_state = state,
              qe_reservationRef = None, qe_deadLetterReasonCode = None\<rparr>)) s)"

section \<open>Expired reservations\<close>

text \<open>One round of the loop body for an entry whose lease is over.\<close>

definition recoverExpiredEntry ::
    "'r job_repository \<Rightarrow> int \<Rightarrow> identity \<Rightarrow> queue_entry \<Rightarrow> ('r memory_queue, unit) action" where
  "recoverExpiredEntry repo now i e =
     act_bind (loadWorkerJob_mq repo (qw_jobId (qe_work e))) (\<lambda>w.
     if job_status w = Job_completed \<or> job_status w = Job_dead
     then act_modify (set_entry i (e\<lparr>qe_state := queueStateForWorkerJob w, qe_reservationRef := None\<rparr>))
     else let nextAttempt = qe_attempt e + 1
       in if rp_maxAttempts (job_retryPolicy w) < nextAttempt
          then
            act_bind (act_lift (result_bind
              (createDeadLetterReason ''lease_expired_retry_budget_exhausted'' ''queue'')
              (markWorkerJobDead w))) (\<lambda>dead.
            act_bind (save_job repo dead) (\<lambda>_.
            act_modify (set_entry i
              (e\<lparr>qe_state := Entry_dead,
                 qe_deadLetterReasonCode := Some ''lease_expired_retry_budget_exhausted'',
                 qe_visibleAt := At now, qe_reservationRef := None\<rparr>))))
          else
            act_bind (act_lift (result_bind
              (createAttemptNumber (num_of nextAttempt) (Some (job_retryPolicy w)))
              (\<lambda>n. result_bind (createFailureCategory ''queue'') (retryWorkerJob w n)))) (\<lambda>retrying.
            act_bind (save_job repo retrying) (\<lambda>_.
            act_modify (set_entry i
              (e\<lparr>qe_state := Entry_available, qe_visibleAt := At now, qe_reservationRef := None\<rparr>)))))"

text \<open>The loop visits the entries in the map's order; a throw ends it and keeps what is done.\<close>

fun recoverEntries ::
    "'r job_repository \<Rightarrow> int \<Rightarrow> identity list \<Rightarrow> int \<Rightarrow> ('r memory_queue, int) action" where
  "recoverEntries repo now [] recovered s = act_return recovered s"
| "recoverEntries repo now (i # is) recovered s =
     (case mq_entry s i of
        None \<Rightarrow> recoverEntries repo now is recovered s
      | Some e \<Rightarrow>
          if qe_state e \<noteq> Entry_reserved \<or> \<not> visible_by (qe_visibleAt e) now
          then recoverEntries repo now is recovered s
          else act_bind (recoverExpiredEntry repo now i e)
                 (\<lambda>_. recoverEntries repo now is (recovered + 1)) s)"

definition recoverExpiredReservations ::
    "'r job_repository \<Rightarrow> int \<Rightarrow> ('r memory_queue, int) action" where
  "recoverExpiredReservations repo now s = recoverEntries repo now (map fst (mq_entries s)) 0 s"

section \<open>The port's operations\<close>

definition enqueue_mq ::
    "'r job_repository \<Rightarrow> int \<Rightarrow> queue_work \<Rightarrow> 'r memory_queue \<Rightarrow>
     receipt port_result \<times> 'r memory_queue" where
  "enqueue_mq repo now work =
     capturePortFailure toApplicationPortFailure_mq
       (act_bind (act_lift (createIdempotencyKey (qw_idempotencyKey work))) (\<lambda>key.
        act_bind (findExistingJob repo key) (\<lambda>existing.
        case existing of
          Some w \<Rightarrow> act_bind (ensureQueueEntry now work w) (\<lambda>_. receiptFor_mq now (job_id w))
        | None \<Rightarrow>
            act_bind (act_lift (queueWorkerJob (qw_jobId work) (qw_ownerContext work)
              (queue_work_type_name (qw_workType work)) (qw_retryPolicy work)
              (qw_safeMetadata work))) (\<lambda>w.
            act_bind (save_job repo w) (\<lambda>_.
            act_bind (record_key repo key (qw_jobId work)) (\<lambda>_.
            act_bind (act_modify (know_key key (qw_jobId work))) (\<lambda>_.
            act_bind (act_modify (set_entry (qw_jobId work)
              \<lparr>qe_work = work, qe_visibleAt = At now, qe_attempt = 0, qe_state = Entry_available,
               qe_reservationRef = None, qe_deadLetterReasonCode = None\<rparr>)) (\<lambda>_.
            receiptFor_mq now (qw_jobId work)))))))))"

definition reserve_mq ::
    "'r job_repository \<Rightarrow> int \<Rightarrow> int \<Rightarrow> queue_work_type \<Rightarrow> 'r memory_queue \<Rightarrow>
     reservation option port_result \<times> 'r memory_queue" where
  "reserve_mq repo timeout now workType =
     capturePortFailure toApplicationPortFailure_mq
       (act_bind (recoverExpiredReservations repo now) (\<lambda>_.
        act_bind (act_get (findReservableEntry now workType)) (\<lambda>found.
        case found of
          None \<Rightarrow> act_return None
        | Some (i, e) \<Rightarrow>
            act_bind (loadWorkerJob_mq repo (qw_jobId (qe_work e))) (\<lambda>w.
            let attempt = qe_attempt e + 1
            in act_bind (act_lift (result_bind
                 (createAttemptNumber (num_of attempt) (Some (job_retryPolicy w)))
                 (reserveWorkerJob w))) (\<lambda>reserved.
               act_bind (act_get (\<lambda>s. reservationRefFor_mq s (qw_jobId (qe_work e)) attempt)) (\<lambda>ref.
               act_bind (save_job repo reserved) (\<lambda>_.
               act_bind (act_modify (set_entry i
                 (e\<lparr>qe_attempt := attempt, qe_state := Entry_reserved,
                    qe_reservationRef := Some ref, qe_visibleAt := At (now + timeout)\<rparr>))) (\<lambda>_.
               act_return (Some
                 \<lparr>rsv_jobId = qw_jobId (qe_work e), rsv_reservationRef = ref, rsv_attempt = attempt,
                  rsv_ownerContext = Some (qw_ownerContext (qe_work e)),
                  rsv_ownerRef = Some (qw_ownerRef (qe_work e)),
                  rsv_workType = Some (qw_workType (qe_work e)),
                  rsv_safeInputRef = qw_safeInputRef (qe_work e),
                  rsv_safeMetadata = qw_safeMetadata (qe_work e)\<rparr>)))))))))"

definition acknowledge_mq ::
    "'r job_repository \<Rightarrow> int \<Rightarrow> reservation \<Rightarrow> 'r memory_queue \<Rightarrow>
     receipt port_result \<times> 'r memory_queue" where
  "acknowledge_mq repo now r =
     capturePortFailure toApplicationPortFailure_mq
       (act_bind (resolveReservation r) (\<lambda>e.
        if qe_state e = Entry_completed then receiptFor_mq now (rsv_jobId r)
        else
          act_bind (act_try (assertReserved e r)) (\<lambda>_.
          act_bind (loadWorkerJob_mq repo (rsv_jobId r)) (\<lambda>w.
          act_bind
            (act_lift (if job_status w = Job_running then completeWorkerJob w
                       else result_bind (startWorkerJob w) completeWorkerJob)) (\<lambda>completed.
          act_bind (save_job repo completed) (\<lambda>_.
          act_bind (act_modify (set_entry (rsv_jobId r)
            (e\<lparr>qe_state := Entry_completed, qe_visibleAt := Never\<rparr>))) (\<lambda>_.
          receiptFor_mq now (rsv_jobId r))))))))"

definition releaseForRetry_mq ::
    "'r job_repository \<Rightarrow> int \<Rightarrow> reservation \<Rightarrow> jsnum \<Rightarrow> 'r memory_queue \<Rightarrow>
     receipt port_result \<times> 'r memory_queue" where
  "releaseForRetry_mq repo now r delayMilliseconds =
     capturePortFailure toApplicationPortFailure_mq
       (act_bind (act_lift (assertNonNegativeInteger delayMilliseconds ''delayMilliseconds'')) (\<lambda>delay.
        act_bind (resolveReservation r) (\<lambda>e.
        act_bind (act_try (assertReserved e r)) (\<lambda>_.
        act_bind (loadWorkerJob_mq repo (rsv_jobId r)) (\<lambda>w.
        act_bind (act_lift (result_bind
          (createAttemptNumber (num_of (rsv_attempt r + 1)) (Some (job_retryPolicy w)))
          (\<lambda>n. result_bind (createFailureCategory ''queue'') (retryWorkerJob w n)))) (\<lambda>retrying.
        act_bind (save_job repo retrying) (\<lambda>_.
        act_bind (act_modify (set_entry (rsv_jobId r)
          (e\<lparr>qe_state := Entry_available, qe_visibleAt := At (now + delay),
             qe_attempt := rsv_attempt r, qe_reservationRef := None\<rparr>))) (\<lambda>_.
        receiptFor_mq now (rsv_jobId r)))))))))"

definition moveToDeadLetter_mq ::
    "'r job_repository \<Rightarrow> int \<Rightarrow> reservation \<Rightarrow> string \<Rightarrow> 'r memory_queue \<Rightarrow>
     receipt port_result \<times> 'r memory_queue" where
  "moveToDeadLetter_mq repo now r reasonCode =
     capturePortFailure toApplicationPortFailure_mq
       (act_bind (resolveReservation r) (\<lambda>e.
        if qe_state e = Entry_dead then receiptFor_mq now (rsv_jobId r)
        else
          act_bind (act_try (assertReserved e r)) (\<lambda>_.
          act_bind (loadWorkerJob_mq repo (rsv_jobId r)) (\<lambda>w.
          act_bind (act_lift (result_bind (createDeadLetterReason reasonCode ''queue'')
            (markWorkerJobDead w))) (\<lambda>dead.
          act_bind (save_job repo dead) (\<lambda>_.
          act_bind (act_modify (set_entry (rsv_jobId r)
            (e\<lparr>qe_state := Entry_dead, qe_deadLetterReasonCode := Some reasonCode,
               qe_visibleAt := At now\<rparr>))) (\<lambda>_.
          receiptFor_mq now (rsv_jobId r))))))))"

text \<open>Jobs of the repository that have no entry get one.\<close>

definition adopted_entry :: "int \<Rightarrow> worker_job \<Rightarrow> queue_work_type \<Rightarrow> queue_entry" where
  "adopted_entry now w t =
     \<lparr>qe_work =
        \<lparr>qw_jobId = job_id w, qw_ownerContext = job_ownerContext w,
         qw_ownerRef = value_or (Option.bind (job_safeMetadata w) sm_messageId) (job_id w),
         qw_workType = t, qw_retryPolicy = job_retryPolicy w, qw_idempotencyKey = job_id w,
         qw_safeInputRef = Option.bind (job_safeMetadata w) sm_outboundIntentRef,
         qw_safeMetadata = job_safeMetadata w\<rparr>,
      qe_visibleAt = At now, qe_attempt = value_or (job_attemptNumber w) 0,
      qe_state = Entry_available, qe_reservationRef = None, qe_deadLetterReasonCode = None\<rparr>"

fun adoptJobs :: "int \<Rightarrow> worker_job list \<Rightarrow> int \<Rightarrow> ('r memory_queue, int) action" where
  "adoptJobs now [] recovered s = act_return recovered s"
| "adoptJobs now (w # ws) recovered s =
     (case narrow queue_work_type_name queueWorkTypes (job_workType w) of
        None \<Rightarrow> adoptJobs now ws recovered s
      | Some t \<Rightarrow>
          if mq_entry s (job_id w) \<noteq> None then adoptJobs now ws recovered s
          else adoptJobs now ws (recovered + 1) (set_entry (job_id w) (adopted_entry now w t) s))"

definition recoverVisibleJobs_mq ::
    "'r job_repository \<Rightarrow> int \<Rightarrow> ('r memory_queue, int) action" where
  "recoverVisibleJobs_mq repo now =
     act_bind (recoverExpiredReservations repo now) (\<lambda>recovered.
     act_bind (act_get (\<lambda>s. jr_findByStatus repo Job_queued (mq_repo s) @
                           jr_findByStatus repo Job_retrying (mq_repo s))) (\<lambda>visibleJobs.
     adoptJobs now visibleJobs recovered))"

record memory_snapshot =
  msn_jobId :: identity
  msn_workType :: queue_work_type
  msn_ownerRef :: string
  msn_state :: queue_entry_state
  msn_attempt :: int
  msn_visible :: bool
  msn_queueRef :: string
  msn_visibleAt :: visible_at
  msn_safeInputRef :: "string option"
  msn_safeMetadata :: "safe_metadata option"
  msn_reservationRef :: "string option"
  msn_deadLetterReasonCode :: "string option"

definition snapshot_mq :: "int \<Rightarrow> 'r memory_queue \<Rightarrow> memory_snapshot list" where
  "snapshot_mq now s =
     map (\<lambda>(i, e).
       \<lparr>msn_jobId = qw_jobId (qe_work e), msn_workType = qw_workType (qe_work e),
        msn_ownerRef = qw_ownerRef (qe_work e), msn_state = qe_state e,
        msn_attempt = qe_attempt e, msn_visible = isEntryVisible now e,
        msn_queueRef = queueRefFor_mq s (qw_jobId (qe_work e)), msn_visibleAt = qe_visibleAt e,
        msn_safeInputRef = qw_safeInputRef (qe_work e),
        msn_safeMetadata = qw_safeMetadata (qe_work e),
        msn_reservationRef = qe_reservationRef e,
        msn_deadLetterReasonCode = qe_deadLetterReasonCode e\<rparr>)
       (mq_entries s)"

end
