(* ===== verification/InMemoryQueueLaws.thy ===== *)
theory InMemoryQueueLaws
  imports InMemoryQueue DurableQueueHistory
begin

text \<open>
  What the in-memory queue provider promises when it starts with an empty store: every entry
  mirrors the stored job, so no reservation fails, a lease is exclusive and attempts only grow.
\<close>

section \<open>Entries that mirror the stored jobs\<close>

definition mirrors :: "identity \<Rightarrow> queue_entry \<Rightarrow> worker_job \<Rightarrow> bool" where
  "mirrors i e w \<longleftrightarrow>
     qw_jobId (qe_work e) = i \<and> job_workType w = queue_work_type_name (qw_workType (qe_work e)) \<and>
     (case qe_state e of
        Entry_available \<Rightarrow>
          (job_status w = Job_queued \<or> job_status w = Job_retrying) \<and>
          nextReservationAttempt w = qe_attempt e + 1
      | Entry_reserved \<Rightarrow>
          job_status w = Job_reserved \<and> job_attemptNumber w = Some (qe_attempt e) \<and>
          qe_reservationRef e = Some (reservationRefFor w (qe_attempt e))
      | Entry_completed \<Rightarrow> job_status w = Job_completed
      | Entry_dead \<Rightarrow> job_status w = Job_dead)"

definition mq_job :: "'r job_repository \<Rightarrow> 'r memory_queue \<Rightarrow> identity \<Rightarrow> worker_job option" where
  "mq_job repo s i = jr_load repo i (mq_repo s)"

definition mq_ok :: "'r job_repository \<Rightarrow> ('r \<Rightarrow> bool) \<Rightarrow> 'r memory_queue \<Rightarrow> bool" where
  "mq_ok repo good s \<longleftrightarrow>
     good (mq_repo s) \<and> distinct (map fst (mq_entries s)) \<and>
     (\<forall>i w. mq_job repo s i = Some w \<longrightarrow> queue_job w) \<and>
     (\<forall>i. mq_job repo s i = None \<longleftrightarrow> mq_entry s i = None) \<and>
     (\<forall>i e w. mq_entry s i = Some e \<longrightarrow> mq_job repo s i = Some w \<longrightarrow> mirrors i e w) \<and>
     (\<forall>k i. mq_jobIdByIdempotencyKey s k = Some i \<longrightarrow> mq_entry s i \<noteq> None)"

text \<open>Storing a job and its entry together, which every operation amounts to.\<close>

definition put_both ::
    "'r job_repository \<Rightarrow> worker_job \<Rightarrow> queue_entry \<Rightarrow> 'r memory_queue \<Rightarrow> 'r memory_queue" where
  "put_both repo w e s =
     set_entry (job_id w) e (s\<lparr>mq_repo := jr_save repo w (mq_repo s)\<rparr>)"

definition lease_over :: "int \<Rightarrow> queue_entry \<Rightarrow> bool" where
  "lease_over now e \<longleftrightarrow> qe_state e = Entry_reserved \<and> visible_by (qe_visibleAt e) now"

definition recovered_entry :: "int \<Rightarrow> worker_job \<Rightarrow> queue_entry \<Rightarrow> queue_entry" where
  "recovered_entry now w e =
     (if rp_maxAttempts (job_retryPolicy w) < qe_attempt e + 1
      then e\<lparr>qe_state := Entry_dead,
             qe_deadLetterReasonCode := Some ''lease_expired_retry_budget_exhausted'',
             qe_visibleAt := At now, qe_reservationRef := None\<rparr>
      else e\<lparr>qe_state := Entry_available, qe_visibleAt := At now, qe_reservationRef := None\<rparr>)"

definition taken_entry :: "int \<Rightarrow> worker_job \<Rightarrow> queue_entry \<Rightarrow> queue_entry" where
  "taken_entry until w e =
     e\<lparr>qe_attempt := qe_attempt e + 1, qe_state := Entry_reserved,
       qe_reservationRef := Some (reservationRefFor w (qe_attempt e + 1)), qe_visibleAt := At until\<rparr>"

definition entry_reservation :: "worker_job \<Rightarrow> queue_entry \<Rightarrow> reservation" where
  "entry_reservation w e =
     \<lparr>rsv_jobId = qw_jobId (qe_work e),
      rsv_reservationRef = reservationRefFor w (qe_attempt e + 1), rsv_attempt = qe_attempt e + 1,
      rsv_ownerContext = Some (qw_ownerContext (qe_work e)),
      rsv_ownerRef = Some (qw_ownerRef (qe_work e)),
      rsv_workType = Some (qw_workType (qe_work e)),
      rsv_safeInputRef = qw_safeInputRef (qe_work e),
      rsv_safeMetadata = qw_safeMetadata (qe_work e)\<rparr>"

lemma mq_entry_set [simp]: "mq_entry (set_entry i e s) = (mq_entry s)(i \<mapsto> e)"
  by (simp add: mq_entry_def set_entry_def update_conv' fun_eq_iff)

lemma mq_entry_repo [simp]:
  "mq_entry (s\<lparr>mq_repo := r\<rparr>) = mq_entry s"
  "mq_entry (know_key k i s) = mq_entry s"
  by (simp_all add: mq_entry_def fun_eq_iff know_key_def)

lemma mq_fields [simp]:
  "mq_repo (set_entry i e s) = mq_repo s" "mq_repo (know_key k i s) = mq_repo s"
  "mq_jobIdByIdempotencyKey (set_entry i e s) = mq_jobIdByIdempotencyKey s"
  "mq_entries (know_key k i s) = mq_entries s"
  by (simp_all add: set_entry_def know_key_def)

lemma put_both_entry [simp]: "mq_entry (put_both repo w e s) = (mq_entry s)(job_id w \<mapsto> e)"
  by (simp add: put_both_def)

lemma mirrors_recovered:
  assumes "mirrors i e w" "queue_job w" "qe_state e = Entry_reserved"
  shows "mirrors i (recovered_entry now w e) (recovered w)"
  using assms
  by (auto simp: mirrors_def recovered_entry_def recovered_status nextReservationAttempt_def
      recovered_def Let_def)

lemma mirrors_taken:
  assumes "mirrors i e w" "qe_state e = Entry_available"
  shows "mirrors i (taken_entry until w e) (taken w)"
  using assms by (simp add: mirrors_def taken_entry_def reservationRefFor_def)

lemma mirrors_holds:
  assumes "mirrors (rsv_jobId r) e w" "qe_reservationRef e = Some (rsv_reservationRef r)"
    "qe_state e = Entry_reserved" "qe_attempt e = rsv_attempt r"
  shows "holds r w"
  using assms by (auto simp: mirrors_def holds_def)

lemma assertReserved_iff:
  "assertReserved e r = Inr () \<longleftrightarrow> qe_state e = Entry_reserved \<and> qe_attempt e = rsv_attempt r"
  by (simp add: assertReserved_def)

section \<open>What each operation does\<close>

context worker_job_repository
begin

lemma mq_job_put [simp]:
  "inv (mq_repo s) \<Longrightarrow> mq_job repo (put_both repo w e s) = (mq_job repo s)(job_id w \<mapsto> w)"
  by (simp add: mq_job_def put_both_def load_save fun_eq_iff)

lemma mq_job_set [simp]: "mq_job repo (set_entry i e s) = mq_job repo s"
  by (simp add: mq_job_def fun_eq_iff)

lemma mq_job_know [simp]: "mq_job repo (know_key k i s) = mq_job repo s"
  by (simp add: mq_job_def fun_eq_iff)

lemma mq_okD:
  assumes "mq_ok repo inv s"
  shows "inv (mq_repo s)" "distinct (map fst (mq_entries s))"
    "mq_job repo s i = Some w \<Longrightarrow> queue_job w \<and> job_id w = i"
    "mq_entry s i = Some e \<Longrightarrow> \<exists>w. mq_job repo s i = Some w \<and> mirrors i e w"
    "mq_job repo s i = Some w \<Longrightarrow> \<exists>e. mq_entry s i = Some e \<and> mirrors i e w"
proof -
  show "inv (mq_repo s)" "distinct (map fst (mq_entries s))" using assms by (auto simp: mq_ok_def)
  then show "mq_job repo s i = Some w \<Longrightarrow> queue_job w \<and> job_id w = i"
    using assms load_id by (auto simp: mq_ok_def mq_job_def)
  show "\<exists>w. mq_job repo s i = Some w \<and> mirrors i e w" if "mq_entry s i = Some e"
    using assms that unfolding mq_ok_def by (metis option.exhaust option.discI)
  show "\<exists>e. mq_entry s i = Some e \<and> mirrors i e w" if "mq_job repo s i = Some w"
    using assms that unfolding mq_ok_def by (metis option.exhaust option.discI)
qed

lemma put_both_ok:
  assumes "mq_ok repo inv s" "queue_job w" "mirrors (job_id w) e w"
  shows "mq_ok repo inv (put_both repo w e s)"
proof -
  have "distinct (map fst (mq_entries (put_both repo w e s)))"
    using assms(1) by (simp add: put_both_def set_entry_def mq_ok_def distinct_update)
  moreover have "inv (mq_repo (put_both repo w e s))"
    using assms(1) save_inv by (simp add: put_both_def mq_ok_def)
  moreover have "mq_jobIdByIdempotencyKey (put_both repo w e s) = mq_jobIdByIdempotencyKey s"
    by (simp add: put_both_def)
  ultimately show ?thesis
    using assms mq_okD(1) [OF assms(1)] by (auto simp: mq_ok_def)
qed

lemma know_key_ok:
  "mq_ok repo inv s \<Longrightarrow> mq_entry s i \<noteq> None \<Longrightarrow> mq_ok repo inv (know_key k i s)"
  unfolding mq_ok_def mq_fields mq_entry_repo mq_job_know by (simp add: know_key_def)

lemma loadWorkerJob_mq_eq:
  "mq_job repo s i = Some w \<Longrightarrow> loadWorkerJob_mq repo i s = (Inr w, s)"
  by (simp add: loadWorkerJob_mq_def mq_job_def)

lemma save_job_eq: "save_job repo w s = (Inr (), s\<lparr>mq_repo := jr_save repo w (mq_repo s)\<rparr>)"
  by (simp add: save_job_def)

lemma recoverExpiredEntry_eq:
  assumes "mq_ok repo inv s" "mq_entry s i = Some e" "qe_state e = Entry_reserved"
    and "mq_job repo s i = Some w"
  shows "recoverExpiredEntry repo now i e s =
     (Inr (), put_both repo (recovered w) (recovered_entry now w e) s)"
proof -
  have m: "mirrors i e w" using mq_okD(4) [OF assms(1,2)] assms(4) by auto
  then have w: "qw_jobId (qe_work e) = i" "job_status w = Job_reserved"
      "job_attemptNumber w = Some (qe_attempt e)"
    using assms(3) by (simp_all add: mirrors_def)
  have q: "queue_job w" "job_id w = i" using mq_okD(3) [OF assms(1,4)] by auto
  have load: "loadWorkerJob_mq repo (qw_jobId (qe_work e)) s = (Inr w, s)"
    using assms(4) w(1) by (simp add: loadWorkerJob_mq_eq)
  have r: "recoverExpiredWorkerJob w = Inr (recovered w)"
    using recoverExpiredWorkerJob_eq [OF q(1)] w(2) by simp
  show ?thesis
  proof (cases "rp_maxAttempts (job_retryPolicy w) < qe_attempt e + 1")
    case True
    then have "result_bind (createDeadLetterReason ''lease_expired_retry_budget_exhausted'' ''queue'')
        (markWorkerJobDead w) = Inr (recovered w)"
      using r w(3) by (simp add: recoverExpiredWorkerJob_def)
    then show ?thesis
      using load True w(2) q(2)
      by (simp add: recoverExpiredEntry_def save_job_eq put_both_def recovered_entry_def)
  next
    case False
    then have "result_bind (createAttemptNumber (num_of (qe_attempt e + 1)) (Some (job_retryPolicy w)))
        (\<lambda>n. result_bind (createFailureCategory ''queue'') (retryWorkerJob w n)) = Inr (recovered w)"
      using r w(3) by (simp add: recoverExpiredWorkerJob_def)
    then show ?thesis
      using load False w(2) q(2)
      by (simp add: recoverExpiredEntry_def save_job_eq put_both_def recovered_entry_def)
  qed
qed

lemma recoverEntries_effect:
  assumes "mq_ok repo inv s" "distinct is"
  shows "\<exists>m u. recoverEntries repo now is n s = (Inr m, u) \<and> mq_ok repo inv u \<and>
     mq_jobIdByIdempotencyKey u = mq_jobIdByIdempotencyKey s \<and>
     (\<forall>i. mq_entry s i = None \<longrightarrow> mq_entry u i = None) \<and>
     (\<forall>i e w. mq_entry s i = Some e \<longrightarrow> mq_job repo s i = Some w \<longrightarrow>
        mq_entry u i = Some (if i \<in> set is \<and> lease_over now e then recovered_entry now w e else e) \<and>
        mq_job repo u i = Some (if i \<in> set is \<and> lease_over now e then recovered w else w))"
  using assms
proof (induction "is" arbitrary: s n)
  case Nil
  then show ?case by auto
next
  case (Cons i "is")
  show ?case
  proof (cases "\<exists>e. mq_entry s i = Some e \<and> lease_over now e")
    case False
    then have "recoverEntries repo now (i # is) n s = recoverEntries repo now is n s"
      by (auto simp: lease_over_def split: option.split)
    moreover have "(j \<in> set (i # is) \<and> lease_over now e) = (j \<in> set is \<and> lease_over now e)"
      if "mq_entry s j = Some e" for j e using False that by auto
    ultimately show ?thesis using Cons.IH [OF Cons.prems(1), of n] Cons.prems(2) by fastforce
  next
    case True
    then obtain e where e: "mq_entry s i = Some e" "lease_over now e" by auto
    then obtain w where w: "mq_job repo s i = Some w" "mirrors i e w"
      using mq_okD(4) [OF Cons.prems(1) e(1)] by auto
    have q: "queue_job w" "job_id w = i" using mq_okD(3) [OF Cons.prems(1) w(1)] by auto
    have st: "qe_state e = Entry_reserved" using e(2) by (simp add: lease_over_def)
    let ?s = "put_both repo (recovered w) (recovered_entry now w e) s"
    have js: "job_status w = Job_reserved" using w(2) st by (simp add: mirrors_def)
    have ok: "mq_ok repo inv ?s"
      using put_both_ok [OF Cons.prems(1) recovered_queue_job [OF q(1)]]
        mirrors_recovered [OF w(2) q(1) st] js q(2) by simp
    have run: "recoverEntries repo now (i # is) n s = recoverEntries repo now is (n + 1) ?s"
      using e recoverExpiredEntry_eq [OF Cons.prems(1) e(1) st w(1), of now]
      by (simp add: lease_over_def)
    have inv_s: "inv (mq_repo s)" by (rule mq_okD(1) [OF Cons.prems(1)])
    have keys: "mq_jobIdByIdempotencyKey ?s = mq_jobIdByIdempotencyKey s" by (simp add: put_both_def)
    from Cons.IH [OF ok, of "n + 1"] Cons.prems(2) obtain m u where
      u: "recoverEntries repo now is (n + 1) ?s = (Inr m, u)" "mq_ok repo inv u"
        "mq_jobIdByIdempotencyKey u = mq_jobIdByIdempotencyKey ?s"
        "\<forall>j. mq_entry ?s j = None \<longrightarrow> mq_entry u j = None"
        "\<forall>j e w. mq_entry ?s j = Some e \<longrightarrow> mq_job repo ?s j = Some w \<longrightarrow>
          mq_entry u j = Some (if j \<in> set is \<and> lease_over now e then recovered_entry now w e else e) \<and>
          mq_job repo u j = Some (if j \<in> set is \<and> lease_over now e then recovered w else w)"
      by auto
    have "mq_entry u j = Some (if j \<in> set (i # is) \<and> lease_over now f then recovered_entry now x f else f) \<and>
        mq_job repo u j = Some (if j \<in> set (i # is) \<and> lease_over now f then recovered x else x)"
      if "mq_entry s j = Some f" "mq_job repo s j = Some x" for j f x
    proof (cases "j = i")
      case True
      then have "f = e" "x = w" using that e(1) w(1) by auto
      moreover have "mq_entry ?s i = Some (recovered_entry now w e)" "mq_job repo ?s i = Some (recovered w)"
        using inv_s q(2) by simp_all
      ultimately show ?thesis using u(5) True Cons.prems(2) e(2) by auto
    next
      case False
      then have "mq_entry ?s j = Some f" "mq_job repo ?s j = Some x"
        using that inv_s q(2) by simp_all
      then show ?thesis using u(5) False by auto
    qed
    moreover have "mq_entry u j = None" if "mq_entry s j = None" for j
      using u(4) that e(1) q(2) by (cases "j = i") simp_all
    ultimately show ?thesis using run u(1,2,3) keys by auto
  qed
qed

lemma findReservableEntry_Some:
  assumes "mq_ok repo inv s" "findReservableEntry now t s = Some (i, e)"
  shows "mq_entry s i = Some e" "qw_workType (qe_work e) = t" "qe_state e = Entry_available"
    "visible_by (qe_visibleAt e) now"
  using find_SomeD [OF assms(2) [unfolded findReservableEntry_def]] mq_okD(2) [OF assms(1)]
  by (simp_all add: mq_entry_def)

lemma findReservableEntry_None:
  assumes "findReservableEntry now t s = None" "mq_entry s i = Some e"
  shows "qw_workType (qe_work e) \<noteq> t \<or> qe_state e \<noteq> Entry_available \<or>
     \<not> visible_by (qe_visibleAt e) now"
  using assms map_of_SomeD [of "mq_entries s" i e]
  unfolding findReservableEntry_def find_None_iff_all mq_entry_def by fastforce

text \<open>The state after the expired leases were taken back, seen entry by entry.\<close>

definition taken_back :: "int \<Rightarrow> 'r memory_queue \<Rightarrow> 'r memory_queue \<Rightarrow> bool" where
  "taken_back now s u \<longleftrightarrow>
     mq_ok repo inv u \<and>
     (\<forall>i. mq_entry s i = None \<longrightarrow> mq_entry u i = None) \<and>
     (\<forall>i e w. mq_entry s i = Some e \<longrightarrow> mq_job repo s i = Some w \<longrightarrow>
        mq_entry u i = Some (if lease_over now e then recovered_entry now w e else e) \<and>
        mq_job repo u i = Some (if lease_over now e then recovered w else w))"

lemma recoverExpiredReservations_effect:
  assumes "mq_ok repo inv s"
  shows "\<exists>m u. recoverExpiredReservations repo now s = (Inr m, u) \<and> taken_back now s u"
proof -
  have "i \<in> set (map fst (mq_entries s))" if "mq_entry s i = Some e" for i e
    using that map_of_SomeD by (force simp: mq_entry_def)
  then show ?thesis
    using recoverEntries_effect [OF assms mq_okD(2) [OF assms], of now 0]
    unfolding recoverExpiredReservations_def taken_back_def by fastforce
qed

lemma reserve_mq_effect:
  assumes "mq_ok repo inv s"
  shows "\<exists>v. taken_back now s v \<and>
     (case findReservableEntry now t v of
        None \<Rightarrow> reserve_mq repo timeout now t s = (Inr None, v)
      | Some (i, e) \<Rightarrow>
          \<exists>w. mq_job repo v i = Some w \<and> mirrors i e w \<and>
            reserve_mq repo timeout now t s =
              (Inr (Some (entry_reservation w e)),
               put_both repo (taken w) (taken_entry (now + timeout) w e) v))"
proof -
  obtain m v where v: "recoverExpiredReservations repo now s = (Inr m, v)" "taken_back now s v"
    using recoverExpiredReservations_effect [OF assms] by blast
  then have ok: "mq_ok repo inv v" by (simp add: taken_back_def)
  show ?thesis
  proof (cases "findReservableEntry now t v")
    case None
    then have "reserve_mq repo timeout now t s = (Inr None, v)"
      using v(1) by (simp add: reserve_mq_def)
    then show ?thesis using v(2) None by auto
  next
    case (Some ie)
    then obtain i e where f: "findReservableEntry now t v = Some (i, e)" by (cases ie) auto
    note e = findReservableEntry_Some [OF ok f]
    obtain w where w: "mq_job repo v i = Some w" "mirrors i e w"
      using mq_okD(4) [OF ok e(1)] by blast
    have q: "queue_job w" "job_id w = i" using mq_okD(3) [OF ok w(1)] by auto
    have a: "nextReservationAttempt w = qe_attempt e + 1" "qw_jobId (qe_work e) = i"
        "job_workType w = queue_work_type_name (qw_workType (qe_work e))"
        "job_status w = Job_queued \<or> job_status w = Job_retrying"
      using w(2) e(3) by (auto simp: mirrors_def)
    have r: "result_bind (createAttemptNumber (num_of (qe_attempt e + 1)) (Some (job_retryPolicy w)))
        (reserveWorkerJob w) = Inr (taken w)"
      using reserveVisible_eq [OF q(1) a(4)] a(1) by (simp add: reserveVisible_def)
    have ref: "reservationRefFor_mq v i (qe_attempt e + 1) = reservationRefFor w (qe_attempt e + 1)"
      using e(1) a(3) q(2) by (simp add: reservationRefFor_mq_def reservationRefFor_def entry_work_type_def)
    have "reserve_mq repo timeout now t s =
        (Inr (Some (entry_reservation w e)),
         put_both repo (taken w) (taken_entry (now + timeout) w e) v)"
      using v(1) f r ref a(2) q(2) w(1)
      by (simp add: reserve_mq_def loadWorkerJob_mq_eq save_job_eq put_both_def taken_entry_def
          entry_reservation_def Let_def)
    then show ?thesis using v(2) f w by auto
  qed
qed

lemma resolve_active:
  assumes "mq_ok repo inv s" "resolveReservation r s = (Inr e, s')" "assertReserved e r = Inr ()"
  shows "s' = s \<and> mq_entry s (rsv_jobId r) = Some e \<and> qe_state e = Entry_reserved \<and>
     qe_attempt e = rsv_attempt r \<and> (\<exists>w. mq_job repo s (rsv_jobId r) = Some w \<and>
       mirrors (rsv_jobId r) e w \<and> queue_job w \<and> job_id w = rsv_jobId r \<and> holds r w)"
proof -
  have e: "s' = s" "mq_entry s (rsv_jobId r) = Some e" "qe_reservationRef e = Some (rsv_reservationRef r)"
    using assms(2) by (auto simp: resolveReservation_def split: option.splits if_splits)
  obtain w where w: "mq_job repo s (rsv_jobId r) = Some w" "mirrors (rsv_jobId r) e w"
    using mq_okD(4) [OF assms(1) e(2)] by blast
  show ?thesis
    using e w assms(3) mirrors_holds [OF w(2) e(3)] mq_okD(3) [OF assms(1) w(1)]
    by (auto simp: assertReserved_iff)
qed

lemma receiptFor_mq_state [simp]: "snd (receiptFor_mq now i s) = s"
  by (simp add: receiptFor_mq_def split: option.split)

end

section \<open>Histories\<close>

fun mq_step ::
    "'r job_repository \<Rightarrow> int \<Rightarrow> int \<times> queue_command \<Rightarrow> 'r memory_queue \<Rightarrow> 'r memory_queue" where
  "mq_step repo timeout (now, Enqueue work) s = snd (enqueue_mq repo now work s)"
| "mq_step repo timeout (now, Reserve t) s = snd (reserve_mq repo timeout now t s)"
| "mq_step repo timeout (now, Acknowledge r) s = snd (acknowledge_mq repo now r s)"
| "mq_step repo timeout (now, ReleaseForRetry r d) s = snd (releaseForRetry_mq repo now r d s)"
| "mq_step repo timeout (now, MoveToDeadLetter r c) s = snd (moveToDeadLetter_mq repo now r c s)"
| "mq_step repo timeout (now, RecoverVisible) s = snd (recoverVisibleJobs_mq repo now s)"

definition mq_history ::
    "'r job_repository \<Rightarrow> int \<Rightarrow> (int \<times> queue_command) list \<Rightarrow> 'r memory_queue \<Rightarrow> 'r memory_queue" where
  "mq_history repo timeout cs s = fold (mq_step repo timeout) cs s"

text \<open>
  An entry only gains attempts, and one whose lease is in force stays as it is unless its holder
  settles it.
\<close>

definition entry_later :: "int \<Rightarrow> queue_command \<Rightarrow> identity \<Rightarrow> queue_entry \<Rightarrow> queue_entry \<Rightarrow> bool" where
  "entry_later now c i e e' \<longleftrightarrow>
     qe_attempt e \<le> qe_attempt e' \<and>
     (qe_state e = Entry_reserved \<longrightarrow> \<not> visible_by (qe_visibleAt e) now \<longrightarrow>
      settles c \<noteq> Some (i, qe_attempt e) \<longrightarrow> e' = e)"

lemma entry_later_refl [simp]: "entry_later now c i e e"
  by (simp add: entry_later_def)

lemma entry_later_recovered: "lease_over now e \<Longrightarrow> entry_later now c i e (recovered_entry now w e)"
  by (simp add: entry_later_def lease_over_def recovered_entry_def)

lemma entry_later_settled:
  "settles c = Some (i, qe_attempt e) \<Longrightarrow> qe_attempt e \<le> qe_attempt e' \<Longrightarrow> entry_later now c i e e'"
  by (simp add: entry_later_def)

lemma entry_later_taken:
  "entry_later now c i e f \<Longrightarrow> qe_state f = Entry_available \<Longrightarrow>
     entry_later now c i e (taken_entry until w f)"
  by (auto simp: entry_later_def taken_entry_def)

context worker_job_repository
begin

definition mq_advances ::
    "int \<Rightarrow> queue_command \<Rightarrow> 'r memory_queue \<Rightarrow> 'r memory_queue \<Rightarrow> bool" where
  "mq_advances now c s u \<longleftrightarrow>
     mq_ok repo inv u \<and>
     (\<forall>i e. mq_entry s i = Some e \<longrightarrow> enqueues c \<noteq> Some i \<longrightarrow>
        (\<exists>e'. mq_entry u i = Some e' \<and> entry_later now c i e e'))"

lemma advances_same: "mq_ok repo inv s \<Longrightarrow> mq_advances now c s s"
  by (simp add: mq_advances_def)

lemma advances_put:
  assumes "mq_ok repo inv s" "queue_job w" "mirrors (job_id w) e' w"
    and "mq_entry s (job_id w) = Some e" "entry_later now c (job_id w) e e'"
  shows "mq_advances now c s (put_both repo w e' s)"
  using assms put_both_ok [OF assms(1-3)] by (simp add: mq_advances_def)

text \<open>An operation on a reservation either finds it active or leaves the queue as it is.\<close>

definition active_reservation :: "reservation \<Rightarrow> 'r memory_queue \<Rightarrow> bool" where
  "active_reservation r s \<longleftrightarrow>
     (\<exists>e s'. resolveReservation r s = (Inr e, s') \<and> assertReserved e r = Inr ())"

lemma resolveReservation_state: "snd (resolveReservation r s) = s"
  by (simp add: resolveReservation_def split: option.split)

lemma act_bind_state:
  "(\<And>x. fst (m s) = Inr x \<Longrightarrow> snd (f x s) = s) \<Longrightarrow> snd (m s) = s \<Longrightarrow> snd (act_bind m f s) = s"
  by (auto simp: act_bind_def split: prod.splits sum.splits)

lemma act_try_state [simp]: "snd (act_try r s) = s"
  by (simp add: act_try_def split: sum.splits)


lemma fst_act_try [simp]: "fst (act_try r s) = r"
  by (simp add: act_try_def split: sum.splits)

lemma inactive_guard:
  assumes "\<not> active_reservation r s"
    and "\<And>e. qe_state e \<noteq> Entry_reserved \<Longrightarrow> snd (other e s) = s"
    and "\<And>e. P e \<Longrightarrow> qe_state e \<noteq> Entry_reserved"
  shows "snd (act_bind (resolveReservation r)
      (\<lambda>e. if P e then other e else act_bind (act_try (assertReserved e r)) (f e)) s) = s"
proof (rule act_bind_state)
  show "snd (resolveReservation r s) = s" by (rule resolveReservation_state)
  fix e
  assume e: "fst (resolveReservation r s) = Inr e"
  then have "resolveReservation r s = (Inr e, s)"
    using resolveReservation_state [of r s] by (cases "resolveReservation r s") simp
  then have "assertReserved e r \<noteq> Inr ()" using assms(1) by (auto simp: active_reservation_def)
  then have "snd (act_bind (act_try (assertReserved e r)) (f e) s) = s"
    by (intro act_bind_state) auto
  then show "snd ((if P e then other e else act_bind (act_try (assertReserved e r)) (f e)) s) = s"
    using assms(2,3) by simp
qed

lemma acknowledge_mq_inactive:
  assumes "\<not> active_reservation r s"
  shows "snd (acknowledge_mq repo now r s) = s"
  unfolding acknowledge_mq_def capturePortFailure_snd
  by (rule inactive_guard [OF assms]) auto

lemma moveToDeadLetter_mq_inactive:
  assumes "\<not> active_reservation r s"
  shows "snd (moveToDeadLetter_mq repo now r c s) = s"
  unfolding moveToDeadLetter_mq_def capturePortFailure_snd
  by (rule inactive_guard [OF assms]) auto

lemma releaseForRetry_mq_inactive:
  assumes "\<not> active_reservation r s"
  shows "snd (releaseForRetry_mq repo now r d s) = s"
  unfolding releaseForRetry_mq_def capturePortFailure_snd
  by (rule act_bind_state)
    (use inactive_guard [OF assms, where P = "\<lambda>_. False" and other = "\<lambda>_. act_return undefined"] in
      \<open>simp_all\<close>)

lemma active_obtains:
  assumes "mq_ok repo inv s" "active_reservation r s"
  obtains e w where "resolveReservation r s = (Inr e, s)" "assertReserved e r = Inr ()"
    "mq_entry s (rsv_jobId r) = Some e" "qe_state e = Entry_reserved" "qe_attempt e = rsv_attempt r"
    "mq_job repo s (rsv_jobId r) = Some w" "mirrors (rsv_jobId r) e w" "queue_job w"
    "job_id w = rsv_jobId r" "holds r w"
  using assms(2) resolve_active [OF assms(1)] unfolding active_reservation_def by metis

lemma acknowledge_mq_active:
  assumes "mq_ok repo inv s" "resolveReservation r s = (Inr e, s)" "assertReserved e r = Inr ()"
    and "qe_state e = Entry_reserved" "mq_job repo s (rsv_jobId r) = Some w"
    and "job_id w = rsv_jobId r" "holds r w"
  shows "acknowledge_mq repo now r s =
     (Inr \<lparr>rec_jobId = rsv_jobId r, rec_visible = False, rec_queueRef = queueRefFor_mq s (rsv_jobId r)\<rparr>,
      put_both repo (finished w) (e\<lparr>qe_state := Entry_completed, qe_visibleAt := Never\<rparr>) s)"
proof -
  have "mq_entry s (rsv_jobId r) = Some e"
    using assms(2) by (auto simp: resolveReservation_def split: option.splits if_splits)
  then show ?thesis
    using assms finished_eq [OF assms(7)]
    by (simp add: acknowledge_mq_def loadWorkerJob_mq_eq save_job_eq put_both_def
        capturePortFailure_def receiptFor_mq_def isEntryVisible_def queueRefFor_mq_def
        entry_work_type_def)
qed

lemma acknowledge_mq_advances:
  assumes ok: "mq_ok repo inv s"
  shows "mq_advances now (Acknowledge r) s (snd (acknowledge_mq repo now r s))"
proof (cases "active_reservation r s")
  case False
  then show ?thesis using advances_same [OF ok] by (simp add: acknowledge_mq_inactive)
next
  case True
  from active_obtains [OF ok True] obtain e w where
    w: "resolveReservation r s = (Inr e, s)" "assertReserved e r = Inr ()"
      "mq_entry s (rsv_jobId r) = Some e" "qe_state e = Entry_reserved" "qe_attempt e = rsv_attempt r"
      "mq_job repo s (rsv_jobId r) = Some w" "mirrors (rsv_jobId r) e w" "queue_job w"
      "job_id w = rsv_jobId r" "holds r w" .
  let ?e = "e\<lparr>qe_state := Entry_completed, qe_visibleAt := Never\<rparr>"
  have "mirrors (job_id (finished w)) ?e (finished w)"
    using w(7,9) by (simp add: mirrors_def finished_def)
  then show ?thesis
    using advances_put [OF ok settled_queue_job(1) [OF w(8,10)], of ?e e now "Acknowledge r"] w
      acknowledge_mq_active [OF ok w(1,2,4,6,9,10)]
    by (simp add: entry_later_settled)
qed

lemma moveToDeadLetter_mq_advances:
  assumes ok: "mq_ok repo inv s"
  shows "mq_advances now (MoveToDeadLetter r code) s (snd (moveToDeadLetter_mq repo now r code s))"
proof (cases "active_reservation r s")
  case False
  then show ?thesis using advances_same [OF ok] by (simp add: moveToDeadLetter_mq_inactive)
next
  case True
  from active_obtains [OF ok True] obtain e w where
    w: "resolveReservation r s = (Inr e, s)" "assertReserved e r = Inr ()"
      "mq_entry s (rsv_jobId r) = Some e" "qe_state e = Entry_reserved" "qe_attempt e = rsv_attempt r"
      "mq_job repo s (rsv_jobId r) = Some w" "mirrors (rsv_jobId r) e w" "queue_job w"
      "job_id w = rsv_jobId r" "holds r w" .
  let ?e = "e\<lparr>qe_state := Entry_dead, qe_deadLetterReasonCode := Some code, qe_visibleAt := At now\<rparr>"
  show ?thesis
  proof (cases "createSafeDomainCode code ''DeadLetterReason.code''")
    case (Inl x)
    then have "result_bind (createDeadLetterReason code ''queue'') (markWorkerJobDead w) = Inl x"
      by (simp add: createDeadLetterReason_def)
    then have "snd (moveToDeadLetter_mq repo now r code s) = s"
      using w by (cases x) (simp add: moveToDeadLetter_mq_def loadWorkerJob_mq_eq act_lift_def)
    then show ?thesis using advances_same [OF ok] by simp
  next
    case (Inr c)
    have "snd (moveToDeadLetter_mq repo now r code s) = put_both repo (buried c w) ?e s"
      using w buried_eq [OF w(10) Inr]
      by (simp add: moveToDeadLetter_mq_def loadWorkerJob_mq_eq save_job_eq put_both_def)
    moreover have "mirrors (job_id (buried c w)) ?e (buried c w)"
      using w(7,9) by (simp add: mirrors_def buried_def)
    ultimately show ?thesis
      using advances_put [OF ok settled_queue_job(2) [OF w(8,10)], of c ?e e now "MoveToDeadLetter r code"] w
      by (simp add: entry_later_settled)
  qed
qed

lemma releaseForRetry_mq_advances:
  assumes ok: "mq_ok repo inv s"
  shows "mq_advances now (ReleaseForRetry r d) s (snd (releaseForRetry_mq repo now r d s))"
proof (cases "active_reservation r s")
  case False
  then show ?thesis using advances_same [OF ok] by (simp add: releaseForRetry_mq_inactive)
next
  case True
  from active_obtains [OF ok True] obtain e w where
    w: "resolveReservation r s = (Inr e, s)" "assertReserved e r = Inr ()"
      "mq_entry s (rsv_jobId r) = Some e" "qe_state e = Entry_reserved" "qe_attempt e = rsv_attempt r"
      "mq_job repo s (rsv_jobId r) = Some w" "mirrors (rsv_jobId r) e w" "queue_job w"
      "job_id w = rsv_jobId r" "holds r w" .
  let ?n = "rsv_attempt r + 1"
  show ?thesis
  proof (cases "assertNonNegativeInteger d ''delayMilliseconds''")
    case (Inl x)
    then have "snd (releaseForRetry_mq repo now r d s) = s"
      by (cases x) (simp add: releaseForRetry_mq_def act_lift_def)
    then show ?thesis using advances_same [OF ok] by simp
  next
    case (Inr delay)
    let ?e = "e\<lparr>qe_state := Entry_available, qe_visibleAt := At (now + delay),
                qe_attempt := rsv_attempt r, qe_reservationRef := None\<rparr>"
    have pos: "0 < ?n" using queue_job_attempt [OF w(8)] w(10) by (auto simp: holds_def)
    let ?retry = "result_bind (createAttemptNumber (num_of ?n) (Some (job_retryPolicy w)))
           (\<lambda>n. result_bind (createFailureCategory ''queue'') (retryWorkerJob w n))"
    show ?thesis
    proof (cases "?n \<le> rp_maxAttempts (job_retryPolicy w)")
      case True
      have retry: "?retry = Inr (rescheduled ?n w)" by (rule rescheduled_eq [OF w(10) pos True])
      have "snd (releaseForRetry_mq repo now r d s) = put_both repo (rescheduled ?n w) ?e s"
        using w Inr retry
        by (simp add: releaseForRetry_mq_def loadWorkerJob_mq_eq save_job_eq put_both_def)
      moreover have "mirrors (job_id (rescheduled ?n w)) ?e (rescheduled ?n w)"
        using w(7,9) by (simp add: mirrors_def rescheduled_def nextReservationAttempt_def)
      ultimately show ?thesis
        using advances_put [OF ok settled_queue_job(3) [OF w(8,10)], of ?n ?e e now "ReleaseForRetry r d"]
          w pos True
        by (simp add: entry_later_settled)
    next
      case False
      obtain m where "?retry = Inl (TypeError m)"
        using False pos unfolding createAttemptNumber_int by simp
      then have "snd (releaseForRetry_mq repo now r d s) = s"
        using w Inr by (simp add: releaseForRetry_mq_def loadWorkerJob_mq_eq act_lift_def)
      then show ?thesis using advances_same [OF ok] by simp
    qed
  qed
qed

lemma entry_later_taken_back:
  assumes "mq_ok repo inv s" "taken_back now s v" "mq_entry s i = Some e"
  shows "\<exists>f. mq_entry v i = Some f \<and> entry_later now c i e f"
proof -
  obtain w where "mq_job repo s i = Some w" using mq_okD(4) [OF assms(1,3)] by blast
  then show ?thesis
    using assms(2,3) entry_later_recovered [of now e c i w]
    by (cases "lease_over now e") (auto simp: taken_back_def)
qed

lemma taken_back_advances:
  assumes "mq_ok repo inv s" "taken_back now s v"
  shows "mq_advances now c s v"
  using assms entry_later_taken_back [OF assms] by (auto simp: mq_advances_def taken_back_def)

lemma taken_ok:
  assumes "mq_ok repo inv v" "mq_job repo v i = Some w" "mirrors i e w" "qe_state e = Entry_available"
  shows "mq_ok repo inv (put_both repo (taken w) (taken_entry until w e) v)"
proof -
  have q: "queue_job w" "job_id w = i" using mq_okD(3) [OF assms(1,2)] by auto
  have "job_status w = Job_queued \<or> job_status w = Job_retrying"
    using assms(3,4) by (simp add: mirrors_def)
  then show ?thesis
    using put_both_ok [OF assms(1) taken_queue_job [OF q(1)]] mirrors_taken [OF assms(3,4)] q(2)
    by simp
qed

lemma reserve_mq_advances:
  assumes ok: "mq_ok repo inv s"
  shows "mq_advances now (Reserve t) s (snd (reserve_mq repo timeout now t s))"
proof -
  obtain v where v: "taken_back now s v" and
    r: "case findReservableEntry now t v of
        None \<Rightarrow> reserve_mq repo timeout now t s = (Inr None, v)
      | Some (i, e) \<Rightarrow>
          \<exists>w. mq_job repo v i = Some w \<and> mirrors i e w \<and>
            reserve_mq repo timeout now t s =
              (Inr (Some (entry_reservation w e)),
               put_both repo (taken w) (taken_entry (now + timeout) w e) v)"
    using reserve_mq_effect [OF ok] by blast
  have okv: "mq_ok repo inv v" using v by (simp add: taken_back_def)
  show ?thesis
  proof (cases "findReservableEntry now t v")
    case None
    then show ?thesis using r taken_back_advances [OF ok v] by simp
  next
    case (Some ie)
    then obtain i e where f: "findReservableEntry now t v = Some (i, e)" by (cases ie) auto
    note e = findReservableEntry_Some [OF okv f]
    obtain w where w: "mq_job repo v i = Some w" "mirrors i e w"
        "snd (reserve_mq repo timeout now t s) =
           put_both repo (taken w) (taken_entry (now + timeout) w e) v"
      using r f by auto
    have i: "job_id (taken w) = i" using mq_okD(3) [OF okv w(1)] by simp
    have "\<exists>e'. mq_entry (put_both repo (taken w) (taken_entry (now + timeout) w e) v) j = Some e' \<and>
        entry_later now (Reserve t) j d e'" if d: "mq_entry s j = Some d" for j d
    proof -
      obtain g where g: "mq_entry v j = Some g" "entry_later now (Reserve t) j d g"
        using entry_later_taken_back [OF ok v d] by blast
      show ?thesis
        using g e(1,3) i by (cases "j = i") (auto intro: entry_later_taken)
    qed
    then show ?thesis
      using taken_ok [OF okv w(1,2) e(3), of "now + timeout"] w(3) by (simp add: mq_advances_def)
  qed
qed

lemma adoptJobs_known:
  "\<forall>w \<in> set ws. mq_entry s (job_id w) \<noteq> None \<Longrightarrow> adoptJobs now ws n s = (Inr n, s)"
  by (induction ws arbitrary: n) (auto split: option.split)

lemma recoverVisibleJobs_mq_effect:
  assumes "mq_ok repo inv s"
  shows "\<exists>m v. recoverVisibleJobs_mq repo now s = (Inr m, v) \<and> taken_back now s v"
proof -
  obtain m v where v: "recoverExpiredReservations repo now s = (Inr m, v)" "taken_back now s v"
    using recoverExpiredReservations_effect [OF assms] by blast
  then have ok: "mq_ok repo inv v" by (simp add: taken_back_def)
  have "mq_entry v (job_id w) \<noteq> None"
    if "w \<in> set (jr_findByStatus repo st (mq_repo v))" for w st
    using that find_status [OF mq_okD(1) [OF ok]] mq_okD(5) [OF ok, of "job_id w" w]
    by (auto simp: mq_job_def)
  then have "adoptJobs now (jr_findByStatus repo Job_queued (mq_repo v) @
      jr_findByStatus repo Job_retrying (mq_repo v)) m v = (Inr m, v)"
    by (intro adoptJobs_known) auto
  then show ?thesis using v by (auto simp: recoverVisibleJobs_mq_def)
qed

lemma recoverVisibleJobs_mq_advances:
  assumes "mq_ok repo inv s"
  shows "mq_advances now RecoverVisible s (snd (recoverVisibleJobs_mq repo now s))"
  using recoverVisibleJobs_mq_effect [OF assms, of now] taken_back_advances [OF assms]
  by (metis snd_conv)

lemma mq_ok_same_view:
  assumes "mq_ok repo inv s" "inv (mq_repo u)" "mq_entries u = mq_entries s"
    and "mq_job repo u = mq_job repo s"
    and "mq_jobIdByIdempotencyKey u = mq_jobIdByIdempotencyKey s"
  shows "mq_ok repo inv u"
proof -
  have "mq_entry u = mq_entry s" using assms(3) by (simp add: mq_entry_def fun_eq_iff)
  with assms show ?thesis by (simp add: mq_ok_def)
qed

end

text \<open>A repository that can always record a key, as the in-memory one.\<close>

locale recording_repository = worker_job_repository +
  assumes record_total: "inv r \<Longrightarrow> \<exists>r'. jr_recordIdempotencyKey repo k i r = Inr r'"
begin

lemma findExistingJob_effect:
  assumes "mq_ok repo inv s"
  shows "findExistingJob repo key s = (Inr None, s) \<or>
     (\<exists>w u. findExistingJob repo key s = (Inr (Some w), u) \<and> mq_ok repo inv u \<and>
        mq_entry u = mq_entry s \<and> mq_entry s (job_id w) \<noteq> None)"
proof (cases "jr_findByIdempotencyKey repo key (mq_repo s)")
  case (Some w)
  then obtain i where "jr_load repo i (mq_repo s) = Some w"
    using find_key [OF mq_okD(1) [OF assms]] by (auto split: option.splits)
  then have w: "mq_job repo s (job_id w) = Some w"
    using mq_okD(3) [OF assms, of i w] by (auto simp: mq_job_def)
  then show ?thesis
    using Some mq_okD(5) [OF assms w] know_key_ok [OF assms, of "job_id w" key]
    by (auto simp: findExistingJob_def)
next
  case None
  show ?thesis
  proof (cases "mq_jobIdByIdempotencyKey s key")
    case None
    then show ?thesis
      using \<open>jr_findByIdempotencyKey repo key (mq_repo s) = None\<close> by (simp add: findExistingJob_def)
  next
    case (Some i)
    then have "mq_entry s i \<noteq> None" using assms by (simp add: mq_ok_def)
    then obtain w where w: "mq_job repo s i = Some w" using mq_okD(4) [OF assms] by blast
    then show ?thesis
      using Some None assms mq_okD(3,5) [OF assms w]
      by (auto simp: findExistingJob_def mq_job_def)
  qed
qed

lemma queue_work_type_code: "isSafeDomainCode (queue_work_type_name t)"
proof -
  have "list_all isSafeDomainCode (map queue_work_type_name queueWorkTypes)" by code_simp
  then show ?thesis using queue_work_type.complete [of t] by (auto simp: list_all_iff)
qed

lemma enqueue_mq_advances:
  assumes ok: "mq_ok repo inv s" and work: "0 < rp_maxAttempts (qw_retryPolicy work)"
  shows "mq_advances now (Enqueue work) s (snd (enqueue_mq repo now work s))"
proof (cases "createIdempotencyKey (qw_idempotencyKey work)")
  case (Inl e)
  then have "snd (enqueue_mq repo now work s) = s"
    by (cases e) (simp add: enqueue_mq_def act_lift_def)
  then show ?thesis using advances_same [OF ok] by simp
next
  case (Inr key)
  note found = findExistingJob_effect [OF ok, of key]
  show ?thesis
  proof (cases "findExistingJob repo key s = (Inr None, s)")
    case False
    then obtain w u where u: "findExistingJob repo key s = (Inr (Some w), u)" "mq_ok repo inv u"
        "mq_entry u = mq_entry s" "mq_entry s (job_id w) \<noteq> None"
      using found by blast
    then have "snd (enqueue_mq repo now work s) = u"
      using Inr by (simp add: enqueue_mq_def ensureQueueEntry_def)
    then show ?thesis using u by (auto simp: mq_advances_def)
  next
    case None: True
    let ?q = "queueWorkerJob (qw_jobId work) (qw_ownerContext work)
        (queue_work_type_name (qw_workType work)) (qw_retryPolicy work) (qw_safeMetadata work)"
    show ?thesis
    proof (cases ?q)
      case (Inl e)
      then have "snd (enqueue_mq repo now work s) = s"
        using None Inr by (cases e) (simp add: enqueue_mq_def act_lift_def)
      then show ?thesis using advances_same [OF ok] by simp
    next
      case w: (Inr w)
      note f = queueWorkerJob_fields [OF w]
      let ?e = "\<lparr>qe_work = work, qe_visibleAt = At now, qe_attempt = 0, qe_state = Entry_available,
               qe_reservationRef = None, qe_deadLetterReasonCode = None\<rparr>"
      let ?u0 = "put_both repo w ?e s"
      have "job_workType w = queue_work_type_name (qw_workType work)"
        using f(8) by (simp add: createSafeDomainCode_id queue_work_type_code)
      then have m: "mirrors (job_id w) ?e w"
        using f(1-4) by (simp add: mirrors_def nextReservationAttempt_def)
      have q: "queue_job w" using queueWorkerJob_wf [OF w] f work by (simp add: queue_job_def)
      have ok0: "mq_ok repo inv ?u0" by (rule put_both_ok [OF ok q m])
      let ?r = "jr_save repo w (mq_repo s)"
      have inv_r: "inv ?r" using save_inv mq_okD(1) [OF ok] by simp
      then obtain r' where r': "jr_recordIdempotencyKey repo key (qw_jobId work) ?r = Inr r'"
        using record_total by blast
      let ?u1 = "?u0\<lparr>mq_repo := r'\<rparr>"
      have "mq_job repo ?u1 = mq_job repo ?u0"
        using load_record [OF inv_r r'] by (simp add: mq_job_def put_both_def fun_eq_iff)
      moreover have "inv (mq_repo ?u1)" using record_inv [OF inv_r r'] by simp
      ultimately have "mq_ok repo inv ?u1" by (intro mq_ok_same_view [OF ok0]) simp_all
      then have ok2: "mq_ok repo inv (know_key key (qw_jobId work) ?u1)"
        using f(1) by (intro know_key_ok) simp_all
      have "snd (enqueue_mq repo now work s) = know_key key (qw_jobId work) ?u1"
        using None Inr w r' f(1)
        by (simp add: enqueue_mq_def save_job_eq record_key_def put_both_def set_entry_def know_key_def)
      then show ?thesis using ok2 f(1) by (auto simp: mq_advances_def)
    qed
  qed
qed

lemma mq_step_advances:
  assumes "mq_ok repo inv s" "command_ok (now, c)"
  shows "mq_advances now c s (mq_step repo timeout (now, c) s)"
  using assms
  by (cases c)
    (simp_all add: enqueue_mq_advances reserve_mq_advances acknowledge_mq_advances
      releaseForRetry_mq_advances moveToDeadLetter_mq_advances recoverVisibleJobs_mq_advances)

lemma mq_history_ok:
  "mq_ok repo inv s \<Longrightarrow> list_all command_ok cs \<Longrightarrow> mq_ok repo inv (mq_history repo timeout cs s)"
proof (induction cs arbitrary: s)
  case (Cons c cs)
  obtain now d where "c = (now, d)" by (cases c)
  with Cons mq_step_advances [of s now d timeout] show ?case
    by (simp add: mq_history_def mq_advances_def)
qed (simp add: mq_history_def)

text \<open>An entry through a history that does not enqueue its job anew.\<close>

lemma mq_history_entry:
  assumes "mq_ok repo inv s" "list_all command_ok cs" "mq_entry s i = Some e"
    and "\<forall>c \<in> set cs. enqueues (snd c) \<noteq> Some i"
  shows "\<exists>e'. mq_entry (mq_history repo timeout cs s) i = Some e' \<and> qe_attempt e \<le> qe_attempt e' \<and>
     (qe_state e = Entry_reserved \<longrightarrow> (\<forall>c \<in> set cs. \<not> visible_by (qe_visibleAt e) (fst c) \<and>
        settles (snd c) \<noteq> Some (i, qe_attempt e)) \<longrightarrow> e' = e)"
  using assms
proof (induction cs arbitrary: s e)
  case Nil
  then show ?case by (simp add: mq_history_def)
next
  case (Cons c cs)
  obtain now d where c: "c = (now, d)" by (cases c)
  let ?s = "mq_step repo timeout c s"
  have adv: "mq_advances now d s ?s"
    using mq_step_advances Cons.prems(1,2) c by simp
  moreover have "enqueues d \<noteq> Some i" using Cons.prems(4) c by simp
  ultimately obtain f where f: "mq_entry ?s i = Some f" "entry_later now d i e f"
    using Cons.prems(3) unfolding mq_advances_def by blast
  have ok: "mq_ok repo inv ?s" using adv by (simp add: mq_advances_def)
  from Cons.IH [OF ok _ f(1)] Cons.prems(2,4) obtain g where
    g: "mq_entry (mq_history repo timeout cs ?s) i = Some g" "qe_attempt f \<le> qe_attempt g"
      "qe_state f = Entry_reserved \<longrightarrow> (\<forall>c \<in> set cs. \<not> visible_by (qe_visibleAt f) (fst c) \<and>
        settles (snd c) \<noteq> Some (i, qe_attempt f)) \<longrightarrow> g = f"
    by auto
  have "mq_history repo timeout (c # cs) s = mq_history repo timeout cs ?s"
    by (simp add: mq_history_def)
  then show ?case using f g c by (auto simp: entry_later_def)
qed

lemma reserve_mq_Some:
  assumes "mq_ok repo inv s" "reserve_mq repo timeout now t s = (Inr (Some r), u)"
  shows "\<exists>v e w. taken_back now s v \<and> mq_ok repo inv v \<and>
     mq_entry v (rsv_jobId r) = Some e \<and> qe_state e = Entry_available \<and>
     mq_job repo v (rsv_jobId r) = Some w \<and> mirrors (rsv_jobId r) e w \<and> queue_job w \<and>
     rsv_attempt r = qe_attempt e + 1 \<and> mq_ok repo inv u \<and>
     mq_entry u (rsv_jobId r) = Some (taken_entry (now + timeout) w e) \<and>
     mq_job repo u (rsv_jobId r) = Some (taken w)"
proof -
  obtain v where v: "taken_back now s v" and
    run: "case findReservableEntry now t v of
        None \<Rightarrow> reserve_mq repo timeout now t s = (Inr None, v)
      | Some (i, e) \<Rightarrow>
          \<exists>w. mq_job repo v i = Some w \<and> mirrors i e w \<and>
            reserve_mq repo timeout now t s =
              (Inr (Some (entry_reservation w e)),
               put_both repo (taken w) (taken_entry (now + timeout) w e) v)"
    using reserve_mq_effect [OF assms(1)] by blast
  have okv: "mq_ok repo inv v" using v by (simp add: taken_back_def)
  obtain i e where f: "findReservableEntry now t v = Some (i, e)"
    using run assms(2) by (auto split: option.splits)
  note e = findReservableEntry_Some [OF okv f]
  obtain w where w: "mq_job repo v i = Some w" "mirrors i e w"
      "r = entry_reservation w e" "u = put_both repo (taken w) (taken_entry (now + timeout) w e) v"
    using run assms(2) f by auto
  have q: "queue_job w" "job_id w = i" using mq_okD(3) [OF okv w(1)] by auto
  have "rsv_jobId r = i" "rsv_attempt r = qe_attempt e + 1"
    using w(2,3) by (simp_all add: entry_reservation_def mirrors_def)
  then show ?thesis
    using v okv e(1,3) w(1,2,4) q taken_ok [OF okv w(1,2) e(3)] mq_okD(1) [OF okv] by auto
qed

lemma reserve_mq_exclusive:
  assumes ok: "mq_ok repo inv s"
    and r: "reserve_mq repo timeout now t s = (Inr (Some r), u)"
    and cs: "list_all command_ok cs"
      "\<forall>c \<in> set cs. fst c < now + timeout \<and> enqueues (snd c) \<noteq> Some (rsv_jobId r) \<and>
         settles (snd c) \<noteq> Some (rsv_jobId r, rsv_attempt r)"
    and now': "now' < now + timeout"
    and r': "reserve_mq repo timeout now' t' (mq_history repo timeout cs u) = (Inr (Some r'), u')"
  shows "rsv_jobId r' \<noteq> rsv_jobId r"
proof
  assume same: "rsv_jobId r' = rsv_jobId r"
  obtain e w where e: "mq_ok repo inv u" "rsv_attempt r = qe_attempt e + 1"
      "mq_entry u (rsv_jobId r) = Some (taken_entry (now + timeout) w e)"
    using reserve_mq_Some [OF ok r] by blast
  let ?h = "mq_history repo timeout cs u"
  have okh: "mq_ok repo inv ?h" by (rule mq_history_ok [OF e(1) cs(1)])
  have h: "mq_entry ?h (rsv_jobId r) = Some (taken_entry (now + timeout) w e)"
    using mq_history_entry [OF e(1) cs(1) e(3), of timeout] cs(2) e(2)
    by (fastforce simp: taken_entry_def)
  obtain v f where f: "taken_back now' ?h v" "mq_entry v (rsv_jobId r) = Some f"
      "qe_state f = Entry_available"
    using reserve_mq_Some [OF okh r'] same by auto
  have "\<not> lease_over now' (taken_entry (now + timeout) w e)"
    using now' by (simp add: lease_over_def taken_entry_def)
  then have "f = taken_entry (now + timeout) w e"
    using f(1,2) h mq_okD(4) [OF okh h] by (auto simp: taken_back_def)
  with f(3) show False by (simp add: taken_entry_def)
qed

lemma reserve_mq_attempts:
  assumes ok: "mq_ok repo inv s"
    and r: "reserve_mq repo timeout now t s = (Inr (Some r), u)"
    and cs: "list_all command_ok cs" "\<forall>c \<in> set cs. enqueues (snd c) \<noteq> Some (rsv_jobId r)"
    and r': "reserve_mq repo timeout now' t' (mq_history repo timeout cs u) = (Inr (Some r'), u')"
    and same: "rsv_jobId r' = rsv_jobId r"
  shows "rsv_attempt r < rsv_attempt r' \<and>
     (\<exists>w. mq_job repo u' (rsv_jobId r) = Some w \<and> rsv_attempt r' \<le> rp_maxAttempts (job_retryPolicy w))"
proof -
  obtain e w where e: "mq_ok repo inv u" "rsv_attempt r = qe_attempt e + 1"
      "mq_entry u (rsv_jobId r) = Some (taken_entry (now + timeout) w e)"
    using reserve_mq_Some [OF ok r] by blast
  let ?h = "mq_history repo timeout cs u"
  have okh: "mq_ok repo inv ?h" by (rule mq_history_ok [OF e(1) cs(1)])
  obtain g where g: "mq_entry ?h (rsv_jobId r) = Some g" "rsv_attempt r \<le> qe_attempt g"
    using mq_history_entry [OF e(1) cs(1) e(3) cs(2), of timeout] e(2) by (auto simp: taken_entry_def)
  obtain v f x where f: "taken_back now' ?h v" "mq_entry v (rsv_jobId r) = Some f"
      "rsv_attempt r' = qe_attempt f + 1" "queue_job x" "mirrors (rsv_jobId r) f x"
      "qe_state f = Entry_available" "mq_job repo u' (rsv_jobId r) = Some (taken x)"
    using reserve_mq_Some [OF okh r'] unfolding same by blast
  have "qe_attempt g \<le> qe_attempt f"
    using entry_later_taken_back [OF okh f(1) g(1), of RecoverVisible] f(2)
    by (auto simp: entry_later_def)
  moreover have "qe_attempt f + 1 \<le> rp_maxAttempts (job_retryPolicy x)"
    using nextReservationAttempt_bounds [OF f(4)] f(5,6) by (auto simp: mirrors_def)
  ultimately show ?thesis using g(2) f(3,7) by simp
qed

lemma reserve_mq_answers:
  assumes ok: "mq_ok repo inv s"
  shows "\<exists>a u. reserve_mq repo timeout now t s = (Inr a, u) \<and> mq_ok repo inv u \<and>
     (a = None \<longleftrightarrow> (\<forall>i e w. mq_entry s i = Some e \<longrightarrow> mq_job repo s i = Some w \<longrightarrow>
        qw_workType (qe_work e) = t \<longrightarrow>
        \<not> (qe_state e = Entry_available \<and> visible_by (qe_visibleAt e) now) \<and>
        \<not> (lease_over now e \<and> qe_attempt e < rp_maxAttempts (job_retryPolicy w))))"
    (is "\<exists>a u. ?run a u \<and> ?ok u \<and> (a = None \<longleftrightarrow> ?none)")
proof -
  obtain v where v: "taken_back now s v" and
    run: "case findReservableEntry now t v of
        None \<Rightarrow> reserve_mq repo timeout now t s = (Inr None, v)
      | Some (i, e) \<Rightarrow>
          \<exists>w. mq_job repo v i = Some w \<and> mirrors i e w \<and>
            reserve_mq repo timeout now t s =
              (Inr (Some (entry_reservation w e)),
               put_both repo (taken w) (taken_entry (now + timeout) w e) v)"
    using reserve_mq_effect [OF ok] by blast
  have okv: "mq_ok repo inv v" using v by (simp add: taken_back_def)
  have view: "mq_entry v i = Some (if lease_over now e then recovered_entry now w e else e)"
    if "mq_entry s i = Some e" "mq_job repo s i = Some w" for i e w
    using v that by (simp add: taken_back_def)
  show ?thesis
  proof (cases "findReservableEntry now t v")
    case None
    have ?none
    proof (intro allI impI)
      fix i e w
      assume e: "mq_entry s i = Some e" "mq_job repo s i = Some w" "qw_workType (qe_work e) = t"
      from findReservableEntry_None [OF None view [OF e(1,2)]] e(3)
      show "\<not> (qe_state e = Entry_available \<and> visible_by (qe_visibleAt e) now) \<and>
          \<not> (lease_over now e \<and> qe_attempt e < rp_maxAttempts (job_retryPolicy w))"
        by (auto simp: lease_over_def recovered_entry_def split: if_splits)
    qed
    then show ?thesis using None run okv by auto
  next
    case (Some ie)
    then obtain i f where f: "findReservableEntry now t v = Some (i, f)" by (cases ie) auto
    note g = findReservableEntry_Some [OF okv f]
    have "mq_entry s i \<noteq> None" using v g(1) by (auto simp: taken_back_def)
    then obtain e w where e: "mq_entry s i = Some e" "mq_job repo s i = Some w"
      using mq_okD(4) [OF ok] by blast
    have "f = (if lease_over now e then recovered_entry now w e else e)"
      using view [OF e] g(1) by simp
    then have "\<not> ?none"
      using e g(2-4) by (fastforce simp: recovered_entry_def split: if_splits)
    then show ?thesis
      using f run taken_ok [OF okv _ _ g(3)] by fastforce
  qed
qed

end

interpretation recording_mem: recording_repository mem_repository mem_inv "\<lambda>k r. mj_keys r k"
  by unfold_locales (simp add: mem_repository_def mem_recordIdempotencyKey_def)

definition memory_empty :: "'r \<Rightarrow> 'r memory_queue" where
  "memory_empty r = \<lparr>mq_repo = r, mq_entries = [], mq_jobIdByIdempotencyKey = (\<lambda>_. None)\<rparr>"

definition memory_reached :: "int \<Rightarrow> (int \<times> queue_command) list \<Rightarrow> mem_jobs memory_queue" where
  "memory_reached timeout cs = mq_history mem_repository timeout cs (memory_empty mem_empty)"

lemma memory_empty_ok: "mq_ok mem_repository mem_inv (memory_empty mem_empty)"
  by (simp add: mq_ok_def memory_empty_def mq_job_def mem_repository_def mem_load_def mem_empty_def
      mem_inv_def mq_entry_def)

lemma memory_reached_ok:
  "list_all command_ok cs \<Longrightarrow> mq_ok mem_repository mem_inv (memory_reached timeout cs)"
  unfolding memory_reached_def by (rule recording_mem.mq_history_ok [OF memory_empty_ok])

section \<open>A provider that starts over a filled store\<close>

text \<open>
  Adopting the stored jobs gives each an available entry, in the order of the list.
\<close>

lemma update_new: "k \<notin> fst ` set xs \<Longrightarrow> AList.update k v xs = xs @ [(k, v)]"
  by (induction xs) auto

lemma adoptJobs_effect:
  "\<exists>m u zs. adoptJobs now ws n s = (Inr m, u) \<and> mq_repo u = mq_repo s \<and>
     mq_entries u = mq_entries s @ zs \<and> (\<forall>(i, e) \<in> set zs. qe_state e = Entry_available)"
proof (induction ws arbitrary: n s)
  case Nil
  show ?case by simp
next
  case (Cons w ws)
  show ?case
  proof (cases "\<exists>t. narrow queue_work_type_name queueWorkTypes (job_workType w) = Some t \<and>
      mq_entry s (job_id w) = None")
    case False
    then have "adoptJobs now (w # ws) n s = adoptJobs now ws n s"
      by (auto split: option.split)
    then show ?thesis using Cons.IH [of n s] by simp
  next
    case True
    then obtain t where t: "narrow queue_work_type_name queueWorkTypes (job_workType w) = Some t"
        "mq_entry s (job_id w) = None" by blast
    let ?s = "set_entry (job_id w) (adopted_entry now w t) s"
    have run: "adoptJobs now (w # ws) n s = adoptJobs now ws (n + 1) ?s" using t by simp
    have "mq_entries ?s = mq_entries s @ [(job_id w, adopted_entry now w t)]"
      using t(2) by (simp add: set_entry_def mq_entry_def update_new map_of_eq_None_iff)
    moreover have "qe_state (adopted_entry now w t) = Entry_available"
      by (simp add: adopted_entry_def)
    ultimately show ?thesis using Cons.IH [of "n + 1" ?s] run by fastforce
  qed
qed

lemma recoverEntries_available:
  assumes "\<forall>i \<in> set is. \<forall>e. mq_entry s i = Some e \<longrightarrow> qe_state e = Entry_available"
  shows "recoverEntries repo now is n s = (Inr n, s)"
  using assms by (induction "is") (auto split: option.split)

lemma recoverVisibleJobs_mq_fresh:
  assumes "jr_findByStatus repo Job_queued r = []"
    and "jr_findByStatus repo Job_retrying r = w # ws" "job_workType w = queue_work_type_name t"
  shows "\<exists>m u zs. recoverVisibleJobs_mq repo now (memory_empty r) = (Inr m, u) \<and> mq_repo u = r \<and>
     mq_entries u = (job_id w, adopted_entry now w t) # zs \<and>
     (\<forall>(i, e) \<in> set (mq_entries u). qe_state e = Entry_available)"
proof -
  let ?s = "set_entry (job_id w) (adopted_entry now w t) (memory_empty r)"
  have e: "mq_entries ?s = [(job_id w, adopted_entry now w t)]" "mq_repo ?s = r"
    by (simp_all add: set_entry_def memory_empty_def)
  have "recoverExpiredReservations repo now (memory_empty r) = (Inr 0, memory_empty r)"
    by (simp add: recoverExpiredReservations_def memory_empty_def)
  moreover have "narrow queue_work_type_name queueWorkTypes (job_workType w) = Some t"
    using assms(3) by simp
  moreover have "mq_entry (memory_empty r) (job_id w) = None" "mq_repo (memory_empty r) = r"
    by (simp_all add: memory_empty_def mq_entry_def)
  ultimately have "recoverVisibleJobs_mq repo now (memory_empty r) = adoptJobs now ws 1 ?s"
    using assms(1,2) by (simp add: recoverVisibleJobs_mq_def)
  then show ?thesis
    using adoptJobs_effect [of now ws 1 ?s] e by (auto simp: adopted_entry_def)
qed

lemma reserve_mq_exhausted_head:
  assumes "mq_entries s = (i, e) # zs" "\<forall>(i, e) \<in> set (mq_entries s). qe_state e = Entry_available"
    and "qw_workType (qe_work e) = t" "visible_by (qe_visibleAt e) now"
    and "jr_load repo (qw_jobId (qe_work e)) (mq_repo s) = Some w"
    and "rp_maxAttempts (job_retryPolicy w) < qe_attempt e + 1"
  shows "\<exists>f. reserve_mq repo timeout now t s = (Inl f, s)"
proof -
  have "qe_state d = Entry_available" if "mq_entry s j = Some d" for j d
    using that assms(2) map_of_SomeD by (fastforce simp: mq_entry_def)
  then have rec: "recoverExpiredReservations repo now s = (Inr 0, s)"
    unfolding recoverExpiredReservations_def by (intro recoverEntries_available) blast
  have find: "findReservableEntry now t s = Some (i, e)"
    using assms(1-4) by (simp add: findReservableEntry_def)
  have "\<exists>m. result_bind (createAttemptNumber (num_of (qe_attempt e + 1)) (Some (job_retryPolicy w)))
      (reserveWorkerJob w) = Inl (TypeError m)"
    using assms(6) unfolding createAttemptNumber_int by auto
  then obtain m where "result_bind
      (createAttemptNumber (num_of (qe_attempt e + 1)) (Some (job_retryPolicy w)))
      (reserveWorkerJob w) = Inl (TypeError m)" by blast
  then show ?thesis
    using rec find assms(5)
    by (simp add: reserve_mq_def loadWorkerJob_mq_def Let_def act_lift_def capturePortFailure_def)
qed

end
