(* ===== verification/RateLimiter.thy ===== *)
theory RateLimiter
  imports PolicyValues "HOL-Library.AList"
begin

text \<open>
  \<open>apps/api/src/api-rate-limiter.ts\<close>: the fixed-window rate limiter of the HTTP API, with buckets
  of its own (\<open>InMemoryFixedWindowRateLimiter\<close>) or over a counter store
  (\<open>SharedFixedWindowRateLimiter\<close>), and the two stores: a map in memory, and Redis, whose script
  is part of the source.  The clock is an argument in whole milliseconds; a JavaScript \<open>Map\<close> is an
  association list in insertion order.  The platform's URL parser and SHA-256 are parameters.
\<close>

section \<open>Endpoint classes\<close>

datatype endpoint_class =
  Class_read | Class_write | Class_message_send | Class_admin | Class_event_stream

fun endpoint_class_name :: "endpoint_class \<Rightarrow> string" where
  "endpoint_class_name Class_read = ''read''"
| "endpoint_class_name Class_write = ''write''"
| "endpoint_class_name Class_message_send = ''message_send''"
| "endpoint_class_name Class_admin = ''admin''"
| "endpoint_class_name Class_event_stream = ''event_stream''"

definition apiRateLimitEndpointClasses :: "endpoint_class list" where
  "apiRateLimitEndpointClasses =
     [Class_read, Class_write, Class_message_send, Class_admin, Class_event_stream]"

interpretation endpoint_class: string_union endpoint_class_name apiRateLimitEndpointClasses
proof
  show "distinct (map endpoint_class_name apiRateLimitEndpointClasses)"
    by (simp add: apiRateLimitEndpointClasses_def)
  show "v \<in> set apiRateLimitEndpointClasses" for v
    by (cases v) (simp_all add: apiRateLimitEndpointClasses_def)
qed

definition isApiRateLimitEndpointClass :: "string \<Rightarrow> bool" where
  "isApiRateLimitEndpointClass value \<longleftrightarrow>
     value \<in> set (map endpoint_class_name apiRateLimitEndpointClasses)"

text \<open>\<open>String.includes\<close> and \<open>toUpperCase\<close> (of the letters a method name can have).\<close>

fun js_includes :: "string \<Rightarrow> string \<Rightarrow> bool" where
  "js_includes [] t \<longleftrightarrow> t = []"
| "js_includes (c # cs) t \<longleftrightarrow> js_starts_with (c # cs) t \<or> js_includes cs t"

definition js_upper :: "string \<Rightarrow> string" where
  "js_upper s = map (\<lambda>c. if lower_letter c then char_of (code_unit c - 32) else c) s"

text \<open>\<open>parse url\<close> is the pathname of the URL, \<open>None\<close> when the parser throws.\<close>

definition parsePathname :: "(string \<Rightarrow> string option) \<Rightarrow> string \<Rightarrow> string" where
  "parsePathname parse urlInput = value_or (parse urlInput) ''/''"

definition classifyRateLimitEndpoint ::
    "(string \<Rightarrow> string option) \<Rightarrow> string \<Rightarrow> string \<Rightarrow> endpoint_class" where
  "classifyRateLimitEndpoint parse methodInput urlInput =
     (let method = js_upper methodInput;
          pathname = parsePathname parse urlInput
      in if pathname = ''/v1/events/stream'' then Class_event_stream
         else if js_starts_with pathname ''/v1/settings'' \<or>
           js_starts_with pathname ''/v1/audit-records'' \<or> js_starts_with pathname ''/v1/api-keys''
         then Class_admin
         else if js_includes pathname ''/messages'' \<and> method \<noteq> ''GET'' then Class_message_send
         else if method = ''GET'' \<or> method = ''HEAD'' then Class_read
         else Class_write)"

section \<open>Buckets\<close>

datatype scope_kind = Scope_instance | Scope_resource | Scope_global

fun scope_kind_name :: "scope_kind \<Rightarrow> string" where
  "scope_kind_name Scope_instance = ''instance''"
| "scope_kind_name Scope_resource = ''resource''"
| "scope_kind_name Scope_global = ''global''"

text \<open>The fields of a request the limiter reads.\<close>

record rate_request =
  rr_keyId :: string
  rr_endpointClass :: endpoint_class
  rr_instanceRef :: "string option"
  rr_targetRef :: "string option"

record bucket_descriptor =
  bd_keyId :: string
  bd_endpointClass :: endpoint_class
  bd_scopeRef :: string
  bd_scopeKind :: scope_kind

definition createRateLimitBucketDescriptor :: "rate_request \<Rightarrow> bucket_descriptor" where
  "createRateLimitBucketDescriptor request =
     (case rr_instanceRef request of
        Some i \<Rightarrow> \<lparr>bd_keyId = rr_keyId request, bd_endpointClass = rr_endpointClass request,
                  bd_scopeRef = i, bd_scopeKind = Scope_instance\<rparr>
      | None \<Rightarrow>
          (case rr_targetRef request of
             Some t \<Rightarrow> \<lparr>bd_keyId = rr_keyId request, bd_endpointClass = rr_endpointClass request,
                       bd_scopeRef = t, bd_scopeKind = Scope_resource\<rparr>
           | None \<Rightarrow> \<lparr>bd_keyId = rr_keyId request, bd_endpointClass = rr_endpointClass request,
                     bd_scopeRef = ''global'', bd_scopeKind = Scope_global\<rparr>))"

definition createRateLimitBucketKey :: "bucket_descriptor \<Rightarrow> string" where
  "createRateLimitBucketKey d =
     js_join '':'' [bd_keyId d, endpoint_class_name (bd_endpointClass d),
                    scope_kind_name (bd_scopeKind d), bd_scopeRef d]"

record rate_bucket =
  rb_windowStart :: int
  rb_count :: int

definition getWindowStart :: "int \<Rightarrow> int \<Rightarrow> int" where
  "getWindowStart now windowMilliseconds = (now div windowMilliseconds) * windowMilliseconds"

definition isCurrentWindow :: "rate_bucket \<Rightarrow> int \<Rightarrow> int \<Rightarrow> bool" where
  "isCurrentWindow bucket now windowMilliseconds \<longleftrightarrow>
     rb_windowStart bucket = getWindowStart now windowMilliseconds"

datatype rate_decision =
    Allowed (rd_limit: int) (rd_remaining: int) (rd_resetAt: int) (rd_bucketKey: string)
  | Denied (rd_limit: int) (rd_resetAt: int) (rd_retryAfter: int) (rd_bucketKey: string)

section \<open>Options\<close>

record limiter_options =
  lo_maxRequests :: int
  lo_windowMilliseconds :: int
  lo_endpointClassLimits :: "(string \<times> int) list"

fun checkEndpointLimits :: "(string \<times> jsnum) list \<Rightarrow> (string \<times> int) list result" where
  "checkEndpointLimits [] = Inr []"
| "checkEndpointLimits ((c, v) # rest) =
     (if \<not> isApiRateLimitEndpointClass c
      then Inl (TypeError (''Unsupported endpoint class limit: '' @ c))
      else result_bind (assertPositiveInteger v (c @ '' limit'')) (\<lambda>n.
             result_map ((#) (c, n)) (checkEndpointLimits rest)))"

definition createLimiterOptions ::
    "jsnum \<Rightarrow> jsnum \<Rightarrow> (string \<times> jsnum) list \<Rightarrow> limiter_options result" where
  "createLimiterOptions maxRequests windowMilliseconds endpointClassLimits =
     result_bind (assertPositiveInteger maxRequests ''maxRequests'') (\<lambda>m.
     result_bind (assertPositiveInteger windowMilliseconds ''windowMilliseconds'') (\<lambda>w.
     result_bind (checkEndpointLimits endpointClassLimits) (\<lambda>ls.
     Inr \<lparr>lo_maxRequests = m, lo_windowMilliseconds = w, lo_endpointClassLimits = ls\<rparr>)))"

definition limitFor :: "limiter_options \<Rightarrow> endpoint_class \<Rightarrow> int" where
  "limitFor opts c =
     value_or (map_of (lo_endpointClassLimits opts) (endpoint_class_name c)) (lo_maxRequests opts)"

section \<open>InMemoryFixedWindowRateLimiter\<close>

record local_limiter =
  ll_buckets :: "(string \<times> rate_bucket) list"
  ll_descriptors :: "(string \<times> bucket_descriptor) list"

definition getCurrentBucket ::
    "limiter_options \<Rightarrow> string \<Rightarrow> int \<Rightarrow> local_limiter \<Rightarrow> rate_bucket \<times> local_limiter" where
  "getCurrentBucket opts key now s =
     (let start = getWindowStart now (lo_windowMilliseconds opts);
          fresh = \<lparr>rb_windowStart = start, rb_count = 0\<rparr>
      in case map_of (ll_buckets s) key of
           Some b \<Rightarrow> if rb_windowStart b = start then (b, s)
                     else (fresh, s\<lparr>ll_buckets := AList.update key fresh (ll_buckets s)\<rparr>)
         | None \<Rightarrow> (fresh, s\<lparr>ll_buckets := AList.update key fresh (ll_buckets s)\<rparr>))"

definition check_local ::
    "limiter_options \<Rightarrow> int \<Rightarrow> rate_request \<Rightarrow> local_limiter \<Rightarrow> rate_decision \<times> local_limiter" where
  "check_local opts now request s =
     (let d = createRateLimitBucketDescriptor request;
          key = createRateLimitBucketKey d;
          limit = limitFor opts (rr_endpointClass request);
          s1 = s\<lparr>ll_descriptors := AList.update key d (ll_descriptors s)\<rparr>;
          (bucket, s2) = getCurrentBucket opts key now s1;
          resetAt = rb_windowStart bucket + lo_windowMilliseconds opts
      in if limit \<le> rb_count bucket
         then (Denied limit resetAt (max 0 (resetAt - now)) key, s2)
         else let bucket' = bucket\<lparr>rb_count := rb_count bucket + 1\<rparr>
              in (Allowed limit (limit - rb_count bucket') resetAt key,
                  s2\<lparr>ll_buckets := AList.update key bucket' (ll_buckets s2)\<rparr>))"

record bucket_snapshot =
  bs_bucketKey :: string
  bs_keyId :: string
  bs_endpointClass :: endpoint_class
  bs_scopeRef :: string
  bs_scopeKind :: scope_kind
  bs_count :: int
  bs_limit :: int
  bs_remaining :: int
  bs_resetAt :: int

definition snapshot_local :: "limiter_options \<Rightarrow> int \<Rightarrow> local_limiter \<Rightarrow> bucket_snapshot list" where
  "snapshot_local opts now s =
     map (\<lambda>(key, bucket).
       let d = map_of (ll_descriptors s) key;
           c = value_or (map_option bd_endpointClass d) Class_read;
           limit = limitFor opts c;
           count = (if isCurrentWindow bucket now (lo_windowMilliseconds opts)
                    then rb_count bucket else 0)
       in \<lparr>bs_bucketKey = key, bs_keyId = value_or (map_option bd_keyId d) ''unknown'',
           bs_endpointClass = c, bs_scopeRef = value_or (map_option bd_scopeRef d) ''global'',
           bs_scopeKind = value_or (map_option bd_scopeKind d) Scope_global, bs_count = count,
           bs_limit = limit, bs_remaining = max 0 (limit - count),
           bs_resetAt = rb_windowStart bucket + lo_windowMilliseconds opts\<rparr>)
       (ll_buckets s)"

section \<open>SharedFixedWindowRateLimiter over a counter store\<close>

record consume_input =
  ci_bucketKey :: string
  ci_descriptor :: bucket_descriptor
  ci_limit :: int
  ci_windowStart :: int
  ci_resetAt :: int
  ci_expiresAfter :: int

record consume_result =
  cr_allowed :: bool
  cr_count :: int
  cr_resetAt :: int

text \<open>A store's \<open>consume\<close> may reject; it is called at a time of the store's own clock.\<close>

type_synonym 's counter_store = "int \<Rightarrow> consume_input \<Rightarrow> 's \<Rightarrow> consume_result result \<times> 's"

definition check_shared ::
    "'s counter_store \<Rightarrow> limiter_options \<Rightarrow> int \<Rightarrow> rate_request \<Rightarrow> 's \<Rightarrow> rate_decision result \<times> 's" where
  "check_shared consume opts now request s =
     (let d = createRateLimitBucketDescriptor request;
          key = createRateLimitBucketKey d;
          limit = limitFor opts (rr_endpointClass request);
          start = getWindowStart now (lo_windowMilliseconds opts);
          resetAt = start + lo_windowMilliseconds opts
      in case consume now
             \<lparr>ci_bucketKey = key, ci_descriptor = d, ci_limit = limit, ci_windowStart = start,
              ci_resetAt = resetAt, ci_expiresAfter = max 1 (resetAt - now)\<rparr> s of
           (Inl e, s') \<Rightarrow> (Inl e, s')
         | (Inr r, s') \<Rightarrow>
             (if \<not> cr_allowed r
              then (Inr (Denied limit (cr_resetAt r) (max 0 (cr_resetAt r - now)) key), s')
              else (Inr (Allowed limit (max 0 (limit - cr_count r)) (cr_resetAt r) key), s')))"

subsection \<open>InMemoryRateLimitCounterStore\<close>

record memory_store =
  ms_buckets :: "(string \<times> rate_bucket) list"
  ms_descriptors :: "(string \<times> bucket_descriptor) list"
  ms_limits :: "(string \<times> int) list"

definition consume_memory :: "memory_store counter_store" where
  "consume_memory clock input s =
     (let key = ci_bucketKey input;
          s1 = s\<lparr>ms_descriptors := AList.update key (ci_descriptor input) (ms_descriptors s),
                 ms_limits := AList.update key (ci_limit input) (ms_limits s)\<rparr>;
          fresh = \<lparr>rb_windowStart = ci_windowStart input, rb_count = 0\<rparr>;
          bucket = (case map_of (ms_buckets s) key of
              Some b \<Rightarrow> if rb_windowStart b = ci_windowStart input then b else fresh
            | None \<Rightarrow> fresh);
          s2 = s1\<lparr>ms_buckets := AList.update key bucket (ms_buckets s1)\<rparr>
      in if ci_limit input \<le> rb_count bucket
         then (Inr \<lparr>cr_allowed = False, cr_count = rb_count bucket, cr_resetAt = ci_resetAt input\<rparr>, s2)
         else let bucket' = bucket\<lparr>rb_count := rb_count bucket + 1\<rparr>
              in (Inr \<lparr>cr_allowed = True, cr_count = rb_count bucket', cr_resetAt = ci_resetAt input\<rparr>,
                  s2\<lparr>ms_buckets := AList.update key bucket' (ms_buckets s2)\<rparr>))"

definition snapshot_memory :: "int \<Rightarrow> int \<Rightarrow> memory_store \<Rightarrow> bucket_snapshot list" where
  "snapshot_memory now windowMilliseconds s =
     map (\<lambda>(key, bucket).
       let d = map_of (ms_descriptors s) key;
           limit = value_or (map_of (ms_limits s) key) 1;
           count = (if isCurrentWindow bucket now windowMilliseconds then rb_count bucket else 0)
       in \<lparr>bs_bucketKey = key, bs_keyId = value_or (map_option bd_keyId d) ''unknown'',
           bs_endpointClass = value_or (map_option bd_endpointClass d) Class_read,
           bs_scopeRef = value_or (map_option bd_scopeRef d) ''global'',
           bs_scopeKind = value_or (map_option bd_scopeKind d) Scope_global, bs_count = count,
           bs_limit = limit, bs_remaining = max 0 (limit - count),
           bs_resetAt = rb_windowStart bucket + windowMilliseconds\<rparr>)
       (ms_buckets s)"

subsection \<open>RedisRateLimitCounterStore\<close>

text \<open>
  A Redis hash with its expiry.  The script runs as one command; a key past its expiry is gone.
  \<open>windowStart\<close> is stored and compared as text, numbers go through \<open>String\<close> and \<open>tonumber\<close>.
\<close>

record redis_hash =
  rh_windowStart :: string
  rh_count :: int
  rh_expiresAt :: int

type_synonym redis_store = "string \<Rightarrow> redis_hash option"

definition redis_get :: "int \<Rightarrow> string \<Rightarrow> redis_store \<Rightarrow> redis_hash option" where
  "redis_get clock k db =
     (case db k of None \<Rightarrow> None | Some h \<Rightarrow> if rh_expiresAt h \<le> clock then None else Some h)"

text \<open>\<open>redisFixedWindowConsumeScript\<close>: the reply \<open>{allowed, count, resetAt}\<close> and the new store.\<close>

definition redisFixedWindowConsumeScript ::
    "int \<Rightarrow> string \<Rightarrow> string \<Rightarrow> int \<Rightarrow> int \<Rightarrow> int \<Rightarrow> redis_store \<Rightarrow> (int \<times> int \<times> int) \<times> redis_store" where
  "redisFixedWindowConsumeScript clock k windowStart resetAt expiresAfter limit db =
     (let h = (case redis_get clock k db of
            Some h \<Rightarrow> if rh_windowStart h \<noteq> windowStart
                      then \<lparr>rh_windowStart = windowStart, rh_count = 0, rh_expiresAt = clock + expiresAfter\<rparr>
                      else h
          | None \<Rightarrow> \<lparr>rh_windowStart = windowStart, rh_count = 0, rh_expiresAt = clock + expiresAfter\<rparr>)
      in if limit \<le> rh_count h then ((0, rh_count h, resetAt), db(k \<mapsto> h))
         else ((1, rh_count h + 1, resetAt),
               db(k \<mapsto> h\<lparr>rh_count := rh_count h + 1, rh_expiresAt := clock + expiresAfter\<rparr>)))"

definition parseRedisConsumeResult :: "int \<times> int \<times> int \<Rightarrow> consume_result result" where
  "parseRedisConsumeResult reply =
     (case reply of (allowed, count, resetAt) \<Rightarrow>
        if (allowed \<noteq> 0 \<and> allowed \<noteq> 1) \<or> \<not> \<bar>count\<bar> \<le> max_safe_integer \<or> count < 0 \<or>
           \<not> \<bar>resetAt\<bar> \<le> max_safe_integer \<or> resetAt < 0
        then Inl (TypeError ''Redis rate limit script returned an invalid result.'')
        else Inr \<lparr>cr_allowed = (allowed = 1), cr_count = count, cr_resetAt = resetAt\<rparr>)"

definition consume_redis :: "(string \<Rightarrow> string) \<Rightarrow> string \<Rightarrow> redis_store counter_store" where
  "consume_redis hashSafeBucketKey keyPrefix clock input db =
     (let (reply, db') = redisFixedWindowConsumeScript clock
            (keyPrefix @ '':'' @ hashSafeBucketKey (ci_bucketKey input))
            (show_int (ci_windowStart input)) (ci_resetAt input) (ci_expiresAfter input)
            (ci_limit input) db
      in (parseRedisConsumeResult reply, db'))"

end
