(* ===== verification/RateLimiterLaws.thy ===== *)
theory RateLimiterLaws
  imports RateLimiter
begin

text \<open>
  One description of a fixed window, a counter per bucket key and window, that the local limiter
  and the shared limiter over either store implement; what it decides over a run of requests.
\<close>

section \<open>The window as a counter\<close>

definition request_key :: "rate_request \<Rightarrow> string" where
  "request_key request = createRateLimitBucketKey (createRateLimitBucketDescriptor request)"

definition window_decision ::
    "limiter_options \<Rightarrow> int \<Rightarrow> rate_request \<Rightarrow> int \<Rightarrow> rate_decision" where
  "window_decision opts now request c =
     (let limit = limitFor opts (rr_endpointClass request);
          resetAt = getWindowStart now (lo_windowMilliseconds opts) + lo_windowMilliseconds opts
      in if limit \<le> c then Denied limit resetAt (max 0 (resetAt - now)) (request_key request)
         else Allowed limit (limit - (c + 1)) resetAt (request_key request))"

fun is_allowed :: "rate_decision \<Rightarrow> bool" where
  "is_allowed (Allowed _ _ _ _) \<longleftrightarrow> True"
| "is_allowed (Denied _ _ _ _) \<longleftrightarrow> False"

lemma is_allowed_window [simp]:
  "is_allowed (window_decision opts now request c) \<longleftrightarrow> c < limitFor opts (rr_endpointClass request)"
  by (simp add: window_decision_def Let_def)

definition stored_count :: "(string \<times> rate_bucket) list \<Rightarrow> string \<Rightarrow> int \<Rightarrow> int" where
  "stored_count bs k w =
     (case map_of bs k of None \<Rightarrow> 0 | Some b \<Rightarrow> if rb_windowStart b = w then rb_count b else 0)"

text \<open>What one request does to the counter: other windows of the key are forgotten.\<close>

definition counted ::
    "limiter_options \<Rightarrow> int \<Rightarrow> rate_request \<Rightarrow> (string \<Rightarrow> int \<Rightarrow> int) \<Rightarrow> string \<Rightarrow> int \<Rightarrow> int" where
  "counted opts now request count k w =
     (let start = getWindowStart now (lo_windowMilliseconds opts);
          c = count (request_key request) start
      in if k \<noteq> request_key request then count k w
         else if w \<noteq> start then 0
         else if limitFor opts (rr_endpointClass request) \<le> c then c else c + 1)"

lemma stored_count_update:
  "stored_count (AList.update k b bs) k' w =
     (if k' = k then (if rb_windowStart b = w then rb_count b else 0) else stored_count bs k' w)"
  by (simp add: stored_count_def update_conv')

lemma check_local_eq:
  "\<exists>s'. check_local opts now request s =
      (window_decision opts now request
         (stored_count (ll_buckets s) (request_key request)
            (getWindowStart now (lo_windowMilliseconds opts))), s') \<and>
     stored_count (ll_buckets s') = counted opts now request (stored_count (ll_buckets s))"
  by (auto simp: check_local_def getCurrentBucket_def window_decision_def counted_def Let_def
      fun_eq_iff stored_count_update request_key_def split: option.splits)
    (auto simp: stored_count_def split: option.splits)

section \<open>Stores\<close>

text \<open>
  The input a limiter makes at \<open>now\<close>, and what a store promises for it.
\<close>

definition consume_request :: "limiter_options \<Rightarrow> int \<Rightarrow> rate_request \<Rightarrow> consume_input" where
  "consume_request opts now request =
     (let start = getWindowStart now (lo_windowMilliseconds opts);
          resetAt = start + lo_windowMilliseconds opts
      in \<lparr>ci_bucketKey = request_key request,
          ci_descriptor = createRateLimitBucketDescriptor request,
          ci_limit = limitFor opts (rr_endpointClass request), ci_windowStart = start,
          ci_resetAt = resetAt, ci_expiresAfter = max 1 (resetAt - now)\<rparr>)"

locale fixed_window_store =
  fixes consume :: "'s counter_store"
    and opts :: limiter_options
    and inv :: "'s \<Rightarrow> bool"
    and count :: "'s \<Rightarrow> string \<Rightarrow> int \<Rightarrow> int"
    and good :: "int \<Rightarrow> rate_request \<Rightarrow> bool"
  assumes consume_counts: "inv s \<Longrightarrow> good now request \<Longrightarrow>
      \<exists>s'. consume now (consume_request opts now request) s =
        (Inr \<lparr>cr_allowed = (count s (request_key request)
                  (getWindowStart now (lo_windowMilliseconds opts))
                < limitFor opts (rr_endpointClass request)),
              cr_count = counted opts now request (count s) (request_key request)
                (getWindowStart now (lo_windowMilliseconds opts)),
              cr_resetAt = getWindowStart now (lo_windowMilliseconds opts) + lo_windowMilliseconds opts\<rparr>,
         s') \<and> inv s' \<and> count s' = counted opts now request (count s)"
begin

lemma check_shared_eq:
  assumes "inv s" "good now request"
  shows "\<exists>s'. check_shared consume opts now request s =
      (Inr (window_decision opts now request
         (count s (request_key request) (getWindowStart now (lo_windowMilliseconds opts)))), s') \<and>
     inv s' \<and> count s' = counted opts now request (count s)"
proof -
  obtain s' where "consume now (consume_request opts now request) s =
        (Inr \<lparr>cr_allowed = (count s (request_key request)
                  (getWindowStart now (lo_windowMilliseconds opts))
                < limitFor opts (rr_endpointClass request)),
              cr_count = counted opts now request (count s) (request_key request)
                (getWindowStart now (lo_windowMilliseconds opts)),
              cr_resetAt = getWindowStart now (lo_windowMilliseconds opts) + lo_windowMilliseconds opts\<rparr>,
         s')" "inv s'" "count s' = counted opts now request (count s)"
    using consume_counts [OF assms] by blast
  then show ?thesis
    by (auto simp: check_shared_def consume_request_def window_decision_def Let_def
        request_key_def [symmetric] counted_def)
qed

end

lemma consume_memory_counts:
  "\<exists>s'. consume_memory now (consume_request opts now request) s =
      (Inr \<lparr>cr_allowed = (stored_count (ms_buckets s) (request_key request)
                (getWindowStart now (lo_windowMilliseconds opts))
              < limitFor opts (rr_endpointClass request)),
            cr_count = counted opts now request (stored_count (ms_buckets s)) (request_key request)
              (getWindowStart now (lo_windowMilliseconds opts)),
            cr_resetAt = getWindowStart now (lo_windowMilliseconds opts) + lo_windowMilliseconds opts\<rparr>,
       s') \<and> stored_count (ms_buckets s') = counted opts now request (stored_count (ms_buckets s))"
  by (auto simp: consume_memory_def consume_request_def counted_def Let_def fun_eq_iff
      stored_count_update split: option.splits)
    (auto simp: stored_count_def split: option.splits)

interpretation memory_store: fixed_window_store consume_memory opts "\<lambda>_. True"
  "\<lambda>s. stored_count (ms_buckets s)" "\<lambda>_ _. True"
  by unfold_locales (use consume_memory_counts in blast)

subsection \<open>Redis\<close>

text \<open>
  Over Redis the promise needs a clock within the safe integers, limits within them, and a hash
  with no collision among the bucket keys \<open>K\<close> in use.
\<close>

definition redis_ok ::
    "(string \<Rightarrow> string) \<Rightarrow> string set \<Rightarrow> limiter_options \<Rightarrow> redis_store \<Rightarrow> bool" where
  "redis_ok hash K opts db \<longleftrightarrow>
     inj_on hash K \<and> 0 < lo_windowMilliseconds opts \<and>
     (\<forall>k h. db k = Some h \<longrightarrow> 0 \<le> rh_count h \<and> rh_count h \<le> max_safe_integer \<and>
        (\<exists>w. 0 \<le> w \<and> rh_windowStart h = show_int w \<and>
             rh_expiresAt h = w + lo_windowMilliseconds opts))"

definition redis_good :: "string set \<Rightarrow> limiter_options \<Rightarrow> int \<Rightarrow> rate_request \<Rightarrow> bool" where
  "redis_good K opts now request \<longleftrightarrow>
     request_key request \<in> K \<and> 0 \<le> now \<and>
     now + lo_windowMilliseconds opts \<le> max_safe_integer \<and>
     limitFor opts (rr_endpointClass request) \<le> max_safe_integer"

definition redis_count ::
    "(string \<Rightarrow> string) \<Rightarrow> string \<Rightarrow> string set \<Rightarrow> redis_store \<Rightarrow> string \<Rightarrow> int \<Rightarrow> int" where
  "redis_count hash keyPrefix K db k w =
     (if k \<notin> K \<or> w < 0 then 0
      else case db (keyPrefix @ '':'' @ hash k) of
        None \<Rightarrow> 0
      | Some h \<Rightarrow> if rh_windowStart h = show_int w then rh_count h else 0)"

lemma window_bounds:
  assumes "0 < (w :: int)"
  shows "getWindowStart now w \<le> now" "now < getWindowStart now w + w"
    "0 \<le> now \<Longrightarrow> 0 \<le> getWindowStart now w"
proof -
  have eq: "getWindowStart now w = now - now mod w"
    by (simp add: getWindowStart_def minus_mod_eq_div_mult)
  have "0 \<le> now mod w" "now mod w < w" using assms by simp_all
  then show "getWindowStart now w \<le> now" "now < getWindowStart now w + w" by (simp_all add: eq)
  show "0 \<le> now \<Longrightarrow> 0 \<le> getWindowStart now w"
    using assms by (simp add: getWindowStart_def pos_imp_zdiv_nonneg_iff)
qed

text \<open>The script on the hash of one key, for the window the clock is in.\<close>

lemma redis_script_eq:
  assumes ok: "redis_ok hash K opts db" and k: "request_key request \<in> K"
    and now: "0 \<le> now" and start: "start = getWindowStart now (lo_windowMilliseconds opts)"
  shows "redisFixedWindowConsumeScript now (keyPrefix @ '':'' @ hash (request_key request))
      (show_int start) resetAt (start + lo_windowMilliseconds opts - now) limit db =
    (let c = redis_count hash keyPrefix K db (request_key request) start;
         c' = (if limit \<le> c then c else c + 1)
     in ((if limit \<le> c then 0 else 1, c', resetAt),
         db(keyPrefix @ '':'' @ hash (request_key request) \<mapsto>
           \<lparr>rh_windowStart = show_int start, rh_count = c',
            rh_expiresAt = start + lo_windowMilliseconds opts\<rparr>)))"
proof -
  let ?k = "keyPrefix @ '':'' @ hash (request_key request)"
  have w: "0 < lo_windowMilliseconds opts" using ok by (simp add: redis_ok_def)
  have bounds: "start \<le> now" "now < start + lo_windowMilliseconds opts" "0 \<le> start"
    using window_bounds [OF w] now by (auto simp: start)
  show ?thesis
  proof (cases "\<exists>h. db ?k = Some h \<and> rh_windowStart h = show_int start")
    case True
    then obtain h where h: "db ?k = Some h" "rh_windowStart h = show_int start" by blast
    obtain v where v: "0 \<le> v" "rh_windowStart h = show_int v"
        "rh_expiresAt h = v + lo_windowMilliseconds opts"
      using ok h(1) unfolding redis_ok_def by blast
    then have "v = start" using h(2) bounds(3) show_int_inject_nonneg by simp
    then have e: "rh_expiresAt h = start + lo_windowMilliseconds opts" using v(3) by simp
    then have "redis_get now ?k db = Some h" using h(1) bounds(2) by (simp add: redis_get_def)
    moreover have "h = \<lparr>rh_windowStart = show_int start, rh_count = rh_count h,
        rh_expiresAt = start + lo_windowMilliseconds opts\<rparr>"
      using h(2) e by simp
    ultimately show ?thesis
      using h k bounds by (cases h) (simp add: redisFixedWindowConsumeScript_def redis_count_def Let_def)
  next
    case False
    then have "\<forall>h. redis_get now ?k db = Some h \<longrightarrow> rh_windowStart h \<noteq> show_int start"
      by (auto simp: redis_get_def split: option.splits)
    moreover have "redis_count hash keyPrefix K db (request_key request) start = 0"
      using False by (auto simp: redis_count_def split: option.splits)
    ultimately show ?thesis
      by (auto simp: redisFixedWindowConsumeScript_def Let_def split: option.splits)
  qed
qed

lemma redis_count_update:
  assumes "inj_on hash K" "k \<in> K" "0 \<le> start" "rh_windowStart h = show_int start"
  shows "redis_count hash keyPrefix K (db(keyPrefix @ '':'' @ hash k \<mapsto> h)) k' w =
     (if k' = k then (if w = start then rh_count h else 0) else redis_count hash keyPrefix K db k' w)"
  using assms inj_onD [OF assms(1) _ assms(2), of k'] show_int_inject_nonneg [of start w]
  by (auto simp: redis_count_def)

lemma redis_count_bounds:
  assumes "redis_ok hash K opts db"
  shows "0 \<le> redis_count hash keyPrefix K db k w" "redis_count hash keyPrefix K db k w \<le> max_safe_integer"
  using assms by (auto simp: redis_ok_def redis_count_def max_safe_integer_def split: option.splits)

lemma consume_redis_counts:
  assumes ok: "redis_ok hash K opts db" and good: "redis_good K opts now request"
  shows "\<exists>db'. consume_redis hash keyPrefix now (consume_request opts now request) db =
      (Inr \<lparr>cr_allowed = (redis_count hash keyPrefix K db (request_key request)
                (getWindowStart now (lo_windowMilliseconds opts))
              < limitFor opts (rr_endpointClass request)),
            cr_count = counted opts now request (redis_count hash keyPrefix K db) (request_key request)
              (getWindowStart now (lo_windowMilliseconds opts)),
            cr_resetAt = getWindowStart now (lo_windowMilliseconds opts) + lo_windowMilliseconds opts\<rparr>,
       db') \<and> redis_ok hash K opts db' \<and>
     redis_count hash keyPrefix K db' = counted opts now request (redis_count hash keyPrefix K db)"
proof -
  define start where "start = getWindowStart now (lo_windowMilliseconds opts)"
  define limit where "limit = limitFor opts (rr_endpointClass request)"
  define c where "c = redis_count hash keyPrefix K db (request_key request) start"
  define c' where "c' = (if limit \<le> c then c else c + 1)"
  define h where "h = \<lparr>rh_windowStart = show_int start, rh_count = c',
      rh_expiresAt = start + lo_windowMilliseconds opts\<rparr>"
  define db' where "db' = db(keyPrefix @ '':'' @ hash (request_key request) \<mapsto> h)"
  have w: "0 < lo_windowMilliseconds opts" "inj_on hash K" using ok by (auto simp: redis_ok_def)
  have g: "request_key request \<in> K" "0 \<le> now" "now + lo_windowMilliseconds opts \<le> max_safe_integer"
      "limit \<le> max_safe_integer"
    using good by (auto simp: redis_good_def limit_def)
  have bounds: "start \<le> now" "now < start + lo_windowMilliseconds opts" "0 \<le> start"
    using window_bounds [OF w(1)] g(2) by (auto simp: start_def)
  have c: "0 \<le> c" "c \<le> max_safe_integer" using redis_count_bounds [OF ok] by (auto simp: c_def)
  then have c': "0 \<le> c'" "c' \<le> max_safe_integer" using g(4) by (auto simp: c'_def)
  have "consume_redis hash keyPrefix now (consume_request opts now request) db =
      (parseRedisConsumeResult (if limit \<le> c then 0 else 1, c', start + lo_windowMilliseconds opts), db')"
    using redis_script_eq [OF ok g(1,2) start_def, of keyPrefix "start + lo_windowMilliseconds opts" limit]
      bounds(2)
    by (simp add: consume_redis_def consume_request_def Let_def db'_def h_def c'_def
        start_def [symmetric] limit_def [symmetric] c_def [symmetric])
  moreover have "parseRedisConsumeResult (if limit \<le> c then 0 else 1, c', start + lo_windowMilliseconds opts) =
      Inr \<lparr>cr_allowed = (c < limit), cr_count = c', cr_resetAt = start + lo_windowMilliseconds opts\<rparr>"
    using c' bounds g(3) w(1) by (auto simp: parseRedisConsumeResult_def)
  moreover have "redis_ok hash K opts db'"
    using ok c' bounds(3) by (auto simp: redis_ok_def db'_def h_def)
  moreover have "redis_count hash keyPrefix K db' = counted opts now request (redis_count hash keyPrefix K db)"
    using redis_count_update [OF w(2) g(1) bounds(3), of h]
    by (auto simp: fun_eq_iff counted_def Let_def db'_def h_def c'_def
        start_def [symmetric] limit_def [symmetric] c_def [symmetric])
  moreover have "counted opts now request (redis_count hash keyPrefix K db) (request_key request) start = c'"
    by (simp add: counted_def Let_def c'_def start_def [symmetric] limit_def [symmetric] c_def [symmetric])
  ultimately show ?thesis
    by (simp add: start_def [symmetric] limit_def [symmetric] c_def [symmetric])
qed

interpretation redis_store: fixed_window_store "consume_redis hash keyPrefix" opts
  "redis_ok hash K opts" "redis_count hash keyPrefix K" "redis_good K opts"
  by unfold_locales (rule consume_redis_counts)

section \<open>Runs\<close>

text \<open>The decisions on a sequence of requests, each with the time it is checked at.\<close>

fun run_checks ::
    "(int \<Rightarrow> rate_request \<Rightarrow> 's \<Rightarrow> 'd \<times> 's) \<Rightarrow> (int \<times> rate_request) list \<Rightarrow> 's \<Rightarrow> 'd list \<times> 's" where
  "run_checks check [] s = ([], s)"
| "run_checks check ((now, request) # rest) s =
     (let (d, s1) = check now request s; (ds, s2) = run_checks check rest s1 in (d # ds, s2))"

lemma run_checks_Cons:
  "run_checks check ((now, request) # rest) s =
     (fst (check now request s) # fst (run_checks check rest (snd (check now request s))),
      snd (run_checks check rest (snd (check now request s))))"
  by (simp add: Let_def split: prod.split)

declare run_checks.simps(2) [simp del]
declare run_checks_Cons [simp]

lemma run_checks_append [simp]:
  "run_checks check (xs @ ys) s =
     (fst (run_checks check xs s) @ fst (run_checks check ys (snd (run_checks check xs s))),
      snd (run_checks check ys (snd (run_checks check xs s))))"
  by (induction xs arbitrary: s) auto

lemma run_checks_length [simp]: "length (fst (run_checks check rs s)) = length rs"
  by (induction rs arbitrary: s) auto

lemma run_checks_take:
  assumes "i \<le> length rs"
  shows "take i (fst (run_checks check rs s)) = fst (run_checks check (take i rs) s)"
proof -
  have "fst (run_checks check rs s) = fst (run_checks check (take i rs @ drop i rs) s)" by simp
  also have "take i \<dots> = fst (run_checks check (take i rs) s)"
    using assms by (simp del: append_take_drop_id)
  finally show ?thesis .
qed

lemma run_checks_nth:
  assumes "i < length rs" "rs ! i = (now, request)"
  shows "fst (run_checks check rs s) ! i = fst (check now request (snd (run_checks check (take i rs) s)))"
proof -
  have "rs = take i rs @ (now, request) # drop (Suc i) rs"
    using assms by (metis id_take_nth_drop)
  then have "fst (run_checks check rs s) ! i =
      fst (run_checks check (take i rs @ (now, request) # drop (Suc i) rs) s) ! i" by simp
  then show ?thesis using assms(1) by (simp add: nth_append)
qed

text \<open>Two checkers whose states correspond answer alike.\<close>

lemma run_checks_simulation:
  assumes "\<And>now request s t. R s t \<Longrightarrow> (now, request) \<in> set rs \<Longrightarrow>
      \<exists>s' t' d. check now request s = (d, s') \<and> check' now request t = (f d, t') \<and> R s' t'"
    and "R s t"
  shows "fst (run_checks check' rs t) = map f (fst (run_checks check rs s)) \<and>
    R (snd (run_checks check rs s)) (snd (run_checks check' rs t))"
  using assms
proof (induction rs arbitrary: s t)
  case (Cons r rs)
  obtain now request where r: "r = (now, request)" by force
  obtain s' t' d where step: "check now request s = (d, s')" "check' now request t = (f d, t')" "R s' t'"
    using Cons.prems(1) [OF Cons.prems(2), of now request] r by auto
  have "fst (run_checks check' rs t') = map f (fst (run_checks check rs s')) \<and>
      R (snd (run_checks check rs s')) (snd (run_checks check' rs t'))"
    using Cons.prems(1) step(3) by (intro Cons.IH) auto
  then show ?case by (simp add: r step(1,2))
qed simp

definition window_check ::
    "limiter_options \<Rightarrow> int \<Rightarrow> rate_request \<Rightarrow> (string \<Rightarrow> int \<Rightarrow> int) \<Rightarrow>
     rate_decision \<times> (string \<Rightarrow> int \<Rightarrow> int)" where
  "window_check opts now request count =
     (window_decision opts now request
        (count (request_key request) (getWindowStart now (lo_windowMilliseconds opts))),
      counted opts now request count)"

lemma window_check_simps [simp]:
  "fst (window_check opts now request count) = window_decision opts now request
     (count (request_key request) (getWindowStart now (lo_windowMilliseconds opts)))"
  "snd (window_check opts now request count) = counted opts now request count"
  by (simp_all add: window_check_def)

lemma run_local_eq:
  "fst (run_checks (check_local opts) rs s) =
     fst (run_checks (window_check opts) rs (stored_count (ll_buckets s)))"
proof -
  have "fst (run_checks (window_check opts) rs (stored_count (ll_buckets s))) =
      map (\<lambda>d. d) (fst (run_checks (check_local opts) rs s)) \<and>
    stored_count (ll_buckets (snd (run_checks (check_local opts) rs s))) =
      snd (run_checks (window_check opts) rs (stored_count (ll_buckets s)))"
    by (rule run_checks_simulation [where R = "\<lambda>s t. stored_count (ll_buckets s) = t"])
      (use check_local_eq in \<open>fastforce simp: window_check_def\<close>, simp)
  then show ?thesis by simp
qed

context fixed_window_store
begin

lemma run_shared_eq:
  assumes "inv s" "\<forall>(now, request) \<in> set rs. good now request"
  shows "fst (run_checks (check_shared consume opts) rs s) =
    map Inr (fst (run_checks (window_check opts) rs (count s)))"
proof -
  have "fst (run_checks (check_shared consume opts) rs s) =
      map Inr (fst (run_checks (window_check opts) rs (count s))) \<and>
    inv (snd (run_checks (check_shared consume opts) rs s)) \<and>
    count (snd (run_checks (check_shared consume opts) rs s)) =
      snd (run_checks (window_check opts) rs (count s))"
    using assms
    by (intro run_checks_simulation [where R = "\<lambda>t s. inv s \<and> count s = t" and f = Inr])
      (use check_shared_eq in \<open>fastforce simp: window_check_def\<close>, simp)
  then show ?thesis by blast
qed

end

subsection \<open>What a window admits\<close>

text \<open>The requests of one bucket and window that a run has allowed.\<close>

definition admitted ::
    "limiter_options \<Rightarrow> string \<Rightarrow> int \<Rightarrow> (int \<times> rate_request) list \<Rightarrow> rate_decision list \<Rightarrow> int" where
  "admitted opts k w rs ds =
     int (length (filter (\<lambda>((now, request), d). is_allowed d \<and> request_key request = k \<and>
       getWindowStart now (lo_windowMilliseconds opts) = w) (zip rs ds)))"

lemma admitted_append:
  assumes "length xs = length ds"
  shows "admitted opts k w (xs @ ys) (ds @ es) = admitted opts k w xs ds + admitted opts k w ys es"
  using assms by (simp add: admitted_def)

lemma admitted_none:
  assumes "\<forall>(now, request) \<in> set rs. getWindowStart now (lo_windowMilliseconds opts) \<noteq> w"
  shows "admitted opts k w rs ds = 0"
  using assms by (auto simp: admitted_def filter_empty_conv dest!: set_zip_leftD)

lemma getWindowStart_mono:
  "0 < w \<Longrightarrow> now \<le> now' \<Longrightarrow> getWindowStart now w \<le> getWindowStart now' w"
  by (simp add: getWindowStart_def zdiv_mono1)

lemma window_counts:
  assumes "0 < lo_windowMilliseconds opts" "sorted (map fst rs)"
    and "\<forall>(now, request) \<in> set rs. getWindowStart now (lo_windowMilliseconds opts) \<le> w"
  shows "snd (run_checks (window_check opts) rs (\<lambda>_ _. 0)) k w =
    admitted opts k w rs (fst (run_checks (window_check opts) rs (\<lambda>_ _. 0)))"
  using assms(2,3)
proof (induction rs arbitrary: k w rule: rev_induct)
  case Nil
  then show ?case by (simp add: admitted_def)
next
  case (snoc r rs)
  obtain now request where r: "r = (now, request)" by force
  let ?run = "run_checks (window_check opts) rs (\<lambda>_ _. 0)"
  let ?start = "getWindowStart now (lo_windowMilliseconds opts)"
  let ?c = "snd ?run (request_key request) ?start"
  have sorted: "sorted (map fst rs)" using snoc.prems(1) by (simp add: sorted_append)
  have early: "\<forall>(t, q) \<in> set rs. getWindowStart t (lo_windowMilliseconds opts) \<le> ?start"
    using snoc.prems(1) getWindowStart_mono [OF assms(1)] by (auto simp: sorted_append r)
  have old: "snd ?run k w = admitted opts k w rs (fst ?run)"
    using snoc.prems(2) by (intro snoc.IH [OF sorted]) auto
  have here: "?c = admitted opts (request_key request) ?start rs (fst ?run)"
    by (rule snoc.IH [OF sorted early])
  have later: "admitted opts k w rs (fst ?run) = 0" if "w \<noteq> ?start"
  proof -
    have "?start < w" using snoc.prems(2) that by (auto simp: r)
    then show ?thesis using early by (intro admitted_none) fastforce
  qed
  show ?case
    using old here later
    by (auto simp: r admitted_append admitted_def counted_def Let_def)
qed

lemma window_allows:
  assumes "0 < lo_windowMilliseconds opts" "sorted (map fst rs)" "i < length rs" "rs ! i = (now, request)"
  defines "ds \<equiv> fst (run_checks (window_check opts) rs (\<lambda>_ _. 0))"
  shows "is_allowed (ds ! i) \<longleftrightarrow>
    admitted opts (request_key request) (getWindowStart now (lo_windowMilliseconds opts))
      (take i rs) (take i ds) < limitFor opts (rr_endpointClass request)"
proof -
  have "sorted (map fst (take i rs))" using assms(2) by (simp add: sorted_wrt_take take_map [symmetric])
  moreover have "getWindowStart t (lo_windowMilliseconds opts) \<le> getWindowStart now (lo_windowMilliseconds opts)"
    if member: "(t, q) \<in> set (take i rs)" for t q
  proof -
    obtain j where j: "j < length (take i rs)" "take i rs ! j = (t, q)"
      using member unfolding in_set_conv_nth by blast
    then have "j < i" "rs ! j = (t, q)" by simp_all
    then have "t \<le> now"
      using sorted_nth_mono [OF assms(2), of j i] assms(3,4) by simp
    then show ?thesis by (rule getWindowStart_mono [OF assms(1)])
  qed
  ultimately have "snd (run_checks (window_check opts) (take i rs) (\<lambda>_ _. 0)) (request_key request)
        (getWindowStart now (lo_windowMilliseconds opts)) =
      admitted opts (request_key request) (getWindowStart now (lo_windowMilliseconds opts))
        (take i rs) (take i ds)"
    unfolding ds_def run_checks_take [OF less_imp_le [OF assms(3)]]
    by (intro window_counts [OF assms(1)]) blast+
  then show ?thesis
    unfolding ds_def by (simp add: run_checks_nth [OF assms(3,4)])
qed

subsection \<open>Bucket keys\<close>

lemma colon_split:
  assumes "CHR '':'' \<notin> set a" "CHR '':'' \<notin> set b" "a @ CHR '':'' # x = b @ CHR '':'' # y"
  shows "a = b \<and> x = y"
  using assms by (induction a arbitrary: b) (case_tac b; auto)+

lemma endpoint_class_name_colon: "CHR '':'' \<notin> set (endpoint_class_name c)"
  by (cases c) simp_all

lemma scope_kind_name_colon: "CHR '':'' \<notin> set (scope_kind_name k)"
  by (cases k) simp_all

lemma scope_kind_name_inject [simp]: "scope_kind_name a = scope_kind_name b \<longleftrightarrow> a = b"
  by (cases a; cases b) simp_all

lemma bucket_key_inject:
  assumes "CHR '':'' \<notin> set (bd_keyId d)" "CHR '':'' \<notin> set (bd_keyId e)"
    and "createRateLimitBucketKey d = createRateLimitBucketKey e"
  shows "d = e"
proof -
  have k: "createRateLimitBucketKey d = bd_keyId d @ CHR '':'' # endpoint_class_name (bd_endpointClass d) @
      CHR '':'' # scope_kind_name (bd_scopeKind d) @ CHR '':'' # bd_scopeRef d" for d
    by (simp add: createRateLimitBucketKey_def js_join_def)
  have 1: "bd_keyId d = bd_keyId e \<and>
      endpoint_class_name (bd_endpointClass d) @
        CHR '':'' # scope_kind_name (bd_scopeKind d) @ CHR '':'' # bd_scopeRef d =
      endpoint_class_name (bd_endpointClass e) @
        CHR '':'' # scope_kind_name (bd_scopeKind e) @ CHR '':'' # bd_scopeRef e"
    using assms by (intro colon_split) (simp_all add: k)
  then have 2: "endpoint_class_name (bd_endpointClass d) = endpoint_class_name (bd_endpointClass e) \<and>
      scope_kind_name (bd_scopeKind d) @ CHR '':'' # bd_scopeRef d =
      scope_kind_name (bd_scopeKind e) @ CHR '':'' # bd_scopeRef e"
    by (intro colon_split endpoint_class_name_colon) simp
  then have "scope_kind_name (bd_scopeKind d) = scope_kind_name (bd_scopeKind e) \<and>
      bd_scopeRef d = bd_scopeRef e"
    by (intro colon_split scope_kind_name_colon) simp
  then show ?thesis
    using 1 2 endpoint_class.name_inject by simp
qed

end
