(* ===== verification/MoreScenarios.thy ===== *)
theory MoreScenarios
  imports ScenarioInputs InMemoryQueueLaws RateLimiterLaws
begin

text \<open>
  Concrete inputs for the witnesses about the in-memory queue (the two jobs of \<open>demo_history\<close>
  again, and a store left by an earlier process) and about the rate limiter.
\<close>

abbreviation mq_demo :: "mem_jobs memory_queue" where
  "mq_demo \<equiv> memory_reached 30 demo_history"

abbreviation mq_demo_reserve ::
    "int \<Rightarrow> mem_jobs memory_queue \<Rightarrow> reservation option port_result \<times> mem_jobs memory_queue" where
  "mq_demo_reserve now s \<equiv> reserve_mq mem_repository 30 now Work_outbound_message s"

definition mq_reserved_by :: "int \<Rightarrow> mem_jobs memory_queue \<Rightarrow> reservation" where
  "mq_reserved_by now s = the (projr (fst (mq_demo_reserve now s)))"

lemma mq_demo_answers:
  "fst (mq_demo_reserve 10 mq_demo) = Inr (Some (mq_reserved_by 10 mq_demo))"
  "fst (mq_demo_reserve 20 (snd (mq_demo_reserve 10 mq_demo))) =
     Inr (Some (mq_reserved_by 20 (snd (mq_demo_reserve 10 mq_demo))))"
  by code_simp+

lemma mq_demo_first:
  "mq_demo_reserve 10 mq_demo =
     (Inr (Some (mq_reserved_by 10 mq_demo)), snd (mq_demo_reserve 10 mq_demo))"
  by (rule prod_eqI) (simp_all add: mq_demo_answers)

lemma mq_demo_second:
  "mq_demo_reserve 20 (mq_history mem_repository 30 [] (snd (mq_demo_reserve 10 mq_demo))) =
     (Inr (Some (mq_reserved_by 20 (snd (mq_demo_reserve 10 mq_demo)))),
      snd (mq_demo_reserve 20 (snd (mq_demo_reserve 10 mq_demo))))"
  by (rule prod_eqI) (simp_all add: mq_demo_answers mq_history_def)

text \<open>A job that was released for its second and last attempt before the process ended.\<close>

definition last_attempt_job :: worker_job where
  "last_attempt_job =
     \<lparr>job_id = ''j1'', job_ownerContext = Owner_messaging, job_workType = ''outbound_message'',
      job_safeMetadata = None, job_status = Job_retrying, job_retryPolicy = demo_policy,
      job_attemptNumber = Some 2, job_failureCategory = Some Fail_queue,
      job_deadLetterReason = None, job_recoveryActionRequired = False, job_domainEvents = []\<rparr>"

definition mq_demo_store :: mem_jobs where
  "mq_demo_store = \<lparr>mj_records = [last_attempt_job], mj_keys = (\<lambda>_. None)\<rparr>"

lemma mq_demo_store_facts:
  "jr_findByStatus mem_repository Job_queued mq_demo_store = []"
  "jr_findByStatus mem_repository Job_retrying mq_demo_store = [last_attempt_job]"
  "job_workType last_attempt_job = queue_work_type_name Work_outbound_message"
  "job_attemptNumber last_attempt_job = Some (rp_maxAttempts (job_retryPolicy last_attempt_job))"
  "jr_load mem_repository (job_id last_attempt_job) mq_demo_store = Some last_attempt_job"
  by (simp_all add: mq_demo_store_def last_attempt_job_def demo_policy_def mem_repository_def
      mem_findByStatus_def mem_load_def)

definition limiter_demo :: limiter_options where
  "limiter_demo = \<lparr>lo_maxRequests = 2, lo_windowMilliseconds = 10, lo_endpointClassLimits = []\<rparr>"

definition limiter_demo_request :: rate_request where
  "limiter_demo_request =
     \<lparr>rr_keyId = ''k'', rr_endpointClass = Class_read, rr_instanceRef = None, rr_targetRef = None\<rparr>"

definition limiter_demo_requests :: "(int \<times> rate_request) list" where
  "limiter_demo_requests = map (\<lambda>now. (now, limiter_demo_request)) [1, 5, 9, 12]"

end
