(* ===== verification/EventContracts.thy ===== *)
theory EventContracts
  imports DomainEvents
begin

text \<open>
  \<open>packages/domain/src/events/event-contract.ts\<close>: the contract of every domain event, the names
  of the integration events, and the validating constructor the table is built with.  The table is
  kept as the code writes it, one definition per aggregate; building it may throw, and a lemma
  shows that it does not.
\<close>

section \<open>Versions, classifications and integration events\<close>

datatype event_contract_version = Version_v1

fun event_contract_version_name :: "event_contract_version \<Rightarrow> string" where
  "event_contract_version_name Version_v1 = ''v1''"

definition eventContractVersions :: "event_contract_version list" where
  "eventContractVersions = [Version_v1]"

interpretation event_contract_version: string_union event_contract_version_name eventContractVersions
proof
  show "distinct (map event_contract_version_name eventContractVersions)"
    by (simp add: eventContractVersions_def)
  show "v \<in> set eventContractVersions" for v
    by (cases v) (simp add: eventContractVersions_def)
qed

datatype event_data_classification = Event_public | Event_internal | Event_confidential

fun event_data_classification_name :: "event_data_classification \<Rightarrow> string" where
    "event_data_classification_name Event_public = ''public''"
  | "event_data_classification_name Event_internal = ''internal''"
  | "event_data_classification_name Event_confidential = ''confidential''"

definition eventDataClassifications :: "event_data_classification list" where
  "eventDataClassifications = [Event_public, Event_internal, Event_confidential]"

interpretation event_data_classification:
  string_union event_data_classification_name eventDataClassifications
proof
  show "distinct (map event_data_classification_name eventDataClassifications)"
    by (simp add: eventDataClassifications_def)
  show "v \<in> set eventDataClassifications" for v
    by (cases v) (simp_all add: eventDataClassifications_def)
qed

datatype integration_event =
    Int_instance_created
  | Int_instance_connected
  | Int_instance_disconnected
  | Int_instance_logged_out
  | Int_session_activated
  | Int_session_expired
  | Int_session_revoked
  | Int_message_received
  | Int_message_accepted
  | Int_message_dispatched
  | Int_message_delivered
  | Int_message_read
  | Int_message_failed
  | Int_media_processed
  | Int_media_failed
  | Int_webhook_delivery_succeeded
  | Int_webhook_delivery_failed
  | Int_webhook_delivery_dead_lettered
  | Int_guardrail_blocked
  | Int_guardrail_throttled
  | Int_health_degraded
  | Int_health_recovered

fun integration_event_name :: "integration_event \<Rightarrow> string" where
    "integration_event_name Int_instance_created = ''instance.created.v1''"
  | "integration_event_name Int_instance_connected = ''instance.connected.v1''"
  | "integration_event_name Int_instance_disconnected = ''instance.disconnected.v1''"
  | "integration_event_name Int_instance_logged_out = ''instance.logged_out.v1''"
  | "integration_event_name Int_session_activated = ''session.activated.v1''"
  | "integration_event_name Int_session_expired = ''session.expired.v1''"
  | "integration_event_name Int_session_revoked = ''session.revoked.v1''"
  | "integration_event_name Int_message_received = ''message.received.v1''"
  | "integration_event_name Int_message_accepted = ''message.accepted.v1''"
  | "integration_event_name Int_message_dispatched = ''message.dispatched.v1''"
  | "integration_event_name Int_message_delivered = ''message.delivered.v1''"
  | "integration_event_name Int_message_read = ''message.read.v1''"
  | "integration_event_name Int_message_failed = ''message.failed.v1''"
  | "integration_event_name Int_media_processed = ''media.processed.v1''"
  | "integration_event_name Int_media_failed = ''media.failed.v1''"
  | "integration_event_name Int_webhook_delivery_succeeded = ''webhook.delivery.succeeded.v1''"
  | "integration_event_name Int_webhook_delivery_failed = ''webhook.delivery.failed.v1''"
  | "integration_event_name Int_webhook_delivery_dead_lettered = ''webhook.delivery.dead_lettered.v1''"
  | "integration_event_name Int_guardrail_blocked = ''guardrail.blocked.v1''"
  | "integration_event_name Int_guardrail_throttled = ''guardrail.throttled.v1''"
  | "integration_event_name Int_health_degraded = ''health.degraded.v1''"
  | "integration_event_name Int_health_recovered = ''health.recovered.v1''"

definition approvedIntegrationEventNames :: "integration_event list" where
  "approvedIntegrationEventNames =
    [Int_instance_created, Int_instance_connected, Int_instance_disconnected,
     Int_instance_logged_out, Int_session_activated, Int_session_expired, Int_session_revoked,
     Int_message_received, Int_message_accepted, Int_message_dispatched, Int_message_delivered,
     Int_message_read, Int_message_failed, Int_media_processed, Int_media_failed,
     Int_webhook_delivery_succeeded, Int_webhook_delivery_failed,
     Int_webhook_delivery_dead_lettered, Int_guardrail_blocked, Int_guardrail_throttled,
     Int_health_degraded, Int_health_recovered]"

interpretation integration_event: string_union integration_event_name approvedIntegrationEventNames
proof
  show "distinct (map integration_event_name approvedIntegrationEventNames)"
    by (simp add: approvedIntegrationEventNames_def)
  show "v \<in> set approvedIntegrationEventNames" for v
    by (cases v) (simp_all add: approvedIntegrationEventNames_def)
qed

definition isApprovedIntegrationEventName :: "string \<Rightarrow> bool" where
  "isApprovedIntegrationEventName value \<longleftrightarrow>
     value \<in> set (map integration_event_name approvedIntegrationEventNames)"

fun integrationEventByDomainEvent :: "domain_event_name \<Rightarrow> integration_event option" where
    "integrationEventByDomainEvent (InstanceEvent InstanceCreated) = Some Int_instance_created"
  | "integrationEventByDomainEvent (InstanceEvent InstanceConnected) =
       Some Int_instance_connected"
  | "integrationEventByDomainEvent (InstanceEvent InstanceDisconnected) =
       Some Int_instance_disconnected"
  | "integrationEventByDomainEvent (InstanceEvent InstanceLoggedOut) =
       Some Int_instance_logged_out"
  | "integrationEventByDomainEvent (SessionEvent SessionActivated) = Some Int_session_activated"
  | "integrationEventByDomainEvent (SessionEvent SessionExpired) = Some Int_session_expired"
  | "integrationEventByDomainEvent (SessionEvent SessionRevoked) = Some Int_session_revoked"
  | "integrationEventByDomainEvent (MessageEvent InboundMessageReceived) =
       Some Int_message_received"
  | "integrationEventByDomainEvent (MessageEvent MessageAccepted) = Some Int_message_accepted"
  | "integrationEventByDomainEvent (MessageEvent MessageDispatched) =
       Some Int_message_dispatched"
  | "integrationEventByDomainEvent (MessageEvent MessageDelivered) = Some Int_message_delivered"
  | "integrationEventByDomainEvent (MessageEvent MessageRead) = Some Int_message_read"
  | "integrationEventByDomainEvent (MessageEvent MessageFailed) = Some Int_message_failed"
  | "integrationEventByDomainEvent (MediaEvent MediaProcessed) = Some Int_media_processed"
  | "integrationEventByDomainEvent (MediaEvent MediaFailed) = Some Int_media_failed"
  | "integrationEventByDomainEvent (DeliveryEvent WebhookDeliverySucceeded) =
       Some Int_webhook_delivery_succeeded"
  | "integrationEventByDomainEvent (DeliveryEvent WebhookDeliveryFailed) =
       Some Int_webhook_delivery_failed"
  | "integrationEventByDomainEvent (DeliveryEvent WebhookDeliveryDeadLettered) =
       Some Int_webhook_delivery_dead_lettered"
  | "integrationEventByDomainEvent (GuardrailEvent GuardrailBlocked) =
       Some Int_guardrail_blocked"
  | "integrationEventByDomainEvent (GuardrailEvent GuardrailThrottled) =
       Some Int_guardrail_throttled"
  | "integrationEventByDomainEvent (HealthEvent HealthDegraded) = Some Int_health_degraded"
  | "integrationEventByDomainEvent (HealthEvent HealthRecovered) = Some Int_health_recovered"
  | "integrationEventByDomainEvent _ = None"

section \<open>Contracts\<close>

record event_contract =
  ec_eventName :: domain_event_name
  ec_signalName :: string
  ec_version :: event_contract_version
  ec_aggregateType :: domain_aggregate_type
  ec_dataClassification :: event_data_classification
  ec_requiredData :: "string list"
  ec_optionalData :: "string list"
  ec_orderingRequirement :: string
  ec_idempotencyRequirement :: string
  ec_integrationEventName :: "integration_event option"

record event_contract_input =
  eci_eventName :: string
  eci_signalName :: string
  eci_version :: string
  eci_aggregateType :: string
  eci_dataClassification :: string
  eci_requiredData :: "string list"
  eci_optionalData :: "string list option"
  eci_orderingRequirement :: string
  eci_idempotencyRequirement :: string
  eci_integrationEventName :: "string option"

text \<open>\<open>Object.freeze(values.map(...))\<close>: the first unsafe code throws.\<close>

fun freezeSafeCodes :: "string list \<Rightarrow> string \<Rightarrow> string list result" where
  "freezeSafeCodes [] label = Inr []"
| "freezeSafeCodes (v # vs) label =
     result_bind (createSafeDomainCode v label) (\<lambda>c. result_map ((#) c) (freezeSafeCodes vs label))"

definition createDomainEventContract :: "event_contract_input \<Rightarrow> event_contract result" where
  "createDomainEventContract input =
     result_bind (read_union domain_event_name_text domainEventNames (eci_eventName input)
       ''DomainEventName'') (\<lambda>name.
     result_bind (read_union domain_aggregate_type_name domainAggregateTypes
       (eci_aggregateType input) ''DomainAggregateType'') (\<lambda>kind.
     result_bind
       (case eci_integrationEventName input of
          None \<Rightarrow> Inr None
        | Some v \<Rightarrow> result_map Some (read_union integration_event_name
            approvedIntegrationEventNames v ''IntegrationEventName'')) (\<lambda>integration.
     result_bind (createSafeDomainCode (eci_signalName input) ''DomainEventContract.signalName'') (\<lambda>signal.
     result_bind (read_union event_contract_version_name eventContractVersions
       (eci_version input) ''EventContractVersion'') (\<lambda>version.
     result_bind (read_union event_data_classification_name eventDataClassifications
       (eci_dataClassification input) ''EventDataClassification'') (\<lambda>classification.
     result_bind (freezeSafeCodes (eci_requiredData input) ''DomainEventContract.requiredData'') (\<lambda>required.
     result_bind
       (freezeSafeCodes (value_or (eci_optionalData input) []) ''DomainEventContract.optionalData'')
       (\<lambda>optional.
     result_bind (createSafeDomainCode (eci_orderingRequirement input)
       ''DomainEventContract.orderingRequirement'') (\<lambda>ordering.
     result_bind (createSafeDomainCode (eci_idempotencyRequirement input)
       ''DomainEventContract.idempotencyRequirement'') (\<lambda>idempotency.
     Inr \<lparr>ec_eventName = name, ec_signalName = signal, ec_version = version,
          ec_aggregateType = kind, ec_dataClassification = classification,
          ec_requiredData = required, ec_optionalData = optional,
          ec_orderingRequirement = ordering, ec_idempotencyRequirement = idempotency,
          ec_integrationEventName = integration\<rparr>))))))))))"

definition contract ::
    "domain_event_name \<Rightarrow> domain_aggregate_type \<Rightarrow> string \<Rightarrow> string list \<Rightarrow> string list \<Rightarrow>
     string \<Rightarrow> string \<Rightarrow> event_contract result" where
  "contract eventName aggregateType signalName requiredData optionalData orderingRequirement
     idempotencyRequirement =
     createDomainEventContract
       \<lparr>eci_eventName = domain_event_name_text eventName, eci_signalName = signalName,
        eci_version = ''v1'', eci_aggregateType = domain_aggregate_type_name aggregateType,
        eci_dataClassification = ''internal'', eci_requiredData = requiredData,
        eci_optionalData = Some optionalData, eci_orderingRequirement = orderingRequirement,
        eci_idempotencyRequirement = idempotencyRequirement,
        eci_integrationEventName =
          map_option integration_event_name (integrationEventByDomainEvent eventName)\<rparr>"

section \<open>The table\<close>

definition instance_contracts :: "event_contract result list" where
  "instance_contracts =
     [contract (InstanceEvent InstanceCreated) Agg_Instance ''instance.created''
         [''instance_id''] [''action_context''] ''first_for_aggregate'' ''instance_id'',
      contract (InstanceEvent InstanceQrRequired) Agg_Instance ''instance.qr_required''
         [''instance_id'', ''action_required_reason''] [''pairing_attempt_ref'']
         ''after_connect_intent'' ''pairing_attempt'',
      contract (InstanceEvent InstanceConnected) Agg_Instance ''instance.connected''
         [''instance_id'', ''readiness_status'']
         [''provider_profile_ref'', ''session_ref'']
         ''after_created_not_destroyed'' ''latest_occurrence_wins'',
      contract (InstanceEvent InstanceDisconnected) Agg_Instance ''instance.disconnected''
         [''instance_id'', ''recoverability_category'']
         [''failure_category'', ''action_required_marker'']
         ''after_connected_or_connecting'' ''event_identity'',
      contract (InstanceEvent InstanceLoggedOut) Agg_Instance ''instance.logged_out''
         [''instance_id'', ''logout_reason''] [''provider_failure_ref'']
         ''after_active_or_connecting'' ''current_session_linkage'',
      contract (InstanceEvent InstanceActionRequired) Agg_Instance ''instance.action_required''
         [''instance_id'', ''action_required_reason''] [''recovery_hint'']
         ''non_destroyed_only'' ''latest_reason_wins'',
      contract (InstanceEvent InstanceDestroyed) Agg_Instance ''instance.destroyed''
         [''instance_id''] [''destroy_reason'', ''actor_ref'']
         ''last_for_aggregate'' ''instance_id'']"

definition session_contracts :: "event_contract result list" where
  "session_contracts =
     [contract (SessionEvent SessionPairingStarted) Agg_Session ''session.pairing_started''
         [''session_id'', ''instance_id''] [''pairing_attempt_ref'']
         ''before_pending_or_active'' ''pairing_attempt'',
      contract (SessionEvent SessionPending) Agg_Session ''session.pending''
         [''session_id'', ''instance_id''] [''pairing_attempt_ref'', ''timeout_marker'']
         ''before_active_expired_revoked'' ''latest_session_state'',
      contract (SessionEvent SessionActivated) Agg_Session ''session.activated''
         [''session_id'', ''instance_id''] [''recovery_marker'', ''provider_profile_ref'']
         ''after_pending_or_restore'' ''session_version'',
      contract (SessionEvent SessionExpired) Agg_Session ''session.expired''
         [''session_id'', ''instance_id'', ''expiry_reason''] [''recovery_eligibility'']
         ''after_pending_or_active'' ''latest_expiry_fact'',
      contract (SessionEvent SessionRevoked) Agg_Session ''session.revoked''
         [''session_id'', ''instance_id'', ''revocation_reason'']
         [''action_required_marker''] ''after_pending_or_active'' ''session_revocation'',
      contract (SessionEvent SessionRecoveryRequired) Agg_Session ''session.recovery_required''
         [''session_id'', ''instance_id'', ''recovery_reason''] [''recovery_priority'']
         ''after_failure_classification'' ''recovery_marker'',
      contract (SessionEvent SessionCleaned) Agg_Session ''session.cleaned''
         [''session_id'', ''instance_id'', ''cleanup_reason''] [''retention_policy_ref'']
         ''after_retention_trigger'' ''session_cleanup'']"

definition message_contracts :: "event_contract result list" where
  "message_contracts =
     [contract (MessageEvent InboundMessageReceived) Agg_Message ''message.inbound_received''
         [''message_id'', ''instance_id'', ''message_type'', ''direction'']
         [''jid_ref'', ''media_ref'', ''safe_metadata'']
         ''after_provider_translation'' ''message_id'',
      contract (MessageEvent UnsupportedMessageReceived) Agg_Message ''message.unsupported_received''
         [''message_id'', ''instance_id'', ''unsupported_type_category'']
         [''safe_source_ref''] ''after_provider_translation'' ''message_id'',
      contract (MessageEvent MessageAccepted) Agg_Message ''message.accepted''
         [''message_id'', ''instance_id'', ''message_type'', ''guardrail_decision_id'']
         [''media_id'', ''idempotency_key'']
         ''after_guardrail_passed'' ''message_id_or_idempotency_key'',
      contract (MessageEvent MessageRejected) Agg_Message ''message.rejected''
         [''message_id'', ''instance_id'', ''failure_category'']
         [''guardrail_decision_id''] ''before_queued'' ''message_id'',
      contract (MessageEvent MessageQueued) Agg_Message ''message.queued''
         [''message_id'', ''instance_id'', ''job_ref''] [''retry_policy_ref'']
         ''after_message_accepted'' ''job_or_message_idempotency'',
      contract (MessageEvent MessageProcessingStarted) Agg_Message ''message.processing_started''
         [''message_id'', ''instance_id'', ''job_ref''] [''attempt_number'']
         ''after_queued'' ''attempt_identity'',
      contract (MessageEvent MessageDispatched) Agg_Message ''message.dispatched''
         [''message_id'', ''instance_id'', ''provider_ref'', ''delivery_status'']
         [''latency_category'', ''attempt_number'']
         ''after_processing_started'' ''provider_ref_and_message_id'',
      contract (MessageEvent MessageDelivered) Agg_Message ''message.delivered''
         [''message_id'', ''instance_id'', ''delivery_status'']
         [''provider_ref'', ''status_timestamp'']
         ''after_dispatched_or_direct_delivery'' ''delivery_observation'',
      contract (MessageEvent MessageRead) Agg_Message ''message.read''
         [''message_id'', ''instance_id'', ''delivery_status'']
         [''provider_ref'', ''status_timestamp'']
         ''after_delivered_or_direct_read'' ''read_observation'',
      contract (MessageEvent MessageFailed) Agg_Message ''message.failed''
         [''message_id'', ''instance_id'', ''failure_category'', ''safe_reason'']
         [''job_id'', ''provider_failure_classification'']
         ''after_lifecycle_failure'' ''failure_category_and_reason'',
      contract (MessageEvent MessageCancelled) Agg_Message ''message.cancelled''
         [''message_id'', ''instance_id'', ''cancellation_reason''] [''actor_context'']
         ''before_terminal_delivery'' ''message_id'']"

definition media_asset_contracts :: "event_contract result list" where
  "media_asset_contracts =
     [contract (MediaEvent MediaAccepted) Agg_MediaAsset ''media.accepted''
         [''media_id'', ''media_category'', ''retention_policy''] [''message_id'']
         ''after_media_classification'' ''media_id'',
      contract (MediaEvent MediaProcessingStarted) Agg_MediaAsset ''media.processing_started''
         [''media_id'', ''media_category'', ''job_id''] [''attempt_number'']
         ''after_media_accepted'' ''attempt_identity'',
      contract (MediaEvent MediaProcessed) Agg_MediaAsset ''media.processed''
         [''media_id'', ''media_category'', ''processing_status'']
         [''message_id'', ''safe_metadata_summary'']
         ''after_processing_started'' ''media_processing_version'',
      contract (MediaEvent MediaAttached) Agg_MediaAsset ''media.attached''
         [''media_id'', ''message_id''] [''attachment_role'']
         ''after_media_processed'' ''media_message_association'',
      contract (MediaEvent MediaFailed) Agg_MediaAsset ''media.failed''
         [''media_id'', ''failure_category'', ''safe_reason''] [''message_id'', ''job_id'']
         ''after_media_work'' ''failure_category_and_reason'',
      contract (MediaEvent MediaExpired) Agg_MediaAsset ''media.expired''
         [''media_id'', ''retention_policy''] [''expiry_reason'']
         ''after_retention_window'' ''media_id'',
      contract (MediaEvent MediaCleaned) Agg_MediaAsset ''media.cleaned''
         [''media_id'', ''cleanup_reason''] [''retention_policy_ref'']
         ''after_processing_or_expiry'' ''media_id'',
      contract (MediaEvent DiagnosticCaptureRequested) Agg_MediaAsset ''media.diagnostic_capture_requested''
         [''media_id'', ''capture_policy'', ''expiry''] [''actor_context'']
         ''before_capture_begins'' ''media_id'']"

definition group_contracts :: "event_contract result list" where
  "group_contracts =
     [contract (GroupEvent GroupDiscovered) Agg_Group ''group.discovered''
         [''group_id'', ''instance_id'', ''group_jid'']
         [''member_count'', ''metadata_summary''] ''first_for_group'' ''group_id'',
      contract (GroupEvent GroupStatusUpdated) Agg_Group ''group.status_updated''
         [''group_id'', ''instance_id'', ''group_status''] [''safe_reason'']
         ''after_group_discovered'' ''latest_group_status'',
      contract (GroupEvent GroupMetadataUpdated) Agg_Group ''group.metadata_updated''
         [''group_id'', ''instance_id'', ''metadata_revision''] [''actor_context'']
         ''active_group_only'' ''metadata_revision'',
      contract (GroupEvent GroupMemberAdded) Agg_Group ''group.member_added''
         [''group_id'', ''instance_id'', ''member_jid_ref'']
         [''actor_context'', ''member_role''] ''active_group_only'' ''group_member_jid'',
      contract (GroupEvent GroupMemberRemoved) Agg_Group ''group.member_removed''
         [''group_id'', ''instance_id'', ''member_jid_ref''] [''actor_context'']
         ''active_group_only'' ''group_member_jid'',
      contract (GroupEvent GroupMemberRoleChanged) Agg_Group ''group.member_role_changed''
         [''group_id'', ''instance_id'', ''member_jid_ref'', ''member_role'']
         [''actor_context''] ''active_group_only'' ''group_member_role_version'',
      contract (GroupEvent GroupInviteLinkUpdated) Agg_Group ''group.invite_link_updated''
         [''group_id'', ''instance_id'', ''invite_link_ref'']
         [''actor_context'', ''active''] ''active_group_only'' ''invite_link_version'',
      contract (GroupEvent GroupLocalStateUpdated) Agg_Group ''group.local_state_updated''
         [''group_id'', ''instance_id'', ''local_state''] [''actor_context'']
         ''active_group_only'' ''latest_local_state'']"

definition webhook_subscription_contracts :: "event_contract result list" where
  "webhook_subscription_contracts =
     [contract (SubscriptionEvent WebhookSubscriptionProposed) Agg_WebhookSubscription ''webhook.subscription.proposed''
         [''webhook_id'', ''proposed_signal_selection'', ''safe_destination_ref'']
         [''actor_context''] ''before_validation'' ''webhook_proposal_version'',
      contract (SubscriptionEvent WebhookSubscriptionValidated) Agg_WebhookSubscription ''webhook.subscription.validated''
         [''webhook_id'', ''validation_status''] [''signal_selection_summary'']
         ''before_activation_or_delivery'' ''webhook_version'',
      contract (SubscriptionEvent WebhookSubscriptionActivated) Agg_WebhookSubscription ''webhook.subscription.activated''
         [''webhook_id'', ''activation_status''] [''signal_selection_summary'']
         ''after_validation'' ''latest_subscription_version'',
      contract (SubscriptionEvent WebhookSubscriptionSuspended) Agg_WebhookSubscription ''webhook.subscription.suspended''
         [''webhook_id'', ''suspension_reason''] [''recovery_hint'']
         ''after_active'' ''webhook_id'',
      contract (SubscriptionEvent WebhookSubscriptionInvalidated) Agg_WebhookSubscription ''webhook.subscription.invalidated''
         [''webhook_id'', ''invalid_reason''] [''validation_failure_category'']
         ''any_configured_state'' ''latest_invalid_state'',
      contract (SubscriptionEvent WebhookSubscriptionRetired) Agg_WebhookSubscription ''webhook.subscription.retired''
         [''webhook_id'', ''retirement_reason''] [''actor_context'']
         ''final_for_subscription_version'' ''webhook_id'']"

definition webhook_delivery_contracts :: "event_contract result list" where
  "webhook_delivery_contracts =
     [contract (DeliveryEvent WebhookDeliveryScheduled) Agg_WebhookDelivery ''webhook.delivery.scheduled''
         [''webhook_delivery_id'', ''webhook_id'', ''source_signal_ref'']
         [''retry_policy'', ''idempotency_key'']
         ''after_valid_subscription'' ''delivery_id_or_idempotency_key'',
      contract (DeliveryEvent WebhookDeliveryStarted) Agg_WebhookDelivery ''webhook.delivery.started''
         [''webhook_delivery_id'', ''attempt_number''] [''job_id'']
         ''after_scheduled'' ''attempt_identity'',
      contract (DeliveryEvent WebhookDeliverySucceeded) Agg_WebhookDelivery ''webhook.delivery.succeeded''
         [''webhook_delivery_id'', ''webhook_id'', ''attempt_number'']
         [''receiver_status_class''] ''terminal_after_started'' ''webhook_delivery_id'',
      contract (DeliveryEvent WebhookDeliveryRetryScheduled) Agg_WebhookDelivery ''webhook.delivery.retry_scheduled''
         [''webhook_delivery_id'', ''retry_policy'', ''attempt_number'', ''failure_category'']
         [''next_retry_window''] ''after_failed_attempt'' ''retry_entry'',
      contract (DeliveryEvent WebhookDeliveryFailed) Agg_WebhookDelivery ''webhook.delivery.failed''
         [''webhook_delivery_id'', ''failure_category'', ''safe_reason'']
         [''attempt_number''] ''after_delivery_attempts'' ''webhook_delivery_id'',
      contract (DeliveryEvent WebhookDeliveryDeadLettered) Agg_WebhookDelivery ''webhook.delivery.dead_lettered''
         [''webhook_delivery_id'', ''dead_letter_reason''] [''retry_summary'']
         ''after_retry_exhaustion'' ''webhook_delivery_id'',
      contract (DeliveryEvent WebhookDeliveryCancelled) Agg_WebhookDelivery ''webhook.delivery.cancelled''
         [''webhook_delivery_id'', ''cancellation_reason''] [''source_signal_ref'']
         ''before_terminal_delivery'' ''webhook_delivery_id'']"

definition guardrail_decision_contracts :: "event_contract result list" where
  "guardrail_decision_contracts =
     [contract (GuardrailEvent GuardrailEvaluated) Agg_GuardrailDecision ''guardrail.evaluated''
         [''guardrail_decision_id'', ''evaluated_intent_ref''] [''risk_summary'']
         ''before_outcome'' ''guardrail_decision_id'',
      contract (GuardrailEvent GuardrailPassed) Agg_GuardrailDecision ''guardrail.passed''
         [''guardrail_decision_id'', ''outcome''] [''safe_reason'']
         ''after_evaluated'' ''guardrail_decision_id'',
      contract (GuardrailEvent GuardrailBlocked) Agg_GuardrailDecision ''guardrail.blocked''
         [''guardrail_decision_id'', ''outcome'', ''safe_reason'']
         [''abuse_risk_classification''] ''after_evaluated'' ''guardrail_decision_id'',
      contract (GuardrailEvent GuardrailThrottled) Agg_GuardrailDecision ''guardrail.throttled''
         [''guardrail_decision_id'', ''outcome'', ''rate_limit_classification'']
         [''retry_after_category''] ''after_evaluated'' ''guardrail_decision_id'',
      contract (GuardrailEvent GuardrailActionRequired) Agg_GuardrailDecision ''guardrail.action_required''
         [''guardrail_decision_id'', ''action_required_reason''] [''risk_summary'']
         ''after_evaluated'' ''guardrail_decision_id'']"

definition provider_profile_contracts :: "event_contract result list" where
  "provider_profile_contracts =
     [contract (ProviderEvent ProviderProfileSupported) Agg_ProviderProfile ''provider_profile.supported''
         [''provider_id'', ''capability_summary''] [''compatibility_notes'']
         ''after_compatibility_check'' ''provider_profile_version'',
      contract (ProviderEvent ProviderProfileDegraded) Agg_ProviderProfile ''provider_profile.degraded''
         [''provider_id'', ''degradation_reason''] [''capability_impact_summary'']
         ''after_supported_or_candidate'' ''latest_status_wins'',
      contract (ProviderEvent ProviderProfileUnsupported) Agg_ProviderProfile ''provider_profile.unsupported''
         [''provider_id'', ''unsupported_reason''] [''capability_impact_summary'']
         ''after_compatibility_check'' ''latest_status_wins'',
      contract (ProviderEvent ProviderCapabilityChanged) Agg_ProviderProfile ''provider_profile.capability_changed''
         [''provider_id'', ''capability_category'', ''previous_classification'', ''new_classification'']
         [''compatibility_notes'']
         ''after_capability_update'' ''provider_capability_version'',
      contract (ProviderEvent ProviderFailureClassified) Agg_ProviderProfile ''provider_profile.failure_classified''
         [''provider_id'', ''failure_category'', ''affected_capability'']
         [''safe_provider_ref''] ''after_infrastructure_translation'' ''observation_ref'']"

definition worker_job_contracts :: "event_contract result list" where
  "worker_job_contracts =
     [contract (WorkerJobEvent WorkerJobQueued) Agg_WorkerJob ''worker.job.queued''
         [''job_id'', ''owner_context_ref'', ''job_type''] [''retry_policy'']
         ''first_for_job'' ''job_id'',
      contract (WorkerJobEvent WorkerJobReserved) Agg_WorkerJob ''worker.job.reserved''
         [''job_id'', ''reservation_ref''] [''attempt_number'']
         ''after_queued'' ''reservation_ref'',
      contract (WorkerJobEvent WorkerJobStarted) Agg_WorkerJob ''worker.job.started''
         [''job_id'', ''attempt_number''] [''worker_runtime_ref'']
         ''after_reserved'' ''attempt_identity'',
      contract (WorkerJobEvent WorkerJobCompleted) Agg_WorkerJob ''worker.job.completed''
         [''job_id'', ''owner_context_ref''] [''result_summary'']
         ''after_started'' ''job_id'',
      contract (WorkerJobEvent WorkerJobRetryScheduled) Agg_WorkerJob ''worker.job.retry_scheduled''
         [''job_id'', ''retry_policy'', ''failure_category''] [''next_retry_window'']
         ''after_failed_attempt'' ''retry_entry'',
      contract (WorkerJobEvent WorkerJobDead) Agg_WorkerJob ''worker.job.dead''
         [''job_id'', ''dead_reason''] [''attempt_summary'']
         ''after_retry_exhaustion'' ''job_id'',
      contract (WorkerJobEvent WorkerJobRecoveryRequired) Agg_WorkerJob ''worker.job.recovery_required''
         [''job_id'', ''recovery_reason''] [''recovery_priority'']
         ''after_dead_or_unsafe_state'' ''recovery_marker'']"

definition access_decision_contracts :: "event_contract result list" where
  "access_decision_contracts =
     [contract (AccessEvent AccessGranted) Agg_AccessDecision ''access.granted''
         [''access_decision_id'', ''actor_ref'', ''capability''] [''target_aggregate_ref'']
         ''before_privileged_mutation'' ''access_decision_id'',
      contract (AccessEvent AccessDenied) Agg_AccessDecision ''access.denied''
         [''access_decision_id'', ''actor_ref'', ''capability'', ''safe_reason'']
         [''target_aggregate_ref''] ''before_stopped_mutation'' ''access_decision_id'',
      contract (AccessEvent PrivilegedActionMarked) Agg_AccessDecision ''access.privileged_action_marked''
         [''access_decision_id'', ''capability'', ''privilege_category'']
         [''target_aggregate_ref''] ''before_action_execution'' ''access_decision_id'',
      contract (AccessEvent SecretAccessRequested) Agg_AccessDecision ''access.secret_access_requested''
         [''access_decision_id'', ''secret_access_reason_category'']
         [''target_secret_ref''] ''before_secret_boundary_access'' ''access_decision_id'',
      contract (AccessEvent AccessDecisionExpired) Agg_AccessDecision ''access.decision_expired''
         [''access_decision_id'', ''actor_ref'', ''capability''] [''expiry_reason'']
         ''after_decision_scope'' ''access_decision_id'']"

definition audit_record_contracts :: "event_contract result list" where
  "audit_record_contracts =
     [contract (AuditEvent AuditRecordRequested) Agg_AuditRecord ''audit.record_requested''
         [''audit_record_id'', ''source_signal_ref'', ''audit_category'']
         [''actor_context''] ''after_auditable_fact'' ''audit_record_id'',
      contract (AuditEvent AuditRecorded) Agg_AuditRecord ''audit.recorded''
         [''audit_record_id'', ''audit_category'', ''retention_category'']
         [''redaction_marker''] ''after_request'' ''audit_record_id'',
      contract (AuditEvent AuditRedactionApplied) Agg_AuditRecord ''audit.redaction_applied''
         [''audit_record_id'', ''redaction_marker''] [''redaction_reason'']
         ''before_recorded_where_applicable'' ''redaction_marker'',
      contract (AuditEvent AuditRetentionExpired) Agg_AuditRecord ''audit.retention_expired''
         [''audit_record_id'', ''retention_category''] [''expiry_reason'']
         ''after_retention_window'' ''audit_record_id'']"

definition health_status_contracts :: "event_contract result list" where
  "health_status_contracts =
     [contract (HealthEvent HealthStatusChanged) Agg_HealthStatus ''health.status_changed''
         [''health_status_id'', ''health_subject'', ''health_category'']
         [''cause_category'']
         ''after_source_signal_classification'' ''latest_classification_wins'',
      contract (HealthEvent HealthDegraded) Agg_HealthStatus ''health.degraded''
         [''health_status_id'', ''health_subject'', ''degradation_cause'']
         [''action_required_marker'']
         ''after_healthy_or_worsening'' ''latest_degradation_wins'',
      contract (HealthEvent HealthRecovered) Agg_HealthStatus ''health.recovered''
         [''health_status_id'', ''health_subject''] [''previous_cause_category'']
         ''after_degraded_unavailable_or_action_required'' ''health_status_id'',
      contract (HealthEvent HealthActionRequired) Agg_HealthStatus ''health.action_required''
         [''health_status_id'', ''health_subject'', ''action_reason'']
         [''recovery_hint_category''] ''after_source_classification'' ''action_marker'']"

definition configuration_snapshot_contracts :: "event_contract result list" where
  "configuration_snapshot_contracts =
     [contract (ConfigurationEvent ConfigurationValidated) Agg_ConfigurationSnapshot ''configuration.validated''
         [''configuration_snapshot_id'', ''safety_classification'']
         [''changed_setting_categories'']
         ''before_activation'' ''configuration_snapshot_id'',
      contract (ConfigurationEvent ConfigurationRejected) Agg_ConfigurationSnapshot ''configuration.rejected''
         [''configuration_snapshot_id'', ''rejection_reason''] [''unsafe_categories'']
         ''after_validation'' ''configuration_snapshot_id'',
      contract (ConfigurationEvent ConfigurationActivated) Agg_ConfigurationSnapshot ''configuration.activated''
         [''configuration_snapshot_id'', ''active_marker''] [''superseded_snapshot_ref'']
         ''after_validated'' ''latest_active_snapshot'',
      contract (ConfigurationEvent ConfigurationGuardrailBypassRejected) Agg_ConfigurationSnapshot ''configuration.guardrail_bypass_rejected''
         [''configuration_snapshot_id'', ''guardrail_category'', ''safe_reason'']
         [''actor_context''] ''during_validation'' ''configuration_snapshot_id'',
      contract (ConfigurationEvent ConfigurationSuperseded) Agg_ConfigurationSnapshot ''configuration.superseded''
         [''configuration_snapshot_id'', ''new_snapshot_ref''] [''reason_category'']
         ''after_new_activation'' ''configuration_snapshot_id'']"

definition telemetry_signal_contracts :: "event_contract result list" where
  "telemetry_signal_contracts =
     [contract (TelemetryEvent TelemetryCaptured) Agg_TelemetrySignal ''telemetry.captured''
         [''telemetry_signal_id'', ''source_signal_ref'', ''data_classification'']
         [''correlation_context''] ''before_sanitization'' ''telemetry_signal_id'',
      contract (TelemetryEvent TelemetrySanitized) Agg_TelemetrySignal ''telemetry.sanitized''
         [''telemetry_signal_id'', ''redaction_marker''] [''projection_category'']
         ''after_captured'' ''telemetry_signal_id'',
      contract (TelemetryEvent TelemetryDropped) Agg_TelemetrySignal ''telemetry.dropped''
         [''telemetry_signal_id'', ''drop_reason''] [''source_context_ref'']
         ''after_captured_or_classified'' ''telemetry_signal_id'',
      contract (TelemetryEvent TelemetryProjected) Agg_TelemetrySignal ''telemetry.projected''
         [''telemetry_signal_id'', ''projection_category''] [''safe_projection_category'']
         ''after_sanitized'' ''projection_target_and_signal_id'']"

definition domainEventContractEntries :: "event_contract result list" where
  "domainEventContractEntries =
     instance_contracts @
     session_contracts @
     message_contracts @
     media_asset_contracts @
     group_contracts @
     webhook_subscription_contracts @
     webhook_delivery_contracts @
     guardrail_decision_contracts @
     provider_profile_contracts @
     worker_job_contracts @
     access_decision_contracts @
     audit_record_contracts @
     health_status_contracts @
     configuration_snapshot_contracts @
     telemetry_signal_contracts"

text \<open>Evaluating the module: the first entry that throws makes the import fail.\<close>

fun all_entries :: "'a result list \<Rightarrow> 'a list result" where
  "all_entries [] = Inr []"
| "all_entries (r # rs) = result_bind r (\<lambda>x. result_map ((#) x) (all_entries rs))"

definition listDomainEventContracts :: "event_contract list result" where
  "listDomainEventContracts = all_entries domainEventContractEntries"

text \<open>\<open>Object.fromEntries\<close>: of two entries with one name the later one stays.\<close>

definition getDomainEventContract :: "domain_event_name \<Rightarrow> event_contract option result" where
  "getDomainEventContract eventName =
     result_map (\<lambda>cs. List.find (\<lambda>c. ec_eventName c = eventName) (rev cs)) listDomainEventContracts"

section \<open>The table is well-formed\<close>

lemma freezeSafeCodes_id: "list_all isSafeDomainCode vs \<Longrightarrow> freezeSafeCodes vs l = Inr vs"
  by (induction vs) (simp_all add: createSafeDomainCode_id)

lemma freezeSafeCodes_ok: "freezeSafeCodes vs l = Inr ws \<Longrightarrow> list_all isSafeDomainCode ws"
  by (induction vs arbitrary: ws) (auto simp: result_simps dest: createSafeDomainCode_ok)

lemma contract_ok:
  assumes "list_all isSafeDomainCode (s # o' # i # rq @ op)"
  shows "contract n a s rq op o' i =
     Inr \<lparr>ec_eventName = n, ec_signalName = s, ec_version = Version_v1, ec_aggregateType = a,
          ec_dataClassification = Event_internal, ec_requiredData = rq, ec_optionalData = op,
          ec_orderingRequirement = o', ec_idempotencyRequirement = i,
          ec_integrationEventName = integrationEventByDomainEvent n\<rparr>"
proof -
  have "read_union event_contract_version_name eventContractVersions ''v1'' l = Inr Version_v1" for l
    using event_contract_version.read_roundtrip [of Version_v1 l] by simp
  moreover have "read_union event_data_classification_name eventDataClassifications ''internal'' l =
      Inr Event_internal" for l
    using event_data_classification.read_roundtrip [of Event_internal l] by simp
  ultimately show ?thesis
    using assms
    by (simp add: contract_def createDomainEventContract_def domain_event_name.read_roundtrip
        domain_aggregate_type.read_roundtrip createSafeDomainCode_id freezeSafeCodes_id
        integration_event.read_roundtrip split: option.split)
qed

text \<open>What every entry satisfies, as a check the table can be run through.\<close>

definition entry_ok :: "event_contract \<Rightarrow> bool" where
  "entry_ok c \<longleftrightarrow>
     ec_aggregateType c = raised_by (ec_eventName c) \<and>
     ec_integrationEventName c = integrationEventByDomainEvent (ec_eventName c) \<and>
     ec_version c = Version_v1 \<and> ec_dataClassification c = Event_internal \<and>
     list_all isSafeDomainCode
       (ec_signalName c # ec_orderingRequirement c # ec_idempotencyRequirement c #
        ec_requiredData c @ ec_optionalData c)"

definition rows_ok :: "event_contract result list \<Rightarrow> domain_event_name list \<Rightarrow> bool" where
  "rows_ok rs ns \<longleftrightarrow> list_all2 (\<lambda>r n. \<exists>c. r = Inr c \<and> ec_eventName c = n \<and> entry_ok c) rs ns"

lemma row_ok:
  assumes "a = raised_by n" "list_all isSafeDomainCode (s # o' # i # rq @ op)"
  shows "\<exists>c. contract n a s rq op o' i = Inr c \<and> ec_eventName c = n \<and> entry_ok c"
  unfolding contract_ok [OF assms(2)] using assms by (simp add: entry_ok_def)

lemma safe_chars:
  "safe_code_char CHR ''a''" "lower_letter CHR ''a''"
  "safe_code_char CHR ''b''" "lower_letter CHR ''b''"
  "safe_code_char CHR ''c''" "lower_letter CHR ''c''"
  "safe_code_char CHR ''d''" "lower_letter CHR ''d''"
  "safe_code_char CHR ''e''" "lower_letter CHR ''e''"
  "safe_code_char CHR ''f''" "lower_letter CHR ''f''"
  "safe_code_char CHR ''g''" "lower_letter CHR ''g''"
  "safe_code_char CHR ''h''" "lower_letter CHR ''h''"
  "safe_code_char CHR ''i''" "lower_letter CHR ''i''"
  "safe_code_char CHR ''j''" "lower_letter CHR ''j''"
  "safe_code_char CHR ''k''" "lower_letter CHR ''k''"
  "safe_code_char CHR ''l''" "lower_letter CHR ''l''"
  "safe_code_char CHR ''m''" "lower_letter CHR ''m''"
  "safe_code_char CHR ''n''" "lower_letter CHR ''n''"
  "safe_code_char CHR ''o''" "lower_letter CHR ''o''"
  "safe_code_char CHR ''p''" "lower_letter CHR ''p''"
  "safe_code_char CHR ''q''" "lower_letter CHR ''q''"
  "safe_code_char CHR ''r''" "lower_letter CHR ''r''"
  "safe_code_char CHR ''s''" "lower_letter CHR ''s''"
  "safe_code_char CHR ''t''" "lower_letter CHR ''t''"
  "safe_code_char CHR ''u''" "lower_letter CHR ''u''"
  "safe_code_char CHR ''v''" "lower_letter CHR ''v''"
  "safe_code_char CHR ''w''" "lower_letter CHR ''w''"
  "safe_code_char CHR ''x''" "lower_letter CHR ''x''"
  "safe_code_char CHR ''y''" "lower_letter CHR ''y''"
  "safe_code_char CHR ''z''" "lower_letter CHR ''z''"
  "safe_code_char CHR ''_''" "safe_code_char CHR ''.''" "safe_code_char CHR ''-''"
  by (simp_all add: safe_code_char_def lower_letter_def)

lemmas row_simps = row_ok isSafeDomainCode_def safe_chars

lemma instance_contracts_ok: "rows_ok instance_contracts (map InstanceEvent instance_events)"
  by (simp add: rows_ok_def instance_contracts_def instance_events_def row_simps)

lemma session_contracts_ok: "rows_ok session_contracts (map SessionEvent session_events)"
  by (simp add: rows_ok_def session_contracts_def session_events_def row_simps)

lemma message_contracts_ok: "rows_ok message_contracts (map MessageEvent message_events)"
  by (simp add: rows_ok_def message_contracts_def message_events_def row_simps)

lemma media_asset_contracts_ok: "rows_ok media_asset_contracts (map MediaEvent media_events)"
  by (simp add: rows_ok_def media_asset_contracts_def media_events_def row_simps)

lemma group_contracts_ok: "rows_ok group_contracts (map GroupEvent group_events)"
  by (simp add: rows_ok_def group_contracts_def group_events_def row_simps)

lemma webhook_subscription_contracts_ok: "rows_ok webhook_subscription_contracts (map SubscriptionEvent webhook_subscription_events)"
  by (simp add: rows_ok_def webhook_subscription_contracts_def webhook_subscription_events_def row_simps)

lemma webhook_delivery_contracts_ok: "rows_ok webhook_delivery_contracts (map DeliveryEvent webhook_delivery_events)"
  by (simp add: rows_ok_def webhook_delivery_contracts_def webhook_delivery_events_def row_simps)

lemma guardrail_decision_contracts_ok: "rows_ok guardrail_decision_contracts (map GuardrailEvent guardrail_events)"
  by (simp add: rows_ok_def guardrail_decision_contracts_def guardrail_events_def row_simps)

lemma provider_profile_contracts_ok: "rows_ok provider_profile_contracts (map ProviderEvent provider_events)"
  by (simp add: rows_ok_def provider_profile_contracts_def provider_events_def row_simps)

lemma worker_job_contracts_ok: "rows_ok worker_job_contracts (map WorkerJobEvent worker_job_events)"
  by (simp add: rows_ok_def worker_job_contracts_def worker_job_events_def row_simps)

lemma access_decision_contracts_ok: "rows_ok access_decision_contracts (map AccessEvent access_events)"
  by (simp add: rows_ok_def access_decision_contracts_def access_events_def row_simps)

lemma audit_record_contracts_ok: "rows_ok audit_record_contracts (map AuditEvent audit_events)"
  by (simp add: rows_ok_def audit_record_contracts_def audit_events_def row_simps)

lemma health_status_contracts_ok: "rows_ok health_status_contracts (map HealthEvent health_events)"
  by (simp add: rows_ok_def health_status_contracts_def health_events_def row_simps)

lemma configuration_snapshot_contracts_ok: "rows_ok configuration_snapshot_contracts (map ConfigurationEvent configuration_events)"
  by (simp add: rows_ok_def configuration_snapshot_contracts_def configuration_events_def row_simps)

lemma telemetry_signal_contracts_ok: "rows_ok telemetry_signal_contracts (map TelemetryEvent telemetry_events)"
  by (simp add: rows_ok_def telemetry_signal_contracts_def telemetry_events_def row_simps)

lemma rows_ok_append: "rows_ok rs ns \<Longrightarrow> rows_ok rs' ns' \<Longrightarrow> rows_ok (rs @ rs') (ns @ ns')"
  by (simp add: rows_ok_def list_all2_appendI)

lemma domainEventContractEntries_ok: "rows_ok domainEventContractEntries domainEventNames"
  unfolding domainEventContractEntries_def domainEventNames_def
  by (intro rows_ok_append instance_contracts_ok session_contracts_ok message_contracts_ok media_asset_contracts_ok group_contracts_ok webhook_subscription_contracts_ok webhook_delivery_contracts_ok guardrail_decision_contracts_ok provider_profile_contracts_ok worker_job_contracts_ok access_decision_contracts_ok audit_record_contracts_ok health_status_contracts_ok configuration_snapshot_contracts_ok telemetry_signal_contracts_ok)

lemma all_entries_ok:
  "rows_ok rs ns \<Longrightarrow> \<exists>cs. all_entries rs = Inr cs \<and> map ec_eventName cs = ns \<and> list_all entry_ok cs"
  unfolding rows_ok_def by (induction rule: list_all2_induct) auto

lemma listDomainEventContracts_ok:
  obtains cs where "listDomainEventContracts = Inr cs" "map ec_eventName cs = domainEventNames"
    "list_all entry_ok cs"
  using all_entries_ok [OF domainEventContractEntries_ok] by (auto simp: listDomainEventContracts_def)

lemma getDomainEventContract_ok:
  "\<exists>c. getDomainEventContract n = Inr (Some c) \<and> ec_eventName c = n \<and> entry_ok c"
proof -
  obtain cs where cs: "listDomainEventContracts = Inr cs" "map ec_eventName cs = domainEventNames"
      "list_all entry_ok cs"
    by (rule listDomainEventContracts_ok)
  have "n \<in> ec_eventName ` set cs"
    using cs(2) domainEventNames_complete [of n] by (metis list.set_map)
  then obtain c where c: "List.find (\<lambda>c. ec_eventName c = n) (rev cs) = Some c"
    by (cases "List.find (\<lambda>c. ec_eventName c = n) (rev cs)") (auto simp: find_None_iff_all)
  then have "c \<in> set cs" "ec_eventName c = n" by (auto dest: find_SomeD)
  moreover have "getDomainEventContract n = Inr (Some c)"
    unfolding getDomainEventContract_def cs(1) by (simp add: c)
  ultimately show ?thesis using cs(3) by (auto simp: list_all_iff)
qed

lemma createDomainEventContract_safe:
  assumes "createDomainEventContract input = Inr c"
  shows "list_all isSafeDomainCode
      (ec_signalName c # ec_orderingRequirement c # ec_idempotencyRequirement c #
       ec_requiredData c @ ec_optionalData c) \<and>
    domain_event_name_text (ec_eventName c) = eci_eventName input \<and>
    domain_aggregate_type_name (ec_aggregateType c) = eci_aggregateType input \<and>
    map_option integration_event_name (ec_integrationEventName c) = eci_integrationEventName input"
  using assms
  by (auto simp: createDomainEventContract_def result_simps domain_event_name.read_iff
      domain_aggregate_type.read_iff integration_event.read_iff
      dest: createSafeDomainCode_ok(1) freezeSafeCodes_ok split: option.splits)

end
