(* ===== verification/EventLog.thy ===== *)
theory EventLog
  imports JobStore EventContracts
begin

text \<open>
  \<open>packages/application/src/ports/event-log.ts\<close> and
  \<open>packages/infrastructure-persistence/src/event-log-store.ts\<close>: the platform event log with its
  retention limit and outbox, in memory (\<open>InMemoryEventLogStore\<close>) and kept in a JSON file
  (\<open>DurableJsonEventLogStore\<close>, over \<open>durable-json-state-store.ts\<close>).  Whether \<open>Date.parse\<close>
  understands a timestamp is the parameter \<open>date_ok\<close>.  Appending mutates the state before it
  persists it, and the model keeps that order.
\<close>

section \<open>ports/event-log.ts\<close>

text \<open>\<open>Payload_other\<close> stands for the JavaScript values the run-time check refuses.\<close>

datatype payload_value =
    Payload_string string | Payload_number jsnum | Payload_bool bool | Payload_null | Payload_other

type_synonym event_payload = "(string \<times> payload_value) list"

record platform_event =
  pe_id :: string
  pe_cursor :: string
  pe_type :: string
  pe_version :: event_contract_version
  pe_timestamp :: string
  pe_dataClassification :: event_data_classification
  pe_source :: string
  pe_payload :: event_payload
  pe_resourceRef :: "string option"
  pe_correlationId :: "string option"

record event_append_input =
  eai_id :: string
  eai_type :: string
  eai_timestamp :: string
  eai_dataClassification :: event_data_classification
  eai_source :: string
  eai_payload :: "event_payload option"
  eai_resourceRef :: "string option"
  eai_correlationId :: "string option"

datatype cursor_status = Cursor_none | Cursor_ok | Cursor_not_found | Cursor_expired

fun cursor_status_name :: "cursor_status \<Rightarrow> string" where
  "cursor_status_name Cursor_none = ''no_cursor''"
| "cursor_status_name Cursor_ok = ''ok''"
| "cursor_status_name Cursor_not_found = ''not_found''"
| "cursor_status_name Cursor_expired = ''expired''"

definition eventLogCursorStatuses :: "cursor_status list" where
  "eventLogCursorStatuses = [Cursor_none, Cursor_ok, Cursor_not_found, Cursor_expired]"

interpretation cursor_status: string_union cursor_status_name eventLogCursorStatuses
proof
  show "distinct (map cursor_status_name eventLogCursorStatuses)"
    by (simp add: eventLogCursorStatuses_def)
  show "v \<in> set eventLogCursorStatuses" for v
    by (cases v) (simp_all add: eventLogCursorStatuses_def)
qed

record replay_request =
  rq_cursor :: "string option"
  rq_limit :: jsnum

record replay_result =
  rp_events :: "platform_event list"
  rp_cursorStatus :: cursor_status
  rp_oldestCursor :: "string option"
  rp_latestCursor :: "string option"

datatype outbox_status = Outbox_pending | Outbox_published

fun outbox_status_name :: "outbox_status \<Rightarrow> string" where
  "outbox_status_name Outbox_pending = ''pending''"
| "outbox_status_name Outbox_published = ''published''"

definition eventOutboxStatuses :: "outbox_status list" where
  "eventOutboxStatuses = [Outbox_pending, Outbox_published]"

interpretation outbox_status: string_union outbox_status_name eventOutboxStatuses
proof
  show "distinct (map outbox_status_name eventOutboxStatuses)"
    by (simp add: eventOutboxStatuses_def)
  show "v \<in> set eventOutboxStatuses" for v
    by (cases v) (simp_all add: eventOutboxStatuses_def)
qed

record outbox_record =
  ob_outboxId :: string
  ob_eventId :: string
  ob_cursor :: string
  ob_status :: outbox_status
  ob_createdAt :: string
  ob_publishedAt :: "string option"

record outbox_publish_result =
  opr_eventId :: string
  opr_cursor :: string

definition assertSafeToken :: "string \<Rightarrow> string \<Rightarrow> unit result" where
  "assertSafeToken value label =
     (if \<not> safe_token value
      then Inl (TypeError (label @ '' must contain only safe token characters.''))
      else Inr ())"

definition assertSafeEventType :: "string \<Rightarrow> unit result" where
  "assertSafeEventType value =
     (if length (js_trim value) = 0 \<or> \<not> safe_token value
      then Inl (TypeError ''Platform event type must be a safe non-empty token.'')
      else Inr ())"

definition isSafePlatformPayloadValue :: "payload_value \<Rightarrow> bool" where
  "isSafePlatformPayloadValue value \<longleftrightarrow> value \<noteq> Payload_other"

fun checkPlatformPayload :: "event_payload \<Rightarrow> unit result" where
  "checkPlatformPayload [] = Inr ()"
| "checkPlatformPayload ((key, value) # rest) =
     result_bind (assertSafeToken key ''Platform event payload key'') (\<lambda>_.
       if \<not> isSafePlatformPayloadValue value
       then Inl (TypeError ''Platform event payload values must be safe scalars.'')
       else checkPlatformPayload rest)"

definition createPlatformEventRecord ::
    "(string \<Rightarrow> bool) \<Rightarrow> platform_event \<Rightarrow> platform_event result" where
  "createPlatformEventRecord date_ok input =
     result_bind (assertSafeToken (pe_id input) ''Platform event id'') (\<lambda>_.
     result_bind (assertSafeToken (pe_cursor input) ''Platform event cursor'') (\<lambda>_.
     result_bind (assertSafeEventType (pe_type input)) (\<lambda>_.
     result_bind (assertSafeToken (pe_source input) ''Platform event source'') (\<lambda>_.
       if \<not> date_ok (pe_timestamp input)
       then Inl (TypeError ''Platform event timestamp must be ISO-8601 compatible.'')
       else result_bind (checkPlatformPayload (pe_payload input)) (\<lambda>_.
         Inr (input\<lparr>pe_version := Version_v1\<rparr>))))))"

text \<open>The record an input becomes under a cursor.\<close>

definition event_at :: "event_append_input \<Rightarrow> string \<Rightarrow> platform_event" where
  "event_at input cursor =
     \<lparr>pe_id = eai_id input, pe_cursor = cursor, pe_type = eai_type input,
      pe_version = Version_v1, pe_timestamp = eai_timestamp input,
      pe_dataClassification = eai_dataClassification input, pe_source = eai_source input,
      pe_payload = value_or (eai_payload input) [], pe_resourceRef = eai_resourceRef input,
      pe_correlationId = eai_correlationId input\<rparr>"

definition createPlatformEventAppendInput ::
    "(string \<Rightarrow> bool) \<Rightarrow> event_append_input \<Rightarrow> event_append_input result" where
  "createPlatformEventAppendInput date_ok input =
     result_map (\<lambda>r.
         \<lparr>eai_id = pe_id r, eai_type = pe_type r, eai_timestamp = pe_timestamp r,
          eai_dataClassification = pe_dataClassification r, eai_source = pe_source r,
          eai_payload = Some (pe_payload r), eai_resourceRef = pe_resourceRef r,
          eai_correlationId = pe_correlationId r\<rparr>)
       (createPlatformEventRecord date_ok (event_at input ''eventlog:0''))"

section \<open>event-log-store.ts: helpers\<close>

record event_log =
  el_nextSequence :: int
  el_events :: "platform_event list"
  el_outbox :: "outbox_record list"

definition emptyState :: event_log where
  "emptyState = \<lparr>el_nextSequence = 1, el_events = [], el_outbox = []\<rparr>"

definition defaultRetentionLimit :: int where
  "defaultRetentionLimit = 1000"

definition cursorPrefix :: string where
  "cursorPrefix = ''eventlog:''"

definition retainEvents :: "platform_event list \<Rightarrow> int \<Rightarrow> platform_event list" where
  "retainEvents events retentionLimit =
     drop (nat (max 0 (int (length events) - retentionLimit))) events"

definition normalizeRetentionLimit :: "jsnum option \<Rightarrow> int result" where
  "normalizeRetentionLimit value =
     (case value of
        None \<Rightarrow> Inr defaultRetentionLimit
      | Some v \<Rightarrow>
          (case as_int v of
             Some n \<Rightarrow> (if n \<le> 0
                then Inl (TypeError ''Event log retentionLimit must be a positive integer.'')
                else Inr n)
           | None \<Rightarrow> Inl (TypeError ''Event log retentionLimit must be a positive integer.'')))"

definition normalizeReplayLimit :: "jsnum \<Rightarrow> int result" where
  "normalizeReplayLimit value =
     (case as_int value of
        Some n \<Rightarrow> (if n \<le> 0
           then Inl (TypeError ''Event log replay limit must be a positive integer.'') else Inr n)
      | None \<Rightarrow> Inl (TypeError ''Event log replay limit must be a positive integer.''))"

definition cursorFromSequence :: "int \<Rightarrow> string" where
  "cursorFromSequence sequence = cursorPrefix @ show_int sequence"

definition sequenceFromCursor :: "string \<Rightarrow> int option" where
  "sequenceFromCursor cursor =
     (if \<not> js_starts_with cursor cursorPrefix then None
      else case parse_int (drop (length cursorPrefix) cursor) of
             None \<Rightarrow> None
           | Some n \<Rightarrow> if \<bar>n\<bar> \<le> max_safe_integer \<and> 0 < n then Some n else None)"

definition isExpiredCursor :: "string \<Rightarrow> string option \<Rightarrow> bool" where
  "isExpiredCursor cursor oldestCursor =
     (case sequenceFromCursor cursor of
        None \<Rightarrow> False
      | Some n \<Rightarrow>
          (case oldestCursor of
             None \<Rightarrow> False
           | Some c \<Rightarrow> (case sequenceFromCursor c of None \<Rightarrow> False | Some m \<Rightarrow> n < m)))"

text \<open>\<open>cause\<close> is the name of the caught error, \<open>metadata\<close> the safe metadata before it.\<close>

definition eventLogFailure ::
    "port_failure_category \<Rightarrow> string \<Rightarrow> string option \<Rightarrow> (string \<times> safe_port_value) list \<Rightarrow>
     port_failure" where
  "eventLogFailure category code cause metadata =
     createApplicationPortFailure
       \<lparr>pf_category = category, pf_code = code, pf_message = ''EventLog operation failed.'',
        pf_retryable = (category = Port_unavailable \<or> category = Port_timeout),
        pf_ownerContext = Some Owner_observability, pf_failureCategory = Some Fail_unexpected,
        pf_safeMetadata = Some (metadata @
          (case cause of None \<Rightarrow> [] | Some n \<Rightarrow> [(''causeName'', Port_string n)]))\<rparr>"

section \<open>The store\<close>

text \<open>
  The store beside what it persists to.  \<open>persist\<close> writes the state and may throw an error of
  some name; the in-memory store writes nothing.
\<close>

record 'd log_store =
  ls_state :: event_log
  ls_disk :: 'd

type_synonym ('s, 'd) persist_of = "'s \<Rightarrow> 'd \<Rightarrow> string option \<times> 'd"
type_synonym 'd persist = "(event_log, 'd) persist_of"

definition persist_nothing :: "('s, unit) persist_of" where
  "persist_nothing state disk = (None, disk)"

text \<open>\<open>DurableJsonStateStore\<close>: a write goes to a temporary file that is then renamed; each may fail.\<close>

record 's json_file =
  jf_file :: "'s option"
  jf_temporary :: "'s option"

datatype write_outcome = Written | Write_failed | Rename_failed

definition write_json :: "write_outcome \<Rightarrow> ('s, 's json_file) persist_of" where
  "write_json w state disk =
     (case w of
        Written \<Rightarrow> (None, disk\<lparr>jf_file := Some state, jf_temporary := None\<rparr>)
      | Write_failed \<Rightarrow> (Some ''Error'', disk)
      | Rename_failed \<Rightarrow> (Some ''Error'', disk\<lparr>jf_temporary := Some state\<rparr>))"

definition read_json :: "event_log json_file \<Rightarrow> event_log" where
  "read_json disk = value_or (jf_file disk) emptyState"

definition createInMemoryEventLogStore :: "unit log_store" where
  "createInMemoryEventLogStore = \<lparr>ls_state = emptyState, ls_disk = ()\<rparr>"

definition createDurableJsonEventLogStore :: "event_log json_file \<Rightarrow> event_log json_file log_store" where
  "createDurableJsonEventLogStore disk = \<lparr>ls_state = read_json disk, ls_disk = disk\<rparr>"

definition appended_state :: "int \<Rightarrow> platform_event \<Rightarrow> event_log \<Rightarrow> event_log" where
  "appended_state retentionLimit event state =
     \<lparr>el_nextSequence = el_nextSequence state + 1,
      el_events = retainEvents (el_events state @ [event]) retentionLimit,
      el_outbox = el_outbox state @
        [\<lparr>ob_outboxId = ''outbox:'' @ pe_id event, ob_eventId = pe_id event,
          ob_cursor = pe_cursor event, ob_status = Outbox_pending,
          ob_createdAt = pe_timestamp event, ob_publishedAt = None\<rparr>]\<rparr>"

definition appendEvent ::
    "(string \<Rightarrow> bool) \<Rightarrow> 'd persist \<Rightarrow> int \<Rightarrow> event_append_input \<Rightarrow> 'd log_store \<Rightarrow>
     platform_event port_result \<times> 'd log_store" where
  "appendEvent date_ok persist retentionLimit input s =
     (let state = ls_state s in
      case List.find (\<lambda>event. pe_id event = eai_id input) (el_events state) of
        Some existing \<Rightarrow> (Inr existing, s)
      | None \<Rightarrow>
          if \<exists>record \<in> set (el_outbox state). ob_eventId record = eai_id input
          then (Inl (eventLogFailure Port_conflict ''event_log_event_already_recorded'' None
                  [(''eventId'', Port_string (eai_id input))]), s)
          else
            (case createPlatformEventRecord date_ok
                    (event_at input (cursorFromSequence (el_nextSequence state))) of
               Inl _ \<Rightarrow> (Inl (eventLogFailure Port_unsafe_payload ''event_log_append_rejected''
                            (Some ''TypeError'') []), s)
             | Inr event \<Rightarrow>
                 let state' = appended_state retentionLimit event state in
                 (case persist state' (ls_disk s) of
                    (None, disk) \<Rightarrow> (Inr event, \<lparr>ls_state = state', ls_disk = disk\<rparr>)
                  | (Some cause, disk) \<Rightarrow>
                      (Inl (eventLogFailure Port_unsafe_payload ''event_log_append_rejected''
                         (Some cause) []), \<lparr>ls_state = state', ls_disk = disk\<rparr>))))"

definition first_cursor :: "platform_event list \<Rightarrow> string option" where
  "first_cursor events = (case events of [] \<Rightarrow> None | e # _ \<Rightarrow> Some (pe_cursor e))"

definition last_cursor :: "platform_event list \<Rightarrow> string option" where
  "last_cursor events = (if events = [] then None else Some (pe_cursor (last events)))"

fun find_index :: "('a \<Rightarrow> bool) \<Rightarrow> 'a list \<Rightarrow> nat option" where
  "find_index P [] = None"
| "find_index P (x # xs) = (if P x then Some 0 else map_option Suc (find_index P xs))"

definition replayEvents :: "replay_request \<Rightarrow> 'd log_store \<Rightarrow> replay_result port_result" where
  "replayEvents request s =
     (case normalizeReplayLimit (rq_limit request) of
        Inl _ \<Rightarrow> Inl (eventLogFailure Port_rejected ''event_log_replay_rejected'' (Some ''TypeError'') [])
      | Inr limit \<Rightarrow>
          let events = el_events (ls_state s);
              oldestCursor = first_cursor events;
              latestCursor = last_cursor events
          in (case rq_cursor request of
                None \<Rightarrow>
                  Inr \<lparr>rp_events = take (nat limit) events, rp_cursorStatus = Cursor_none,
                       rp_oldestCursor = oldestCursor, rp_latestCursor = latestCursor\<rparr>
              | Some cursor \<Rightarrow>
                  (case find_index (\<lambda>event. pe_cursor event = cursor) events of
                     Some i \<Rightarrow>
                       Inr \<lparr>rp_events = take (nat limit) (drop (i + 1) events),
                            rp_cursorStatus = Cursor_ok,
                            rp_oldestCursor = oldestCursor, rp_latestCursor = latestCursor\<rparr>
                   | None \<Rightarrow>
                       Inr \<lparr>rp_events = [],
                            rp_cursorStatus =
                              (if isExpiredCursor cursor oldestCursor then Cursor_expired
                               else Cursor_not_found),
                            rp_oldestCursor = oldestCursor, rp_latestCursor = latestCursor\<rparr>)))"

definition listOutbox ::
    "outbox_status option \<Rightarrow> 'd log_store \<Rightarrow> outbox_record list port_result" where
  "listOutbox status s =
     Inr (case status of
            None \<Rightarrow> el_outbox (ls_state s)
          | Some st \<Rightarrow> filter (\<lambda>record. ob_status record = st) (el_outbox (ls_state s)))"

text \<open>A call that may throw: \<open>Inl\<close> is the name of the error.\<close>

type_synonym 'a call = "string + 'a"

definition markOutboxPublished ::
    "'d persist \<Rightarrow> string \<Rightarrow> string \<Rightarrow> 'd log_store \<Rightarrow>
     outbox_publish_result port_result call \<times> 'd log_store" where
  "markOutboxPublished persist eventId publishedAt s =
     (let state = ls_state s in
      case find_index (\<lambda>record. ob_eventId record = eventId) (el_outbox state) of
        None \<Rightarrow> (Inr (Inl (eventLogFailure Port_rejected ''event_outbox_record_not_found'' None
                   [(''eventId'', Port_string eventId)])), s)
      | Some i \<Rightarrow>
          let published = (el_outbox state ! i)\<lparr>ob_status := Outbox_published,
                             ob_publishedAt := Some publishedAt\<rparr>;
              state' = state\<lparr>el_outbox := (el_outbox state)[i := published]\<rparr>
          in (case persist state' (ls_disk s) of
                (None, disk) \<Rightarrow>
                  (Inr (Inr \<lparr>opr_eventId = ob_eventId published, opr_cursor = ob_cursor published\<rparr>),
                   \<lparr>ls_state = state', ls_disk = disk\<rparr>)
              | (Some cause, disk) \<Rightarrow> (Inl cause, \<lparr>ls_state = state', ls_disk = disk\<rparr>)))"

end
