(* ===== verification/AppCommands.thy ===== *)
theory AppCommands
  imports JobStore Specifications
begin

text \<open>
  \<open>packages/application/src/commands\<close>: the command catalogue, the command envelope and the outcome
  of a command, and \<open>packages/shared/src/request-context.ts\<close> with the context of a port call.  The
  names of the commands are a datatype; reading a name inverts writing it.
\<close>

section \<open>Request context and port context\<close>

record request_context =
  rc_correlationId :: string
  rc_requestId :: "string option"
  rc_traceId :: "string option"

record port_context =
  px_requestContext :: request_context
  px_actorRef :: "string option"
  px_idempotencyKey :: "string option"
  px_dataClassification :: "data_classification option"

definition createRequestContext :: "request_context \<Rightarrow> request_context" where
  "createRequestContext input = input"

section \<open>The catalogue\<close>

datatype command_group =
    CmdGroup_instance | CmdGroup_messaging | CmdGroup_media | CmdGroup_group
  | CmdGroup_webhook | CmdGroup_provider | CmdGroup_operations | CmdGroup_administration
  | CmdGroup_monitoring

fun command_group_name :: "command_group \<Rightarrow> string" where
    "command_group_name CmdGroup_instance = ''instance''"
  | "command_group_name CmdGroup_messaging = ''messaging''"
  | "command_group_name CmdGroup_media = ''media''"
  | "command_group_name CmdGroup_group = ''group''"
  | "command_group_name CmdGroup_webhook = ''webhook''"
  | "command_group_name CmdGroup_provider = ''provider''"
  | "command_group_name CmdGroup_operations = ''operations''"
  | "command_group_name CmdGroup_administration = ''administration''"
  | "command_group_name CmdGroup_monitoring = ''monitoring''"

definition applicationCommandGroups :: "command_group list" where
  "applicationCommandGroups =
     [CmdGroup_instance, CmdGroup_messaging, CmdGroup_media, CmdGroup_group, CmdGroup_webhook,
      CmdGroup_provider, CmdGroup_operations, CmdGroup_administration, CmdGroup_monitoring]"

interpretation command_group: string_union command_group_name applicationCommandGroups
proof
  show "distinct (map command_group_name applicationCommandGroups)"
    by (simp add: applicationCommandGroups_def)
  show "v \<in> set applicationCommandGroups" for v
    by (cases v) (simp_all add: applicationCommandGroups_def)
qed

datatype command_trigger =
    Trigger_product | Trigger_internal_workflow | Trigger_worker | Trigger_provider_signal
  | Trigger_scheduler | Trigger_administration

fun command_trigger_name :: "command_trigger \<Rightarrow> string" where
    "command_trigger_name Trigger_product = ''product''"
  | "command_trigger_name Trigger_internal_workflow = ''internal_workflow''"
  | "command_trigger_name Trigger_worker = ''worker''"
  | "command_trigger_name Trigger_provider_signal = ''provider_signal''"
  | "command_trigger_name Trigger_scheduler = ''scheduler''"
  | "command_trigger_name Trigger_administration = ''administration''"

definition applicationCommandTriggers :: "command_trigger list" where
  "applicationCommandTriggers =
     [Trigger_product, Trigger_internal_workflow, Trigger_worker, Trigger_provider_signal,
      Trigger_scheduler, Trigger_administration]"

interpretation command_trigger: string_union command_trigger_name applicationCommandTriggers
proof
  show "distinct (map command_trigger_name applicationCommandTriggers)"
    by (simp add: applicationCommandTriggers_def)
  show "v \<in> set applicationCommandTriggers" for v
    by (cases v) (simp_all add: applicationCommandTriggers_def)
qed

datatype command_outcome_name =
    Outcome_completed | Outcome_accepted | Outcome_queued | Outcome_waiting
  | Outcome_rejected | Outcome_failed | Outcome_action_required | Outcome_cancelled
  | Outcome_dead_lettered

fun command_outcome_name_name :: "command_outcome_name \<Rightarrow> string" where
    "command_outcome_name_name Outcome_completed = ''completed''"
  | "command_outcome_name_name Outcome_accepted = ''accepted''"
  | "command_outcome_name_name Outcome_queued = ''queued''"
  | "command_outcome_name_name Outcome_waiting = ''waiting''"
  | "command_outcome_name_name Outcome_rejected = ''rejected''"
  | "command_outcome_name_name Outcome_failed = ''failed''"
  | "command_outcome_name_name Outcome_action_required = ''action_required''"
  | "command_outcome_name_name Outcome_cancelled = ''cancelled''"
  | "command_outcome_name_name Outcome_dead_lettered = ''dead_lettered''"

definition applicationCommandOutcomes :: "command_outcome_name list" where
  "applicationCommandOutcomes =
     [Outcome_completed, Outcome_accepted, Outcome_queued, Outcome_waiting, Outcome_rejected,
      Outcome_failed, Outcome_action_required, Outcome_cancelled, Outcome_dead_lettered]"

interpretation command_outcome_name: string_union command_outcome_name_name applicationCommandOutcomes
proof
  show "distinct (map command_outcome_name_name applicationCommandOutcomes)"
    by (simp add: applicationCommandOutcomes_def)
  show "v \<in> set applicationCommandOutcomes" for v
    by (cases v) (simp_all add: applicationCommandOutcomes_def)
qed

datatype (plugins only: code) command_name =
    Cmd_CreateInstance | Cmd_UpdateInstanceMetadata | Cmd_ConnectInstance
  | Cmd_StartQrPairing | Cmd_RefreshQrPairing | Cmd_ConfirmSessionActivated
  | Cmd_DisconnectInstance | Cmd_ReconnectInstance | Cmd_MarkInstanceLoggedOut
  | Cmd_DestroyInstance | Cmd_SendTextMessage | Cmd_SendMediaMessage
  | Cmd_EvaluateOutboundGuardrails | Cmd_ProcessOutboundMessageWork | Cmd_ApplyProviderMessageStatus
  | Cmd_ReceiveInboundMessage | Cmd_ClassifyUnsupportedInboundMessage | Cmd_RetryMessageSend
  | Cmd_CancelMessage | Cmd_RegisterMedia | Cmd_ProcessMediaWork
  | Cmd_AttachMediaToMessageWorkflow | Cmd_RequestDiagnosticCapture | Cmd_CleanupMediaRetention
  | Cmd_RefreshGroupList | Cmd_SendGroupTextMessage | Cmd_UpdateGroupMetadata
  | Cmd_AddGroupMember | Cmd_RemoveGroupMember | Cmd_PromoteGroupMember
  | Cmd_DemoteGroupMember | Cmd_RefreshGroupInviteLink | Cmd_UpdateGroupLocalState
  | Cmd_RegisterWebhookSubscription | Cmd_UpdateWebhookSubscription | Cmd_ActivateWebhookSubscription
  | Cmd_SuspendWebhookSubscription | Cmd_RetireWebhookSubscription | Cmd_ScheduleWebhookDelivery
  | Cmd_DeliverWebhookWork | Cmd_RetryWebhookDelivery | Cmd_RedriveWebhookDelivery
  | Cmd_BulkRedriveWebhookDeliveries | Cmd_MoveWebhookDeliveryToDeadLetter | Cmd_EvaluateProviderCompatibility
  | Cmd_HandleProviderConnectionSignal | Cmd_HandleProviderAuthSignal | Cmd_HandleProviderMessageSignal
  | Cmd_HandleProviderFailureSignal | Cmd_RefreshProviderCapability | Cmd_QueueAsyncWork
  | Cmd_ReserveWorkerJob | Cmd_CompleteWorkerJob | Cmd_MarkWorkerJobRetryOrDead
  | Cmd_EvaluateAccessDecision | Cmd_ValidateConfigurationSnapshot | Cmd_ActivateConfigurationSnapshot
  | Cmd_RecordAuditEvidence | Cmd_RefreshHealthStatus | Cmd_CaptureTelemetrySignal

primrec command_name_text :: "command_name \<Rightarrow> string" where
    "command_name_text Cmd_CreateInstance = ''CreateInstance''"
  | "command_name_text Cmd_UpdateInstanceMetadata = ''UpdateInstanceMetadata''"
  | "command_name_text Cmd_ConnectInstance = ''ConnectInstance''"
  | "command_name_text Cmd_StartQrPairing = ''StartQrPairing''"
  | "command_name_text Cmd_RefreshQrPairing = ''RefreshQrPairing''"
  | "command_name_text Cmd_ConfirmSessionActivated = ''ConfirmSessionActivated''"
  | "command_name_text Cmd_DisconnectInstance = ''DisconnectInstance''"
  | "command_name_text Cmd_ReconnectInstance = ''ReconnectInstance''"
  | "command_name_text Cmd_MarkInstanceLoggedOut = ''MarkInstanceLoggedOut''"
  | "command_name_text Cmd_DestroyInstance = ''DestroyInstance''"
  | "command_name_text Cmd_SendTextMessage = ''SendTextMessage''"
  | "command_name_text Cmd_SendMediaMessage = ''SendMediaMessage''"
  | "command_name_text Cmd_EvaluateOutboundGuardrails = ''EvaluateOutboundGuardrails''"
  | "command_name_text Cmd_ProcessOutboundMessageWork = ''ProcessOutboundMessageWork''"
  | "command_name_text Cmd_ApplyProviderMessageStatus = ''ApplyProviderMessageStatus''"
  | "command_name_text Cmd_ReceiveInboundMessage = ''ReceiveInboundMessage''"
  | "command_name_text Cmd_ClassifyUnsupportedInboundMessage = ''ClassifyUnsupportedInboundMessage''"
  | "command_name_text Cmd_RetryMessageSend = ''RetryMessageSend''"
  | "command_name_text Cmd_CancelMessage = ''CancelMessage''"
  | "command_name_text Cmd_RegisterMedia = ''RegisterMedia''"
  | "command_name_text Cmd_ProcessMediaWork = ''ProcessMediaWork''"
  | "command_name_text Cmd_AttachMediaToMessageWorkflow = ''AttachMediaToMessageWorkflow''"
  | "command_name_text Cmd_RequestDiagnosticCapture = ''RequestDiagnosticCapture''"
  | "command_name_text Cmd_CleanupMediaRetention = ''CleanupMediaRetention''"
  | "command_name_text Cmd_RefreshGroupList = ''RefreshGroupList''"
  | "command_name_text Cmd_SendGroupTextMessage = ''SendGroupTextMessage''"
  | "command_name_text Cmd_UpdateGroupMetadata = ''UpdateGroupMetadata''"
  | "command_name_text Cmd_AddGroupMember = ''AddGroupMember''"
  | "command_name_text Cmd_RemoveGroupMember = ''RemoveGroupMember''"
  | "command_name_text Cmd_PromoteGroupMember = ''PromoteGroupMember''"
  | "command_name_text Cmd_DemoteGroupMember = ''DemoteGroupMember''"
  | "command_name_text Cmd_RefreshGroupInviteLink = ''RefreshGroupInviteLink''"
  | "command_name_text Cmd_UpdateGroupLocalState = ''UpdateGroupLocalState''"
  | "command_name_text Cmd_RegisterWebhookSubscription = ''RegisterWebhookSubscription''"
  | "command_name_text Cmd_UpdateWebhookSubscription = ''UpdateWebhookSubscription''"
  | "command_name_text Cmd_ActivateWebhookSubscription = ''ActivateWebhookSubscription''"
  | "command_name_text Cmd_SuspendWebhookSubscription = ''SuspendWebhookSubscription''"
  | "command_name_text Cmd_RetireWebhookSubscription = ''RetireWebhookSubscription''"
  | "command_name_text Cmd_ScheduleWebhookDelivery = ''ScheduleWebhookDelivery''"
  | "command_name_text Cmd_DeliverWebhookWork = ''DeliverWebhookWork''"
  | "command_name_text Cmd_RetryWebhookDelivery = ''RetryWebhookDelivery''"
  | "command_name_text Cmd_RedriveWebhookDelivery = ''RedriveWebhookDelivery''"
  | "command_name_text Cmd_BulkRedriveWebhookDeliveries = ''BulkRedriveWebhookDeliveries''"
  | "command_name_text Cmd_MoveWebhookDeliveryToDeadLetter = ''MoveWebhookDeliveryToDeadLetter''"
  | "command_name_text Cmd_EvaluateProviderCompatibility = ''EvaluateProviderCompatibility''"
  | "command_name_text Cmd_HandleProviderConnectionSignal = ''HandleProviderConnectionSignal''"
  | "command_name_text Cmd_HandleProviderAuthSignal = ''HandleProviderAuthSignal''"
  | "command_name_text Cmd_HandleProviderMessageSignal = ''HandleProviderMessageSignal''"
  | "command_name_text Cmd_HandleProviderFailureSignal = ''HandleProviderFailureSignal''"
  | "command_name_text Cmd_RefreshProviderCapability = ''RefreshProviderCapability''"
  | "command_name_text Cmd_QueueAsyncWork = ''QueueAsyncWork''"
  | "command_name_text Cmd_ReserveWorkerJob = ''ReserveWorkerJob''"
  | "command_name_text Cmd_CompleteWorkerJob = ''CompleteWorkerJob''"
  | "command_name_text Cmd_MarkWorkerJobRetryOrDead = ''MarkWorkerJobRetryOrDead''"
  | "command_name_text Cmd_EvaluateAccessDecision = ''EvaluateAccessDecision''"
  | "command_name_text Cmd_ValidateConfigurationSnapshot = ''ValidateConfigurationSnapshot''"
  | "command_name_text Cmd_ActivateConfigurationSnapshot = ''ActivateConfigurationSnapshot''"
  | "command_name_text Cmd_RecordAuditEvidence = ''RecordAuditEvidence''"
  | "command_name_text Cmd_RefreshHealthStatus = ''RefreshHealthStatus''"
  | "command_name_text Cmd_CaptureTelemetrySignal = ''CaptureTelemetrySignal''"

record command_definition =
  cd_name :: command_name
  cd_group :: command_group
  cd_trigger :: command_trigger
  cd_idempotencyRequired :: bool
  cd_longRunning :: bool
  cd_asyncBoundary :: bool
  cd_privileged :: bool

definition command ::
    "command_name \<Rightarrow> command_group \<Rightarrow> command_trigger \<Rightarrow> bool \<Rightarrow> bool \<Rightarrow> bool \<Rightarrow> bool \<Rightarrow>
     command_definition" where
  "command name grp trigger idempotencyRequired longRunning asyncBoundary privileged =
     \<lparr>cd_name = name, cd_group = grp, cd_trigger = trigger,
      cd_idempotencyRequired = idempotencyRequired, cd_longRunning = longRunning,
      cd_asyncBoundary = asyncBoundary, cd_privileged = privileged\<rparr>"

definition applicationCommandDefinitions :: "command_definition list" where
  "applicationCommandDefinitions =
     [command Cmd_CreateInstance CmdGroup_instance Trigger_product True False False False,
      command Cmd_UpdateInstanceMetadata CmdGroup_instance Trigger_product False False False False,
      command Cmd_ConnectInstance CmdGroup_instance Trigger_product True True True False,
      command Cmd_StartQrPairing CmdGroup_instance Trigger_internal_workflow True True False False,
      command Cmd_RefreshQrPairing CmdGroup_instance Trigger_product True True False False,
      command Cmd_ConfirmSessionActivated CmdGroup_instance Trigger_provider_signal True False False False,
      command Cmd_DisconnectInstance CmdGroup_instance Trigger_product False True False False,
      command Cmd_ReconnectInstance CmdGroup_instance Trigger_scheduler True True True False,
      command Cmd_MarkInstanceLoggedOut CmdGroup_instance Trigger_provider_signal True False False False,
      command Cmd_DestroyInstance CmdGroup_instance Trigger_administration False True False True,
      command Cmd_SendTextMessage CmdGroup_messaging Trigger_product True True True False,
      command Cmd_SendMediaMessage CmdGroup_messaging Trigger_product True True True False,
      command Cmd_EvaluateOutboundGuardrails CmdGroup_messaging Trigger_internal_workflow True False False False,
      command Cmd_ProcessOutboundMessageWork CmdGroup_messaging Trigger_worker True True True False,
      command Cmd_ApplyProviderMessageStatus CmdGroup_messaging Trigger_provider_signal True False False False,
      command Cmd_ReceiveInboundMessage CmdGroup_messaging Trigger_provider_signal True False False False,
      command Cmd_ClassifyUnsupportedInboundMessage CmdGroup_messaging Trigger_provider_signal True False False False,
      command Cmd_RetryMessageSend CmdGroup_messaging Trigger_product True True True False,
      command Cmd_CancelMessage CmdGroup_messaging Trigger_product True False False False,
      command Cmd_RegisterMedia CmdGroup_media Trigger_product True True True False,
      command Cmd_ProcessMediaWork CmdGroup_media Trigger_worker True True True False,
      command Cmd_AttachMediaToMessageWorkflow CmdGroup_media Trigger_internal_workflow False False False False,
      command Cmd_RequestDiagnosticCapture CmdGroup_media Trigger_administration False False False True,
      command Cmd_CleanupMediaRetention CmdGroup_media Trigger_scheduler True True True False,
      command Cmd_RefreshGroupList CmdGroup_group Trigger_product True True True False,
      command Cmd_SendGroupTextMessage CmdGroup_group Trigger_product True True True False,
      command Cmd_UpdateGroupMetadata CmdGroup_group Trigger_product True True True False,
      command Cmd_AddGroupMember CmdGroup_group Trigger_product True True True False,
      command Cmd_RemoveGroupMember CmdGroup_group Trigger_product True True True False,
      command Cmd_PromoteGroupMember CmdGroup_group Trigger_product True True True False,
      command Cmd_DemoteGroupMember CmdGroup_group Trigger_product True True True False,
      command Cmd_RefreshGroupInviteLink CmdGroup_group Trigger_product True True True False,
      command Cmd_UpdateGroupLocalState CmdGroup_group Trigger_product True True True False,
      command Cmd_RegisterWebhookSubscription CmdGroup_webhook Trigger_product True False False False,
      command Cmd_UpdateWebhookSubscription CmdGroup_webhook Trigger_product True False False False,
      command Cmd_ActivateWebhookSubscription CmdGroup_webhook Trigger_product True False False False,
      command Cmd_SuspendWebhookSubscription CmdGroup_webhook Trigger_product True False False False,
      command Cmd_RetireWebhookSubscription CmdGroup_webhook Trigger_product True True False False,
      command Cmd_ScheduleWebhookDelivery CmdGroup_webhook Trigger_internal_workflow True True True False,
      command Cmd_DeliverWebhookWork CmdGroup_webhook Trigger_worker True True True False,
      command Cmd_RetryWebhookDelivery CmdGroup_webhook Trigger_product True True True False,
      command Cmd_RedriveWebhookDelivery CmdGroup_webhook Trigger_product True True True False,
      command Cmd_BulkRedriveWebhookDeliveries CmdGroup_webhook Trigger_product True True True False,
      command Cmd_MoveWebhookDeliveryToDeadLetter CmdGroup_webhook Trigger_worker True False False False,
      command Cmd_EvaluateProviderCompatibility CmdGroup_provider Trigger_scheduler False False False False,
      command Cmd_HandleProviderConnectionSignal CmdGroup_provider Trigger_provider_signal True False False False,
      command Cmd_HandleProviderAuthSignal CmdGroup_provider Trigger_provider_signal True False False False,
      command Cmd_HandleProviderMessageSignal CmdGroup_provider Trigger_provider_signal True False False False,
      command Cmd_HandleProviderFailureSignal CmdGroup_provider Trigger_provider_signal True False False False,
      command Cmd_RefreshProviderCapability CmdGroup_provider Trigger_scheduler False False False False,
      command Cmd_QueueAsyncWork CmdGroup_operations Trigger_internal_workflow True False True False,
      command Cmd_ReserveWorkerJob CmdGroup_operations Trigger_worker True False False False,
      command Cmd_CompleteWorkerJob CmdGroup_operations Trigger_worker True False False False,
      command Cmd_MarkWorkerJobRetryOrDead CmdGroup_operations Trigger_worker True False False False,
      command Cmd_EvaluateAccessDecision CmdGroup_administration Trigger_internal_workflow False False False True,
      command Cmd_ValidateConfigurationSnapshot CmdGroup_administration Trigger_administration True False False True,
      command Cmd_ActivateConfigurationSnapshot CmdGroup_administration Trigger_administration True False False True,
      command Cmd_RecordAuditEvidence CmdGroup_administration Trigger_internal_workflow True False False False,
      command Cmd_RefreshHealthStatus CmdGroup_monitoring Trigger_scheduler True False False False,
      command Cmd_CaptureTelemetrySignal CmdGroup_monitoring Trigger_internal_workflow True False False False]"

definition applicationCommandNames :: "command_name list" where
  "applicationCommandNames = map cd_name applicationCommandDefinitions"

interpretation command_name: string_union command_name_text applicationCommandNames
proof
  show "distinct (map command_name_text applicationCommandNames)"
    by code_simp
  show "v \<in> set applicationCommandNames" for v
    by (cases v) (simp_all add: applicationCommandNames_def applicationCommandDefinitions_def command_def)
qed

definition isApplicationCommandName :: "string \<Rightarrow> bool" where
  "isApplicationCommandName value \<longleftrightarrow> value \<in> set (map command_name_text applicationCommandNames)"

definition isApplicationCommandOutcome :: "string \<Rightarrow> bool" where
  "isApplicationCommandOutcome value \<longleftrightarrow>
     value \<in> set (map command_outcome_name_name applicationCommandOutcomes)"

text \<open>\<open>commandDefinitionByName\<close>: an object built from the entries, a later entry replacing an earlier.\<close>

definition commandDefinitionByName :: "command_name \<Rightarrow> command_definition option" where
  "commandDefinitionByName =
     map_of (rev (map (\<lambda>definition. (cd_name definition, definition)) applicationCommandDefinitions))"

definition getApplicationCommandDefinition :: "command_name \<Rightarrow> command_definition option" where
  "getApplicationCommandDefinition name = commandDefinitionByName name"

definition getApplicationCommandsByGroup :: "command_group \<Rightarrow> command_definition list" where
  "getApplicationCommandsByGroup grp =
     filter (\<lambda>definition. cd_group definition = grp) applicationCommandDefinitions"

section \<open>Envelopes and outcomes\<close>

record command_envelope_input =
  cei_name :: string
  cei_commandRef :: string
  cei_requestContext :: request_context
  cei_targetRef :: "string option"
  cei_actorRef :: "string option"
  cei_idempotencyKey :: "string option"
  cei_safeInputRef :: "string option"
  cei_dataClassification :: "data_classification option"

record command_envelope =
  ce_name :: command_name
  ce_commandRef :: string
  ce_requestContext :: request_context
  ce_targetRef :: "string option"
  ce_actorRef :: "string option"
  ce_idempotencyKey :: "string option"
  ce_safeInputRef :: "string option"
  ce_dataClassification :: "data_classification option"

record command_outcome =
  co_commandRef :: string
  co_outcome :: command_outcome_name
  co_accepted :: bool
  co_retryable :: bool
  co_resultRef :: "string option"
  co_reasonCode :: "string option"

text \<open>
  A name that is not approved is refused before its definition is looked up; the lookup of an
  approved name is total.  The inline input \<open>safeInput\<close> of other commands is not modelled.
\<close>

definition createApplicationCommandEnvelope ::
    "command_envelope_input \<Rightarrow> command_envelope result" where
  "createApplicationCommandEnvelope input =
     (case narrow command_name_text applicationCommandNames (cei_name input) of
        None \<Rightarrow> Inl (TypeError ''ApplicationCommandEnvelope.name must be an approved command.'')
      | Some name \<Rightarrow>
          if (case getApplicationCommandDefinition name of
                None \<Rightarrow> False | Some definition \<Rightarrow> cd_idempotencyRequired definition) \<and>
             cei_idempotencyKey input = None
          then Inl (TypeError
            ''ApplicationCommandEnvelope.idempotencyKey is required for this command.'')
          else Inr \<lparr>ce_name = name, ce_commandRef = cei_commandRef input,
                    ce_requestContext = cei_requestContext input,
                    ce_targetRef = cei_targetRef input, ce_actorRef = cei_actorRef input,
                    ce_idempotencyKey = cei_idempotencyKey input,
                    ce_safeInputRef = cei_safeInputRef input,
                    ce_dataClassification = cei_dataClassification input\<rparr>)"

definition createApplicationCommandOutcome :: "command_outcome \<Rightarrow> command_outcome" where
  "createApplicationCommandOutcome input = input"

text \<open>The port context a handler makes of an envelope.\<close>

definition commandContext :: "command_envelope \<Rightarrow> port_context" where
  "commandContext envelope =
     \<lparr>px_requestContext = ce_requestContext envelope, px_actorRef = ce_actorRef envelope,
      px_idempotencyKey = ce_idempotencyKey envelope,
      px_dataClassification = ce_dataClassification envelope\<rparr>"

definition commandOutcome ::
    "command_envelope \<Rightarrow> command_outcome_name \<Rightarrow> bool \<Rightarrow> bool \<Rightarrow> string option \<Rightarrow> string option \<Rightarrow>
     command_outcome" where
  "commandOutcome envelope outcome accepted retryable resultRef reasonCode =
     createApplicationCommandOutcome
       \<lparr>co_commandRef = ce_commandRef envelope, co_outcome = outcome, co_accepted = accepted,
        co_retryable = retryable, co_resultRef = resultRef, co_reasonCode = reasonCode\<rparr>"

section \<open>Facts\<close>

lemma getApplicationCommandDefinition_total:
  "\<exists>definition. getApplicationCommandDefinition name = Some definition \<and> cd_name definition = name"
  by (cases name) (simp_all add: getApplicationCommandDefinition_def commandDefinitionByName_def
      applicationCommandDefinitions_def command_def)

lemma createApplicationCommandEnvelope_named:
  assumes "cei_name input = command_name_text name" "cei_idempotencyKey input = Some key"
  shows "createApplicationCommandEnvelope input =
    Inr \<lparr>ce_name = name, ce_commandRef = cei_commandRef input,
         ce_requestContext = cei_requestContext input,
         ce_targetRef = cei_targetRef input, ce_actorRef = cei_actorRef input,
         ce_idempotencyKey = Some key, ce_safeInputRef = cei_safeInputRef input,
         ce_dataClassification = cei_dataClassification input\<rparr>"
  using assms by (simp add: createApplicationCommandEnvelope_def)

end
