(* ===== verification/Programs.thy ===== *)
theory Programs
  imports Prelude
begin

text \<open>
  Operations on a state that may throw: \<open>Inl\<close> carries the name of the error, and the state changes
  made before the throw stay.  The application handlers are written with these combinators, an
  \<open>await\<close> being a bind and a \<open>try\<close> with a \<open>catch\<close> a \<open>prog_catch\<close>.
\<close>

type_synonym ('w, 'a) prog = "'w \<Rightarrow> (string + 'a) \<times> 'w"

definition prog_return :: "'a \<Rightarrow> ('w, 'a) prog" where
  "prog_return x w = (Inr x, w)"

definition prog_throw :: "string \<Rightarrow> ('w, 'a) prog" where
  "prog_throw c w = (Inl c, w)"

definition prog_bind :: "('w, 'a) prog \<Rightarrow> ('a \<Rightarrow> ('w, 'b) prog) \<Rightarrow> ('w, 'b) prog" where
  "prog_bind m f w = (case m w of (Inl c, w') \<Rightarrow> (Inl c, w') | (Inr x, w') \<Rightarrow> f x w')"

definition prog_catch :: "('w, 'a) prog \<Rightarrow> (string \<Rightarrow> ('w, 'a) prog) \<Rightarrow> ('w, 'a) prog" where
  "prog_catch m h w = (case m w of (Inl c, w') \<Rightarrow> h c w' | (Inr x, w') \<Rightarrow> (Inr x, w'))"

text \<open>A pure function that throws a \<open>TypeError\<close>.\<close>

definition prog_lift :: "'a result \<Rightarrow> ('w, 'a) prog" where
  "prog_lift r w = (case r of Inl _ \<Rightarrow> (Inl ''TypeError'', w) | Inr x \<Rightarrow> (Inr x, w))"

text \<open>An operation that reports failure as a value and does not throw.\<close>

definition prog_call :: "('w \<Rightarrow> 'a \<times> 'w) \<Rightarrow> ('w, 'a) prog" where
  "prog_call f w = (let (x, w') = f w in (Inr x, w'))"

lemma prog_simps [simp]:
  "prog_return x w = (Inr x, w)"
  "prog_throw c w = (Inl c, w)"
  "prog_lift (Inr x) w = (Inr x, w)"
  "prog_lift (Inl e) w = (Inl ''TypeError'', w)"
  by (simp_all add: prog_return_def prog_throw_def prog_lift_def)

lemma prog_bind_eq [simp]:
  "m w = (Inr x, w') \<Longrightarrow> prog_bind m f w = f x w'"
  "m w = (Inl c, w') \<Longrightarrow> prog_bind m f w = (Inl c, w')"
  by (simp_all add: prog_bind_def)

lemma prog_catch_eq [simp]:
  "m w = (Inr x, w') \<Longrightarrow> prog_catch m h w = (Inr x, w')"
  "m w = (Inl c, w') \<Longrightarrow> prog_catch m h w = h c w'"
  by (simp_all add: prog_catch_def)

lemma prog_call_eq [simp]: "f w = (x, w') \<Longrightarrow> prog_call f w = (Inr x, w')"
  by (simp add: prog_call_def)

lemma prog_bind_Inr:
  "prog_bind m f w = (Inr y, w2) \<longleftrightarrow> (\<exists>x w1. m w = (Inr x, w1) \<and> f x w1 = (Inr y, w2))"
  by (auto simp: prog_bind_def split: prod.splits sum.splits)

end
