(* ===== verification/EventPublishing.thy ===== *)
theory EventPublishing
  imports EventLog AppCommands Programs "HOL-Library.Word"
begin

text \<open>
  How domain events reach the event log: \<open>domain-event-publisher.ts\<close> of the application services
  with its deterministic event ids (a 32-bit FNV-1a hash, kept at its width), the notifications and
  the bus of \<open>internal-event-bus.ts\<close> and \<open>EventLogInternalEventBus\<close>, and the publisher of provider
  signals of \<open>event-log-runtime-publisher.ts\<close>.  SHA-256 and the clock's ISO time are parameters.
\<close>

unbundle bit_operations_syntax

section \<open>domain-event-publisher.ts\<close>

text \<open>\<open>(hash >>> 0).toString(16).padStart(8, "0")\<close>.\<close>

definition hex_digit :: "nat \<Rightarrow> char" where
  "hex_digit d = (if d < 10 then char_of (48 + d) else char_of (87 + d))"

fun show_hex :: "nat \<Rightarrow> string" where
  "show_hex n = (if n < 16 then [hex_digit n] else show_hex (n div 16) @ [hex_digit (n mod 16)])"

declare show_hex.simps [simp del]

definition padStart :: "nat \<Rightarrow> char \<Rightarrow> string \<Rightarrow> string" where
  "padStart n c s = replicate (n - length s) c @ s"

fun stable_hash :: "32 word \<Rightarrow> string \<Rightarrow> 32 word" where
  "stable_hash hash [] = hash"
| "stable_hash hash (c # cs) = stable_hash ((hash XOR word_of_nat (code_unit c)) * 0x01000193) cs"

definition stableToken :: "string \<Rightarrow> string" where
  "stableToken value = padStart 8 (CHR ''0'') (show_hex (unat (stable_hash 0x811c9dc5 value)))"

definition createDeterministicEventId :: "string \<Rightarrow> domain_event \<Rightarrow> nat \<Rightarrow> string" where
  "createDeterministicEventId executionRef e eventIndex =
     js_join '':''
       [''domain_event'', stableToken executionRef, domain_aggregate_type_name (ev_aggregateType e),
        stableToken (ev_aggregateId e), domain_event_name_text (ev_name e), show_nat eventIndex]"

definition clampBaseEventCount :: "jsnum \<Rightarrow> nat \<Rightarrow> nat" where
  "clampBaseEventCount baseEventCount eventCount =
     (case as_int baseEventCount of
        None \<Rightarrow> 0
      | Some n \<Rightarrow> if max_safe_integer < \<bar>n\<bar> \<or> n < 0 then 0 else min (nat n) eventCount)"

record publisher_input =
  pi_aggregateEvents :: "domain_event list"
  pi_baseEventCount :: jsnum
  pi_executionRef :: string
  pi_context :: port_context

type_synonym 'w event_append = "event_append_input \<Rightarrow> ('w, platform_event port_result) prog"

text \<open>The event of the log that a domain event becomes.\<close>

definition platform_input ::
    "string \<Rightarrow> port_context \<Rightarrow> string \<Rightarrow> event_contract \<Rightarrow> domain_event \<Rightarrow> nat \<Rightarrow> event_append_input" where
  "platform_input executionRef context iso_now ctr e eventIndex =
     \<lparr>eai_id = createDeterministicEventId executionRef e eventIndex,
      eai_type = (case ec_integrationEventName ctr of
          Some i \<Rightarrow> integration_event_name i | None \<Rightarrow> ec_signalName ctr @ ''.v1''),
      eai_timestamp = iso_now, eai_dataClassification = ec_dataClassification ctr,
      eai_source = ''domain:'' @ domain_aggregate_type_name (ev_aggregateType e),
      eai_payload = Some
        [(''aggregateId'', Payload_string (ev_aggregateId e)),
         (''aggregateType'', Payload_string (domain_aggregate_type_name (ev_aggregateType e))),
         (''domainEventName'', Payload_string (domain_event_name_text (ev_name e))),
         (''eventIndex'', Payload_number (num_of (int eventIndex)))],
      eai_resourceRef = Some (ev_aggregateId e),
      eai_correlationId = Some (rc_correlationId (px_requestContext context))\<rparr>"

text \<open>A contract that is not in the table is \<open>undefined\<close>, and reading it throws.\<close>

definition contract_of :: "domain_event_name \<Rightarrow> event_contract result" where
  "contract_of n =
     result_bind (getDomainEventContract n) (\<lambda>c.
       case c of None \<Rightarrow> Inl (TypeError ''undefined'') | Some x \<Rightarrow> Inr x)"

fun publish_from ::
    "'w event_append \<Rightarrow> ('w \<Rightarrow> string) \<Rightarrow> string \<Rightarrow> port_context \<Rightarrow> nat \<Rightarrow> domain_event list \<Rightarrow>
     (domain_event \<times> platform_event) list \<Rightarrow>
     ('w, (domain_event \<times> platform_event) list port_result) prog" where
  "publish_from append_event iso_now executionRef context i [] published w = (Inr (Inr published), w)"
| "publish_from append_event iso_now executionRef context i (e # es) published w =
     prog_bind (prog_lift (contract_of (ev_name e))) (\<lambda>ctr w1.
     prog_bind (append_event (platform_input executionRef context (iso_now w1) ctr e i)) (\<lambda>result.
     case result of
       Inl failure \<Rightarrow> prog_return (Inl failure)
     | Inr event \<Rightarrow>
         publish_from append_event iso_now executionRef context (Suc i) es (published @ [(e, event)])) w1) w"

definition publishNewEvents ::
    "'w event_append \<Rightarrow> ('w \<Rightarrow> string) \<Rightarrow> publisher_input \<Rightarrow>
     ('w, (domain_event \<times> platform_event) list port_result) prog" where
  "publishNewEvents append_event iso_now input =
     (let startIndex = clampBaseEventCount (pi_baseEventCount input) (length (pi_aggregateEvents input))
      in publish_from append_event iso_now (pi_executionRef input) (pi_context input) startIndex
           (drop startIndex (pi_aggregateEvents input)) [])"

section \<open>Notifications\<close>

datatype notification_name =
    Note_product_fact_published | Note_async_work_requested | Note_audit_evidence_requested
  | Note_health_refresh_requested | Note_telemetry_projection_requested
  | Note_webhook_delivery_requested

fun notification_name_text :: "notification_name \<Rightarrow> string" where
  "notification_name_text Note_product_fact_published = ''product_fact_published''"
| "notification_name_text Note_async_work_requested = ''async_work_requested''"
| "notification_name_text Note_audit_evidence_requested = ''audit_evidence_requested''"
| "notification_name_text Note_health_refresh_requested = ''health_refresh_requested''"
| "notification_name_text Note_telemetry_projection_requested = ''telemetry_projection_requested''"
| "notification_name_text Note_webhook_delivery_requested = ''webhook_delivery_requested''"

definition applicationNotificationNames :: "notification_name list" where
  "applicationNotificationNames =
     [Note_product_fact_published, Note_async_work_requested, Note_audit_evidence_requested,
      Note_health_refresh_requested, Note_telemetry_projection_requested,
      Note_webhook_delivery_requested]"

interpretation notification_name: string_union notification_name_text applicationNotificationNames
proof
  show "distinct (map notification_name_text applicationNotificationNames)"
    by (simp add: applicationNotificationNames_def)
  show "v \<in> set applicationNotificationNames" for v
    by (cases v) (simp_all add: applicationNotificationNames_def)
qed

record notification =
  nt_name :: notification_name
  nt_sourceSignalRef :: string
  nt_dataClassification :: event_data_classification
  nt_sourceDomainEvent :: "domain_event option"
  nt_integrationEventName :: "integration_event option"
  nt_targetContextRef :: "string option"

record publication_receipt =
  pcr_publicationRef :: string
  pcr_accepted :: bool

definition createProductFactNotification :: "domain_event \<Rightarrow> notification result" where
  "createProductFactNotification e =
     result_map (\<lambda>ctr.
         \<lparr>nt_name = Note_product_fact_published,
          nt_sourceSignalRef = domain_aggregate_type_name (ev_aggregateType e) @ '':'' @
            ev_aggregateId e @ '':'' @ domain_event_name_text (ev_name e),
          nt_dataClassification = ec_dataClassification ctr, nt_sourceDomainEvent = Some e,
          nt_integrationEventName = ec_integrationEventName ctr,
          nt_targetContextRef = Some (domain_aggregate_type_name (ev_aggregateType e))\<rparr>)
       (contract_of (ev_name e))"

definition createInternalEventHandlerFailure :: "string \<Rightarrow> notification_name \<Rightarrow> port_failure" where
  "createInternalEventHandlerFailure handlerId notificationName =
     createApplicationPortFailure
       \<lparr>pf_category = Port_rejected, pf_code = ''internal_event_handler_failed'',
        pf_message = ''Internal event handler rejected the notification.'', pf_retryable = True,
        pf_ownerContext = Some Owner_operations, pf_failureCategory = None,
        pf_safeMetadata = Some [(''handlerId'', Port_string handlerId),
          (''notificationName'', Port_string (notification_name_text notificationName))]\<rparr>"

section \<open>EventLogInternalEventBus\<close>

text \<open>\<open>sha256\<close> gives the hex digest of the text fed to it.\<close>

definition stableEventId :: "(string \<Rightarrow> string) \<Rightarrow> notification \<Rightarrow> string" where
  "stableEventId sha256 n =
     ''evt:'' @ take 24 (sha256
       (notification_name_text (nt_name n) @ ''|'' @ nt_sourceSignalRef n @ ''|'' @
        (case nt_integrationEventName n of None \<Rightarrow> [] | Some i \<Rightarrow> integration_event_name i)))"

definition eventAppendInputFromNotification ::
    "(string \<Rightarrow> string) \<Rightarrow> string \<Rightarrow> notification \<Rightarrow> port_context \<Rightarrow> event_append_input" where
  "eventAppendInputFromNotification sha256 iso_now n context =
     (let aggregateType = map_option (\<lambda>e. domain_aggregate_type_name (ev_aggregateType e))
                            (nt_sourceDomainEvent n);
          aggregateId = map_option ev_aggregateId (nt_sourceDomainEvent n);
          entry = (\<lambda>k v. case v of None \<Rightarrow> [] | Some t \<Rightarrow> [(k, Payload_string t)])
      in \<lparr>eai_id = stableEventId sha256 n,
          eai_type = (case nt_integrationEventName n of
              Some i \<Rightarrow> integration_event_name i
            | None \<Rightarrow> notification_name_text (nt_name n) @ ''.v1''),
          eai_timestamp = iso_now, eai_dataClassification = nt_dataClassification n,
          eai_source = value_or (nullish (nt_targetContextRef n) aggregateType)
            (notification_name_text (nt_name n)),
          eai_payload = Some
            ([(''notificationName'', Payload_string (notification_name_text (nt_name n))),
              (''sourceSignalRef'', Payload_string (nt_sourceSignalRef n))] @
             entry ''integrationEventName''
               (map_option integration_event_name (nt_integrationEventName n)) @
             entry ''aggregateType'' aggregateType @ entry ''aggregateId'' aggregateId @
             entry ''targetContextRef'' (nt_targetContextRef n)),
          eai_resourceRef = Some (nt_sourceSignalRef n),
          eai_correlationId = Some (rc_correlationId (px_requestContext context))\<rparr>)"

type_synonym 'w event_handler = "notification \<Rightarrow> port_context \<Rightarrow> ('w, unit port_result) prog"

text \<open>The handlers of a notification in the order they subscribed; a \<open>Map\<close> in insertion order.\<close>

type_synonym 'w event_bus = "(notification_name \<times> (string \<times> 'w event_handler) list) list"

definition handlers_of :: "'w event_bus \<Rightarrow> notification_name \<Rightarrow> (string \<times> 'w event_handler) list" where
  "handlers_of bus n = value_or (map_of bus n) []"

fun put_handlers :: "'k \<Rightarrow> 'v \<Rightarrow> ('k \<times> 'v) list \<Rightarrow> ('k \<times> 'v) list" where
  "put_handlers k v [] = [(k, v)]"
| "put_handlers k v ((k', v') # kvs) = (if k' = k then (k, v) # kvs else (k', v') # put_handlers k v kvs)"

definition subscribe ::
    "notification_name \<Rightarrow> string \<Rightarrow> 'w event_handler \<Rightarrow> 'w event_bus \<Rightarrow> 'w event_bus result" where
  "subscribe n handlerId handler bus =
     (let normalizedHandlerId = js_trim handlerId
      in if length normalizedHandlerId = 0
         then Inl (TypeError ''Internal event handler id must not be empty.'')
         else if normalizedHandlerId \<in> fst ` set (handlers_of bus n)
         then Inl (TypeError (''Internal event handler '' @ [CHR 0x27] @ normalizedHandlerId @
                [CHR 0x27] @ '' is already subscribed to '' @ [CHR 0x27] @ notification_name_text n @
                [CHR 0x27] @ ''.''))
         else Inr (put_handlers n (handlers_of bus n @ [(normalizedHandlerId, handler)]) bus))"

definition unsubscribe :: "notification_name \<Rightarrow> string \<Rightarrow> 'w event_bus \<Rightarrow> 'w event_bus" where
  "unsubscribe n handlerId bus =
     (let remainingHandlers = filter (\<lambda>(i, h). i \<noteq> handlerId) (handlers_of bus n)
      in if length remainingHandlers = 0 then filter (\<lambda>(k, v). k \<noteq> n) bus
         else put_handlers n remainingHandlers bus)"

definition listSubscriptions ::
    "notification_name option \<Rightarrow> 'w event_bus \<Rightarrow> (notification_name \<times> string) list" where
  "listSubscriptions name bus =
     (case name of
        Some n \<Rightarrow> map (\<lambda>(i, h). (n, i)) (handlers_of bus n)
      | None \<Rightarrow> concat (map (\<lambda>(n, hs). map (\<lambda>(i, h). (n, i)) hs) bus))"

fun run_event_handlers ::
    "(string \<times> 'w event_handler) list \<Rightarrow> notification \<Rightarrow> port_context \<Rightarrow> ('w, unit port_result) prog" where
  "run_event_handlers [] n context w = (Inr (Inr ()), w)"
| "run_event_handlers ((i, h) # hs) n context w =
     prog_bind (h n context) (\<lambda>result.
       case result of
         Inl failure \<Rightarrow> prog_return (Inl failure)
       | Inr _ \<Rightarrow> run_event_handlers hs n context) w"

definition publishNotification ::
    "'w event_append \<Rightarrow> (string \<Rightarrow> string) \<Rightarrow> ('w \<Rightarrow> string) \<Rightarrow> 'w event_bus \<Rightarrow> notification \<Rightarrow>
     port_context \<Rightarrow> ('w, publication_receipt port_result) prog" where
  "publishNotification append_event sha256 iso_now bus n context w =
     prog_bind (append_event (eventAppendInputFromNotification sha256 (iso_now w) n context)) (\<lambda>result.
       case result of
         Inl failure \<Rightarrow> prog_return (Inl failure)
       | Inr event \<Rightarrow>
           prog_bind (run_event_handlers (handlers_of bus (nt_name n)) n context) (\<lambda>handled.
             case handled of
               Inl failure \<Rightarrow> prog_return (Inl failure)
             | Inr _ \<Rightarrow> prog_return (Inr \<lparr>pcr_publicationRef = pe_cursor event, pcr_accepted = True\<rparr>))) w"

fun publish_facts ::
    "'w event_append \<Rightarrow> (string \<Rightarrow> string) \<Rightarrow> ('w \<Rightarrow> string) \<Rightarrow> 'w event_bus \<Rightarrow> port_context \<Rightarrow>
     domain_event list \<Rightarrow> publication_receipt option \<Rightarrow> ('w, publication_receipt port_result) prog" where
  "publish_facts append_event sha256 iso_now bus context [] lastReceipt w =
     (Inr (Inr \<lparr>pcr_publicationRef =
        value_or (map_option pcr_publicationRef lastReceipt) ''eventlog:empty'', pcr_accepted = True\<rparr>), w)"
| "publish_facts append_event sha256 iso_now bus context (e # es) lastReceipt w =
     prog_bind (prog_lift (createProductFactNotification e)) (\<lambda>n.
     prog_bind (publishNotification append_event sha256 iso_now bus n context) (\<lambda>result.
     case result of
       Inl failure \<Rightarrow> prog_return (Inl failure)
     | Inr rcpt \<Rightarrow> publish_facts append_event sha256 iso_now bus context es (Some rcpt))) w"

definition publishDomainFacts ::
    "'w event_append \<Rightarrow> (string \<Rightarrow> string) \<Rightarrow> ('w \<Rightarrow> string) \<Rightarrow> 'w event_bus \<Rightarrow> domain_event list \<Rightarrow>
     port_context \<Rightarrow> ('w, publication_receipt port_result) prog" where
  "publishDomainFacts append_event sha256 iso_now bus events context =
     publish_facts append_event sha256 iso_now bus context events None"

section \<open>event-log-runtime-publisher.ts\<close>

datatype signal_kind =
  Signal_connection | Signal_auth | Signal_message_status | Signal_inbound_message | Signal_failure

fun signal_kind_name :: "signal_kind \<Rightarrow> string" where
  "signal_kind_name Signal_connection = ''connection''"
| "signal_kind_name Signal_auth = ''auth''"
| "signal_kind_name Signal_message_status = ''message_status''"
| "signal_kind_name Signal_inbound_message = ''inbound_message''"
| "signal_kind_name Signal_failure = ''failure''"

record provider_signal =
  sg_signalRef :: string
  sg_providerId :: string
  sg_targetRef :: string
  sg_occurrenceRef :: string
  sg_kind :: signal_kind
  sg_dataClassification :: event_data_classification
  sg_failureCategory :: "failure_category option"
  sg_operation :: "string option"
  sg_runtimeState :: "string option"

fun providerSignalEventType :: "signal_kind \<Rightarrow> string" where
  "providerSignalEventType Signal_connection = ''provider.connection.v1''"
| "providerSignalEventType Signal_auth = ''provider.auth.v1''"
| "providerSignalEventType Signal_message_status = ''provider.message_status.v1''"
| "providerSignalEventType Signal_inbound_message = ''provider.inbound_message.v1''"
| "providerSignalEventType Signal_failure = ''provider.failure.v1''"

definition stableProviderSignalEventId :: "(string \<Rightarrow> string) \<Rightarrow> provider_signal \<Rightarrow> string" where
  "stableProviderSignalEventId sha256 signal =
     ''evt:provider:'' @ take 24 (sha256
       (sg_signalRef signal @ ''|'' @ sg_occurrenceRef signal @ ''|'' @
        signal_kind_name (sg_kind signal) @ ''|'' @ value_or (sg_operation signal) [] @ ''|'' @
        value_or (sg_runtimeState signal) []))"

definition providerSignalPayload :: "provider_signal \<Rightarrow> event_payload" where
  "providerSignalPayload signal =
     (let entry = (\<lambda>k v. case v of None \<Rightarrow> [] | Some t \<Rightarrow> [(k, Payload_string t)])
      in [(''providerId'', Payload_string (sg_providerId signal)),
          (''signalKind'', Payload_string (signal_kind_name (sg_kind signal))),
          (''targetRef'', Payload_string (sg_targetRef signal)),
          (''occurrenceRef'', Payload_string (sg_occurrenceRef signal))] @
         entry ''operation'' (sg_operation signal) @ entry ''runtimeState'' (sg_runtimeState signal) @
         entry ''failureCategory'' (map_option failure_category_name (sg_failureCategory signal)))"

definition publishSignal ::
    "'w event_append \<Rightarrow> (string \<Rightarrow> string) \<Rightarrow> ('w \<Rightarrow> string) \<Rightarrow> provider_signal \<Rightarrow> port_context \<Rightarrow>
     ('w, platform_event port_result) prog" where
  "publishSignal append_event sha256 iso_now signal context w =
     append_event
       \<lparr>eai_id = stableProviderSignalEventId sha256 signal,
        eai_type = providerSignalEventType (sg_kind signal), eai_timestamp = iso_now w,
        eai_dataClassification = sg_dataClassification signal, eai_source = ''provider_runtime'',
        eai_payload = Some (providerSignalPayload signal),
        eai_resourceRef = Some (sg_targetRef signal),
        eai_correlationId = Some (rc_correlationId (px_requestContext context))\<rparr> w"

text \<open>\<open>EventLogProviderSignalSink\<close>: a failure is kept, not reported to the caller.\<close>

definition recordSignal ::
    "'w event_append \<Rightarrow> (string \<Rightarrow> string) \<Rightarrow> ('w \<Rightarrow> string) \<Rightarrow> provider_signal \<Rightarrow> port_context \<Rightarrow>
     ('w \<times> port_failure list) \<Rightarrow> (string + unit) \<times> ('w \<times> port_failure list)" where
  "recordSignal append_event sha256 iso_now signal context s =
     (case publishSignal append_event sha256 iso_now signal context (fst s) of
        (Inl cause, w) \<Rightarrow> (Inl cause, (w, snd s))
      | (Inr (Inl failure), w) \<Rightarrow> (Inr (), (w, snd s @ [failure]))
      | (Inr (Inr event), w) \<Rightarrow> (Inr (), (w, snd s)))"

section \<open>The event log as the append port\<close>

definition log_append :: "(string \<Rightarrow> bool) \<Rightarrow> 'd persist \<Rightarrow> int \<Rightarrow> 'd log_store event_append" where
  "log_append date_ok persist retentionLimit input = prog_call (appendEvent date_ok persist retentionLimit input)"

end
