(* ===== verification/EventLogLaws.thy ===== *)
theory EventLogLaws
  imports EventLog
begin

text \<open>
  What the event log keeps: events are the last entries of the outbox, cursors count up without a
  gap, and an event id is recorded once.  A locale states what a reader relies on, and a reader
  that follows the cursors is shown to read every retained event once.
\<close>

section \<open>The invariant\<close>

definition event_entry :: "platform_event \<Rightarrow> string \<times> string" where
  "event_entry e = (pe_id e, pe_cursor e)"

definition outbox_entries :: "event_log \<Rightarrow> (string \<times> string) list" where
  "outbox_entries state = map (\<lambda>r. (ob_eventId r, ob_cursor r)) (el_outbox state)"

definition log_ok :: "event_log \<Rightarrow> bool" where
  "log_ok state \<longleftrightarrow>
     el_nextSequence state = int (length (el_outbox state)) + 1 \<and>
     map ob_cursor (el_outbox state) =
       map (\<lambda>i. cursorFromSequence (int i + 1)) [0..<length (el_outbox state)] \<and>
     distinct (map ob_eventId (el_outbox state)) \<and>
     (\<exists>k \<le> length (el_outbox state). map event_entry (el_events state) = drop k (outbox_entries state)) \<and>
     (el_outbox state \<noteq> [] \<longrightarrow> el_events state \<noteq> [])"

lemma log_ok_empty: "log_ok emptyState"
  by (simp add: log_ok_def emptyState_def outbox_entries_def)

lemma createPlatformEventRecord_ok:
  "createPlatformEventRecord date_ok input = Inr e \<Longrightarrow> e = input\<lparr>pe_version := Version_v1\<rparr>"
  by (auto simp: createPlatformEventRecord_def result_simps split: if_splits)

lemma createPlatformEventRecord_event_at:
  "createPlatformEventRecord date_ok (event_at input c) = Inr e \<Longrightarrow> e = event_at input c"
  by (auto dest!: createPlatformEventRecord_ok simp: event_at_def)

lemma event_at_simps [simp]:
  "pe_id (event_at input c) = eai_id input" "pe_cursor (event_at input c) = c"
  "pe_timestamp (event_at input c) = eai_timestamp input"
  by (simp_all add: event_at_def)

text \<open>The id is new to the log and the outbox.\<close>

definition fresh_id :: "event_append_input \<Rightarrow> event_log \<Rightarrow> bool" where
  "fresh_id input state \<longleftrightarrow>
     (\<forall>e \<in> set (el_events state). pe_id e \<noteq> eai_id input) \<and>
     (\<forall>r \<in> set (el_outbox state). ob_eventId r \<noteq> eai_id input)"

lemma appendEvent_fresh:
  assumes "fresh_id input (ls_state s)"
    and "createPlatformEventRecord date_ok
      (event_at input (cursorFromSequence (el_nextSequence (ls_state s)))) = Inr e"
  shows "ls_state (snd (appendEvent date_ok persist limit input s)) = appended_state limit e (ls_state s)"
  using assms
  by (auto simp: appendEvent_def Let_def fresh_id_def find_None_iff_all
      split: option.splits prod.splits dest!: find_SomeD)

lemma appendEvent_cases:
  obtains (same) "ls_state (snd (appendEvent date_ok persist limit input s)) = ls_state s"
  | (appended) e where "fresh_id input (ls_state s)"
      "createPlatformEventRecord date_ok
        (event_at input (cursorFromSequence (el_nextSequence (ls_state s)))) = Inr e"
      "ls_state (snd (appendEvent date_ok persist limit input s)) = appended_state limit e (ls_state s)"
proof (cases "fresh_id input (ls_state s)")
  case True
  then show ?thesis
    using appendEvent_fresh [OF True] same appended
    by (cases "createPlatformEventRecord date_ok
        (event_at input (cursorFromSequence (el_nextSequence (ls_state s))))")
      (auto simp: appendEvent_def Let_def fresh_id_def split: option.splits prod.splits dest!: find_SomeD)
next
  case False
  have "snd (appendEvent date_ok persist limit input s) = s"
  proof (cases "List.find (\<lambda>e. pe_id e = eai_id input) (el_events (ls_state s))")
    case None
    then have "\<exists>r \<in> set (el_outbox (ls_state s)). ob_eventId r = eai_id input"
      using False by (auto simp: fresh_id_def find_None_iff_all)
    then show ?thesis using None by (simp add: appendEvent_def)
  qed (simp add: appendEvent_def)
  then show ?thesis using same by simp
qed

lemma log_ok_appended:
  assumes "log_ok state" "fresh_id input state" "0 < limit"
  shows "log_ok (appended_state limit
    (event_at input (cursorFromSequence (el_nextSequence state))) state)"
proof -
  let ?e = "event_at input (cursorFromSequence (el_nextSequence state))"
  let ?state = "appended_state limit ?e state"
  obtain k where k: "k \<le> length (el_outbox state)"
      "map event_entry (el_events state) = drop k (outbox_entries state)"
    using assms(1) by (auto simp: log_ok_def)
  define d where "d = nat (max 0 (int (Suc (length (el_events state))) - limit))"
  have entries: "outbox_entries ?state = outbox_entries state @ [event_entry ?e]"
    by (simp add: appended_state_def outbox_entries_def event_entry_def)
  have len: "length (outbox_entries state) = length (el_outbox state)"
      "length (el_events state) = length (el_outbox state) - k"
    using arg_cong [OF k(2), of length] by (simp_all add: outbox_entries_def)
  have "map event_entry (el_events ?state) = drop d (drop k (outbox_entries state) @ [event_entry ?e])"
    unfolding k(2) [symmetric]
    by (simp add: appended_state_def retainEvents_def d_def drop_map [symmetric])
  also have "\<dots> = drop (d + k) (outbox_entries ?state)"
    using k(1) len by (simp add: entries add.commute)
  finally have events: "map event_entry (el_events ?state) = drop (d + k) (outbox_entries ?state)" .
  have "d \<le> length (el_events state)" using assms(3) by (simp add: d_def)
  then have bound: "d + k \<le> length (el_outbox state)" using len(2) k(1) by simp
  then have "drop (d + k) (outbox_entries ?state) \<noteq> []"
    by (simp add: entries len(1))
  then have "el_events ?state \<noteq> []" using events by auto
  moreover have "d + k \<le> length (el_outbox ?state)" using bound by (simp add: appended_state_def)
  moreover have "el_nextSequence ?state = int (length (el_outbox ?state)) + 1"
      "map ob_cursor (el_outbox ?state) =
         map (\<lambda>i. cursorFromSequence (int i + 1)) [0..<length (el_outbox ?state)]"
      "distinct (map ob_eventId (el_outbox ?state))"
    using assms(1,2) by (auto simp: log_ok_def appended_state_def fresh_id_def)
  ultimately show ?thesis using events unfolding log_ok_def by blast
qed

lemma find_index_SomeD: "find_index P xs = Some i \<Longrightarrow> i < length xs \<and> P (xs ! i) \<and> (\<forall>j < i. \<not> P (xs ! j))"
proof (induction xs arbitrary: i)
  case (Cons x xs)
  then show ?case by (auto split: if_splits simp: nth_Cons' less_Suc_eq_0_disj)
qed simp

lemma find_index_None: "find_index P xs = None \<longleftrightarrow> (\<forall>x \<in> set xs. \<not> P x)"
  by (induction xs) auto

lemma find_index_eq:
  assumes "distinct (map f xs)" "i < length xs"
  shows "find_index (\<lambda>x. f x = f (xs ! i)) xs = Some i"
proof (cases "find_index (\<lambda>x. f x = f (xs ! i)) xs")
  case None
  then show ?thesis using assms(2) by (auto simp: find_index_None)
next
  case (Some j)
  then have "j < length xs" "f (xs ! j) = f (xs ! i)" by (auto dest: find_index_SomeD)
  then show ?thesis using assms Some by (auto simp: distinct_conv_nth)
qed

lemma map_update_same: "i < length xs \<Longrightarrow> f y = f (xs ! i) \<Longrightarrow> map f (xs[i := y]) = map f xs"
  by (metis list_update_id map_update nth_map)

definition mark_state :: "string \<Rightarrow> string \<Rightarrow> event_log \<Rightarrow> event_log" where
  "mark_state eventId publishedAt state =
     (case find_index (\<lambda>r. ob_eventId r = eventId) (el_outbox state) of
        None \<Rightarrow> state
      | Some i \<Rightarrow> state\<lparr>el_outbox := (el_outbox state)[i := (el_outbox state ! i)
            \<lparr>ob_status := Outbox_published, ob_publishedAt := Some publishedAt\<rparr>]\<rparr>)"

lemma markOutboxPublished_state:
  "ls_state (snd (markOutboxPublished persist eventId publishedAt s)) =
     mark_state eventId publishedAt (ls_state s)"
  by (auto simp: markOutboxPublished_def mark_state_def Let_def split: option.splits prod.splits)

lemma mark_state_cases:
  obtains "mark_state i t state = state"
  | j where "j < length (el_outbox state)"
      "mark_state i t state = state\<lparr>el_outbox := (el_outbox state)[j := (el_outbox state ! j)
         \<lparr>ob_status := Outbox_published, ob_publishedAt := Some t\<rparr>]\<rparr>"
proof (cases "find_index (\<lambda>r. ob_eventId r = i) (el_outbox state)")
  case None
  then show ?thesis using that(1) by (simp add: mark_state_def)
next
  case (Some j)
  then have "j < length (el_outbox state)" using find_index_SomeD by fast
  then show ?thesis using that(2) Some by (simp add: mark_state_def)
qed

lemma mark_state_frame [simp]:
  "el_nextSequence (mark_state i t state) = el_nextSequence state"
  "el_events (mark_state i t state) = el_events state"
  "length (el_outbox (mark_state i t state)) = length (el_outbox state)"
  "map ob_cursor (el_outbox (mark_state i t state)) = map ob_cursor (el_outbox state)"
  "map ob_eventId (el_outbox (mark_state i t state)) = map ob_eventId (el_outbox state)"
  "outbox_entries (mark_state i t state) = outbox_entries state"
  by (rule mark_state_cases [of i t state]; simp add: outbox_entries_def map_update_same)+

lemma log_ok_mark: "log_ok state \<Longrightarrow> log_ok (mark_state i t state)"
  unfolding log_ok_def mark_state_frame
  by (metis length_0_conv mark_state_frame(3))

section \<open>Histories\<close>

datatype log_call = Append_event event_append_input | Mark_published string string

fun log_step ::
    "(string \<Rightarrow> bool) \<Rightarrow> int \<Rightarrow> 'd persist \<times> log_call \<Rightarrow> 'd log_store \<Rightarrow> 'd log_store" where
  "log_step date_ok limit (persist, Append_event input) s = snd (appendEvent date_ok persist limit input s)"
| "log_step date_ok limit (persist, Mark_published i t) s = snd (markOutboxPublished persist i t s)"

text \<open>Each call comes with what persisting does in it.\<close>

definition log_run ::
    "(string \<Rightarrow> bool) \<Rightarrow> int \<Rightarrow> ('d persist \<times> log_call) list \<Rightarrow> 'd log_store \<Rightarrow> 'd log_store" where
  "log_run date_ok limit calls s = fold (log_step date_ok limit) calls s"

lemma log_step_cases:
  obtains (same) "ls_state (log_step date_ok limit c s) = ls_state s"
  | (marked) i t where "ls_state (log_step date_ok limit c s) = mark_state i t (ls_state s)"
  | (appended) input where "fresh_id input (ls_state s)"
      "ls_state (log_step date_ok limit c s) =
         appended_state limit (event_at input (cursorFromSequence (el_nextSequence (ls_state s)))) (ls_state s)"
proof (cases "(date_ok, limit, c, s)" rule: log_step.cases)
  case (1 date_ok' limit' persist input s')
  then show ?thesis
    using same appended
    by (cases rule: appendEvent_cases [of date_ok persist limit input s])
      (auto dest: createPlatformEventRecord_event_at)
next
  case (2 date_ok' limit' persist i t s')
  then show ?thesis using marked [of i t] by (simp add: markOutboxPublished_state)
qed

lemma log_ok_step: "log_ok (ls_state s) \<Longrightarrow> 0 < limit \<Longrightarrow> log_ok (ls_state (log_step date_ok limit c s))"
  by (cases rule: log_step_cases [of date_ok limit c s]) (auto intro: log_ok_mark log_ok_appended)

lemma log_ok_run: "log_ok (ls_state s) \<Longrightarrow> 0 < limit \<Longrightarrow> log_ok (ls_state (log_run date_ok limit calls s))"
  unfolding log_run_def by (rule fold_invariant) (auto intro: log_ok_step)

text \<open>The outbox only grows: an entry keeps its place, its id and its cursor.\<close>

lemma outbox_entries_step:
  "\<exists>more. outbox_entries (ls_state (log_step date_ok limit c s)) = outbox_entries (ls_state s) @ more"
  by (cases rule: log_step_cases [of date_ok limit c s]) (auto simp: outbox_entries_def appended_state_def
      mark_state_frame(6) [unfolded outbox_entries_def])

lemma outbox_entries_run:
  "\<exists>more. outbox_entries (ls_state (log_run date_ok limit calls s)) = outbox_entries (ls_state s) @ more"
  unfolding log_run_def
proof (induction calls arbitrary: s)
  case (Cons c calls)
  obtain a where "outbox_entries (ls_state (log_step date_ok limit c s)) = outbox_entries (ls_state s) @ a"
    using outbox_entries_step by blast
  moreover obtain b where "outbox_entries (ls_state (fold (log_step date_ok limit) calls
      (log_step date_ok limit c s))) = outbox_entries (ls_state (log_step date_ok limit c s)) @ b"
    using Cons.IH by blast
  ultimately show ?case by simp
qed simp

section \<open>Cursors\<close>

lemma cursorFromSequence_inject:
  "0 \<le> m \<Longrightarrow> 0 \<le> n \<Longrightarrow> cursorFromSequence m = cursorFromSequence n \<longleftrightarrow> m = n"
  by (simp add: cursorFromSequence_def show_int_inject_nonneg)

lemma sequenceFromCursor_roundtrip:
  assumes "0 < n" "n \<le> max_safe_integer"
  shows "sequenceFromCursor (cursorFromSequence n) = Some n"
  using assms
  by (simp add: sequenceFromCursor_def cursorFromSequence_def js_starts_with_def show_int_nonneg
      parse_int_show_nat)

lemma log_ok_cursors:
  assumes "log_ok state"
  obtains k where "k \<le> length (el_outbox state)"
    "length (el_events state) = length (el_outbox state) - k"
    "map event_entry (el_events state) = drop k (outbox_entries state)"
    "map pe_cursor (el_events state) =
       map (\<lambda>i. cursorFromSequence (int i + 1)) [k..<length (el_outbox state)]"
proof -
  obtain k where k: "k \<le> length (el_outbox state)"
      "map event_entry (el_events state) = drop k (outbox_entries state)"
    using assms by (auto simp: log_ok_def)
  have "map pe_cursor (el_events state) = map snd (map event_entry (el_events state))"
    by (simp add: event_entry_def)
  also have "\<dots> = drop k (map ob_cursor (el_outbox state))"
    by (simp add: k(2) outbox_entries_def drop_map comp_def)
  also have "map ob_cursor (el_outbox state) =
      map (\<lambda>i. cursorFromSequence (int i + 1)) [0..<length (el_outbox state)]"
    using assms by (simp add: log_ok_def)
  finally have "map pe_cursor (el_events state) =
      map (\<lambda>i. cursorFromSequence (int i + 1)) [k..<length (el_outbox state)]"
    by (simp add: drop_map)
  moreover have "length (el_events state) = length (el_outbox state) - k"
    using arg_cong [OF k(2), of length] by (simp add: outbox_entries_def)
  ultimately show ?thesis using that k by blast
qed

lemma log_ok_distinct_cursors: "log_ok state \<Longrightarrow> distinct (map pe_cursor (el_events state))"
  by (erule log_ok_cursors) (simp add: distinct_map inj_on_def cursorFromSequence_inject)

lemma log_ok_distinct_ids: "log_ok state \<Longrightarrow> distinct (map pe_id (el_events state))"
proof -
  assume ok: "log_ok state"
  then obtain k where k: "map event_entry (el_events state) = drop k (outbox_entries state)"
    by (auto simp: log_ok_def)
  have "map pe_id (el_events state) = map fst (map event_entry (el_events state))"
    by (simp add: event_entry_def)
  also have "\<dots> = drop k (map ob_eventId (el_outbox state))"
    by (simp add: k outbox_entries_def drop_map comp_def)
  finally show ?thesis using ok by (simp add: log_ok_def distinct_drop)
qed

section \<open>Reading the log\<close>

text \<open>A reader takes pages and follows the cursor of the last event until a page is empty.\<close>

fun read_pages ::
    "(replay_request \<Rightarrow> 's \<Rightarrow> replay_result port_result) \<Rightarrow> nat \<Rightarrow> jsnum \<Rightarrow> string option \<Rightarrow> 's \<Rightarrow>
     platform_event list option" where
  "read_pages replay 0 limit cursor s = None"
| "read_pages replay (Suc fuel) limit cursor s =
     (case replay \<lparr>rq_cursor = cursor, rq_limit = limit\<rparr> s of
        Inl _ \<Rightarrow> None
      | Inr r \<Rightarrow>
          (case last_cursor (rp_events r) of
             None \<Rightarrow> Some []
           | Some c \<Rightarrow> map_option ((@) (rp_events r)) (read_pages replay fuel limit (Some c) s)))"

lemma take_drop_length: "take n xs @ drop (length (take n xs)) xs = xs"
  by (cases "n \<le> length xs") (simp_all add: min_def)

locale replay_log =
  fixes replay :: "replay_request \<Rightarrow> 's \<Rightarrow> replay_result port_result"
    and inv :: "'s \<Rightarrow> bool"
    and retained :: "'s \<Rightarrow> platform_event list"
    and cap :: "int \<Rightarrow> nat"
  assumes distinct_cursors: "inv s \<Longrightarrow> distinct (map pe_cursor (retained s))"
    and cap_pos: "0 < n \<Longrightarrow> 0 < cap n"
    and replay_start: "inv s \<Longrightarrow> 0 < n \<Longrightarrow>
      replay \<lparr>rq_cursor = None, rq_limit = num_of n\<rparr> s =
        Inr \<lparr>rp_events = take (cap n) (retained s), rp_cursorStatus = Cursor_none,
             rp_oldestCursor = first_cursor (retained s), rp_latestCursor = last_cursor (retained s)\<rparr>"
    and replay_after: "inv s \<Longrightarrow> 0 < n \<Longrightarrow> i < length (retained s) \<Longrightarrow>
      replay \<lparr>rq_cursor = Some (pe_cursor (retained s ! i)), rq_limit = num_of n\<rparr> s =
        Inr \<lparr>rp_events = take (cap n) (drop (Suc i) (retained s)), rp_cursorStatus = Cursor_ok,
             rp_oldestCursor = first_cursor (retained s), rp_latestCursor = last_cursor (retained s)\<rparr>"
begin

lemma read_pages_after:
  assumes "inv s" "0 < n" "i < length (retained s)" "length (retained s) - i \<le> fuel"
  shows "read_pages replay fuel (num_of n) (Some (pe_cursor (retained s ! i))) s =
    Some (drop (Suc i) (retained s))"
  using assms(3,4)
proof (induction fuel arbitrary: i)
  case 0
  then show ?case by simp
next
  case (Suc fuel)
  let ?page = "take (cap n) (drop (Suc i) (retained s))"
  show ?case
  proof (cases "?page = []")
    case True
    then have "length (retained s) \<le> Suc i" using cap_pos [OF assms(2)] by auto
    then show ?thesis
      using True by (simp add: replay_after [OF assms(1,2) Suc.prems(1)] last_cursor_def)
  next
    case False
    define j where "j = i + length ?page"
    have j: "j < length (retained s)" "i < j" "last ?page = retained s ! j"
      using False Suc.prems(1)
      by (auto simp: j_def last_conv_nth min_def add.commute Suc_diff_Suc numeral_2_eq_2)
    have rest: "?page @ drop (Suc j) (retained s) = drop (Suc i) (retained s)"
      using take_drop_length [of "cap n" "drop (Suc i) (retained s)"] by (simp add: j_def add.commute)
    show ?thesis
      using False Suc.IH [of j] Suc.prems(2) j rest
      by (simp add: replay_after [OF assms(1,2) Suc.prems(1)] last_cursor_def)
  qed
qed

text \<open>One more request than there are events is enough to read the whole log.\<close>

lemma read_pages_all:
  assumes "inv s" "0 < n" "length (retained s) < fuel"
  shows "read_pages replay fuel (num_of n) None s = Some (retained s)"
proof (cases fuel)
  case 0
  then show ?thesis using assms(3) by simp
next
  case (Suc fuel')
  let ?page = "take (cap n) (retained s)"
  show ?thesis
  proof (cases "retained s = []")
    case True
    then show ?thesis by (simp add: Suc replay_start [OF assms(1,2)] last_cursor_def)
  next
    case False
    define j where "j = length ?page - 1"
    have j: "j < length (retained s)" "last ?page = retained s ! j" "?page \<noteq> []" "Suc j = length ?page"
      using False cap_pos [OF assms(2)] by (auto simp: j_def last_conv_nth min_def)
    have rest: "?page @ drop (Suc j) (retained s) = retained s"
      unfolding j(4) by (rule take_drop_length)
    show ?thesis
      using j rest assms(3) read_pages_after [OF assms(1,2) j(1), of fuel']
      by (simp add: Suc replay_start [OF assms(1,2)] last_cursor_def)
  qed
qed

end

lemma replayEvents_start:
  "0 < n \<Longrightarrow> replayEvents \<lparr>rq_cursor = None, rq_limit = num_of n\<rparr> s =
     Inr \<lparr>rp_events = take (nat n) (el_events (ls_state s)), rp_cursorStatus = Cursor_none,
          rp_oldestCursor = first_cursor (el_events (ls_state s)),
          rp_latestCursor = last_cursor (el_events (ls_state s))\<rparr>"
  by (simp add: replayEvents_def normalizeReplayLimit_def Let_def)

lemma replayEvents_after:
  assumes "log_ok (ls_state s)" "0 < n" "i < length (el_events (ls_state s))"
  shows "replayEvents \<lparr>rq_cursor = Some (pe_cursor (el_events (ls_state s) ! i)), rq_limit = num_of n\<rparr> s =
     Inr \<lparr>rp_events = take (nat n) (drop (Suc i) (el_events (ls_state s))), rp_cursorStatus = Cursor_ok,
          rp_oldestCursor = first_cursor (el_events (ls_state s)),
          rp_latestCursor = last_cursor (el_events (ls_state s))\<rparr>"
  using assms find_index_eq [OF log_ok_distinct_cursors [OF assms(1)] assms(3)]
  by (simp add: replayEvents_def normalizeReplayLimit_def Let_def)

interpretation memory_log: replay_log replayEvents "\<lambda>s. log_ok (ls_state s)"
  "\<lambda>s. el_events (ls_state s)" nat
  by unfold_locales (simp_all add: log_ok_distinct_cursors replayEvents_start replayEvents_after)

text \<open>
  Any cursor ever handed out is answered with the entries that follow it, or as expired once its
  event has left the log; it is never answered with a gap and never unknown.
\<close>

lemma replay_resumes:
  assumes ok: "log_ok (ls_state s)" and safe: "el_nextSequence (ls_state s) \<le> max_safe_integer"
    and n: "0 < n" and i: "i < length (outbox_entries (ls_state s))"
      "outbox_entries (ls_state s) ! i = (eventId, c)"
  shows "\<exists>r. replayEvents \<lparr>rq_cursor = Some c, rq_limit = num_of n\<rparr> s = Inr r \<and>
    (if c \<in> pe_cursor ` set (el_events (ls_state s))
     then rp_cursorStatus r = Cursor_ok \<and>
       map event_entry (rp_events r) = take (nat n) (drop (Suc i) (outbox_entries (ls_state s)))
     else rp_cursorStatus r = Cursor_expired \<and> rp_events r = [])"
proof -
  let ?events = "el_events (ls_state s)"
  obtain k where k: "k \<le> length (el_outbox (ls_state s))"
      "length ?events = length (el_outbox (ls_state s)) - k"
      "map event_entry ?events = drop k (outbox_entries (ls_state s))"
      "map pe_cursor ?events =
         map (\<lambda>i. cursorFromSequence (int i + 1)) [k..<length (el_outbox (ls_state s))]"
    using log_ok_cursors [OF ok] by blast
  have len: "length (outbox_entries (ls_state s)) = length (el_outbox (ls_state s))"
    by (simp add: outbox_entries_def)
  have "c = map ob_cursor (el_outbox (ls_state s)) ! i"
    using i by (simp add: outbox_entries_def)
  also have "\<dots> = map (\<lambda>i. cursorFromSequence (int i + 1)) [0..<length (el_outbox (ls_state s))] ! i"
    using ok by (simp add: log_ok_def)
  finally have c: "c = cursorFromSequence (int i + 1)" using i(1) len by simp
  have nth: "pe_cursor (?events ! j) = cursorFromSequence (int (k + j) + 1)" if "j < length ?events" for j
    using arg_cong [OF k(4), of "\<lambda>xs. xs ! j"] that k(2) by simp
  show ?thesis
  proof (cases "k \<le> i")
    case True
    define j where "j = i - k"
    have j: "j < length ?events" using i(1) True len k(2) by (simp add: j_def)
    have cj: "c = pe_cursor (?events ! j)" using nth [OF j] True by (simp add: c j_def)
    have "map event_entry (take (nat n) (drop (Suc j) ?events)) =
        take (nat n) (drop (Suc i) (outbox_entries (ls_state s)))"
      using True by (simp add: take_map [symmetric] drop_map [symmetric] k(3) j_def)
    moreover have "c \<in> pe_cursor ` set ?events" using j by (simp add: cj)
    ultimately show ?thesis
      using replayEvents_after [OF ok n j] by (simp add: cj)
  next
    case False
    have new: "c \<notin> pe_cursor ` set ?events"
    proof
      assume "c \<in> pe_cursor ` set ?events"
      then obtain j where "j < length ?events" "c = pe_cursor (?events ! j)"
        by (auto simp: in_set_conv_nth)
      then have "cursorFromSequence (int i + 1) = cursorFromSequence (int (k + j) + 1)"
        using nth c by simp
      then show False using False by (simp add: cursorFromSequence_inject)
    qed
    have some: "?events \<noteq> []" using ok i(1) len by (auto simp: log_ok_def)
    have oldest: "first_cursor ?events = Some (cursorFromSequence (int k + 1))"
      using nth [of 0] some by (cases ?events) (simp_all add: first_cursor_def)
    have "int i + 1 \<le> max_safe_integer" "int k + 1 \<le> max_safe_integer"
      using safe ok i(1) len k(1) by (auto simp: log_ok_def)
    then have "isExpiredCursor c (first_cursor ?events)"
      using False by (simp add: isExpiredCursor_def oldest c sequenceFromCursor_roundtrip)
    moreover have "find_index (\<lambda>e. pe_cursor e = c) ?events = None"
      using new by (auto simp: find_index_None)
    ultimately show ?thesis
      using new n by (simp add: replayEvents_def normalizeReplayLimit_def Let_def)
  qed
qed

section \<open>Repeated appends\<close>

text \<open>An id is recorded once: a repeated append answers with the stored event, or refuses it.\<close>

lemma appendEvent_recorded:
  assumes "el_outbox (ls_state s) = pre @ r # post" "ob_eventId r = eai_id input" "log_ok (ls_state s)"
  shows "appendEvent date_ok persist limit input s =
    (case List.find (\<lambda>e. pe_id e = eai_id input) (el_events (ls_state s)) of
       Some e \<Rightarrow> (Inr e, s)
     | None \<Rightarrow> (Inl (eventLogFailure Port_conflict ''event_log_event_already_recorded'' None
                [(''eventId'', Port_string (eai_id input))]), s))"
  using assms by (auto simp: appendEvent_def split: option.splits)

lemma retained_length:
  assumes "0 < limit" "length (el_events (ls_state s)) \<le> nat limit"
  shows "length (el_events (ls_state (log_run date_ok limit calls s))) \<le> nat limit"
  unfolding log_run_def
proof (rule fold_invariant)
  show "length (el_events (ls_state s)) \<le> nat limit" by fact
  show "length (el_events (ls_state (log_step date_ok limit c s))) \<le> nat limit"
    if "length (el_events (ls_state s)) \<le> nat limit" for c and s :: "'a log_store"
    using that assms(1)
    by (cases rule: log_step_cases [of date_ok limit c s]) (auto simp: appended_state_def retainEvents_def)
qed

section \<open>The JSON file\<close>

text \<open>Calls with the outcome of the write each makes, if it makes one.\<close>

definition written_calls :: "(write_outcome \<times> log_call) list \<Rightarrow> (event_log json_file persist \<times> log_call) list" where
  "written_calls calls = map (\<lambda>(w, c). (write_json w, c)) calls"

definition json_run ::
    "(string \<Rightarrow> bool) \<Rightarrow> int \<Rightarrow> (write_outcome \<times> log_call) list \<Rightarrow> event_log json_file \<Rightarrow> event_log json_file log_store" where
  "json_run date_ok limit calls disk =
     log_run date_ok limit (written_calls calls) (createDurableJsonEventLogStore disk)"

lemma json_step:
  "read_json (ls_disk (log_step date_ok limit (write_json w, c) s)) = read_json (ls_disk s) \<and>
     (w = Written \<longrightarrow> ls_state (log_step date_ok limit (write_json w, c) s) = ls_state s) \<or>
   read_json (ls_disk (log_step date_ok limit (write_json w, c) s)) =
     ls_state (log_step date_ok limit (write_json w, c) s)"
proof (cases c)
  case (Append_event input)
  then show ?thesis
    by (cases w) (auto simp: appendEvent_def Let_def write_json_def read_json_def
        split: option.splits sum.splits)
next
  case (Mark_published i t)
  then show ?thesis
    by (cases w) (auto simp: markOutboxPublished_def Let_def write_json_def read_json_def
        split: option.splits)
qed

lemma json_run_snoc:
  "json_run date_ok limit (calls @ [(w, c)]) disk =
     log_step date_ok limit (write_json w, c) (json_run date_ok limit calls disk)"
  by (simp add: json_run_def log_run_def written_calls_def)

text \<open>What the file holds is the state after some of the calls, whatever failed.\<close>

lemma json_file_prefix:
  "\<exists>j \<le> length calls. read_json (ls_disk (json_run date_ok limit calls disk)) =
     ls_state (json_run date_ok limit (take j calls) disk)"
proof (induction calls rule: rev_induct)
  case Nil
  show ?case
    by (simp add: json_run_def log_run_def written_calls_def createDurableJsonEventLogStore_def)
next
  case (snoc call calls)
  obtain w c where call: "call = (w, c)" by force
  show ?case
    using json_step [of date_ok limit w c "json_run date_ok limit calls disk"]
  proof (elim disjE conjE)
    assume unchanged: "read_json (ls_disk (log_step date_ok limit (write_json w, c)
        (json_run date_ok limit calls disk))) = read_json (ls_disk (json_run date_ok limit calls disk))"
    obtain j where "j \<le> length calls" "read_json (ls_disk (json_run date_ok limit calls disk)) =
        ls_state (json_run date_ok limit (take j calls) disk)"
      using snoc.IH by blast
    then show ?thesis
      using unchanged by (intro exI [of _ j]) (simp add: call json_run_snoc)
  next
    assume "read_json (ls_disk (log_step date_ok limit (write_json w, c)
        (json_run date_ok limit calls disk))) =
      ls_state (log_step date_ok limit (write_json w, c) (json_run date_ok limit calls disk))"
    then show ?thesis
      by (intro exI [of _ "Suc (length calls)"]) (simp add: call json_run_snoc)
  qed
qed

text \<open>When no write fails, the file holds the state.\<close>

lemma json_file_current:
  assumes "\<forall>(w, c) \<in> set calls. w = Written"
  shows "read_json (ls_disk (json_run date_ok limit calls disk)) = ls_state (json_run date_ok limit calls disk)"
  using assms
proof (induction calls rule: rev_induct)
  case Nil
  show ?case
    by (simp add: json_run_def log_run_def written_calls_def createDurableJsonEventLogStore_def)
next
  case (snoc call calls)
  obtain c where call: "call = (Written, c)" using snoc.prems by (cases call) auto
  show ?case
    using snoc json_step [of date_ok limit Written c "json_run date_ok limit calls disk"]
    by (auto simp: call json_run_snoc)
qed

text \<open>
  An append whose write failed is reported as a failure, but the event stays in memory: the
  repeated append is answered with success and writes nothing.
\<close>

lemma failed_write_masked:
  assumes fresh: "fresh_id input (ls_state s)"
    and ok: "createPlatformEventRecord date_ok
      (event_at input (cursorFromSequence (el_nextSequence (ls_state s)))) = Inr e"
    and "w \<noteq> Written" "0 < limit"
  defines "s1 \<equiv> snd (appendEvent date_ok (write_json w) limit input s)"
  shows "fst (appendEvent date_ok (write_json w) limit input s) =
      Inl (eventLogFailure Port_unsafe_payload ''event_log_append_rejected'' (Some ''Error'') [])"
    and "appendEvent date_ok persist limit input s1 = (Inr e, s1)"
    and "read_json (ls_disk s1) = read_json (ls_disk s)"
proof -
  have none: "List.find (\<lambda>e. pe_id e = eai_id input) (el_events (ls_state s)) = None"
    using fresh by (simp add: fresh_id_def find_None_iff_all)
  have run: "appendEvent date_ok (write_json w) limit input s =
      (Inl (eventLogFailure Port_unsafe_payload ''event_log_append_rejected'' (Some ''Error'') []),
       \<lparr>ls_state = appended_state limit e (ls_state s),
        ls_disk = snd (write_json w (appended_state limit e (ls_state s)) (ls_disk s))\<rparr>)"
    using assms(1,3) ok
    by (cases w) (auto simp: appendEvent_def Let_def none write_json_def fresh_id_def)
  then show "fst (appendEvent date_ok (write_json w) limit input s) =
      Inl (eventLogFailure Port_unsafe_payload ''event_log_append_rejected'' (Some ''Error'') [])" by simp
  show "read_json (ls_disk s1) = read_json (ls_disk s)"
    unfolding s1_def run using assms(3) by (cases w) (simp_all add: write_json_def read_json_def)
  have id: "pe_id e = eai_id input" using createPlatformEventRecord_event_at [OF ok] by simp
  have retained: "e \<in> set (retainEvents (el_events (ls_state s) @ [e]) limit)"
    using assms(4) by (auto simp: retainEvents_def)
  have "pe_id x \<noteq> eai_id input" if "x \<in> set (el_events (ls_state s))" for x
    using fresh that by (simp add: fresh_id_def)
  then have other: "x = e" if "x \<in> set (retainEvents (el_events (ls_state s) @ [e]) limit)" "pe_id x = eai_id input" for x
    using that by (auto simp: retainEvents_def dest!: in_set_dropD)
  obtain y where y: "List.find (\<lambda>x. pe_id x = eai_id input)
      (retainEvents (el_events (ls_state s) @ [e]) limit) = Some y"
    using retained id by (cases "List.find (\<lambda>x. pe_id x = eai_id input)
      (retainEvents (el_events (ls_state s) @ [e]) limit)") (auto simp: find_None_iff_all)
  then have "y = e" using other find_SomeD [OF y] by blast
  with y show "appendEvent date_ok persist limit input s1 = (Inr e, s1)"
    by (simp add: s1_def run appendEvent_def [of _ _ _ _ "\<lparr>ls_state = _, ls_disk = _\<rparr>"] appended_state_def Let_def)
qed

end
