(* ===== verification/EventPublishingLaws.thy ===== *)
theory EventPublishingLaws
  imports EventPublishing EventLogLaws
begin

text \<open>
  Publishing the events of an aggregate: every event has a contract and is accepted by the log,
  its id is safe and its own, and publishing the same events again under the same reference
  records nothing new.
\<close>

section \<open>Event ids\<close>

lemma token_chars:
  "token_char (CHR '':'')" "token_char (CHR ''_'')" "token_char (CHR ''.'')" "token_char (CHR ''-'')"
  "digit_char c \<Longrightarrow> token_char c"
  by (simp_all add: token_char_def)

lemma hex_digit_token: "d < 16 \<Longrightarrow> token_char (hex_digit d)"
  by (auto simp: hex_digit_def token_char_def lower_letter_def digit_char_def of_char_of)

lemma show_hex_token: "list_all token_char (show_hex n)"
proof (induction n rule: show_hex.induct)
  case (1 n)
  then show ?case by (subst show_hex.simps) (simp add: hex_digit_token)
qed

lemma stableToken_token: "list_all token_char (stableToken value)"
proof -
  have "token_char (CHR ''0'')" by (simp add: token_char_def digit_char_def)
  then show ?thesis by (auto simp: stableToken_def padStart_def show_hex_token list_all_iff)
    (use show_hex_token in \<open>auto simp: list_all_iff\<close>)
qed

lemma show_nat_token: "list_all token_char (show_nat n)"
  using show_nat_digits [of n] by (auto simp: list_all_iff token_chars)

lemma name_tokens:
  "list_all token_char (domain_aggregate_type_name k)"
  "list_all token_char (domain_event_name_text n)"
proof -
  show "list_all token_char (domain_aggregate_type_name k)"
    by (cases k) (simp_all add: ascii_letters ascii_letter_token)
  have "list_all ascii_letter (domain_event_name_text n)" for n
  proof (cases n)
    case (InstanceEvent e) then show ?thesis by (cases e) (simp_all add: ascii_letters)
  next
    case (SessionEvent e) then show ?thesis by (cases e) (simp_all add: ascii_letters)
  next
    case (MessageEvent e) then show ?thesis by (cases e) (simp_all add: ascii_letters)
  next
    case (MediaEvent e) then show ?thesis by (cases e) (simp_all add: ascii_letters)
  next
    case (GroupEvent e) then show ?thesis by (cases e) (simp_all add: ascii_letters)
  next
    case (SubscriptionEvent e) then show ?thesis by (cases e) (simp_all add: ascii_letters)
  next
    case (DeliveryEvent e) then show ?thesis by (cases e) (simp_all add: ascii_letters)
  next
    case (GuardrailEvent e) then show ?thesis by (cases e) (simp_all add: ascii_letters)
  next
    case (ProviderEvent e) then show ?thesis by (cases e) (simp_all add: ascii_letters)
  next
    case (WorkerJobEvent e) then show ?thesis by (cases e) (simp_all add: ascii_letters)
  next
    case (AccessEvent e) then show ?thesis by (cases e) (simp_all add: ascii_letters)
  next
    case (AuditEvent e) then show ?thesis by (cases e) (simp_all add: ascii_letters)
  next
    case (HealthEvent e) then show ?thesis by (cases e) (simp_all add: ascii_letters)
  next
    case (ConfigurationEvent e) then show ?thesis by (cases e) (simp_all add: ascii_letters)
  next
    case (TelemetryEvent e) then show ?thesis by (cases e) (simp_all add: ascii_letters)
  qed
  then show "list_all token_char (domain_event_name_text n)"
    by (auto simp: list_all_iff ascii_letter_token)
qed

lemma event_id_eq:
  "createDeterministicEventId executionRef e i =
     ''domain_event:'' @ stableToken executionRef @ '':'' @
     domain_aggregate_type_name (ev_aggregateType e) @ '':'' @ stableToken (ev_aggregateId e) @ '':'' @
     domain_event_name_text (ev_name e) @ '':'' @ show_nat i"
  by (simp add: createDeterministicEventId_def js_join_def)

lemma event_id_safe: "safe_token (createDeterministicEventId executionRef e i)"
  by (simp add: safe_token_def event_id_eq stableToken_token show_nat_token name_tokens token_chars
      ascii_letters ascii_letter_token)

text \<open>The index of the event ends its id.\<close>

lemma takeWhile_digits:
  "list_all digit_char ds \<Longrightarrow> takeWhile digit_char (rev (p @ CHR '':'' # ds)) = rev ds"
proof -
  assume "list_all digit_char ds"
  moreover have "\<not> digit_char (CHR '':'')" by (simp add: digit_char_def)
  ultimately show ?thesis
    by simp (subst takeWhile_append2; auto simp: list_all_iff)
qed

lemma event_id_index:
  assumes "createDeterministicEventId executionRef e i = createDeterministicEventId executionRef' e' j"
  shows "i = j"
proof -
  have split: "\<exists>p. createDeterministicEventId r e i = p @ CHR '':'' # show_nat i" for r e i
    by (rule exI [of _ "''domain_event:'' @ stableToken r @ '':'' @
          domain_aggregate_type_name (ev_aggregateType e) @ '':'' @ stableToken (ev_aggregateId e) @ '':'' @
          domain_event_name_text (ev_name e)"]) (simp add: event_id_eq)
  obtain p q where "p @ CHR '':'' # show_nat i = q @ CHR '':'' # show_nat j"
    using assms split [of executionRef e i] split [of executionRef' e' j] by metis
  then have "rev (show_nat i) = rev (show_nat j)"
    using takeWhile_digits [OF show_nat_digits, of p i] takeWhile_digits [OF show_nat_digits, of q j]
    by metis
  then show ?thesis by simp
qed

section \<open>Contracts and records\<close>

definition the_contract :: "domain_event_name \<Rightarrow> event_contract" where
  "the_contract n = (case contract_of n of Inl _ \<Rightarrow> undefined | Inr c \<Rightarrow> c)"

lemma contract_of_ok:
  "contract_of n = Inr (the_contract n)" "ec_eventName (the_contract n) = n" "entry_ok (the_contract n)"
proof -
  obtain c where "getDomainEventContract n = Inr (Some c)" "ec_eventName c = n" "entry_ok c"
    using getDomainEventContract_ok by blast
  then show "contract_of n = Inr (the_contract n)" "ec_eventName (the_contract n) = n"
      "entry_ok (the_contract n)"
    by (simp_all add: contract_of_def the_contract_def)
qed

lemma integration_event_token: "safe_token (integration_event_name i)"
  by (cases i) (simp_all add: safe_token_def ascii_letters ascii_letter_token token_chars digit_char_def)

lemma safe_token_trim: "safe_token t \<Longrightarrow> js_trim t = t"
  unfolding safe_token_def by (intro js_trim_id) (auto simp: list_all_iff token_char_not_space)

lemma event_type_token:
  "safe_token (eai_type (platform_input r c t (the_contract n) e i))"
proof (cases "ec_integrationEventName (the_contract n)")
  case None
  have "isSafeDomainCode (ec_signalName (the_contract n))"
    using contract_of_ok(3) [of n] by (simp add: entry_ok_def)
  then have "safe_token (ec_signalName (the_contract n) @ ''.v1'')"
    using isSafeDomainCode_chars
    by (auto simp: safe_token_def list_all_iff safe_code_char_token token_chars ascii_letters
        ascii_letter_token digit_char_def)
  then show ?thesis by (simp add: platform_input_def None)
next
  case (Some x)
  then show ?thesis by (simp add: platform_input_def integration_event_token)
qed

lemma cursor_token: "0 \<le> n \<Longrightarrow> safe_token (cursorFromSequence n)"
  by (simp add: safe_token_def cursorFromSequence_def cursorPrefix_def show_int_nonneg show_nat_token
      ascii_letters ascii_letter_token token_chars)

lemma platform_record_ok:
  assumes "date_ok t" "0 \<le> sequence"
  shows "createPlatformEventRecord date_ok
      (event_at (platform_input r c t (the_contract (ev_name e)) e i) (cursorFromSequence sequence)) =
    Inr (event_at (platform_input r c t (the_contract (ev_name e)) e i) (cursorFromSequence sequence))"
proof -
  let ?e = "event_at (platform_input r c t (the_contract (ev_name e)) e i) (cursorFromSequence sequence)"
  have "safe_token (pe_type ?e)" using event_type_token by (simp add: event_at_def)
  moreover have "safe_token (pe_source ?e)"
    by (simp add: event_at_def platform_input_def safe_token_def name_tokens ascii_letters
        ascii_letter_token token_chars)
  moreover have "checkPlatformPayload (pe_payload ?e) = Inr ()"
    by (simp add: event_at_def platform_input_def assertSafeToken_def isSafePlatformPayloadValue_def
        safe_token_def ascii_letters ascii_letter_token)
  moreover have "safe_token (pe_id ?e)" "pe_timestamp ?e = t"
    by (simp_all add: platform_input_def event_id_safe)
  moreover have "safe_token (pe_cursor ?e)" using assms(2) by (simp add: cursor_token)
  ultimately show ?thesis
    using assms(1)
    by (simp add: createPlatformEventRecord_def assertSafeToken_def assertSafeEventType_def
        safe_token_trim safe_token_def) (simp add: event_at_def)
qed

section \<open>Publishing to the in-memory log\<close>

text \<open>The ids under which the events from index \<open>i\<close> are published.\<close>

fun event_ids :: "string \<Rightarrow> nat \<Rightarrow> domain_event list \<Rightarrow> string list" where
  "event_ids r i [] = []"
| "event_ids r i (e # es) = createDeterministicEventId r e i # event_ids r (Suc i) es"

lemma event_ids_zip:
  "event_ids r i es = map (\<lambda>(e, j). createDeterministicEventId r e j) (zip es [i..<i + length es])"
proof (induction es arbitrary: i)
  case (Cons e es)
  have "[i..<i + length (e # es)] = i # [Suc i..<Suc i + length es]" by (simp add: upt_conv_Cons del: upt_Suc)
  then show ?case using Cons by (simp del: upt_Suc)
qed simp

lemma event_ids_index: "x \<in> set (event_ids r i es) \<Longrightarrow> \<exists>e j. i \<le> j \<and> x = createDeterministicEventId r e j"
proof (induction es arbitrary: i)
  case (Cons e es)
  show ?case
  proof (cases "x = createDeterministicEventId r e i")
    case False
    then have "x \<in> set (event_ids r (Suc i) es)" using Cons.prems by simp
    then obtain e' j where "Suc i \<le> j" "x = createDeterministicEventId r e' j"
      using Cons.IH by blast
    then show ?thesis by (intro exI [of _ e'] exI [of _ j]) simp
  qed blast
qed simp

lemma event_ids_distinct: "distinct (event_ids r i es)"
proof (induction es arbitrary: i)
  case (Cons e es)
  have "createDeterministicEventId r e i \<notin> set (event_ids r (Suc i) es)"
    using event_ids_index [of _ r "Suc i" es] event_id_index by (metis Suc_n_not_le_n)
  then show ?case using Cons.IH by simp
qed simp

lemma event_ids_length [simp]: "length (event_ids r i es) = length es"
  by (induction es arbitrary: i) simp_all

abbreviation recorded_ids :: "'d log_store \<Rightarrow> string list" where
  "recorded_ids s \<equiv> map ob_eventId (el_outbox (ls_state s))"

lemma fresh_id_recorded:
  assumes "log_ok (ls_state s)"
  shows "fresh_id input (ls_state s) \<longleftrightarrow> eai_id input \<notin> set (recorded_ids s)"
proof -
  obtain k where k: "map event_entry (el_events (ls_state s)) = drop k (outbox_entries (ls_state s))"
    using assms by (auto simp: log_ok_def)
  have known: "pe_id e \<in> set (recorded_ids s)" if "e \<in> set (el_events (ls_state s))" for e
  proof -
    have "event_entry e \<in> set (drop k (outbox_entries (ls_state s)))"
      using that by (auto simp: k [symmetric])
    then show ?thesis by (auto simp: outbox_entries_def event_entry_def dest!: in_set_dropD)
  qed
  show ?thesis
  proof
    show "eai_id input \<notin> set (recorded_ids s)" if "fresh_id input (ls_state s)"
      using that by (auto simp: fresh_id_def)
    show "fresh_id input (ls_state s)" if "eai_id input \<notin> set (recorded_ids s)"
      unfolding fresh_id_def using that by (auto simp: image_iff dest!: known)
  qed
qed

lemma append_fresh:
  assumes "log_ok (ls_state s)" "eai_id input \<notin> set (recorded_ids s)"
    and "createPlatformEventRecord date_ok
      (event_at input (cursorFromSequence (el_nextSequence (ls_state s)))) = Inr e"
  shows "log_append date_ok persist_nothing limit input s =
    (Inr (Inr e), \<lparr>ls_state = appended_state limit e (ls_state s), ls_disk = ls_disk s\<rparr>)"
  using assms(2,3) fresh_id_recorded [OF assms(1), of input]
  by (auto simp: log_append_def prog_call_def appendEvent_def Let_def persist_nothing_def fresh_id_def
      split: option.splits dest!: find_SomeD)

text \<open>Events none of whose ids is recorded are all accepted, in order.\<close>

lemma publish_fresh:
  assumes "log_ok (ls_state s)" "0 < limit" "\<And>w. date_ok (iso_now w)"
    and "set (event_ids r i es) \<inter> set (recorded_ids s) = {}"
  shows "\<exists>pub s'. publish_from (log_append date_ok persist_nothing limit) iso_now r c i es published s =
      (Inr (Inr (published @ pub)), s') \<and> map fst pub = es \<and>
      map (pe_id \<circ> snd) pub = event_ids r i es \<and>
      log_ok (ls_state s') \<and> recorded_ids s' = recorded_ids s @ event_ids r i es"
  using assms(1,4)
proof (induction es arbitrary: i s published)
  case (Cons e es)
  define input where "input = platform_input r c (iso_now s) (the_contract (ev_name e)) e i"
  define ev where "ev = event_at input (cursorFromSequence (el_nextSequence (ls_state s)))"
  have id: "eai_id input = createDeterministicEventId r e i" by (simp add: input_def platform_input_def)
  have new: "eai_id input \<notin> set (recorded_ids s)" using Cons.prems(2) by (simp add: id)
  have "0 \<le> el_nextSequence (ls_state s)" using Cons.prems(1) by (simp add: log_ok_def)
  then have rec: "createPlatformEventRecord date_ok ev = Inr ev"
    unfolding ev_def input_def by (intro platform_record_ok assms(3))
  define s1 where "s1 = \<lparr>ls_state = appended_state limit ev (ls_state s), ls_disk = ls_disk s\<rparr>"
  have run: "log_append date_ok persist_nothing limit input s = (Inr (Inr ev), s1)"
    using append_fresh [OF Cons.prems(1) new, of date_ok ev limit] rec by (simp add: ev_def s1_def)
  have s1: "log_ok (ls_state s1)" "recorded_ids s1 = recorded_ids s @ [createDeterministicEventId r e i]"
    using log_ok_appended [OF Cons.prems(1) _ assms(2), of input] new
      fresh_id_recorded [OF Cons.prems(1), of input]
    by (simp_all add: s1_def ev_def appended_state_def id)
  have "set (event_ids r (Suc i) es) \<inter> set (recorded_ids s1) = {}"
    using Cons.prems(2) event_ids_distinct [of r i "e # es"] by (auto simp: s1(2))
  then obtain pub s' where rest: "publish_from (log_append date_ok persist_nothing limit) iso_now r c (Suc i) es
      (published @ [(e, ev)]) s1 = (Inr (Inr ((published @ [(e, ev)]) @ pub)), s')" "map fst pub = es"
      "map (pe_id \<circ> snd) pub = event_ids r (Suc i) es" "log_ok (ls_state s')"
      "recorded_ids s' = recorded_ids s1 @ event_ids r (Suc i) es"
    using Cons.IH [OF s1(1), of "Suc i" "published @ [(e, ev)]"] by blast
  have "pe_id ev = createDeterministicEventId r e i" by (simp add: ev_def id)
  then show ?case
    using rest s1(2) run
    by (intro exI [of _ "(e, ev) # pub"] exI [of _ s'])
      (simp add: contract_of_ok(1) input_def [symmetric] comp_def)
qed simp

text \<open>Events that are recorded and retained are answered with the stored records.\<close>

lemma append_known:
  assumes "log_ok (ls_state s)" "e \<in> set (el_events (ls_state s))" "pe_id e = eai_id input"
  shows "log_append date_ok persist limit input s = (Inr (Inr e), s)"
proof -
  obtain x where x: "List.find (\<lambda>e. pe_id e = eai_id input) (el_events (ls_state s)) = Some x"
    using assms(2,3) by (cases "List.find (\<lambda>e. pe_id e = eai_id input) (el_events (ls_state s))")
      (auto simp: find_None_iff_all)
  then have "x \<in> set (el_events (ls_state s))" "pe_id x = pe_id e" using assms(3) by (auto dest: find_SomeD)
  then have "x = e" using distinct_map_filter_eq [OF log_ok_distinct_ids [OF assms(1)] _ assms(2)] by blast
  then show ?thesis by (simp add: log_append_def prog_call_def appendEvent_def x)
qed

lemma publish_known:
  assumes "log_ok (ls_state s)" "map fst pub = es" "map (pe_id \<circ> snd) pub = event_ids r i es"
    and "set (map snd pub) \<subseteq> set (el_events (ls_state s))"
  shows "publish_from (log_append date_ok persist limit) iso_now r c i es published s =
    (Inr (Inr (published @ pub)), s)"
  using assms(2-4)
proof (induction es arbitrary: i pub published)
  case (Cons e es)
  obtain ev rest where pub: "pub = (e, ev) # rest" using Cons.prems(1) by (cases pub) auto
  let ?input = "platform_input r c (iso_now s) (the_contract (ev_name e)) e i"
  have "log_append date_ok persist limit ?input s = (Inr (Inr ev), s)"
    using Cons.prems(2,3) pub by (intro append_known [OF assms(1)]) (auto simp: platform_input_def)
  moreover have "publish_from (log_append date_ok persist limit) iso_now r c (Suc i) es (published @ [(e, ev)]) s =
      (Inr (Inr ((published @ [(e, ev)]) @ rest)), s)"
    using Cons.prems pub by (intro Cons.IH) auto
  ultimately show ?case by (simp add: contract_of_ok(1) pub)
qed simp

end
