(* ===== verification/OutboxConsumer.thy ===== *)
theory OutboxConsumer
  imports EventLog AppCommands
begin

text \<open>
  \<open>packages/infrastructure-persistence/src/event-outbox-consumer.ts\<close>, the backlog count of
  \<open>event-outbox-metrics.ts\<close> and the summary of \<open>event-outbox-runtime-loop.ts\<close>: draining the
  pending outbox records to a publisher in batches.  The outbox port and the publisher act on a
  state of type \<open>'w\<close>; a call that throws gives the name of the error.  The clock's ISO time is a
  function of that state.
\<close>

record 'w outbox_port =
  op_listOutbox :: "outbox_status option \<Rightarrow> 'w \<Rightarrow> outbox_record list port_result call \<times> 'w"
  op_markOutboxPublished ::
    "string \<Rightarrow> string \<Rightarrow> 'w \<Rightarrow> outbox_publish_result port_result call \<times> 'w"

record publisher_receipt =
  pr_eventId :: string
  pr_publishedAt :: "string option"

type_synonym 'w outbox_publisher =
  "outbox_record \<Rightarrow> port_context \<Rightarrow> 'w \<Rightarrow> publisher_receipt port_result call \<times> 'w"

record published_record =
  pub_eventId :: string
  pub_cursor :: string
  pub_publishedAt :: string

record failed_record =
  fr_eventId :: string
  fr_cursor :: string
  fr_code :: string
  fr_retryable :: bool

record drain_result =
  dr_attempted :: int
  dr_published :: "published_record list"
  dr_failed :: "failed_record list"

definition defaultBatchSize :: int where
  "defaultBatchSize = 100"

definition normalizeBatchSize :: "jsnum option \<Rightarrow> int result" where
  "normalizeBatchSize value =
     (case value of
        None \<Rightarrow> Inr defaultBatchSize
      | Some v \<Rightarrow>
          (case as_int v of
             Some n \<Rightarrow> (if n \<le> 0
                then Inl (TypeError ''EventOutboxConsumer batchSize must be a positive integer.'')
                else Inr n)
           | None \<Rightarrow> Inl (TypeError ''EventOutboxConsumer batchSize must be a positive integer.'')))"

definition failedRecord :: "outbox_record \<Rightarrow> port_failure \<Rightarrow> failed_record" where
  "failedRecord r failure =
     \<lparr>fr_eventId = ob_eventId r, fr_cursor = ob_cursor r, fr_code = pf_code failure,
      fr_retryable = pf_retryable failure\<rparr>"

definition publishRecord ::
    "'w outbox_publisher \<Rightarrow> outbox_record \<Rightarrow> port_context \<Rightarrow> 'w \<Rightarrow> publisher_receipt port_result \<times> 'w" where
  "publishRecord publish r context w =
     (case publish r context w of
        (Inr result, w') \<Rightarrow> (result, w')
      | (Inl cause, w') \<Rightarrow>
          (Inl (createApplicationPortFailure
             \<lparr>pf_category = Port_unknown, pf_code = ''event_outbox_publish_threw'',
              pf_message = ''Event outbox publisher failed unexpectedly.'', pf_retryable = True,
              pf_ownerContext = Some Owner_observability, pf_failureCategory = None,
              pf_safeMetadata = Some [(''eventId'', Port_string (ob_eventId r)),
                (''causeName'', Port_string cause)]\<rparr>), w'))"

text \<open>The loop over the batch; \<open>markOutboxPublished\<close> may throw, which ends the drain.\<close>

fun drain_batch ::
    "'w outbox_port \<Rightarrow> 'w outbox_publisher \<Rightarrow> ('w \<Rightarrow> string) \<Rightarrow> port_context \<Rightarrow> outbox_record list \<Rightarrow>
     published_record list \<Rightarrow> failed_record list \<Rightarrow> 'w \<Rightarrow>
     (published_record list \<times> failed_record list) call \<times> 'w" where
  "drain_batch port publish iso_now context [] published failed w = (Inr (published, failed), w)"
| "drain_batch port publish iso_now context (r # rest) published failed w =
     (case publishRecord publish r context w of
        (Inl failure, w1) \<Rightarrow>
          drain_batch port publish iso_now context rest published (failed @ [failedRecord r failure]) w1
      | (Inr receipt, w1) \<Rightarrow>
          let publishedAt = value_or (pr_publishedAt receipt) (iso_now w1) in
          (case op_markOutboxPublished port (ob_eventId r) publishedAt w1 of
             (Inl cause, w2) \<Rightarrow> (Inl cause, w2)
           | (Inr (Inl failure), w2) \<Rightarrow>
               drain_batch port publish iso_now context rest published (failed @ [failedRecord r failure]) w2
           | (Inr (Inr marked), w2) \<Rightarrow>
               drain_batch port publish iso_now context rest
                 (published @ [\<lparr>pub_eventId = opr_eventId marked, pub_cursor = opr_cursor marked,
                                pub_publishedAt = publishedAt\<rparr>]) failed w2))"

definition drainPending ::
    "'w outbox_port \<Rightarrow> 'w outbox_publisher \<Rightarrow> ('w \<Rightarrow> string) \<Rightarrow> int \<Rightarrow> port_context \<Rightarrow> 'w \<Rightarrow>
     drain_result port_result call \<times> 'w" where
  "drainPending port publish iso_now batchSize context w =
     (case op_listOutbox port (Some Outbox_pending) w of
        (Inl cause, w1) \<Rightarrow> (Inl cause, w1)
      | (Inr (Inl failure), w1) \<Rightarrow> (Inr (Inl failure), w1)
      | (Inr (Inr pending), w1) \<Rightarrow>
          let batch = take (nat batchSize) pending in
          (case drain_batch port publish iso_now context batch [] [] w1 of
             (Inl cause, w2) \<Rightarrow> (Inl cause, w2)
           | (Inr (published, failed), w2) \<Rightarrow>
               (Inr (Inr \<lparr>dr_attempted = int (length batch), dr_published = published,
                         dr_failed = failed\<rparr>), w2)))"

definition createNoopEventOutboxPublisher :: "'w outbox_publisher" where
  "createNoopEventOutboxPublisher r context w =
     (Inr (Inr \<lparr>pr_eventId = ob_eventId r, pr_publishedAt = None\<rparr>), w)"

section \<open>event-outbox-publisher.ts and event-outbox-metrics.ts\<close>

record publication_line =
  pl_eventId :: string
  pl_outboxId :: string
  pl_cursor :: string
  pl_createdAt :: string
  pl_publishedAt :: string
  pl_actorRef :: "string option"
  pl_correlationId :: string
  pl_requestId :: "string option"

definition toPublicEventOutboxPublicationRecord ::
    "outbox_record \<Rightarrow> port_context \<Rightarrow> string \<Rightarrow> publication_line" where
  "toPublicEventOutboxPublicationRecord r context publishedAt =
     \<lparr>pl_eventId = ob_eventId r, pl_outboxId = ob_outboxId r, pl_cursor = ob_cursor r,
      pl_createdAt = ob_createdAt r, pl_publishedAt = publishedAt,
      pl_actorRef = px_actorRef context,
      pl_correlationId = rc_correlationId (px_requestContext context),
      pl_requestId = rc_requestId (px_requestContext context)\<rparr>"

text \<open>\<open>JsonLineEventOutboxPublisher\<close> over a sink that keeps the lines written to it.\<close>

definition publish_json_line ::
    "('w \<Rightarrow> string) \<Rightarrow> (publication_line \<Rightarrow> 'w \<Rightarrow> 'w) \<Rightarrow> 'w outbox_publisher" where
  "publish_json_line iso_now write_line r context w =
     (let publishedAt = iso_now w
      in (Inr (Inr \<lparr>pr_eventId = ob_eventId r, pr_publishedAt = Some publishedAt\<rparr>),
          write_line (toPublicEventOutboxPublicationRecord r context publishedAt) w))"

definition eventOutboxMetricFailure :: "string \<Rightarrow> port_failure \<Rightarrow> port_failure" where
  "eventOutboxMetricFailure code cause =
     createApplicationPortFailure
       \<lparr>pf_category = pf_category cause, pf_code = code,
        pf_message = ''EventLog outbox metric collection failed.'',
        pf_retryable = pf_retryable cause, pf_ownerContext = Some Owner_observability,
        pf_failureCategory = None,
        pf_safeMetadata = Some [(''causeCode'', Port_string (pf_code cause))]\<rparr>"

text \<open>The number of records of each status, in the order the statuses are measured.\<close>

fun outbox_backlog ::
    "'w outbox_port \<Rightarrow> outbox_status list \<Rightarrow> (outbox_status \<times> int) list \<Rightarrow> 'w \<Rightarrow>
     (outbox_status \<times> int) list port_result call \<times> 'w" where
  "outbox_backlog port [] metrics w = (Inr (Inr metrics), w)"
| "outbox_backlog port (status # rest) metrics w =
     (case op_listOutbox port (Some status) w of
        (Inl cause, w1) \<Rightarrow> (Inl cause, w1)
      | (Inr (Inl failure), w1) \<Rightarrow>
          (Inr (Inl (eventOutboxMetricFailure ''event_outbox_metric_query_rejected'' failure)), w1)
      | (Inr (Inr records), w1) \<Rightarrow>
          outbox_backlog port rest (metrics @ [(status, int (length records))]) w1)"

definition createEventOutboxBacklogMetricPoints ::
    "'w outbox_port \<Rightarrow> 'w \<Rightarrow> (outbox_status \<times> int) list port_result call \<times> 'w" where
  "createEventOutboxBacklogMetricPoints port w =
     outbox_backlog port [Outbox_pending, Outbox_published] [] w"

section \<open>event-outbox-runtime-loop.ts: one run\<close>

datatype outbox_summary =
    Drain_completed (os_attempted: int) (os_published: int) (os_failed: int)
  | Drain_failed string

definition safeDrainPending ::
    "'w outbox_port \<Rightarrow> 'w outbox_publisher \<Rightarrow> ('w \<Rightarrow> string) \<Rightarrow> int \<Rightarrow> port_context \<Rightarrow> 'w \<Rightarrow>
     drain_result port_result \<times> 'w" where
  "safeDrainPending port publish iso_now batchSize context w =
     (case drainPending port publish iso_now batchSize context w of
        (Inr result, w') \<Rightarrow> (result, w')
      | (Inl cause, w') \<Rightarrow>
          (Inl \<lparr>pf_category = Port_unknown, pf_code = ''event_outbox_runtime_drain_threw'',
                pf_message = ''EventLog outbox runtime failed before a safe drain outcome was recorded.'',
                pf_retryable = True, pf_ownerContext = Some Owner_observability,
                pf_failureCategory = None,
                pf_safeMetadata = Some [(''causeName'', Port_string cause)]\<rparr>, w'))"

definition summarizeDrainResult :: "drain_result port_result \<Rightarrow> outbox_summary" where
  "summarizeDrainResult result =
     (case result of
        Inl failure \<Rightarrow> Drain_failed (pf_code failure)
      | Inr r \<Rightarrow> Drain_completed (dr_attempted r) (int (length (dr_published r)))
                   (int (length (dr_failed r))))"

section \<open>The event log as an outbox port\<close>

definition log_outbox_port :: "'d persist \<Rightarrow> ('d log_store \<times> 't) outbox_port" where
  "log_outbox_port persist =
     \<lparr>op_listOutbox = (\<lambda>status (s, t). (Inr (listOutbox status s), (s, t))),
      op_markOutboxPublished = (\<lambda>eventId publishedAt (s, t).
        let (result, s') = markOutboxPublished persist eventId publishedAt s in (result, (s', t)))\<rparr>"

end
