(* ===== verification/OutboxConsumerLaws.thy ===== *)
theory OutboxConsumerLaws
  imports OutboxConsumer EventLogLaws "HOL-Library.Multiset"
begin

text \<open>
  What draining the outbox does, for every store that keeps the outbox contract: a batch is split
  into what was published and what failed, the published records are marked and nothing else is.
  With a publisher that accepts, repeated drains publish every pending record once, in order.
\<close>

section \<open>The contract of an outbox\<close>

definition published_at :: "string \<Rightarrow> outbox_record \<Rightarrow> outbox_record" where
  "published_at t r = r\<lparr>ob_status := Outbox_published, ob_publishedAt := Some t\<rparr>"

lemma published_at_simps [simp]:
  "ob_eventId (published_at t r) = ob_eventId r" "ob_cursor (published_at t r) = ob_cursor r"
  "ob_status (published_at t r) = Outbox_published"
  by (simp_all add: published_at_def)

definition mark_one :: "string \<Rightarrow> string \<Rightarrow> outbox_record list \<Rightarrow> outbox_record list" where
  "mark_one eventId t rs = map (\<lambda>r. if ob_eventId r = eventId then published_at t r else r) rs"

definition mark_all :: "published_record list \<Rightarrow> outbox_record list \<Rightarrow> outbox_record list" where
  "mark_all ps rs = fold (\<lambda>p. mark_one (pub_eventId p) (pub_publishedAt p)) ps rs"

lemma mark_all_simps [simp]:
  "mark_all [] rs = rs"
  "mark_all (p # ps) rs = mark_all ps (mark_one (pub_eventId p) (pub_publishedAt p) rs)"
  by (simp_all add: mark_all_def)

lemma mark_one_keys [simp]:
  "map (\<lambda>r. (ob_eventId r, ob_cursor r)) (mark_one i t rs) = map (\<lambda>r. (ob_eventId r, ob_cursor r)) rs"
  "map ob_eventId (mark_one i t rs) = map ob_eventId rs"
  by (simp_all add: mark_one_def)

abbreviation pending_records :: "outbox_record list \<Rightarrow> outbox_record list" where
  "pending_records rs \<equiv> filter (\<lambda>r. ob_status r = Outbox_pending) rs"

lemma pending_mark_one:
  "pending_records (mark_one i t rs) = filter (\<lambda>r. ob_eventId r \<noteq> i) (pending_records rs)"
  by (induction rs) (auto simp: mark_one_def)

lemma pending_mark_all:
  "pending_records (mark_all ps rs) = filter (\<lambda>r. ob_eventId r \<notin> pub_eventId ` set ps) (pending_records rs)"
proof (induction ps arbitrary: rs)
  case (Cons p ps)
  show ?case
    unfolding mark_all_simps Cons.IH pending_mark_one filter_filter by (rule filter_cong) auto
qed simp

lemma filter_not_taken:
  "distinct (map f xs) \<Longrightarrow> filter (\<lambda>x. f x \<notin> f ` set (take n xs)) xs = drop n xs"
proof (induction xs arbitrary: n)
  case (Cons x xs)
  show ?case
  proof (cases n)
    case (Suc m)
    have "filter (\<lambda>y. f y \<notin> insert (f x) (f ` set (take m xs))) xs =
        filter (\<lambda>y. f y \<notin> f ` set (take m xs)) xs"
      using Cons.prems by (intro filter_cong) (simp_all add: image_iff, metis)
    then show ?thesis using Cons Suc by simp
  qed simp
qed simp

definition keeps_records ::
    "('w \<Rightarrow> bool) \<Rightarrow> ('w \<Rightarrow> outbox_record list) \<Rightarrow> 'w outbox_publisher \<Rightarrow> bool" where
  "keeps_records ok records publish \<longleftrightarrow>
     (\<forall>r context w. ok w \<longrightarrow> ok (snd (publish r context w)) \<and>
        records (snd (publish r context w)) = records w)"

locale outbox_store =
  fixes port :: "'w outbox_port"
    and inv :: "'w \<Rightarrow> bool"
    and records :: "'w \<Rightarrow> outbox_record list"
  assumes distinct_events: "inv w \<Longrightarrow> distinct (map ob_eventId (records w))"
    and list_status: "inv w \<Longrightarrow>
      op_listOutbox port (Some status) w = (Inr (Inr (filter (\<lambda>r. ob_status r = status) (records w))), w)"
    and mark_known: "inv w \<Longrightarrow> (i, c) \<in> set (map (\<lambda>r. (ob_eventId r, ob_cursor r)) (records w)) \<Longrightarrow>
      \<exists>w'. op_markOutboxPublished port i t w = (Inr (Inr \<lparr>opr_eventId = i, opr_cursor = c\<rparr>), w') \<and>
        inv w' \<and> records w' = mark_one i t (records w)"
begin

lemma publishRecord_keeps:
  assumes "keeps_records inv records publish" "inv w"
  shows "inv (snd (publishRecord publish r context w))"
    "records (snd (publishRecord publish r context w)) = records w"
  using assms unfolding keeps_records_def
  by (auto simp: publishRecord_def split: prod.splits sum.splits) (metis snd_conv)+

lemma drain_batch_effect:
  assumes "keeps_records inv records publish" "inv w"
    and "\<forall>r \<in> set batch. (ob_eventId r, ob_cursor r) \<in> set (map (\<lambda>r. (ob_eventId r, ob_cursor r)) (records w))"
  shows "\<exists>ps fs w'. drain_batch port publish iso_now context batch published failed w =
      (Inr (published @ ps, failed @ fs), w') \<and> inv w' \<and> records w' = mark_all ps (records w) \<and>
      mset (map pub_eventId ps) + mset (map fr_eventId fs) = mset (map ob_eventId batch)"
  using assms(2,3)
proof (induction batch arbitrary: published failed w)
  case (Cons r rest)
  obtain result w1 where step: "publishRecord publish r context w = (result, w1)" by force
  have w1: "inv w1" "records w1 = records w"
    using publishRecord_keeps [OF assms(1) Cons.prems(1), of r "context"] by (simp_all add: step)
  show ?case
  proof (cases result)
    case (Inl failure)
    obtain ps fs w' where "drain_batch port publish iso_now context rest published
          (failed @ [failedRecord r failure]) w1 =
        (Inr (published @ ps, (failed @ [failedRecord r failure]) @ fs), w')" "inv w'"
        "records w' = mark_all ps (records w1)"
        "mset (map pub_eventId ps) + mset (map fr_eventId fs) = mset (map ob_eventId rest)"
      using Cons.IH [of w1 published "failed @ [failedRecord r failure]"] w1 Cons.prems(2) by auto
    then show ?thesis
      using w1 by (intro exI [of _ ps] exI [of _ "failedRecord r failure # fs"] exI [of _ w'])
        (simp add: step Inl failedRecord_def)
  next
    case (Inr rcpt)
    define t where "t = value_or (pr_publishedAt rcpt) (iso_now w1)"
    define p where "p = \<lparr>pub_eventId = ob_eventId r, pub_cursor = ob_cursor r, pub_publishedAt = t\<rparr>"
    obtain w2 where w2: "op_markOutboxPublished port (ob_eventId r) t w1 =
          (Inr (Inr \<lparr>opr_eventId = ob_eventId r, opr_cursor = ob_cursor r\<rparr>), w2)"
        "inv w2" "records w2 = mark_one (ob_eventId r) t (records w)"
      using mark_known [OF w1(1), of "ob_eventId r" "ob_cursor r" t] Cons.prems(2) w1(2) by auto
    obtain ps fs w' where "drain_batch port publish iso_now context rest (published @ [p]) failed w2 =
        (Inr ((published @ [p]) @ ps, failed @ fs), w')" "inv w'"
        "records w' = mark_all ps (records w2)"
        "mset (map pub_eventId ps) + mset (map fr_eventId fs) = mset (map ob_eventId rest)"
      using Cons.IH [of w2 "published @ [p]" failed] w2(2,3) Cons.prems(2) by auto
    then show ?thesis
      using w2 by (intro exI [of _ "p # ps"] exI [of _ fs] exI [of _ w'])
        (simp add: step Inr p_def t_def [symmetric] Let_def)
  qed
qed simp

lemma pending_known:
  "\<forall>r \<in> set (take n (pending_records (records w))).
     (ob_eventId r, ob_cursor r) \<in> set (map (\<lambda>r. (ob_eventId r, ob_cursor r)) (records w))"
  by (auto dest!: in_set_takeD)

lemma drainPending_effect:
  fixes batchSize :: int
  assumes "keeps_records inv records publish" "inv w"
  defines "batch \<equiv> take (nat batchSize) (pending_records (records w))"
  shows "\<exists>ps fs w'. drainPending port publish iso_now batchSize context w =
      (Inr (Inr \<lparr>dr_attempted = int (length batch), dr_published = ps, dr_failed = fs\<rparr>), w') \<and>
      inv w' \<and> records w' = mark_all ps (records w) \<and>
      mset (map pub_eventId ps) + mset (map fr_eventId fs) = mset (map ob_eventId batch)"
proof -
  obtain ps fs w' where "drain_batch port publish iso_now context batch [] [] w =
      (Inr ([] @ ps, [] @ fs), w')" "inv w'" "records w' = mark_all ps (records w)"
      "mset (map pub_eventId ps) + mset (map fr_eventId fs) = mset (map ob_eventId batch)"
    using drain_batch_effect [OF assms(1,2), of batch iso_now "context" "[]" "[]"]
      pending_known [of "nat batchSize" w] unfolding batch_def by blast
  then show ?thesis
    using list_status [OF assms(2), of Outbox_pending] by (simp add: drainPending_def Let_def batch_def)
qed

text \<open>A batch whose records are all refused leaves the store as it is, and comes back next time.\<close>

lemma drain_batch_refused:
  assumes "inv w" "\<forall>r \<in> set batch. \<forall>w. \<exists>failure w'. publishRecord publish r context w = (Inl failure, w')"
    and "keeps_records inv records publish"
  shows "\<exists>fs w'. drain_batch port publish iso_now context batch published failed w = (Inr (published, failed @ fs), w') \<and>
    inv w' \<and> records w' = records w \<and> length fs = length batch"
  using assms(1,2)
proof (induction batch arbitrary: failed w)
  case (Cons r rest)
  obtain failure w1 where step: "publishRecord publish r context w = (Inl failure, w1)"
    using Cons.prems(2) list.set_intros(1) by metis
  have "inv w1" "records w1 = records w"
    using publishRecord_keeps [OF assms(3) Cons.prems(1), of r "context"] by (simp_all add: step)
  moreover obtain fs w' where "drain_batch port publish iso_now context rest published
      (failed @ [failedRecord r failure]) w1 = (Inr (published, (failed @ [failedRecord r failure]) @ fs), w')"
      "inv w'" "records w' = records w1" "length fs = length rest"
    using Cons.IH [of w1 "failed @ [failedRecord r failure]"] Cons.prems(2) \<open>inv w1\<close> by auto
  ultimately show ?case
    by (intro exI [of _ "failedRecord r failure # fs"] exI [of _ w']) (simp add: step)
qed simp

lemma drainPending_refused:
  assumes "inv w" "keeps_records inv records publish"
    and "\<forall>r \<in> set (take (nat batchSize) (pending_records (records w))).
      \<forall>w. \<exists>failure w'. publishRecord publish r context w = (Inl failure, w')"
  shows "\<exists>fs w'. drainPending port publish iso_now batchSize context w =
      (Inr (Inr \<lparr>dr_attempted = int (length (take (nat batchSize) (pending_records (records w)))),
                dr_published = [], dr_failed = fs\<rparr>), w') \<and> inv w' \<and> records w' = records w"
proof -
  obtain fs w' where "drain_batch port publish iso_now context
      (take (nat batchSize) (pending_records (records w))) [] [] w = (Inr ([], [] @ fs), w')"
      "inv w'" "records w' = records w"
    using drain_batch_refused [OF assms(1,3,2)] by blast
  then show ?thesis
    using list_status [OF assms(1), of Outbox_pending] by (simp add: drainPending_def Let_def)
qed

end

section \<open>Repeated drains\<close>

fun drain_times ::
    "'w outbox_port \<Rightarrow> 'w outbox_publisher \<Rightarrow> ('w \<Rightarrow> string) \<Rightarrow> int \<Rightarrow> port_context \<Rightarrow> nat \<Rightarrow> 'w \<Rightarrow> 'w" where
  "drain_times port publish iso_now batchSize context 0 w = w"
| "drain_times port publish iso_now batchSize context (Suc n) w =
     drain_times port publish iso_now batchSize context n
       (snd (drainPending port publish iso_now batchSize context w))"

text \<open>A publisher that accepts every record and keeps a trace of the events it was handed.\<close>

locale accepting_outbox = outbox_store port inv records
  for port :: "'w outbox_port" and inv :: "'w \<Rightarrow> bool" and records :: "'w \<Rightarrow> outbox_record list" +
  fixes publish :: "'w outbox_publisher" and trace :: "'w \<Rightarrow> string list"
  assumes keeps: "keeps_records inv records publish"
    and accepts: "\<exists>rcpt w'. publish r context w = (Inr (Inr rcpt), w') \<and> trace w' = trace w @ [ob_eventId r]"
    and mark_trace: "trace (snd (op_markOutboxPublished port i t w)) = trace w"
begin

lemma accepted_batch:
  assumes "inv w"
    and "\<forall>r \<in> set batch. (ob_eventId r, ob_cursor r) \<in> set (map (\<lambda>r. (ob_eventId r, ob_cursor r)) (records w))"
  shows "\<exists>ps w'. drain_batch port publish iso_now context batch published [] w = (Inr (published @ ps, []), w') \<and>
    inv w' \<and> records w' = mark_all ps (records w) \<and> map pub_eventId ps = map ob_eventId batch \<and>
    trace w' = trace w @ map ob_eventId batch"
  using assms
proof (induction batch arbitrary: published w)
  case (Cons r rest)
  obtain rcpt w1 where step: "publish r context w = (Inr (Inr rcpt), w1)" "trace w1 = trace w @ [ob_eventId r]"
    using accepts by blast
  have w1: "inv w1" "records w1 = records w"
    using keeps Cons.prems(1) step(1) unfolding keeps_records_def by (metis snd_conv)+
  define t where "t = value_or (pr_publishedAt rcpt) (iso_now w1)"
  define p where "p = \<lparr>pub_eventId = ob_eventId r, pub_cursor = ob_cursor r, pub_publishedAt = t\<rparr>"
  obtain w2 where w2: "op_markOutboxPublished port (ob_eventId r) t w1 =
        (Inr (Inr \<lparr>opr_eventId = ob_eventId r, opr_cursor = ob_cursor r\<rparr>), w2)"
      "inv w2" "records w2 = mark_one (ob_eventId r) t (records w)"
    using mark_known [OF w1(1), of "ob_eventId r" "ob_cursor r" t] Cons.prems(2) w1(2) by auto
  have trace: "trace w2 = trace w @ [ob_eventId r]"
    using mark_trace [of "ob_eventId r" t w1] by (simp add: w2(1) step(2))
  obtain ps w' where "drain_batch port publish iso_now context rest (published @ [p]) [] w2 =
      (Inr ((published @ [p]) @ ps, []), w')" "inv w'" "records w' = mark_all ps (records w2)"
      "map pub_eventId ps = map ob_eventId rest" "trace w' = trace w2 @ map ob_eventId rest"
    using Cons.IH [of w2 "published @ [p]"] w2(2,3) Cons.prems(2) by auto
  then show ?case
    using w2 trace by (intro exI [of _ "p # ps"] exI [of _ w'])
      (simp add: publishRecord_def step(1) p_def t_def [symmetric] Let_def)
qed simp

lemma accepted_drain:
  fixes batchSize :: int and "context" :: port_context and iso_now :: "'w \<Rightarrow> string"
  assumes "inv w"
  defines "w' \<equiv> snd (drainPending port publish iso_now batchSize context w)"
  shows "inv w'" "pending_records (records w') = drop (nat batchSize) (pending_records (records w))"
    "trace w' = trace w @ map ob_eventId (take (nat batchSize) (pending_records (records w)))"
proof -
  define batch where "batch = take (nat batchSize) (pending_records (records w))"
  obtain ps w2 where run: "drain_batch port publish iso_now context batch [] [] w = (Inr ([] @ ps, []), w2)"
      "inv w2" "records w2 = mark_all ps (records w)" "map pub_eventId ps = map ob_eventId batch"
      "trace w2 = trace w @ map ob_eventId batch"
    using accepted_batch [OF assms(1), of batch iso_now "context" "[]"] pending_known [of "nat batchSize" w]
    unfolding batch_def by blast
  have w': "w' = w2"
    using run(1) list_status [OF assms(1), of Outbox_pending]
    by (simp add: w'_def drainPending_def Let_def batch_def)
  show "inv w'" using run(2) w' by simp
  show "trace w' = trace w @ map ob_eventId (take (nat batchSize) (pending_records (records w)))"
    using run(5) w' by (simp add: batch_def)
  have "distinct (map ob_eventId (pending_records (records w)))"
    using distinct_events [OF assms(1)] by (rule distinct_map_filter)
  then have "filter (\<lambda>r. ob_eventId r \<notin> ob_eventId ` set batch) (pending_records (records w)) =
      drop (nat batchSize) (pending_records (records w))"
    unfolding batch_def by (rule filter_not_taken)
  moreover have "pub_eventId ` set ps = ob_eventId ` set batch"
    using run(4) by (metis list.set_map)
  ultimately show "pending_records (records w') = drop (nat batchSize) (pending_records (records w))"
    by (simp add: w' run(3) pending_mark_all)
qed

lemma accepted_drains:
  fixes n :: nat and batchSize :: int and "context" :: port_context and iso_now :: "'w \<Rightarrow> string"
  assumes "inv w"
  defines "w' \<equiv> drain_times port publish iso_now batchSize context n w"
  shows "inv w' \<and> pending_records (records w') = drop (n * nat batchSize) (pending_records (records w)) \<and>
    trace w' = trace w @ map ob_eventId (take (n * nat batchSize) (pending_records (records w)))"
  using assms(1) unfolding w'_def
proof (induction n arbitrary: w)
  case (Suc n)
  let ?w = "snd (drainPending port publish iso_now batchSize context w)"
  show ?case
    using Suc.IH [OF accepted_drain(1) [OF Suc.prems]] accepted_drain(2,3) [OF Suc.prems]
    by (simp add: take_add add.commute)
qed simp

end

section \<open>The event log keeps the contract\<close>

lemma mark_state_eq_mark_one:
  assumes "log_ok state" "i \<in> ob_eventId ` set (el_outbox state)"
  shows "el_outbox (mark_state i t state) = mark_one i t (el_outbox state)"
proof (cases "find_index (\<lambda>r. ob_eventId r = i) (el_outbox state)")
  case None
  then show ?thesis using assms(2) by (auto simp: find_index_None)
next
  case (Some j)
  have j: "j < length (el_outbox state)" "ob_eventId (el_outbox state ! j) = i"
    using find_index_SomeD [OF Some] by simp_all
  have "distinct (map ob_eventId (el_outbox state))" using assms(1) by (simp add: log_ok_def)
  then have other: "ob_eventId (el_outbox state ! k) \<noteq> i" if "k < length (el_outbox state)" "k \<noteq> j" for k
    using that j nth_eq_iff_index_eq [of "map ob_eventId (el_outbox state)" k j] by auto
  show ?thesis
    by (rule nth_equalityI)
      (use j other in \<open>auto simp: mark_state_def Some mark_one_def published_at_def nth_list_update\<close>)
qed

text \<open>Persisting does not fail.\<close>

definition sure :: "'d persist \<Rightarrow> bool" where
  "sure persist \<longleftrightarrow> (\<forall>state disk. fst (persist state disk) = None)"

lemma sure_persist [simp]: "sure persist_nothing" "sure (write_json Written)"
  by (simp_all add: sure_def persist_nothing_def write_json_def)

abbreviation log_part_ok :: "'d log_store \<times> 't \<Rightarrow> bool" where
  "log_part_ok w \<equiv> log_ok (ls_state (fst w))"

abbreviation log_records :: "'d log_store \<times> 't \<Rightarrow> outbox_record list" where
  "log_records w \<equiv> el_outbox (ls_state (fst w))"

lemma log_mark_known:
  assumes "sure persist" "log_part_ok w"
    and "(i, c) \<in> set (map (\<lambda>r. (ob_eventId r, ob_cursor r)) (log_records w))"
  shows "\<exists>w'. op_markOutboxPublished (log_outbox_port persist) i t w =
      (Inr (Inr \<lparr>opr_eventId = i, opr_cursor = c\<rparr>), w') \<and>
    log_part_ok w' \<and> log_records w' = mark_one i t (log_records w)"
proof -
  obtain s u where w: "w = (s, u)" by force
  have ids: "distinct (map ob_eventId (el_outbox (ls_state s)))"
    using assms(2) by (simp add: w log_ok_def)
  obtain r where r: "r \<in> set (el_outbox (ls_state s))" "ob_eventId r = i" "ob_cursor r = c"
    using assms(3) by (auto simp: w)
  obtain j where j: "find_index (\<lambda>r. ob_eventId r = i) (el_outbox (ls_state s)) = Some j"
    using r by (cases "find_index (\<lambda>r. ob_eventId r = i) (el_outbox (ls_state s))")
      (auto simp: find_index_None)
  have "el_outbox (ls_state s) ! j = r"
    using find_index_SomeD [OF j] r ids
    by (metis distinct_map_filter_eq nth_mem)
  then have run: "fst (markOutboxPublished persist i t s) = Inr (Inr \<lparr>opr_eventId = i, opr_cursor = c\<rparr>)"
    using assms(1) r j by (auto simp: markOutboxPublished_def Let_def sure_def split: prod.splits option.splits)
      (metis fst_conv option.distinct(1))+
  have state: "ls_state (snd (markOutboxPublished persist i t s)) = mark_state i t (ls_state s)"
    by (rule markOutboxPublished_state)
  have "i \<in> ob_eventId ` set (el_outbox (ls_state s))" using r(1,2) by auto
  then have marked: "el_outbox (mark_state i t (ls_state s)) = mark_one i t (el_outbox (ls_state s))"
    using assms(2) by (simp add: w mark_state_eq_mark_one)
  show ?thesis
    using run state assms(2) marked
    by (auto simp: w log_outbox_port_def Let_def log_ok_mark split: prod.split)
qed

lemma log_outbox:
  "sure persist \<Longrightarrow> outbox_store (log_outbox_port persist) log_part_ok log_records"
proof
  assume sure: "sure persist"
  show "distinct (map ob_eventId (log_records w))" if "log_part_ok w" for w :: "'a log_store \<times> 'b"
    using that by (simp add: log_ok_def)
  show "op_listOutbox (log_outbox_port persist) (Some status) w =
      (Inr (Inr (filter (\<lambda>r. ob_status r = status) (log_records w))), w)" for status and w :: "'a log_store \<times> 'b"
    by (simp add: log_outbox_port_def listOutbox_def split: prod.split)
qed (rule log_mark_known)

interpretation memory_outbox: outbox_store "log_outbox_port persist_nothing" log_part_ok log_records
  by (rule log_outbox) simp

interpretation json_outbox: outbox_store "log_outbox_port (write_json Written)" log_part_ok log_records
  by (rule log_outbox) simp

text \<open>The line publisher writes to the second part of the state.\<close>

definition line_publisher ::
    "('d log_store \<times> publication_line list \<Rightarrow> string) \<Rightarrow> ('d log_store \<times> publication_line list) outbox_publisher" where
  "line_publisher iso_now = publish_json_line iso_now (\<lambda>l (s, t). (s, t @ [l]))"

abbreviation written_events :: "'d log_store \<times> publication_line list \<Rightarrow> string list" where
  "written_events w \<equiv> map pl_eventId (snd w)"

lemma log_outbox_lines:
  "sure persist \<Longrightarrow> accepting_outbox (log_outbox_port persist) log_part_ok log_records
     (line_publisher iso_now) written_events"
proof (rule accepting_outbox.intro)
  assume "sure persist"
  then show "outbox_store (log_outbox_port persist) log_part_ok log_records" by (rule log_outbox)
  show "accepting_outbox_axioms (log_outbox_port persist) log_part_ok log_records
      (line_publisher iso_now) written_events"
    by unfold_locales
      (auto simp: keeps_records_def line_publisher_def publish_json_line_def Let_def
        toPublicEventOutboxPublicationRecord_def log_outbox_port_def split: prod.splits)
qed

interpretation memory_lines: accepting_outbox "log_outbox_port persist_nothing" log_part_ok log_records
    "line_publisher iso_now" written_events
  by (rule log_outbox_lines) simp

interpretation json_lines: accepting_outbox "log_outbox_port (write_json Written)" log_part_ok log_records
    "line_publisher iso_now" written_events
  by (rule log_outbox_lines) simp

end
