(* ===== verification/LogScenarios.thy ===== *)
theory LogScenarios
  imports EventPublishingLaws OutboxConsumerLaws AppCommands
begin

text \<open>
  Concrete inputs for the witnesses about the event log and its outbox: a log of three events, the
  second of them published and then appended again, and an aggregate with one new event.
\<close>

definition log_demo_input :: "string \<Rightarrow> event_append_input" where
  "log_demo_input i =
     \<lparr>eai_id = i, eai_type = ''t'', eai_timestamp = ''2026'', eai_dataClassification = Event_internal,
      eai_source = ''s'', eai_payload = None, eai_resourceRef = None, eai_correlationId = None\<rparr>"

definition log_demo_calls :: "(unit persist \<times> log_call) list" where
  "log_demo_calls =
     map (Pair persist_nothing)
       [Append_event (log_demo_input ''e1''), Append_event (log_demo_input ''e2''),
        Append_event (log_demo_input ''e2''), Append_event (log_demo_input ''e3'')]"

definition log_demo :: "unit log_store" where
  "log_demo = log_run (\<lambda>_. True) 10 log_demo_calls createInMemoryEventLogStore"

lemma log_demo_reached:
  "log_run (\<lambda>_. True) 10 log_demo_calls createInMemoryEventLogStore = log_demo"
  "log_run (\<lambda>_. True) 10 [] log_demo = log_demo"
  by (simp_all add: log_demo_def log_run_def)

lemma log_demo_state:
  "map pe_id (el_events (ls_state log_demo)) = [''e1'', ''e2'', ''e3'']"
  "map (\<lambda>r. (ob_eventId r, ob_cursor r, ob_status r)) (el_outbox (ls_state log_demo)) =
     [(''e1'', ''eventlog:1'', Outbox_pending), (''e2'', ''eventlog:2'', Outbox_pending),
      (''e3'', ''eventlog:3'', Outbox_pending)]"
  "map pe_cursor (el_events (ls_state log_demo)) = [''eventlog:1'', ''eventlog:2'', ''eventlog:3'']"
  "el_nextSequence (ls_state log_demo) = 4"
  by code_simp+

lemma log_demo_events:
  "map pe_id (el_events (ls_state log_demo)) = [''e1'', ''e2'', ''e3'']"
  "length (el_events (ls_state log_demo)) = 3"
  using log_demo_state(1) by (simp_all flip: length_map [of pe_id])

lemma log_demo_facts:
  "outbox_entries (ls_state log_demo) =
     [(''e1'', ''eventlog:1''), (''e2'', ''eventlog:2''), (''e3'', ''eventlog:3'')]"
  "''eventlog:1'' \<in> pe_cursor ` set (el_events (ls_state log_demo))"
  "el_nextSequence (ls_state log_demo) \<le> max_safe_integer"
proof -
  have "map (\<lambda>(i, c, s). (i, c)) (map (\<lambda>r. (ob_eventId r, ob_cursor r, ob_status r))
      (el_outbox (ls_state log_demo))) = [(''e1'', ''eventlog:1''), (''e2'', ''eventlog:2''), (''e3'', ''eventlog:3'')]"
    unfolding log_demo_state(2) by simp
  then show "outbox_entries (ls_state log_demo) =
     [(''e1'', ''eventlog:1''), (''e2'', ''eventlog:2''), (''e3'', ''eventlog:3'')]"
    by (simp add: outbox_entries_def comp_def)
  have "''eventlog:1'' \<in> set (map pe_cursor (el_events (ls_state log_demo)))"
    unfolding log_demo_state(3) by simp
  then show "''eventlog:1'' \<in> pe_cursor ` set (el_events (ls_state log_demo))" by simp
  show "el_nextSequence (ls_state log_demo) \<le> max_safe_integer"
    unfolding log_demo_state(4) by (simp add: max_safe_integer_def)
qed

lemma log_demo_pending:
  "map ob_eventId (filter (\<lambda>r. ob_status r = Outbox_pending) (el_outbox (ls_state log_demo))) =
     [''e1'', ''e2'', ''e3'']"
  by code_simp

lemma log_demo_length:
  "length (filter (\<lambda>r. ob_status r = Outbox_pending) (el_outbox (ls_state log_demo))) = 3"
  by code_simp

lemma log_demo_record:
  "createPlatformEventRecord (\<lambda>_. True) (event_at (log_demo_input ''e1'') (cursorFromSequence 1)) =
     Inr (event_at (log_demo_input ''e1'') ''eventlog:1'')"
  by code_simp

definition log_demo_context :: port_context where
  "log_demo_context =
     \<lparr>px_requestContext = \<lparr>rc_correlationId = ''c'', rc_requestId = None, rc_traceId = None\<rparr>,
      px_actorRef = None, px_idempotencyKey = None, px_dataClassification = None\<rparr>"

definition publish_demo_event :: domain_event where
  "publish_demo_event =
     \<lparr>ev_name = MessageEvent MessageQueued, ev_aggregateType = Agg_Message, ev_aggregateId = ''m''\<rparr>"

definition publish_demo :: publisher_input where
  "publish_demo =
     \<lparr>pi_aggregateEvents = [publish_demo_event], pi_baseEventCount = num_of 0, pi_executionRef = ''r'',
      pi_context = log_demo_context\<rparr>"

lemma publish_demo_facts:
  "pi_aggregateEvents publish_demo = [publish_demo_event]" "pi_executionRef publish_demo = ''r''"
  "clampBaseEventCount (pi_baseEventCount publish_demo) (Suc 0) = 0"
  "createDeterministicEventId ''r'' publish_demo_event 0 \<notin>
     ob_eventId ` set (el_outbox (ls_state log_demo))"
proof -
  have "map (\<lambda>(i, c, s). i) (map (\<lambda>r. (ob_eventId r, ob_cursor r, ob_status r))
      (el_outbox (ls_state log_demo))) = [''e1'', ''e2'', ''e3'']"
    unfolding log_demo_state(2) by simp
  then have "map ob_eventId (el_outbox (ls_state log_demo)) = [''e1'', ''e2'', ''e3'']"
    by (simp add: comp_def)
  then have "ob_eventId ` set (el_outbox (ls_state log_demo)) = {''e1'', ''e2'', ''e3''}"
    by (metis list.set_map list.simps(15) list.set(1))
  then show "createDeterministicEventId ''r'' publish_demo_event 0 \<notin>
      ob_eventId ` set (el_outbox (ls_state log_demo))"
    by (simp only: event_id_eq) simp
qed (simp_all add: publish_demo_def clampBaseEventCount_def)

definition tick_demo_answer :: "command_envelope \<Rightarrow> command_outcome" where
  "tick_demo_answer envelope =
     commandOutcome envelope Outcome_completed True False None None"

lemma tick_demo_answer_simps:
  "co_outcome (tick_demo_answer e) = Outcome_completed" "co_reasonCode (tick_demo_answer e) = None"
  by (simp_all add: tick_demo_answer_def commandOutcome_def createApplicationCommandOutcome_def)

end
