(* ===== verification/PollingLoop.thy ===== *)
theory PollingLoop
  imports PolicyValues
begin

text \<open>
  The polling loop of the runtimes (\<open>EventOutboxRuntimeLoop\<close> of
  \<open>apps/background/src/event-outbox-runtime-loop.ts\<close>, written again as \<open>WorkerRuntimeLoop\<close> and
  \<open>WebhookDispatcherLoop\<close>): one timer at a time starts a run, and a finished run arms the next timer.
  The fields \<open>running\<close>, \<open>timer\<close> and \<open>inFlight\<close> are the object's; beside them the model keeps what
  the platform holds: the timers that are armed and the runs that have started and not finished.
\<close>

record polling_loop =
  pl_running :: bool
  pl_timer :: "nat option"
  pl_inFlight :: "nat option"
  pl_armed :: "nat list"
  pl_active :: "nat list"
  pl_stopping :: "nat list"
  pl_fresh :: nat

definition polling_start :: polling_loop where
  "polling_start = \<lparr>pl_running = False, pl_timer = None, pl_inFlight = None, pl_armed = [],
     pl_active = [], pl_stopping = [], pl_fresh = 0\<rparr>"

text \<open>\<open>setTimeout\<close> gives a fresh timer, \<open>clearTimeout\<close> disarms one.\<close>

definition schedule :: "polling_loop \<Rightarrow> polling_loop" where
  "schedule s = s\<lparr>pl_timer := Some (pl_fresh s), pl_armed := pl_armed s @ [pl_fresh s],
                  pl_fresh := pl_fresh s + 1\<rparr>"

definition start :: "polling_loop \<Rightarrow> polling_loop" where
  "start s = (if pl_running s then s else schedule (s\<lparr>pl_running := True\<rparr>))"

text \<open>\<open>stop\<close> up to its \<open>await\<close>: it returns once the run it waits for has finished.\<close>

definition stop :: "polling_loop \<Rightarrow> polling_loop" where
  "stop s =
     (let s1 = s\<lparr>pl_running := False\<rparr>;
          s2 = (case pl_timer s1 of
                  None \<Rightarrow> s1
                | Some t \<Rightarrow> s1\<lparr>pl_armed := removeAll t (pl_armed s1), pl_timer := None\<rparr>)
      in case pl_inFlight s2 of None \<Rightarrow> s2 | Some r \<Rightarrow> s2\<lparr>pl_stopping := pl_stopping s2 @ [r]\<rparr>)"

text \<open>The callback of an armed timer, which starts a run.\<close>

definition timer_fires :: "nat \<Rightarrow> polling_loop \<Rightarrow> polling_loop" where
  "timer_fires t s =
     s\<lparr>pl_armed := removeAll t (pl_armed s), pl_timer := None, pl_inFlight := Some (pl_fresh s),
       pl_active := pl_active s @ [pl_fresh s], pl_fresh := pl_fresh s + 1\<rparr>"

text \<open>The end of \<open>runAndReschedule\<close>, whether the run returned or threw.\<close>

definition run_finishes :: "nat \<Rightarrow> polling_loop \<Rightarrow> polling_loop" where
  "run_finishes r s =
     (let s1 = s\<lparr>pl_active := removeAll r (pl_active s), pl_inFlight := None,
                 pl_stopping := removeAll r (pl_stopping s)\<rparr>
      in if pl_running s1 then schedule s1 else s1)"

inductive loop_step :: "polling_loop \<Rightarrow> polling_loop \<Rightarrow> bool" where
  loop_start: "loop_step s (start s)"
| loop_stop: "loop_step s (stop s)"
| loop_fire: "t \<in> set (pl_armed s) \<Longrightarrow> loop_step s (timer_fires t s)"
| loop_finish: "r \<in> set (pl_active s) \<Longrightarrow> loop_step s (run_finishes r s)"

inductive loop_reached :: "polling_loop \<Rightarrow> bool" where
  reached_init: "loop_reached polling_start"
| reached_next: "loop_reached s \<Longrightarrow> loop_step s s' \<Longrightarrow> loop_reached s'"

section \<open>Intervals\<close>

definition assertPositiveInterval :: "int option \<Rightarrow> string \<Rightarrow> int result" where
  "assertPositiveInterval value label =
     (case value of
        Some n \<Rightarrow> (if n \<le> 0 then Inl (TypeError (label @ '' must be a positive integer.'')) else Inr n)
      | None \<Rightarrow> Inl (TypeError (label @ '' must be a positive integer.'')))"

definition defaultEventOutboxRuntimeLoopIntervalMilliseconds :: int where
  "defaultEventOutboxRuntimeLoopIntervalMilliseconds = 5000"

text \<open>The argument is the environment variable; the other two loops read theirs the same way.\<close>

definition readEventOutboxRuntimeLoopIntervalMilliseconds :: "string option \<Rightarrow> int result" where
  "readEventOutboxRuntimeLoopIntervalMilliseconds env =
     (case map_option js_trim env of
        None \<Rightarrow> Inr defaultEventOutboxRuntimeLoopIntervalMilliseconds
      | Some value \<Rightarrow>
          if length value = 0 then Inr defaultEventOutboxRuntimeLoopIntervalMilliseconds
          else assertPositiveInterval (parse_int value) ''OMNIWA_EVENT_OUTBOX_LOOP_INTERVAL_MS'')"

section \<open>One run at a time\<close>

text \<open>
  When \<open>start\<close> is not called between \<open>stop\<close> and the end of the run it waits for, the loop holds
  at most one timer or one run; and none of either once it has stopped.
\<close>

inductive orderly_step :: "polling_loop \<Rightarrow> polling_loop \<Rightarrow> bool" where
  "pl_stopping s = [] \<Longrightarrow> orderly_step s (start s)"
| "orderly_step s (stop s)"
| "t \<in> set (pl_armed s) \<Longrightarrow> orderly_step s (timer_fires t s)"
| "r \<in> set (pl_active s) \<Longrightarrow> orderly_step s (run_finishes r s)"

inductive orderly :: "polling_loop \<Rightarrow> bool" where
  orderly_init: "orderly polling_start"
| orderly_next: "orderly s \<Longrightarrow> orderly_step s s' \<Longrightarrow> orderly s'"

definition loop_ok :: "polling_loop \<Rightarrow> bool" where
  "loop_ok s \<longleftrightarrow>
     (pl_armed s = [] \<and> pl_active s = [] \<and> pl_timer s = None \<and> pl_inFlight s = None \<and>
        pl_stopping s = [] \<and> \<not> pl_running s) \<or>
     (\<exists>t. pl_armed s = [t] \<and> pl_active s = [] \<and> pl_timer s = Some t \<and> pl_inFlight s = None \<and>
        pl_stopping s = [] \<and> pl_running s) \<or>
     (\<exists>r. pl_armed s = [] \<and> pl_active s = [r] \<and> pl_timer s = None \<and> pl_inFlight s = Some r \<and>
        (if pl_running s then pl_stopping s = [] else set (pl_stopping s) = {r}))"

lemma loop_ok_start: "loop_ok s \<Longrightarrow> pl_stopping s = [] \<Longrightarrow> loop_ok (start s)"
  unfolding loop_ok_def by (elim disjE exE conjE) (simp_all add: start_def schedule_def split: if_splits)

lemma loop_ok_stop: "loop_ok s \<Longrightarrow> loop_ok (stop s)"
  unfolding loop_ok_def by (elim disjE exE conjE) (simp_all add: stop_def Let_def split: if_splits)

lemma loop_ok_fires: "loop_ok s \<Longrightarrow> t \<in> set (pl_armed s) \<Longrightarrow> loop_ok (timer_fires t s)"
  unfolding loop_ok_def by (elim disjE exE conjE) (simp_all add: timer_fires_def)

lemma removeAll_only: "set xs = {r} \<Longrightarrow> removeAll r xs = []"
  by (simp add: removeAll_filter_not_eq filter_empty_conv)

lemma loop_ok_finishes: "loop_ok s \<Longrightarrow> r \<in> set (pl_active s) \<Longrightarrow> loop_ok (run_finishes r s)"
  unfolding loop_ok_def
  by (elim disjE exE conjE) (simp_all add: run_finishes_def schedule_def Let_def removeAll_only split: if_splits)

lemma loop_ok_step: "orderly_step s s' \<Longrightarrow> loop_ok s \<Longrightarrow> loop_ok s'"
  by (induction rule: orderly_step.induct)
    (simp_all add: loop_ok_start loop_ok_stop loop_ok_fires loop_ok_finishes)

lemma loop_ok_orderly: "orderly s \<Longrightarrow> loop_ok s"
  by (induction rule: orderly.induct) (simp add: loop_ok_def polling_start_def, rule loop_ok_step)

lemma loop_ok_single:
  "loop_ok s \<Longrightarrow> length (pl_armed s) + length (pl_active s) \<le> 1 \<and>
     (pl_running s \<longrightarrow> length (pl_armed s) + length (pl_active s) = 1) \<and>
     (\<not> pl_running s \<longrightarrow> pl_armed s = [])"
  by (auto simp: loop_ok_def)

text \<open>
  A restart while \<open>stop\<close> still waits leaves two chains of runs, and a later \<open>stop\<close> only clears
  the timer of one of them.
\<close>

definition restarted_loop :: polling_loop where
  "restarted_loop =
     (let s1 = timer_fires 0 (start polling_start);
          s2 = start (stop s1);
          s3 = timer_fires 2 s2;
          s4 = run_finishes 1 s3
      in run_finishes 3 s4)"

lemma restarted_loop_eq:
  "restarted_loop = \<lparr>pl_running = True, pl_timer = Some 5, pl_inFlight = None, pl_armed = [4, 5],
     pl_active = [], pl_stopping = [], pl_fresh = 6\<rparr>"
  by (simp add: restarted_loop_def polling_start_def start_def stop_def schedule_def timer_fires_def
      run_finishes_def Let_def)

lemma restarted_loop_reached: "loop_reached restarted_loop"
proof -
  define s1 where "s1 = timer_fires 0 (start polling_start)"
  define s2 where "s2 = start (stop s1)"
  define s3 where "s3 = timer_fires 2 s2"
  define s4 where "s4 = run_finishes 1 s3"
  note defs = polling_start_def start_def stop_def schedule_def timer_fires_def run_finishes_def Let_def
  have "loop_reached (start polling_start)"
    using reached_next [OF reached_init loop_start] .
  moreover have "0 \<in> set (pl_armed (start polling_start))" by (simp add: defs)
  ultimately have "loop_reached s1" unfolding s1_def by (blast intro: reached_next loop_fire)
  then have "loop_reached s2" unfolding s2_def by (blast intro: reached_next loop_start loop_stop)
  moreover have "2 \<in> set (pl_armed s2)" by (simp add: s2_def s1_def defs)
  ultimately have "loop_reached s3" unfolding s3_def by (blast intro: reached_next loop_fire)
  moreover have "1 \<in> set (pl_active s3)" by (simp add: s3_def s2_def s1_def defs)
  ultimately have "loop_reached s4" unfolding s4_def by (blast intro: reached_next loop_finish)
  moreover have "3 \<in> set (pl_active s4)" by (simp add: s4_def s3_def s2_def s1_def defs)
  ultimately show ?thesis
    unfolding restarted_loop_def s1_def s2_def s3_def s4_def Let_def by (blast intro: reached_next loop_finish)
qed

end
