(* ===== verification/MemoryRepositories.thy ===== *)
theory MemoryRepositories
  imports GroupAggregate Navigation Instances Messages MediaAssets Webhooks Governance "HOL-Library.AList"
begin

text \<open>
  \<open>packages/infrastructure-persistence/src/in-memory-repositories.ts\<close>: the repository of an
  aggregate as a JavaScript \<open>Map\<close> from its identity, an association list in insertion order on which
  \<open>Map.set\<close> is \<open>AList.update\<close>, and the finders of each repository.  The worker-job repository is
  in \<open>JobRepositories\<close>.  What the callers rely on is the locale \<open>aggregate_repository\<close>.
\<close>

section \<open>InMemoryAggregateRepository\<close>

type_synonym 'a stored = "(identity \<times> 'a) list"

definition stored_load :: "identity \<Rightarrow> 'a stored \<Rightarrow> 'a option" where
  "stored_load i r = map_of r i"

definition stored_save :: "('a \<Rightarrow> identity) \<Rightarrow> 'a \<Rightarrow> 'a stored \<Rightarrow> 'a stored" where
  "stored_save ident a r = AList.update (ident a) a r"

definition stored_exists :: "identity \<Rightarrow> 'a stored \<Rightarrow> bool" where
  "stored_exists i r \<longleftrightarrow> i \<in> fst ` set r"

definition stored_list :: "'a stored \<Rightarrow> 'a list" where
  "stored_list r = map snd r"

definition stored_clear :: "'a stored \<Rightarrow> 'a stored" where
  "stored_clear r = []"

definition findAll :: "('a \<Rightarrow> bool) \<Rightarrow> 'a stored \<Rightarrow> 'a list" where
  "findAll predicate r = filter predicate (stored_list r)"

text \<open>The constructor saves the initial aggregates one by one.\<close>

definition stored_from :: "('a \<Rightarrow> identity) \<Rightarrow> 'a list \<Rightarrow> 'a stored" where
  "stored_from ident initialAggregates = fold (stored_save ident) initialAggregates []"

definition stored_ok :: "('a \<Rightarrow> identity) \<Rightarrow> 'a stored \<Rightarrow> bool" where
  "stored_ok ident r \<longleftrightarrow> distinct (map fst r) \<and> (\<forall>(i, a) \<in> set r. ident a = i)"

section \<open>What a repository promises\<close>

locale aggregate_repository =
  fixes ident :: "'a \<Rightarrow> identity"
    and load :: "identity \<Rightarrow> 'r \<Rightarrow> 'a option"
    and save :: "'a \<Rightarrow> 'r \<Rightarrow> 'r"
    and all :: "'r \<Rightarrow> 'a list"
    and ok :: "'r \<Rightarrow> bool"
  assumes load_saved: "ok r \<Longrightarrow> load i (save a r) = (if i = ident a then Some a else load i r)"
    and saved_ok: "ok r \<Longrightarrow> ok (save a r)"
    and listed: "ok r \<Longrightarrow> a \<in> set (all r) \<longleftrightarrow> load (ident a) r = Some a"
    and listed_once: "ok r \<Longrightarrow> distinct (map ident (all r))"
    and load_ident: "ok r \<Longrightarrow> load i r = Some a \<Longrightarrow> ident a = i"
begin

lemma saves_ok: "ok r \<Longrightarrow> ok (fold save as r)"
  by (induction as arbitrary: r) (simp_all add: saved_ok)

text \<open>Of several saves of one identity the last one counts.\<close>

lemma load_saves:
  "ok r \<Longrightarrow> load i (fold save as r) =
     (case List.find (\<lambda>a. ident a = i) (rev as) of None \<Rightarrow> load i r | Some a \<Rightarrow> Some a)"
proof (induction as rule: rev_induct)
  case (snoc a as)
  then show ?case by (simp add: load_saved saves_ok)
qed simp

lemma find_all: "ok r \<Longrightarrow> a \<in> set (filter P (all r)) \<longleftrightarrow> load (ident a) r = Some a \<and> P a"
  by (auto simp: listed)

lemma find_first_Some: "ok r \<Longrightarrow> List.find P (all r) = Some a \<Longrightarrow> load (ident a) r = Some a \<and> P a"
  by (auto dest: find_SomeD simp: listed)

lemma find_first_None: "ok r \<Longrightarrow> List.find P (all r) = None \<longleftrightarrow> (\<forall>i a. load i r = Some a \<longrightarrow> \<not> P a)"
  using load_ident by (fastforce simp: find_None_iff_all listed)

lemma listed_after_save:
  assumes "ok r"
  shows "set (all (save a r)) = insert a {b \<in> set (all r). ident b \<noteq> ident a}"
proof -
  have "b \<in> set (all (save a r)) \<longleftrightarrow> b = a \<or> b \<in> set (all r) \<and> ident b \<noteq> ident a" for b
    using assms by (auto simp: listed load_saved saved_ok)
  then show ?thesis by blast
qed

end

lemma stored_ok_update:
  "stored_ok ident r \<Longrightarrow> stored_ok ident (AList.update (ident a) a r)"
proof -
  assume ok: "stored_ok ident r"
  have "\<forall>(i, b) \<in> set (AList.update k v xs). (i, b) = (k, v) \<or> (i, b) \<in> set xs"
    for k :: identity and v :: 'a and xs
    by (induction xs) auto
  then show "stored_ok ident (AList.update (ident a) a r)"
    using ok by (fastforce simp: stored_ok_def distinct_update)
qed

interpretation stored: aggregate_repository ident stored_load "stored_save ident" stored_list "stored_ok ident"
proof
  fix r :: "'a stored" and a i
  assume ok: "stored_ok ident r"
  show "stored_load i (stored_save ident a r) = (if i = ident a then Some a else stored_load i r)"
    by (auto simp: stored_load_def stored_save_def update_conv')
  show "stored_ok ident (stored_save ident a r)"
    unfolding stored_save_def by (rule stored_ok_update [OF ok])
  show "a \<in> set (stored_list r) \<longleftrightarrow> stored_load (ident a) r = Some a"
    using ok by (force simp: stored_ok_def stored_list_def stored_load_def)
  have "map ident (stored_list r) = map fst r"
    using ok by (auto simp: stored_ok_def stored_list_def)
  then show "distinct (map ident (stored_list r))" using ok by (simp add: stored_ok_def)
  show "stored_load i r = Some a \<Longrightarrow> ident a = i"
    using ok by (auto simp: stored_ok_def stored_load_def dest: map_of_SomeD)
qed

lemma stored_from_ok: "stored_ok ident (stored_from ident as)"
  unfolding stored_from_def by (rule stored.saves_ok) (simp add: stored_ok_def)

lemma stored_exists_iff: "stored_exists i r \<longleftrightarrow> stored_load i r \<noteq> None"
  by (simp add: stored_exists_def stored_load_def map_of_eq_None_iff)

lemma findAll_iff:
  "stored_ok ident r \<Longrightarrow> a \<in> set (findAll P r) \<longleftrightarrow> stored_load (ident a) r = Some a \<and> P a"
  unfolding findAll_def by (rule stored.find_all)

section \<open>Instances and sessions\<close>

definition instances_findByStatus :: "instance_status \<Rightarrow> wa_instance stored \<Rightarrow> wa_instance list" where
  "instances_findByStatus status r = findAll (\<lambda>a. inst_status a = status) r"

definition findNonTerminal :: "wa_instance stored \<Rightarrow> wa_instance list" where
  "findNonTerminal r = findAll (\<lambda>a. inst_status a \<noteq> Inst_destroyed) r"

definition getCurrentSessionId :: "identity \<Rightarrow> wa_instance stored \<Rightarrow> identity option" where
  "getCurrentSessionId i r = Option.bind (stored_load i r) inst_currentSessionId"

definition sessions_findByInstance :: "identity \<Rightarrow> session stored \<Rightarrow> session list" where
  "sessions_findByInstance i r = findAll (\<lambda>s. sess_instanceId s = i) r"

definition findByStatusForInstance :: "identity \<Rightarrow> session_status \<Rightarrow> session stored \<Rightarrow> session list" where
  "findByStatusForInstance i status r = findAll (\<lambda>s. sess_instanceId s = i \<and> sess_status s = status) r"

definition findRecoveryRequired :: "session stored \<Rightarrow> session list" where
  "findRecoveryRequired r = findAll sess_requiresRecovery r"

section \<open>Messages\<close>

record message_store =
  mst_records :: "message stored"
  mst_keys :: "string \<Rightarrow> identity option"

definition messages_load :: "identity \<Rightarrow> message_store \<Rightarrow> message option" where
  "messages_load i r = stored_load i (mst_records r)"

definition messages_save :: "message \<Rightarrow> message_store \<Rightarrow> message_store" where
  "messages_save m r = r\<lparr>mst_records := stored_save msg_id m (mst_records r)\<rparr>"

definition messages_findByStatus :: "message_status \<Rightarrow> message_store \<Rightarrow> message list" where
  "messages_findByStatus status r = findAll (\<lambda>m. msg_status m = status) (mst_records r)"

definition messages_findByIdempotencyKey :: "string \<Rightarrow> message_store \<Rightarrow> message option" where
  "messages_findByIdempotencyKey key r =
     (case mst_keys r key of None \<Rightarrow> None | Some i \<Rightarrow> messages_load i r)"

definition findRecoverableByOwner :: "domain_owner_context \<Rightarrow> message_store \<Rightarrow> message list" where
  "findRecoverableByOwner ownerContext r =
     (if ownerContext \<noteq> Owner_messaging then []
      else findAll (\<lambda>m. msg_status m \<in> {Msg_queued, Msg_processing, Msg_failed}) (mst_records r))"

definition messages_recordIdempotencyKey :: "string \<Rightarrow> identity \<Rightarrow> message_store \<Rightarrow> message_store" where
  "messages_recordIdempotencyKey key i r = r\<lparr>mst_keys := (mst_keys r)(key \<mapsto> i)\<rparr>"

section \<open>Media\<close>

record media_store =
  mds_records :: "media_asset stored"
  mds_cleanupRequired :: "identity list"

definition media_findByStatus :: "media_asset_status \<Rightarrow> media_store \<Rightarrow> media_asset list" where
  "media_findByStatus status r = findAll (\<lambda>a. ma_status a = status) (mds_records r)"

definition findRequiringCleanup :: "media_store \<Rightarrow> media_asset list" where
  "findRequiringCleanup r =
     findAll (\<lambda>a. ma_status a \<noteq> Asset_cleaned \<and> ma_id a \<in> set (mds_cleanupRequired r)) (mds_records r)"

definition media_findByMessage :: "identity \<Rightarrow> media_store \<Rightarrow> media_asset list" where
  "media_findByMessage i r = findAll (\<lambda>a. ma_messageId a = Some i) (mds_records r)"

definition markRequiringCleanup :: "identity \<Rightarrow> media_store \<Rightarrow> media_store" where
  "markRequiringCleanup i r = r\<lparr>mds_cleanupRequired := List.insert i (mds_cleanupRequired r)\<rparr>"

section \<open>Chats, contacts, labels, groups\<close>

definition chats_findByInstance :: "identity \<Rightarrow> chat stored \<Rightarrow> chat list" where
  "chats_findByInstance i r = findAll (\<lambda>c. chat_instanceId c = i) r"

definition chats_findByStatus :: "chat_status \<Rightarrow> chat stored \<Rightarrow> chat list" where
  "chats_findByStatus status r = findAll (\<lambda>c. chat_status c = status) r"

definition chats_findByJid :: "string \<Rightarrow> chat stored \<Rightarrow> chat option" where
  "chats_findByJid jid r = List.find (\<lambda>c. chat_jid c = jid) (stored_list r)"

definition findByLabel :: "identity \<Rightarrow> chat stored \<Rightarrow> chat list" where
  "findByLabel i r = findAll (\<lambda>c. i \<in> set (chat_labelIds c)) r"

definition contacts_findByInstance :: "identity \<Rightarrow> contact stored \<Rightarrow> contact list" where
  "contacts_findByInstance i r = findAll (\<lambda>c. con_instanceId c = i) r"

definition contacts_findByStatus :: "contact_status \<Rightarrow> contact stored \<Rightarrow> contact list" where
  "contacts_findByStatus status r = findAll (\<lambda>c. con_status c = status) r"

definition contacts_findByJid :: "string \<Rightarrow> contact stored \<Rightarrow> contact option" where
  "contacts_findByJid jid r = List.find (\<lambda>c. con_jid c = jid) (stored_list r)"

definition labels_findByInstance :: "identity \<Rightarrow> label stored \<Rightarrow> label list" where
  "labels_findByInstance i r = findAll (\<lambda>l. lab_instanceId l = i) r"

definition labels_findByStatus :: "label_status \<Rightarrow> label stored \<Rightarrow> label list" where
  "labels_findByStatus status r = findAll (\<lambda>l. lab_status l = status) r"

definition groups_findByInstance :: "identity \<Rightarrow> wa_group stored \<Rightarrow> wa_group list" where
  "groups_findByInstance i r = findAll (\<lambda>g. grp_instanceId g = i) r"

definition groups_findByStatus :: "group_status \<Rightarrow> wa_group stored \<Rightarrow> wa_group list" where
  "groups_findByStatus status r = findAll (\<lambda>g. grp_status g = status) r"

definition groups_findByJid :: "string \<Rightarrow> wa_group stored \<Rightarrow> wa_group option" where
  "groups_findByJid jid r = List.find (\<lambda>g. grp_jid g = jid) (stored_list r)"

section \<open>Webhooks\<close>

record subscription_store =
  sst_records :: "webhook_subscription stored"
  sst_signalRefs :: "identity \<Rightarrow> string list option"

definition subscriptions_findByStatus ::
    "webhook_subscription_status \<Rightarrow> subscription_store \<Rightarrow> webhook_subscription list" where
  "subscriptions_findByStatus status r = findAll (\<lambda>s. subs_status s = status) (sst_records r)"

definition findActiveForSignal :: "string \<Rightarrow> subscription_store \<Rightarrow> webhook_subscription list" where
  "findActiveForSignal sourceSignalRef r =
     findAll (\<lambda>s. subs_status s = Subs_active \<and>
       (case sst_signalRefs r (subs_id s) of None \<Rightarrow> False | Some refs \<Rightarrow> sourceSignalRef \<in> set refs))
       (sst_records r)"

definition recordSignalSelection :: "identity \<Rightarrow> string list \<Rightarrow> subscription_store \<Rightarrow> subscription_store" where
  "recordSignalSelection i refs r = r\<lparr>sst_signalRefs := (sst_signalRefs r)(i \<mapsto> refs)\<rparr>"

record delivery_store =
  dst_records :: "webhook_delivery stored"
  dst_keys :: "string \<Rightarrow> identity option"

definition deliveries_findByStatus ::
    "webhook_delivery_status \<Rightarrow> delivery_store \<Rightarrow> webhook_delivery list" where
  "deliveries_findByStatus status r = findAll (\<lambda>d. del_status d = status) (dst_records r)"

definition deliveries_findBySourceSignal :: "string \<Rightarrow> delivery_store \<Rightarrow> webhook_delivery list" where
  "deliveries_findBySourceSignal ref r = findAll (\<lambda>d. del_sourceSignalRef d = ref) (dst_records r)"

definition deliveries_findByIdempotencyKey :: "string \<Rightarrow> delivery_store \<Rightarrow> webhook_delivery option" where
  "deliveries_findByIdempotencyKey key r =
     (case dst_keys r key of None \<Rightarrow> None | Some i \<Rightarrow> stored_load i (dst_records r))"

definition deliveries_recordIdempotencyKey :: "string \<Rightarrow> identity \<Rightarrow> delivery_store \<Rightarrow> delivery_store" where
  "deliveries_recordIdempotencyKey key i r = r\<lparr>dst_keys := (dst_keys r)(key \<mapsto> i)\<rparr>"

section \<open>Governance\<close>

definition findByEvaluatedIntent :: "string \<Rightarrow> guardrail_decision stored \<Rightarrow> guardrail_decision option" where
  "findByEvaluatedIntent ref r = List.find (\<lambda>d. gd_evaluatedIntentRef d = ref) (stored_list r)"

definition profiles_findByStatus ::
    "provider_profile_status \<Rightarrow> provider_profile stored \<Rightarrow> provider_profile list" where
  "profiles_findByStatus status r = findAll (\<lambda>p. pp_status p = status) r"

definition findSupportedOrDegraded :: "provider_profile stored \<Rightarrow> provider_profile list" where
  "findSupportedOrDegraded r = findAll (\<lambda>p. pp_status p = Prov_supported \<or> pp_status p = Prov_degraded) r"

record access_store =
  ast_records :: "access_decision stored"
  ast_targetContext :: "identity \<Rightarrow> string option"

definition findUnexpiredByCapability ::
    "string \<Rightarrow> string \<Rightarrow> string \<Rightarrow> access_store \<Rightarrow> access_decision option" where
  "findUnexpiredByCapability actorRef capability targetContextRef r =
     List.find (\<lambda>d. ad_status d \<noteq> Access_expired \<and> ad_actorRef d = actorRef \<and>
         ad_capability d = capability \<and> ast_targetContext r (ad_id d) = Some targetContextRef)
       (stored_list (ast_records r))"

definition recordTargetContext :: "identity \<Rightarrow> string \<Rightarrow> access_store \<Rightarrow> access_store" where
  "recordTargetContext i ref r = r\<lparr>ast_targetContext := (ast_targetContext r)(i \<mapsto> ref)\<rparr>"

record audit_store =
  aus_records :: "audit_record stored"
  aus_sourceSignal :: "identity \<Rightarrow> string option"

definition audit_findBySourceSignal :: "string \<Rightarrow> audit_store \<Rightarrow> audit_record list" where
  "audit_findBySourceSignal ref r =
     findAll (\<lambda>a. aus_sourceSignal r (ar_id a) = Some ref) (aus_records r)"

definition findRetentionExpired :: "audit_store \<Rightarrow> audit_record list" where
  "findRetentionExpired r = findAll (\<lambda>a. ar_status a = Audit_retention_expired) (aus_records r)"

definition recordSourceSignal :: "identity \<Rightarrow> string \<Rightarrow> audit_store \<Rightarrow> audit_store" where
  "recordSourceSignal i ref r = r\<lparr>aus_sourceSignal := (aus_sourceSignal r)(i \<mapsto> ref)\<rparr>"

definition findBySubject :: "string \<Rightarrow> health_status stored \<Rightarrow> health_status option" where
  "findBySubject ref r = List.find (\<lambda>h. hs_subjectRef h = ref) (stored_list r)"

definition findByCategory :: "health_category \<Rightarrow> health_status stored \<Rightarrow> health_status list" where
  "findByCategory c r = findAll (\<lambda>h. hs_category h = c) r"

definition findActive :: "configuration_snapshot stored \<Rightarrow> configuration_snapshot option" where
  "findActive r = List.find (\<lambda>s. cs_status s = Config_active) (stored_list r)"

definition findRejectedGuardrailBypass :: "configuration_snapshot stored \<Rightarrow> configuration_snapshot list" where
  "findRejectedGuardrailBypass r =
     findAll (\<lambda>s. cs_status s = Config_rejected \<and> cs_safety s = Safety_guardrail_bypass_rejected) r"

definition findCaptured :: "telemetry_signal stored \<Rightarrow> telemetry_signal list" where
  "findCaptured r = findAll (\<lambda>s. ts_status s = Tele_captured) r"

definition findDroppedBySource :: "string \<Rightarrow> telemetry_signal stored \<Rightarrow> telemetry_signal list" where
  "findDroppedBySource ref r = findAll (\<lambda>s. ts_status s = Tele_dropped \<and> ts_sourceContextRef s = ref) r"

section \<open>The message repository keeps its promises beside its keys\<close>

interpretation message_store: aggregate_repository msg_id messages_load messages_save
  "\<lambda>r. stored_list (mst_records r)" "\<lambda>r. stored_ok msg_id (mst_records r)"
  by unfold_locales
    (simp_all add: messages_load_def messages_save_def stored.load_saved stored.saved_ok
      stored.listed stored.listed_once stored.load_ident)

lemma messages_findByIdempotencyKey_recorded [simp]:
  "messages_findByIdempotencyKey key (messages_recordIdempotencyKey key i r) = messages_load i r"
  by (simp add: messages_findByIdempotencyKey_def messages_recordIdempotencyKey_def messages_load_def)

end
