(* ===== verification/IntentStore.thy ===== *)
theory IntentStore
  imports EventLog
begin

text \<open>
  \<open>packages/application/src/ports/outbound-message-intent-store.ts\<close> and
  \<open>packages/infrastructure-persistence/src/outbound-message-intent-store.ts\<close>: the store of the
  recipients and texts behind the references that travel through commands and jobs.  The payload
  of a stored intent is its recipient and text, which the code writes as base64 of JSON; the
  store persists its state the way the event log does, after it has changed it.
\<close>

section \<open>The port\<close>

record text_intent_input =
  tii_outboundIntentRef :: "string option"
  tii_recipientRef :: string
  tii_text :: string
  tii_expiresAt :: "jsnum option"

record stored_intent =
  si_outboundIntentRef :: string
  si_recipientRef :: string
  si_text :: string
  si_createdAt :: int
  si_expiresAt :: "int option"
  si_messageId :: "string option"
  si_messageIds :: "string list option"

record resolved_intent =
  ri_outboundIntentRef :: string
  ri_recipientRef :: string
  ri_text :: string
  ri_createdAt :: int
  ri_expiresAt :: "int option"
  ri_messageId :: "string option"

record intent_receipt =
  ir_outboundIntentRef :: string
  ir_createdAt :: int
  ir_expiresAt :: "int option"

text \<open>The pattern of a reference is the one of an identity.\<close>

definition createOutboundMessageIntentRef :: "string \<Rightarrow> string result" where
  "createOutboundMessageIntentRef value =
     (let normalized = js_trim value
      in if \<not> safe_token normalized
         then Inl (TypeError ''OutboundMessageIntentRef must be a safe opaque reference.'')
         else createOpaqueString normalized ''OutboundMessageIntentRef'')"

definition assertNonEmpty_intent :: "string \<Rightarrow> string \<Rightarrow> unit result" where
  "assertNonEmpty_intent value label =
     (if length (js_trim value) = 0 then Inl (TypeError (label @ '' must not be empty.'')) else Inr ())"

definition safe_integer_of :: "jsnum \<Rightarrow> int option" where
  "safe_integer_of v =
     (case as_int v of None \<Rightarrow> None | Some n \<Rightarrow> if \<bar>n\<bar> \<le> max_safe_integer then Some n else None)"

text \<open>The input with its recipient trimmed; its expiry is a safe integer.\<close>

definition createTextOutboundMessageIntentInput :: "text_intent_input \<Rightarrow> (text_intent_input \<times> int option) result" where
  "createTextOutboundMessageIntentInput input =
     result_bind (assertNonEmpty_intent (tii_recipientRef input) ''Outbound message recipient reference'') (\<lambda>_.
     result_bind (assertNonEmpty_intent (tii_text input) ''Outbound message text'') (\<lambda>_.
     result_bind
       (case tii_expiresAt input of
          None \<Rightarrow> Inr None
        | Some v \<Rightarrow>
            (case safe_integer_of v of
               None \<Rightarrow> Inl (TypeError ''Outbound message intent expiry must be a safe integer.'')
             | Some n \<Rightarrow> Inr (Some n))) (\<lambda>expiresAt.
     Inr (input\<lparr>tii_recipientRef := js_trim (tii_recipientRef input)\<rparr>, expiresAt))))"

section \<open>The store\<close>

record 'd intent_store =
  is_intents :: "stored_intent list"
  is_disk :: 'd

type_synonym 'd intent_persist = "(stored_intent list, 'd) persist_of"

definition intentFailure :: "port_failure_category \<Rightarrow> string \<Rightarrow> string option \<Rightarrow> port_failure" where
  "intentFailure category code outboundIntentRef =
     createApplicationPortFailure
       \<lparr>pf_category = category, pf_code = code,
        pf_message = ''Outbound message intent store operation failed.'', pf_retryable = False,
        pf_ownerContext = Some Owner_messaging, pf_failureCategory = None,
        pf_safeMetadata =
          map_option (\<lambda>ref. [(''outboundIntentRef'', Port_string ref)]) outboundIntentRef\<rparr>"

definition intentFailureForMessage :: "port_failure_category \<Rightarrow> string \<Rightarrow> identity \<Rightarrow> port_failure" where
  "intentFailureForMessage category code messageId =
     createApplicationPortFailure
       \<lparr>pf_category = category, pf_code = code,
        pf_message = ''Outbound message intent store operation failed.'', pf_retryable = False,
        pf_ownerContext = Some Owner_messaging, pf_failureCategory = None,
        pf_safeMetadata = Some [(''messageId'', Port_string messageId)]\<rparr>"

text \<open>What \<open>capturePortFailure\<close> makes of a throw.\<close>

definition intent_rejected :: port_failure where
  "intent_rejected = intentFailure Port_unsafe_payload ''outbound_intent_store_rejected'' None"

definition captured_intent :: "'a port_result result \<Rightarrow> 'a port_result" where
  "captured_intent r = (case r of Inl _ \<Rightarrow> Inl intent_rejected | Inr x \<Rightarrow> x)"

definition isExpired_intent :: "stored_intent \<Rightarrow> int \<Rightarrow> bool" where
  "isExpired_intent intent now =
     (case si_expiresAt intent of None \<Rightarrow> False | Some t \<Rightarrow> t \<le> now)"

definition receiptFor_intent :: "stored_intent \<Rightarrow> intent_receipt result" where
  "receiptFor_intent intent =
     result_map
       (\<lambda>ref. \<lparr>ir_outboundIntentRef = ref, ir_createdAt = si_createdAt intent,
               ir_expiresAt = si_expiresAt intent\<rparr>)
       (createOutboundMessageIntentRef (si_outboundIntentRef intent))"

definition indexOf_intent :: "string \<Rightarrow> stored_intent list \<Rightarrow> nat option" where
  "indexOf_intent ref intents = find_index (\<lambda>intent. si_outboundIntentRef intent = ref) intents"

text \<open>A \<open>Set\<close> of the identities, the undefined ones left out.\<close>

definition addBindingMessageId :: "stored_intent \<Rightarrow> string \<Rightarrow> string list" where
  "addBindingMessageId existing messageId =
     rev (remdups (rev (value_or (si_messageIds existing) [] @
       (case si_messageId existing of None \<Rightarrow> [] | Some i \<Rightarrow> [i]) @ [messageId])))"

definition intentIsBoundToMessage :: "stored_intent \<Rightarrow> string \<Rightarrow> bool" where
  "intentIsBoundToMessage intent messageId \<longleftrightarrow>
     si_messageId intent = Some messageId \<or> messageId \<in> set (value_or (si_messageIds intent) [])"

definition mergeExistingBinding :: "stored_intent \<Rightarrow> stored_intent \<Rightarrow> stored_intent" where
  "mergeExistingBinding next existing =
     (case si_messageId existing of
        None \<Rightarrow>
          (case si_messageIds existing of
             None \<Rightarrow> next
           | Some ids \<Rightarrow> next\<lparr>si_messageIds := Some ids\<rparr>)
      | Some i \<Rightarrow> next\<lparr>si_messageId := Some i, si_messageIds := Some (addBindingMessageId existing i)\<rparr>)"

definition findAvailableTextIntent :: "int \<Rightarrow> string \<Rightarrow> stored_intent list \<Rightarrow> stored_intent port_result" where
  "findAvailableTextIntent now ref intents =
     (case indexOf_intent ref intents of
        None \<Rightarrow> Inl (intentFailure Port_rejected ''outbound_intent_not_found'' (Some ref))
      | Some n \<Rightarrow>
          if isExpired_intent (intents ! n) now
          then Inl (intentFailure Port_rejected ''outbound_intent_expired'' (Some ref))
          else Inr (intents ! n))"

definition findAvailableTextIntentByMessage ::
    "int \<Rightarrow> identity \<Rightarrow> stored_intent list \<Rightarrow> stored_intent port_result" where
  "findAvailableTextIntentByMessage now messageId intents =
     (case List.find (\<lambda>intent. intentIsBoundToMessage intent messageId) intents of
        None \<Rightarrow> Inl (intentFailureForMessage Port_rejected ''outbound_intent_not_found'' messageId)
      | Some intent \<Rightarrow>
          if isExpired_intent intent now
          then Inl (intentFailureForMessage Port_rejected ''outbound_intent_expired'' messageId)
          else Inr intent)"

text \<open>Setting the state and persisting it: a failing write leaves the new state in memory.\<close>

definition set_intents :: "'d intent_persist \<Rightarrow> stored_intent list \<Rightarrow> 'd intent_store \<Rightarrow> bool \<times> 'd intent_store" where
  "set_intents persist intents s =
     (case persist intents (is_disk s) of
        (None, disk) \<Rightarrow> (True, \<lparr>is_intents = intents, is_disk = disk\<rparr>)
      | (Some cause, disk) \<Rightarrow> (False, \<lparr>is_intents = intents, is_disk = disk\<rparr>))"

definition createGeneratedOutboundIntentRef :: "string \<Rightarrow> string result" where
  "createGeneratedOutboundIntentRef uuid = createOutboundMessageIntentRef (''outbound_intent:'' @ uuid)"

definition storeTextIntent ::
    "'d intent_persist \<Rightarrow> int \<Rightarrow> string \<Rightarrow> text_intent_input \<Rightarrow> 'd intent_store \<Rightarrow>
     intent_receipt port_result \<times> 'd intent_store" where
  "storeTextIntent persist now uuid intent s =
     (case result_bind (createTextOutboundMessageIntentInput intent) (\<lambda>(safeInput, expiresAt).
             result_map (\<lambda>ref. (safeInput, expiresAt, ref))
               (case tii_outboundIntentRef safeInput of
                  Some ref \<Rightarrow> Inr ref
                | None \<Rightarrow> createGeneratedOutboundIntentRef uuid)) of
        Inl _ \<Rightarrow> (Inl intent_rejected, s)
      | Inr (safeInput, expiresAt, ref) \<Rightarrow>
          let existingIndex = indexOf_intent ref (is_intents s);
              stored = \<lparr>si_outboundIntentRef = ref, si_recipientRef = tii_recipientRef safeInput,
                si_text = tii_text safeInput,
                si_createdAt = (case existingIndex of
                    None \<Rightarrow> now | Some n \<Rightarrow> si_createdAt (is_intents s ! n)),
                si_expiresAt = expiresAt, si_messageId = None, si_messageIds = None\<rparr>;
              intents = (case existingIndex of
                  None \<Rightarrow> is_intents s @ [stored]
                | Some n \<Rightarrow> (is_intents s)[n := mergeExistingBinding stored (is_intents s ! n)]);
              (persisted, s') = set_intents persist intents s
          in (if persisted then captured_intent (result_map Inr (receiptFor_intent stored))
              else Inl intent_rejected, s'))"

definition bindMessageIntent ::
    "'d intent_persist \<Rightarrow> string \<Rightarrow> identity \<Rightarrow> 'd intent_store \<Rightarrow>
     (string \<times> identity) port_result \<times> 'd intent_store" where
  "bindMessageIntent persist ref messageId s =
     (case indexOf_intent ref (is_intents s) of
        None \<Rightarrow> (Inl (intentFailure Port_rejected ''outbound_intent_not_found'' (Some ref)), s)
      | Some n \<Rightarrow>
          let existing = is_intents s ! n;
              intents = (is_intents s)[n := existing\<lparr>si_messageId := Some messageId,
                si_messageIds := Some (addBindingMessageId existing messageId)\<rparr>];
              (persisted, s') = set_intents persist intents s
          in (if persisted then Inr (ref, messageId) else Inl intent_rejected, s'))"

definition verifyTextIntent :: "int \<Rightarrow> string \<Rightarrow> 'd intent_store \<Rightarrow> intent_receipt port_result" where
  "verifyTextIntent now ref s =
     (case findAvailableTextIntent now ref (is_intents s) of
        Inl failure \<Rightarrow> Inl failure
      | Inr stored \<Rightarrow> captured_intent (result_map Inr (receiptFor_intent stored)))"

definition findTextIntentByMessage :: "int \<Rightarrow> identity \<Rightarrow> 'd intent_store \<Rightarrow> intent_receipt port_result" where
  "findTextIntentByMessage now messageId s =
     (case findAvailableTextIntentByMessage now messageId (is_intents s) of
        Inl failure \<Rightarrow> Inl failure
      | Inr stored \<Rightarrow> captured_intent (result_map Inr (receiptFor_intent stored)))"

definition resolveTextIntent :: "int \<Rightarrow> string \<Rightarrow> 'd intent_store \<Rightarrow> resolved_intent port_result" where
  "resolveTextIntent now ref s =
     (case findAvailableTextIntent now ref (is_intents s) of
        Inl failure \<Rightarrow> Inl failure
      | Inr stored \<Rightarrow>
          captured_intent (result_map
            (\<lambda>r. Inr \<lparr>ri_outboundIntentRef = r, ri_recipientRef = si_recipientRef stored,
                      ri_text = si_text stored, ri_createdAt = si_createdAt stored,
                      ri_expiresAt = si_expiresAt stored, ri_messageId = si_messageId stored\<rparr>)
            (createOutboundMessageIntentRef (si_outboundIntentRef stored))))"

definition createInMemoryIntentStore :: "unit intent_store" where
  "createInMemoryIntentStore = \<lparr>is_intents = [], is_disk = ()\<rparr>"

definition createDurableJsonIntentStore ::
    "stored_intent list json_file \<Rightarrow> stored_intent list json_file intent_store" where
  "createDurableJsonIntentStore disk = \<lparr>is_intents = value_or (jf_file disk) [], is_disk = disk\<rparr>"

end
