(* ===== verification/MessageServices.thy ===== *)
theory MessageServices
  imports Factories Programs IntentStore EventPublishing
begin

text \<open>
  The ports of the outbound message handlers and the two services between them:
  \<open>packages/application/src/ports/messaging-provider.ts\<close>,
  \<open>services/active-session-resolver.ts\<close> and \<open>services/minimal-message-guardrail.ts\<close>.  A port
  is a program on the state \<open>'w\<close> of everything behind the ports; an optional method that is missing
  is a program that does nothing.
\<close>

section \<open>The messaging provider\<close>

datatype provider_send_status = Send_accepted | Send_rejected | Send_unknown

record provider_request =
  prq_instanceId :: identity
  prq_providerId :: identity
  prq_sessionId :: identity
  prq_messageId :: identity
  prq_messageType :: message_type
  prq_outboundIntentRef :: string
  prq_mediaId :: "identity option"
  prq_idempotencyKey :: string

record provider_result =
  prs_messageId :: identity
  prs_status :: provider_send_status
  prs_providerReceiptRef :: "string option"
  prs_retryable :: bool
  prs_failureCategory :: "failure_category option"

section \<open>The ports\<close>

record 'w app_ports =
  po_instances_load :: "identity \<Rightarrow> ('w, wa_instance option) prog"
  po_getCurrentSessionId :: "identity \<Rightarrow> ('w, identity option) prog"
  po_sessions_load :: "identity \<Rightarrow> ('w, session option) prog"
  po_messages_load :: "identity \<Rightarrow> ('w, message option) prog"
  po_messages_save :: "message \<Rightarrow> ('w, unit) prog"
  po_findByIdempotencyKey :: "string \<Rightarrow> ('w, message option) prog"
  po_recordIdempotencyKey :: "string \<Rightarrow> identity \<Rightarrow> ('w, unit) prog"
  po_findByEvaluatedIntent :: "string \<Rightarrow> ('w, guardrail_decision option) prog"
  po_decisions_save :: "guardrail_decision \<Rightarrow> ('w, unit) prog"
  po_bindMessageIntent ::
    "string \<Rightarrow> identity \<Rightarrow> port_context \<Rightarrow> ('w, (string \<times> identity) port_result) prog"
  po_findTextIntentByMessage :: "identity \<Rightarrow> port_context \<Rightarrow> ('w, intent_receipt port_result) prog"
  po_verifyTextIntent :: "string \<Rightarrow> port_context \<Rightarrow> ('w, intent_receipt port_result) prog"
  po_resolveTextIntent :: "string \<Rightarrow> port_context \<Rightarrow> ('w, resolved_intent port_result) prog"
  po_enqueue :: "queue_work \<Rightarrow> port_context \<Rightarrow> ('w, receipt port_result) prog"
  po_sendOutboundMessage ::
    "provider_request \<Rightarrow> port_context \<Rightarrow> ('w, provider_result port_result) prog"
  po_publishNewEvents ::
    "publisher_input \<Rightarrow> ('w, (domain_event \<times> platform_event) list port_result) prog"
  po_uuid :: "('w, string) prog"
  po_providerId :: identity

section \<open>active-session-resolver.ts\<close>

record session_resolution =
  sr_instance :: wa_instance
  sr_session :: session
  sr_sessionId :: identity

definition createActiveSessionFailure ::
    "string \<Rightarrow> string \<Rightarrow> (string \<times> safe_port_value) list \<Rightarrow> port_failure" where
  "createActiveSessionFailure code message safeMetadata =
     createApplicationPortFailure
       \<lparr>pf_category = Port_rejected, pf_code = code, pf_message = message, pf_retryable = False,
        pf_ownerContext = Some Owner_session, pf_failureCategory = Some Fail_session,
        pf_safeMetadata = Some safeMetadata\<rparr>"

text \<open>What the session found for a connected instance is worth.\<close>

definition judge_session ::
    "identity \<Rightarrow> wa_instance \<Rightarrow> identity \<Rightarrow> session option \<Rightarrow> session_resolution port_result" where
  "judge_session instanceId inst sessionId found =
     (let metadata = [(''instanceId'', Port_string instanceId), (''sessionId'', Port_string sessionId)]
      in case found of
           None \<Rightarrow> Inl (createActiveSessionFailure ''active_session_not_found''
             ''Active session is not available.'' metadata)
         | Some s \<Rightarrow>
             if sess_instanceId s \<noteq> inst_id inst
             then Inl (createActiveSessionFailure ''active_session_stale''
               ''Active session does not belong to the requested instance.'' metadata)
             else if \<not> isSessionSendCapable s
             then Inl (createActiveSessionFailure ''active_session_not_usable''
               ''Active session is not usable for outbound messaging.''
               (metadata @ [(''sessionStatus'', Port_string (session_status_name (sess_status s)))]))
             else Inr \<lparr>sr_instance = inst, sr_session = s, sr_sessionId = sessionId\<rparr>)"

definition resolveActiveSession ::
    "'w app_ports \<Rightarrow> identity \<Rightarrow> port_context \<Rightarrow> ('w, session_resolution port_result) prog" where
  "resolveActiveSession P instanceId context =
     prog_catch
       (prog_bind (po_instances_load P instanceId) (\<lambda>loaded.
        case loaded of
          None \<Rightarrow> prog_return (Inl (createActiveSessionFailure ''active_session_instance_not_found''
            ''Instance is not available for an active session.''
            [(''instanceId'', Port_string instanceId)]))
        | Some inst \<Rightarrow>
            if inst_status inst \<noteq> Inst_connected
            then prog_return (Inl (createActiveSessionFailure ''active_session_instance_not_connected''
              ''Instance is not connected.''
              [(''instanceId'', Port_string instanceId),
               (''instanceStatus'', Port_string (instance_status_name (inst_status inst)))]))
            else
              prog_bind
                (case inst_currentSessionId inst of
                   Some i \<Rightarrow> prog_return (Some i)
                 | None \<Rightarrow> po_getCurrentSessionId P instanceId) (\<lambda>sessionId.
              case sessionId of
                None \<Rightarrow> prog_return (Inl (createActiveSessionFailure ''active_session_not_found''
                  ''Active session is not available.'' [(''instanceId'', Port_string instanceId)]))
              | Some i \<Rightarrow>
                  prog_bind (po_sessions_load P i) (\<lambda>found.
                  prog_return (judge_session instanceId inst i found)))))
       (\<lambda>_. prog_return (Inl (createApplicationPortFailure
          \<lparr>pf_category = Port_unavailable, pf_code = ''active_session_dependency_failure'',
           pf_message = ''Active session dependencies are unavailable.'', pf_retryable = True,
           pf_ownerContext = Some Owner_session, pf_failureCategory = Some Fail_session,
           pf_safeMetadata = Some [(''instanceId'', Port_string instanceId)]\<rparr>)))"

section \<open>minimal-message-guardrail.ts\<close>

record guardrail_input =
  gi_guardrailDecisionId :: identity
  gi_outboundIntentRef :: string
  gi_outcome :: "guardrail_outcome option"
  gi_reasonCode :: "string option"

fun defaultReasonCode :: "guardrail_outcome \<Rightarrow> string" where
  "defaultReasonCode Guardrail_allow = ''minimal_guardrail_pass''"
| "defaultReasonCode Guardrail_block = ''minimal_guardrail_block''"
| "defaultReasonCode Guardrail_throttle = ''minimal_guardrail_throttle''"
| "defaultReasonCode Guardrail_action_required = ''minimal_guardrail_action_required''"

definition createGuardrailFailure ::
    "port_failure_category \<Rightarrow> string \<Rightarrow> string \<Rightarrow> bool \<Rightarrow> identity \<Rightarrow> string \<Rightarrow>
     (string \<times> safe_port_value) list \<Rightarrow> port_failure" where
  "createGuardrailFailure category code message retryable decisionId evaluatedIntentRef details =
     createApplicationPortFailure
       \<lparr>pf_category = category, pf_code = code, pf_message = message, pf_retryable = retryable,
        pf_ownerContext = Some Owner_guardrails, pf_failureCategory = Some Fail_security,
        pf_safeMetadata = Some
          ([(''guardrailDecisionId'', Port_string decisionId),
            (''evaluatedIntentRef'', Port_string evaluatedIntentRef)] @ details)\<rparr>"

definition createGuardrailNotPassingFailure :: "guardrail_decision \<Rightarrow> string \<Rightarrow> port_failure" where
  "createGuardrailNotPassingFailure decision evaluatedIntentRef =
     createGuardrailFailure Port_rejected ''message_guardrail_not_passing''
       ''Guardrail decision must allow the outbound message before acceptance.'' False
       (gd_id decision) evaluatedIntentRef
       [(''status'', Port_string (guardrail_decision_status_name (gd_status decision))),
        (''outcome'', Port_string
           (case gd_outcome decision of None \<Rightarrow> ''unknown'' | Some oc \<Rightarrow> guardrail_outcome_name oc))]"

text \<open>\<open>isSpecificationPass(isGuardrailDecisionPassing(decision, ref))\<close>.\<close>

definition decision_allows :: "guardrail_decision \<Rightarrow> string \<Rightarrow> bool result" where
  "decision_allows decision evaluatedIntentRef =
     result_map isSpecificationPass
       (isGuardrailDecisionPassing (Some decision) (Some evaluatedIntentRef))"

definition guardrail_unavailable :: "identity \<Rightarrow> string \<Rightarrow> port_failure" where
  "guardrail_unavailable decisionId evaluatedIntentRef =
     createGuardrailFailure Port_unavailable ''minimal_guardrail_dependency_failure''
       ''Guardrail decision repository is unavailable.'' True decisionId evaluatedIntentRef []"

definition decision_for ::
    "guardrail_input \<Rightarrow> guardrail_decision option \<Rightarrow> guardrail_decision result" where
  "decision_for input existing =
     (let outcome = value_or (gi_outcome input) Guardrail_allow
      in case existing of
           Some d \<Rightarrow> Inr d
         | None \<Rightarrow> createGuardrailDecisionAggregate (gi_guardrailDecisionId input)
             (gi_outboundIntentRef input) outcome
             (value_or (gi_reasonCode input) (defaultReasonCode outcome)))"

definition createDecision ::
    "'w app_ports \<Rightarrow> guardrail_input \<Rightarrow> port_context \<Rightarrow> ('w, guardrail_decision port_result) prog" where
  "createDecision P input context =
     (let ref = gi_outboundIntentRef input in
      prog_bind
        (prog_catch
           (prog_bind (po_findByEvaluatedIntent P ref) (\<lambda>existing. prog_return (Inr existing)))
           (\<lambda>_. prog_return (Inl (guardrail_unavailable (gi_guardrailDecisionId input) ref))))
        (\<lambda>found. case found of
           Inl failure \<Rightarrow> prog_return (Inl failure)
         | Inr existing \<Rightarrow>
             (case decision_for input existing of
                Inl _ \<Rightarrow> prog_return (Inl (createGuardrailFailure Port_rejected
                  ''minimal_guardrail_decision_rejected'' ''Guardrail decision input was rejected.''
                  False (gi_guardrailDecisionId input) ref []))
              | Inr decision \<Rightarrow>
                  prog_bind
                    (prog_catch
                       (prog_bind (po_decisions_save P decision) (\<lambda>_. prog_return (Inr decision)))
                       (\<lambda>_. prog_return (Inl (guardrail_unavailable (gd_id decision) ref))))
                    (\<lambda>saved. case saved of
                       Inl failure \<Rightarrow> prog_return (Inl failure)
                     | Inr d \<Rightarrow>
                         prog_bind (prog_lift (decision_allows d ref)) (\<lambda>passes.
                         prog_return (if passes then Inr d
                           else Inl (createGuardrailNotPassingFailure d ref)))))))"

definition acceptMessageAfterGuardrailPass ::
    "message \<Rightarrow> guardrail_decision \<Rightarrow> string \<Rightarrow> message port_result result" where
  "acceptMessageAfterGuardrailPass m decision outboundIntentRef =
     result_map
       (\<lambda>passes.
          if \<not> passes then Inl (createGuardrailNotPassingFailure decision outboundIntentRef)
          else (case acceptMessage m (gd_id decision) of
                  Inr accepted \<Rightarrow> Inr accepted
                | Inl _ \<Rightarrow> Inl (createGuardrailFailure Port_rejected ''message_guardrail_accept_rejected''
                    ''Message could not be accepted after guardrail validation.'' False
                    (gd_id decision) outboundIntentRef [])))
       (decision_allows decision outboundIntentRef)"

lemma decision_allows_eq [simp]:
  "decision_allows d ref = Inr (guardrail_passing (Some d) (Some ref))"
  by (simp add: decision_allows_def isGuardrailDecisionPassing_eq isSpecificationPass_def
      domain_failure_def)

end
