(* ===== verification/MessageHandlers.thy ===== *)
theory MessageHandlers
  imports MessageServices
begin

text \<open>
  The command handlers of outbound messages, \<open>packages/application/src/services/handlers\<close>:
  \<open>send-text-message\<close>, \<open>retry-message-send\<close>, \<open>cancel-message\<close> and
  \<open>process-outbound-message-work\<close>.  A handler is a program: an exception no \<open>catch\<close> meets rejects
  the promise.  A port may change the whole state, so a port that runs other handlers meanwhile
  stands for what happens during its \<open>await\<close>.
\<close>

section \<open>What the handlers share\<close>

definition failed_outcome ::
    "command_envelope \<Rightarrow> bool \<Rightarrow> string option \<Rightarrow> string \<Rightarrow> command_outcome" where
  "failed_outcome envelope retryable resultRef reasonCode =
     commandOutcome envelope Outcome_failed False retryable resultRef (Some reasonCode)"

text \<open>The outcome that passes the failure of a port on.\<close>

definition passed_on ::
    "command_envelope \<Rightarrow> command_outcome_name \<Rightarrow> port_failure \<Rightarrow> string option \<Rightarrow> command_outcome" where
  "passed_on envelope outcome failure resultRef =
     commandOutcome envelope outcome False (pf_retryable failure) resultRef (Some (pf_code failure))"

definition fresh_identity :: "'w app_ports \<Rightarrow> string \<Rightarrow> string \<Rightarrow> ('w, identity) prog" where
  "fresh_identity P prefix label =
     prog_bind (po_uuid P) (\<lambda>uuid. prog_lift (createDomainIdentity (prefix @ uuid) label))"

definition saveFailedMessage :: "'w app_ports \<Rightarrow> message \<Rightarrow> ('w, unit) prog" where
  "saveFailedMessage P m =
     prog_catch (prog_bind (prog_lift (failMessage m Fail_queue)) (po_messages_save P))
       (\<lambda>_. prog_return ())"

definition save_under_key :: "'w app_ports \<Rightarrow> string \<Rightarrow> message \<Rightarrow> ('w, bool) prog" where
  "save_under_key P key m =
     prog_catch
       (prog_bind (po_messages_save P m) (\<lambda>_.
        prog_bind (po_recordIdempotencyKey P key (msg_id m)) (\<lambda>_. prog_return True)))
       (\<lambda>_. prog_return False)"

definition outbound_work ::
    "identity \<Rightarrow> retry_policy \<Rightarrow> string \<Rightarrow> string \<Rightarrow> message \<Rightarrow> queue_work" where
  "outbound_work jobId policy key ref m =
     \<lparr>qw_jobId = jobId, qw_ownerContext = Owner_messaging, qw_ownerRef = msg_id m,
      qw_workType = Work_outbound_message, qw_retryPolicy = policy, qw_idempotencyKey = key,
      qw_safeInputRef = Some ref,
      qw_safeMetadata = Some \<lparr>sm_jobKind = ''outbound_message'', sm_instanceId = Some (msg_instanceId m),
        sm_messageId = Some (msg_id m), sm_outboundIntentRef = Some ref\<rparr>\<rparr>"

definition outbound_retry_policy :: "retry_policy result" where
  "outbound_retry_policy = createRetryPolicy (num_of 3) (num_of 1000) (num_of 2)"

definition enqueue_message ::
    "'w app_ports \<Rightarrow> port_context \<Rightarrow> string \<Rightarrow> string \<Rightarrow> message \<Rightarrow> ('w, receipt port_result) prog" where
  "enqueue_message P context key ref m =
     prog_bind (fresh_identity P ''job:'' ''JobId'') (\<lambda>jobId.
     prog_bind (prog_lift outbound_retry_policy) (\<lambda>policy.
     po_enqueue P (outbound_work jobId policy key ref m) context))"

text \<open>
  The second half of sending and of retrying: bind the intent, enqueue the job, accept the
  message, queue and save it, publish its events.
\<close>

definition give_up ::
    "'w app_ports \<Rightarrow> command_envelope \<Rightarrow> message \<Rightarrow> command_outcome_name \<Rightarrow> port_failure \<Rightarrow>
     ('w, command_outcome) prog" where
  "give_up P envelope m outcome failure =
     prog_bind (saveFailedMessage P m) (\<lambda>_.
     prog_return (passed_on envelope outcome failure (Some (msg_id m))))"

definition save_queued ::
    "'w app_ports \<Rightarrow> command_envelope \<Rightarrow> (message \<Rightarrow> ('w, unit port_result) prog) \<Rightarrow> message \<Rightarrow>
     ('w, command_outcome) prog" where
  "save_queued P envelope publish accepted =
     prog_bind (prog_lift (queueMessage accepted)) (\<lambda>queued.
     prog_bind (po_messages_save P queued) (\<lambda>_.
     prog_bind (publish queued) (\<lambda>publishResult.
     prog_return
       (case publishResult of
          Inl failure \<Rightarrow> commandOutcome envelope Outcome_failed True (pf_retryable failure)
            (Some (msg_id queued)) (Some (pf_code failure))
        | Inr _ \<Rightarrow> commandOutcome envelope Outcome_queued True False (Some (msg_id queued)) None))))"

definition accept_and_queue ::
    "'w app_ports \<Rightarrow> command_envelope \<Rightarrow> message \<Rightarrow> guardrail_decision \<Rightarrow> string \<Rightarrow>
     (message \<Rightarrow> ('w, unit port_result) prog) \<Rightarrow> ('w, command_outcome) prog" where
  "accept_and_queue P envelope m decision ref publish =
     prog_bind (prog_lift (acceptMessageAfterGuardrailPass m decision ref)) (\<lambda>accepted.
     case accepted of
       Inl failure \<Rightarrow> give_up P envelope m Outcome_rejected failure
     | Inr m' \<Rightarrow> save_queued P envelope publish m')"

definition queue_new_message ::
    "'w app_ports \<Rightarrow> command_envelope \<Rightarrow> message \<Rightarrow> guardrail_decision \<Rightarrow> string \<Rightarrow> string \<Rightarrow>
     (message \<Rightarrow> ('w, unit port_result) prog) \<Rightarrow> ('w, command_outcome) prog" where
  "queue_new_message P envelope m decision ref key publish =
     prog_bind (po_bindMessageIntent P ref (msg_id m) (commandContext envelope)) (\<lambda>bindResult.
     case bindResult of
       Inl failure \<Rightarrow> give_up P envelope m Outcome_failed failure
     | Inr _ \<Rightarrow>
     prog_bind (enqueue_message P (commandContext envelope) key ref m) (\<lambda>queueResult.
     case queueResult of
       Inl failure \<Rightarrow> give_up P envelope m Outcome_failed failure
     | Inr _ \<Rightarrow> accept_and_queue P envelope m decision ref publish))"

definition new_message :: "identity \<Rightarrow> identity \<Rightarrow> message_type \<Rightarrow> message" where
  "new_message i instanceId t =
     createOutboundMessageIntent
       \<lparr>mi_id = i, mi_instanceId = instanceId, mi_type = t, mi_mediaId = None,
        mi_retentionPolicy = None\<rparr>"

definition save_and_queue ::
    "'w app_ports \<Rightarrow> command_envelope \<Rightarrow> string \<Rightarrow> identity \<Rightarrow> message_type \<Rightarrow> string \<Rightarrow> string \<Rightarrow>
     string \<Rightarrow> (message \<Rightarrow> ('w, unit port_result) prog) \<Rightarrow> guardrail_decision \<Rightarrow>
     ('w, command_outcome) prog" where
  "save_and_queue P envelope ref instanceId t key workKey saveFailedCode publish decision =
     prog_bind (fresh_identity P ''msg:'' ''MessageId'') (\<lambda>messageId.
     let m = new_message messageId instanceId t in
     prog_bind (save_under_key P key m) (\<lambda>saved.
     if \<not> saved then prog_return (failed_outcome envelope True None saveFailedCode)
     else queue_new_message P envelope m decision ref workKey publish))"

definition decide_and_queue ::
    "'w app_ports \<Rightarrow> command_envelope \<Rightarrow> string \<Rightarrow> identity \<Rightarrow> message_type \<Rightarrow> string \<Rightarrow> string \<Rightarrow>
     string \<Rightarrow> string option \<Rightarrow> (guardrail_decision \<Rightarrow> message \<Rightarrow> ('w, unit port_result) prog) \<Rightarrow>
     ('w, command_outcome) prog" where
  "decide_and_queue P envelope ref instanceId t key workKey saveFailedCode refusedRef publish =
     prog_bind (fresh_identity P ''guardrail:'' ''GuardrailDecisionId'') (\<lambda>decisionId.
     prog_bind (createDecision P
       \<lparr>gi_guardrailDecisionId = decisionId, gi_outboundIntentRef = ref, gi_outcome = None,
        gi_reasonCode = None\<rparr> (commandContext envelope)) (\<lambda>guardrailResult.
     case guardrailResult of
       Inl failure \<Rightarrow> prog_return (passed_on envelope Outcome_rejected failure refusedRef)
     | Inr decision \<Rightarrow> save_and_queue P envelope ref instanceId t key workKey saveFailedCode
         (publish decision) decision))"

definition published :: "('w, 'a port_result) prog \<Rightarrow> ('w, unit port_result) prog" where
  "published m = prog_bind m (\<lambda>result. prog_return (result_map (\<lambda>_. ()) result))"

definition publish_message_events ::
    "'w app_ports \<Rightarrow> command_envelope \<Rightarrow> domain_event list \<Rightarrow> nat \<Rightarrow> string \<Rightarrow> ('w, unit port_result) prog" where
  "publish_message_events P envelope events baseEventCount suffix =
     published (po_publishNewEvents P
       \<lparr>pi_aggregateEvents = events, pi_baseEventCount = num_of (int baseEventCount),
        pi_executionRef = ce_commandRef envelope @ suffix, pi_context = commandContext envelope\<rparr>)"

section \<open>send-text-message.handler.ts\<close>

record send_text_input =
  sti_instanceId :: identity
  sti_idempotencyKey :: string
  sti_outboundIntentRef :: string

definition resolveInput_send :: "command_envelope \<Rightarrow> string + send_text_input" where
  "resolveInput_send envelope =
     (if ce_name envelope \<noteq> Cmd_SendTextMessage then Inl ''send_text_message_wrong_command''
      else case ce_targetRef envelope of
        None \<Rightarrow> Inl ''send_text_message_instance_required''
      | Some target \<Rightarrow>
          (case ce_safeInputRef envelope of
             None \<Rightarrow> Inl ''send_text_message_input_ref_required''
           | Some inputRef \<Rightarrow>
               (case ce_idempotencyKey envelope of
                  None \<Rightarrow> Inl ''send_text_message_idempotency_required''
                | Some key \<Rightarrow>
                    (case result_bind (createDomainIdentity target ''InstanceId'') (\<lambda>i.
                            result_bind (createIdempotencyKey key) (\<lambda>k.
                            result_map (\<lambda>r. \<lparr>sti_instanceId = i, sti_idempotencyKey = k,
                                             sti_outboundIntentRef = r\<rparr>)
                              (createOutboundMessageIntentRef inputRef))) of
                       Inl _ \<Rightarrow> Inl ''send_text_message_input_invalid''
                     | Inr input \<Rightarrow> Inr input))))"

definition outcomeForExistingMessage :: "command_envelope \<Rightarrow> message \<Rightarrow> command_outcome" where
  "outcomeForExistingMessage envelope m =
     (if msg_status m \<in> {Msg_queued, Msg_processing, Msg_sent, Msg_delivered, Msg_read}
      then commandOutcome envelope Outcome_queued True False (Some (msg_id m)) None
      else if msg_status m = Msg_evaluated
      then commandOutcome envelope Outcome_accepted True False (Some (msg_id m)) None
      else commandOutcome envelope (if msg_status m = Msg_created then Outcome_waiting else Outcome_failed)
             False (msg_status m = Msg_created) (Some (msg_id m))
             (Some (if msg_status m = Msg_created then ''send_text_message_previously_started''
                    else ''send_text_message_previously_failed'')))"

definition publishDomainEvents_send ::
    "'w app_ports \<Rightarrow> command_envelope \<Rightarrow> guardrail_decision \<Rightarrow> message \<Rightarrow> ('w, unit port_result) prog" where
  "publishDomainEvents_send P envelope decision m =
     prog_bind (publish_message_events P envelope (gd_domainEvents decision) 0 '':guardrail'')
       (\<lambda>guardrailPublish. case guardrailPublish of
          Inl failure \<Rightarrow> prog_return (Inl failure)
        | Inr _ \<Rightarrow> publish_message_events P envelope (msg_domainEvents m) 0 '':message'')"

text \<open>A key that no message is recorded for.\<close>

definition send_new_text ::
    "'w app_ports \<Rightarrow> command_envelope \<Rightarrow> send_text_input \<Rightarrow> ('w, command_outcome) prog" where
  "send_new_text P envelope input =
     (let context = commandContext envelope; ref = sti_outboundIntentRef input in
      prog_bind (resolveActiveSession P (sti_instanceId input) context) (\<lambda>sessionResult.
      case sessionResult of
        Inl failure \<Rightarrow> prog_return (passed_on envelope Outcome_failed failure None)
      | Inr resolution \<Rightarrow>
      prog_bind (po_resolveTextIntent P ref context) (\<lambda>intentResult.
      case intentResult of
        Inl failure \<Rightarrow> prog_return (passed_on envelope Outcome_failed failure None)
      | Inr _ \<Rightarrow>
      decide_and_queue P envelope ref (inst_id (sr_instance resolution)) Type_text
        (sti_idempotencyKey input) (''send_text:'' @ sti_idempotencyKey input)
        ''send_text_message_save_failed'' None (publishDomainEvents_send P envelope))))"

definition handle_send_text :: "'w app_ports \<Rightarrow> command_envelope \<Rightarrow> ('w, command_outcome) prog" where
  "handle_send_text P envelope =
     (case resolveInput_send envelope of
        Inl reasonCode \<Rightarrow> prog_return (failed_outcome envelope False None reasonCode)
      | Inr input \<Rightarrow>
      prog_bind (po_findByIdempotencyKey P (sti_idempotencyKey input)) (\<lambda>existing.
      case existing of
        Some m \<Rightarrow> prog_return (outcomeForExistingMessage envelope m)
      | None \<Rightarrow> send_new_text P envelope input))"

section \<open>retry-message-send.handler.ts\<close>

record message_command_input =
  mci_messageId :: identity
  mci_idempotencyKey :: string

text \<open>The retry and the cancel handler read their input alike.\<close>

definition resolve_message_input ::
    "command_name \<Rightarrow> string \<Rightarrow> command_envelope \<Rightarrow> string + message_command_input" where
  "resolve_message_input name prefix envelope =
     (if ce_name envelope \<noteq> name then Inl (prefix @ ''_wrong_command'')
      else case ce_targetRef envelope of
        None \<Rightarrow> Inl (prefix @ ''_target_required'')
      | Some target \<Rightarrow>
          (case ce_idempotencyKey envelope of
             None \<Rightarrow> Inl (prefix @ ''_idempotency_required'')
           | Some key \<Rightarrow>
               (case result_bind (createDomainIdentity target ''MessageId'') (\<lambda>i.
                       result_map (\<lambda>k. \<lparr>mci_messageId = i, mci_idempotencyKey = k\<rparr>)
                         (createIdempotencyKey (prefix @ '':'' @ key))) of
                  Inl _ \<Rightarrow> Inl (prefix @ ''_input_invalid'')
                | Inr input \<Rightarrow> Inr input)))"

definition resolveInput_retry :: "command_envelope \<Rightarrow> string + message_command_input" where
  "resolveInput_retry = resolve_message_input Cmd_RetryMessageSend ''retry_message''"

definition isRetryableOriginalMessage :: "message \<Rightarrow> bool" where
  "isRetryableOriginalMessage m \<longleftrightarrow>
     msg_direction m = Dir_outbound \<and> msg_type m = Type_text \<and> msg_status m = Msg_failed \<and>
     msg_guardrailDecisionId m \<noteq> None"

definition outcomeForExistingRetryMessage :: "command_envelope \<Rightarrow> message \<Rightarrow> command_outcome" where
  "outcomeForExistingRetryMessage envelope m =
     (if msg_status m \<in> {Msg_sent, Msg_delivered, Msg_read}
      then commandOutcome envelope Outcome_completed True False (Some (msg_id m)) None
      else if msg_status m \<in> {Msg_queued, Msg_processing}
      then commandOutcome envelope Outcome_queued True False (Some (msg_id m)) None
      else if msg_status m = Msg_evaluated
      then commandOutcome envelope Outcome_accepted True False (Some (msg_id m)) None
      else commandOutcome envelope (if msg_status m = Msg_created then Outcome_waiting else Outcome_failed)
             False (msg_status m = Msg_created) (Some (msg_id m))
             (Some (if msg_status m = Msg_created then ''retry_message_previously_started''
                    else ''retry_message_previously_failed'')))"

text \<open>The original message is loaded.\<close>

definition retry_original ::
    "'w app_ports \<Rightarrow> command_envelope \<Rightarrow> string \<Rightarrow> message \<Rightarrow> ('w, command_outcome) prog" where
  "retry_original P envelope key original =
     (let context = commandContext envelope in
      if \<not> isRetryableOriginalMessage original
      then prog_return (commandOutcome envelope Outcome_rejected False False (Some (msg_id original))
             (Some ''retry_message_not_allowed''))
      else
      prog_bind (resolveActiveSession P (msg_instanceId original) context) (\<lambda>sessionResult.
      case sessionResult of
        Inl failure \<Rightarrow> prog_return (passed_on envelope Outcome_failed failure (Some (msg_id original)))
      | Inr resolution \<Rightarrow>
      prog_bind (po_findTextIntentByMessage P (msg_id original) context) (\<lambda>intentResult.
      case intentResult of
        Inl failure \<Rightarrow> prog_return (passed_on envelope Outcome_failed failure (Some (msg_id original)))
      | Inr intent \<Rightarrow>
      decide_and_queue P envelope (ir_outboundIntentRef intent) (inst_id (sr_instance resolution))
        (msg_type original) key key ''retry_message_save_failed'' (Some (msg_id original))
        (\<lambda>_ queued. publish_message_events P envelope (msg_domainEvents queued) 0 '':retry-message''))))"

definition handle_retry_message :: "'w app_ports \<Rightarrow> command_envelope \<Rightarrow> ('w, command_outcome) prog" where
  "handle_retry_message P envelope =
     (case resolveInput_retry envelope of
        Inl reasonCode \<Rightarrow> prog_return (failed_outcome envelope False None reasonCode)
      | Inr input \<Rightarrow>
      prog_bind (po_findByIdempotencyKey P (mci_idempotencyKey input)) (\<lambda>existing.
      case existing of
        Some m \<Rightarrow> prog_return (outcomeForExistingRetryMessage envelope m)
      | None \<Rightarrow>
      prog_bind (po_messages_load P (mci_messageId input)) (\<lambda>loaded.
      case loaded of
        None \<Rightarrow> prog_return (failed_outcome envelope False None ''retry_message_not_found'')
      | Some original \<Rightarrow> retry_original P envelope (mci_idempotencyKey input) original)))"

section \<open>cancel-message.handler.ts\<close>

definition resolveInput_cancel :: "command_envelope \<Rightarrow> string + message_command_input" where
  "resolveInput_cancel = resolve_message_input Cmd_CancelMessage ''cancel_message''"

definition isCancellableMessage :: "message \<Rightarrow> bool" where
  "isCancellableMessage m \<longleftrightarrow>
     msg_direction m = Dir_outbound \<and>
     msg_status m \<in> {Msg_created, Msg_evaluated, Msg_queued, Msg_processing}"

definition outcomeForCancelledMessage :: "command_envelope \<Rightarrow> message \<Rightarrow> command_outcome" where
  "outcomeForCancelledMessage envelope m =
     commandOutcome envelope Outcome_accepted True False (Some (msg_id m)) None"

definition save_cancelled ::
    "'w app_ports \<Rightarrow> string \<Rightarrow> message \<Rightarrow> ('w, message option) prog" where
  "save_cancelled P key m =
     prog_catch
       (prog_bind (prog_lift (cancelMessage m)) (\<lambda>cancelled.
        prog_bind (po_messages_save P cancelled) (\<lambda>_.
        prog_bind (po_recordIdempotencyKey P key (msg_id cancelled)) (\<lambda>_.
        prog_return (Some cancelled)))))
       (\<lambda>_. prog_return None)"

text \<open>The message is loaded.\<close>

definition cancel_loaded ::
    "'w app_ports \<Rightarrow> command_envelope \<Rightarrow> string \<Rightarrow> message \<Rightarrow> ('w, command_outcome) prog" where
  "cancel_loaded P envelope key m =
     (if msg_status m = Msg_cancelled
      then prog_bind (po_recordIdempotencyKey P key (msg_id m)) (\<lambda>_.
           prog_return (outcomeForCancelledMessage envelope m))
      else if \<not> isCancellableMessage m
      then prog_return (commandOutcome envelope Outcome_rejected False False (Some (msg_id m))
             (Some ''cancel_message_not_allowed''))
      else
      prog_bind (save_cancelled P key m) (\<lambda>saved.
      case saved of
        None \<Rightarrow> prog_return (failed_outcome envelope True (Some (msg_id m)) ''cancel_message_save_failed'')
      | Some cancelled \<Rightarrow>
      prog_bind (publish_message_events P envelope (msg_domainEvents cancelled)
        (length (msg_domainEvents m)) '':cancel-message'') (\<lambda>publishResult.
      prog_return
        (case publishResult of
           Inl failure \<Rightarrow> commandOutcome envelope Outcome_failed True (pf_retryable failure)
             (Some (msg_id cancelled)) (Some (pf_code failure))
         | Inr _ \<Rightarrow> outcomeForCancelledMessage envelope cancelled))))"

definition handle_cancel_message :: "'w app_ports \<Rightarrow> command_envelope \<Rightarrow> ('w, command_outcome) prog" where
  "handle_cancel_message P envelope =
     (case resolveInput_cancel envelope of
        Inl reasonCode \<Rightarrow> prog_return (failed_outcome envelope False None reasonCode)
      | Inr input \<Rightarrow>
      prog_bind (po_findByIdempotencyKey P (mci_idempotencyKey input)) (\<lambda>existing.
      case existing of
        Some m \<Rightarrow> prog_return (outcomeForCancelledMessage envelope m)
      | None \<Rightarrow>
      prog_bind (po_messages_load P (mci_messageId input)) (\<lambda>loaded.
      case loaded of
        None \<Rightarrow> prog_return (failed_outcome envelope False None ''cancel_message_not_found'')
      | Some m \<Rightarrow> cancel_loaded P envelope (mci_idempotencyKey input) m)))"

section \<open>process-outbound-message-work.handler.ts\<close>

record process_input =
  poi_messageId :: identity
  poi_outboundIntentRef :: string

definition resolveInput_process :: "command_envelope \<Rightarrow> string + process_input" where
  "resolveInput_process envelope =
     (if ce_name envelope \<noteq> Cmd_ProcessOutboundMessageWork
      then Inl ''process_outbound_message_wrong_command''
      else case ce_targetRef envelope of
        None \<Rightarrow> Inl ''process_outbound_message_target_required''
      | Some target \<Rightarrow>
          (case ce_safeInputRef envelope of
             None \<Rightarrow> Inl ''process_outbound_message_intent_ref_required''
           | Some inputRef \<Rightarrow>
               if ce_idempotencyKey envelope = None
               then Inl ''process_outbound_message_idempotency_required''
               else (case result_bind (createDomainIdentity target ''MessageId'') (\<lambda>i.
                            result_map (\<lambda>r. \<lparr>poi_messageId = i, poi_outboundIntentRef = r\<rparr>)
                              (createOutboundMessageIntentRef inputRef)) of
                       Inl _ \<Rightarrow> Inl ''process_outbound_message_input_invalid''
                     | Inr input \<Rightarrow> Inr input)))"

definition publishMessageEvents ::
    "'w app_ports \<Rightarrow> command_envelope \<Rightarrow> message \<Rightarrow> nat \<Rightarrow> string \<Rightarrow> ('w, unit port_result) prog" where
  "publishMessageEvents P envelope m baseEventCount phase =
     publish_message_events P envelope (msg_domainEvents m) baseEventCount ('':message:'' @ phase)"

text \<open>The failure of \<open>ensureProcessing\<close> is whether to retry and the reason.\<close>

definition ensureProcessing ::
    "'w app_ports \<Rightarrow> command_envelope \<Rightarrow> message \<Rightarrow> ('w, (bool \<times> string) + message) prog" where
  "ensureProcessing P envelope m =
     (if msg_status m = Msg_processing then prog_return (Inr m)
      else
        prog_catch
          (prog_bind (prog_lift (markMessageProcessing m)) (\<lambda>processing.
           prog_bind (po_messages_save P processing) (\<lambda>_.
           prog_bind (publishMessageEvents P envelope processing (length (msg_domainEvents m))
             ''processing'') (\<lambda>publishResult.
           prog_return
             (case publishResult of
                Inl failure \<Rightarrow> Inl (pf_retryable failure, pf_code failure)
              | Inr _ \<Rightarrow> Inr processing)))))
          (\<lambda>_. prog_return (Inl (True, ''outbound_message_processing_failed''))))"

definition saveFailedMessage_process ::
    "'w app_ports \<Rightarrow> command_envelope \<Rightarrow> message \<Rightarrow> failure_category \<Rightarrow> ('w, unit) prog" where
  "saveFailedMessage_process P envelope m category =
     prog_catch
       (prog_bind (prog_lift (failMessage m category)) (\<lambda>failed.
        prog_bind (po_messages_save P failed) (\<lambda>_.
        prog_bind (publishMessageEvents P envelope failed (length (msg_domainEvents m)) ''failed'') (\<lambda>_.
        prog_return ()))))
       (\<lambda>_. prog_return ())"

definition fail_unless_retryable ::
    "'w app_ports \<Rightarrow> command_envelope \<Rightarrow> message \<Rightarrow> failure_category \<Rightarrow> port_failure \<Rightarrow>
     ('w, command_outcome) prog" where
  "fail_unless_retryable P envelope m category failure =
     prog_bind (if pf_retryable failure then prog_return ()
                else saveFailedMessage_process P envelope m category) (\<lambda>_.
     prog_return (passed_on envelope Outcome_failed failure (Some (msg_id m))))"

definition send_request ::
    "'w app_ports \<Rightarrow> command_envelope \<Rightarrow> session_resolution \<Rightarrow> message \<Rightarrow> string \<Rightarrow> provider_request" where
  "send_request P envelope resolution m ref =
     \<lparr>prq_instanceId = msg_instanceId m, prq_providerId = po_providerId P,
      prq_sessionId = sr_sessionId resolution, prq_messageId = msg_id m,
      prq_messageType = msg_type m, prq_outboundIntentRef = ref, prq_mediaId = None,
      prq_idempotencyKey = value_or (ce_idempotencyKey envelope) (ce_commandRef envelope)\<rparr>"

text \<open>What follows the answer of the provider.\<close>

definition after_provider ::
    "'w app_ports \<Rightarrow> command_envelope \<Rightarrow> message \<Rightarrow> provider_result port_result \<Rightarrow>
     ('w, command_outcome) prog" where
  "after_provider P envelope m providerResult =
     (case providerResult of
        Inl failure \<Rightarrow>
          fail_unless_retryable P envelope m (value_or (pf_failureCategory failure) Fail_provider) failure
      | Inr answer \<Rightarrow>
          if prs_status answer = Send_accepted
          then
            prog_bind (prog_lift (markMessageSent m)) (\<lambda>sent.
            prog_bind (po_messages_save P sent) (\<lambda>_.
            prog_bind (publishMessageEvents P envelope sent (length (msg_domainEvents m)) ''sent'') (\<lambda>_.
            prog_return (commandOutcome envelope Outcome_completed True False (Some (msg_id sent)) None))))
          else if prs_retryable answer
          then prog_return (failed_outcome envelope True (Some (msg_id m)) ''provider_send_retryable_failure'')
          else
            prog_bind (saveFailedMessage_process P envelope m
              (value_or (prs_failureCategory answer) Fail_provider)) (\<lambda>_.
            prog_return (failed_outcome envelope False (Some (msg_id m))
              (if prs_status answer = Send_rejected then ''provider_send_rejected''
               else ''provider_send_unknown_terminal''))))"

text \<open>The message is queued, or processing after an earlier attempt.\<close>

definition process_queued ::
    "'w app_ports \<Rightarrow> command_envelope \<Rightarrow> string \<Rightarrow> message \<Rightarrow> ('w, command_outcome) prog" where
  "process_queued P envelope ref m =
     (let context = commandContext envelope in
      prog_bind (resolveActiveSession P (msg_instanceId m) context) (\<lambda>sessionResult.
      case sessionResult of
        Inl failure \<Rightarrow> fail_unless_retryable P envelope m Fail_session failure
      | Inr resolution \<Rightarrow>
      prog_bind (po_verifyTextIntent P ref context) (\<lambda>intentResult.
      case intentResult of
        Inl failure \<Rightarrow> fail_unless_retryable P envelope m Fail_business failure
      | Inr _ \<Rightarrow>
      prog_bind (ensureProcessing P envelope m) (\<lambda>processingResult.
      case processingResult of
        Inl (retryable, reasonCode) \<Rightarrow>
          prog_return (failed_outcome envelope retryable (Some (msg_id m)) reasonCode)
      | Inr processing \<Rightarrow>
      prog_bind (po_sendOutboundMessage P (send_request P envelope resolution processing ref) context)
        (after_provider P envelope processing)))))"

definition handle_process_outbound :: "'w app_ports \<Rightarrow> command_envelope \<Rightarrow> ('w, command_outcome) prog" where
  "handle_process_outbound P envelope =
     (case resolveInput_process envelope of
        Inl reasonCode \<Rightarrow> prog_return (failed_outcome envelope False None reasonCode)
      | Inr input \<Rightarrow>
      prog_bind (po_messages_load P (poi_messageId input)) (\<lambda>loaded.
      case loaded of
        None \<Rightarrow> prog_return (failed_outcome envelope False None ''outbound_message_not_found'')
      | Some m \<Rightarrow>
          if msg_status m \<in> {Msg_sent, Msg_delivered, Msg_read}
          then prog_return (commandOutcome envelope Outcome_completed True False (Some (msg_id m)) None)
          else if msg_status m = Msg_failed \<or> msg_status m = Msg_cancelled
          then prog_return (failed_outcome envelope False (Some (msg_id m))
                 ''outbound_message_not_dispatchable'')
          else if msg_status m = Msg_created \<or> msg_status m = Msg_evaluated
          then prog_return (commandOutcome envelope Outcome_waiting False True (Some (msg_id m))
                 (Some ''outbound_message_not_queued''))
          else process_queued P envelope (poi_outboundIntentRef input) m))"

end
