(* ===== verification/MessageHandlersLaws.thy ===== *)
theory MessageHandlersLaws
  imports MessageHandlers
begin

text \<open>
  What the message handlers keep, over ports that keep their laws.  The laws are stated on three
  observations of the state behind the ports: the stored messages, the recorded idempotency keys
  and the stored guardrail decisions.  Programs are reasoned about with weakest preconditions.
\<close>

section \<open>Weakest preconditions\<close>

definition wp ::
    "('w, 'a) prog \<Rightarrow> ('a \<Rightarrow> 'w \<Rightarrow> bool) \<Rightarrow> (string \<Rightarrow> 'w \<Rightarrow> bool) \<Rightarrow> 'w \<Rightarrow> bool" where
  "wp m Q E w = (case m w of (Inr x, w') \<Rightarrow> Q x w' | (Inl c, w') \<Rightarrow> E c w')"

lemma wp_return [simp]: "wp (prog_return x) Q E w = Q x w"
  and wp_throw [simp]: "wp (prog_throw c) Q' E w = E c w"
  by (simp_all add: wp_def)

lemma wp_return_fun: "wp (prog_return x) Q E = Q x"
  by (rule ext) simp

lemma wp_bind [simp]: "wp (prog_bind m f) Q E w = wp m (\<lambda>x. wp (f x) Q E) E w"
  by (simp add: wp_def prog_bind_def split: prod.split sum.split)

lemma wp_catch [simp]: "wp (prog_catch m h) Q E w = wp m Q (\<lambda>c. wp (h c) Q E) w"
  by (simp add: wp_def prog_catch_def split: prod.split sum.split)

lemma wp_lift [simp]:
  "wp (prog_lift r) Q E w = (case r of Inl _ \<Rightarrow> E ''TypeError'' w | Inr x \<Rightarrow> Q x w)"
  by (simp add: wp_def split: sum.split)

lemma wp_call [simp]: "wp (prog_call f) Q E w = (case f w of (x, w') \<Rightarrow> Q x w')"
  by (simp add: wp_def prog_call_def split: prod.split)

lemma wp_if [simp]: "wp (if b then m else n) Q E w = (if b then wp m Q E w else wp n Q E w)"
  by simp

lemma wp_mono:
  assumes "wp m Q E w" "\<And>x w'. Q x w' \<Longrightarrow> Q' x w'" "\<And>c w'. E c w' \<Longrightarrow> E' c w'"
  shows "wp m Q' E' w"
  using assms by (auto simp: wp_def split: prod.splits sum.splits)

lemma wp_ok: "wp m Q E w \<Longrightarrow> m w = (Inr x, w') \<Longrightarrow> Q x w'"
  by (simp add: wp_def)

lemma wp_state: "wp m (\<lambda>_. I) (\<lambda>_. I) w \<Longrightarrow> I (snd (m w))"
  by (auto simp: wp_def split: prod.splits sum.splits)

section \<open>The laws of the ports\<close>

definition allowing :: "guardrail_decision \<Rightarrow> bool" where
  "allowing d \<longleftrightarrow> gd_status d = Guard_passed \<and> gd_outcome d = Some Guardrail_allow"

lemma allowing_iff: "guardrail_passing (Some d) None \<longleftrightarrow> allowing d"
  by (auto simp: guardrail_passing_def allowing_def)

lemma allowing_passing: "guardrail_passing (Some d) (Some ref) \<Longrightarrow> allowing d"
  by (auto simp: guardrail_passing_def allowing_def)

text \<open>A message may be handed to the provider when it is processing under an allowing decision.\<close>

definition cleared ::
    "(identity \<Rightarrow> message option) \<Rightarrow> (identity \<Rightarrow> guardrail_decision option) \<Rightarrow> identity \<Rightarrow> bool" where
  "cleared msgs decs i \<longleftrightarrow>
     (\<exists>m d. msgs i = Some m \<and> msg_id m = i \<and> msg_direction m = Dir_outbound \<and>
        msg_status m = Msg_processing \<and> msg_guardrailDecisionId m = Some (gd_id d) \<and>
        decs (gd_id d) = Some d \<and> allowing d)"

text \<open>What is observed, and that a step leaves it as it is.\<close>

locale observed =
  fixes msgs :: "'w \<Rightarrow> identity \<Rightarrow> message option"
    and keys :: "'w \<Rightarrow> string \<Rightarrow> identity option"
    and decs :: "'w \<Rightarrow> identity \<Rightarrow> guardrail_decision option"
    and fine :: "'w \<Rightarrow> bool"
begin

definition same :: "'w \<Rightarrow> 'w \<Rightarrow> bool" where
  "same w w' \<longleftrightarrow>
     msgs w' = msgs w \<and> keys w' = keys w \<and> decs w' = decs w \<and> (fine w \<longrightarrow> fine w')"

lemma same_refl [simp]: "same w w"
  by (simp add: same_def)

lemma same_trans [trans]: "same w w' \<Longrightarrow> same w' w'' \<Longrightarrow> same w w''"
  by (auto simp: same_def)

text \<open>An assertion on the observations survives such a step.\<close>

definition steady :: "('w \<Rightarrow> bool) \<Rightarrow> bool" where
  "steady A \<longleftrightarrow> (\<forall>w w'. same w w' \<longrightarrow> A w \<longrightarrow> A w')"

lemma steady_same: "steady A \<Longrightarrow> A w \<Longrightarrow> same w w' \<Longrightarrow> A w'"
  by (simp add: steady_def)

lemma steady_view [intro]: "steady (\<lambda>w. A (msgs w) (keys w) (decs w))"
  by (simp add: steady_def same_def)

lemma steady_conj [intro]: "steady A \<Longrightarrow> steady B \<Longrightarrow> steady (\<lambda>w. A w \<and> B w)"
  by (auto simp: steady_def)

text \<open>
  The invariant: every stored message is well formed, an accepted one has its allowing decision
  stored, and every recorded key leads to a stored message.  \<open>kept ks\<close> adds that the keys \<open>ks\<close>
  are still recorded.
\<close>

definition storable :: "(identity \<Rightarrow> guardrail_decision option) \<Rightarrow> message \<Rightarrow> bool" where
  "storable ds m \<longleftrightarrow> message_wf m \<and>
     (\<forall>g. msg_guardrailDecisionId m = Some g \<longrightarrow> (\<exists>d. ds g = Some d \<and> gd_id d = g \<and> allowing d))"

definition kept :: "(string \<Rightarrow> identity option) \<Rightarrow> 'w \<Rightarrow> bool" where
  "kept ks w \<longleftrightarrow> fine w \<and> (\<forall>i m. msgs w i = Some m \<longrightarrow> msg_id m = i \<and> storable (decs w) m) \<and>
     (\<forall>k i. keys w k = Some i \<longrightarrow> msgs w i \<noteq> None) \<and> ks \<subseteq>\<^sub>m keys w"

lemma steady_kept [intro]: "steady (kept ks)"
  by (simp add: steady_def kept_def same_def)

lemma kept_fine: "kept ks w \<Longrightarrow> fine w"
  by (simp add: kept_def)

lemma kept_less: "kept ks w \<Longrightarrow> ks' \<subseteq>\<^sub>m ks \<Longrightarrow> kept ks' w"
  by (auto simp: kept_def intro: map_le_trans)

lemma message_step_decision:
  "message_step c m = Inr m' \<Longrightarrow> msg_guardrailDecisionId m' = message_guardrail_after c m"
  by (simp add: message_step_ok_iff)

lemma storable_step: "storable ds m \<Longrightarrow> message_step c m = Inr m' \<Longrightarrow>
    (\<And>g. c = AcceptMessage g \<Longrightarrow> \<exists>d. ds g = Some d \<and> gd_id d = g \<and> allowing d) \<Longrightarrow> storable ds m'"
  using message_step_wf [of m c m'] message_step_decision [of c m m']
  by (cases c) (simp_all add: storable_def)

end

locale outbound_ports = observed msgs keys decs fine
  for msgs :: "'w \<Rightarrow> identity \<Rightarrow> message option"
    and keys :: "'w \<Rightarrow> string \<Rightarrow> identity option"
    and decs :: "'w \<Rightarrow> identity \<Rightarrow> guardrail_decision option"
    and fine :: "'w \<Rightarrow> bool" +
  fixes P :: "'w app_ports"
  assumes instances_load: "wp (po_instances_load P i) (\<lambda>_. same w) (\<lambda>_. same w) w"
    and getCurrentSessionId: "wp (po_getCurrentSessionId P i) (\<lambda>_. same w) (\<lambda>_. same w) w"
    and sessions_load: "wp (po_sessions_load P i) (\<lambda>_. same w) (\<lambda>_. same w) w"
    and messages_load:
      "wp (po_messages_load P i) (\<lambda>x w'. same w w' \<and> x = msgs w i) (\<lambda>_. same w) w"
    and messages_save:
      "wp (po_messages_save P m)
         (\<lambda>_ w'. msgs w' = (msgs w)(msg_id m \<mapsto> m) \<and> keys w' = keys w \<and> decs w' = decs w \<and>
            (fine w \<longrightarrow> fine w'))
         (\<lambda>_. same w) w"
    and find_key:
      "wp (po_findByIdempotencyKey P k) (\<lambda>x w'. same w w' \<and> x = Option.bind (keys w k) (msgs w))
         (\<lambda>_. same w) w"
    and record_key:
      "wp (po_recordIdempotencyKey P k i)
         (\<lambda>_ w'. msgs w' = msgs w \<and> keys w' = (keys w)(k \<mapsto> i) \<and> decs w' = decs w \<and>
            (fine w \<longrightarrow> fine w'))
         (\<lambda>_. same w) w"
    and find_decision:
      "fine w \<Longrightarrow> wp (po_findByEvaluatedIntent P ref)
         (\<lambda>x w'. same w w' \<and> (\<forall>d. x = Some d \<longrightarrow> decs w (gd_id d) = Some d)) (\<lambda>_. same w) w"
    and save_decision:
      "wp (po_decisions_save P d)
         (\<lambda>_ w'. msgs w' = msgs w \<and> keys w' = keys w \<and> decs w' = (decs w)(gd_id d \<mapsto> d) \<and>
            (fine w \<longrightarrow> fine w'))
         (\<lambda>_. same w) w"
    and bind_intent: "wp (po_bindMessageIntent P ref i c) (\<lambda>_. same w) (\<lambda>_. same w) w"
    and find_intent: "wp (po_findTextIntentByMessage P i c) (\<lambda>_. same w) (\<lambda>_. same w) w"
    and verify_intent: "wp (po_verifyTextIntent P ref c) (\<lambda>_. same w) (\<lambda>_. same w) w"
    and resolve_intent: "wp (po_resolveTextIntent P ref c) (\<lambda>_. same w) (\<lambda>_. same w) w"
    and enqueue_work: "wp (po_enqueue P work c) (\<lambda>_. same w) (\<lambda>_. same w) w"
    and publish_events: "wp (po_publishNewEvents P p) (\<lambda>_. same w) (\<lambda>_. same w) w"
    and fresh_uuid: "wp (po_uuid P) (\<lambda>_. same w) (\<lambda>_. same w) w"
    and send_message:
      "cleared (msgs w) (decs w) (prq_messageId r) \<Longrightarrow>
         wp (po_sendOutboundMessage P r c) (\<lambda>_. same w) (\<lambda>_. same w) w"
begin

text \<open>A program that changes nothing the laws speak of.\<close>

definition quiet :: "('w, 'a) prog \<Rightarrow> bool" where
  "quiet m \<longleftrightarrow> (\<forall>w. wp m (\<lambda>_. same w) (\<lambda>_. same w) w)"

lemma quiet_ports [intro]:
  "quiet (po_instances_load P i)" "quiet (po_getCurrentSessionId P i)"
  "quiet (po_sessions_load P i)" "quiet (po_bindMessageIntent P ref i c)"
  "quiet (po_findTextIntentByMessage P i c)" "quiet (po_verifyTextIntent P ref c)"
  "quiet (po_resolveTextIntent P ref c)" "quiet (po_enqueue P work c)"
  "quiet (po_publishNewEvents P p)" "quiet (po_uuid P)"
  by (simp_all add: quiet_def instances_load getCurrentSessionId sessions_load bind_intent
      find_intent verify_intent resolve_intent enqueue_work publish_events fresh_uuid)

lemma quiet_return [intro]: "quiet (prog_return x)"
  and quiet_lift [intro]: "quiet (prog_lift r)"
  by (auto simp: quiet_def split: sum.split)

lemma quiet_bind [intro]:
  assumes "quiet m" "\<And>x. quiet (f x)"
  shows "quiet (prog_bind m f)"
  unfolding quiet_def
proof
  fix w
  have "wp m (\<lambda>x. wp (f x) (\<lambda>_. same w) (\<lambda>_. same w)) (\<lambda>_. same w) w"
  proof (rule wp_mono [of m "\<lambda>_. same w" "\<lambda>_. same w"])
    show "wp m (\<lambda>_. same w) (\<lambda>_. same w) w" using assms(1) by (simp add: quiet_def)
    show "wp (f x) (\<lambda>_. same w) (\<lambda>_. same w) w'" if "same w w'" for x w'
      using wp_mono [of "f x" "\<lambda>_. same w'" "\<lambda>_. same w'" w' "\<lambda>_. same w" "\<lambda>_. same w"]
        assms(2) [of x] same_trans [OF that] by (auto simp: quiet_def)
  qed
  then show "wp (prog_bind m f) (\<lambda>_. same w) (\<lambda>_. same w) w" by simp
qed

lemma quiet_catch [intro]:
  assumes "quiet m" "\<And>c. quiet (h c)"
  shows "quiet (prog_catch m h)"
  unfolding quiet_def wp_catch
proof
  fix w
  show "wp m (\<lambda>_. same w) (\<lambda>c. wp (h c) (\<lambda>_. same w) (\<lambda>_. same w)) w"
  proof (rule wp_mono [of m "\<lambda>_. same w" "\<lambda>_. same w"])
    show "wp m (\<lambda>_. same w) (\<lambda>_. same w) w" using assms(1) by (simp add: quiet_def)
    show "wp (h c) (\<lambda>_. same w) (\<lambda>_. same w) w'" if "same w w'" for c w'
      using wp_mono [of "h c" "\<lambda>_. same w'" "\<lambda>_. same w'" w' "\<lambda>_. same w" "\<lambda>_. same w"]
        assms(2) [of c] same_trans [OF that] by (auto simp: quiet_def)
  qed
qed

text \<open>What an assertion needs to pass a quiet program.\<close>

lemma wp_quiet:
  assumes "quiet m" "steady A" "A w" "\<And>x w'. A w' \<Longrightarrow> Q x w'" "\<And>c w'. A w' \<Longrightarrow> E c w'"
  shows "wp m Q E w"
proof (rule wp_mono [of m "\<lambda>_. same w" "\<lambda>_. same w"])
  show "wp m (\<lambda>_. same w) (\<lambda>_. same w) w" using assms(1) by (simp add: quiet_def)
qed (use assms in \<open>auto simp: steady_def\<close>)

lemma quiet_resolveActiveSession [intro]: "quiet (resolveActiveSession P i c)"
  unfolding resolveActiveSession_def
  by (intro quiet_catch quiet_bind quiet_ports quiet_return) (auto split: option.split intro!: quiet_bind)

lemma quiet_fresh_identity [intro]: "quiet (fresh_identity P prefix label)"
  unfolding fresh_identity_def by blast

lemma quiet_enqueue_message [intro]: "quiet (enqueue_message P c key ref m)"
  unfolding enqueue_message_def by blast

lemma quiet_publish [intro]: "quiet (publish_message_events P e es n s)"
  unfolding publish_message_events_def published_def by blast

lemma quiet_publishMessageEvents [intro]: "quiet (publishMessageEvents P e m n s)"
  unfolding publishMessageEvents_def by blast

lemma quiet_publishDomainEvents [intro]: "quiet (publishDomainEvents_send P e d m)"
  unfolding publishDomainEvents_send_def
  by (intro quiet_bind quiet_publish) (auto split: sum.split)

section \<open>One call of a port\<close>

lemma wp_load:
  assumes "steady A" "A w" "\<And>x w'. A w' \<Longrightarrow> x = msgs w' i \<Longrightarrow> Q x w'" "\<And>c w'. A w' \<Longrightarrow> E c w'"
  shows "wp (po_messages_load P i) Q E w"
proof (rule wp_mono [OF messages_load])
  show "Q x w'" if "same w w' \<and> x = msgs w i" for x w'
  proof -
    have "x = msgs w' i" "A w'" using that steady_same [OF assms(1,2)] by (simp_all add: same_def)
    then show ?thesis using assms(3) by blast
  qed
  show "E c w'" if "same w w'" for c w'
    using that steady_same [OF assms(1,2)] assms(4) by blast
qed

lemma wp_find_key:
  assumes "steady A" "A w" "\<And>x w'. A w' \<Longrightarrow> x = Option.bind (keys w' k) (msgs w') \<Longrightarrow> Q x w'"
    and "\<And>c w'. A w' \<Longrightarrow> E c w'"
  shows "wp (po_findByIdempotencyKey P k) Q E w"
proof (rule wp_mono [OF find_key])
  show "Q x w'" if "same w w' \<and> x = Option.bind (keys w k) (msgs w)" for x w'
  proof -
    have "x = Option.bind (keys w' k) (msgs w')" "A w'"
      using that steady_same [OF assms(1,2)] by (simp_all add: same_def)
    then show ?thesis using assms(3) by blast
  qed
  show "E c w'" if "same w w'" for c w'
    using that steady_same [OF assms(1,2)] assms(4) by blast
qed

lemma wp_save:
  assumes "kept ks w" "storable (decs w) m"
    and "\<And>w'. kept ks w' \<Longrightarrow> msgs w' = (msgs w)(msg_id m \<mapsto> m) \<Longrightarrow> keys w' = keys w \<Longrightarrow>
           decs w' = decs w \<Longrightarrow> Q () w'"
    and "\<And>c w'. kept ks w' \<Longrightarrow> same w w' \<Longrightarrow> E c w'"
  shows "wp (po_messages_save P m) Q E w"
proof (rule wp_mono [OF messages_save])
  fix x w'
  assume "msgs w' = (msgs w)(msg_id m \<mapsto> m) \<and> keys w' = keys w \<and> decs w' = decs w \<and>
    (fine w \<longrightarrow> fine w')"
  moreover from this have "kept ks w'" using assms(1,2) by (auto simp: kept_def)
  ultimately show "Q x w'" using assms(3) by simp
next
  show "E c w'" if "same w w'" for c w'
    using that assms(1,4) steady_same [OF steady_kept] by blast
qed

lemma wp_record:
  assumes "kept ks w" "msgs w i \<noteq> None" "keys w k = None"
    and "\<And>w'. kept (ks(k \<mapsto> i)) w' \<Longrightarrow> msgs w' = msgs w \<Longrightarrow> decs w' = decs w \<Longrightarrow> Q () w'"
    and "\<And>c w'. kept ks w' \<Longrightarrow> E c w'"
  shows "wp (po_recordIdempotencyKey P k i) Q E w"
proof (rule wp_mono [OF record_key])
  fix x w'
  assume "msgs w' = msgs w \<and> keys w' = (keys w)(k \<mapsto> i) \<and> decs w' = decs w \<and> (fine w \<longrightarrow> fine w')"
  moreover from this have "kept (ks(k \<mapsto> i)) w'"
    using assms(1-3) by (auto simp: kept_def map_le_upd)
  ultimately show "Q x w'" using assms(4) by simp
next
  show "E c w'" if "same w w'" for c w'
    using that assms(1,5) steady_same [OF steady_kept] by blast
qed

lemma wp_send:
  assumes "steady A" "A w" "cleared (msgs w) (decs w) (prq_messageId r)"
    and "\<And>x w'. A w' \<Longrightarrow> Q x w'" "\<And>c w'. A w' \<Longrightarrow> E c w'"
  shows "wp (po_sendOutboundMessage P r c) Q E w"
  by (rule wp_mono [OF send_message [OF assms(3)]]) (use assms steady_same [OF assms(1,2)] in blast)+

section \<open>The guardrail service\<close>

lemma storable_decided: "allowing d \<Longrightarrow> storable ds m \<Longrightarrow> storable (ds(gd_id d \<mapsto> d)) m"
  by (auto simp: storable_def)

lemma kept_decided:
  assumes "kept ks w" "msgs w' = msgs w" "keys w' = keys w" "decs w' = (decs w)(gd_id d \<mapsto> d)"
    and "fine w \<longrightarrow> fine w'" "allowing d \<or> decs w (gd_id d) = Some d"
  shows "kept ks w'"
proof (cases "allowing d")
  case True
  then show ?thesis
    using assms(1,5) storable_decided [OF True] unfolding kept_def assms(2-4) by blast
next
  case False
  then have "same w w'" using assms(2-6) by (simp add: same_def fun_upd_idem)
  then show ?thesis by (rule steady_same [OF steady_kept assms(1)])
qed

lemma wp_createDecision:
  assumes "kept ks w" "gi_outcome input = None"
    and "\<And>d w'. kept ks w' \<Longrightarrow> keys w' = keys w \<Longrightarrow> decs w' (gd_id d) = Some d \<Longrightarrow> allowing d \<Longrightarrow>
           Q (Inr d) w'"
    and "\<And>f w'. kept ks w' \<Longrightarrow> Q (Inl f) w'"
    and "\<And>c w'. kept ks w' \<Longrightarrow> E c w'"
  shows "wp (createDecision P input c) Q E w"
proof -
  have keep: "kept ks w'" if "same w w'" for w'
    using that assms(1) steady_same [OF steady_kept] by blast
  have save: "wp (po_decisions_save P d) Q' E' w'"
    if "same w w'" "allowing d \<or> decs w (gd_id d) = Some d"
      and ok: "\<And>w''. kept ks w'' \<Longrightarrow> keys w'' = keys w \<Longrightarrow> decs w'' (gd_id d) = Some d \<Longrightarrow> Q' () w''"
      and bad: "\<And>c w''. kept ks w'' \<Longrightarrow> E' c w''" for d w' Q' E'
  proof (rule wp_mono [OF save_decision])
    fix x w''
    assume "msgs w'' = msgs w' \<and> keys w'' = keys w' \<and> decs w'' = (decs w')(gd_id d \<mapsto> d) \<and>
      (fine w' \<longrightarrow> fine w'')"
    then show "Q' x w''"
      using ok [of w''] kept_decided [of ks w' w'' d] keep [OF that(1)] that(1,2) by (auto simp: same_def)
  next
    show "E' c w''" if "same w' w''" for c w''
      using bad keep same_trans [OF \<open>same w w'\<close> that] by blast
  qed
  have judged: "allowing d \<or> decs w (gd_id d) = Some d"
    if "decision_for input x = Inr d" "\<forall>d. x = Some d \<longrightarrow> decs w (gd_id d) = Some d" for x d
    using that assms(2) createGuardrailDecisionAggregate_ok [of _ _ Guardrail_allow _ d]
    by (cases x) (auto simp: decision_for_def Let_def allowing_iff)
  show ?thesis
    unfolding createDecision_def Let_def wp_bind wp_catch
    by (rule wp_mono [OF find_decision [OF kept_fine [OF assms(1)]]])
      (auto simp: keep assms(4,5) allowing_passing split: sum.split
        intro!: save assms(3-5) dest: judged)
qed

section \<open>Saving a message\<close>

lemma wp_saveFailedMessage:
  assumes "kept ks w" "storable (decs w) m" "\<And>w'. kept ks w' \<Longrightarrow> Q () w'"
  shows "wp (saveFailedMessage P m) Q E w"
proof -
  have "storable (decs w) m'" if "failMessage m c = Inr m'" for m' c
    using storable_step [OF assms(2), of "FailMessage c"] that by (simp add: message_step.simps)
  then show ?thesis
    using assms(1,3)
    by (auto simp: saveFailedMessage_def split: sum.split intro!: wp_save [OF assms(1)])
qed

lemma wp_saveFailedMessage_process:
  assumes "kept ks w" "storable (decs w) m" "\<And>w'. kept ks w' \<Longrightarrow> Q () w'"
  shows "wp (saveFailedMessage_process P envelope m category) Q E w"
proof -
  have "storable (decs w) m'" if "failMessage m c = Inr m'" for m' c
    using storable_step [OF assms(2), of "FailMessage c"] that by (simp add: message_step.simps)
  then show ?thesis
    using assms(1,3)
    by (auto simp: saveFailedMessage_process_def split: sum.split
        intro!: wp_save [OF assms(1)] wp_quiet [OF quiet_publishMessageEvents steady_kept])
qed

lemma wp_save_under_key:
  assumes "kept ks w" "keys w k = None" "storable (decs w) m"
    and "\<And>w'. kept (ks(k \<mapsto> msg_id m)) w' \<Longrightarrow> decs w' = decs w \<Longrightarrow> Q True w'"
    and "\<And>w'. kept ks w' \<Longrightarrow> Q False w'"
  shows "wp (save_under_key P k m) Q E w"
  unfolding save_under_key_def wp_catch wp_bind
proof (rule wp_save [OF assms(1,3)])
  fix w1
  assume w1: "kept ks w1" "msgs w1 = (msgs w)(msg_id m \<mapsto> m)" "keys w1 = keys w" "decs w1 = decs w"
  show "wp (po_recordIdempotencyKey P k (msg_id m)) (\<lambda>x. wp (prog_return True) Q (\<lambda>c. wp (prog_return False) Q E))
     (\<lambda>c. wp (prog_return False) Q E) w1"
    by (rule wp_record [OF w1(1)]) (simp_all add: w1 assms(2,4,5))
qed (simp add: assms(5))

lemma co_resultRef_commandOutcome [simp]: "co_resultRef (commandOutcome e oc a r i c) = i"
  by (simp add: commandOutcome_def createApplicationCommandOutcome_def)

lemma co_resultRef_passed [simp]:
  "co_resultRef (passed_on e oc f i) = i" "co_resultRef (failed_outcome e r i c) = i"
  by (simp_all add: passed_on_def failed_outcome_def)

lemma wp_case_sum:
  assumes "\<And>x. r = Inl x \<Longrightarrow> wp (f x) Q E w" "\<And>y. r = Inr y \<Longrightarrow> wp (g y) Q E w"
  shows "wp (case r of Inl x \<Rightarrow> f x | Inr y \<Rightarrow> g y) Q E w"
  using assms by (cases r) simp_all

lemma wp_case_option:
  assumes "r = None \<Longrightarrow> wp m Q E w" "\<And>y. r = Some y \<Longrightarrow> wp (g y) Q E w"
  shows "wp (case r of None \<Rightarrow> m | Some y \<Rightarrow> g y) Q E w"
  using assms by (cases r) simp_all

lemma wp_give_up:
  assumes "kept ks w" "storable (decs w) m"
    and "\<And>x w'. kept ks w' \<Longrightarrow> co_resultRef x = Some (msg_id m) \<Longrightarrow> Q x w'"
  shows "wp (give_up P envelope m oc f) Q E w"
  unfolding give_up_def wp_bind wp_return
  by (rule wp_saveFailedMessage [OF assms(1,2)]) (simp add: assms(3))

lemma wp_save_queued:
  assumes "kept ks w" "storable (decs w) m'" "\<And>q. quiet (publish q)"
    and ok: "\<And>x w'. kept ks w' \<Longrightarrow> co_resultRef x = Some (msg_id m') \<Longrightarrow> Q x w'"
    and bad: "\<And>c w'. kept ks w' \<Longrightarrow> E c w'"
  shows "wp (save_queued P envelope publish m') Q E w"
proof (cases "queueMessage m'")
  case (Inl e)
  then show ?thesis by (simp add: save_queued_def bad assms(1))
next
  case (Inr q)
  then have q: "message_step QueueMessage m' = Inr q" by (simp add: message_step.simps)
  have i: "msg_id q = msg_id m'" using q by (simp add: message_step_ok_iff)
  show ?thesis
    unfolding save_queued_def wp_bind wp_lift wp_return Inr sum.case
  proof (rule wp_save [OF assms(1)])
    show "storable (decs w) q" using storable_step [OF assms(2) q] by simp
    fix w1
    assume w1: "kept ks w1"
    show "wp (publish q) (\<lambda>publishResult. Q
         (case publishResult of
            Inl failure \<Rightarrow> commandOutcome envelope Outcome_failed True (pf_retryable failure)
              (Some (msg_id q)) (Some (pf_code failure))
          | Inr _ \<Rightarrow> commandOutcome envelope Outcome_queued True False (Some (msg_id q)) None)) E w1"
      by (rule wp_quiet [OF assms(3) steady_kept w1]) (auto simp: i intro: ok bad split: sum.split)
  qed (rule bad)
qed

lemma wp_accept_and_queue:
  assumes "kept ks w" "storable (decs w) m" "decs w (gd_id d) = Some d" "allowing d"
    and "\<And>q. quiet (publish q)"
    and ok: "\<And>x w'. kept ks w' \<Longrightarrow> co_resultRef x = Some (msg_id m) \<Longrightarrow> Q x w'"
    and bad: "\<And>c w'. kept ks w' \<Longrightarrow> E c w'"
  shows "wp (accept_and_queue P envelope m d ref publish) Q E w"
proof -
  have queue: "wp (save_queued P envelope publish m') Q E w" if "acceptMessage m (gd_id d) = Inr m'" for m'
  proof -
    have m': "message_step (AcceptMessage (gd_id d)) m = Inr m'" using that by (simp add: message_step.simps)
    have "storable (decs w) m'" using storable_step [OF assms(2) m'] assms(3,4) by auto
    moreover have "msg_id m' = msg_id m" using m' by (simp add: message_step_ok_iff)
    ultimately show ?thesis
      by (intro wp_save_queued [OF assms(1)] assms(5) ok bad) simp_all
  qed
  show ?thesis
    unfolding accept_and_queue_def wp_bind
    by (auto simp: acceptMessageAfterGuardrailPass_def split: sum.split
        intro!: queue wp_give_up [OF assms(1,2)] ok)
qed

lemma wp_queue_new_message:
  assumes "kept ks w" "storable (decs w) m" "decs w (gd_id d) = Some d" "allowing d"
    and "\<And>q. quiet (publish q)"
    and ok: "\<And>x w'. kept ks w' \<Longrightarrow> co_resultRef x = Some (msg_id m) \<Longrightarrow> Q x w'"
    and bad: "\<And>c w'. kept ks w' \<Longrightarrow> E c w'"
  shows "wp (queue_new_message P envelope m d ref key publish) Q E w"
proof -
  let ?A = "\<lambda>w. kept ks w \<and> storable (decs w) m \<and> decs w (gd_id d) = Some d"
  have A: "steady ?A" by (intro steady_conj steady_kept steady_view)
  note stop = wp_give_up [where ks = ks, OF _ _ ok] and go = wp_accept_and_queue [where ks = ks, OF _ _ _ assms(4,5) ok bad]
  show ?thesis
    unfolding queue_new_message_def wp_bind
  proof (rule wp_quiet [OF quiet_ports(4) A]; (rule wp_case_sum)?)
    show "?A w" using assms(1-3) by simp
    show "E c w'" if "?A w'" for c w' using that bad by simp
    show "wp (give_up P envelope m Outcome_failed f) Q E w'" if "?A w'" for f w'
      using that by (intro stop) simp_all
    show "wp (prog_bind (enqueue_message P (commandContext envelope) key ref m)
       (\<lambda>queueResult. case queueResult of
            Inl failure \<Rightarrow> give_up P envelope m Outcome_failed failure
          | Inr _ \<Rightarrow> accept_and_queue P envelope m d ref publish)) Q E w'" if "?A w'" for w'
      unfolding wp_bind
    proof (rule wp_quiet [OF quiet_enqueue_message A that]; (rule wp_case_sum)?)
      show "E c w'" if "?A w'" for c w' using that bad by simp
      show "wp (give_up P envelope m Outcome_failed f) Q E w'" if "?A w'" for f w'
        using that by (intro stop) simp_all
      show "wp (accept_and_queue P envelope m d ref publish) Q E w'" if "?A w'" for w'
        using that by (intro go) simp_all
    qed
  qed
qed

section \<open>The handlers\<close>

lemma storable_new [simp]: "storable ds (new_message i instanceId t)"
  by (simp add: storable_def new_message_def message_wf_created)
    (simp add: createOutboundMessageIntent_def baseMessage_def)

lemma msg_id_new [simp]: "msg_id (new_message i instanceId t) = i"
  by (simp add: new_message_def createOutboundMessageIntent_def baseMessage_def)

text \<open>What a recorded key leads to.\<close>

lemma kept_key: "kept ks w \<Longrightarrow> keys w k = Some i \<Longrightarrow> \<exists>m. msgs w i = Some m \<and> msg_id m = i"
  unfolding kept_def by blast

lemma kept_stored: "kept ks w \<Longrightarrow> msgs w i = Some m \<Longrightarrow> msg_id m = i \<and> storable (decs w) m"
  unfolding kept_def by blast

lemma found_by_key:
  assumes "kept ks w" "x = Option.bind (keys w k) (msgs w)"
  shows "x = None \<Longrightarrow> keys w k = None" "x = Some m \<Longrightarrow> keys w k = Some (msg_id m)"
proof -
  have "x = None \<and> keys w k = None \<or> (\<exists>m. x = Some m \<and> keys w k = Some (msg_id m))"
    using assms(2) kept_key [OF assms(1), of k] by (cases "keys w k") auto
  then show "x = None \<Longrightarrow> keys w k = None" "x = Some m \<Longrightarrow> keys w k = Some (msg_id m)" by auto
qed

text \<open>An answer that names a message names the one its key is recorded for.\<close>

definition names_key :: "(string \<Rightarrow> identity option) \<Rightarrow> string \<Rightarrow> command_outcome \<Rightarrow> 'w \<Rightarrow> bool" where
  "names_key ks k answer w \<longleftrightarrow>
     kept ks w \<and> (\<forall>i. co_resultRef answer = Some i \<longrightarrow> keys w k = Some i)"

lemma names_key_silent: "co_resultRef answer = None \<Longrightarrow> kept ks w \<Longrightarrow> names_key ks k answer w"
  by (simp add: names_key_def)

lemma kept_without: "kept (ks(k \<mapsto> i)) w \<Longrightarrow> ks k = None \<Longrightarrow> kept ks w"
  by (erule kept_less) (auto simp: map_le_def)

lemma names_key_recorded:
  assumes "kept (ks(k \<mapsto> i)) w" "co_resultRef answer = Some i" "ks k = None"
  shows "names_key ks k answer w"
proof -
  have "ks(k \<mapsto> i) \<subseteq>\<^sub>m keys w" using assms(1) by (simp add: kept_def)
  then have "keys w k = Some i" by (simp add: map_le_def)
  moreover have "kept ks w" by (rule kept_without [OF assms(1,3)])
  ultimately show ?thesis using assms(2) by (simp add: names_key_def)
qed

lemma wp_save_and_queue:
  assumes "kept ks w" "keys w k = None" "decs w (gd_id d) = Some d" "allowing d"
    and "\<And>q. quiet (publish q)"
    and ok: "\<And>x w'. names_key ks k x w' \<Longrightarrow> Q x w'"
    and bad: "\<And>c w'. kept ks w' \<Longrightarrow> E c w'"
  shows "wp (save_and_queue P envelope ref instanceId t k workKey code publish d) Q E w"
proof -
  let ?B = "\<lambda>w. kept ks w \<and> keys w k = None \<and> decs w (gd_id d) = Some d"
  have B: "steady ?B" by (intro steady_conj steady_kept steady_view)
  have ks: "ks k = None" using assms(1,2) by (auto simp: kept_def map_le_def dom_def)
  have queue: "wp (queue_new_message P envelope (new_message i instanceId t) d ref workKey publish) Q E w'"
    if w': "kept (ks(k \<mapsto> i)) w'" "decs w' (gd_id d) = Some d" for i w'
  proof (rule wp_queue_new_message [OF w'(1) storable_new w'(2) assms(4,5)])
    show "Q x w''" if "kept (ks(k \<mapsto> i)) w''" "co_resultRef x = Some (msg_id (new_message i instanceId t))"
      for x w''
      using that ks by (intro ok names_key_recorded [of ks k i]) simp_all
    show "E c w''" if "kept (ks(k \<mapsto> i)) w''" for c w''
      by (rule bad [OF kept_without [OF that ks]])
  qed
  have save: "wp (save_under_key P k (new_message i instanceId t)) (\<lambda>saved.
      wp (if \<not> saved then prog_return (failed_outcome envelope True None code)
          else queue_new_message P envelope (new_message i instanceId t) d ref workKey publish) Q E) E w'"
    if "?B w'" for i w'
  proof (rule wp_save_under_key [of ks])
    show "kept ks w'" "keys w' k = None" using that by simp_all
  qed (use that in \<open>auto intro!: queue ok names_key_silent\<close>)
  show ?thesis
    unfolding save_and_queue_def wp_bind Let_def
    by (rule wp_quiet [OF quiet_fresh_identity B]) (use assms(1-3) save in \<open>auto intro: bad\<close>)
qed

lemma wp_decide_and_queue:
  assumes "kept ks w" "keys w k = None"
    and "\<And>d q. quiet (publish d q)"
    and refused: "\<And>f w'. kept ks w' \<Longrightarrow> Q (passed_on envelope Outcome_rejected f refusedRef) w'"
    and ok: "\<And>x w'. names_key ks k x w' \<Longrightarrow> Q x w'"
    and bad: "\<And>c w'. kept ks w' \<Longrightarrow> E c w'"
  shows "wp (decide_and_queue P envelope ref instanceId t k workKey code refusedRef publish) Q E w"
proof -
  let ?A = "\<lambda>w. kept ks w \<and> keys w k = None"
  have A: "steady ?A" by (intro steady_conj steady_kept steady_view)
  have decide: "wp (createDecision P
       \<lparr>gi_guardrailDecisionId = i, gi_outboundIntentRef = ref, gi_outcome = None,
        gi_reasonCode = None\<rparr> (commandContext envelope)) (\<lambda>guardrailResult. wp (
     case guardrailResult of
       Inl failure \<Rightarrow> prog_return (passed_on envelope Outcome_rejected failure refusedRef)
     | Inr decision \<Rightarrow> save_and_queue P envelope ref instanceId t k workKey code
         (publish decision) decision) Q E) E w'" if "?A w'" for i w'
    by (rule wp_createDecision [of ks])
      (use that in \<open>auto intro!: bad wp_save_and_queue [of ks] assms(3) intro: refused ok\<close>)
  show ?thesis
    unfolding decide_and_queue_def wp_bind
    by (rule wp_quiet [OF quiet_fresh_identity A]) (use assms(1,2) decide in \<open>auto intro: bad\<close>)
qed


text \<open>Nothing a handler does loses a recorded key or breaks the invariant.\<close>

lemma resultRef_existing [simp]:
  "co_resultRef (outcomeForExistingMessage e m) = Some (msg_id m)"
  "co_resultRef (outcomeForExistingRetryMessage e m) = Some (msg_id m)"
  "co_resultRef (outcomeForCancelledMessage e m) = Some (msg_id m)"
  by (simp_all add: outcomeForExistingMessage_def outcomeForExistingRetryMessage_def
      outcomeForCancelledMessage_def)

lemma wp_handle_send_text:
  assumes "kept ks w"
    and ok: "\<And>x w'. kept ks w' \<Longrightarrow> (\<And>input. resolveInput_send envelope = Inr input \<Longrightarrow>
               names_key ks (sti_idempotencyKey input) x w') \<Longrightarrow> Q x w'"
    and bad: "\<And>c w'. kept ks w' \<Longrightarrow> E c w'"
  shows "wp (handle_send_text P envelope) Q E w"
proof (cases "resolveInput_send envelope")
  case (Inl c)
  then show ?thesis using ok [OF assms(1)] by (simp add: handle_send_text_def)
next
  case (Inr input)
  let ?k = "sti_idempotencyKey input"
  let ?A = "\<lambda>w. kept ks w \<and> keys w ?k = None"
  have A: "steady ?A" by (intro steady_conj steady_kept steady_view)
  have named: "Q x w'" if "names_key ks ?k x w'" for x w'
    using that by (intro ok) (simp_all add: Inr names_key_def)
  have silent: "Q (passed_on envelope oc f None) w'" if "kept ks w'" for oc f w'
    using that by (intro named names_key_silent) simp_all
  have queue: "wp (decide_and_queue P envelope (sti_outboundIntentRef input) i Type_text ?k key code None
      (publishDomainEvents_send P envelope)) Q E w'" if "?A w'" for i key code w'
    using that by (intro wp_decide_and_queue [of ks] quiet_publishDomainEvents)
      (auto intro: bad named silent)
  have send: "wp (send_new_text P envelope input) Q E w'" if "?A w'" for w'
    unfolding send_new_text_def Let_def wp_bind
    by (rule wp_quiet [OF quiet_resolveActiveSession A that])
      (auto intro!: bad silent wp_case_sum wp_quiet [OF quiet_ports(7) A] queue)
  show ?thesis
    unfolding handle_send_text_def Inr sum.case wp_bind
  proof (rule wp_find_key [OF steady_kept assms(1)]; (rule wp_case_option)?)
    show "E c w'" if "kept ks w'" for c w' using that by (rule bad)
    show "wp (prog_return (outcomeForExistingMessage envelope m)) Q E w'"
      if "kept ks w'" "x = Option.bind (keys w' ?k) (msgs w')" "x = Some m" for x m w'
      using that found_by_key(2) [OF that] by (auto intro!: named simp: names_key_def)
    show "wp (send_new_text P envelope input) Q E w'"
      if "kept ks w'" "x = Option.bind (keys w' ?k) (msgs w')" "x = None" for x w'
      using that(1) found_by_key(1) [OF that] by (intro send) simp
  qed
qed

lemma wp_handle_retry_message:
  assumes "kept ks w" and ok: "\<And>x w'. kept ks w' \<Longrightarrow> Q x w'" and bad: "\<And>c w'. kept ks w' \<Longrightarrow> E c w'"
  shows "wp (handle_retry_message P envelope) Q E w"
proof (cases "resolveInput_retry envelope")
  case (Inl c)
  then show ?thesis using ok [OF assms(1)] by (simp add: handle_retry_message_def)
next
  case (Inr input)
  let ?k = "mci_idempotencyKey input"
  let ?A = "\<lambda>w. kept ks w \<and> keys w ?k = None"
  have A: "steady ?A" by (intro steady_conj steady_kept steady_view)
  have queue: "wp (decide_and_queue P envelope ref i t ?k key code r (\<lambda>_ queued.
      publish_message_events P envelope (msg_domainEvents queued) 0 suffix)) Q E w'"
    if "?A w'" for ref i t key code r suffix w'
    using that by (intro wp_decide_and_queue [of ks] quiet_publish) (auto simp: names_key_def intro: bad ok)
  have retry: "wp (retry_original P envelope ?k m) Q E w'" if "?A w'" for m w'
    using that unfolding retry_original_def Let_def
    by (auto intro!: bad ok wp_case_sum wp_quiet [OF quiet_resolveActiveSession A]
        wp_quiet [OF quiet_ports(5) A] queue)
  have load: "wp (prog_bind (po_messages_load P i) (\<lambda>loaded. case loaded of
        None \<Rightarrow> prog_return (failed_outcome envelope False None code)
      | Some m \<Rightarrow> retry_original P envelope ?k m)) Q E w'" if "?A w'" for i code w'
    unfolding wp_bind by (rule wp_load [OF A that]) (auto intro: bad ok retry intro!: wp_case_option)
  show ?thesis
    unfolding handle_retry_message_def Inr sum.case wp_bind [of "po_findByIdempotencyKey P k" for k]
  proof (rule wp_find_key [OF steady_kept assms(1)]; (rule wp_case_option)?)
    show "E c w'" if "kept ks w'" for c w' using that by (rule bad)
    show "wp (prog_return (outcomeForExistingRetryMessage envelope m)) Q E w'" if "kept ks w'" for m w'
      using that ok by simp
    show "wp (prog_bind (po_messages_load P (mci_messageId input)) (\<lambda>loaded. case loaded of
          None \<Rightarrow> prog_return (failed_outcome envelope False None ''retry_message_not_found'')
        | Some m \<Rightarrow> retry_original P envelope ?k m)) Q E w'"
      if "kept ks w'" "x = Option.bind (keys w' ?k) (msgs w')" "x = None" for x w'
      using that(1) found_by_key(1) [OF that] by (intro load) simp
  qed
qed

lemma wp_handle_cancel_message:
  assumes "kept ks w" and ok: "\<And>x w'. kept ks w' \<Longrightarrow> Q x w'" and bad: "\<And>c w'. kept ks w' \<Longrightarrow> E c w'"
  shows "wp (handle_cancel_message P envelope) Q E w"
proof (cases "resolveInput_cancel envelope")
  case (Inl c)
  then show ?thesis using ok [OF assms(1)] by (simp add: handle_cancel_message_def)
next
  case (Inr input)
  let ?k = "mci_idempotencyKey input"
  let ?A = "\<lambda>w. kept ks w \<and> keys w ?k = None"
  have A: "steady ?A" by (intro steady_conj steady_kept steady_view)
  have record_found: "wp (po_recordIdempotencyKey P ?k i) Q' E' w'"
    if "?A w'" "msgs w' i \<noteq> None" "\<And>w''. kept ks w'' \<Longrightarrow> Q' () w''" "\<And>c w''. kept ks w'' \<Longrightarrow> E' c w''"
    for i Q' E' w'
  proof -
    have "ks ?k = None" using that(1) by (auto simp: kept_def map_le_def dom_def)
    then show ?thesis
      using that by (intro wp_record [of ks]) (auto dest: kept_without)
  qed
  have save: "wp (po_messages_save P m') (\<lambda>_. wp (po_recordIdempotencyKey P ?k (msg_id m')) Q' E') E' w'"
    if "?A w'" "msgs w' (msg_id m) = Some m" "cancelMessage m = Inr m'"
      and ok': "\<And>w''. kept ks w'' \<Longrightarrow> Q' () w''" and bad': "\<And>c w''. kept ks w'' \<Longrightarrow> E' c w''" for m m' Q' E' w'
  proof (rule wp_save [of ks])
    show "kept ks w'" using that(1) by simp
    show "storable (decs w') m'"
      using kept_stored [of ks w'] that(1-3) storable_step [of "decs w'" m CancelMessage m']
      by (simp add: message_step.simps)
    show "E' c w''" if k: "kept ks w''" for c w'' by (rule bad' [OF k])
    fix w''
    assume "kept ks w''" "msgs w'' = (msgs w')(msg_id m' \<mapsto> m')" "keys w'' = keys w'"
    then show "wp (po_recordIdempotencyKey P ?k (msg_id m')) Q' E' w''"
      using that(1) by (intro record_found ok' bad') simp_all
  qed
  have cancelled: "wp (save_cancelled P ?k m) Q' E' w'"
    if "?A w'" "msgs w' (msg_id m) = Some m" "\<And>x w''. kept ks w'' \<Longrightarrow> Q' x w''" for m Q' E' w'
  proof (cases "cancelMessage m")
    case (Inl e)
    then show ?thesis using that(1,3) by (simp add: save_cancelled_def)
  next
    case (Inr m')
    show ?thesis
      unfolding save_cancelled_def wp_catch wp_bind wp_lift wp_return Inr sum.case
      using that(1,2) Inr by (rule save) (simp_all add: that(3))
  qed
  have cancel: "wp (cancel_loaded P envelope ?k m) Q E w'" if "?A w'" "msgs w' i = Some m" for i m w'
  proof -
    have "msgs w' (msg_id m) = Some m" using kept_stored [of ks w' i m] that by simp
    then show ?thesis
      using that(1) unfolding cancel_loaded_def
      by (auto intro!: bad ok cancelled record_found wp_case_option wp_quiet [OF quiet_publish steady_kept])
  qed
  have load: "wp (prog_bind (po_messages_load P i) (\<lambda>loaded. case loaded of
        None \<Rightarrow> prog_return (failed_outcome envelope False None code)
      | Some m \<Rightarrow> cancel_loaded P envelope ?k m)) Q E w'" if "?A w'" for i code w'
    unfolding wp_bind by (rule wp_load [OF A that]) (auto intro!: bad ok cancel wp_case_option)
  show ?thesis
    unfolding handle_cancel_message_def Inr sum.case wp_bind [of "po_findByIdempotencyKey P k" for k]
  proof (rule wp_find_key [OF steady_kept assms(1)]; (rule wp_case_option)?)
    show "E c w'" if "kept ks w'" for c w' using that by (rule bad)
    show "wp (prog_return (outcomeForCancelledMessage envelope m)) Q E w'" if "kept ks w'" for m w'
      using that ok by simp
    show "wp (prog_bind (po_messages_load P (mci_messageId input)) (\<lambda>loaded. case loaded of
          None \<Rightarrow> prog_return (failed_outcome envelope False None ''cancel_message_not_found'')
        | Some m \<Rightarrow> cancel_loaded P envelope ?k m)) Q E w'"
      if "kept ks w'" "x = Option.bind (keys w' ?k) (msgs w')" "x = None" for x w'
      using that(1) found_by_key(1) [OF that] by (intro load) simp
  qed
qed

lemma wp_fail_unless_retryable:
  assumes "kept ks w" "storable (decs w) m" and ok: "\<And>x w'. kept ks w' \<Longrightarrow> Q x w'"
  shows "wp (fail_unless_retryable P envelope m category f) Q E w"
  using assms unfolding fail_unless_retryable_def
  by (auto intro!: wp_saveFailedMessage_process [OF assms(1,2)])

lemma wp_ensureProcessing:
  assumes "kept ks w" "msgs w (msg_id m) = Some m"
    and ok: "\<And>p w'. kept ks w' \<Longrightarrow> msgs w' (msg_id p) = Some p \<Longrightarrow> msg_status p = Msg_processing \<Longrightarrow>
               Q (Inr p) w'"
    and bad: "\<And>f w'. kept ks w' \<Longrightarrow> Q (Inl f) w'"
  shows "wp (ensureProcessing P envelope m) Q E w"
proof (cases "msg_status m = Msg_processing")
  case True
  then show ?thesis using assms(1,2) ok by (simp add: ensureProcessing_def)
next
  case False
  show ?thesis
  proof (cases "markMessageProcessing m")
    case (Inl e)
    then show ?thesis using False assms(1) bad by (simp add: ensureProcessing_def)
  next
    case (Inr p)
    then have p: "message_step MarkMessageProcessing m = Inr p" by (simp add: message_step.simps)
    have st: "msg_status p = Msg_processing" using p by (simp add: message_step_ok_iff)
    have sp: "storable (decs w) p"
      using kept_stored [OF assms(1,2)] storable_step [OF _ p] by simp
    let ?A = "\<lambda>w. kept ks w \<and> msgs w (msg_id p) = Some p"
    have A: "steady ?A" by (intro steady_conj steady_kept steady_view)
    have publish: "wp (publishMessageEvents P envelope p n s) (\<lambda>result. Q (case result of
        Inl failure \<Rightarrow> Inl (pf_retryable failure, pf_code failure) | Inr _ \<Rightarrow> Inr p))
        (\<lambda>_. Q (Inl (True, ''outbound_message_processing_failed''))) w'" if "?A w'" for n s w'
      by (rule wp_quiet [OF quiet_publishMessageEvents A that]) (auto intro: ok bad st split: sum.split)
    show ?thesis
      using False Inr unfolding ensureProcessing_def
      by (auto simp: wp_return_fun intro!: wp_save [OF assms(1) sp] publish bad)
  qed
qed

lemma wp_after_provider:
  assumes "kept ks w" "storable (decs w) p"
    and ok: "\<And>x w'. kept ks w' \<Longrightarrow> Q x w'" and bad: "\<And>c w'. kept ks w' \<Longrightarrow> E c w'"
  shows "wp (after_provider P envelope p answer) Q E w"
proof -
  have sent: "storable (decs w) m" if "markMessageSent p = Inr m" for m
    using that storable_step [OF assms(2), of MarkMessageSent m] by (simp add: message_step.simps)
  show ?thesis
    using assms(1) unfolding after_provider_def
    by (auto split: sum.split
        intro!: wp_case_sum wp_fail_unless_retryable [OF assms(1,2)] wp_saveFailedMessage_process [OF assms(1,2)]
          wp_save [OF assms(1) sent] wp_quiet [OF quiet_publishMessageEvents steady_kept] ok bad)
qed

lemma kept_cleared:
  assumes "kept ks w" "msgs w i = Some p" "msg_status p = Msg_processing"
  shows "cleared (msgs w) (decs w) i"
proof -
  have "msg_id p = i" "storable (decs w) p" using kept_stored [OF assms(1,2)] by simp_all
  then show ?thesis
    using assms(2,3) by (auto simp: cleared_def storable_def message_wf_def)
qed

lemma wp_process_queued:
  assumes "kept ks w" "msgs w (msg_id m) = Some m"
    and ok: "\<And>x w'. kept ks w' \<Longrightarrow> Q x w'" and bad: "\<And>c w'. kept ks w' \<Longrightarrow> E c w'"
  shows "wp (process_queued P envelope ref m) Q E w"
proof -
  let ?A = "\<lambda>p w. kept ks w \<and> msgs w (msg_id p) = Some p"
  have A: "steady (?A p)" for p by (intro steady_conj steady_kept steady_view)
  have stored: "storable (decs w') p" if "?A p w'" for p w'
    using that kept_stored by blast
  have fail: "wp (fail_unless_retryable P envelope m category f) Q E w'" if "?A m w'" for category f w'
    using that by (intro wp_fail_unless_retryable [of ks]) (auto intro: stored ok)
  have answered: "wp (after_provider P envelope p answer) Q E w'" if "?A p w'" for p answer w'
    using that by (intro wp_after_provider [of ks]) (auto intro: stored ok bad)
  have send: "wp (po_sendOutboundMessage P (send_request P envelope resolution p ref) c)
      (\<lambda>answer. wp (after_provider P envelope p answer) Q E) E w'"
    if "?A p w'" "msg_status p = Msg_processing" for resolution p c w'
    by (rule wp_send [OF A that(1)])
      (use that kept_cleared [of ks w' "msg_id p" p] in \<open>auto simp: send_request_def intro: answered bad\<close>)
  have processing: "wp (ensureProcessing P envelope m) (\<lambda>r. wp (case r of
        Inl (retryable, reasonCode) \<Rightarrow>
          prog_return (failed_outcome envelope retryable (Some (msg_id m)) reasonCode)
      | Inr p \<Rightarrow> prog_bind (po_sendOutboundMessage P (send_request P envelope resolution p ref) c)
          (after_provider P envelope p)) Q E) E w'" if "?A m w'" for resolution c w'
    by (rule wp_ensureProcessing [of ks]) (use that in \<open>auto intro!: send ok\<close>)
  show ?thesis
    using assms(1,2) unfolding process_queued_def Let_def wp_bind [of "resolveActiveSession P i c" for i c]
    by (intro wp_quiet [OF quiet_resolveActiveSession A [of m]] wp_case_sum)
      (auto intro!: wp_case_sum wp_quiet [OF quiet_ports(6) A [of m]] fail processing bad)
qed

lemma wp_handle_process_outbound:
  assumes "kept ks w" and ok: "\<And>x w'. kept ks w' \<Longrightarrow> Q x w'" and bad: "\<And>c w'. kept ks w' \<Longrightarrow> E c w'"
  shows "wp (handle_process_outbound P envelope) Q E w"
proof (cases "resolveInput_process envelope")
  case (Inl c)
  then show ?thesis using ok [OF assms(1)] by (simp add: handle_process_outbound_def)
next
  case (Inr input)
  have process: "wp (process_queued P envelope ref m) Q E w'" if "kept ks w'" "msgs w' i = Some m" for ref m i w'
    using that kept_stored [OF that] by (intro wp_process_queued [of ks] ok bad) auto
  show ?thesis
    unfolding handle_process_outbound_def Inr sum.case wp_bind
    by (rule wp_load [OF steady_kept assms(1)]) (auto intro!: wp_case_option process ok bad)
qed

end

end
