(* ===== verification/WorkerRuntime.thy ===== *)
theory WorkerRuntime
  imports DurableQueue AppCommands EventLog
begin

text \<open>
  \<open>apps/worker/src\<close>: the worker runtime (\<open>worker-runtime.ts\<close>), which reserves a job per work type,
  runs its handler and settles the job by the handler's answer, and the handlers that turn a job
  into an application command (\<open>worker-application-handlers.ts\<close>).  The queue port, the handlers and
  the dispatcher act on a state of type \<open>'w\<close>; a call that throws gives the name of the error.
\<close>

section \<open>The queue port\<close>

record 'w queue_provider =
  qp_enqueue :: "queue_work \<Rightarrow> port_context \<Rightarrow> 'w \<Rightarrow> receipt port_result \<times> 'w"
  qp_reserve :: "queue_work_type \<Rightarrow> port_context \<Rightarrow> 'w \<Rightarrow> reservation option port_result \<times> 'w"
  qp_acknowledge :: "reservation \<Rightarrow> port_context \<Rightarrow> 'w \<Rightarrow> receipt port_result \<times> 'w"
  qp_releaseForRetry :: "reservation \<Rightarrow> jsnum \<Rightarrow> port_context \<Rightarrow> 'w \<Rightarrow> receipt port_result \<times> 'w"
  qp_moveToDeadLetter :: "reservation \<Rightarrow> string \<Rightarrow> port_context \<Rightarrow> 'w \<Rightarrow> receipt port_result \<times> 'w"

text \<open>The durable queue, read at one time, beside whatever else the state holds.\<close>

definition durable_provider ::
    "'r job_repository \<Rightarrow> int \<Rightarrow> int \<Rightarrow> ('r durable_queue \<times> 'h) queue_provider" where
  "durable_provider repo timeout now =
     \<lparr>qp_enqueue = (\<lambda>work c (q, h). let (a, q') = enqueue repo now work q in (a, (q', h))),
      qp_reserve = (\<lambda>t c (q, h). let (a, q') = reserve repo timeout now t q in (a, (q', h))),
      qp_acknowledge = (\<lambda>r c (q, h). let (a, q') = acknowledge repo now r q in (a, (q', h))),
      qp_releaseForRetry =
        (\<lambda>r d c (q, h). let (a, q') = releaseForRetry repo now r d q in (a, (q', h))),
      qp_moveToDeadLetter =
        (\<lambda>r code c (q, h). let (a, q') = moveToDeadLetter repo now r code q in (a, (q', h)))\<rparr>"

section \<open>worker-runtime.ts\<close>

datatype handler_outcome =
  Handler_completed | Handler_retry jsnum string | Handler_dead string

record worker_runtime_job =
  wj_workType :: queue_work_type
  wj_reservation :: reservation

record 'w worker_handler =
  wh_workType :: queue_work_type
  wh_handle :: "worker_runtime_job \<Rightarrow> port_context \<Rightarrow> 'w \<Rightarrow> handler_outcome port_result call \<times> 'w"

datatype job_outcome_status =
  Job_outcome_completed | Job_outcome_retried | Job_outcome_dead_lettered | Job_outcome_idle
  | Job_outcome_failed

record job_outcome =
  jo_workType :: queue_work_type
  jo_status :: job_outcome_status
  jo_reservation :: "reservation option"
  jo_receipt :: "receipt option"
  jo_failure :: "port_failure option"

record tick_result =
  tr_attempted :: nat
  tr_completed :: nat
  tr_retried :: nat
  tr_deadLettered :: nat
  tr_idle :: nat
  tr_failed :: nat
  tr_outcomes :: "job_outcome list"

definition toWorkerRuntimeFailure :: "string \<Rightarrow> port_failure" where
  "toWorkerRuntimeFailure errorName =
     createApplicationPortFailure
       \<lparr>pf_category = Port_unknown, pf_code = ''worker_handler_failed'',
        pf_message = ''Worker handler failed before a safe outcome was recorded.'',
        pf_retryable = True, pf_ownerContext = Some Owner_operations,
        pf_failureCategory = Some Fail_unexpected,
        pf_safeMetadata = Some [(''errorName'', Port_string errorName)]\<rparr>"

text \<open>\<open>acknowledge\<close>, \<open>releaseForRetry\<close> and \<open>moveToDeadLetter\<close> report alike.\<close>

definition settled ::
    "queue_work_type \<Rightarrow> reservation \<Rightarrow> job_outcome_status \<Rightarrow> receipt port_result \<Rightarrow> job_outcome" where
  "settled workType r status result =
     (case result of
        Inl failure \<Rightarrow> \<lparr>jo_workType = workType, jo_status = Job_outcome_failed,
          jo_reservation = Some r, jo_receipt = None, jo_failure = Some failure\<rparr>
      | Inr rcpt \<Rightarrow> \<lparr>jo_workType = workType, jo_status = status,
          jo_reservation = Some r, jo_receipt = Some rcpt, jo_failure = None\<rparr>)"

definition acknowledge_job ::
    "'w queue_provider \<Rightarrow> queue_work_type \<Rightarrow> reservation \<Rightarrow> port_context \<Rightarrow> 'w \<Rightarrow> job_outcome \<times> 'w" where
  "acknowledge_job queue workType r context w =
     (let (result, w') = qp_acknowledge queue r context w
      in (settled workType r Job_outcome_completed result, w'))"

definition release_job ::
    "'w queue_provider \<Rightarrow> queue_work_type \<Rightarrow> reservation \<Rightarrow> jsnum \<Rightarrow> port_context \<Rightarrow> 'w \<Rightarrow>
     job_outcome \<times> 'w" where
  "release_job queue workType r delayMilliseconds context w =
     (let (result, w') = qp_releaseForRetry queue r delayMilliseconds context w
      in (settled workType r Job_outcome_retried result, w'))"

definition bury_job ::
    "'w queue_provider \<Rightarrow> queue_work_type \<Rightarrow> reservation \<Rightarrow> string \<Rightarrow> port_context \<Rightarrow> 'w \<Rightarrow>
     job_outcome \<times> 'w" where
  "bury_job queue workType r reasonCode context w =
     (let (result, w') = qp_moveToDeadLetter queue r reasonCode context w
      in (settled workType r Job_outcome_dead_lettered result, w'))"

definition applyHandlerOutcome ::
    "'w queue_provider \<Rightarrow> queue_work_type \<Rightarrow> reservation \<Rightarrow> handler_outcome \<Rightarrow> port_context \<Rightarrow> 'w \<Rightarrow>
     job_outcome \<times> 'w" where
  "applyHandlerOutcome queue workType r outcome context w =
     (case outcome of
        Handler_completed \<Rightarrow> acknowledge_job queue workType r context w
      | Handler_retry delay reasonCode \<Rightarrow> release_job queue workType r delay context w
      | Handler_dead reasonCode \<Rightarrow> bury_job queue workType r reasonCode context w)"

definition applyHandlerFailure ::
    "'w queue_provider \<Rightarrow> int \<Rightarrow> queue_work_type \<Rightarrow> reservation \<Rightarrow> port_failure \<Rightarrow> port_context \<Rightarrow> 'w \<Rightarrow>
     job_outcome \<times> 'w" where
  "applyHandlerFailure queue retryDelay workType r failure context w =
     (if pf_retryable failure then release_job queue workType r (num_of retryDelay) context w
      else bury_job queue workType r (pf_code failure) context w)"

definition invokeHandler ::
    "'w worker_handler \<Rightarrow> reservation \<Rightarrow> port_context \<Rightarrow> 'w \<Rightarrow> handler_outcome port_result \<times> 'w" where
  "invokeHandler handler r context w =
     (case wh_handle handler \<lparr>wj_workType = wh_workType handler, wj_reservation = r\<rparr> context w of
        (Inr result, w') \<Rightarrow> (result, w')
      | (Inl cause, w') \<Rightarrow> (Inl (toWorkerRuntimeFailure cause), w'))"

definition runHandlerOnce ::
    "'w queue_provider \<Rightarrow> int \<Rightarrow> 'w worker_handler \<Rightarrow> port_context \<Rightarrow> 'w \<Rightarrow> job_outcome \<times> 'w" where
  "runHandlerOnce queue retryDelay handler context w =
     (case qp_reserve queue (wh_workType handler) context w of
        (Inl failure, w1) \<Rightarrow>
          (\<lparr>jo_workType = wh_workType handler, jo_status = Job_outcome_failed,
            jo_reservation = None, jo_receipt = None, jo_failure = Some failure\<rparr>, w1)
      | (Inr None, w1) \<Rightarrow>
          (\<lparr>jo_workType = wh_workType handler, jo_status = Job_outcome_idle,
            jo_reservation = None, jo_receipt = None, jo_failure = None\<rparr>, w1)
      | (Inr (Some r), w1) \<Rightarrow>
          (case invokeHandler handler r context w1 of
             (Inl failure, w2) \<Rightarrow>
               applyHandlerFailure queue retryDelay (wh_workType handler) r failure context w2
           | (Inr outcome, w2) \<Rightarrow>
               applyHandlerOutcome queue (wh_workType handler) r outcome context w2))"

definition summarizeOutcomes :: "job_outcome list \<Rightarrow> tick_result" where
  "summarizeOutcomes outcomes =
     \<lparr>tr_attempted = length (filter (\<lambda>j. jo_status j \<noteq> Job_outcome_idle) outcomes),
      tr_completed = length (filter (\<lambda>j. jo_status j = Job_outcome_completed) outcomes),
      tr_retried = length (filter (\<lambda>j. jo_status j = Job_outcome_retried) outcomes),
      tr_deadLettered = length (filter (\<lambda>j. jo_status j = Job_outcome_dead_lettered) outcomes),
      tr_idle = length (filter (\<lambda>j. jo_status j = Job_outcome_idle) outcomes),
      tr_failed = length (filter (\<lambda>j. jo_status j = Job_outcome_failed) outcomes),
      tr_outcomes = outcomes\<rparr>"

fun run_handlers ::
    "'w queue_provider \<Rightarrow> int \<Rightarrow> 'w worker_handler list \<Rightarrow> port_context \<Rightarrow> job_outcome list \<Rightarrow> 'w \<Rightarrow>
     job_outcome list \<times> 'w" where
  "run_handlers queue retryDelay [] context outcomes w = (outcomes, w)"
| "run_handlers queue retryDelay (h # hs) context outcomes w =
     (let (outcome, w') = runHandlerOnce queue retryDelay h context w
      in run_handlers queue retryDelay hs context (outcomes @ [outcome]) w')"

definition runOnce ::
    "'w queue_provider \<Rightarrow> int \<Rightarrow> 'w worker_handler list \<Rightarrow> port_context \<Rightarrow> 'w \<Rightarrow> tick_result \<times> 'w" where
  "runOnce queue retryDelay handlers context w =
     (let (outcomes, w') = run_handlers queue retryDelay handlers context [] w
      in (summarizeOutcomes outcomes, w'))"

fun duplicate_handler :: "queue_work_type list \<Rightarrow> queue_work_type list \<Rightarrow> queue_work_type option" where
  "duplicate_handler seen [] = None"
| "duplicate_handler seen (t # ts) = (if t \<in> set seen then Some t else duplicate_handler (t # seen) ts)"

definition assertUniqueHandlers :: "queue_work_type list \<Rightarrow> unit result" where
  "assertUniqueHandlers workTypes =
     (case duplicate_handler [] workTypes of
        None \<Rightarrow> Inr ()
      | Some t \<Rightarrow> Inl (TypeError (''Duplicate WorkerJobHandler for '' @ queue_work_type_name t @ ''.'')))"

section \<open>worker-application-handlers.ts\<close>

type_synonym 'w dispatcher = "command_envelope \<Rightarrow> 'w \<Rightarrow> command_outcome call \<times> 'w"

definition workerRuntimeActorRef :: string where
  "workerRuntimeActorRef = ''worker-runtime''"

fun defaultWorkerCommandByWorkType :: "queue_work_type \<Rightarrow> command_name" where
  "defaultWorkerCommandByWorkType Work_outbound_message = Cmd_ProcessOutboundMessageWork"
| "defaultWorkerCommandByWorkType Work_media_processing = Cmd_ProcessMediaWork"
| "defaultWorkerCommandByWorkType Work_webhook_delivery = Cmd_DeliverWebhookWork"
| "defaultWorkerCommandByWorkType Work_reconnect = Cmd_ReconnectInstance"
| "defaultWorkerCommandByWorkType Work_retention_cleanup = Cmd_CleanupMediaRetention"
| "defaultWorkerCommandByWorkType Work_health_refresh = Cmd_RefreshHealthStatus"

definition commandRefFor :: "worker_runtime_job \<Rightarrow> string" where
  "commandRefFor job =
     ''worker:'' @ queue_work_type_name (wj_workType job) @ '':'' @ rsv_jobId (wj_reservation job) @
     '':attempt:'' @ show_int (rsv_attempt (wj_reservation job))"

definition targetRefFor :: "worker_runtime_job \<Rightarrow> command_name \<Rightarrow> string" where
  "targetRefFor job commandName =
     (let r = wj_reservation job;
          messageId = (case rsv_safeMetadata r of None \<Rightarrow> None | Some m \<Rightarrow> sm_messageId m)
      in if commandName = Cmd_ProcessOutboundMessageWork \<and> messageId \<noteq> None
         then the messageId
         else if commandName = Cmd_ProcessOutboundMessageWork \<and> rsv_ownerRef r \<noteq> None
         then the (rsv_ownerRef r)
         else rsv_jobId r)"

definition safeInputRefFor :: "worker_runtime_job \<Rightarrow> command_name \<Rightarrow> string option" where
  "safeInputRefFor job commandName =
     (if commandName \<noteq> Cmd_ProcessOutboundMessageWork then None
      else nullish
        (case rsv_safeMetadata (wj_reservation job) of None \<Rightarrow> None | Some m \<Rightarrow> sm_outboundIntentRef m)
        (rsv_safeInputRef (wj_reservation job)))"

definition idempotencyKeyFor :: "worker_runtime_job \<Rightarrow> port_context \<Rightarrow> string" where
  "idempotencyKeyFor job context =
     value_or (px_idempotencyKey context) ''worker'' @ '':'' @
     queue_work_type_name (wj_workType job) @ '':'' @ rsv_jobId (wj_reservation job) @
     '':attempt:'' @ show_int (rsv_attempt (wj_reservation job))"

definition toWorkerApplicationFailure :: "string \<Rightarrow> command_name \<Rightarrow> port_failure" where
  "toWorkerApplicationFailure errorName commandName =
     createApplicationPortFailure
       \<lparr>pf_category = Port_unknown, pf_code = ''worker_application_dispatch_failed'',
        pf_message =
          ''Worker Application command dispatch failed before a safe outcome was recorded.'',
        pf_retryable = True, pf_ownerContext = Some Owner_operations,
        pf_failureCategory = Some Fail_unexpected,
        pf_safeMetadata = Some [(''errorName'', Port_string errorName),
          (''commandName'', Port_string (command_name_text commandName))]\<rparr>"

definition handler_answer :: "command_name \<Rightarrow> int \<Rightarrow> command_outcome \<Rightarrow> handler_outcome" where
  "handler_answer commandName retryDelay outcome =
     (let named = (\<lambda>suffix. value_or (co_reasonCode outcome)
                     (js_lower (command_name_text commandName) @ suffix))
      in case co_outcome outcome of
           Outcome_completed \<Rightarrow> Handler_completed
         | Outcome_accepted \<Rightarrow> Handler_completed
         | Outcome_queued \<Rightarrow> Handler_completed
         | Outcome_waiting \<Rightarrow> Handler_retry (num_of retryDelay) (named ''_not_ready'')
         | Outcome_action_required \<Rightarrow> Handler_retry (num_of retryDelay) (named ''_not_ready'')
         | Outcome_failed \<Rightarrow>
             (if co_retryable outcome then Handler_retry (num_of retryDelay) (named ''_failed'')
              else Handler_dead (named ''_failed_terminal''))
         | Outcome_rejected \<Rightarrow> Handler_dead (named ''_dead'')
         | Outcome_cancelled \<Rightarrow> Handler_dead (named ''_dead'')
         | Outcome_dead_lettered \<Rightarrow> Handler_dead (named ''_dead''))"

definition worker_envelope ::
    "command_name \<Rightarrow> worker_runtime_job \<Rightarrow> port_context \<Rightarrow> command_envelope_input" where
  "worker_envelope commandName job context =
     \<lparr>cei_name = command_name_text commandName, cei_commandRef = commandRefFor job,
      cei_requestContext = px_requestContext context,
      cei_targetRef = Some (targetRefFor job commandName),
      cei_actorRef = Some (value_or (px_actorRef context) workerRuntimeActorRef),
      cei_idempotencyKey = Some (idempotencyKeyFor job context),
      cei_safeInputRef = safeInputRefFor job commandName,
      cei_dataClassification = Some (value_or (px_dataClassification context) Data_internal)\<rparr>"

definition dispatchWorkerCommand ::
    "'w dispatcher \<Rightarrow> command_name \<Rightarrow> int \<Rightarrow> worker_runtime_job \<Rightarrow> port_context \<Rightarrow> 'w \<Rightarrow>
     handler_outcome port_result call \<times> 'w" where
  "dispatchWorkerCommand dispatch commandName retryDelay job context w =
     (case createApplicationCommandEnvelope (worker_envelope commandName job context) of
        Inl _ \<Rightarrow> (Inr (Inl (toWorkerApplicationFailure ''TypeError'' commandName)), w)
      | Inr envelope \<Rightarrow>
          (case dispatch envelope w of
             (Inl cause, w') \<Rightarrow> (Inr (Inl (toWorkerApplicationFailure cause commandName)), w')
           | (Inr outcome, w') \<Rightarrow> (Inr (Inr (handler_answer commandName retryDelay outcome)), w')))"

definition createApplicationWorkerHandler ::
    "'w dispatcher \<Rightarrow> queue_work_type \<Rightarrow> command_name \<Rightarrow> int \<Rightarrow> 'w worker_handler" where
  "createApplicationWorkerHandler dispatch workType commandName retryDelay =
     \<lparr>wh_workType = workType, wh_handle = dispatchWorkerCommand dispatch commandName retryDelay\<rparr>"

definition createApplicationWorkerHandlers ::
    "'w dispatcher \<Rightarrow> (queue_work_type \<Rightarrow> command_name) \<Rightarrow> int \<Rightarrow> 'w worker_handler list" where
  "createApplicationWorkerHandlers dispatch commandByWorkType retryDelay =
     map (\<lambda>workType. createApplicationWorkerHandler dispatch workType (commandByWorkType workType)
            retryDelay) queueWorkTypes"

end
