(* ===== verification/MessageWorld.thy ===== *)
theory MessageWorld
  imports MessageHandlersLaws MemoryRepositories WorkerRuntime
begin

text \<open>
  The message handlers over the in-memory repositories and intent store, beside a queue, an event
  publisher and a messaging provider of the environment.  The provider keeps every request with
  the message and the guardrail decision that are stored when it arrives.
\<close>

section \<open>The state behind the ports\<close>

type_synonym sent_message = "provider_request \<times> message option \<times> guardrail_decision option"

record ('q, 'l) outbound_world =
  ow_instances :: "wa_instance stored"
  ow_sessions :: "session stored"
  ow_messages :: message_store
  ow_decisions :: "guardrail_decision stored"
  ow_intents :: "unit intent_store"
  ow_queue :: 'q
  ow_log :: 'l
  ow_uuids :: nat
  ow_now :: int
  ow_sent :: "sent_message list"

text \<open>What the environment decides: the queue, the publisher, the random identities, the provider.\<close>

record ('q, 'l) environment =
  en_queue :: "'q queue_provider"
  en_publish :: "publisher_input \<Rightarrow> ('l, (domain_event \<times> platform_event) list port_result) prog"
  en_uuid :: "nat \<Rightarrow> string"
  en_provider :: "provider_request \<Rightarrow> nat \<Rightarrow> provider_result port_result call"
  en_providerId :: identity

definition prog_read :: "('w \<Rightarrow> 'a) \<Rightarrow> ('w, 'a) prog" where
  "prog_read f w = (Inr (f w), w)"

definition prog_change :: "('w \<Rightarrow> 'w) \<Rightarrow> ('w, unit) prog" where
  "prog_change f w = (Inr (), f w)"

text \<open>A program on a part of the state.\<close>

definition on_part :: "('w \<Rightarrow> 'p) \<Rightarrow> ('p \<Rightarrow> 'w \<Rightarrow> 'w) \<Rightarrow> ('p, 'a) prog \<Rightarrow> ('w, 'a) prog" where
  "on_part get put m w = (let (x, p) = m (get w) in (x, put p w))"

definition stored_decision :: "('q, 'l) outbound_world \<Rightarrow> identity \<Rightarrow> guardrail_decision option" where
  "stored_decision w i = stored_load i (ow_decisions w)"

definition stored_message :: "('q, 'l) outbound_world \<Rightarrow> identity \<Rightarrow> message option" where
  "stored_message w i = messages_load i (ow_messages w)"

definition hand_over ::
    "('q, 'l) environment \<Rightarrow> provider_request \<Rightarrow> (('q, 'l) outbound_world, provider_result port_result) prog" where
  "hand_over en request w =
     (let m = stored_message w (prq_messageId request);
          d = Option.bind (Option.bind m msg_guardrailDecisionId) (stored_decision w)
      in (en_provider en request (length (ow_sent w)), w\<lparr>ow_sent := ow_sent w @ [(request, m, d)]\<rparr>))"

definition world_ports :: "('q, 'l) environment \<Rightarrow> ('q, 'l) outbound_world app_ports" where
  "world_ports en =
     \<lparr>po_instances_load = (\<lambda>i. prog_read (\<lambda>w. stored_load i (ow_instances w))),
      po_getCurrentSessionId = (\<lambda>i. prog_read (\<lambda>w. getCurrentSessionId i (ow_instances w))),
      po_sessions_load = (\<lambda>i. prog_read (\<lambda>w. stored_load i (ow_sessions w))),
      po_messages_load = (\<lambda>i. prog_read (\<lambda>w. stored_message w i)),
      po_messages_save = (\<lambda>m. prog_change (\<lambda>w. w\<lparr>ow_messages := messages_save m (ow_messages w)\<rparr>)),
      po_findByIdempotencyKey = (\<lambda>k. prog_read (\<lambda>w. messages_findByIdempotencyKey k (ow_messages w))),
      po_recordIdempotencyKey = (\<lambda>k i. prog_change
        (\<lambda>w. w\<lparr>ow_messages := messages_recordIdempotencyKey k i (ow_messages w)\<rparr>)),
      po_findByEvaluatedIntent = (\<lambda>ref. prog_read (\<lambda>w. findByEvaluatedIntent ref (ow_decisions w))),
      po_decisions_save = (\<lambda>d. prog_change
        (\<lambda>w. w\<lparr>ow_decisions := stored_save gd_id d (ow_decisions w)\<rparr>)),
      po_bindMessageIntent = (\<lambda>ref i c. on_part ow_intents (\<lambda>s w. w\<lparr>ow_intents := s\<rparr>)
        (prog_call (bindMessageIntent persist_nothing ref i))),
      po_findTextIntentByMessage = (\<lambda>i c. prog_read (\<lambda>w. findTextIntentByMessage (ow_now w) i (ow_intents w))),
      po_verifyTextIntent = (\<lambda>ref c. prog_read (\<lambda>w. verifyTextIntent (ow_now w) ref (ow_intents w))),
      po_resolveTextIntent = (\<lambda>ref c. prog_read (\<lambda>w. resolveTextIntent (ow_now w) ref (ow_intents w))),
      po_enqueue = (\<lambda>work c. on_part ow_queue (\<lambda>q w. w\<lparr>ow_queue := q\<rparr>)
        (prog_call (qp_enqueue (en_queue en) work c))),
      po_sendOutboundMessage = (\<lambda>request c. hand_over en request),
      po_publishNewEvents = (\<lambda>input. on_part ow_log (\<lambda>l w. w\<lparr>ow_log := l\<rparr>) (en_publish en input)),
      po_uuid = (\<lambda>w. (Inr (en_uuid en (ow_uuids w)), w\<lparr>ow_uuids := ow_uuids w + 1\<rparr>)),
      po_providerId = en_providerId en\<rparr>"

section \<open>Commands\<close>

text \<open>The handler of a command by its name; other commands do not concern messages.\<close>

definition handle_message_command ::
    "'w app_ports \<Rightarrow> command_envelope \<Rightarrow> ('w, command_outcome) prog" where
  "handle_message_command P envelope =
     (if ce_name envelope = Cmd_SendTextMessage then handle_send_text P envelope
      else if ce_name envelope = Cmd_RetryMessageSend then handle_retry_message P envelope
      else if ce_name envelope = Cmd_CancelMessage then handle_cancel_message P envelope
      else handle_process_outbound P envelope)"

datatype world_command =
    Handle_command command_envelope
  | Store_intent text_intent_input
  | Save_instance wa_instance
  | Save_session session
  | Pass_time int

fun world_step ::
    "('q, 'l) environment \<Rightarrow> world_command \<Rightarrow> ('q, 'l) outbound_world \<Rightarrow> ('q, 'l) outbound_world" where
  "world_step en (Handle_command envelope) w = snd (handle_message_command (world_ports en) envelope w)"
| "world_step en (Store_intent input) w =
     w\<lparr>ow_intents := snd (storeTextIntent persist_nothing (ow_now w) (en_uuid en (ow_uuids w)) input
         (ow_intents w)),
       ow_uuids := ow_uuids w + 1\<rparr>"
| "world_step en (Save_instance a) w = w\<lparr>ow_instances := stored_save inst_id a (ow_instances w)\<rparr>"
| "world_step en (Save_session s) w = w\<lparr>ow_sessions := stored_save sess_id s (ow_sessions w)\<rparr>"
| "world_step en (Pass_time t) w = w\<lparr>ow_now := t\<rparr>"

definition world_run ::
    "('q, 'l) environment \<Rightarrow> world_command list \<Rightarrow> ('q, 'l) outbound_world \<Rightarrow> ('q, 'l) outbound_world" where
  "world_run en cs w = fold (world_step en) cs w"

definition empty_world :: "'q \<Rightarrow> 'l \<Rightarrow> ('q, 'l) outbound_world" where
  "empty_world q l =
     \<lparr>ow_instances = [], ow_sessions = [], ow_messages = \<lparr>mst_records = [], mst_keys = Map.empty\<rparr>,
      ow_decisions = [], ow_intents = createInMemoryIntentStore, ow_queue = q, ow_log = l,
      ow_uuids = 0, ow_now = 0, ow_sent = []\<rparr>"

section \<open>The ports keep their laws\<close>

text \<open>Every message handed over was processing under an allowing decision when it was.\<close>

fun sent_cleared :: "sent_message \<Rightarrow> bool" where
  "sent_cleared (request, Some m, Some d) \<longleftrightarrow>
     msg_id m = prq_messageId request \<and> msg_direction m = Dir_outbound \<and>
     msg_status m = Msg_processing \<and> msg_guardrailDecisionId m = Some (gd_id d) \<and> allowing d"
| "sent_cleared (request, None, d) \<longleftrightarrow> False"
| "sent_cleared (request, m, None) \<longleftrightarrow> False"

definition recorded_key :: "('q, 'l) outbound_world \<Rightarrow> string \<Rightarrow> identity option" where
  "recorded_key w = mst_keys (ow_messages w)"

definition world_fine :: "('q, 'l) outbound_world \<Rightarrow> bool" where
  "world_fine w \<longleftrightarrow> list_all sent_cleared (ow_sent w) \<and> stored_ok gd_id (ow_decisions w)"

lemma wp_read [simp]: "wp (prog_read f) Q E w = Q (f w) w"
  by (simp add: wp_def prog_read_def)

lemma wp_change [simp]: "wp (prog_change f) Q E w = Q () (f w)"
  by (simp add: wp_def prog_change_def)

lemma wp_on_part [simp]:
  "wp (on_part get put m) Q E w = wp m (\<lambda>x p. Q x (put p w)) (\<lambda>c p. E c (put p w)) (get w)"
  by (simp add: wp_def on_part_def Let_def split: prod.split sum.split)

lemma wp_anything: "(\<And>x w'. Q x w') \<Longrightarrow> (\<And>c w'. E c w') \<Longrightarrow> wp m Q E w"
  by (simp add: wp_def split: prod.split sum.split)

lemmas observations = stored_message_def stored_decision_def recorded_key_def world_fine_def

interpretation seen: observed stored_message recorded_key stored_decision world_fine .

lemma seen_same_other [simp]:
  "seen.same w (w\<lparr>ow_intents := s\<rparr>)" "seen.same w (w\<lparr>ow_queue := q\<rparr>)" "seen.same w (w\<lparr>ow_log := l\<rparr>)"
  "seen.same w (w\<lparr>ow_uuids := n\<rparr>)" "seen.same w (w\<lparr>ow_now := t\<rparr>)"
  "seen.same w (w\<lparr>ow_instances := i\<rparr>)" "seen.same w (w\<lparr>ow_sessions := ss\<rparr>)"
  by (simp_all add: seen.same_def observations fun_eq_iff)

lemma hand_over_same:
  assumes "cleared (stored_message w) (stored_decision w) (prq_messageId request)"
  shows "wp (hand_over en request) (\<lambda>_. seen.same w) (\<lambda>_. seen.same w) w"
proof -
  obtain m d where m: "stored_message w (prq_messageId request) = Some m" "sent_cleared (request, Some m, Some d)"
      "stored_decision w (gd_id d) = Some d" "msg_guardrailDecisionId m = Some (gd_id d)"
    using assms by (auto simp: cleared_def)
  then show ?thesis
    by (auto simp: wp_def hand_over_def Let_def seen.same_def observations fun_eq_iff split: sum.split)
qed

interpretation outbound: outbound_ports stored_message recorded_key stored_decision world_fine "world_ports en"
proof
  fix w :: "('a, 'b) outbound_world" and i k ref m d r c p work
  show "wp (po_messages_save (world_ports en) m)
      (\<lambda>_ w'. stored_message w' = (stored_message w)(msg_id m \<mapsto> m) \<and> recorded_key w' = recorded_key w \<and>
        stored_decision w' = stored_decision w \<and> (world_fine w \<longrightarrow> world_fine w'))
      (\<lambda>_. seen.same w) w"
    by (auto simp: world_ports_def observations fun_eq_iff messages_save_def messages_load_def stored_load_def
        stored_save_def update_conv')
  show "wp (po_recordIdempotencyKey (world_ports en) k i)
      (\<lambda>_ w'. stored_message w' = stored_message w \<and> recorded_key w' = (recorded_key w)(k \<mapsto> i) \<and>
        stored_decision w' = stored_decision w \<and> (world_fine w \<longrightarrow> world_fine w'))
      (\<lambda>_. seen.same w) w"
    by (auto simp: world_ports_def observations fun_eq_iff messages_recordIdempotencyKey_def messages_load_def)
  show "wp (po_decisions_save (world_ports en) d)
      (\<lambda>_ w'. stored_message w' = stored_message w \<and> recorded_key w' = recorded_key w \<and>
        stored_decision w' = (stored_decision w)(gd_id d \<mapsto> d) \<and> (world_fine w \<longrightarrow> world_fine w'))
      (\<lambda>_. seen.same w) w"
    by (auto simp: world_ports_def observations fun_eq_iff stored_load_def stored.saved_ok)
      (auto simp: stored_save_def update_conv')
  show "wp (po_findByIdempotencyKey (world_ports en) k)
      (\<lambda>x w'. seen.same w w' \<and> x = Option.bind (recorded_key w k) (stored_message w)) (\<lambda>_. seen.same w) w"
    by (auto simp: world_ports_def observations messages_findByIdempotencyKey_def split: option.split)
  show "wp (po_findByEvaluatedIntent (world_ports en) ref)
      (\<lambda>x w'. seen.same w w' \<and> (\<forall>d. x = Some d \<longrightarrow> stored_decision w (gd_id d) = Some d)) (\<lambda>_. seen.same w) w"
    if "world_fine w"
    using that stored.find_first_Some [of gd_id "ow_decisions w"]
    by (auto simp: world_ports_def observations findByEvaluatedIntent_def)
  show "wp (po_sendOutboundMessage (world_ports en) r c) (\<lambda>_. seen.same w) (\<lambda>_. seen.same w) w"
    if "cleared (stored_message w) (stored_decision w) (prq_messageId r)"
    using hand_over_same [OF that] by (simp add: world_ports_def)
  show "wp (po_uuid (world_ports en)) (\<lambda>_. seen.same w) (\<lambda>_. seen.same w) w"
    by (simp add: world_ports_def wp_def)
qed (auto simp: world_ports_def intro: wp_anything)

end
