(* ===== verification/MessageWorldLaws.thy ===== *)
theory MessageWorldLaws
  imports MessageWorld
begin

text \<open>
  What the handlers guarantee over the in-memory world: the invariant along any run, and what the
  processing of one queued message does on every answer of the provider.
\<close>

section \<open>Runs\<close>

lemma kept_step:
  assumes kept: "seen.kept ks w"
  shows "seen.kept ks (world_step en c w)"
proof (cases "\<exists>envelope. c = Handle_command envelope")
  case True
  then obtain envelope where c: "c = Handle_command envelope" by blast
  have "wp (handle_message_command (world_ports en) envelope) (\<lambda>_. seen.kept ks) (\<lambda>_. seen.kept ks) w"
    unfolding handle_message_command_def
    by (auto intro!: outbound.wp_handle_send_text [OF kept] outbound.wp_handle_retry_message [OF kept]
        outbound.wp_handle_cancel_message [OF kept] outbound.wp_handle_process_outbound [OF kept])
  then show ?thesis by (simp add: c wp_state)
next
  case False
  then have "seen.same w (world_step en c w)"
    by (cases c) (simp_all add: seen.same_def observations fun_eq_iff)
  then show ?thesis by (rule seen.steady_same [OF seen.steady_kept kept])
qed

lemma kept_run: "seen.kept ks w \<Longrightarrow> seen.kept ks (world_run en cs w)"
  unfolding world_run_def by (induction cs arbitrary: w) (simp_all add: kept_step)

lemma kept_empty: "seen.kept Map.empty (empty_world q l)"
  by (simp add: seen.kept_def observations empty_world_def stored_load_def stored_ok_def messages_load_def)

lemma kept_reached: "seen.kept Map.empty (world_run en cs (empty_world q l))"
  by (rule kept_run [OF kept_empty])

section \<open>The ports, evaluated\<close>

lemma world_port_simps [simp]:
  "po_instances_load (world_ports en) i w = (Inr (stored_load i (ow_instances w)), w)"
  "po_sessions_load (world_ports en) i w = (Inr (stored_load i (ow_sessions w)), w)"
  "po_messages_load (world_ports en) i w = (Inr (stored_message w i), w)"
  "po_messages_save (world_ports en) m w = (Inr (), w\<lparr>ow_messages := messages_save m (ow_messages w)\<rparr>)"
  "po_findByIdempotencyKey (world_ports en) k w =
     (Inr (messages_findByIdempotencyKey k (ow_messages w)), w)"
  "po_verifyTextIntent (world_ports en) ref c w = (Inr (verifyTextIntent (ow_now w) ref (ow_intents w)), w)"
  "po_providerId (world_ports en) = en_providerId en"
  by (simp_all add: world_ports_def prog_read_def prog_change_def)

lemma findByIdempotencyKey_seen:
  "messages_findByIdempotencyKey k (ow_messages w) = Option.bind (recorded_key w k) (stored_message w)"
  by (simp add: messages_findByIdempotencyKey_def recorded_key_def stored_message_def split: option.split)

lemma stored_message_saved [simp]:
  "stored_message (w\<lparr>ow_messages := messages_save m (ow_messages w)\<rparr>) = (stored_message w)(msg_id m \<mapsto> m)"
  by (auto simp: stored_message_def messages_save_def messages_load_def stored_load_def stored_save_def
      update_conv')

lemma stored_message_other [simp]:
  "stored_message (w\<lparr>ow_intents := s\<rparr>) = stored_message w"
  "stored_message (w\<lparr>ow_queue := q\<rparr>) = stored_message w"
  "stored_message (w\<lparr>ow_log := l\<rparr>) = stored_message w"
  "stored_message (w\<lparr>ow_uuids := n\<rparr>) = stored_message w"
  "stored_message (w\<lparr>ow_sent := ss\<rparr>) = stored_message w"
  "stored_message (w\<lparr>ow_decisions := ds\<rparr>) = stored_message w"
  by (simp_all add: stored_message_def fun_eq_iff)

section \<open>A session that sends\<close>

definition sending_session ::
    "identity \<Rightarrow> session_resolution \<Rightarrow> ('q, 'l) outbound_world \<Rightarrow> bool" where
  "sending_session i r w \<longleftrightarrow>
     stored_load i (ow_instances w) = Some (sr_instance r) \<and>
     inst_status (sr_instance r) = Inst_connected \<and>
     inst_currentSessionId (sr_instance r) = Some (sr_sessionId r) \<and>
     stored_load (sr_sessionId r) (ow_sessions w) = Some (sr_session r) \<and>
     sess_instanceId (sr_session r) = inst_id (sr_instance r) \<and> sess_status (sr_session r) = Sess_active"

lemma resolveActiveSession_world:
  "sending_session i r w \<Longrightarrow> resolveActiveSession (world_ports en) i c w = (Inr (Inr r), w)"
  by (cases r) (simp add: sending_session_def resolveActiveSession_def judge_session_def Let_def
      isSessionSendCapable_def prog_catch_def prog_bind_def)

section \<open>Publishing\<close>

definition publishes :: "('q, 'l) environment \<Rightarrow> bool" where
  "publishes en \<longleftrightarrow> (\<forall>input l. \<exists>x l'. en_publish en input l = (Inr (Inr x), l'))"

lemma publish_world:
  assumes "publishes en"
  shows "publishMessageEvents (world_ports en) envelope m n phase w =
    (Inr (Inr ()), w\<lparr>ow_log := snd (en_publish en
       \<lparr>pi_aggregateEvents = msg_domainEvents m, pi_baseEventCount = num_of (int n),
        pi_executionRef = ce_commandRef envelope @ '':message:'' @ phase,
        pi_context = commandContext envelope\<rparr> (ow_log w))\<rparr>)"
proof -
  obtain x l' where "en_publish en
       \<lparr>pi_aggregateEvents = msg_domainEvents m, pi_baseEventCount = num_of (int n),
        pi_executionRef = ce_commandRef envelope @ '':message:'' @ phase,
        pi_context = commandContext envelope\<rparr> (ow_log w) = (Inr (Inr x), l')"
    using assms unfolding publishes_def by blast
  then show ?thesis
    by (simp add: publishMessageEvents_def publish_message_events_def published_def world_ports_def
        on_part_def prog_bind_def)
qed

section \<open>Processing a queued message\<close>

definition processing_of :: "message \<Rightarrow> message" where
  "processing_of m =
     (if msg_status m = Msg_processing then m
      else case markMessageProcessing m of Inl _ \<Rightarrow> m | Inr p \<Rightarrow> p)"

lemma processing_of:
  assumes "msg_status m = Msg_queued \<or> msg_status m = Msg_processing"
  shows "msg_status (processing_of m) = Msg_processing" "msg_id (processing_of m) = msg_id m"
    and "msg_status m \<noteq> Msg_processing \<Longrightarrow> markMessageProcessing m = Inr (processing_of m)"
proof -
  have "\<exists>p. message_step MarkMessageProcessing m = Inr p"
    using assms by (auto simp: message_step_ok_iff)
  then obtain p where p: "message_step MarkMessageProcessing m = Inr p" "markMessageProcessing m = Inr p"
    by (auto simp: message_step.simps)
  have "msg_status p = Msg_processing" "msg_id p = msg_id m"
    using p(1) by (simp_all add: message_step_ok_iff)
  then show "msg_status (processing_of m) = Msg_processing" "msg_id (processing_of m) = msg_id m"
    by (simp_all add: processing_of_def p(2))
  show "markMessageProcessing m = Inr (processing_of m)" if "msg_status m \<noteq> Msg_processing"
    using that by (simp add: processing_of_def p(2))
qed

lemma ensureProcessing_world:
  assumes "publishes en" "msg_status m = Msg_queued \<or> msg_status m = Msg_processing"
    and "stored_message w (msg_id m) = Some m"
  shows "\<exists>w'. ensureProcessing (world_ports en) envelope m w = (Inr (Inr (processing_of m)), w') \<and>
     stored_message w' (msg_id m) = Some (processing_of m) \<and> ow_sent w' = ow_sent w"
proof (cases "msg_status m = Msg_processing")
  case True
  then show ?thesis using assms(3) by (simp add: ensureProcessing_def processing_of_def)
next
  case False
  then show ?thesis
    using processing_of [OF assms(2)]
    by (simp add: ensureProcessing_def prog_catch_def publish_world [OF assms(1)])
qed

definition handed ::
    "('q, 'l) environment \<Rightarrow> command_envelope \<Rightarrow> session_resolution \<Rightarrow> message \<Rightarrow> string \<Rightarrow> provider_request" where
  "handed en envelope r m ref = send_request (world_ports en) envelope r (processing_of m) ref"

lemma hand_over_world:
  "po_sendOutboundMessage (world_ports en) request c w =
     (en_provider en request (length (ow_sent w)),
      w\<lparr>ow_sent := ow_sent w @ [(request, stored_message w (prq_messageId request),
          Option.bind (Option.bind (stored_message w (prq_messageId request)) msg_guardrailDecisionId)
            (stored_decision w))]\<rparr>)"
  by (simp add: world_ports_def hand_over_def Let_def)

lemma process_queued_world:
  assumes "publishes en" "msg_status m = Msg_queued \<or> msg_status m = Msg_processing"
    and "stored_message w (msg_id m) = Some m" "sending_session (msg_instanceId m) r w"
    and "verifyTextIntent (ow_now w) ref (ow_intents w) = Inr receipt"
    and "en_provider en (handed en envelope r m ref) (length (ow_sent w)) = Inr answer"
  shows "\<exists>w' d. process_queued (world_ports en) envelope ref m w =
       after_provider (world_ports en) envelope (processing_of m) answer w' \<and>
     stored_message w' (msg_id m) = Some (processing_of m) \<and>
     ow_sent w' = ow_sent w @ [(handed en envelope r m ref, Some (processing_of m), d)]"
proof -
  obtain w1 where w1: "ensureProcessing (world_ports en) envelope m w = (Inr (Inr (processing_of m)), w1)"
      "stored_message w1 (msg_id m) = Some (processing_of m)" "ow_sent w1 = ow_sent w"
    using ensureProcessing_world [OF assms(1-3)] by blast
  have i: "prq_messageId (handed en envelope r m ref) = msg_id m"
    by (simp add: handed_def send_request_def processing_of [OF assms(2)])
  define w' where "w' = w1\<lparr>ow_sent := ow_sent w @ [(handed en envelope r m ref, Some (processing_of m),
    Option.bind (msg_guardrailDecisionId (processing_of m)) (stored_decision w1))]\<rparr>"
  have "process_queued (world_ports en) envelope ref m w =
      after_provider (world_ports en) envelope (processing_of m) answer w'"
    using resolveActiveSession_world [OF assms(4), of en "commandContext envelope"] w1 i assms(6)
    by (simp add: process_queued_def Let_def assms(5) prog_bind_def hand_over_world handed_def w'_def)
  then show ?thesis using w1(2) by (intro exI [of _ w'] exI conjI) (simp_all add: w'_def)
qed

text \<open>What becomes of the message, and the answer, for each answer of the provider.\<close>

definition settled_message :: "provider_result \<Rightarrow> message \<Rightarrow> command_outcome \<Rightarrow> bool" where
  "settled_message answer m out \<longleftrightarrow>
     (if prs_status answer = Send_accepted
      then msg_status m = Msg_sent \<and> co_outcome out = Outcome_completed \<and> co_accepted out
      else if prs_retryable answer
      then msg_status m = Msg_processing \<and> co_outcome out = Outcome_failed \<and> co_retryable out
      else msg_status m = Msg_failed \<and>
        msg_failureCategory m = Some (value_or (prs_failureCategory answer) Fail_provider) \<and>
        co_outcome out = Outcome_failed \<and> \<not> co_retryable out)"

lemma after_provider_world:
  assumes "publishes en" "msg_status p = Msg_processing" "stored_message w (msg_id p) = Some p"
  shows "\<exists>out w' m'. after_provider (world_ports en) envelope p (Inr answer) w = (Inr out, w') \<and>
     ow_sent w' = ow_sent w \<and> stored_message w' (msg_id p) = Some m' \<and> settled_message answer m' out"
proof -
  obtain s where s: "markMessageSent p = Inr s" "msg_status s = Msg_sent" "msg_id s = msg_id p"
    using assms(2) message_step_ok_iff [of MarkMessageSent p] by (auto simp: message_step.simps)
  obtain f where f: "failMessage p c = Inr (f c)" "msg_status (f c) = Msg_failed" "msg_id (f c) = msg_id p"
      "msg_failureCategory (f c) = Some c" for c
    using assms(2) message_step_ok_iff [of "FailMessage c" p for c] by (auto simp: message_step.simps)
  show ?thesis
    using assms(2,3) s f
    by (auto simp: after_provider_def settled_message_def publish_world [OF assms(1)] commandOutcome_def
        createApplicationCommandOutcome_def failed_outcome_def saveFailedMessage_process_def prog_catch_def)
qed

end
