(* ===== verification/MessageRaces.thy ===== *)
theory MessageRaces
  imports MessageWorldLaws
begin

text \<open>
  A cancellation that runs while the send handler awaits the queue: the handler goes on with the
  message it holds and overwrites the cancelled one.  The queue port of \<open>cancelling\<close> runs the
  cancel handler before it answers.
\<close>

definition cancelling ::
    "('q, 'l) environment \<Rightarrow> command_envelope \<Rightarrow> ('q, 'l) outbound_world app_ports" where
  "cancelling en cancel =
     (world_ports en)\<lparr>po_enqueue := (\<lambda>work c w.
        let (x, w1) = po_enqueue (world_ports en) work c w
        in (x, snd (handle_cancel_message (world_ports en) cancel w1)))\<rparr>"

section \<open>Only the queue port differs\<close>

lemma other_ports [simp]:
  "po_instances_load (P\<lparr>po_enqueue := f\<rparr>) = po_instances_load P"
  "po_getCurrentSessionId (P\<lparr>po_enqueue := f\<rparr>) = po_getCurrentSessionId P"
  "po_sessions_load (P\<lparr>po_enqueue := f\<rparr>) = po_sessions_load P"
  "po_messages_load (P\<lparr>po_enqueue := f\<rparr>) = po_messages_load P"
  "po_messages_save (P\<lparr>po_enqueue := f\<rparr>) = po_messages_save P"
  "po_findByIdempotencyKey (P\<lparr>po_enqueue := f\<rparr>) = po_findByIdempotencyKey P"
  "po_recordIdempotencyKey (P\<lparr>po_enqueue := f\<rparr>) = po_recordIdempotencyKey P"
  "po_findByEvaluatedIntent (P\<lparr>po_enqueue := f\<rparr>) = po_findByEvaluatedIntent P"
  "po_decisions_save (P\<lparr>po_enqueue := f\<rparr>) = po_decisions_save P"
  "po_bindMessageIntent (P\<lparr>po_enqueue := f\<rparr>) = po_bindMessageIntent P"
  "po_resolveTextIntent (P\<lparr>po_enqueue := f\<rparr>) = po_resolveTextIntent P"
  "po_publishNewEvents (P\<lparr>po_enqueue := f\<rparr>) = po_publishNewEvents P"
  "po_uuid (P\<lparr>po_enqueue := f\<rparr>) = po_uuid P"
  by simp_all

lemma resolveActiveSession_queue [simp]: "resolveActiveSession (P\<lparr>po_enqueue := f\<rparr>) = resolveActiveSession P"
  by (intro ext) (unfold resolveActiveSession_def other_ports, rule refl)

lemma createDecision_queue [simp]: "createDecision (P\<lparr>po_enqueue := f\<rparr>) = createDecision P"
  by (intro ext) (unfold createDecision_def other_ports, rule refl)

lemma fresh_identity_queue [simp]: "fresh_identity (P\<lparr>po_enqueue := f\<rparr>) = fresh_identity P"
  by (intro ext) (unfold fresh_identity_def other_ports, rule refl)

lemma save_under_key_queue [simp]: "save_under_key (P\<lparr>po_enqueue := f\<rparr>) = save_under_key P"
  by (intro ext) (unfold save_under_key_def other_ports, rule refl)

lemma publish_message_events_queue [simp]: "publish_message_events (P\<lparr>po_enqueue := f\<rparr>) = publish_message_events P"
  by (intro ext) (unfold publish_message_events_def other_ports, rule refl)

lemma saveFailedMessage_queue [simp]: "saveFailedMessage (P\<lparr>po_enqueue := f\<rparr>) = saveFailedMessage P"
  by (intro ext) (unfold saveFailedMessage_def other_ports, rule refl)

lemma save_queued_queue [simp]: "save_queued (P\<lparr>po_enqueue := f\<rparr>) = save_queued P"
  by (intro ext) (unfold save_queued_def other_ports, rule refl)

lemma publishDomainEvents_send_queue [simp]: "publishDomainEvents_send (P\<lparr>po_enqueue := f\<rparr>) = publishDomainEvents_send P"
  by (intro ext) (simp only: publishDomainEvents_send_def publish_message_events_queue)

lemma give_up_queue [simp]: "give_up (P\<lparr>po_enqueue := f\<rparr>) = give_up P"
  by (intro ext) (simp only: give_up_def saveFailedMessage_queue)

lemma accept_and_queue_queue [simp]: "accept_and_queue (P\<lparr>po_enqueue := f\<rparr>) = accept_and_queue P"
  by (intro ext) (simp only: accept_and_queue_def save_queued_queue give_up_queue)

section \<open>The ports that change the state\<close>

lemma world_state_ports [simp]:
  "po_recordIdempotencyKey (world_ports en) k i w =
     (Inr (), w\<lparr>ow_messages := messages_recordIdempotencyKey k i (ow_messages w)\<rparr>)"
  "po_resolveTextIntent (world_ports en) ref c w = (Inr (resolveTextIntent (ow_now w) ref (ow_intents w)), w)"
  "po_uuid (world_ports en) w = (Inr (en_uuid en (ow_uuids w)), w\<lparr>ow_uuids := ow_uuids w + 1\<rparr>)"
  by (simp_all add: world_ports_def prog_read_def prog_change_def)

text \<open>What the messages and keys are after a quiet program.\<close>

lemma quiet_seen:
  assumes "outbound.quiet m" "m w = (x, w')"
  shows "stored_message w' = stored_message w" "recorded_key w' = recorded_key w"
  using assms by (auto simp: outbound.quiet_def wp_def seen.same_def split: prod.splits sum.splits
      dest!: spec [of _ w])

lemma co_outcome_simps [simp]:
  "co_outcome (passed_on e oc f i) = oc" "co_outcome (failed_outcome e r i c) = Outcome_failed"
  "co_outcome (commandOutcome e oc a r i n) = oc" "co_accepted (commandOutcome e oc a r i n) = a"
  by (simp_all add: passed_on_def failed_outcome_def commandOutcome_def createApplicationCommandOutcome_def)

lemma createDecision_world:
  assumes "createDecision (world_ports en) input c w = (Inr (Inr d), w')"
  shows "guardrail_passing (Some d) (Some (gi_outboundIntentRef input))"
    and "stored_message w' = stored_message w" "recorded_key w' = recorded_key w"
proof -
  have "wp (createDecision (world_ports en) input c)
      (\<lambda>x w'. stored_message w' = stored_message w \<and> recorded_key w' = recorded_key w \<and>
         (\<forall>d. x = Inr d \<longrightarrow> guardrail_passing (Some d) (Some (gi_outboundIntentRef input))))
      (\<lambda>_ _. True) w"
    unfolding createDecision_def Let_def
    by (auto simp: world_ports_def recorded_key_def stored_message_def fun_eq_iff intro!: outbound.wp_case_sum
        split: if_splits)
  from wp_ok [OF this assms]
  show "guardrail_passing (Some d) (Some (gi_outboundIntentRef input))"
    "stored_message w' = stored_message w" "recorded_key w' = recorded_key w" by simp_all
qed

lemma save_under_key_world:
  "save_under_key (world_ports en) k m w =
     (Inr True, w\<lparr>ow_messages := messages_recordIdempotencyKey k (msg_id m) (messages_save m (ow_messages w))\<rparr>)"
  by (simp add: save_under_key_def prog_catch_def)

lemma recorded_key_recorded [simp]:
  "recorded_key (w\<lparr>ow_messages := messages_recordIdempotencyKey k i (messages_save m ms)\<rparr>) = (mst_keys ms)(k \<mapsto> i)"
  "stored_message (w\<lparr>ow_messages := messages_recordIdempotencyKey k i ms\<rparr>) = stored_message (w\<lparr>ow_messages := ms\<rparr>)"
  by (simp_all add: recorded_key_def messages_recordIdempotencyKey_def messages_save_def fun_eq_iff
      stored_message_def messages_load_def)

lemma prog_bind_InrE:
  assumes "prog_bind m f w = (Inr y, w2)"
  obtains x w' where "m w = (Inr x, w')" "f x w' = (Inr y, w2)"
  using assms by (auto simp: prog_bind_Inr)

text \<open>A first sending that is answered \<open>queued\<close> got as far as the queue, over any queue port.\<close>

lemma send_text_stages:
  assumes input: "resolveInput_send envelope = Inr input"
    and fresh: "recorded_key w (sti_idempotencyKey input) = None"
    and sent: "handle_send_text (world_ports en) envelope w = (Inr out, w1)" "co_outcome out = Outcome_queued"
  shows "\<exists>m d w2. (\<forall>f. handle_send_text ((world_ports en)\<lparr>po_enqueue := f\<rparr>) envelope w =
       queue_new_message ((world_ports en)\<lparr>po_enqueue := f\<rparr>) envelope m d (sti_outboundIntentRef input)
         (''send_text:'' @ sti_idempotencyKey input) (publishDomainEvents_send (world_ports en) envelope d) w2) \<and>
     (\<exists>i. m = new_message (msg_id m) i Type_text) \<and>
     guardrail_passing (Some d) (Some (sti_outboundIntentRef input)) \<and>
     stored_message w2 (msg_id m) = Some m \<and>
     recorded_key w2 = (recorded_key w)(sti_idempotencyKey input \<mapsto> msg_id m)"
proof -
  let ?P = "world_ports en" and ?c = "commandContext envelope"
  note [simp del] = append_Cons
  have none: "po_findByIdempotencyKey ?P (sti_idempotencyKey input) w = (Inr None, w)"
    by (simp add: findByIdempotencyKey_seen fresh)
  then have new: "send_new_text ?P envelope input w = (Inr out, w1)"
    using sent(1) by (simp add: handle_send_text_def input)
  obtain x wa where x: "resolveActiveSession ?P (sti_instanceId input) ?c w = (Inr x, wa)"
      "(case x of Inl failure \<Rightarrow> prog_return (passed_on envelope Outcome_failed failure None)
        | Inr resolution \<Rightarrow>
          prog_bind (po_resolveTextIntent ?P (sti_outboundIntentRef input) ?c) (\<lambda>intentResult.
          case intentResult of
            Inl failure \<Rightarrow> prog_return (passed_on envelope Outcome_failed failure None)
          | Inr _ \<Rightarrow>
          decide_and_queue ?P envelope (sti_outboundIntentRef input) (inst_id (sr_instance resolution)) Type_text
            (sti_idempotencyKey input) (''send_text:'' @ sti_idempotencyKey input)
            ''send_text_message_save_failed'' None (publishDomainEvents_send ?P envelope))) wa = (Inr out, w1)"
    using new unfolding send_new_text_def Let_def by (rule prog_bind_InrE)
  obtain r where r: "resolveActiveSession ?P (sti_instanceId input) ?c w = (Inr (Inr r), wa)" "x = Inr r"
    using x sent(2) by (cases x) auto
  obtain t where t: "resolveTextIntent (ow_now wa) (sti_outboundIntentRef input) (ow_intents wa) = Inr t"
    using x(2) sent(2) by (cases "resolveTextIntent (ow_now wa) (sti_outboundIntentRef input) (ow_intents wa)")
      (auto simp: r(2))
  let ?ref = "sti_outboundIntentRef input" and ?i = "inst_id (sr_instance r)" and ?k = "sti_idempotencyKey input"
  have decide: "decide_and_queue ?P envelope ?ref ?i Type_text ?k (''send_text:'' @ ?k)
      ''send_text_message_save_failed'' None (publishDomainEvents_send ?P envelope) wa = (Inr out, w1)"
    using x(2) t by (simp add: r(2))
  obtain gi wb where gi: "fresh_identity ?P ''guardrail:'' ''GuardrailDecisionId'' wa = (Inr gi, wb)"
    using decide unfolding decide_and_queue_def by (auto elim: prog_bind_InrE)
  let ?in = "\<lparr>gi_guardrailDecisionId = gi, gi_outboundIntentRef = ?ref, gi_outcome = None, gi_reasonCode = None\<rparr>"
  have "prog_bind (createDecision ?P ?in ?c) (\<lambda>y. case y of
        Inl failure \<Rightarrow> prog_return (passed_on envelope Outcome_rejected failure None)
      | Inr decision \<Rightarrow> save_and_queue ?P envelope ?ref ?i Type_text ?k (''send_text:'' @ ?k)
          ''send_text_message_save_failed'' (publishDomainEvents_send ?P envelope decision) decision) wb =
      (Inr out, w1)"
    using decide gi by (simp add: decide_and_queue_def)
  then obtain y wc where y: "createDecision ?P ?in ?c wb = (Inr y, wc)"
      "(case y of Inl failure \<Rightarrow> prog_return (passed_on envelope Outcome_rejected failure None)
        | Inr decision \<Rightarrow> save_and_queue ?P envelope ?ref ?i Type_text ?k (''send_text:'' @ ?k)
            ''send_text_message_save_failed'' (publishDomainEvents_send ?P envelope decision) decision) wc = (Inr out, w1)"
    by (rule prog_bind_InrE)
  obtain d where d: "createDecision ?P ?in ?c wb = (Inr (Inr d), wc)" "y = Inr d"
    using y sent(2) by (cases y) auto
  have save: "save_and_queue ?P envelope ?ref ?i Type_text ?k (''send_text:'' @ ?k)
      ''send_text_message_save_failed'' (publishDomainEvents_send ?P envelope d) d wc = (Inr out, w1)"
    using y(2) by (simp add: d(2))
  obtain mi wd where mi: "fresh_identity ?P ''msg:'' ''MessageId'' wc = (Inr mi, wd)"
    using save unfolding save_and_queue_def by (auto elim: prog_bind_InrE)
  let ?m = "new_message mi ?i Type_text"
  define w2 where "w2 = snd (save_under_key ?P ?k ?m wd)"
  have queue: "handle_send_text (?P\<lparr>po_enqueue := f\<rparr>) envelope w =
       queue_new_message (?P\<lparr>po_enqueue := f\<rparr>) envelope ?m d ?ref (''send_text:'' @ ?k)
         (publishDomainEvents_send ?P envelope d) w2" for f
    using none r(1) t gi d(1) mi
    by (simp add: handle_send_text_def input send_new_text_def decide_and_queue_def save_and_queue_def
        Let_def w2_def save_under_key_world)
  have "stored_message wd = stored_message w" "recorded_key wd = recorded_key w"
    using quiet_seen [OF outbound.quiet_resolveActiveSession r(1)] quiet_seen [OF outbound.quiet_fresh_identity gi]
      quiet_seen [OF outbound.quiet_fresh_identity mi] createDecision_world [OF d(1)] by simp_all
  then show ?thesis
    using queue createDecision_world(1) [OF d(1)]
    by (intro exI [of _ ?m] exI [of _ d] exI [of _ w2])
      (auto simp: w2_def save_under_key_world recorded_key_def [of wd, symmetric])
qed

section \<open>From the queue on\<close>

lemma new_message_queues:
  "\<exists>m1 q. acceptMessage (new_message i j t) g = Inr m1 \<and> queueMessage m1 = Inr q \<and>
     msg_status q = Msg_queued \<and> msg_id q = i"
proof -
  let ?m = "new_message i j t"
  have m: "msg_status ?m = Msg_created" "msg_direction ?m = Dir_outbound" "msg_id ?m = i"
    by (simp_all add: new_message_def createOutboundMessageIntent_def baseMessage_def)
  obtain m1 where m1: "message_step (AcceptMessage g) ?m = Inr m1" "msg_status m1 = Msg_evaluated"
      "msg_guardrailDecisionId m1 = Some g" "msg_id m1 = i"
    using m by (simp add: message_step_ok_iff)
  obtain q where "message_step QueueMessage m1 = Inr q" "msg_status q = Msg_queued" "msg_id q = i"
    using m1(2-4) by (simp add: message_step_ok_iff)
  then show ?thesis using m1(1) by (auto simp: message_step.simps)
qed

lemma publish_events_world:
  assumes "publishes en"
  shows "\<exists>l. publish_message_events (world_ports en) envelope es n suffix w = (Inr (Inr ()), w\<lparr>ow_log := l\<rparr>)"
proof -
  obtain x l' where "en_publish en
       \<lparr>pi_aggregateEvents = es, pi_baseEventCount = num_of (int n),
        pi_executionRef = ce_commandRef envelope @ suffix, pi_context = commandContext envelope\<rparr> (ow_log w) =
      (Inr (Inr x), l')"
    using assms unfolding publishes_def by blast
  then show ?thesis
    by (intro exI [of _ l'])
      (simp add: publish_message_events_def published_def world_ports_def on_part_def prog_bind_def)
qed

lemma publish_send_world:
  assumes "publishes en"
  shows "\<exists>l. publishDomainEvents_send (world_ports en) envelope d m w = (Inr (Inr ()), w\<lparr>ow_log := l\<rparr>)"
proof -
  obtain l1 where l1: "publish_message_events (world_ports en) envelope (gd_domainEvents d) 0 '':guardrail'' w =
      (Inr (Inr ()), w\<lparr>ow_log := l1\<rparr>)"
    using publish_events_world [OF assms] by blast
  obtain l2 where "publish_message_events (world_ports en) envelope (msg_domainEvents m) 0 '':message''
      (w\<lparr>ow_log := l1\<rparr>) = (Inr (Inr ()), w\<lparr>ow_log := l1, ow_log := l2\<rparr>)"
    using publish_events_world [OF assms] by blast
  then show ?thesis using l1 by (intro exI [of _ l2]) (simp add: publishDomainEvents_send_def)
qed

lemma recorded_key_other [simp]:
  "recorded_key (w\<lparr>ow_log := l\<rparr>) = recorded_key w"
  "recorded_key (w\<lparr>ow_messages := messages_save m (ow_messages w)\<rparr>) = recorded_key w"
  by (simp_all add: recorded_key_def messages_save_def)

lemma accept_and_queue_world:
  assumes "publishes en" "guardrail_passing (Some d) (Some ref)"
  shows "\<exists>w' q. accept_and_queue (world_ports en) envelope (new_message i j t) d ref
       (publishDomainEvents_send (world_ports en) envelope d) w =
       (Inr (commandOutcome envelope Outcome_queued True False (Some i) None), w') \<and>
     stored_message w' = (stored_message w)(i \<mapsto> q) \<and> msg_status q = Msg_queued \<and>
     recorded_key w' = recorded_key w"
proof -
  obtain m1 q where q: "acceptMessage (new_message i j t) (gd_id d) = Inr m1" "queueMessage m1 = Inr q"
      "msg_status q = Msg_queued" "msg_id q = i"
    using new_message_queues by blast
  let ?w1 = "w\<lparr>ow_messages := messages_save q (ow_messages w)\<rparr>"
  obtain l where l: "publishDomainEvents_send (world_ports en) envelope d q ?w1 = (Inr (Inr ()), ?w1\<lparr>ow_log := l\<rparr>)"
    using publish_send_world [OF assms(1)] by blast
  have "accept_and_queue (world_ports en) envelope (new_message i j t) d ref
       (publishDomainEvents_send (world_ports en) envelope d) w =
       (Inr (commandOutcome envelope Outcome_queued True False (Some i) None), ?w1\<lparr>ow_log := l\<rparr>)"
    using q l by (simp add: accept_and_queue_def acceptMessageAfterGuardrailPass_def assms(2) save_queued_def)
  then show ?thesis using q(3,4) by (intro exI [of _ "?w1\<lparr>ow_log := l\<rparr>"] exI [of _ q]) simp
qed

section \<open>The cancellation\<close>

lemma cancel_world:
  assumes "publishes en" "resolveInput_cancel cancel = Inr input"
    and "recorded_key w (mci_idempotencyKey input) = None"
    and "stored_message w (mci_messageId input) = Some m" "msg_id m = mci_messageId input"
    and "isCancellableMessage m"
  shows "\<exists>w' c. handle_cancel_message (world_ports en) cancel w = (Inr (outcomeForCancelledMessage cancel c), w') \<and>
     stored_message w' = (stored_message w)(msg_id m \<mapsto> c) \<and> msg_id c = msg_id m \<and>
     msg_status c = Msg_cancelled \<and> recorded_key w' = (recorded_key w)(mci_idempotencyKey input \<mapsto> msg_id m)"
proof -
  let ?P = "world_ports en" and ?k = "mci_idempotencyKey input"
  have st: "msg_status m \<in> {Msg_created, Msg_evaluated, Msg_queued, Msg_processing}"
    using assms(6) by (simp add: isCancellableMessage_def)
  then obtain c where c: "message_step CancelMessage m = Inr c" "msg_status c = Msg_cancelled" "msg_id c = msg_id m"
    by (auto simp: message_step_ok_iff)
  let ?w1 = "w\<lparr>ow_messages := messages_recordIdempotencyKey ?k (msg_id c) (messages_save c (ow_messages w))\<rparr>"
  obtain l where l: "publish_message_events ?P cancel (msg_domainEvents c) (length (msg_domainEvents m))
      '':cancel-message'' ?w1 = (Inr (Inr ()), ?w1\<lparr>ow_log := l\<rparr>)"
    using publish_events_world [OF assms(1)] by blast
  have save: "save_cancelled ?P ?k m w = (Inr (Some c), ?w1)"
    using c(1) by (simp add: save_cancelled_def message_step.simps prog_catch_def)
  have "cancel_loaded ?P cancel ?k m w = (Inr (outcomeForCancelledMessage cancel c), ?w1\<lparr>ow_log := l\<rparr>)"
    using st assms(6) save l by (auto simp: cancel_loaded_def)
  then have "handle_cancel_message ?P cancel w = (Inr (outcomeForCancelledMessage cancel c), ?w1\<lparr>ow_log := l\<rparr>)"
    using assms(2-4) by (simp add: handle_cancel_message_def findByIdempotencyKey_seen)
  then show ?thesis
    using c(2,3) by (intro exI [of _ "?w1\<lparr>ow_log := l\<rparr>"] exI [of _ c])
      (simp add: recorded_key_def [of w, symmetric])
qed

lemma cancel_repeated:
  assumes "resolveInput_cancel cancel = Inr input" "recorded_key w (mci_idempotencyKey input) = Some i"
    and "stored_message w i = Some m"
  shows "handle_cancel_message (world_ports en) cancel w = (Inr (outcomeForCancelledMessage cancel m), w)"
  using assms by (simp add: handle_cancel_message_def findByIdempotencyKey_seen)

section \<open>Both\<close>

lemma queue_new_message_stages:
  assumes "queue_new_message (world_ports en) envelope m d ref key publish w2 = (Inr out, w1)"
    and "co_outcome out = Outcome_queued"
  obtains b w3 rc w4 where "po_bindMessageIntent (world_ports en) ref (msg_id m) (commandContext envelope) w2 =
      (Inr (Inr b), w3)"
    and "enqueue_message (world_ports en) (commandContext envelope) key ref m w3 = (Inr (Inr rc), w4)"
    and "accept_and_queue (world_ports en) envelope m d ref publish w4 = (Inr out, w1)"
proof -
  have gave_up: False if "give_up (world_ports en) envelope m Outcome_failed f w = (Inr out, w1)" for f w
    using that assms(2) by (auto simp: give_up_def elim!: prog_bind_InrE)
  obtain x w3 where x: "po_bindMessageIntent (world_ports en) ref (msg_id m) (commandContext envelope) w2 = (Inr x, w3)"
      "(case x of Inl failure \<Rightarrow> give_up (world_ports en) envelope m Outcome_failed failure
        | Inr _ \<Rightarrow> prog_bind (enqueue_message (world_ports en) (commandContext envelope) key ref m)
            (\<lambda>queueResult. case queueResult of
               Inl failure \<Rightarrow> give_up (world_ports en) envelope m Outcome_failed failure
             | Inr _ \<Rightarrow> accept_and_queue (world_ports en) envelope m d ref publish)) w3 = (Inr out, w1)"
    using assms(1) unfolding queue_new_message_def by (rule prog_bind_InrE)
  obtain b where b: "x = Inr b" using x(2) gave_up by (cases x) auto
  obtain y w4 where y: "enqueue_message (world_ports en) (commandContext envelope) key ref m w3 = (Inr y, w4)"
      "(case y of Inl failure \<Rightarrow> give_up (world_ports en) envelope m Outcome_failed failure
        | Inr _ \<Rightarrow> accept_and_queue (world_ports en) envelope m d ref publish) w4 = (Inr out, w1)"
    using x(2) unfolding b sum.case by (rule prog_bind_InrE)
  obtain rc where "y = Inr rc" using y(2) gave_up by (cases y) auto
  then show thesis using that x y b by simp
qed

lemma enqueue_cancelling:
  assumes "enqueue_message (world_ports en) c key ref m w = (Inr x, w')"
  shows "enqueue_message (cancelling en cancel) c key ref m w =
    (Inr x, snd (handle_cancel_message (world_ports en) cancel w'))"
  using assms unfolding enqueue_message_def cancelling_def
  by (auto elim!: prog_bind_InrE)

lemma cancel_during_enqueue:
  assumes "publishes en" "resolveInput_send envelope = Inr input"
    and "recorded_key w (sti_idempotencyKey input) = None"
    and "handle_send_text (world_ports en) envelope w = (Inr out, w1)" "co_outcome out = Outcome_queued"
    and cancel: "resolveInput_cancel cancel = Inr cinput" "co_resultRef out = Some (mci_messageId cinput)"
      "recorded_key w (mci_idempotencyKey cinput) = None"
      "mci_idempotencyKey cinput \<noteq> sti_idempotencyKey input"
  shows "\<exists>out' w' m c. handle_send_text (cancelling en cancel) envelope w = (Inr out', w') \<and>
     co_outcome out' = Outcome_queued \<and> co_resultRef out' = co_resultRef out \<and>
     stored_message w' (mci_messageId cinput) = Some m \<and> msg_status m = Msg_queued \<and>
     handle_cancel_message (world_ports en) cancel w' = (Inr c, w') \<and> co_outcome c = Outcome_accepted"
proof -
  let ?P = "world_ports en" and ?k = "sti_idempotencyKey input" and ?ref = "sti_outboundIntentRef input"
  obtain m d w2 i where m: "\<forall>f. handle_send_text (?P\<lparr>po_enqueue := f\<rparr>) envelope w =
        queue_new_message (?P\<lparr>po_enqueue := f\<rparr>) envelope m d ?ref (''send_text:'' @ ?k)
          (publishDomainEvents_send ?P envelope d) w2"
      "m = new_message (msg_id m) i Type_text" "guardrail_passing (Some d) (Some ?ref)"
      "stored_message w2 (msg_id m) = Some m" "recorded_key w2 = (recorded_key w)(?k \<mapsto> msg_id m)"
    using send_text_stages [OF assms(2-5)] by blast
  have "queue_new_message ?P envelope m d ref key publish w2 = (Inr out, w1)"
    if "ref = ?ref" "key = ''send_text:'' @ ?k" "publish = publishDomainEvents_send ?P envelope d" for ref key publish
    using m(1) [rule_format, of "po_enqueue ?P"] assms(4) that by simp
  then obtain b w3 rc w4 where s: "po_bindMessageIntent ?P ?ref (msg_id m) (commandContext envelope) w2 = (Inr (Inr b), w3)"
      "enqueue_message ?P (commandContext envelope) (''send_text:'' @ ?k) ?ref m w3 = (Inr (Inr rc), w4)"
      "accept_and_queue ?P envelope m d ?ref (publishDomainEvents_send ?P envelope d) w4 = (Inr out, w1)"
    using queue_new_message_stages [OF _ assms(5)] by metis
  have id: "msg_id m = mci_messageId cinput"
    using accept_and_queue_world [OF assms(1) m(3), of envelope "msg_id m" i Type_text w4] s(3) cancel(2)
    by (auto simp: m(2) [symmetric])
  have seen: "stored_message w4 = stored_message w2" "recorded_key w4 = recorded_key w2"
    using quiet_seen [OF outbound.quiet_ports(4) s(1)] quiet_seen [OF outbound.quiet_enqueue_message s(2)] by simp_all
  have created: "isCancellableMessage m"
    by (subst m(2)) (simp add: isCancellableMessage_def new_message_def createOutboundMessageIntent_def baseMessage_def)
  obtain wc c where c: "handle_cancel_message ?P cancel w4 = (Inr (outcomeForCancelledMessage cancel c), wc)"
      "recorded_key wc = (recorded_key w4)(mci_idempotencyKey cinput \<mapsto> msg_id m)"
    using cancel_world [OF assms(1) cancel(1), of w4 m] created seen m(4,5) cancel(3,4) id by auto
  obtain w' q where q: "accept_and_queue ?P envelope m d ?ref (publishDomainEvents_send ?P envelope d) wc =
        (Inr (commandOutcome envelope Outcome_queued True False (Some (msg_id m)) None), w')"
      "stored_message w' (msg_id m) = Some q" "msg_status q = Msg_queued" "recorded_key w' = recorded_key wc"
    using accept_and_queue_world [OF assms(1) m(3), of envelope "msg_id m" i Type_text wc]
    by (auto simp: m(2) [symmetric])
  have bind: "po_bindMessageIntent (cancelling en cancel) = po_bindMessageIntent ?P"
    and accept: "accept_and_queue (cancelling en cancel) = accept_and_queue ?P"
    by (simp_all add: cancelling_def)
  have "handle_send_text (cancelling en cancel) envelope w =
      (Inr (commandOutcome envelope Outcome_queued True False (Some (msg_id m)) None), w')"
    using m(1) [rule_format, of "\<lambda>work c w. let (x, w1) = po_enqueue ?P work c w
        in (x, snd (handle_cancel_message ?P cancel w1))"] s(1) enqueue_cancelling [OF s(2), of cancel] c(1) q(1)
    unfolding cancelling_def [symmetric] by (simp add: queue_new_message_def bind accept)
  moreover have "handle_cancel_message ?P cancel w' = (Inr (outcomeForCancelledMessage cancel q), w')"
    by (rule cancel_repeated [OF cancel(1) _ q(2)]) (simp add: q(4) c(2))
  ultimately show ?thesis
    using q(2,3) cancel(2) id by (auto simp: outcomeForCancelledMessage_def)
qed

end
