(* ===== verification/IntentStoreLaws.thy ===== *)
theory IntentStoreLaws
  imports IntentStore
begin

text \<open>
  An intent that was stored is found again under its reference, with its recipient and text,
  whatever is bound to it and whatever is stored under other references, until it expires.
\<close>

section \<open>The intent under a reference\<close>

definition intent_at :: "string \<Rightarrow> stored_intent list \<Rightarrow> stored_intent option" where
  "intent_at ref intents = List.find (\<lambda>intent. si_outboundIntentRef intent = ref) intents"

lemma intent_at_simps [simp]:
  "intent_at ref [] = None"
  "intent_at ref (x # xs) = (if si_outboundIntentRef x = ref then Some x else intent_at ref xs)"
  by (simp_all add: intent_at_def)

lemma indexOf_intent_simps [simp]:
  "indexOf_intent ref [] = None"
  "indexOf_intent ref (x # xs) =
     (if si_outboundIntentRef x = ref then Some 0 else map_option Suc (indexOf_intent ref xs))"
  by (simp_all add: indexOf_intent_def)

lemma indexOf_intent_None: "indexOf_intent ref xs = None \<Longrightarrow> intent_at ref xs = None"
  by (induction xs) auto

lemma indexOf_intent_Some: "indexOf_intent ref xs = Some n \<Longrightarrow> intent_at ref xs = Some (xs ! n)"
  by (induction xs arbitrary: n) (auto split: if_splits)

lemma intent_at_update:
  "indexOf_intent ref xs = Some n \<Longrightarrow> si_outboundIntentRef e = ref \<Longrightarrow>
     intent_at ref' (xs[n := e]) = (if ref' = ref then Some e else intent_at ref' xs)"
  by (induction xs arbitrary: n) (auto split: if_splits)

lemma intent_at_append:
  "intent_at ref (xs @ [e]) =
     (case intent_at ref xs of
        Some x \<Rightarrow> Some x | None \<Rightarrow> if si_outboundIntentRef e = ref then Some e else None)"
  by (induction xs) auto

lemma intent_at_ref: "intent_at ref xs = Some e \<Longrightarrow> si_outboundIntentRef e = ref"
  by (induction xs) (auto split: if_splits)

lemma findAvailableTextIntent_at:
  "findAvailableTextIntent now ref intents =
     (case intent_at ref intents of
        None \<Rightarrow> Inl (intentFailure Port_rejected ''outbound_intent_not_found'' (Some ref))
      | Some e \<Rightarrow>
          if isExpired_intent e now
          then Inl (intentFailure Port_rejected ''outbound_intent_expired'' (Some ref))
          else Inr e)"
proof (cases "indexOf_intent ref intents")
  case None
  then show ?thesis by (simp add: findAvailableTextIntent_def indexOf_intent_None [OF None])
next
  case (Some n)
  then show ?thesis by (simp add: findAvailableTextIntent_def indexOf_intent_Some [OF Some])
qed

section \<open>The operations\<close>

lemma set_intents_intents [simp]: "is_intents (snd (set_intents persist intents s)) = intents"
  by (auto simp: set_intents_def split: prod.split option.split)

lemma set_intents_result:
  "snd (case set_intents persist intents s of (b, s') \<Rightarrow> (f b, s')) = snd (set_intents persist intents s)"
  by (simp split: prod.split)

lemma bindMessageIntent_at:
  "intent_at ref' (is_intents (snd (bindMessageIntent persist ref i s))) =
     (if ref' = ref then map_option (\<lambda>e. e\<lparr>si_messageId := Some i,
          si_messageIds := Some (addBindingMessageId e i)\<rparr>) (intent_at ref (is_intents s))
      else intent_at ref' (is_intents s))"
proof (cases "indexOf_intent ref (is_intents s)")
  case None
  then show ?thesis by (simp add: bindMessageIntent_def indexOf_intent_None [OF None])
next
  case (Some n)
  let ?e = "is_intents s ! n"
  have at: "intent_at ref (is_intents s) = Some ?e" by (rule indexOf_intent_Some [OF Some])
  have "snd (bindMessageIntent persist ref i s) =
      snd (set_intents persist ((is_intents s)[n := ?e\<lparr>si_messageId := Some i,
        si_messageIds := Some (addBindingMessageId ?e i)\<rparr>]) s)"
    by (simp add: bindMessageIntent_def Some Let_def split: prod.split)
  then show ?thesis
    using intent_at_ref [OF at] by (simp add: at intent_at_update [OF Some])
qed

definition input_ref :: "string \<Rightarrow> text_intent_input \<Rightarrow> string" where
  "input_ref uuid input = value_or (tii_outboundIntentRef input) (''outbound_intent:'' @ uuid)"

text \<open>References come from \<open>createOutboundMessageIntentRef\<close>, so they are safe tokens.\<close>

definition input_ok :: "string \<Rightarrow> text_intent_input \<Rightarrow> bool" where
  "input_ok uuid input \<longleftrightarrow> safe_token (input_ref uuid input)"

lemma createOutboundMessageIntentRef_id [simp]:
  "safe_token t \<Longrightarrow> createOutboundMessageIntentRef t = Inr t"
  using createDomainIdentity_id [of t "''OutboundMessageIntentRef''"]
  by (auto simp: createOutboundMessageIntentRef_def createDomainIdentity_def Let_def split: if_splits)

text \<open>What \<open>storeTextIntent\<close> puts under the reference.\<close>

definition stored_entry ::
    "int \<Rightarrow> string \<Rightarrow> text_intent_input \<Rightarrow> int option \<Rightarrow> stored_intent list \<Rightarrow> stored_intent" where
  "stored_entry now ref input expiresAt intents =
     (let fresh = \<lparr>si_outboundIntentRef = ref, si_recipientRef = js_trim (tii_recipientRef input),
        si_text = tii_text input,
        si_createdAt = (case intent_at ref intents of None \<Rightarrow> now | Some e \<Rightarrow> si_createdAt e),
        si_expiresAt = expiresAt, si_messageId = None, si_messageIds = None\<rparr>
      in case intent_at ref intents of None \<Rightarrow> fresh | Some e \<Rightarrow> mergeExistingBinding fresh e)"

lemma mergeExistingBinding_fields [simp]:
  "si_outboundIntentRef (mergeExistingBinding a b) = si_outboundIntentRef a"
  "si_recipientRef (mergeExistingBinding a b) = si_recipientRef a"
  "si_text (mergeExistingBinding a b) = si_text a"
  "si_createdAt (mergeExistingBinding a b) = si_createdAt a"
  "si_expiresAt (mergeExistingBinding a b) = si_expiresAt a"
  by (simp_all add: mergeExistingBinding_def split: option.split)

lemma stored_entry_fields [simp]:
  "si_outboundIntentRef (stored_entry now ref input ex intents) = ref"
  "si_recipientRef (stored_entry now ref input ex intents) = js_trim (tii_recipientRef input)"
  "si_text (stored_entry now ref input ex intents) = tii_text input"
  "si_expiresAt (stored_entry now ref input ex intents) = ex"
  by (simp_all add: stored_entry_def Let_def split: option.split)

lemma createTextInput_fields:
  "createTextOutboundMessageIntentInput input = Inr (safe, ex) \<Longrightarrow>
     safe = input\<lparr>tii_recipientRef := js_trim (tii_recipientRef input)\<rparr> \<and>
     ex = Option.bind (tii_expiresAt input) safe_integer_of"
  by (auto simp: createTextOutboundMessageIntentInput_def result_simps split: option.splits)

lemma storeTextIntent_at:
  assumes "input_ok uuid input" "createTextOutboundMessageIntentInput input = Inr (safe, ex)"
  shows "intent_at ref' (is_intents (snd (storeTextIntent persist now uuid input s))) =
     (if ref' = input_ref uuid input
      then Some (stored_entry now (input_ref uuid input) input ex (is_intents s))
      else intent_at ref' (is_intents s))"
proof -
  let ?ref = "input_ref uuid input" and ?xs = "is_intents s"
  have safe: "safe = input\<lparr>tii_recipientRef := js_trim (tii_recipientRef input)\<rparr>"
    using createTextInput_fields [OF assms(2)] by simp
  have fields: "tii_recipientRef safe = js_trim (tii_recipientRef input)" "tii_text safe = tii_text input"
    by (simp_all add: safe)
  have ref: "(case tii_outboundIntentRef safe of Some ref \<Rightarrow> Inr ref
      | None \<Rightarrow> createGeneratedOutboundIntentRef uuid) = Inr ?ref"
    using assms(1) by (auto simp: safe input_ok_def input_ref_def createGeneratedOutboundIntentRef_def
        value_or_def split: option.splits)
  define fresh where "fresh = \<lparr>si_outboundIntentRef = ?ref, si_recipientRef = js_trim (tii_recipientRef input),
        si_text = tii_text input,
        si_createdAt = (case indexOf_intent ?ref ?xs of None \<Rightarrow> now | Some n \<Rightarrow> si_createdAt (?xs ! n)),
        si_expiresAt = ex, si_messageId = None, si_messageIds = None\<rparr>"
  define intents where "intents = (case indexOf_intent ?ref ?xs of None \<Rightarrow> ?xs @ [fresh]
      | Some n \<Rightarrow> ?xs[n := mergeExistingBinding fresh (?xs ! n)])"
  have "is_intents (snd (storeTextIntent persist now uuid input s)) = intents"
    unfolding storeTextIntent_def assms(2) result_bind_Inr prod.case ref result_map_Inr sum.case Let_def
    unfolding set_intents_result set_intents_intents intents_def fresh_def fields ..
  moreover have "intent_at ref' intents = (if ref' = ?ref then Some (stored_entry now ?ref input ex ?xs)
      else intent_at ref' ?xs)"
  proof (cases "indexOf_intent ?ref ?xs")
    case None
    then show ?thesis
      by (auto simp: intents_def fresh_def intent_at_append stored_entry_def Let_def
          indexOf_intent_None [OF None] split: option.split)
  next
    case (Some n)
    then show ?thesis
      by (auto simp: intents_def intent_at_update fresh_def stored_entry_def Let_def
          indexOf_intent_Some [OF Some])
  qed
  ultimately show ?thesis by simp
qed

section \<open>Runs\<close>

datatype intent_call = Bind_intent string identity | Put_intent int string text_intent_input

fun do_intent :: "'d intent_persist \<Rightarrow> intent_call \<Rightarrow> 'd intent_store \<Rightarrow> 'd intent_store" where
  "do_intent persist (Bind_intent ref i) s = snd (bindMessageIntent persist ref i s)"
| "do_intent persist (Put_intent now uuid input) s = snd (storeTextIntent persist now uuid input s)"

definition intent_run :: "'d intent_persist \<Rightarrow> intent_call list \<Rightarrow> 'd intent_store \<Rightarrow> 'd intent_store" where
  "intent_run persist calls s = fold (do_intent persist) calls s"

fun elsewhere :: "string \<Rightarrow> intent_call \<Rightarrow> bool" where
  "elsewhere ref (Bind_intent r i) \<longleftrightarrow> True"
| "elsewhere ref (Put_intent now uuid input) \<longleftrightarrow> input_ok uuid input \<and> input_ref uuid input \<noteq> ref"

definition same_text :: "stored_intent \<Rightarrow> stored_intent \<Rightarrow> bool" where
  "same_text a b \<longleftrightarrow> si_outboundIntentRef b = si_outboundIntentRef a \<and>
     si_recipientRef b = si_recipientRef a \<and> si_text b = si_text a \<and>
     si_createdAt b = si_createdAt a \<and> si_expiresAt b = si_expiresAt a"

lemma rejected_store:
  "createTextOutboundMessageIntentInput input = Inl e \<Longrightarrow> storeTextIntent persist now uuid input s = (Inl intent_rejected, s)"
  by (simp add: storeTextIntent_def)

lemma intent_call_keeps:
  assumes "intent_at ref (is_intents s) = Some e" "elsewhere ref c"
  shows "\<exists>e'. intent_at ref (is_intents (do_intent persist c s)) = Some e' \<and> same_text e e'"
proof (cases c)
  case (Bind_intent r i)
  then show ?thesis using assms(1) by (auto simp: bindMessageIntent_at same_text_def)
next
  case (Put_intent now uuid input)
  show ?thesis
  proof (cases "createTextOutboundMessageIntentInput input")
    case (Inl x)
    then show ?thesis using assms(1) by (simp add: Put_intent rejected_store same_text_def)
  next
    case (Inr p)
    then show ?thesis
      using assms storeTextIntent_at [of uuid input "fst p" "snd p" ref persist now s]
      by (auto simp: Put_intent same_text_def)
  qed
qed

lemma intent_run_keeps:
  assumes "intent_at ref (is_intents s) = Some e" "list_all (elsewhere ref) calls"
  shows "\<exists>e'. intent_at ref (is_intents (intent_run persist calls s)) = Some e' \<and> same_text e e'"
  using assms(2)
proof (induction calls rule: rev_induct)
  case Nil
  then show ?case using assms(1) by (simp add: intent_run_def same_text_def)
next
  case (snoc c calls)
  then obtain e1 where e1: "intent_at ref (is_intents (intent_run persist calls s)) = Some e1" "same_text e e1"
    by auto
  then obtain e2 where "intent_at ref (is_intents (do_intent persist c (intent_run persist calls s))) = Some e2"
      "same_text e1 e2"
    using intent_call_keeps [OF e1(1), of c] snoc.prems by auto
  then show ?case using e1(2) by (auto simp: intent_run_def same_text_def)
qed

section \<open>What is read back\<close>

lemma stored_readable:
  assumes "storeTextIntent persist now uuid input s = (Inr receipt, s1)" "input_ok uuid input"
  shows "\<exists>safe ex e. createTextOutboundMessageIntentInput input = Inr (safe, ex) \<and>
     ir_outboundIntentRef receipt = input_ref uuid input \<and> ir_expiresAt receipt = ex \<and>
     intent_at (input_ref uuid input) (is_intents s1) = Some e \<and>
     si_recipientRef e = js_trim (tii_recipientRef input) \<and> si_text e = tii_text input \<and>
     si_expiresAt e = ex \<and> si_createdAt e = ir_createdAt receipt \<and>
     si_outboundIntentRef e = input_ref uuid input"
proof (cases "createTextOutboundMessageIntentInput input")
  case (Inl e)
  then show ?thesis using assms(1) by (simp add: rejected_store)
next
  case (Inr p)
  obtain safe ex where p: "createTextOutboundMessageIntentInput input = Inr (safe, ex)"
    using Inr by (cases p) simp
  have safe: "safe = input\<lparr>tii_recipientRef := js_trim (tii_recipientRef input)\<rparr>"
    using createTextInput_fields [OF p] by simp
  have ref: "(case tii_outboundIntentRef safe of Some ref \<Rightarrow> Inr ref
      | None \<Rightarrow> createGeneratedOutboundIntentRef uuid) = Inr (input_ref uuid input)"
    using assms(2) by (auto simp: safe input_ok_def input_ref_def createGeneratedOutboundIntentRef_def
        value_or_def split: option.splits)
  have receipt: "ir_outboundIntentRef receipt = input_ref uuid input" "ir_expiresAt receipt = ex"
      "ir_createdAt receipt = (case indexOf_intent (input_ref uuid input) (is_intents s) of
         None \<Rightarrow> now | Some n \<Rightarrow> si_createdAt (is_intents s ! n))"
    using assms
    unfolding storeTextIntent_def p result_bind_Inr prod.case ref result_map_Inr sum.case Let_def
    by (auto simp: captured_intent_def receiptFor_intent_def input_ok_def split: prod.splits if_splits)
  have at: "intent_at (input_ref uuid input) (is_intents s1) =
      Some (stored_entry now (input_ref uuid input) input ex (is_intents s))"
    using storeTextIntent_at [OF assms(2) p, of "input_ref uuid input" persist now s] assms(1) by simp
  have "si_createdAt (stored_entry now (input_ref uuid input) input ex (is_intents s)) = ir_createdAt receipt"
  proof (cases "indexOf_intent (input_ref uuid input) (is_intents s)")
    case None
    then show ?thesis
      by (simp add: receipt(3) stored_entry_def Let_def indexOf_intent_None [OF None])
  next
    case (Some n)
    then show ?thesis
      by (simp add: receipt(3) stored_entry_def Let_def indexOf_intent_Some [OF Some])
  qed
  then show ?thesis using p receipt(1,2) at by auto
qed

lemma resolve_entry:
  assumes "intent_at ref (is_intents s) = Some e" "safe_token ref"
  shows "resolveTextIntent now ref s =
     (if isExpired_intent e now then Inl (intentFailure Port_rejected ''outbound_intent_expired'' (Some ref))
      else Inr \<lparr>ri_outboundIntentRef = ref, ri_recipientRef = si_recipientRef e, ri_text = si_text e,
        ri_createdAt = si_createdAt e, ri_expiresAt = si_expiresAt e, ri_messageId = si_messageId e\<rparr>)"
  using assms intent_at_ref [OF assms(1)]
  by (simp add: resolveTextIntent_def findAvailableTextIntent_at captured_intent_def)

end
