(* ===== verification/MessageScenarios.thy ===== *)
theory MessageScenarios
  imports MessageRaces IntentStoreLaws
begin

text \<open>
  A run in the in-memory world, evaluated: an intent is stored, sent and processed by a provider
  that accepts every message.  The queue and the publisher of this environment keep lists.
\<close>

definition sent_demo_outbox :: "queue_work list queue_provider" where
  "sent_demo_outbox =
     \<lparr>qp_enqueue = (\<lambda>work c q. (Inr \<lparr>rec_jobId = qw_jobId work, rec_visible = True, rec_queueRef = ''q''\<rparr>, q @ [work])),
      qp_reserve = (\<lambda>t c q. (Inr None, q)),
      qp_acknowledge = (\<lambda>r c q. (Inr \<lparr>rec_jobId = ''job'', rec_visible = True, rec_queueRef = ''q''\<rparr>, q)),
      qp_releaseForRetry = (\<lambda>r v c q. (Inr \<lparr>rec_jobId = ''job'', rec_visible = True, rec_queueRef = ''q''\<rparr>, q)),
      qp_moveToDeadLetter = (\<lambda>r s c q. (Inr \<lparr>rec_jobId = ''job'', rec_visible = True, rec_queueRef = ''q''\<rparr>, q))\<rparr>"

definition sent_demo_environment :: "(queue_work list, string list) environment" where
  "sent_demo_environment =
     \<lparr>en_queue = sent_demo_outbox,
      en_publish = (\<lambda>input l. (Inr (Inr []), l @ [pi_executionRef input])),
      en_uuid = (\<lambda>n. replicate (Suc n) CHR ''u''),
      en_provider = (\<lambda>request n. Inr (Inr \<lparr>prs_messageId = prq_messageId request, prs_status = Send_accepted,
         prs_providerReceiptRef = None, prs_retryable = False, prs_failureCategory = None\<rparr>)),
      en_providerId = ''provider''\<rparr>"

definition sent_demo_instance :: wa_instance where
  "sent_demo_instance =
     \<lparr>inst_id = ''i'', inst_status = Inst_connected, inst_metadata = \<lparr>im_displayName = None\<rparr>,
      inst_currentSessionId = Some ''s'', inst_actionRequiredReason = None, inst_domainEvents = []\<rparr>"

definition sent_demo_session :: session where
  "sent_demo_session = (createSession ''s'' ''i'')\<lparr>sess_status := Sess_active\<rparr>"

definition sent_demo_text :: text_intent_input where
  "sent_demo_text = \<lparr>tii_outboundIntentRef = Some ''intent.1'', tii_recipientRef = '' bob '', tii_text = ''hi'',
     tii_expiresAt = Some (num_of 50)\<rparr>"

definition sent_demo_envelope :: "command_name \<Rightarrow> string option \<Rightarrow> string \<Rightarrow> command_envelope" where
  "sent_demo_envelope name target key =
     \<lparr>ce_name = name, ce_commandRef = ''cmd'',
      ce_requestContext = \<lparr>rc_correlationId = ''c'', rc_requestId = None, rc_traceId = None\<rparr>,
      ce_targetRef = target, ce_actorRef = None, ce_idempotencyKey = Some key,
      ce_safeInputRef = Some ''intent.1'', ce_dataClassification = None\<rparr>"

definition sent_demo_send :: command_envelope where
  "sent_demo_send = sent_demo_envelope Cmd_SendTextMessage (Some ''i'') ''k''"

definition sent_demo_start :: "world_command list" where
  "sent_demo_start = [Store_intent sent_demo_text, Save_instance sent_demo_instance, Save_session sent_demo_session]"

definition sent_demo_ready :: "(queue_work list, string list) outbound_world" where
  "sent_demo_ready = world_run sent_demo_environment sent_demo_start (empty_world [] [])"

definition sent_demo_queued :: "command_outcome call \<times> (queue_work list, string list) outbound_world" where
  "sent_demo_queued = handle_send_text (world_ports sent_demo_environment) sent_demo_send sent_demo_ready"


lemma sent_demo_publishes: "publishes sent_demo_environment"
  by (auto simp: publishes_def sent_demo_environment_def)

lemma sent_demo_evaluated:
  "case sent_demo_queued of (answer, w) \<Rightarrow>
     answer = Inr (commandOutcome sent_demo_send Outcome_queued True False (Some ''msg:uuu'') None) \<and>
     (case stored_message w ''msg:uuu'' of None \<Rightarrow> False
      | Some m \<Rightarrow> msg_id m = ''msg:uuu'' \<and> msg_status m = Msg_queued \<and> msg_instanceId m = ''i'') \<and>
     sending_session ''i'' \<lparr>sr_instance = sent_demo_instance, sr_session = sent_demo_session, sr_sessionId = ''s''\<rparr> w \<and>
     verifyTextIntent (ow_now w) ''intent.1'' (ow_intents w) =
       Inr \<lparr>ir_outboundIntentRef = ''intent.1'', ir_createdAt = 0, ir_expiresAt = Some 50\<rparr>"
  by code_simp

lemma sent_demo_answer: "fst sent_demo_queued =
   Inr (commandOutcome sent_demo_send Outcome_queued True False (Some ''msg:uuu'') None)"
  using sent_demo_evaluated by (simp add: case_prod_beta)

lemma sent_demo_inputs:
  "resolveInput_send sent_demo_send = Inr \<lparr>sti_instanceId = ''i'', sti_idempotencyKey = ''k'', sti_outboundIntentRef = ''intent.1''\<rparr>"
  by code_simp

lemma sent_demo_input_ok: "input_ok ''u'' sent_demo_text" by code_simp

text \<open>The message is processed, cancelled too late, and what was handed over.\<close>

definition sent_demo_process :: command_envelope where
  "sent_demo_process = sent_demo_envelope Cmd_ProcessOutboundMessageWork (Some ''msg:uuu'') ''k''"

definition sent_demo_cancel :: command_envelope where
  "sent_demo_cancel = sent_demo_envelope Cmd_CancelMessage (Some ''msg:uuu'') ''k''"

definition sent_demo_rest :: "world_command list" where
  "sent_demo_rest = [Handle_command sent_demo_process, Handle_command sent_demo_cancel]"

definition sent_demo_commands :: "world_command list" where
  "sent_demo_commands = sent_demo_start @ [Handle_command sent_demo_send, Handle_command sent_demo_process]"

definition sent_demo_sent :: sent_message where
  "sent_demo_sent = hd (ow_sent (world_run sent_demo_environment sent_demo_commands (empty_world [] [])))"

lemma sent_demo_sent_once: "length (ow_sent (world_run sent_demo_environment sent_demo_commands (empty_world [] []))) = 1"
  by code_simp

lemma sent_demo_sent_in: "sent_demo_sent \<in> set (ow_sent (world_run sent_demo_environment sent_demo_commands (empty_world [] [])))"
  unfolding sent_demo_sent_def using sent_demo_sent_once by (intro hd_in_set) auto

lemma sent_demo_process_input:
  "resolveInput_process sent_demo_process = Inr \<lparr>poi_messageId = ''msg:uuu'', poi_outboundIntentRef = ''intent.1''\<rparr>"
  by code_simp

lemma sent_demo_cancel_input:
  "resolveInput_cancel sent_demo_cancel = Inr \<lparr>mci_messageId = ''msg:uuu'', mci_idempotencyKey = ''cancel_message:k''\<rparr>"
  by code_simp

lemma sent_demo_no_keys: "recorded_key sent_demo_ready k = None"
proof -
  have "world_run sent_demo_environment sent_demo_start (empty_world [] []) =
      (let w = world_run sent_demo_environment sent_demo_start (empty_world [] []) in w)" by simp
  show ?thesis
    by (simp add: sent_demo_ready_def sent_demo_start_def world_run_def recorded_key_def empty_world_def)
qed

section \<open>The queued message\<close>

definition sent_demo_message :: message where
  "sent_demo_message = the (stored_message (snd sent_demo_queued) ''msg:uuu'')"

definition sent_demo_resolution :: session_resolution where
  "sent_demo_resolution = \<lparr>sr_instance = sent_demo_instance, sr_session = sent_demo_session, sr_sessionId = ''s''\<rparr>"

lemma sent_demo_message_facts:
    "stored_message (snd sent_demo_queued) ''msg:uuu'' = Some sent_demo_message"
    "msg_id sent_demo_message = ''msg:uuu''" "msg_status sent_demo_message = Msg_queued"
    "msg_instanceId sent_demo_message = ''i''"
proof -
  obtain m where "stored_message (snd sent_demo_queued) ''msg:uuu'' = Some m"
      "msg_id m = ''msg:uuu''" "msg_status m = Msg_queued" "msg_instanceId m = ''i''"
    using sent_demo_evaluated by (auto simp: case_prod_beta split: option.splits)
  then show "stored_message (snd sent_demo_queued) ''msg:uuu'' = Some sent_demo_message"
    "msg_id sent_demo_message = ''msg:uuu''" "msg_status sent_demo_message = Msg_queued"
    "msg_instanceId sent_demo_message = ''i''"
    by (simp_all add: sent_demo_message_def)
qed

lemmas sent_demo_message_stored = sent_demo_message_facts(1)
lemmas sent_demo_message_fields = sent_demo_message_facts(2-4)

lemma sent_demo_session_sends: "sending_session ''i'' sent_demo_resolution (snd sent_demo_queued)"
  using sent_demo_evaluated by (simp add: case_prod_beta sent_demo_resolution_def)

definition sent_demo_verified_receipt :: intent_receipt where
  "sent_demo_verified_receipt = \<lparr>ir_outboundIntentRef = ''intent.1'', ir_createdAt = 0, ir_expiresAt = Some 50\<rparr>"

lemma sent_demo_verified:
  "verifyTextIntent (ow_now (snd sent_demo_queued)) ''intent.1'' (ow_intents (snd sent_demo_queued)) = Inr sent_demo_verified_receipt"
  using sent_demo_evaluated by (simp add: case_prod_beta sent_demo_verified_receipt_def)

section \<open>The stored intent\<close>

definition sent_demo_stored :: "intent_receipt port_result \<times> unit intent_store" where
  "sent_demo_stored = storeTextIntent persist_nothing 5 ''u'' sent_demo_text createInMemoryIntentStore"

lemma sent_demo_receipt: "fst sent_demo_stored = Inr \<lparr>ir_outboundIntentRef = ''intent.1'', ir_createdAt = 5, ir_expiresAt = Some 50\<rparr>"
  by code_simp

end
