(* ===== verification/WebhookSigning.thy ===== *)
theory WebhookSigning
  imports EventPublishing "HOL-Library.AList"
begin

text \<open>
  \<open>packages/infrastructure-webhook/src/webhook-signing.ts\<close>: the HMAC signature of a webhook body
  and its verification by a receiver, with a tolerance for the clock and a store that refuses a
  signature that was seen before.  HMAC-SHA-256 is the argument \<open>hmac secret payload\<close>; a body is
  written by \<open>JSON.stringify\<close>.  The comparison of the signatures in constant time is an equality.
\<close>

section \<open>The body\<close>

record outbound_body =
  wb_deliveryId :: string
  wb_webhookId :: string
  wb_sourceSignalRef :: string
  wb_payloadRef :: string
  wb_eventVersion :: event_contract_version
  wb_dataClassification :: event_data_classification
  wb_correlationId :: string

text \<open>\<open>JSON.stringify\<close> of a string: quotes, backslashes and control characters are escaped.\<close>

definition json_char :: "char \<Rightarrow> string" where
  "json_char c =
     (let n = code_unit c
      in if n = 34 then [char_of (92 :: nat), char_of (34 :: nat)]
         else if n = 92 then [char_of (92 :: nat), char_of (92 :: nat)]
         else if n = 8 then [char_of (92 :: nat), CHR ''b'']
         else if n = 9 then [char_of (92 :: nat), CHR ''t'']
         else if n = 10 then [char_of (92 :: nat), CHR ''n'']
         else if n = 12 then [char_of (92 :: nat), CHR ''f'']
         else if n = 13 then [char_of (92 :: nat), CHR ''r'']
         else if n < 32 then [char_of (92 :: nat), CHR ''u'', CHR ''0'', CHR ''0'', hex_digit (n div 16), hex_digit (n mod 16)]
         else [c])"

definition json_string :: "string \<Rightarrow> string" where
  "json_string s = [char_of (34 :: nat)] @ concat (map json_char s) @ [char_of (34 :: nat)]"

definition json_fields :: "(string \<times> string) list \<Rightarrow> string" where
  "json_fields entries =
     ''{'' @ js_join '','' (map (\<lambda>(key, value). json_string key @ '':'' @ json_string value) entries) @ ''}''"

text \<open>A body is an object or a string that is already encoded.\<close>

datatype webhook_body = Body_object outbound_body | Body_text string

definition canonicalWebhookBody :: "webhook_body \<Rightarrow> string" where
  "canonicalWebhookBody body =
     (case body of
        Body_text text \<Rightarrow> text
      | Body_object b \<Rightarrow> json_fields
          [(''deliveryId'', wb_deliveryId b), (''webhookId'', wb_webhookId b),
           (''sourceSignalRef'', wb_sourceSignalRef b), (''payloadRef'', wb_payloadRef b),
           (''eventVersion'', event_contract_version_name (wb_eventVersion b)),
           (''dataClassification'', event_data_classification_name (wb_dataClassification b)),
           (''correlationId'', wb_correlationId b)])"

section \<open>Signing\<close>

definition webhookSignatureScheme :: string where
  "webhookSignatureScheme = ''v1''"

definition signaturePayload :: "string \<Rightarrow> webhook_body \<Rightarrow> string" where
  "signaturePayload timestamp body = timestamp @ ''.'' @ canonicalWebhookBody body"

definition signWebhookBody ::
    "(string \<Rightarrow> string \<Rightarrow> string) \<Rightarrow> webhook_body \<Rightarrow> string \<Rightarrow> string \<Rightarrow> string" where
  "signWebhookBody hmac body timestamp secret =
     webhookSignatureScheme @ ''='' @ hmac secret (signaturePayload timestamp body)"

section \<open>The replay store\<close>

text \<open>A \<open>Map\<close> from replay keys to expirations, in insertion order.\<close>

type_synonym replay_store = "(string \<times> int) list"

definition removeExpired_replay :: "int \<Rightarrow> replay_store \<Rightarrow> replay_store" where
  "removeExpired_replay now store = filter (\<lambda>(key, expiresAt). \<not> expiresAt \<le> now) store"

definition replay_has :: "string \<Rightarrow> int \<Rightarrow> replay_store \<Rightarrow> bool \<times> replay_store" where
  "replay_has key now store =
     (let store' = removeExpired_replay now store in (key \<in> fst ` set store', store'))"

definition remember :: "string \<Rightarrow> int \<Rightarrow> replay_store \<Rightarrow> replay_store" where
  "remember key expiresAt store = AList.update key expiresAt store"

section \<open>Verification\<close>

datatype verification_failure =
  Invalid_timestamp | Timestamp_out_of_tolerance | Invalid_signature | Replay_detected

datatype verification = Verified string | Refused verification_failure

definition defaultWebhookSignatureToleranceMilliseconds :: int where
  "defaultWebhookSignatureToleranceMilliseconds = 5 * 60 * 1000"

record verification_input =
  vi_body :: webhook_body
  vi_timestamp :: string
  vi_signature :: string
  vi_secret :: string
  vi_now :: int
  vi_tolerance :: "jsnum option"

definition assertNonNegativeInteger_tolerance :: "jsnum \<Rightarrow> int result" where
  "assertNonNegativeInteger_tolerance value =
     (case as_int value of
        None \<Rightarrow> Inl (TypeError ''toleranceMilliseconds must be a non-negative integer.'')
      | Some n \<Rightarrow>
          if n < 0 then Inl (TypeError ''toleranceMilliseconds must be a non-negative integer.'')
          else Inr n)"

definition timestamp_of :: "string \<Rightarrow> int option" where
  "timestamp_of text =
     (case parse_int text of
        None \<Rightarrow> None
      | Some n \<Rightarrow> if \<bar>n\<bar> \<le> max_safe_integer \<and> show_int n = text then Some n else None)"

definition verifyWebhookSignature ::
    "(string \<Rightarrow> string \<Rightarrow> string) \<Rightarrow> verification_input \<Rightarrow> replay_store option \<Rightarrow>
     verification result \<times> replay_store option" where
  "verifyWebhookSignature hmac input replayStore =
     (case timestamp_of (vi_timestamp input) of
        None \<Rightarrow> (Inr (Refused Invalid_timestamp), replayStore)
      | Some timestamp \<Rightarrow>
          (case assertNonNegativeInteger_tolerance (value_or (vi_tolerance input)
                  (num_of defaultWebhookSignatureToleranceMilliseconds)) of
             Inl e \<Rightarrow> (Inl e, replayStore)
           | Inr tolerance \<Rightarrow>
               if tolerance < \<bar>vi_now input - timestamp\<bar>
               then (Inr (Refused Timestamp_out_of_tolerance), replayStore)
               else if signWebhookBody hmac (vi_body input) (vi_timestamp input) (vi_secret input)
                       \<noteq> vi_signature input
               then (Inr (Refused Invalid_signature), replayStore)
               else
                 let replayKey = vi_timestamp input @ '':'' @ vi_signature input
                 in case replayStore of
                      None \<Rightarrow> (Inr (Verified replayKey), None)
                    | Some store \<Rightarrow>
                        (let (seen, store') = replay_has replayKey (vi_now input) store
                         in if seen then (Inr (Refused Replay_detected), Some store')
                            else (Inr (Verified replayKey),
                                  Some (remember replayKey (timestamp + tolerance) store')))))"

section \<open>What a receiver can rely on\<close>

text \<open>The verifications of a receiver, one after the other.\<close>

definition verify_all ::
    "(string \<Rightarrow> string \<Rightarrow> string) \<Rightarrow> verification_input list \<Rightarrow> replay_store \<Rightarrow> replay_store" where
  "verify_all hmac inputs store =
     fold (\<lambda>input s. the (snd (verifyWebhookSignature hmac input (Some s)))) inputs store"

lemma verified_iff:
  "fst (verifyWebhookSignature hmac input (Some store)) = Inr (Verified key) \<longleftrightarrow>
     (\<exists>timestamp tolerance. timestamp_of (vi_timestamp input) = Some timestamp \<and>
        assertNonNegativeInteger_tolerance (value_or (vi_tolerance input)
          (num_of defaultWebhookSignatureToleranceMilliseconds)) = Inr tolerance \<and>
        \<bar>vi_now input - timestamp\<bar> \<le> tolerance \<and>
        vi_signature input = signWebhookBody hmac (vi_body input) (vi_timestamp input) (vi_secret input) \<and>
        key = vi_timestamp input @ '':'' @ vi_signature input \<and>
        key \<notin> fst ` set (removeExpired_replay (vi_now input) store))"
  by (auto simp: verifyWebhookSignature_def replay_has_def Let_def split: option.splits sum.splits if_splits)

lemma removeExpired_keys [simp]:
  "key \<in> fst ` set (removeExpired_replay now store) \<longleftrightarrow> (\<exists>e. (key, e) \<in> set store \<and> now < e)"
  by (force simp: removeExpired_replay_def not_le)

lemma removeExpired_distinct: "distinct (map fst store) \<Longrightarrow> distinct (map fst (removeExpired_replay now store))"
  unfolding removeExpired_replay_def by (rule distinct_map_filter)

text \<open>A key that has not expired stays, whatever is verified, and its expiration with it.\<close>

lemma verify_keeps:
  assumes "map_of store key = Some e" "vi_now input < e"
  shows "\<exists>s. snd (verifyWebhookSignature hmac input (Some store)) = Some s \<and> map_of s key = Some e"
proof -
  have "map_of (filter (\<lambda>(k, v). v > vi_now input) store) key = Some e"
    using assms by (induction store) auto
  then have kept: "map_of (removeExpired_replay (vi_now input) store) key = Some e"
    by (simp add: removeExpired_replay_def not_le)
  then have seen: "key \<in> fst ` set (removeExpired_replay (vi_now input) store)"
    using map_of_SomeD by (force simp del: removeExpired_keys)
  show ?thesis
  proof (cases "vi_timestamp input @ '':'' @ vi_signature input = key")
    case True
    then have "replay_has (vi_timestamp input @ '':'' @ vi_signature input) (vi_now input) store =
        (True, removeExpired_replay (vi_now input) store)"
      using seen by (simp add: replay_has_def Let_def del: removeExpired_keys)
    then show ?thesis
      using assms(1) kept by (simp add: verifyWebhookSignature_def Let_def split: option.split sum.split)
  next
    case False
    then show ?thesis
      using assms(1) kept
      by (auto simp: verifyWebhookSignature_def replay_has_def remember_def update_conv' Let_def
          split: option.split sum.split)
  qed
qed

lemma verify_all_keeps:
  assumes "map_of store key = Some e" "list_all (\<lambda>input. vi_now input < e) inputs"
  shows "map_of (verify_all hmac inputs store) key = Some e"
  using assms
proof (induction inputs arbitrary: store)
  case (Cons input inputs)
  obtain s where "snd (verifyWebhookSignature hmac input (Some store)) = Some s" "map_of s key = Some e"
    using verify_keeps [OF Cons.prems(1), of input hmac] Cons.prems(2) by auto
  then show ?case using Cons by (simp add: verify_all_def)
qed (simp add: verify_all_def)

lemma verified_remembers:
  assumes "verifyWebhookSignature hmac input (Some store) = (Inr (Verified key), Some store1)"
  obtains timestamp tolerance where "timestamp_of (vi_timestamp input) = Some timestamp"
    "assertNonNegativeInteger_tolerance (value_or (vi_tolerance input)
          (num_of defaultWebhookSignatureToleranceMilliseconds)) = Inr tolerance"
    "\<bar>vi_now input - timestamp\<bar> \<le> tolerance"
    "vi_signature input = signWebhookBody hmac (vi_body input) (vi_timestamp input) (vi_secret input)"
    "key = vi_timestamp input @ '':'' @ vi_signature input"
    "map_of store1 key = Some (timestamp + tolerance)"
  using assms
  by (auto simp: verifyWebhookSignature_def replay_has_def remember_def Let_def update_conv'
      split: option.splits sum.splits if_splits)

text \<open>A key is in the store once.\<close>

lemma verify_distinct:
  "distinct (map fst store) \<Longrightarrow> \<exists>s. snd (verifyWebhookSignature hmac input (Some store)) = Some s \<and> distinct (map fst s)"
  using removeExpired_distinct [of store "vi_now input"]
  by (auto simp: verifyWebhookSignature_def replay_has_def remember_def distinct_update Let_def
      split: option.split sum.split)

lemma verify_all_distinct: "distinct (map fst store) \<Longrightarrow> distinct (map fst (verify_all hmac inputs store))"
proof (induction inputs arbitrary: store)
  case (Cons input inputs)
  obtain s where "snd (verifyWebhookSignature hmac input (Some store)) = Some s" "distinct (map fst s)"
    using verify_distinct [OF Cons.prems] by blast
  then show ?case using Cons.IH by (simp add: verify_all_def)
qed (simp add: verify_all_def)

lemma unexpired_iff:
  "distinct (map fst store) \<Longrightarrow> map_of store key = Some e \<Longrightarrow>
     (\<exists>e'. (key, e') \<in> set store \<and> now < e') \<longleftrightarrow> now < e"
  by (auto dest: map_of_SomeD eq_key_imp_eq_value)

end
