(* ===== verification/WebhookDelivery.thy ===== *)
theory WebhookDelivery
  imports WebhookSigning WorkerRuntime MemoryRepositories Programs
begin

text \<open>
  \<open>packages/infrastructure-webhook/src\<close> and \<open>packages/application/src/ports/webhook-transport.ts\<close>:
  the transport of a webhook over an HTTP gateway (\<open>webhook-transport.adapter.ts\<close>), the handler
  that delivers a reserved job over it, the runtime that settles the job by the answer
  (\<open>webhook-dispatcher-runtime.ts\<close>), and the handler that keeps the delivery aggregate
  (\<open>webhook-delivery-repository-work.handler.ts\<close>).  The gateway, the secrets and the envelopes come
  through ports; metrics are write-only and left out.
\<close>

section \<open>ports/webhook-transport.ts\<close>

record transport_envelope =
  te_webhookId :: identity
  te_deliveryId :: identity
  te_targetUrl :: string
  te_sourceSignalRef :: string
  te_payloadRef :: string
  te_eventVersion :: event_contract_version
  te_dataClassification :: event_data_classification
  te_signingSecretRef :: "string option"

datatype transport_outcome = Transport_delivered | Transport_retryable_failure | Transport_terminal_failure

record transport_receipt =
  tre_deliveryId :: identity
  tre_outcome :: transport_outcome
  tre_receiverRef :: "string option"
  tre_failureReasonCode :: "string option"

section \<open>webhook-transport.adapter.ts\<close>

text \<open>What may be thrown: the adapter's own error (category, code, failure category, retryable,
  message) or anything else.\<close>

datatype transport_throw =
    Adapter_error port_failure_category string failure_category bool string
  | Other_throw

type_synonym ('w, 'a) transport_call = "'w \<Rightarrow> (transport_throw + 'a) \<times> 'w"

record outbound_request =
  oreq_targetUrl :: string
  oreq_headers :: "(string \<times> string) list"
  oreq_body :: outbound_body
  oreq_timeoutMilliseconds :: int

record outbound_result =
  ores_statusCode :: int
  ores_receiverRef :: "string option"
  ores_failureReasonCode :: "string option"

record signature_input =
  sgi_deliveryId :: string
  sgi_webhookId :: string
  sgi_payloadRef :: string
  sgi_signingSecretRef :: string
  sgi_correlationId :: string
  sgi_body :: outbound_body

record signature_result =
  sgr_scheme :: string
  sgr_signature :: string
  sgr_timestamp :: string

record 'w transport_adapter =
  ta_sendWebhook :: "outbound_request \<Rightarrow> port_context \<Rightarrow> ('w, outbound_result) transport_call"
  ta_signatureProvider :: "(signature_input \<Rightarrow> ('w, signature_result) transport_call) option"
  ta_timeoutMilliseconds :: int

definition createHttpWebhookTransportAdapter ::
    "(outbound_request \<Rightarrow> port_context \<Rightarrow> ('w, outbound_result) transport_call) \<Rightarrow>
     (signature_input \<Rightarrow> ('w, signature_result) transport_call) option \<Rightarrow> jsnum option \<Rightarrow>
     'w transport_adapter result" where
  "createHttpWebhookTransportAdapter gateway signatureProvider timeoutMilliseconds =
     (case as_int (value_or timeoutMilliseconds (num_of 10000)) of
        None \<Rightarrow> Inl (TypeError ''timeoutMilliseconds must be a positive integer.'')
      | Some n \<Rightarrow>
          if n \<le> 0 then Inl (TypeError ''timeoutMilliseconds must be a positive integer.'')
          else Inr \<lparr>ta_sendWebhook = gateway, ta_signatureProvider = signatureProvider,
                    ta_timeoutMilliseconds = n\<rparr>)"

definition assertReferencePresent :: "string \<Rightarrow> string \<Rightarrow> transport_throw + unit" where
  "assertReferencePresent value label =
     (if length (js_trim value) = 0
      then Inl (Adapter_error Port_unsafe_payload ''webhook_unsafe_reference'' Fail_webhook False
        (label @ '' must be non-empty.''))
      else Inr ())"

text \<open>\<open>value.includes(part)\<close>.\<close>

fun js_includes :: "string \<Rightarrow> string \<Rightarrow> bool" where
  "js_includes [] part \<longleftrightarrow> part = []"
| "js_includes (c # cs) part \<longleftrightarrow> js_starts_with (c # cs) part \<or> js_includes cs part"

definition assertSafeReference :: "string \<Rightarrow> string \<Rightarrow> string \<Rightarrow> transport_throw + unit" where
  "assertSafeReference value forbiddenValue label =
     (case assertReferencePresent value label of
        Inl e \<Rightarrow> Inl e
      | Inr _ \<Rightarrow>
          if js_includes value forbiddenValue
          then Inl (Adapter_error Port_unsafe_payload ''webhook_unsafe_reference'' Fail_webhook False
            (label @ '' must not expose sensitive material.''))
          else Inr ())"

definition assertEnvelopeSafe :: "transport_envelope \<Rightarrow> transport_throw + unit" where
  "assertEnvelopeSafe envelope =
     (case assertReferencePresent (te_sourceSignalRef envelope) ''sourceSignalRef'' of
        Inl e \<Rightarrow> Inl e
      | Inr _ \<Rightarrow> assertReferencePresent (te_payloadRef envelope) ''payloadRef'')"

definition classifyStatusCode :: "int \<Rightarrow> transport_outcome" where
  "classifyStatusCode statusCode =
     (if 200 \<le> statusCode \<and> statusCode < 300 then Transport_delivered
      else if statusCode \<in> {408, 409, 425, 429} then Transport_retryable_failure
      else if 500 \<le> statusCode \<and> statusCode < 600 then Transport_retryable_failure
      else Transport_terminal_failure)"

fun failureReasonFor :: "transport_outcome \<Rightarrow> string option" where
  "failureReasonFor Transport_delivered = None"
| "failureReasonFor Transport_retryable_failure = Some ''receiver_retryable_failure''"
| "failureReasonFor Transport_terminal_failure = Some ''receiver_terminal_failure''"

definition webhookTransportPortFailure ::
    "port_failure_category \<Rightarrow> string \<Rightarrow> string \<Rightarrow> bool \<Rightarrow> failure_category \<Rightarrow> string \<Rightarrow> port_failure" where
  "webhookTransportPortFailure category code message retryable failureCategory operation =
     createApplicationPortFailure
       \<lparr>pf_category = category, pf_code = code, pf_message = message, pf_retryable = retryable,
        pf_ownerContext = Some Owner_webhook_delivery, pf_failureCategory = Some failureCategory,
        pf_safeMetadata = Some [(''operation'', Port_string operation)]\<rparr>"

fun webhookTransportErrorToPortFailure :: "transport_throw \<Rightarrow> string \<Rightarrow> port_failure" where
  "webhookTransportErrorToPortFailure (Adapter_error category code failureCategory retryable message) operation =
     webhookTransportPortFailure category code message retryable failureCategory operation"
| "webhookTransportErrorToPortFailure Other_throw operation =
     webhookTransportPortFailure Port_unavailable ''webhook_transport_failure''
       ''Webhook transport failed with a sanitized transport error.'' True Fail_network operation"

definition plain_headers :: "transport_envelope \<Rightarrow> port_context \<Rightarrow> (string \<times> string) list" where
  "plain_headers envelope context =
     [(''content-type'', ''application/json''),
      (''x-omniwa-correlation-id'', rc_correlationId (px_requestContext context)),
      (''x-omniwa-delivery-id'', te_deliveryId envelope),
      (''x-omniwa-event-version'', event_contract_version_name (te_eventVersion envelope)),
      (''x-omniwa-payload-ref'', te_payloadRef envelope),
      (''x-omniwa-webhook-id'', te_webhookId envelope)]"

definition createHeaders ::
    "'w transport_adapter \<Rightarrow> transport_envelope \<Rightarrow> port_context \<Rightarrow> outbound_body \<Rightarrow>
     ('w, (string \<times> string) list) transport_call" where
  "createHeaders A envelope context body w =
     (case te_signingSecretRef envelope of
        None \<Rightarrow> (Inr (plain_headers envelope context), w)
      | Some secretRef \<Rightarrow>
          (case ta_signatureProvider A of
             None \<Rightarrow> (Inl (Adapter_error Port_rejected ''webhook_signature_provider_missing''
               Fail_configuration False
               ''Webhook signing secret reference requires a signature provider.''), w)
           | Some createSignature \<Rightarrow>
               (case createSignature
                  \<lparr>sgi_deliveryId = te_deliveryId envelope, sgi_webhookId = te_webhookId envelope,
                   sgi_payloadRef = te_payloadRef envelope, sgi_signingSecretRef = secretRef,
                   sgi_correlationId = rc_correlationId (px_requestContext context),
                   sgi_body = body\<rparr> w of
                  (Inl e, w1) \<Rightarrow> (Inl e, w1)
                | (Inr signature, w1) \<Rightarrow>
                    (case assertSafeReference (sgr_signature signature) secretRef ''signature'' of
                       Inl e \<Rightarrow> (Inl e, w1)
                     | Inr _ \<Rightarrow>
                         (case assertReferencePresent (sgr_timestamp signature) ''signatureTimestamp'' of
                            Inl e \<Rightarrow> (Inl e, w1)
                          | Inr _ \<Rightarrow>
                              (Inr (plain_headers envelope context @
                                 [(''x-omniwa-signature'', sgr_signature signature),
                                  (''x-omniwa-signature-scheme'', sgr_scheme signature),
                                  (''x-omniwa-signature-timestamp'', sgr_timestamp signature)]), w1))))))"

definition outbound_body_of :: "transport_envelope \<Rightarrow> port_context \<Rightarrow> outbound_body" where
  "outbound_body_of envelope context =
     \<lparr>wb_deliveryId = te_deliveryId envelope, wb_webhookId = te_webhookId envelope,
      wb_sourceSignalRef = te_sourceSignalRef envelope, wb_payloadRef = te_payloadRef envelope,
      wb_eventVersion = te_eventVersion envelope,
      wb_dataClassification = te_dataClassification envelope,
      wb_correlationId = rc_correlationId (px_requestContext context)\<rparr>"

definition transport_receipt_of :: "transport_envelope \<Rightarrow> outbound_result \<Rightarrow> transport_receipt" where
  "transport_receipt_of envelope result =
     (let outcome = classifyStatusCode (ores_statusCode result)
      in \<lparr>tre_deliveryId = te_deliveryId envelope, tre_outcome = outcome,
          tre_receiverRef = ores_receiverRef result,
          tre_failureReasonCode = nullish (ores_failureReasonCode result) (failureReasonFor outcome)\<rparr>)"

text \<open>\<open>deliver\<close> catches everything and answers with a receipt or a port failure.\<close>

definition deliver_http ::
    "'w transport_adapter \<Rightarrow> transport_envelope \<Rightarrow> port_context \<Rightarrow>
     ('w, transport_receipt port_result) prog" where
  "deliver_http A envelope context w =
     (let failed = (\<lambda>e w. (Inr (Inl (webhookTransportErrorToPortFailure e ''deliver'')), w));
          body = outbound_body_of envelope context
      in case assertEnvelopeSafe envelope of
           Inl e \<Rightarrow> failed e w
         | Inr _ \<Rightarrow>
             (case createHeaders A envelope context body w of
                (Inl e, w1) \<Rightarrow> failed e w1
              | (Inr headers, w1) \<Rightarrow>
                  (case ta_sendWebhook A
                     \<lparr>oreq_targetUrl = te_targetUrl envelope, oreq_headers = headers, oreq_body = body,
                      oreq_timeoutMilliseconds = ta_timeoutMilliseconds A\<rparr> context w1 of
                     (Inl e, w2) \<Rightarrow> failed e w2
                   | (Inr result, w2) \<Rightarrow> (Inr (Inr (transport_receipt_of envelope result)), w2))))"

text \<open>\<open>WebhookHmacSignatureProvider\<close>: the secret is read by its name; a failing read is refused.\<close>

definition createSignature_hmac ::
    "(string \<Rightarrow> string \<Rightarrow> string) \<Rightarrow> (string \<Rightarrow> 'w \<Rightarrow> string option \<times> 'w) \<Rightarrow> ('w \<Rightarrow> int) \<Rightarrow>
     signature_input \<Rightarrow> ('w, signature_result) transport_call" where
  "createSignature_hmac hmac readSecret clock input w =
     (case createOpaqueString (sgi_signingSecretRef input) ''SecretName'' of
        Inl _ \<Rightarrow> (Inl Other_throw, w)
      | Inr name \<Rightarrow>
          (case readSecret name w of
             (None, w1) \<Rightarrow> (Inl (Adapter_error Port_rejected ''webhook_signing_secret_unavailable''
               Fail_configuration False ''Webhook signing secret is unavailable.''), w1)
           | (Some secret, w1) \<Rightarrow>
               let timestamp = show_int (clock w1)
               in (Inr \<lparr>sgr_scheme = webhookSignatureScheme,
                        sgr_signature = signWebhookBody hmac (Body_object (sgi_body input)) timestamp secret,
                        sgr_timestamp = timestamp\<rparr>, w1)))"

section \<open>Handlers of a reserved delivery\<close>

datatype hook_outcome = Hook_delivered | Hook_retry | Hook_dead_letter

record hook_result =
  hr_outcome :: hook_outcome
  hr_receipt :: "transport_receipt option"
  hr_retryDelayMilliseconds :: "jsnum option"
  hr_reasonCode :: "string option"

type_synonym 'w hook_handler = "reservation \<Rightarrow> port_context \<Rightarrow> ('w, hook_result) prog"

definition hook_result :: "hook_outcome \<Rightarrow> string option \<Rightarrow> hook_result" where
  "hook_result outcome reasonCode =
     \<lparr>hr_outcome = outcome, hr_receipt = None, hr_retryDelayMilliseconds = None,
      hr_reasonCode = reasonCode\<rparr>"

definition failure_reason :: "hook_result \<Rightarrow> string option" where
  "failure_reason work =
     nullish (hr_reasonCode work) (Option.bind (hr_receipt work) tre_failureReasonCode)"

text \<open>\<open>WebhookTransportDeliveryHandler.deliver\<close>.\<close>

definition work_for_receipt :: "jsnum option \<Rightarrow> transport_receipt port_result \<Rightarrow> hook_result" where
  "work_for_receipt retryDelay received =
     (case received of
        Inl failure \<Rightarrow>
          \<lparr>hr_outcome = (if pf_retryable failure then Hook_retry else Hook_dead_letter),
           hr_receipt = None,
           hr_retryDelayMilliseconds = (if pf_retryable failure then retryDelay else None),
           hr_reasonCode = Some (pf_code failure)\<rparr>
      | Inr rcpt \<Rightarrow>
          (case tre_outcome rcpt of
             Transport_delivered \<Rightarrow>
               \<lparr>hr_outcome = Hook_delivered, hr_receipt = Some rcpt,
                hr_retryDelayMilliseconds = None, hr_reasonCode = None\<rparr>
           | Transport_retryable_failure \<Rightarrow>
               \<lparr>hr_outcome = Hook_retry, hr_receipt = Some rcpt,
                hr_retryDelayMilliseconds = retryDelay, hr_reasonCode = tre_failureReasonCode rcpt\<rparr>
           | Transport_terminal_failure \<Rightarrow>
               \<lparr>hr_outcome = Hook_dead_letter, hr_receipt = Some rcpt,
                hr_retryDelayMilliseconds = None,
                hr_reasonCode = Some (value_or (tre_failureReasonCode rcpt)
                  ''webhook_receiver_terminal_failure'')\<rparr>))"

definition deliver_over_transport ::
    "(reservation \<Rightarrow> port_context \<Rightarrow> ('w, transport_envelope option) prog) \<Rightarrow>
     (transport_envelope \<Rightarrow> port_context \<Rightarrow> ('w, transport_receipt port_result) prog) \<Rightarrow>
     jsnum option \<Rightarrow> 'w hook_handler" where
  "deliver_over_transport envelope_of transport retryDelay r context =
     prog_bind (envelope_of r context) (\<lambda>found.
     case found of
       None \<Rightarrow> prog_return (hook_result Hook_dead_letter (Some ''webhook_delivery_envelope_missing''))
     | Some envelope \<Rightarrow>
         prog_bind (transport envelope context) (\<lambda>received.
         prog_return (work_for_receipt retryDelay received)))"

section \<open>webhook-delivery-repository-work.handler.ts\<close>

text \<open>The methods of the delivery repository; a missing \<open>recordIdempotencyKey\<close> does nothing.\<close>

record 'w delivery_port =
  dr_load :: "identity \<Rightarrow> ('w, webhook_delivery option) prog"
  dr_save :: "webhook_delivery \<Rightarrow> ('w, unit) prog"
  dr_findByIdempotencyKey :: "string \<Rightarrow> ('w, webhook_delivery option) prog"
  dr_recordIdempotencyKey :: "string \<Rightarrow> identity \<Rightarrow> ('w, unit) prog"

definition isWebhookDeliveryTerminal :: "webhook_delivery \<Rightarrow> bool" where
  "isWebhookDeliveryTerminal d \<longleftrightarrow> del_status d \<in> {Deliv_dead_letter, Deliv_cancelled, Deliv_failed}"

definition bury_delivery ::
    "'w delivery_port \<Rightarrow> webhook_delivery \<Rightarrow> string \<Rightarrow> ('w, unit) prog" where
  "bury_delivery R delivering code =
     prog_bind (prog_lift (createDeadLetterReason code ''webhook'')) (\<lambda>reason.
     prog_bind (prog_lift (deadLetterWebhookDelivery delivering reason)) (dr_save R))"

definition persistRetryOutcome ::
    "'w delivery_port \<Rightarrow> webhook_delivery \<Rightarrow> hook_result \<Rightarrow> ('w, hook_result) prog" where
  "persistRetryOutcome R delivering work =
     (let nextAttempt = (case del_attemptNumber delivering of None \<Rightarrow> 2 | Some n \<Rightarrow> n + 1)
      in if rp_maxAttempts (del_retryPolicy delivering) < nextAttempt
         then let reasonCode = value_or (failure_reason work) ''webhook_delivery_retry_budget_exhausted''
              in prog_bind (bury_delivery R delivering reasonCode) (\<lambda>_.
                 prog_return \<lparr>hr_outcome = Hook_dead_letter, hr_receipt = hr_receipt work,
                   hr_retryDelayMilliseconds = None, hr_reasonCode = Some reasonCode\<rparr>)
         else prog_bind (prog_lift (createAttemptNumber (num_of nextAttempt) (Some (del_retryPolicy delivering))))
                (\<lambda>attempt.
              prog_bind (prog_lift (createFailureCategory ''webhook'')) (\<lambda>category.
              prog_bind (prog_lift (retryWebhookDelivery delivering attempt category)) (\<lambda>retrying.
              prog_bind (dr_save R retrying) (\<lambda>_.
              prog_return work)))))"

definition persistWorkResult ::
    "'w delivery_port \<Rightarrow> webhook_delivery \<Rightarrow> hook_result \<Rightarrow> ('w, hook_result) prog" where
  "persistWorkResult R delivering work =
     (case hr_outcome work of
        Hook_delivered \<Rightarrow>
          prog_bind (prog_lift (succeedWebhookDelivery delivering)) (\<lambda>delivered.
          prog_bind (dr_save R delivered) (\<lambda>_. prog_return work))
      | Hook_retry \<Rightarrow> persistRetryOutcome R delivering work
      | Hook_dead_letter \<Rightarrow>
          prog_bind (bury_delivery R delivering (value_or (failure_reason work) ''webhook_dead_letter''))
            (\<lambda>_. prog_return work))"

definition deliver_stored ::
    "'w delivery_port \<Rightarrow> (string \<Rightarrow> identity result) \<Rightarrow> 'w hook_handler \<Rightarrow> 'w hook_handler" where
  "deliver_stored R deliveryIdFromReservation inner r context =
     prog_bind (prog_lift (deliveryIdFromReservation (rsv_jobId r))) (\<lambda>deliveryId.
     prog_bind (dr_load R deliveryId) (\<lambda>found.
     case found of
       None \<Rightarrow> prog_return (hook_result Hook_dead_letter (Some ''webhook_delivery_not_found''))
     | Some d \<Rightarrow>
         if del_status d = Deliv_delivered
         then prog_return (hook_result Hook_delivered (Some ''webhook_delivery_already_delivered''))
         else if isWebhookDeliveryTerminal d
         then prog_return (hook_result Hook_dead_letter (Some ''webhook_delivery_terminal_state''))
         else
           prog_bind
             (if del_status d = Deliv_delivering then prog_return d
              else prog_bind (prog_lift (createAttemptNumber (num_of (rsv_attempt r))
                       (Some (del_retryPolicy d)))) (\<lambda>attempt.
                   prog_lift (startWebhookDelivery d attempt))) (\<lambda>delivering.
           prog_bind (dr_save R delivering) (\<lambda>_.
           prog_bind (inner r context) (persistWorkResult R delivering)))))"

definition default_delivery_id :: "string \<Rightarrow> identity result" where
  "default_delivery_id jobId = createDomainIdentity jobId ''WebhookDeliveryId''"

section \<open>webhook-dispatcher-runtime.ts\<close>

datatype dispatch_outcome =
    Dispatch_idle | Dispatch_delivered | Dispatch_retry_scheduled | Dispatch_dead_lettered
  | Dispatch_queue_failure | Dispatch_handler_failure

record dispatch_result =
  di_outcome :: dispatch_outcome
  di_reservation :: "reservation option"
  di_queueReceipt :: "receipt option"
  di_reasonCode :: "string option"

record dispatch_audit_entry =
  dau_outcome :: dispatch_outcome
  dau_jobId :: "string option"
  dau_reservationRef :: "string option"
  dau_attempt :: "int option"
  dau_reasonCode :: "string option"
  dau_correlationId :: string

definition resultFromQueueOperation ::
    "dispatch_outcome \<Rightarrow> reservation \<Rightarrow> receipt port_result \<Rightarrow> string option \<Rightarrow> dispatch_result" where
  "resultFromQueueOperation outcome r result reasonCode =
     (case result of
        Inl failure \<Rightarrow> \<lparr>di_outcome = Dispatch_queue_failure, di_reservation = Some r,
          di_queueReceipt = None, di_reasonCode = Some (pf_code failure)\<rparr>
      | Inr rcpt \<Rightarrow> \<lparr>di_outcome = outcome, di_reservation = Some r,
          di_queueReceipt = Some rcpt, di_reasonCode = reasonCode\<rparr>)"

text \<open>\<open>assertNonNegativeInteger\<close> of a delay; a delay that fails makes the dispatch throw.\<close>

definition assertNonNegativeInteger_delay :: "jsnum \<Rightarrow> string \<Rightarrow> unit result" where
  "assertNonNegativeInteger_delay value label =
     (case as_int value of
        None \<Rightarrow> Inl (TypeError (label @ '' must be a non-negative integer.''))
      | Some n \<Rightarrow>
          if n < 0 then Inl (TypeError (label @ '' must be a non-negative integer.'')) else Inr ())"

definition applyWorkResult ::
    "'w queue_provider \<Rightarrow> jsnum \<Rightarrow> reservation \<Rightarrow> hook_result \<Rightarrow> port_context \<Rightarrow>
     ('w, dispatch_result) prog" where
  "applyWorkResult queue defaultDelay r work context =
     (case hr_outcome work of
        Hook_delivered \<Rightarrow>
          prog_bind (prog_call (qp_acknowledge queue r context)) (\<lambda>result.
          prog_return (resultFromQueueOperation Dispatch_delivered r result None))
      | Hook_retry \<Rightarrow>
          let delay = value_or (hr_retryDelayMilliseconds work) defaultDelay
          in prog_bind (prog_lift (assertNonNegativeInteger_delay delay ''retryDelayMilliseconds'')) (\<lambda>_.
             prog_bind (prog_call (qp_releaseForRetry queue r delay context)) (\<lambda>result.
             prog_return (resultFromQueueOperation Dispatch_retry_scheduled r result (failure_reason work))))
      | Hook_dead_letter \<Rightarrow>
          prog_bind (prog_call (qp_moveToDeadLetter queue r
            (value_or (failure_reason work) ''webhook_delivery_terminal_failure'') context)) (\<lambda>result.
          prog_return (resultFromQueueOperation Dispatch_dead_lettered r result (failure_reason work))))"

definition deliverReservedWork ::
    "'w hook_handler \<Rightarrow> reservation \<Rightarrow> port_context \<Rightarrow> ('w, string + hook_result) prog" where
  "deliverReservedWork handler r context =
     prog_catch (prog_bind (handler r context) (\<lambda>work. prog_return (Inr work)))
       (\<lambda>_. prog_return (Inl ''webhook_handler_unexpected_failure''))"

definition dispatchNextUnrecorded ::
    "'w queue_provider \<Rightarrow> 'w hook_handler \<Rightarrow> jsnum \<Rightarrow> port_context \<Rightarrow> ('w, dispatch_result) prog" where
  "dispatchNextUnrecorded queue handler defaultDelay context =
     prog_bind (prog_call (qp_reserve queue Work_webhook_delivery context)) (\<lambda>reserved.
     case reserved of
       Inl failure \<Rightarrow> prog_return \<lparr>di_outcome = Dispatch_queue_failure, di_reservation = None,
         di_queueReceipt = None, di_reasonCode = Some (pf_code failure)\<rparr>
     | Inr None \<Rightarrow> prog_return \<lparr>di_outcome = Dispatch_idle, di_reservation = None,
         di_queueReceipt = None, di_reasonCode = None\<rparr>
     | Inr (Some r) \<Rightarrow>
         prog_bind (deliverReservedWork handler r context) (\<lambda>work.
         case work of
           Inl cause \<Rightarrow>
             prog_bind (prog_call (qp_releaseForRetry queue r defaultDelay context)) (\<lambda>release.
             prog_return
               (case release of
                  Inl failure \<Rightarrow> \<lparr>di_outcome = Dispatch_handler_failure, di_reservation = Some r,
                    di_queueReceipt = None, di_reasonCode = Some (pf_code failure)\<rparr>
                | Inr rcpt \<Rightarrow> \<lparr>di_outcome = Dispatch_retry_scheduled, di_reservation = Some r,
                    di_queueReceipt = Some rcpt, di_reasonCode = Some cause\<rparr>))
         | Inr result \<Rightarrow> applyWorkResult queue defaultDelay r result context))"

text \<open>The audit entry of a dispatch; a sink that throws is ignored.\<close>

definition dispatch_audit_entry :: "dispatch_result \<Rightarrow> port_context \<Rightarrow> dispatch_audit_entry" where
  "dispatch_audit_entry result context =
     \<lparr>dau_outcome = di_outcome result,
      dau_jobId = map_option rsv_jobId (di_reservation result),
      dau_reservationRef = map_option rsv_reservationRef (di_reservation result),
      dau_attempt = map_option rsv_attempt (di_reservation result),
      dau_reasonCode = di_reasonCode result,
      dau_correlationId = rc_correlationId (px_requestContext context)\<rparr>"

definition recordRuntimeEvidence ::
    "(dispatch_audit_entry \<Rightarrow> port_context \<Rightarrow> ('w, unit) prog) option \<Rightarrow> dispatch_result \<Rightarrow>
     port_context \<Rightarrow> ('w, unit) prog" where
  "recordRuntimeEvidence auditSink result context =
     (case auditSink of
        None \<Rightarrow> prog_return ()
      | Some recordWebhookDispatch \<Rightarrow>
          prog_catch (recordWebhookDispatch (dispatch_audit_entry result context) context)
            (\<lambda>_. prog_return ()))"

definition dispatchNext ::
    "'w queue_provider \<Rightarrow> 'w hook_handler \<Rightarrow> jsnum \<Rightarrow>
     (dispatch_audit_entry \<Rightarrow> port_context \<Rightarrow> ('w, unit) prog) option \<Rightarrow> port_context \<Rightarrow>
     ('w, dispatch_result) prog" where
  "dispatchNext queue handler defaultDelay auditSink context =
     prog_bind (dispatchNextUnrecorded queue handler defaultDelay context) (\<lambda>result.
     prog_bind (recordRuntimeEvidence auditSink result context) (\<lambda>_.
     prog_return result))"

end
