(* ===== verification/OperationIntents.thy ===== *)
theory OperationIntents
  imports IntentStore
begin

text \<open>
  The stores of the inputs of group mutations and of bulk redrives of webhook deliveries:
  \<open>packages/application/src/ports/group-mutation-intent-store.ts\<close> and
  \<open>webhook-delivery-operation-intent-store.ts\<close>, and the files of the same names under
  \<open>packages/infrastructure-persistence/src\<close>.  A payload is kept as the checked input, which the
  code writes as base64 of JSON and checks again when it is read.  The persistence is the one of
  \<open>IntentStore\<close>.
\<close>

section \<open>ports/group-mutation-intent-store.ts\<close>

datatype member_mutation_kind = Mutate_remove | Mutate_promote | Mutate_demote

datatype group_mutation =
    Mutation_metadata "string option" "string option"
  | Mutation_local_state "bool option" "bool option" "bool option"
  | Mutation_add_member string
  | Mutation_member member_mutation_kind string

record group_mutation_input =
  gmi_ref :: "string option"
  gmi_mutation :: group_mutation
  gmi_expiresAt :: "jsnum option"

definition createGroupMutationIntentRef :: "string \<Rightarrow> string result" where
  "createGroupMutationIntentRef value =
     (let normalized = js_trim value
      in if \<not> safe_token normalized
         then Inl (TypeError ''GroupMutationIntentRef must be a safe opaque reference.'')
         else createOpaqueString normalized ''GroupMutationIntentRef'')"

text \<open>The expiry of an input, checked to be a safe integer.\<close>

definition assertSafeExpiry :: "string \<Rightarrow> jsnum option \<Rightarrow> int option result" where
  "assertSafeExpiry message value =
     (case value of
        None \<Rightarrow> Inr None
      | Some v \<Rightarrow> (case safe_integer_of v of None \<Rightarrow> Inl (TypeError message) | Some n \<Rightarrow> Inr (Some n)))"

definition freezeMetadataInput :: "string option \<Rightarrow> string option \<Rightarrow> group_mutation result" where
  "freezeMetadataInput subject0 description0 =
     (let subject = map_option js_trim subject0; description = map_option js_trim description0
      in if (case subject of None \<Rightarrow> True | Some s \<Rightarrow> length s = 0) \<and> description = None
         then Inl (TypeError ''Group metadata mutation requires subject or description.'')
         else if description \<noteq> None \<and> description = Some []
         then Inl (TypeError ''Group metadata description must not be empty.'')
         else Inr (Mutation_metadata
           (case subject of None \<Rightarrow> subject0 | Some s \<Rightarrow> if length s = 0 then subject0 else Some s)
           (case description of None \<Rightarrow> description0 | Some d \<Rightarrow> Some d)))"

definition freezeLocalStateInput ::
    "bool option \<Rightarrow> bool option \<Rightarrow> bool option \<Rightarrow> group_mutation result" where
  "freezeLocalStateInput muted archived pinned =
     (if muted = None \<and> archived = None \<and> pinned = None
      then Inl (TypeError ''Group local state mutation requires a boolean field.'')
      else Inr (Mutation_local_state muted archived pinned))"

definition freeze_mutation :: "group_mutation \<Rightarrow> group_mutation result" where
  "freeze_mutation mutation =
     (case mutation of
        Mutation_metadata subject description \<Rightarrow> freezeMetadataInput subject description
      | Mutation_local_state muted archived pinned \<Rightarrow> freezeLocalStateInput muted archived pinned
      | Mutation_add_member memberJid \<Rightarrow>
          result_map (\<lambda>_. Mutation_add_member (js_trim memberJid))
            (assertNonEmpty_intent memberJid ''Group member reference'')
      | Mutation_member kind memberRef \<Rightarrow>
          result_map (\<lambda>_. Mutation_member kind (js_trim memberRef))
            (assertNonEmpty_intent memberRef ''Group member reference''))"

definition createGroupMutationIntentInput :: "group_mutation_input \<Rightarrow> (group_mutation \<times> int option) result" where
  "createGroupMutationIntentInput input =
     result_bind (assertSafeExpiry ''Group mutation intent expiry must be a safe integer.''
       (gmi_expiresAt input)) (\<lambda>expiresAt.
     result_map (\<lambda>mutation. (mutation, expiresAt)) (freeze_mutation (gmi_mutation input)))"

section \<open>ports/webhook-delivery-operation-intent-store.ts\<close>

record bulk_redrive_input =
  bri_ref :: "string option"
  bri_deliveryRefs :: "string list"
  bri_expiresAt :: "jsnum option"

definition maxBulkRedriveDeliveryRefs :: nat where
  "maxBulkRedriveDeliveryRefs = 50"

definition createWebhookDeliveryOperationIntentRef :: "string \<Rightarrow> string result" where
  "createWebhookDeliveryOperationIntentRef value =
     (let normalized = js_trim value
      in if \<not> safe_token normalized
         then Inl (TypeError ''WebhookDeliveryOperationIntentRef must be a safe opaque reference.'')
         else createOpaqueString normalized ''WebhookDeliveryOperationIntentRef'')"

definition freezeBulkRedriveInput :: "string list \<Rightarrow> string list result" where
  "freezeBulkRedriveInput refs =
     (let deliveryRefs = map js_trim refs
      in if length deliveryRefs = 0
         then Inl (TypeError ''Bulk webhook delivery redrive requires at least one delivery reference.'')
         else if maxBulkRedriveDeliveryRefs < length deliveryRefs
         then Inl (TypeError
           ''Bulk webhook delivery redrive exceeds the maximum delivery reference count.'')
         else case List.find (\<lambda>r. \<not> safe_token r) deliveryRefs of
                Some r \<Rightarrow>
                  Inl (TypeError
                    (if length r = 0 then ''Webhook delivery reference must not be empty.''
                     else ''Webhook delivery reference must be a safe opaque reference.''))
              | None \<Rightarrow>
                  if \<not> distinct deliveryRefs
                  then Inl (TypeError
                    ''Bulk webhook delivery redrive delivery references must be unique.'')
                  else Inr deliveryRefs)"

definition createWebhookDeliveryOperationIntentInput ::
    "bulk_redrive_input \<Rightarrow> (string list \<times> int option) result" where
  "createWebhookDeliveryOperationIntentInput input =
     result_bind (assertSafeExpiry ''Webhook delivery operation intent expiry must be a safe integer.''
       (bri_expiresAt input)) (\<lambda>expiresAt.
     result_map (\<lambda>refs. (refs, expiresAt)) (freezeBulkRedriveInput (bri_deliveryRefs input)))"

section \<open>The stores\<close>

text \<open>A stored operation with a payload of type \<open>'p\<close>; the two stores differ in it and in their texts.\<close>

record 'p stored_operation =
  so_ref :: string
  so_payload :: 'p
  so_createdAt :: int
  so_expiresAt :: "int option"

record ('p, 'd) operation_store =
  os_intents :: "'p stored_operation list"
  os_disk :: 'd

type_synonym ('p, 'd) operation_persist = "('p stored_operation list, 'd) persist_of"

text \<open>
  What tells the two stores apart: the failures, the label of a generated reference, and the
  check of a payload when it is read.
\<close>

record 'p operation_kind =
  ok_failure :: "port_failure_category \<Rightarrow> string \<Rightarrow> port_failure"
  ok_prefix :: string
  ok_createRef :: "string \<Rightarrow> string result"
  ok_decode :: "'p \<Rightarrow> 'p result"

definition operationFailure ::
    "string \<Rightarrow> domain_owner_context \<Rightarrow> port_failure_category \<Rightarrow> string \<Rightarrow> port_failure" where
  "operationFailure message owner category code =
     createApplicationPortFailure
       \<lparr>pf_category = category, pf_code = code, pf_message = message, pf_retryable = False,
        pf_ownerContext = Some owner, pf_failureCategory = None, pf_safeMetadata = None\<rparr>"

definition groupMutationIntentFailure :: "port_failure_category \<Rightarrow> string \<Rightarrow> port_failure" where
  "groupMutationIntentFailure =
     operationFailure ''Group mutation intent store operation failed.'' Owner_group"

definition webhookDeliveryOperationIntentFailure :: "port_failure_category \<Rightarrow> string \<Rightarrow> port_failure" where
  "webhookDeliveryOperationIntentFailure =
     operationFailure ''Webhook delivery operation intent store operation failed.''
       Owner_webhook_delivery"

definition group_operation :: "group_mutation operation_kind" where
  "group_operation =
     \<lparr>ok_failure = groupMutationIntentFailure, ok_prefix = ''group_mutation_intent'',
      ok_createRef = createGroupMutationIntentRef, ok_decode = freeze_mutation\<rparr>"

definition webhook_operation :: "string list operation_kind" where
  "webhook_operation =
     \<lparr>ok_failure = webhookDeliveryOperationIntentFailure,
      ok_prefix = ''webhook_delivery_operation_intent'',
      ok_createRef = createWebhookDeliveryOperationIntentRef, ok_decode = freezeBulkRedriveInput\<rparr>"

definition isExpired_operation :: "'p stored_operation \<Rightarrow> int \<Rightarrow> bool" where
  "isExpired_operation intent now =
     (case so_expiresAt intent of None \<Rightarrow> False | Some t \<Rightarrow> t \<le> now)"

definition indexOf_operation :: "string \<Rightarrow> 'p stored_operation list \<Rightarrow> nat option" where
  "indexOf_operation ref intents = find_index (\<lambda>intent. so_ref intent = ref) intents"

definition findAvailable_operation ::
    "'p operation_kind \<Rightarrow> int \<Rightarrow> string \<Rightarrow> 'p stored_operation list \<Rightarrow> 'p stored_operation port_result" where
  "findAvailable_operation K now ref intents =
     (case indexOf_operation ref intents of
        None \<Rightarrow> Inl (ok_failure K Port_rejected (ok_prefix K @ ''_not_found''))
      | Some n \<Rightarrow>
          if isExpired_operation (intents ! n) now
          then Inl (ok_failure K Port_rejected (ok_prefix K @ ''_expired''))
          else Inr (intents ! n))"

definition set_operations ::
    "('p, 'd) operation_persist \<Rightarrow> 'p stored_operation list \<Rightarrow> ('p, 'd) operation_store \<Rightarrow>
     bool \<times> ('p, 'd) operation_store" where
  "set_operations persist intents s =
     (case persist intents (os_disk s) of
        (None, disk) \<Rightarrow> (True, \<lparr>os_intents = intents, os_disk = disk\<rparr>)
      | (Some cause, disk) \<Rightarrow> (False, \<lparr>os_intents = intents, os_disk = disk\<rparr>))"

definition operation_rejected :: "'p operation_kind \<Rightarrow> port_failure" where
  "operation_rejected K = ok_failure K Port_unsafe_payload (ok_prefix K @ ''_store_rejected'')"

text \<open>
  Storing a checked input; \<open>Inl\<close> is an input that was refused.  The receipt has the reference,
  the time of creation and the expiry; its kind and count are those of the payload.
\<close>

definition store_operation ::
    "'p operation_kind \<Rightarrow> ('p, 'd) operation_persist \<Rightarrow> int \<Rightarrow> string \<Rightarrow> string option \<Rightarrow>
     ('p \<times> int option) result \<Rightarrow> ('p, 'd) operation_store \<Rightarrow>
     'p stored_operation port_result \<times> ('p, 'd) operation_store" where
  "store_operation K persist now uuid givenRef checked s =
     (case result_bind checked (\<lambda>(payload, expiresAt).
             result_map (\<lambda>ref. (payload, expiresAt, ref))
               (case givenRef of
                  Some ref \<Rightarrow> Inr ref | None \<Rightarrow> ok_createRef K (ok_prefix K @ '':'' @ uuid))) of
        Inl _ \<Rightarrow> (Inl (operation_rejected K), s)
      | Inr (payload, expiresAt, ref) \<Rightarrow>
          let existingIndex = indexOf_operation ref (os_intents s);
              stored = \<lparr>so_ref = ref, so_payload = payload,
                so_createdAt = (case existingIndex of
                    None \<Rightarrow> now | Some n \<Rightarrow> so_createdAt (os_intents s ! n)),
                so_expiresAt = expiresAt\<rparr>;
              intents = (case existingIndex of
                  None \<Rightarrow> os_intents s @ [stored] | Some n \<Rightarrow> (os_intents s)[n := stored]);
              (persisted, s') = set_operations persist intents s
          in (if persisted
              then (case ok_createRef K ref of
                      Inl _ \<Rightarrow> Inl (operation_rejected K)
                    | Inr safe \<Rightarrow> Inr (stored\<lparr>so_ref := safe\<rparr>))
              else Inl (operation_rejected K), s'))"

definition resolve_operation ::
    "'p operation_kind \<Rightarrow> int \<Rightarrow> string \<Rightarrow> ('p, 'd) operation_store \<Rightarrow> 'p stored_operation port_result" where
  "resolve_operation K now ref s =
     (case findAvailable_operation K now ref (os_intents s) of
        Inl failure \<Rightarrow> Inl failure
      | Inr stored \<Rightarrow>
          (case result_bind (ok_decode K (so_payload stored)) (\<lambda>payload.
                  result_map (\<lambda>r. stored\<lparr>so_ref := r, so_payload := payload\<rparr>)
                    (ok_createRef K (so_ref stored))) of
             Inl _ \<Rightarrow> Inl (operation_rejected K)
           | Inr x \<Rightarrow> Inr x))"

definition storeGroupMutationIntent ::
    "(group_mutation, 'd) operation_persist \<Rightarrow> int \<Rightarrow> string \<Rightarrow> group_mutation_input \<Rightarrow>
     (group_mutation, 'd) operation_store \<Rightarrow>
     group_mutation stored_operation port_result \<times> (group_mutation, 'd) operation_store" where
  "storeGroupMutationIntent persist now uuid input =
     store_operation group_operation persist now uuid (gmi_ref input) (createGroupMutationIntentInput input)"

definition resolveGroupMutationIntent ::
    "int \<Rightarrow> string \<Rightarrow> (group_mutation, 'd) operation_store \<Rightarrow> group_mutation stored_operation port_result" where
  "resolveGroupMutationIntent = resolve_operation group_operation"

definition storeWebhookDeliveryOperationIntent ::
    "(string list, 'd) operation_persist \<Rightarrow> int \<Rightarrow> string \<Rightarrow> bulk_redrive_input \<Rightarrow>
     (string list, 'd) operation_store \<Rightarrow>
     string list stored_operation port_result \<times> (string list, 'd) operation_store" where
  "storeWebhookDeliveryOperationIntent persist now uuid input =
     store_operation webhook_operation persist now uuid (bri_ref input)
       (createWebhookDeliveryOperationIntentInput input)"

definition resolveWebhookDeliveryOperationIntent ::
    "int \<Rightarrow> string \<Rightarrow> (string list, 'd) operation_store \<Rightarrow> string list stored_operation port_result" where
  "resolveWebhookDeliveryOperationIntent = resolve_operation webhook_operation"

definition empty_operations :: "('p, unit) operation_store" where
  "empty_operations = \<lparr>os_intents = [], os_disk = ()\<rparr>"

definition createDurableJsonOperationStore ::
    "'p stored_operation list json_file \<Rightarrow> ('p, 'p stored_operation list json_file) operation_store" where
  "createDurableJsonOperationStore disk = \<lparr>os_intents = value_or (jf_file disk) [], os_disk = disk\<rparr>"

section \<open>What is checked once is not refused again\<close>

lemma assertNonEmpty_intent_Inr: "assertNonEmpty_intent v l = Inr () \<longleftrightarrow> js_trim v \<noteq> []"
  by (simp add: assertNonEmpty_intent_def)

lemma freeze_mutation_idem: "freeze_mutation m = Inr m' \<Longrightarrow> freeze_mutation m' = Inr m'"
  by (auto simp: freeze_mutation_def freezeMetadataInput_def freezeLocalStateInput_def
      assertNonEmpty_intent_def result_simps js_trim_idem Let_def
      split: group_mutation.splits option.splits if_splits)

lemma freezeBulkRedriveInput_ok:
  "freezeBulkRedriveInput refs = Inr rs \<Longrightarrow>
     rs = map js_trim refs \<and> rs \<noteq> [] \<and> length rs \<le> 50 \<and> distinct rs \<and> list_all safe_token rs"
  by (auto simp: freezeBulkRedriveInput_def maxBulkRedriveDeliveryRefs_def Let_def list_all_iff find_None_iff
      split: if_splits option.splits)

lemma freezeBulkRedriveInput_idem:
  assumes "freezeBulkRedriveInput refs = Inr rs"
  shows "freezeBulkRedriveInput rs = Inr rs"
proof -
  note ok = freezeBulkRedriveInput_ok [OF assms]
  have "map js_trim rs = rs" using ok by (auto simp: js_trim_idem map_idI)
  moreover have "List.find (\<lambda>r. \<not> safe_token r) rs = None" using ok by (simp add: find_None_iff list_all_iff)
  moreover have "rs \<noteq> []" "length rs \<le> 50" "distinct rs" using ok by blast+
  ultimately show ?thesis
    by (simp add: freezeBulkRedriveInput_def Let_def maxBulkRedriveDeliveryRefs_def)
qed

end
