(* ===== verification/WebhookRetry.thy ===== *)
theory WebhookRetry
  imports WebhookDelivery OperationIntents
begin

text \<open>
  \<open>packages/application/src/services/handlers/retry-webhook-delivery.handler.ts\<close>: the handler of
  \<open>RetryWebhookDelivery\<close>, \<open>RedriveWebhookDelivery\<close> and \<open>BulkRedriveWebhookDeliveries\<close>.  A retry
  queues the delivery again; a redrive of a dead letter schedules a new delivery first.
\<close>

section \<open>Ports and input\<close>

record 'w retry_hook_ports =
  rh_deliveries :: "'w delivery_port"
  rh_enqueue :: "queue_work \<Rightarrow> port_context \<Rightarrow> ('w, receipt port_result) prog"
  rh_resolveOperationIntent ::
    "(string \<Rightarrow> port_context \<Rightarrow> ('w, string list port_result) prog) option"

datatype hook_mode = Mode_retry | Mode_redrive

fun hook_mode_name :: "hook_mode \<Rightarrow> string" where
  "hook_mode_name Mode_retry = ''retry''"
| "hook_mode_name Mode_redrive = ''redrive''"

record retry_hook_input =
  rhi_mode :: hook_mode
  rhi_deliveryId :: identity
  rhi_idempotencyKey :: string
  rhi_context :: port_context

record bulk_redrive_command =
  brc_deliveryRefs :: "string list"
  brc_idempotencyKey :: string
  brc_context :: port_context
  brc_resultRef :: string

definition retryModeForCommand :: "command_name \<Rightarrow> hook_mode option" where
  "retryModeForCommand name =
     (if name = Cmd_RetryWebhookDelivery then Some Mode_retry
      else if name = Cmd_RedriveWebhookDelivery then Some Mode_redrive
      else None)"

definition resolveInput_hook :: "command_envelope \<Rightarrow> string + retry_hook_input" where
  "resolveInput_hook envelope =
     (case retryModeForCommand (ce_name envelope) of
        None \<Rightarrow> Inl ''webhook_delivery_operation_wrong_command''
      | Some mode \<Rightarrow>
          (let prefix = hook_mode_name mode @ ''_webhook_delivery''
           in case ce_targetRef envelope of
                None \<Rightarrow> Inl (prefix @ ''_target_required'')
              | Some target \<Rightarrow>
                  (case ce_idempotencyKey envelope of
                     None \<Rightarrow> Inl (prefix @ ''_idempotency_required'')
                   | Some key \<Rightarrow>
                       (case result_bind (createDomainIdentity target ''WebhookDeliveryId'') (\<lambda>i.
                               result_map (\<lambda>k. \<lparr>rhi_mode = mode, rhi_deliveryId = i,
                                   rhi_idempotencyKey = k, rhi_context = commandContext envelope\<rparr>)
                                 (createIdempotencyKey (prefix @ '':'' @ key))) of
                          Inl _ \<Rightarrow> Inl (prefix @ ''_input_invalid'')
                        | Inr input \<Rightarrow> Inr input))))"

definition isDeliveryStateAllowed :: "webhook_delivery \<Rightarrow> hook_mode \<Rightarrow> bool" where
  "isDeliveryStateAllowed d mode \<longleftrightarrow>
     (if mode = Mode_redrive then del_status d = Deliv_dead_letter
      else del_status d = Deliv_pending \<or> del_status d = Deliv_retrying)"

section \<open>Redriving and queueing\<close>

definition redrive_delivery :: "webhook_delivery \<Rightarrow> string \<Rightarrow> webhook_delivery result" where
  "redrive_delivery d key =
     result_bind (createDomainIdentity (del_id d @ '':redrive:'' @ key) ''WebhookDeliveryId'') (\<lambda>i.
     scheduleWebhookDelivery i (del_webhookId d) (del_sourceSignalRef d) (del_retryPolicy d))"

definition resolveRedriveDelivery ::
    "'w delivery_port \<Rightarrow> webhook_delivery \<Rightarrow> retry_hook_input \<Rightarrow> ('w, webhook_delivery) prog" where
  "resolveRedriveDelivery R d input =
     prog_bind (dr_findByIdempotencyKey R (rhi_idempotencyKey input)) (\<lambda>existing.
     case existing of
       Some e \<Rightarrow> prog_return e
     | None \<Rightarrow>
         prog_bind (prog_lift (redrive_delivery d (rhi_idempotencyKey input))) (\<lambda>redrive.
         prog_bind (dr_save R redrive) (\<lambda>_.
         prog_bind (dr_recordIdempotencyKey R (rhi_idempotencyKey input) (del_id redrive)) (\<lambda>_.
         prog_return redrive))))"

definition hook_work :: "webhook_delivery \<Rightarrow> identity \<Rightarrow> string \<Rightarrow> queue_work" where
  "hook_work d jobId key =
     \<lparr>qw_jobId = jobId, qw_ownerContext = Owner_webhook_delivery, qw_ownerRef = del_id d,
      qw_workType = Work_webhook_delivery, qw_retryPolicy = del_retryPolicy d,
      qw_idempotencyKey = key, qw_safeInputRef = None, qw_safeMetadata = None\<rparr>"

definition queueWebhookDelivery ::
    "'w retry_hook_ports \<Rightarrow> webhook_delivery \<Rightarrow> retry_hook_input \<Rightarrow> ('w, receipt port_result) prog" where
  "queueWebhookDelivery P d input =
     prog_bind (prog_lift (createDomainIdentity (del_id d) ''JobId'')) (\<lambda>jobId.
     rh_enqueue P (hook_work d jobId (rhi_idempotencyKey input)) (rhi_context input))"

section \<open>Bulk redrive\<close>

datatype redrive_result = Redrive_queued | Redrive_skipped | Redrive_failed bool string

definition redriveOneDelivery ::
    "'w retry_hook_ports \<Rightarrow> bulk_redrive_command \<Rightarrow> string \<Rightarrow> ('w, redrive_result) prog" where
  "redriveOneDelivery P bulk deliveryRef =
     (case createDomainIdentity deliveryRef ''WebhookDeliveryId'' of
        Inl _ \<Rightarrow> prog_return Redrive_skipped
      | Inr deliveryId \<Rightarrow>
          prog_bind (dr_load (rh_deliveries P) deliveryId) (\<lambda>found.
          case found of
            None \<Rightarrow> prog_return Redrive_skipped
          | Some d \<Rightarrow>
              if \<not> isDeliveryStateAllowed d Mode_redrive then prog_return Redrive_skipped
              else
                prog_bind (prog_lift (createIdempotencyKey (''bulk_redrive_webhook_delivery:'' @
                  brc_idempotencyKey bulk @ '':'' @ deliveryId))) (\<lambda>key.
                let input = \<lparr>rhi_mode = Mode_redrive, rhi_deliveryId = deliveryId,
                  rhi_idempotencyKey = key, rhi_context = brc_context bulk\<rparr>
                in prog_bind (resolveRedriveDelivery (rh_deliveries P) d input) (\<lambda>queueDelivery.
                   prog_bind (queueWebhookDelivery P queueDelivery input) (\<lambda>queueResult.
                   prog_return
                     (case queueResult of
                        Inl failure \<Rightarrow> Redrive_failed (pf_retryable failure) (pf_code failure)
                      | Inr _ \<Rightarrow> Redrive_queued))))))"

record redrive_counts =
  rdc_queued :: nat
  rdc_skipped :: nat
  rdc_failed :: nat
  rdc_retryable :: bool
  rdc_firstCode :: "string option"

fun count_redrive :: "redrive_result \<Rightarrow> redrive_counts \<Rightarrow> redrive_counts" where
  "count_redrive Redrive_queued n = n\<lparr>rdc_queued := rdc_queued n + 1\<rparr>"
| "count_redrive Redrive_skipped n = n\<lparr>rdc_skipped := rdc_skipped n + 1\<rparr>"
| "count_redrive (Redrive_failed retryable code) n =
     n\<lparr>rdc_failed := rdc_failed n + 1, rdc_retryable := rdc_retryable n \<or> retryable,
       rdc_firstCode := nullish (rdc_firstCode n) (Some code)\<rparr>"

fun redrive_all ::
    "'w retry_hook_ports \<Rightarrow> bulk_redrive_command \<Rightarrow> string list \<Rightarrow> redrive_counts \<Rightarrow>
     ('w, redrive_counts) prog" where
  "redrive_all P bulk [] n = prog_return n"
| "redrive_all P bulk (ref # refs) n =
     prog_bind (redriveOneDelivery P bulk ref) (\<lambda>result.
     redrive_all P bulk refs (count_redrive result n))"

definition no_redrives :: redrive_counts where
  "no_redrives = \<lparr>rdc_queued = 0, rdc_skipped = 0, rdc_failed = 0, rdc_retryable = False,
     rdc_firstCode = None\<rparr>"

definition resolveBulkRedriveInput ::
    "'w retry_hook_ports \<Rightarrow> command_envelope \<Rightarrow> ('w, string + bulk_redrive_command) prog" where
  "resolveBulkRedriveInput P envelope =
     (case rh_resolveOperationIntent P of
        None \<Rightarrow> prog_return (Inl ''webhook_delivery_operation_intent_store_not_configured'')
      | Some resolve \<Rightarrow>
          (case ce_safeInputRef envelope of
             None \<Rightarrow> prog_return (Inl ''bulk_redrive_webhook_delivery_input_required'')
           | Some inputRef \<Rightarrow>
               (case ce_idempotencyKey envelope of
                  None \<Rightarrow> prog_return (Inl ''bulk_redrive_webhook_delivery_idempotency_required'')
                | Some key \<Rightarrow>
                    prog_catch
                      (prog_bind (prog_lift (createWebhookDeliveryOperationIntentRef inputRef)) (\<lambda>ref.
                       prog_bind (resolve ref (commandContext envelope)) (\<lambda>intentResult.
                       case intentResult of
                         Inl failure \<Rightarrow> prog_return (Inl (pf_code failure))
                       | Inr deliveryRefs \<Rightarrow>
                           prog_bind (prog_lift (createIdempotencyKey
                             (''bulk_redrive_webhook_deliveries:'' @ key))) (\<lambda>k.
                           prog_return (Inr
                             \<lparr>brc_deliveryRefs = deliveryRefs, brc_idempotencyKey = k,
                              brc_context = commandContext envelope,
                              brc_resultRef = ''webhook_delivery_bulk_redrive:'' @ ref\<rparr>)))))
                      (\<lambda>_. prog_return (Inl ''bulk_redrive_webhook_delivery_input_invalid'')))))"

definition bulk_outcome :: "command_envelope \<Rightarrow> string \<Rightarrow> redrive_counts \<Rightarrow> command_outcome" where
  "bulk_outcome envelope resultRef n =
     (if 0 < rdc_queued n then commandOutcome envelope Outcome_queued True False (Some resultRef) None
      else if 0 < rdc_failed n
      then commandOutcome envelope Outcome_failed False (rdc_retryable n) (Some resultRef)
             (Some (value_or (rdc_firstCode n) ''webhook_delivery_bulk_redrive_failed''))
      else commandOutcome envelope Outcome_rejected False False (Some resultRef)
             (Some (if 0 < rdc_skipped n then ''webhook_delivery_bulk_redrive_no_eligible_deliveries''
                    else ''webhook_delivery_bulk_redrive_empty'')))"

definition handleBulkRedrive ::
    "'w retry_hook_ports \<Rightarrow> command_envelope \<Rightarrow> ('w, command_outcome) prog" where
  "handleBulkRedrive P envelope =
     prog_bind (resolveBulkRedriveInput P envelope) (\<lambda>input.
     case input of
       Inl reasonCode \<Rightarrow> prog_return (commandOutcome envelope Outcome_failed False False None (Some reasonCode))
     | Inr bulk \<Rightarrow>
         prog_bind (redrive_all P bulk (brc_deliveryRefs bulk) no_redrives) (\<lambda>n.
         prog_return (bulk_outcome envelope (brc_resultRef bulk) n)))"

section \<open>The handler\<close>

definition handle_retry_hook ::
    "'w retry_hook_ports \<Rightarrow> command_envelope \<Rightarrow> ('w, command_outcome) prog" where
  "handle_retry_hook P envelope =
     (if ce_name envelope = Cmd_BulkRedriveWebhookDeliveries then handleBulkRedrive P envelope
      else case resolveInput_hook envelope of
        Inl reasonCode \<Rightarrow> prog_return (commandOutcome envelope Outcome_failed False False None (Some reasonCode))
      | Inr input \<Rightarrow>
          prog_bind (dr_load (rh_deliveries P) (rhi_deliveryId input)) (\<lambda>found.
          case found of
            None \<Rightarrow> prog_return (commandOutcome envelope Outcome_failed False False None
              (Some ''webhook_delivery_not_found''))
          | Some d \<Rightarrow>
              if \<not> isDeliveryStateAllowed d (rhi_mode input)
              then prog_return (commandOutcome envelope Outcome_rejected False False (Some (del_id d))
                (Some (if rhi_mode input = Mode_retry then ''webhook_delivery_retry_not_allowed''
                       else ''webhook_delivery_redrive_not_allowed'')))
              else
                prog_bind (if rhi_mode input = Mode_redrive
                           then resolveRedriveDelivery (rh_deliveries P) d input
                           else prog_return d) (\<lambda>queueDelivery.
                prog_bind (queueWebhookDelivery P queueDelivery input) (\<lambda>queueResult.
                prog_return
                  (case queueResult of
                     Inl failure \<Rightarrow> commandOutcome envelope Outcome_failed False (pf_retryable failure)
                       (Some (del_id queueDelivery)) (Some (pf_code failure))
                   | Inr _ \<Rightarrow> commandOutcome envelope Outcome_queued True False
                       (Some (del_id queueDelivery)) None)))))"

end
