(* ===== verification/WorkerRuntimeLaws.thy ===== *)
theory WorkerRuntimeLaws
  imports WorkerRuntime DurableQueueHistory
begin

text \<open>
  A tick of the worker runtime over the durable queue: a job that was reserved ends completed,
  scheduled for its next attempt, or dead, as the handler's answer says; and what the application
  handlers answer is always an answer the queue accepts.
\<close>

section \<open>Answers\<close>

definition dead_code :: "string \<Rightarrow> string" where
  "dead_code c = (case createSafeDomainCode c ''DeadLetterReason.code'' of Inl _ \<Rightarrow> [] | Inr k \<Rightarrow> k)"

definition dead_code_ok :: "string \<Rightarrow> bool" where
  "dead_code_ok c \<longleftrightarrow> createSafeDomainCode c ''DeadLetterReason.code'' = Inr (dead_code c)"

lemma dead_code_ok_safe: "isSafeDomainCode c \<Longrightarrow> dead_code_ok c"
  by (simp add: dead_code_ok_def dead_code_def createSafeDomainCode_id)

text \<open>An answer the queue does not refuse.\<close>

fun safe_answer :: "handler_outcome port_result \<Rightarrow> bool" where
  "safe_answer (Inr Handler_completed) \<longleftrightarrow> True"
| "safe_answer (Inr (Handler_retry d c)) \<longleftrightarrow> (case as_int d of None \<Rightarrow> False | Some n \<Rightarrow> 0 \<le> n)"
| "safe_answer (Inr (Handler_dead c)) \<longleftrightarrow> dead_code_ok c"
| "safe_answer (Inl f) \<longleftrightarrow> pf_retryable f \<or> dead_code_ok (pf_code f)"

definition retried_job :: "reservation \<Rightarrow> worker_job \<Rightarrow> worker_job" where
  "retried_job r w =
     (if budget_exhausted r w then buried ''retry_budget_exhausted'' w
      else rescheduled (rsv_attempt r + 1) w)"

fun settled_job :: "handler_outcome port_result \<Rightarrow> reservation \<Rightarrow> worker_job \<Rightarrow> worker_job" where
  "settled_job (Inr Handler_completed) r w = finished w"
| "settled_job (Inr (Handler_retry d c)) r w = retried_job r w"
| "settled_job (Inr (Handler_dead c)) r w = buried (dead_code c) w"
| "settled_job (Inl f) r w =
     (if pf_retryable f then retried_job r w else buried (dead_code (pf_code f)) w)"

fun reported :: "handler_outcome port_result \<Rightarrow> job_outcome_status" where
  "reported (Inr Handler_completed) = Job_outcome_completed"
| "reported (Inr (Handler_retry d c)) = Job_outcome_retried"
| "reported (Inr (Handler_dead c)) = Job_outcome_dead_lettered"
| "reported (Inl f) = (if pf_retryable f then Job_outcome_retried else Job_outcome_dead_lettered)"

lemma settled_status_simps:
  "job_status (finished w) = Job_completed" "job_status (buried code w) = Job_dead"
  "job_status (retried_job r w) =
     (if rsv_attempt r < rp_maxAttempts (job_retryPolicy w) then Job_retrying else Job_dead)"
  by (auto simp: finished_def buried_def retried_job_def rescheduled_def budget_exhausted_def job_moved_def)

text \<open>What the runtime makes of a handler's call.\<close>

definition caught :: "handler_outcome port_result call \<Rightarrow> handler_outcome port_result" where
  "caught a = (case a of Inl cause \<Rightarrow> Inl (toWorkerRuntimeFailure cause) | Inr x \<Rightarrow> x)"

lemma invokeHandler_eq:
  "wh_handle handler \<lparr>wj_workType = wh_workType handler, wj_reservation = r\<rparr> c w = (a, w') \<Longrightarrow>
     invokeHandler handler r c w = (caught a, w')"
  by (simp add: invokeHandler_def caught_def split: sum.split)

lemma durable_provider_simps [simp]:
  "qp_reserve (durable_provider repo timeout now) t c (q, h) =
     (let (a, q') = reserve repo timeout now t q in (a, (q', h)))"
  "qp_acknowledge (durable_provider repo timeout now) r c (q, h) =
     (let (a, q') = acknowledge repo now r q in (a, (q', h)))"
  "qp_releaseForRetry (durable_provider repo timeout now) r d c (q, h) =
     (let (a, q') = releaseForRetry repo now r d q in (a, (q', h)))"
  "qp_moveToDeadLetter (durable_provider repo timeout now) r code c (q, h) =
     (let (a, q') = moveToDeadLetter repo now r code q in (a, (q', h)))"
  by (simp_all add: durable_provider_def)

section \<open>One handler, one tick\<close>

definition settles_to ::
    "'r job_repository \<Rightarrow> ('r \<Rightarrow> bool) \<Rightarrow> 'r durable_queue \<Rightarrow> reservation \<Rightarrow> job_outcome_status \<Rightarrow>
     worker_job \<Rightarrow> 'h \<Rightarrow> job_outcome \<times> ('r durable_queue \<times> 'h) \<Rightarrow> bool" where
  "settles_to repo good u r status w h result \<longleftrightarrow>
     (\<exists>out u'. result = (out, (u', h)) \<and> jo_status out = status \<and> jo_reservation out = Some r \<and>
        dq_ok repo good u' \<and> dq_job repo u' = (dq_job repo u)(rsv_jobId r \<mapsto> w))"

context worker_job_repository
begin

lemma acknowledge_job_settles:
  assumes "dq_ok repo inv u" "dq_job repo u (rsv_jobId r) = Some w" "isSupportedWorkerJob w" "holds r w"
  shows "settles_to repo inv u r Job_outcome_completed (finished w) h
    (acknowledge_job (durable_provider repo timeout now) t r c (u, h))"
  using acknowledge_holds [OF assms, of now]
  by (auto simp: settles_to_def acknowledge_job_def settled_def becomes_def)

lemma release_job_settles:
  assumes "dq_ok repo inv u" "dq_job repo u (rsv_jobId r) = Some w" "isSupportedWorkerJob w" "holds r w"
    and "0 \<le> d"
  shows "settles_to repo inv u r Job_outcome_retried (retried_job r w) h
    (release_job (durable_provider repo timeout now) t r (num_of d) c (u, h))"
  using releaseForRetry_holds [OF assms, of now]
  by (auto simp: settles_to_def release_job_def settled_def becomes_def retried_job_def)

lemma bury_job_settles:
  assumes "dq_ok repo inv u" "dq_job repo u (rsv_jobId r) = Some w" "isSupportedWorkerJob w" "holds r w"
    and "dead_code_ok code"
  shows "settles_to repo inv u r Job_outcome_dead_lettered (buried (dead_code code) w) h
    (bury_job (durable_provider repo timeout now) t r code c (u, h))"
  using moveToDeadLetter_holds [OF assms(1-4) assms(5) [unfolded dead_code_ok_def], of now]
  by (auto simp: settles_to_def bury_job_def settled_def becomes_def)

lemma tick_settles:
  assumes ok: "dq_ok repo inv s" "0 \<le> now"
    and r: "reserve repo timeout now (wh_workType handler) s = (Inr (Some r), u)"
    and answer: "wh_handle handler \<lparr>wj_workType = wh_workType handler, wj_reservation = r\<rparr> c (u, h) = (a, (u, h'))"
    and safe: "safe_answer (caught a)" and delay: "0 \<le> retryDelay"
  shows "\<exists>w. dq_job repo u (rsv_jobId r) = Some w \<and> holds r w \<and>
    settles_to repo inv u r (reported (caught a)) (settled_job (caught a) r w) h'
      (runHandlerOnce (durable_provider repo timeout now) retryDelay handler c (s, h))"
proof -
  from reserve_keeps_hold [OF ok r, of "[]"] obtain w where w: "dq_ok repo inv u"
      "dq_job repo u (rsv_jobId r) = Some (taken w)" "isSupportedWorkerJob (taken w)" "holds r (taken w)"
    by (auto simp: queue_history_def)
  have run: "runHandlerOnce (durable_provider repo timeout now) retryDelay handler c (s, h) =
    (case caught a of
       Inl f \<Rightarrow> applyHandlerFailure (durable_provider repo timeout now) retryDelay (wh_workType handler) r f c (u, h')
     | Inr x \<Rightarrow> applyHandlerOutcome (durable_provider repo timeout now) (wh_workType handler) r x c (u, h'))"
    by (simp add: runHandlerOnce_def r invokeHandler_eq [OF answer] split: sum.split)
  have "settles_to repo inv u r (reported (caught a)) (settled_job (caught a) r (taken w)) h'
      (runHandlerOnce (durable_provider repo timeout now) retryDelay handler c (s, h))"
  proof (cases "caught a")
    case (Inl f)
    then show ?thesis
      using safe delay release_job_settles [OF w] bury_job_settles [OF w]
      by (auto simp: run applyHandlerFailure_def)
  next
    case (Inr x)
    show ?thesis
    proof (cases x)
      case Handler_completed
      then show ?thesis
        using acknowledge_job_settles [OF w] by (simp add: run Inr applyHandlerOutcome_def)
    next
      case (Handler_retry d code)
      then obtain n where n: "as_int d = Some n" "0 \<le> n" using safe Inr by (auto split: option.splits)
      then have "d = num_of n" by (simp add: as_int_Some_iff)
      then show ?thesis
        using release_job_settles [OF w n(2)] Handler_retry by (simp add: run Inr applyHandlerOutcome_def)
    next
      case (Handler_dead code)
      then show ?thesis
        using bury_job_settles [OF w] safe Inr by (simp add: run Inr applyHandlerOutcome_def)
    qed
  qed
  then show ?thesis using w(2,4) by blast
qed

end

section \<open>The application handlers\<close>

lemma letters_safe_code:
  assumes "s \<noteq> []" "list_all ascii_letter s" "list_all safe_code_char suffix"
  shows "isSafeDomainCode (js_lower s @ suffix)"
  using assms
  by (cases s) (auto simp: isSafeDomainCode_def js_lower_def list_all_iff lower_ascii_letter
      lower_letter_safe_code)

lemma command_name_letters: "command_name_text n \<noteq> [] \<and> list_all ascii_letter (command_name_text n)"
  by (cases n) (simp_all add: ascii_letters)

lemma command_codes_safe:
  "isSafeDomainCode (js_lower (command_name_text n) @ ''_dead'')"
  "isSafeDomainCode (js_lower (command_name_text n) @ ''_failed_terminal'')"
  using letters_safe_code command_name_letters [of n] by (simp_all add: safe_chars)

text \<open>The answer to any outcome of a command, with the reason codes of the application.\<close>

lemma handler_answer_safe:
  assumes "0 < retryDelay" "\<forall>code. co_reasonCode outcome = Some code \<longrightarrow> isSafeDomainCode code"
  shows "safe_answer (Inr (handler_answer commandName retryDelay outcome))"
  using assms command_codes_safe [of commandName]
  by (cases "co_outcome outcome"; cases "co_reasonCode outcome")
    (simp_all add: handler_answer_def Let_def dead_code_ok_safe)

text \<open>A handler that dispatches a command, as the runtime sees it.\<close>

lemma dispatchWorkerCommand_answer:
  assumes "\<And>envelope. dispatch envelope w = (result envelope, w')"
  shows "\<exists>envelope. ce_name envelope = commandName \<and>
    ce_targetRef envelope = Some (targetRefFor job commandName) \<and>
    ce_safeInputRef envelope = safeInputRefFor job commandName \<and>
    ce_commandRef envelope = commandRefFor job \<and>
    dispatchWorkerCommand dispatch commandName retryDelay job c w =
      (Inr (case result envelope of
              Inl cause \<Rightarrow> Inl (toWorkerApplicationFailure cause commandName)
            | Inr outcome \<Rightarrow> Inr (handler_answer commandName retryDelay outcome)), w')"
proof -
  obtain envelope where e: "createApplicationCommandEnvelope (worker_envelope commandName job c) = Inr envelope"
      "ce_name envelope = commandName" "ce_targetRef envelope = Some (targetRefFor job commandName)"
      "ce_safeInputRef envelope = safeInputRefFor job commandName" "ce_commandRef envelope = commandRefFor job"
    using createApplicationCommandEnvelope_named [of "worker_envelope commandName job c" commandName
        "idempotencyKeyFor job c"]
    by (simp add: worker_envelope_def)
  then show ?thesis
    by (intro exI [of _ envelope]) (simp add: dispatchWorkerCommand_def assms split: sum.split)
qed

lemma toWorkerApplicationFailure_retryable [simp]:
  "pf_retryable (toWorkerApplicationFailure cause n)" "pf_retryable (toWorkerRuntimeFailure cause)"
  by (simp_all add: toWorkerApplicationFailure_def toWorkerRuntimeFailure_def createApplicationPortFailure_def)

section \<open>Handler lists\<close>

lemma duplicate_handler_None:
  "duplicate_handler seen ts = None \<longleftrightarrow> distinct ts \<and> set seen \<inter> set ts = {}"
  by (induction ts arbitrary: seen) auto

lemma application_handlers_unique:
  "assertUniqueHandlers (map wh_workType (createApplicationWorkerHandlers dispatch commandByWorkType d)) = Inr ()"
proof -
  have "map wh_workType (createApplicationWorkerHandlers dispatch commandByWorkType d) = queueWorkTypes"
    by (simp add: createApplicationWorkerHandlers_def createApplicationWorkerHandler_def comp_def)
  then show ?thesis
    by (simp add: assertUniqueHandlers_def queueWorkTypes_def)
qed

lemma run_handlers_types:
  "\<exists>more w'. run_handlers queue retryDelay hs c outcomes w = (outcomes @ more, w') \<and>
     map jo_workType more = map wh_workType hs"
proof (induction hs arbitrary: outcomes w)
  case (Cons h hs)
  obtain out w1 where run: "runHandlerOnce queue retryDelay h c w = (out, w1)" by force
  then have "jo_workType out = wh_workType h"
    by (auto simp: runHandlerOnce_def applyHandlerFailure_def applyHandlerOutcome_def acknowledge_job_def
        release_job_def bury_job_def settled_def Let_def split: prod.splits sum.splits option.splits
        handler_outcome.splits if_splits)
  then show ?case using Cons.IH [of "outcomes @ [out]" w1] run by auto
qed simp

end
