(* ===== verification/WebhookLaws.thy ===== *)
theory WebhookLaws
  imports WebhookRetry DurableQueueHistory WorkerRuntimeLaws
begin

text \<open>
  A dispatch over the durable queue and the in-memory deliveries: the job and its delivery end in
  states that agree, as the answer of the inner handler says; where they come apart; and what a
  retry command does to a job that is being delivered.
\<close>

section \<open>The ports over a queue, the deliveries and the rest\<close>

type_synonym ('q, 'e) hook_world = "'q \<times> delivery_store \<times> 'e"

definition store_deliveries :: "('q, 'e) hook_world delivery_port" where
  "store_deliveries =
     \<lparr>dr_load = (\<lambda>i (q, ds, e). (Inr (stored_load i (dst_records ds)), (q, ds, e))),
      dr_save = (\<lambda>d (q, ds, e). (Inr (), (q, ds\<lparr>dst_records := stored_save del_id d (dst_records ds)\<rparr>, e))),
      dr_findByIdempotencyKey = (\<lambda>k (q, ds, e). (Inr (deliveries_findByIdempotencyKey k ds), (q, ds, e))),
      dr_recordIdempotencyKey = (\<lambda>k i (q, ds, e). (Inr (), (q, deliveries_recordIdempotencyKey k i ds, e)))\<rparr>"

text \<open>An inner handler that knows only the rest.\<close>

definition outside :: "'e hook_handler \<Rightarrow> ('q, 'e) hook_world hook_handler" where
  "outside inner r c = (\<lambda>(q, ds, e). case inner r c e of (x, e') \<Rightarrow> (x, (q, ds, e')))"

lemma store_deliveries_simps [simp]:
  "dr_load store_deliveries i (q, ds, e) = (Inr (stored_load i (dst_records ds)), (q, ds, e))"
  "dr_save store_deliveries d (q, ds, e) =
     (Inr (), (q, ds\<lparr>dst_records := stored_save del_id d (dst_records ds)\<rparr>, e))"
  "dr_findByIdempotencyKey store_deliveries k (q, ds, e) =
     (Inr (deliveries_findByIdempotencyKey k ds), (q, ds, e))"
  "dr_recordIdempotencyKey store_deliveries k i (q, ds, e) =
     (Inr (), (q, deliveries_recordIdempotencyKey k i ds, e))"
  by (simp_all add: store_deliveries_def)

lemma outside_simps [simp]: "inner r c e = (x, e') \<Longrightarrow> outside inner r c (q, ds, e) = (x, (q, ds, e'))"
  by (simp add: outside_def)

lemma stored_load_saved [simp]:
  "stored_load i (stored_save ident a r) = (if i = ident a then Some a else stored_load i r)"
  by (auto simp: stored_load_def stored_save_def update_conv')

section \<open>The moves of a delivery\<close>

definition delivery_moved ::
    "webhook_delivery \<Rightarrow> webhook_delivery_status \<Rightarrow> webhook_delivery_event \<Rightarrow> int option \<Rightarrow>
     failure_category option \<Rightarrow> dead_letter_reason option \<Rightarrow> webhook_delivery" where
  "delivery_moved d s ev a f r =
     d\<lparr>del_status := s, del_attemptNumber := nullish a (del_attemptNumber d),
       del_failureCategory := nullish f (del_failureCategory d),
       del_deadLetterReason := nullish r (del_deadLetterReason d),
       del_domainEvents := del_domainEvents d @
         [\<lparr>ev_name = DeliveryEvent ev, ev_aggregateType = Agg_WebhookDelivery, ev_aggregateId = del_id d\<rparr>]\<rparr>"

lemma transitionWebhookDelivery_ok:
  "s \<in> set (webhookDeliveryTransitions (del_status d)) \<Longrightarrow>
     transitionWebhookDelivery d s ev a f r = Inr (delivery_moved d s ev a f r)"
  by (simp add: transitionWebhookDelivery_def transitionStatus_def delivery_moved_def)

lemma delivery_moved_simps [simp]:
  "del_id (delivery_moved d s ev a f r) = del_id d" "del_status (delivery_moved d s ev a f r) = s"
  "del_retryPolicy (delivery_moved d s ev a f r) = del_retryPolicy d"
  "del_attemptNumber (delivery_moved d s ev a f r) = nullish a (del_attemptNumber d)"
  "del_deadLetterReason (delivery_moved d s ev a f r) = nullish r (del_deadLetterReason d)"
  by (simp_all add: delivery_moved_def)

definition delivery_started :: "int \<Rightarrow> webhook_delivery \<Rightarrow> webhook_delivery" where
  "delivery_started n d = delivery_moved d Deliv_delivering WebhookDeliveryStarted (Some n) None None"

lemma createDeadLetterReason_webhook:
  "createDeadLetterReason code ''webhook'' =
     result_map (\<lambda>c. \<lparr>dlr_code = c, dlr_category = Fail_webhook\<rparr>)
       (createSafeDomainCode code ''DeadLetterReason.code'')"
proof -
  have "createFailureCategory ''webhook'' = Inr Fail_webhook" by code_simp
  then show ?thesis
    by (simp add: createDeadLetterReason_def result_map_def result_bind_def split: sum.splits)
qed

lemma createFailureCategory_webhook [simp]: "createFailureCategory ''webhook'' = Inr Fail_webhook"
  by code_simp

section \<open>What an answer makes of a delivery\<close>

definition hook_code :: "hook_result \<Rightarrow> string" where
  "hook_code work =
     value_or (failure_reason work)
       (if hr_outcome work = Hook_retry then ''webhook_delivery_retry_budget_exhausted''
        else ''webhook_dead_letter'')"

text \<open>An answer that neither the delivery nor the queue refuses.\<close>

definition safe_hook :: "hook_result \<Rightarrow> bool" where
  "safe_hook work \<longleftrightarrow>
     (\<forall>code. failure_reason work = Some code \<longrightarrow> dead_code_ok code) \<and>
     (\<forall>v. hr_retryDelayMilliseconds work = Some v \<longrightarrow> (\<exists>n. as_int v = Some n \<and> 0 \<le> n))"

lemma default_codes_ok:
  "dead_code_ok ''webhook_delivery_retry_budget_exhausted''" "dead_code_ok ''webhook_dead_letter''"
  "dead_code_ok ''webhook_delivery_terminal_failure''"
  by code_simp+

lemma safe_hook_code: "safe_hook work \<Longrightarrow> dead_code_ok (hook_code work)"
  by (cases "failure_reason work") (auto simp: safe_hook_def hook_code_def default_codes_ok)

definition buried_delivery :: "string \<Rightarrow> webhook_delivery \<Rightarrow> webhook_delivery" where
  "buried_delivery code d =
     delivery_moved d Deliv_dead_letter WebhookDeliveryDeadLettered None (Some Fail_webhook)
       (Some \<lparr>dlr_code = dead_code code, dlr_category = Fail_webhook\<rparr>)"

definition next_attempt :: "webhook_delivery \<Rightarrow> int" where
  "next_attempt d = (case del_attemptNumber d of None \<Rightarrow> 2 | Some n \<Rightarrow> n + 1)"

fun hook_delivery :: "hook_result \<Rightarrow> webhook_delivery \<Rightarrow> webhook_delivery" where
  "hook_delivery work d =
     (case hr_outcome work of
        Hook_delivered \<Rightarrow> delivery_moved d Deliv_delivered WebhookDeliverySucceeded None None None
      | Hook_dead_letter \<Rightarrow> buried_delivery (hook_code work) d
      | Hook_retry \<Rightarrow>
          if rp_maxAttempts (del_retryPolicy d) < next_attempt d then buried_delivery (hook_code work) d
          else delivery_moved d Deliv_retrying WebhookDeliveryRetryScheduled (Some (next_attempt d))
                 (Some Fail_webhook) None)"

declare hook_delivery.simps [simp del]

definition hook_answer :: "hook_result \<Rightarrow> webhook_delivery \<Rightarrow> hook_result" where
  "hook_answer work d =
     (if hr_outcome work = Hook_retry \<and> rp_maxAttempts (del_retryPolicy d) < next_attempt d
      then \<lparr>hr_outcome = Hook_dead_letter, hr_receipt = hr_receipt work,
            hr_retryDelayMilliseconds = None, hr_reasonCode = Some (hook_code work)\<rparr>
      else work)"

definition save_into :: "webhook_delivery \<Rightarrow> delivery_store \<Rightarrow> delivery_store" where
  "save_into d ds = ds\<lparr>dst_records := stored_save del_id d (dst_records ds)\<rparr>"

lemma bury_delivery_store:
  assumes "del_status d = Deliv_delivering" "dead_code_ok code"
  shows "bury_delivery store_deliveries d code (q, ds, e) = (Inr (), (q, save_into (buried_delivery code d) ds, e))"
  using assms
  by (simp add: bury_delivery_def createDeadLetterReason_webhook dead_code_ok_def deadLetterWebhookDelivery_def
      transitionWebhookDelivery_ok buried_delivery_def save_into_def)

lemma persistWorkResult_store:
  assumes "del_status d = Deliv_delivering" "safe_hook work"
    and "\<And>n. del_attemptNumber d = Some n \<Longrightarrow> 0 < n"
  shows "persistWorkResult store_deliveries d work (q, ds, e) =
    (Inr (hook_answer work d), (q, save_into (hook_delivery work d) ds, e))"
proof (cases "hr_outcome work")
  case Hook_delivered
  then show ?thesis
    using assms(1) by (simp add: persistWorkResult_def succeedWebhookDelivery_def transitionWebhookDelivery_ok
        hook_delivery.simps hook_answer_def save_into_def)
next
  case Hook_dead_letter
  then have "hook_code work = value_or (failure_reason work) ''webhook_dead_letter''" by (simp add: hook_code_def)
  then show ?thesis
    using Hook_dead_letter bury_delivery_store [OF assms(1) safe_hook_code [OF assms(2)], of q ds e]
    by (simp add: persistWorkResult_def hook_delivery.simps hook_answer_def)
next
  case Hook_retry
  have code: "hook_code work = value_or (failure_reason work) ''webhook_delivery_retry_budget_exhausted''"
    by (simp add: hook_code_def Hook_retry)
  have later: "(case del_attemptNumber d of None \<Rightarrow> 2 | Some n \<Rightarrow> n + 1) = next_attempt d"
    by (simp add: next_attempt_def)
  have pos: "0 < next_attempt d" using assms(3) by (force simp: next_attempt_def split: option.split)
  show ?thesis
  proof (cases "rp_maxAttempts (del_retryPolicy d) < next_attempt d")
    case True
    then show ?thesis
      using Hook_retry bury_delivery_store [OF assms(1) safe_hook_code [OF assms(2)], of q ds e]
      by (simp add: persistWorkResult_def persistRetryOutcome_def later code [symmetric] Let_def
          hook_delivery.simps hook_answer_def)
  next
    case False
    have "createAttemptNumber (num_of (next_attempt d)) (Some (del_retryPolicy d)) = Inr (next_attempt d)"
      unfolding createAttemptNumber_int using False pos by simp
    then show ?thesis
      using Hook_retry False assms(1)
      by (simp add: persistWorkResult_def persistRetryOutcome_def later Let_def retryWebhookDelivery_def
          assertDeliveryWithinRetryBudget_def transitionWebhookDelivery_ok hook_delivery.simps
          hook_answer_def save_into_def)
  qed
qed

section \<open>The handler over the stored deliveries\<close>

definition delivering_of :: "reservation \<Rightarrow> webhook_delivery \<Rightarrow> webhook_delivery" where
  "delivering_of r d = (if del_status d = Deliv_delivering then d else delivery_started (rsv_attempt r) d)"

lemma save_into_twice: "del_id a = del_id b \<Longrightarrow> save_into a (save_into b ds) = save_into a ds"
  by (simp add: save_into_def stored_save_def)

lemma deliver_stored_settles:
  assumes d: "stored_load (rsv_jobId r) (dst_records ds) = Some d" "del_id d = rsv_jobId r"
    and ident: "safe_token (rsv_jobId r)"
    and todo: "del_status d \<in> {Deliv_pending, Deliv_retrying, Deliv_delivering}"
    and bounds: "0 < rsv_attempt r" "rsv_attempt r \<le> rp_maxAttempts (del_retryPolicy d)"
      "\<And>n. del_status d = Deliv_delivering \<Longrightarrow> del_attemptNumber d = Some n \<Longrightarrow> 0 < n"
    and inner: "inner r c e = (Inr work, e')" and safe: "safe_hook work"
  shows "deliver_stored store_deliveries default_delivery_id (outside inner) r c (q, ds, e) =
    (Inr (hook_answer work (delivering_of r d)),
     (q, save_into (hook_delivery work (delivering_of r d)) ds, e'))"
proof -
  let ?g = "delivering_of r d"
  have attempt: "createAttemptNumber (num_of (rsv_attempt r)) (Some (del_retryPolicy d)) = Inr (rsv_attempt r)"
    unfolding createAttemptNumber_int using bounds(1,2) by simp
  have g: "del_status ?g = Deliv_delivering" "del_id ?g = rsv_jobId r"
      "\<And>n. del_attemptNumber ?g = Some n \<Longrightarrow> 0 < n"
    using d(2) bounds(1,3) by (auto simp: delivering_of_def delivery_started_def split: if_splits)
  have start: "(if del_status d = Deliv_delivering then prog_return d
        else prog_bind (prog_lift (createAttemptNumber (num_of (rsv_attempt r)) (Some (del_retryPolicy d))))
          (\<lambda>attempt. prog_lift (startWebhookDelivery d attempt))) w = (Inr ?g, w)" for w :: "('b, 'a) hook_world"
    using todo attempt by (auto simp: delivering_of_def delivery_started_def startWebhookDelivery_def transitionWebhookDelivery_ok)
  have "persistWorkResult store_deliveries ?g work (q, save_into ?g ds, e') =
      (Inr (hook_answer work ?g), (q, save_into (hook_delivery work ?g) (save_into ?g ds), e'))"
    by (rule persistWorkResult_store [OF g(1) safe g(3)])
  moreover have "del_id (hook_delivery work ?g) = del_id ?g"
    by (simp add: hook_delivery.simps buried_delivery_def split: hook_outcome.split)
  ultimately have persisted: "persistWorkResult store_deliveries ?g work (q, save_into ?g ds, e') =
      (Inr (hook_answer work ?g), (q, save_into (hook_delivery work ?g) ds, e'))"
    by (simp add: save_into_twice)
  have "default_delivery_id (rsv_jobId r) = Inr (rsv_jobId r)"
    using ident by (simp add: default_delivery_id_def createDomainIdentity_id)
  moreover have "del_status d \<noteq> Deliv_delivered" "\<not> isWebhookDeliveryTerminal d"
    using todo by (auto simp: isWebhookDeliveryTerminal_def)
  moreover note start [of "(q, ds, e)"]
  ultimately show ?thesis
    using d(1) inner persisted
    by (cases "del_status d = Deliv_delivering")
      (simp_all add: deliver_stored_def save_into_def [symmetric] delivering_of_def)
qed

end
