(* ===== verification/WebhookDispatch.thy ===== *)
theory WebhookDispatch
  imports WebhookLaws
begin

text \<open>
  A dispatch over the durable queue: what becomes of the reserved job for each answer of the
  handler, and what a retry command does to the job of a delivery.
\<close>

fun hook_job :: "hook_result \<Rightarrow> reservation \<Rightarrow> worker_job \<Rightarrow> worker_job" where
  "hook_job work r w =
     (case hr_outcome work of
        Hook_delivered \<Rightarrow> finished w
      | Hook_retry \<Rightarrow> retried_job r w
      | Hook_dead_letter \<Rightarrow>
          buried (dead_code (value_or (failure_reason work) ''webhook_delivery_terminal_failure'')) w)"

declare hook_job.simps [simp del]

fun hook_reported :: "hook_outcome \<Rightarrow> dispatch_outcome" where
  "hook_reported Hook_delivered = Dispatch_delivered"
| "hook_reported Hook_retry = Dispatch_retry_scheduled"
| "hook_reported Hook_dead_letter = Dispatch_dead_lettered"

context worker_job_repository
begin

lemma applyWorkResult_settles:
  assumes u: "dq_ok repo inv u" "dq_job repo u (rsv_jobId r) = Some w" "isSupportedWorkerJob w" "holds r w"
    and safe: "safe_hook work" and delay: "0 \<le> delay"
  shows "\<exists>out u'. applyWorkResult (durable_provider repo timeout now) (num_of delay) r work c (u, h) =
       (Inr out, (u', h)) \<and> di_outcome out = hook_reported (hr_outcome work) \<and>
     dq_ok repo inv u' \<and> dq_job repo u' = (dq_job repo u)(rsv_jobId r \<mapsto> hook_job work r w)"
proof (cases "hr_outcome work")
  case Hook_delivered
  obtain u' where "acknowledge repo now r u = (Inr (receiptFor repo now (finished w) u'), u')"
      "becomes repo inv key_owner u (rsv_jobId r) (finished w) None u'"
    using acknowledge_holds [OF u, of now] by blast
  then show ?thesis
    using Hook_delivered
    by (intro exI [of _ "resultFromQueueOperation Dispatch_delivered r (Inr (receiptFor repo now (finished w) u')) None"]
        exI [of _ u']) (simp add: applyWorkResult_def hook_job.simps becomes_def resultFromQueueOperation_def)
next
  case Hook_dead_letter
  let ?code = "value_or (failure_reason work) ''webhook_delivery_terminal_failure''"
  have "dead_code_ok ?code"
    using safe by (cases "failure_reason work") (auto simp: safe_hook_def default_codes_ok)
  then obtain u' where "moveToDeadLetter repo now r ?code u = (Inr (receiptFor repo now (buried (dead_code ?code) w) u'), u')"
      "becomes repo inv key_owner u (rsv_jobId r) (buried (dead_code ?code) w) None u'"
    using moveToDeadLetter_holds [OF u, of ?code "dead_code ?code" now] by (auto simp: dead_code_ok_def)
  then show ?thesis
    using Hook_dead_letter
    by (intro exI [of _ "resultFromQueueOperation Dispatch_dead_lettered r
          (Inr (receiptFor repo now (buried (dead_code ?code) w) u')) (failure_reason work)"] exI [of _ u'])
      (simp add: applyWorkResult_def hook_job.simps becomes_def resultFromQueueOperation_def)
next
  case Hook_retry
  obtain n where n: "value_or (hr_retryDelayMilliseconds work) (num_of delay) = num_of n" "0 \<le> n"
  proof (cases "hr_retryDelayMilliseconds work")
    case None
    then show ?thesis using that [of delay] delay by simp
  next
    case (Some v)
    then obtain k where "as_int v = Some k" "0 \<le> k" using safe by (auto simp: safe_hook_def)
    then show ?thesis using that [of k] Some by (simp add: as_int_Some_iff)
  qed
  obtain rc u' where "releaseForRetry repo now r (num_of n) u = (Inr rc, u')"
      "dq_ok repo inv u'" "dq_job repo u' = (dq_job repo u)(rsv_jobId r \<mapsto> retried_job r w)"
    using releaseForRetry_holds [OF u n(2), of now] by (cases "budget_exhausted r w") (auto simp: becomes_def retried_job_def)
  then show ?thesis
    using Hook_retry n
    by (intro exI [of _ "resultFromQueueOperation Dispatch_retry_scheduled r (Inr rc) (failure_reason work)"]
        exI [of _ u'])
      (simp add: applyWorkResult_def hook_job.simps resultFromQueueOperation_def assertNonNegativeInteger_delay_def)
qed

lemma dispatch_settles:
  assumes ok: "dq_ok repo inv s" "0 \<le> now"
    and r: "reserve repo timeout now Work_webhook_delivery s = (Inr (Some r), u)"
    and handler: "handler r c (u, h) = (Inr work, (u, h'))" and safe: "safe_hook work" and delay: "0 \<le> delay"
  shows "\<exists>w out u'. dq_job repo u (rsv_jobId r) = Some w \<and> holds r w \<and>
     dispatchNextUnrecorded (durable_provider repo timeout now) handler (num_of delay) c (s, h) =
       (Inr out, (u', h')) \<and> di_outcome out = hook_reported (hr_outcome work) \<and>
     dq_ok repo inv u' \<and> dq_job repo u' = (dq_job repo u)(rsv_jobId r \<mapsto> hook_job work r w)"
proof -
  from reserve_keeps_hold [OF ok r, of "[]"] obtain w where w: "dq_ok repo inv u"
      "dq_job repo u (rsv_jobId r) = Some (taken w)" "isSupportedWorkerJob (taken w)" "holds r (taken w)"
    by (auto simp: queue_history_def)
  obtain out u' where out: "applyWorkResult (durable_provider repo timeout now) (num_of delay) r work c (u, h') =
       (Inr out, (u', h'))" "di_outcome out = hook_reported (hr_outcome work)"
     "dq_ok repo inv u'" "dq_job repo u' = (dq_job repo u)(rsv_jobId r \<mapsto> hook_job work r (taken w))"
    using applyWorkResult_settles [OF w safe delay, of timeout now c h'] by blast
  have "dispatchNextUnrecorded (durable_provider repo timeout now) handler (num_of delay) c (s, h) =
      (Inr out, (u', h'))"
    using out(1) handler by (simp add: dispatchNextUnrecorded_def r deliverReservedWork_def)
  then show ?thesis using w(2,4) out(2-4) by blast
qed

lemma reserved_attempt_bounds:
  assumes "dq_ok repo inv s" "0 \<le> now" "reserve repo timeout now t s = (Inr (Some r), u)"
    and "dq_job repo u (rsv_jobId r) = Some w"
  shows "1 \<le> rsv_attempt r" "rsv_attempt r \<le> rp_maxAttempts (job_retryPolicy w)"
proof -
  from reserve_keeps_hold [OF assms(1-3), of "[]"] have "dq_ok repo inv u" "holds r w"
    using assms(4) by (auto simp: queue_history_def)
  moreover from this have "queue_job w" using assms(4) by (auto dest: dq_okD)
  ultimately show "1 \<le> rsv_attempt r" "rsv_attempt r \<le> rp_maxAttempts (job_retryPolicy w)"
    using queue_job_attempt [of w] by (auto simp: holds_def queue_job_def)
qed

end

section \<open>A retry command takes the job from whoever holds it\<close>

text \<open>The ports of the retry handler over the durable queue.\<close>

definition queue_hook_ports ::
    "'r job_repository \<Rightarrow> int \<Rightarrow> ('r durable_queue, 'e) hook_world retry_hook_ports" where
  "queue_hook_ports repo now =
     \<lparr>rh_deliveries = store_deliveries,
      rh_enqueue = (\<lambda>work c (q, h). let (a, q') = enqueue repo now work q in (Inr a, (q', h))),
      rh_resolveOperationIntent = None\<rparr>"

lemma queued_hook_job:
  assumes "createIdempotencyKey key = Inr k"
  shows "\<exists>w. queueWorkerJob (qw_jobId (hook_work d i key)) (qw_ownerContext (hook_work d i key))
      (queue_work_type_name (qw_workType (hook_work d i key))) (qw_retryPolicy (hook_work d i key))
      (qw_safeMetadata (hook_work d i key)) = Inr w \<and> job_status w = Job_queued \<and> job_attemptNumber w = None \<and>
     isSupportedWorkerJob w"
proof -
  have "createSafeDomainCode ''webhook_delivery'' ''WorkerJob.workType'' = Inr ''webhook_delivery''" by code_simp
  moreover have "isQueueWorkType ''webhook_delivery''" by code_simp
  ultimately show ?thesis
    by (simp add: hook_work_def queueWorkerJob_def createWorkerJobSafeMetadata_def isSupportedWorkerJob_def)
qed

lemma resolveInput_hook_key:
  "resolveInput_hook envelope = Inr input \<Longrightarrow> createIdempotencyKey (rhi_idempotencyKey input) = Inr (rhi_idempotencyKey input)"
  by (auto simp: resolveInput_hook_def createIdempotencyKey_def result_simps Let_def
      dest: createDomainIdentity_ok(3) split: option.splits sum.splits)

context worker_job_repository
begin

lemma retry_requeues:
  assumes ok: "dq_ok repo inv q" and input: "resolveInput_hook envelope = Inr input" "rhi_mode input = Mode_retry"
    and d: "stored_load (rhi_deliveryId input) (dst_records ds) = Some d" "safe_token (del_id d)"
    and new: "jr_findByIdempotencyKey repo (rhi_idempotencyKey input) (dq_repo q) = None"
    and policy: "0 < rp_maxAttempts (del_retryPolicy d)"
    and out: "handle_retry_hook (queue_hook_ports repo now) envelope (q, ds, e) = (Inr out, (q', h))"
      "co_outcome out = Outcome_queued"
  shows "h = (ds, e) \<and> visibleAtFor repo q' (del_id d) = Some now \<and>
     (\<exists>w. dq_job repo q' (del_id d) = Some w \<and> job_status w = Job_queued \<and> job_attemptNumber w = None) \<and>
     (rsv_jobId r = del_id d \<longrightarrow> (\<exists>f. acknowledge repo now' r q' = (Inl f, q')))"
proof -
  let ?work = "hook_work d (del_id d) (rhi_idempotencyKey input)"
  have key: "createIdempotencyKey (rhi_idempotencyKey input) = Inr (rhi_idempotencyKey input)"
    by (rule resolveInput_hook_key [OF input(1)])
  obtain w where w: "queueWorkerJob (qw_jobId ?work) (qw_ownerContext ?work)
      (queue_work_type_name (qw_workType ?work)) (qw_retryPolicy ?work) (qw_safeMetadata ?work) = Inr w"
      "job_status w = Job_queued" "job_attemptNumber w = None" "isSupportedWorkerJob w"
    using queued_hook_job [OF key] by blast
  obtain res u where u: "enqueue repo now ?work q = (res, u)"
      "dq_job repo u = (dq_job repo q)(del_id d \<mapsto> w)" "visibleAtFor repo u = (visibleAtFor repo q)(del_id d \<mapsto> now)"
    using enqueue_new [OF ok, of ?work "rhi_idempotencyKey input" w now] key new w(1) policy
    by (auto simp: hook_work_def)
  have name: "ce_name envelope \<noteq> Cmd_BulkRedriveWebhookDeliveries"
    using input(1) by (auto simp: resolveInput_hook_def retryModeForCommand_def)
  have ran: "q' = u" "h = (ds, e)"
    using out u(1) d input name
    by (auto simp: handle_retry_hook_def queue_hook_ports_def queueWebhookDelivery_def createDomainIdentity_id
          commandOutcome_def createApplicationCommandOutcome_def split: if_splits)
  have job: "dq_job repo q' (del_id d) = Some w" "visibleAtFor repo q' (del_id d) = Some now"
    using u(2,3) ran by simp_all
  have "\<exists>f. acknowledge repo now' r q' = (Inl f, q')" if "rsv_jobId r = del_id d"
    by (rule acknowledge_refused) (use that job w(2) in \<open>auto simp: holds_def\<close>)
  then show ?thesis using ran job w(2,3) by blast
qed

end

section \<open>The job and its delivery after a dispatch\<close>

text \<open>The delivery a dispatch leaves, over the in-memory deliveries.\<close>

definition delivery_after :: "hook_result \<Rightarrow> reservation \<Rightarrow> webhook_delivery \<Rightarrow> webhook_delivery" where
  "delivery_after work r d = hook_delivery work (delivering_of r d)"

lemma delivering_of_fields [simp]:
  "del_id (delivering_of r d) = del_id d" "del_retryPolicy (delivering_of r d) = del_retryPolicy d"
  "del_status (delivering_of r d) = Deliv_delivering"
  "del_status d \<noteq> Deliv_delivering \<Longrightarrow> del_attemptNumber (delivering_of r d) = Some (rsv_attempt r)"
  "del_status d = Deliv_delivering \<Longrightarrow> delivering_of r d = d"
  by (simp_all add: delivering_of_def delivery_started_def)

lemma delivery_after_id: "del_id (delivery_after work r d) = del_id d"
  by (simp add: delivery_after_def hook_delivery.simps buried_delivery_def split: hook_outcome.split)

lemma safe_hook_answer: "safe_hook work \<Longrightarrow> safe_hook (hook_answer work d)"
  using safe_hook_code [of work] by (auto simp: hook_answer_def safe_hook_def failure_reason_def)

lemma hook_answer_outcome:
  "hr_outcome (hook_answer work d) =
     (if hr_outcome work = Hook_retry \<and> rp_maxAttempts (del_retryPolicy d) < next_attempt d
      then Hook_dead_letter else hr_outcome work)"
  by (simp add: hook_answer_def)

lemma hook_job_status:
  "job_status (hook_job work r w) =
     (case hr_outcome work of Hook_delivered \<Rightarrow> Job_completed | Hook_dead_letter \<Rightarrow> Job_dead
      | Hook_retry \<Rightarrow> if rsv_attempt r < rp_maxAttempts (job_retryPolicy w) then Job_retrying else Job_dead)"
  by (simp add: hook_job.simps settled_status_simps split: hook_outcome.split)

lemma hook_job_attempt:
  "hr_outcome work = Hook_retry \<Longrightarrow> rsv_attempt r < rp_maxAttempts (job_retryPolicy w) \<Longrightarrow>
     job_attemptNumber (hook_job work r w) = Some (rsv_attempt r + 1)"
  by (simp add: hook_job.simps retried_job_def budget_exhausted_def rescheduled_def)

lemma delivery_after_status:
  "del_status (delivery_after work r d) =
     (case hr_outcome work of Hook_delivered \<Rightarrow> Deliv_delivered | Hook_dead_letter \<Rightarrow> Deliv_dead_letter
      | Hook_retry \<Rightarrow> if rp_maxAttempts (del_retryPolicy d) < next_attempt (delivering_of r d)
          then Deliv_dead_letter else Deliv_retrying)"
  by (simp add: delivery_after_def hook_delivery.simps buried_delivery_def split: hook_outcome.split)

lemma delivery_after_attempt:
  "hr_outcome work = Hook_retry \<Longrightarrow> next_attempt (delivering_of r d) \<le> rp_maxAttempts (del_retryPolicy d) \<Longrightarrow>
     del_attemptNumber (delivery_after work r d) = Some (next_attempt (delivering_of r d))"
  by (simp add: delivery_after_def hook_delivery.simps)

text \<open>A dispatch with the stored handler, over the PostgreSQL queue.\<close>

definition dispatch_stored ::
    "(string \<Rightarrow> string \<Rightarrow> bool) \<Rightarrow> int \<Rightarrow> int \<Rightarrow> int \<Rightarrow> 'e hook_handler \<Rightarrow> port_context \<Rightarrow>
     ((job_table durable_queue, 'e) hook_world, dispatch_result) prog" where
  "dispatch_stored le timeout now delay inner c =
     dispatchNextUnrecorded (durable_provider (pg_repository le) timeout now)
       (deliver_stored store_deliveries default_delivery_id (outside inner)) (num_of delay) c"

lemma dispatch_stored_settles:
  assumes "list_all command_ok cs" "0 \<le> now" "0 \<le> delay"
    and "reserve (pg_repository le) timeout now Work_webhook_delivery (durable_reached le timeout cs) =
      (Inr (Some r), u)"
    and "pg_load (rsv_jobId r) (dq_repo u) = Some w"
    and "stored_load (rsv_jobId r) (dst_records ds) = Some d" "del_id d = rsv_jobId r"
    and "safe_token (rsv_jobId r)" "del_retryPolicy d = job_retryPolicy w"
    and "del_status d \<in> {Deliv_pending, Deliv_retrying, Deliv_delivering}"
    and "\<And>n. del_status d = Deliv_delivering \<Longrightarrow> del_attemptNumber d = Some n \<Longrightarrow> 0 < n"
    and "inner r c e = (Inr work, e')" "safe_hook work"
  shows "\<exists>out q'. dispatch_stored le timeout now delay inner c (durable_reached le timeout cs, ds, e) =
       (Inr out, (q', save_into (delivery_after work r d) ds, e')) \<and>
     di_outcome out = hook_reported (hr_outcome (hook_answer work (delivering_of r d))) \<and>
     pg_load (rsv_jobId r) (dq_repo q') = Some (hook_job (hook_answer work (delivering_of r d)) r w)"
proof -
  note ok = durable_reached_ok [OF assms(1), of le timeout]
  have "1 \<le> rsv_attempt r" "rsv_attempt r \<le> rp_maxAttempts (job_retryPolicy w)"
    using pg_repo.reserved_attempt_bounds [OF ok assms(2,4)] assms(5) by (simp_all add: pg_dq_job)
  then have handled: "deliver_stored store_deliveries default_delivery_id (outside inner) r c (u, ds, e) =
      (Inr (hook_answer work (delivering_of r d)), (u, save_into (delivery_after work r d) ds, e'))"
    unfolding delivery_after_def
    by (intro deliver_stored_settles assms(6-8,10,12,13)) (use assms(9,11) in auto)
  have "safe_hook (hook_answer work (delivering_of r d))" by (rule safe_hook_answer [OF assms(13)])
  from pg_repo.dispatch_settles [where handler = "deliver_stored store_deliveries default_delivery_id (outside inner)"
      and c = c and h = "(ds, e)", OF ok assms(2,4) handled this assms(3)]
  show ?thesis
    using assms(5) by (auto simp: dispatch_stored_def pg_dq_job [of le, symmetric])
qed

end
