(* ===== verification/WebhookScenarios.thy ===== *)
theory WebhookScenarios
  imports WebhookDispatch ScenarioInputs
begin

text \<open>
  A webhook delivery with a budget of two attempts, evaluated: its job in the queue, reserved for
  the first time or, after its lease expired, for the second.
\<close>

definition hook_demo_work :: queue_work where
  "hook_demo_work =
     \<lparr>qw_jobId = ''d1'', qw_ownerContext = Owner_webhook_delivery, qw_ownerRef = ''d1'',
      qw_workType = Work_webhook_delivery, qw_retryPolicy = demo_policy, qw_idempotencyKey = ''k1'',
      qw_safeInputRef = None, qw_safeMetadata = None\<rparr>"

definition hook_demo_delivery :: "webhook_delivery_status \<Rightarrow> int option \<Rightarrow> webhook_delivery" where
  "hook_demo_delivery status attempt =
     \<lparr>del_id = ''d1'', del_webhookId = ''w1'', del_sourceSignalRef = ''signal'', del_status = status,
      del_retryPolicy = demo_policy, del_attemptNumber = attempt, del_failureCategory = None,
      del_deadLetterReason = None, del_domainEvents = []\<rparr>"

definition hook_demo_store :: "webhook_delivery_status \<Rightarrow> int option \<Rightarrow> delivery_store" where
  "hook_demo_store status attempt =
     \<lparr>dst_records = stored_save del_id (hook_demo_delivery status attempt) [], dst_keys = (\<lambda>_. None)\<rparr>"

definition hook_demo_answer :: "hook_outcome \<Rightarrow> hook_result" where
  "hook_demo_answer outcome =
     \<lparr>hr_outcome = outcome, hr_receipt = None, hr_retryDelayMilliseconds = None, hr_reasonCode = None\<rparr>"

definition hook_demo_inner :: "hook_outcome \<Rightarrow> unit hook_handler" where
  "hook_demo_inner outcome r c = (\<lambda>e. (Inr (hook_demo_answer outcome), e))"

definition hook_demo_context :: port_context where
  "hook_demo_context =
     \<lparr>px_requestContext = \<lparr>rc_correlationId = ''c'', rc_requestId = None, rc_traceId = None\<rparr>,
      px_actorRef = None, px_idempotencyKey = None, px_dataClassification = None\<rparr>"

definition hook_demo_first :: "(int \<times> queue_command) list" where
  "hook_demo_first = [(0, Enqueue hook_demo_work)]"

abbreviation hook_demo_reserve ::
    "(int \<times> queue_command) list \<Rightarrow> int \<Rightarrow> reservation option port_result \<times> job_table durable_queue" where
  "hook_demo_reserve cs now \<equiv>
     reserve (pg_repository demo_le) 30 now Work_webhook_delivery (durable_reached demo_le 30 cs)"

definition hook_demo_reservation :: "string \<Rightarrow> int \<Rightarrow> reservation" where
  "hook_demo_reservation ref attempt =
     \<lparr>rsv_jobId = ''d1'', rsv_reservationRef = ref, rsv_attempt = attempt,
      rsv_ownerContext = Some Owner_webhook_delivery, rsv_ownerRef = Some ''d1'',
      rsv_workType = Some Work_webhook_delivery, rsv_safeInputRef = None, rsv_safeMetadata = None\<rparr>"

text \<open>The worker of the first attempt crashed, and its lease expired.\<close>

definition hook_demo_second :: "(int \<times> queue_command) list" where
  "hook_demo_second = hook_demo_first @ [(10, Reserve Work_webhook_delivery)]"

definition hook_demo_answers :: "(int \<times> queue_command) list \<Rightarrow> int \<Rightarrow> reservation \<Rightarrow> bool" where
  "hook_demo_answers cs now r \<longleftrightarrow> list_all command_ok cs \<and>
     (case hook_demo_reserve cs now of (answer, q) \<Rightarrow>
        answer = Inr (Some r) \<and> map_option job_retryPolicy (pg_load ''d1'' (dq_repo q)) = Some demo_policy)"

definition hook_demo_r1 :: reservation where
  "hook_demo_r1 = hook_demo_reservation ''webhook_delivery:d1:attempt:1'' 1"

definition hook_demo_r2 :: reservation where
  "hook_demo_r2 = hook_demo_reservation ''webhook_delivery:d1:attempt:2'' 2"

lemma hook_demo_runs:
  "hook_demo_answers hook_demo_first 10 hook_demo_r1" "hook_demo_answers hook_demo_second 50 hook_demo_r2"
  by code_simp+

lemma hook_demo_reserved:
  assumes "hook_demo_answers cs now r"
  shows "\<exists>u w. hook_demo_reserve cs now = (Inr (Some r), u) \<and> pg_load ''d1'' (dq_repo u) = Some w \<and>
     job_retryPolicy w = demo_policy \<and> list_all command_ok cs"
  using assms by (cases "hook_demo_reserve cs now") (auto simp: hook_demo_answers_def)

lemma hook_demo_reservation_fields [simp]:
  "rsv_jobId hook_demo_r1 = ''d1''" "rsv_jobId hook_demo_r2 = ''d1''"
  "rsv_attempt hook_demo_r1 = 1" "rsv_attempt hook_demo_r2 = 2"
  by (simp_all add: hook_demo_r1_def hook_demo_r2_def hook_demo_reservation_def)

lemma hook_demo_stored [simp]:
  "stored_load ''d1'' (dst_records (hook_demo_store status attempt)) = Some (hook_demo_delivery status attempt)"
  by (simp add: hook_demo_store_def hook_demo_delivery_def)

lemma hook_demo_safe: "safe_hook (hook_demo_answer outcome)"
  by (simp add: safe_hook_def hook_demo_answer_def failure_reason_def)

lemma hook_demo_ident: "safe_token ''d1''"
  by code_simp

section \<open>A retry command while the job is reserved\<close>

definition hook_demo_retry :: command_envelope where
  "hook_demo_retry =
     \<lparr>ce_name = Cmd_RetryWebhookDelivery, ce_commandRef = ''cmd'',
      ce_requestContext = \<lparr>rc_correlationId = ''c'', rc_requestId = None, rc_traceId = None\<rparr>,
      ce_targetRef = Some ''d1'', ce_actorRef = None, ce_idempotencyKey = Some ''k2'',
      ce_safeInputRef = None, ce_dataClassification = None\<rparr>"

definition hook_demo_retried ::
    "command_outcome call \<times> (job_table durable_queue, unit) hook_world" where
  "hook_demo_retried =
     handle_retry_hook (queue_hook_ports (pg_repository demo_le) 12) hook_demo_retry
       (durable_reached demo_le 30 hook_demo_second, hook_demo_store Deliv_pending None, ())"

lemma hook_demo_retry_input:
  "resolveInput_hook hook_demo_retry =
     Inr \<lparr>rhi_mode = Mode_retry, rhi_deliveryId = ''d1'',
       rhi_idempotencyKey = ''retry_webhook_delivery:k2'', rhi_context = commandContext hook_demo_retry\<rparr>"
  by code_simp

lemma hook_demo_retry_answer:
  "(case durable_reached demo_le 30 hook_demo_second of q \<Rightarrow>
     jr_findByIdempotencyKey (pg_repository demo_le) ''retry_webhook_delivery:k2'' (dq_repo q) = None \<and>
     fst (handle_retry_hook (queue_hook_ports (pg_repository demo_le) 12) hook_demo_retry
       (q, hook_demo_store Deliv_pending None, ())) =
     Inr (commandOutcome hook_demo_retry Outcome_queued True False (Some ''d1'') None))"
  by code_simp

section \<open>A signed body\<close>

definition hook_demo_mac :: "string \<Rightarrow> string \<Rightarrow> string" where
  "hook_demo_mac secret payload = secret @ payload"

definition hook_demo_signed :: verification_input where
  "hook_demo_signed =
     \<lparr>vi_body = Body_text ''b'', vi_timestamp = ''1000'', vi_signature = ''v1=s1000.b'',
      vi_secret = ''s'', vi_now = 1000, vi_tolerance = Some (num_of 500)\<rparr>"

end
