(* ===== verification/GroupMutations.thy ===== *)
theory GroupMutations
  imports OperationIntents EventPublishing GroupAggregate MemoryRepositories
begin

text \<open>
  \<open>packages/application/src/services/handlers/group-mutation.handler.ts\<close>: the handler of the
  commands that change a group, as a program over its ports.  An action that the group already
  carries is answered without doing it again; actions are told apart by a 32-bit token of the
  command, the group and the idempotency key.
\<close>

section \<open>Ports and input\<close>

record 'w group_ports =
  gr_load :: "identity \<Rightarrow> ('w, wa_group option) prog"
  gr_save :: "wa_group \<Rightarrow> ('w, unit) prog"
  gr_resolveIntent :: "string \<Rightarrow> port_context \<Rightarrow> ('w, group_mutation port_result) prog"
  gr_publishNewEvents ::
    "publisher_input \<Rightarrow> ('w, (domain_event \<times> platform_event) list port_result) prog"

definition groupMutationCommands :: "command_name list" where
  "groupMutationCommands =
     [Cmd_UpdateGroupMetadata, Cmd_UpdateGroupLocalState, Cmd_AddGroupMember, Cmd_RemoveGroupMember,
      Cmd_PromoteGroupMember, Cmd_DemoteGroupMember]"

record group_input =
  gin_groupId :: identity
  gin_intentRef :: string
  gin_actionId :: identity

definition action_token :: "command_name \<Rightarrow> string \<Rightarrow> string \<Rightarrow> string" where
  "action_token commandName target key =
     ''group_action:'' @ stableToken (command_name_text commandName @ '':'' @ target @ '':'' @ key)"

definition resolveInput_group :: "command_name \<Rightarrow> command_envelope \<Rightarrow> string + group_input" where
  "resolveInput_group commandName envelope =
     (if ce_name envelope \<noteq> commandName then Inl ''group_mutation_wrong_command''
      else case ce_targetRef envelope of
        None \<Rightarrow> Inl ''group_mutation_group_required''
      | Some target \<Rightarrow>
          (case ce_safeInputRef envelope of
             None \<Rightarrow> Inl ''group_mutation_input_ref_required''
           | Some inputRef \<Rightarrow>
               (case ce_idempotencyKey envelope of
                  None \<Rightarrow> Inl ''group_mutation_idempotency_required''
                | Some key \<Rightarrow>
                    (case
                       result_bind (createDomainIdentity target ''GroupId'') (\<lambda>groupId.
                       result_bind (createGroupMutationIntentRef inputRef) (\<lambda>intentRef.
                       result_map (\<lambda>actionId. \<lparr>gin_groupId = groupId, gin_intentRef = intentRef,
                           gin_actionId = actionId\<rparr>)
                         (createDomainIdentity (action_token commandName target key) ''GroupActionId'')))
                     of Inl _ \<Rightarrow> Inl ''group_mutation_input_invalid'' | Inr input \<Rightarrow> Inr input))))"

section \<open>The mutation\<close>

text \<open>The id and the actor of an action.\<close>

type_synonym action_base = "identity \<times> string"

definition action :: "action_base \<Rightarrow> group_action_kind \<Rightarrow> string option \<Rightarrow> group_action result" where
  "action base kind targetJid = createGroupAction (fst base) kind (snd base) targetJid"

definition member_ref_at :: "wa_group \<Rightarrow> string \<Rightarrow> nat \<Rightarrow> bool" where
  "member_ref_at g ref index \<longleftrightarrow>
     ref = grp_id g @ '':member:'' @ show_nat (index + 1) \<or> ref = ''member_'' @ show_nat (index + 1)"

definition resolveExistingMemberJid :: "wa_group \<Rightarrow> string \<Rightarrow> string result" where
  "resolveExistingMemberJid g memberRef =
     (case List.find (\<lambda>(index, m). member_ref_at g (js_trim memberRef) index) (enumerate 0 (grp_members g)) of
        None \<Rightarrow> Inl (TypeError ''Group member reference was not found.'')
      | Some (index, m) \<Rightarrow> Inr (mem_jid m))"

definition applyLocalStateMutation ::
    "wa_group \<Rightarrow> bool option \<Rightarrow> bool option \<Rightarrow> bool option \<Rightarrow> action_base \<Rightarrow> wa_group result" where
  "applyLocalStateMutation g muted archived pinned base =
     result_bind
       (case muted of None \<Rightarrow> Inr g
        | Some b \<Rightarrow> result_bind (action base (if b then Act_mute else Act_unmute) None) (setGroupMuted g b))
       (\<lambda>g1. result_bind
       (case archived of None \<Rightarrow> Inr g1
        | Some b \<Rightarrow> result_bind (action base (if b then Act_archive else Act_unarchive) None)
            (setGroupArchived g1 b))
       (\<lambda>g2.
        case pinned of None \<Rightarrow> Inr g2
        | Some b \<Rightarrow> result_bind (action base (if b then Act_pin else Act_unpin) None) (setGroupPinned g2 b)))"

definition mutate_group :: "wa_group \<Rightarrow> group_mutation \<Rightarrow> action_base \<Rightarrow> wa_group result" where
  "mutate_group g intent base =
     (case intent of
        Mutation_metadata subject description \<Rightarrow>
          result_bind (action base Act_update_metadata None) (updateGroupMetadata g subject description)
      | Mutation_local_state muted archived pinned \<Rightarrow> applyLocalStateMutation g muted archived pinned base
      | Mutation_add_member member \<Rightarrow>
          result_bind (createJid member) (\<lambda>jid.
          result_bind (action base Act_add_member (Some jid))
            (addGroupMember g (createGroupMember jid None None)))
      | Mutation_member kind memberRef \<Rightarrow>
          result_bind (resolveExistingMemberJid g memberRef) (\<lambda>jid.
          case kind of
            Mutate_remove \<Rightarrow> result_bind (action base Act_remove_member (Some jid)) (removeGroupMember g jid)
          | Mutate_promote \<Rightarrow> result_bind (action base Act_promote_member (Some jid)) (promoteGroupMember g jid)
          | Mutate_demote \<Rightarrow> result_bind (action base Act_demote_member (Some jid)) (demoteGroupMember g jid)))"

definition applyGroupMutation :: "wa_group \<Rightarrow> group_mutation \<Rightarrow> action_base \<Rightarrow> string + wa_group" where
  "applyGroupMutation g intent base =
     (case mutate_group g intent base of Inl _ \<Rightarrow> Inl ''group_mutation_rejected'' | Inr g' \<Rightarrow> Inr g')"

section \<open>The handler\<close>

fun intentMatchesCommand :: "command_name \<Rightarrow> group_mutation \<Rightarrow> bool" where
  "intentMatchesCommand commandName (Mutation_metadata s d) \<longleftrightarrow> commandName = Cmd_UpdateGroupMetadata"
| "intentMatchesCommand commandName (Mutation_local_state m a p) \<longleftrightarrow> commandName = Cmd_UpdateGroupLocalState"
| "intentMatchesCommand commandName (Mutation_add_member j) \<longleftrightarrow> commandName = Cmd_AddGroupMember"
| "intentMatchesCommand commandName (Mutation_member Mutate_remove r) \<longleftrightarrow> commandName = Cmd_RemoveGroupMember"
| "intentMatchesCommand commandName (Mutation_member Mutate_promote r) \<longleftrightarrow> commandName = Cmd_PromoteGroupMember"
| "intentMatchesCommand commandName (Mutation_member Mutate_demote r) \<longleftrightarrow> commandName = Cmd_DemoteGroupMember"

definition isMemberMutationCommand :: "command_name \<Rightarrow> bool" where
  "isMemberMutationCommand commandName \<longleftrightarrow>
     commandName \<in> set [Cmd_AddGroupMember, Cmd_RemoveGroupMember, Cmd_PromoteGroupMember, Cmd_DemoteGroupMember]"

definition successfulOutcomeForGroupMutation :: "command_name \<Rightarrow> command_outcome_name" where
  "successfulOutcomeForGroupMutation commandName =
     (if isMemberMutationCommand commandName then Outcome_accepted else Outcome_completed)"

definition hasAction :: "wa_group \<Rightarrow> identity \<Rightarrow> bool" where
  "hasAction g actionId \<longleftrightarrow> list_ex (\<lambda>a. act_id a = actionId) (grp_actions g)"

definition group_succeeded :: "command_name \<Rightarrow> command_envelope \<Rightarrow> wa_group \<Rightarrow> command_outcome" where
  "group_succeeded commandName envelope g =
     commandOutcome envelope (successfulOutcomeForGroupMutation commandName) True False (Some (grp_id g)) None"

definition save_mutated ::
    "'w group_ports \<Rightarrow> command_name \<Rightarrow> command_envelope \<Rightarrow> nat \<Rightarrow> wa_group \<Rightarrow> ('w, command_outcome) prog" where
  "save_mutated P commandName envelope baseEventCount g =
     prog_bind (gr_save P g) (\<lambda>_.
     prog_bind (gr_publishNewEvents P
       \<lparr>pi_aggregateEvents = grp_domainEvents g, pi_baseEventCount = num_of (int baseEventCount),
        pi_executionRef = ce_commandRef envelope @ '':group'', pi_context = commandContext envelope\<rparr>)
       (\<lambda>publishResult.
     prog_return
       (case publishResult of
          Inl failure \<Rightarrow> commandOutcome envelope Outcome_failed True (pf_retryable failure)
            (Some (grp_id g)) (Some (pf_code failure))
        | Inr _ \<Rightarrow> group_succeeded commandName envelope g)))"

definition mutate_loaded ::
    "'w group_ports \<Rightarrow> command_name \<Rightarrow> command_envelope \<Rightarrow> group_input \<Rightarrow> string \<Rightarrow> wa_group \<Rightarrow>
     ('w, command_outcome) prog" where
  "mutate_loaded P commandName envelope input actor g =
     (if hasAction g (gin_actionId input) then prog_return (group_succeeded commandName envelope g)
      else
        prog_bind (gr_resolveIntent P (gin_intentRef input) (commandContext envelope)) (\<lambda>intentResult.
        case intentResult of
          Inl failure \<Rightarrow> prog_return (commandOutcome envelope Outcome_failed False (pf_retryable failure)
            None (Some (pf_code failure)))
        | Inr intent \<Rightarrow>
            if \<not> intentMatchesCommand commandName intent
            then prog_return (commandOutcome envelope Outcome_rejected False False None
              (Some ''group_mutation_intent_mismatch''))
            else
              case applyGroupMutation g intent (gin_actionId input, actor) of
                Inl reasonCode \<Rightarrow>
                  prog_return (commandOutcome envelope Outcome_rejected False False None (Some reasonCode))
              | Inr g' \<Rightarrow> save_mutated P commandName envelope (length (grp_domainEvents g)) g'))"

definition handle_group_mutation ::
    "'w group_ports \<Rightarrow> command_name \<Rightarrow> command_envelope \<Rightarrow> ('w, command_outcome) prog" where
  "handle_group_mutation P commandName envelope =
     (case resolveInput_group commandName envelope of
        Inl reasonCode \<Rightarrow> prog_return (commandOutcome envelope Outcome_failed False False None (Some reasonCode))
      | Inr input \<Rightarrow>
          (case ce_actorRef envelope of
             None \<Rightarrow> prog_return (commandOutcome envelope Outcome_failed False False None
               (Some ''group_mutation_actor_required''))
           | Some actor \<Rightarrow>
               prog_bind (gr_load P (gin_groupId input)) (\<lambda>found.
               case found of
                 None \<Rightarrow> prog_return (commandOutcome envelope Outcome_failed False False None
                   (Some ''group_mutation_group_not_found''))
               | Some g \<Rightarrow>
                   if grp_status g = Group_deleted
                   then prog_return (commandOutcome envelope Outcome_failed False False None
                     (Some ''group_mutation_group_not_found''))
                   else mutate_loaded P commandName envelope input actor g)))"

section \<open>What a mutation leaves\<close>

lemma action_id: "action base kind j = Inr a \<Longrightarrow> act_id a = fst base"
  by (auto simp: action_def createGroupAction_def result_simps split: if_splits option.splits)

fun step_act :: "group_command \<Rightarrow> group_action option" where
  "step_act (UpdateMetadata s d a) = Some a"
| "step_act (AddMember m a) = Some a"
| "step_act (RemoveMember j a) = Some a"
| "step_act (PromoteMember j a) = Some a"
| "step_act (DemoteMember j a) = Some a"
| "step_act (SetMuted b a) = Some a"
| "step_act (SetArchived b a) = Some a"
| "step_act (SetPinned b a) = Some a"
| "step_act _ = None"

text \<open>The group after an action with a given id: the action is on record, the events are kept.\<close>

definition acted :: "identity \<Rightarrow> wa_group \<Rightarrow> wa_group \<Rightarrow> bool" where
  "acted i g g' \<longleftrightarrow> hasAction g' i \<and> grp_id g' = grp_id g \<and> grp_status g' = grp_status g \<and>
     (\<exists>es. grp_domainEvents g' = grp_domainEvents g @ es)"

lemma acted_trans: "acted i g g' \<Longrightarrow> acted i g' g'' \<Longrightarrow> acted i g g''"
  by (auto simp: acted_def)

lemma step_acted:
  assumes "group_step c g = Inr g'" "step_act c = Some a" "act_id a = i"
  shows "acted i g g'"
proof -
  have "group_target c = None" using assms(2) by (cases c) auto
  note active = group_step_active [OF assms(1) this] and ids = group_step_ids [OF assms(1)]
  have "grp_actions g' = grp_actions g @ [a]"
    using assms(1,2) by (cases c) (auto simp: group_op_defs result_simps appendAction_def)
  then show ?thesis using active ids assms(3) by (auto simp: acted_def hasAction_def)
qed

lemma act_step:
  assumes "result_bind (action base kind j) f = Inr g'" "\<And>a. f a = group_step (c a) g" "\<And>a. step_act (c a) = Some a"
  shows "acted (fst base) g g'"
proof -
  obtain a where "action base kind j = Inr a" "f a = Inr g'" using assms(1) by (auto simp: result_simps)
  then show ?thesis using step_acted [of "c a" g g' a] assms(2,3) by (auto dest: action_id)
qed

text \<open>A frozen local-state mutation names at least one field.\<close>

definition proper_mutation :: "group_mutation \<Rightarrow> bool" where
  "proper_mutation intent \<longleftrightarrow> intent \<noteq> Mutation_local_state None None None"

lemma frozen_proper: "freeze_mutation m = Inr m' \<Longrightarrow> proper_mutation m'"
  by (auto simp: freeze_mutation_def proper_mutation_def freezeMetadataInput_def freezeLocalStateInput_def
      result_simps Let_def split: group_mutation.splits if_splits)

lemma local_state_acted:
  assumes "applyLocalStateMutation g muted archived pinned base = Inr g'"
    and "muted \<noteq> None \<or> archived \<noteq> None \<or> pinned \<noteq> None"
  shows "acted (fst base) g g'"
proof -
  obtain g1 g2 where steps:
      "(case muted of None \<Rightarrow> Inr g
        | Some b \<Rightarrow> result_bind (action base (if b then Act_mute else Act_unmute) None) (setGroupMuted g b)) = Inr g1"
      "(case archived of None \<Rightarrow> Inr g1
        | Some b \<Rightarrow> result_bind (action base (if b then Act_archive else Act_unarchive) None)
            (setGroupArchived g1 b)) = Inr g2"
      "(case pinned of None \<Rightarrow> Inr g2
        | Some b \<Rightarrow> result_bind (action base (if b then Act_pin else Act_unpin) None) (setGroupPinned g2 b)) = Inr g'"
    using assms(1) by (auto simp: applyLocalStateMutation_def result_simps)
  have 1: "if muted = None then g1 = g else acted (fst base) g g1"
    using steps(1) by (cases muted) (auto intro: act_step [where c = "SetMuted (the muted)"])
  have 2: "if archived = None then g2 = g1 else acted (fst base) g1 g2"
    using steps(2) by (cases archived) (auto intro: act_step [where c = "SetArchived (the archived)"])
  have 3: "if pinned = None then g' = g2 else acted (fst base) g2 g'"
    using steps(3) by (cases pinned) (auto intro: act_step [where c = "SetPinned (the pinned)"])
  show ?thesis
    using 1 2 3 assms(2) by (auto split: if_splits intro: acted_trans)
qed

lemma mutated_acted:
  assumes "mutate_group g intent base = Inr g'" "proper_mutation intent"
  shows "acted (fst base) g g'"
proof (cases intent)
  case (Mutation_metadata subject description)
  then show ?thesis
    using assms(1) by (auto simp: mutate_group_def intro: act_step [where c = "UpdateMetadata subject description"])
next
  case (Mutation_local_state muted archived pinned)
  then show ?thesis
    using assms by (auto simp: mutate_group_def proper_mutation_def intro: local_state_acted)
next
  case (Mutation_add_member member)
  then obtain jid where "result_bind (action base Act_add_member (Some jid))
      (addGroupMember g (createGroupMember jid None None)) = Inr g'"
    using assms(1) by (auto simp: mutate_group_def result_simps)
  then show ?thesis by (rule act_step [where c = "AddMember (createGroupMember jid None None)"]) simp_all
next
  case (Mutation_member kind memberRef)
  then obtain jid where jid: "resolveExistingMemberJid g memberRef = Inr jid"
    using assms(1) by (auto simp: mutate_group_def result_simps)
  show ?thesis
    using assms(1) jid Mutation_member
    by (cases kind) (auto simp: mutate_group_def intro: act_step [where c = "RemoveMember jid"]
        act_step [where c = "PromoteMember jid"] act_step [where c = "DemoteMember jid"])
qed

end
