(* ===== verification/GroupMutationLaws.thy ===== *)
theory GroupMutationLaws
  imports GroupMutations
begin

text \<open>
  The handler of group mutations over the in-memory groups and the store of mutation intents, beside
  any publisher: a command that was accepted is not done again, also when its events could not be
  published; and a command whose action token is taken is answered without being done.
\<close>

type_synonym ('d, 'e) group_world = "wa_group stored \<times> (group_mutation, 'd) operation_store \<times> 'e"

type_synonym 'e publish = "publisher_input \<Rightarrow> ('e, (domain_event \<times> platform_event) list port_result) prog"

definition group_world_ports :: "int \<Rightarrow> 'e publish \<Rightarrow> ('d, 'e) group_world group_ports" where
  "group_world_ports now publish =
     \<lparr>gr_load = (\<lambda>i (gs, ms, e). (Inr (stored_load i gs), (gs, ms, e))),
      gr_save = (\<lambda>g (gs, ms, e). (Inr (), (stored_save grp_id g gs, ms, e))),
      gr_resolveIntent = (\<lambda>ref c (gs, ms, e).
        (Inr (map_sum id so_payload (resolveGroupMutationIntent now ref ms)), (gs, ms, e))),
      gr_publishNewEvents = (\<lambda>input (gs, ms, e). case publish input e of (x, e') \<Rightarrow> (x, (gs, ms, e')))\<rparr>"

lemma group_world_ports_simps [simp]:
  "gr_load (group_world_ports now publish) i (gs, ms, e) = (Inr (stored_load i gs), (gs, ms, e))"
  "gr_save (group_world_ports now publish) g (gs, ms, e) = (Inr (), (stored_save grp_id g gs, ms, e))"
  "gr_resolveIntent (group_world_ports now publish) ref c (gs, ms, e) =
     (Inr (map_sum id so_payload (resolveGroupMutationIntent now ref ms)), (gs, ms, e))"
  "gr_publishNewEvents (group_world_ports now publish) input (gs, ms, e) =
     (case publish input e of (x, e') \<Rightarrow> (x, (gs, ms, e')))"
  by (simp_all add: group_world_ports_def)

lemma resolved_proper: "resolveGroupMutationIntent now ref ms = Inr o' \<Longrightarrow> proper_mutation (so_payload o')"
  by (auto simp: resolveGroupMutationIntent_def resolve_operation_def group_operation_def result_simps
      dest: frozen_proper split: sum.splits)

lemma group_succeeded_accepted [simp]: "co_accepted (group_succeeded name envelope g)"
  by (simp add: group_succeeded_def commandOutcome_def createApplicationCommandOutcome_def)

lemma outcome_accepted [simp]: "co_accepted (commandOutcome envelope x a r ref c) = a"
    "co_resultRef (commandOutcome envelope x a r ref c) = ref"
    "co_outcome (commandOutcome envelope x a r ref c) = x"
  by (simp_all add: commandOutcome_def createApplicationCommandOutcome_def)

text \<open>What an accepted command leaves: a stored group that carries the action.\<close>

lemma save_mutated_leaves:
  assumes "save_mutated (group_world_ports now publish) name envelope n g (gs, ms, e) = (Inr out, (gs', ms', e'))"
  shows "gs' = stored_save grp_id g gs \<and> co_resultRef out = Some (grp_id g)"
proof -
  obtain x e1 where pub: "publish \<lparr>pi_aggregateEvents = grp_domainEvents g, pi_baseEventCount = num_of (int n),
      pi_executionRef = ce_commandRef envelope @ '':group'', pi_context = commandContext envelope\<rparr> e = (x, e1)"
    by fastforce
  show ?thesis
    using assms pub by (cases x; cases "projr x") (auto simp: save_mutated_def prog_bind_def group_succeeded_def)
qed

lemma mutate_loaded_leaves:
  assumes "mutate_loaded (group_world_ports now publish) name envelope input actor g (gs, ms, e) =
      (Inr out, (gs', ms', e'))" "co_accepted out"
  shows "\<exists>g'. (g' = g \<and> gs' = gs \<or> gs' = stored_save grp_id g' gs) \<and> hasAction g' (gin_actionId input) \<and>
     grp_id g' = grp_id g \<and> grp_status g' = grp_status g \<and> co_resultRef out = Some (grp_id g)"
proof (cases "hasAction g (gin_actionId input)")
  case True
  then show ?thesis using assms by (auto simp: mutate_loaded_def group_succeeded_def)
next
  case False
  obtain o' where o': "resolveGroupMutationIntent now (gin_intentRef input) ms = Inr o'"
      "intentMatchesCommand name (so_payload o')"
    using assms False
    by (cases "resolveGroupMutationIntent now (gin_intentRef input) ms") (auto simp: mutate_loaded_def split: if_splits)
  obtain g' where g': "applyGroupMutation g (so_payload o') (gin_actionId input, actor) = Inr g'"
    using assms False o' by (auto simp: mutate_loaded_def split: sum.splits)
  have "mutate_group g (so_payload o') (gin_actionId input, actor) = Inr g'"
    using g' by (auto simp: applyGroupMutation_def split: sum.splits)
  from mutated_acted [OF this resolved_proper [OF o'(1)]]
  have "hasAction g' (gin_actionId input)" "grp_id g' = grp_id g" "grp_status g' = grp_status g"
    by (simp_all add: acted_def)
  moreover have "save_mutated (group_world_ports now publish) name envelope (length (grp_domainEvents g)) g'
      (gs, ms, e) = (Inr out, (gs', ms', e'))"
    using assms(1) False o' g' by (simp add: mutate_loaded_def)
  note save_mutated_leaves [OF this]
  ultimately show ?thesis by auto
qed

lemma stored_load_ident: "stored_ok grp_id gs \<Longrightarrow> stored_load i gs = Some g \<Longrightarrow> grp_id g = i"
  by (rule stored.load_ident)

lemma accepted_mutation_leaves:
  assumes run: "handle_group_mutation (group_world_ports now publish) name envelope (gs, ms, e) =
      (Inr out, (gs', ms', e'))" "co_accepted out" "stored_ok grp_id gs"
  shows "\<exists>input actor g'. resolveInput_group name envelope = Inr input \<and> ce_actorRef envelope = Some actor \<and>
     stored_load (gin_groupId input) gs' = Some g' \<and> grp_status g' \<noteq> Group_deleted \<and>
     hasAction g' (gin_actionId input) \<and> co_resultRef out = Some (grp_id g')"
proof -
  obtain input where input: "resolveInput_group name envelope = Inr input"
    using run by (cases "resolveInput_group name envelope") (auto simp: handle_group_mutation_def)
  obtain actor where actor: "ce_actorRef envelope = Some actor"
    using run input by (cases "ce_actorRef envelope") (auto simp: handle_group_mutation_def)
  obtain g where g: "stored_load (gin_groupId input) gs = Some g" "grp_status g \<noteq> Group_deleted"
    using run input actor
    by (cases "stored_load (gin_groupId input) gs") (auto simp: handle_group_mutation_def split: if_splits)
  have "mutate_loaded (group_world_ports now publish) name envelope input actor g (gs, ms, e) =
      (Inr out, (gs', ms', e'))"
    using run(1) input actor g by (simp add: handle_group_mutation_def)
  from mutate_loaded_leaves [OF this run(2)] obtain g' where
    g': "g' = g \<and> gs' = gs \<or> gs' = stored_save grp_id g' gs" "hasAction g' (gin_actionId input)"
      "grp_id g' = grp_id g" "grp_status g' = grp_status g" "co_resultRef out = Some (grp_id g)"
    by blast
  have "grp_id g = gin_groupId input" by (rule stored_load_ident [OF run(3) g(1)])
  then have "stored_load (gin_groupId input) gs' = Some g'"
    using g' g(1) stored.load_saved [OF run(3), of "gin_groupId input" g'] by auto
  then show ?thesis using input actor g(2) g' by auto
qed

text \<open>A command whose token the group carries.\<close>

lemma carried_action_answered:
  assumes "resolveInput_group name envelope = Inr input" "ce_actorRef envelope = Some actor"
    and "stored_load (gin_groupId input) gs = Some g" "grp_status g \<noteq> Group_deleted"
    and "hasAction g (gin_actionId input)"
  shows "handle_group_mutation (group_world_ports now publish) name envelope (gs, ms, e) =
    (Inr (group_succeeded name envelope g), (gs, ms, e))"
  using assms by (simp add: handle_group_mutation_def mutate_loaded_def)

lemma resolveInput_group_Inr:
  assumes "resolveInput_group name envelope = Inr input"
  obtains target ref key where "ce_name envelope = name" "ce_targetRef envelope = Some target"
    "ce_safeInputRef envelope = Some ref" "ce_idempotencyKey envelope = Some key"
    "createDomainIdentity target ''GroupId'' = Inr (gin_groupId input)"
    "createDomainIdentity (action_token name target key) ''GroupActionId'' = Inr (gin_actionId input)"
proof -
  show ?thesis
    using assms
    by (auto simp: resolveInput_group_def result_simps intro: that split: if_splits option.splits sum.splits)
qed

end
