(* ===== verification/AppQueries.thy ===== *)
theory AppQueries
  imports AppCommands
begin

text \<open>
  \<open>packages/application/src/queries\<close>: the query catalogue, the query envelope and the outcome of a
  query, with the consistency levels of \<open>ports/read-model.ts\<close>.
\<close>

section \<open>The catalogue\<close>

datatype read_consistency =
    Read_strong_owner | Read_eventual_projection | Read_stale_allowed | Read_retention_bound

fun read_consistency_name :: "read_consistency \<Rightarrow> string" where
    "read_consistency_name Read_strong_owner = ''strong_owner''"
  | "read_consistency_name Read_eventual_projection = ''eventual_projection''"
  | "read_consistency_name Read_stale_allowed = ''stale_allowed''"
  | "read_consistency_name Read_retention_bound = ''retention_bound''"

definition readConsistencyLevels :: "read_consistency list" where
  "readConsistencyLevels =
     [Read_strong_owner, Read_eventual_projection, Read_stale_allowed, Read_retention_bound]"

interpretation read_consistency: string_union read_consistency_name readConsistencyLevels
proof
  show "distinct (map read_consistency_name readConsistencyLevels)"
    by (simp add: readConsistencyLevels_def)
  show "v \<in> set readConsistencyLevels" for v
    by (cases v) (simp_all add: readConsistencyLevels_def)
qed

datatype query_group =
    QueryGroup_status | QueryGroup_history | QueryGroup_configuration | QueryGroup_metrics
  | QueryGroup_monitoring

fun query_group_name :: "query_group \<Rightarrow> string" where
    "query_group_name QueryGroup_status = ''status''"
  | "query_group_name QueryGroup_history = ''history''"
  | "query_group_name QueryGroup_configuration = ''configuration''"
  | "query_group_name QueryGroup_metrics = ''metrics''"
  | "query_group_name QueryGroup_monitoring = ''monitoring''"

definition applicationQueryGroups :: "query_group list" where
  "applicationQueryGroups =
     [QueryGroup_status, QueryGroup_history, QueryGroup_configuration, QueryGroup_metrics,
      QueryGroup_monitoring]"

interpretation query_group: string_union query_group_name applicationQueryGroups
proof
  show "distinct (map query_group_name applicationQueryGroups)"
    by (simp add: applicationQueryGroups_def)
  show "v \<in> set applicationQueryGroups" for v
    by (cases v) (simp_all add: applicationQueryGroups_def)
qed

datatype query_outcome_name =
    Answer_result | Answer_empty | Answer_stale | Answer_unavailable
  | Answer_denied

fun query_outcome_name_name :: "query_outcome_name \<Rightarrow> string" where
    "query_outcome_name_name Answer_result = ''result''"
  | "query_outcome_name_name Answer_empty = ''empty''"
  | "query_outcome_name_name Answer_stale = ''stale''"
  | "query_outcome_name_name Answer_unavailable = ''unavailable''"
  | "query_outcome_name_name Answer_denied = ''denied''"

definition applicationQueryOutcomes :: "query_outcome_name list" where
  "applicationQueryOutcomes =
     [Answer_result, Answer_empty, Answer_stale, Answer_unavailable, Answer_denied]"

interpretation query_outcome_name: string_union query_outcome_name_name applicationQueryOutcomes
proof
  show "distinct (map query_outcome_name_name applicationQueryOutcomes)"
    by (simp add: applicationQueryOutcomes_def)
  show "v \<in> set applicationQueryOutcomes" for v
    by (cases v) (simp_all add: applicationQueryOutcomes_def)
qed

datatype (plugins only: code) query_name =
    Qry_GetInstanceStatus | Qry_ListInstances | Qry_ListInstanceSessions
  | Qry_GetMessageStatus | Qry_GetMessageDeliveryHistory | Qry_ListInstanceMessages
  | Qry_ListChats | Qry_ListInstanceChats | Qry_GetChatStatus
  | Qry_ListContacts | Qry_ListInstanceContacts | Qry_GetContactStatus
  | Qry_ListLabels | Qry_ListInstanceLabels | Qry_GetLabelStatus
  | Qry_ListInstanceGroups | Qry_GetGroupStatus | Qry_ListGroupMembers
  | Qry_GetMediaStatus | Qry_GetWebhookStatus | Qry_GetWebhookDeliveryHistory
  | Qry_ListWebhookSubscriptions | Qry_ListWebhookDeliveries | Qry_ListEvents
  | Qry_GetHealthStatus | Qry_QueryAuditRecords | Qry_GetConfigurationStatus
  | Qry_GetDashboardSummary | Qry_GetOperationalMetricsSnapshot | Qry_GetQueueMetricsSnapshot
  | Qry_GetWebhookMetricsSnapshot | Qry_GetMessageMetricsSnapshot | Qry_GetMediaMetricsSnapshot
  | Qry_GetActionRequiredItems | Qry_GetWorkerJobStatus | Qry_ListWorkerJobs
  | Qry_GetProviderCapabilityStatus

primrec query_name_text :: "query_name \<Rightarrow> string" where
    "query_name_text Qry_GetInstanceStatus = ''GetInstanceStatus''"
  | "query_name_text Qry_ListInstances = ''ListInstances''"
  | "query_name_text Qry_ListInstanceSessions = ''ListInstanceSessions''"
  | "query_name_text Qry_GetMessageStatus = ''GetMessageStatus''"
  | "query_name_text Qry_GetMessageDeliveryHistory = ''GetMessageDeliveryHistory''"
  | "query_name_text Qry_ListInstanceMessages = ''ListInstanceMessages''"
  | "query_name_text Qry_ListChats = ''ListChats''"
  | "query_name_text Qry_ListInstanceChats = ''ListInstanceChats''"
  | "query_name_text Qry_GetChatStatus = ''GetChatStatus''"
  | "query_name_text Qry_ListContacts = ''ListContacts''"
  | "query_name_text Qry_ListInstanceContacts = ''ListInstanceContacts''"
  | "query_name_text Qry_GetContactStatus = ''GetContactStatus''"
  | "query_name_text Qry_ListLabels = ''ListLabels''"
  | "query_name_text Qry_ListInstanceLabels = ''ListInstanceLabels''"
  | "query_name_text Qry_GetLabelStatus = ''GetLabelStatus''"
  | "query_name_text Qry_ListInstanceGroups = ''ListInstanceGroups''"
  | "query_name_text Qry_GetGroupStatus = ''GetGroupStatus''"
  | "query_name_text Qry_ListGroupMembers = ''ListGroupMembers''"
  | "query_name_text Qry_GetMediaStatus = ''GetMediaStatus''"
  | "query_name_text Qry_GetWebhookStatus = ''GetWebhookStatus''"
  | "query_name_text Qry_GetWebhookDeliveryHistory = ''GetWebhookDeliveryHistory''"
  | "query_name_text Qry_ListWebhookSubscriptions = ''ListWebhookSubscriptions''"
  | "query_name_text Qry_ListWebhookDeliveries = ''ListWebhookDeliveries''"
  | "query_name_text Qry_ListEvents = ''ListEvents''"
  | "query_name_text Qry_GetHealthStatus = ''GetHealthStatus''"
  | "query_name_text Qry_QueryAuditRecords = ''QueryAuditRecords''"
  | "query_name_text Qry_GetConfigurationStatus = ''GetConfigurationStatus''"
  | "query_name_text Qry_GetDashboardSummary = ''GetDashboardSummary''"
  | "query_name_text Qry_GetOperationalMetricsSnapshot = ''GetOperationalMetricsSnapshot''"
  | "query_name_text Qry_GetQueueMetricsSnapshot = ''GetQueueMetricsSnapshot''"
  | "query_name_text Qry_GetWebhookMetricsSnapshot = ''GetWebhookMetricsSnapshot''"
  | "query_name_text Qry_GetMessageMetricsSnapshot = ''GetMessageMetricsSnapshot''"
  | "query_name_text Qry_GetMediaMetricsSnapshot = ''GetMediaMetricsSnapshot''"
  | "query_name_text Qry_GetActionRequiredItems = ''GetActionRequiredItems''"
  | "query_name_text Qry_GetWorkerJobStatus = ''GetWorkerJobStatus''"
  | "query_name_text Qry_ListWorkerJobs = ''ListWorkerJobs''"
  | "query_name_text Qry_GetProviderCapabilityStatus = ''GetProviderCapabilityStatus''"

record query_definition =
  qd_name :: query_name
  qd_group :: query_group
  qd_consistency :: read_consistency
  qd_cacheCandidate :: bool
  qd_retentionBound :: bool
  qd_sideEffectFree :: bool

definition query_entry ::
    "query_name \<Rightarrow> query_group \<Rightarrow> read_consistency \<Rightarrow> bool \<Rightarrow> bool \<Rightarrow> query_definition" where
  "query_entry name grp consistency cacheCandidate retentionBound =
     \<lparr>qd_name = name, qd_group = grp, qd_consistency = consistency,
      qd_cacheCandidate = cacheCandidate, qd_retentionBound = retentionBound,
      qd_sideEffectFree = True\<rparr>"

definition applicationQueryDefinitions :: "query_definition list" where
  "applicationQueryDefinitions =
     [query_entry Qry_GetInstanceStatus QueryGroup_status Read_strong_owner True False,
      query_entry Qry_ListInstances QueryGroup_history Read_eventual_projection True False,
      query_entry Qry_ListInstanceSessions QueryGroup_history Read_eventual_projection True False,
      query_entry Qry_GetMessageStatus QueryGroup_status Read_strong_owner True False,
      query_entry Qry_GetMessageDeliveryHistory QueryGroup_history Read_retention_bound True True,
      query_entry Qry_ListInstanceMessages QueryGroup_history Read_retention_bound True True,
      query_entry Qry_ListChats QueryGroup_history Read_eventual_projection True False,
      query_entry Qry_ListInstanceChats QueryGroup_history Read_eventual_projection True False,
      query_entry Qry_GetChatStatus QueryGroup_status Read_strong_owner True False,
      query_entry Qry_ListContacts QueryGroup_history Read_eventual_projection True False,
      query_entry Qry_ListInstanceContacts QueryGroup_history Read_eventual_projection True False,
      query_entry Qry_GetContactStatus QueryGroup_status Read_strong_owner True False,
      query_entry Qry_ListLabels QueryGroup_history Read_eventual_projection True False,
      query_entry Qry_ListInstanceLabels QueryGroup_history Read_eventual_projection True False,
      query_entry Qry_GetLabelStatus QueryGroup_status Read_strong_owner True False,
      query_entry Qry_ListInstanceGroups QueryGroup_history Read_eventual_projection True False,
      query_entry Qry_GetGroupStatus QueryGroup_status Read_strong_owner True False,
      query_entry Qry_ListGroupMembers QueryGroup_history Read_eventual_projection True False,
      query_entry Qry_GetMediaStatus QueryGroup_status Read_strong_owner True False,
      query_entry Qry_GetWebhookStatus QueryGroup_status Read_strong_owner True False,
      query_entry Qry_GetWebhookDeliveryHistory QueryGroup_history Read_retention_bound True True,
      query_entry Qry_ListWebhookSubscriptions QueryGroup_history Read_eventual_projection True False,
      query_entry Qry_ListWebhookDeliveries QueryGroup_history Read_retention_bound True True,
      query_entry Qry_ListEvents QueryGroup_history Read_retention_bound True True,
      query_entry Qry_GetHealthStatus QueryGroup_status Read_eventual_projection True False,
      query_entry Qry_QueryAuditRecords QueryGroup_history Read_retention_bound True True,
      query_entry Qry_GetConfigurationStatus QueryGroup_configuration Read_strong_owner True False,
      query_entry Qry_GetDashboardSummary QueryGroup_metrics Read_eventual_projection True False,
      query_entry Qry_GetOperationalMetricsSnapshot QueryGroup_metrics Read_eventual_projection True False,
      query_entry Qry_GetQueueMetricsSnapshot QueryGroup_metrics Read_eventual_projection True False,
      query_entry Qry_GetWebhookMetricsSnapshot QueryGroup_metrics Read_eventual_projection True False,
      query_entry Qry_GetMessageMetricsSnapshot QueryGroup_metrics Read_eventual_projection True False,
      query_entry Qry_GetMediaMetricsSnapshot QueryGroup_metrics Read_eventual_projection True False,
      query_entry Qry_GetActionRequiredItems QueryGroup_monitoring Read_eventual_projection True False,
      query_entry Qry_GetWorkerJobStatus QueryGroup_monitoring Read_strong_owner True False,
      query_entry Qry_ListWorkerJobs QueryGroup_monitoring Read_eventual_projection True False,
      query_entry Qry_GetProviderCapabilityStatus QueryGroup_monitoring Read_strong_owner True False]"

definition applicationQueryNames :: "query_name list" where
  "applicationQueryNames = map qd_name applicationQueryDefinitions"

interpretation query_name: string_union query_name_text applicationQueryNames
proof
  show "distinct (map query_name_text applicationQueryNames)"
    by code_simp
  show "v \<in> set applicationQueryNames" for v
    by (cases v) (simp_all add: applicationQueryNames_def applicationQueryDefinitions_def query_entry_def)
qed

definition isApplicationQueryName :: "string \<Rightarrow> bool" where
  "isApplicationQueryName value \<longleftrightarrow> value \<in> set (map query_name_text applicationQueryNames)"

definition isApplicationQueryOutcome :: "string \<Rightarrow> bool" where
  "isApplicationQueryOutcome value \<longleftrightarrow>
     value \<in> set (map query_outcome_name_name applicationQueryOutcomes)"

text \<open>\<open>queryDefinitionByName\<close>: an object built from the entries, a later entry replacing an earlier.\<close>

definition queryDefinitionByName :: "query_name \<Rightarrow> query_definition option" where
  "queryDefinitionByName =
     map_of (rev (map (\<lambda>definition. (qd_name definition, definition)) applicationQueryDefinitions))"

definition getApplicationQueryDefinition :: "query_name \<Rightarrow> query_definition option" where
  "getApplicationQueryDefinition name = queryDefinitionByName name"

definition getApplicationQueriesByGroup :: "query_group \<Rightarrow> query_definition list" where
  "getApplicationQueriesByGroup grp =
     filter (\<lambda>definition. qd_group definition = grp) applicationQueryDefinitions"

section \<open>Envelopes\<close>

record query_envelope_input =
  qein_name :: string
  qein_queryRef :: string
  qein_requestContext :: request_context
  qein_targetRef :: "string option"
  qein_actorRef :: "string option"
  qein_requestedConsistency :: "read_consistency option"
  qein_safeCriteriaRef :: "string option"
  qein_dataClassification :: "data_classification option"

record query_envelope =
  qen_name :: query_name
  qen_queryRef :: string
  qen_requestContext :: request_context
  qen_targetRef :: "string option"
  qen_actorRef :: "string option"
  qen_requestedConsistency :: "read_consistency option"
  qen_safeCriteriaRef :: "string option"
  qen_dataClassification :: "data_classification option"

definition createApplicationQueryEnvelope :: "query_envelope_input \<Rightarrow> query_envelope result" where
  "createApplicationQueryEnvelope input =
     (case narrow query_name_text applicationQueryNames (qein_name input) of
        None \<Rightarrow> Inl (TypeError ''ApplicationQueryEnvelope.name must be an approved query.'')
      | Some name \<Rightarrow>
          Inr \<lparr>qen_name = name, qen_queryRef = qein_queryRef input,
               qen_requestContext = qein_requestContext input, qen_targetRef = qein_targetRef input,
               qen_actorRef = qein_actorRef input,
               qen_requestedConsistency = qein_requestedConsistency input,
               qen_safeCriteriaRef = qein_safeCriteriaRef input,
               qen_dataClassification = qein_dataClassification input\<rparr>)"

section \<open>Facts\<close>

lemma getApplicationQueryDefinition_total:
  "\<exists>definition. getApplicationQueryDefinition name = Some definition \<and> qd_name definition = name"
  by (cases name) (simp_all add: getApplicationQueryDefinition_def queryDefinitionByName_def
      applicationQueryDefinitions_def query_entry_def)

end
