(* ===== verification/DispatcherQueries.thy ===== *)
theory DispatcherQueries
  imports AppQueries Programs Navigation GroupAggregate Governance EventLog EventPublishing
begin

text \<open>
  \<open>packages/application/src/services/application-dispatcher.ts\<close>: the query handlers of the
  dispatcher.  A repository the dispatcher was built without is \<open>None\<close>; the repositories are
  programs over any state.
\<close>

section \<open>Outcomes\<close>

record instance_item =
  ii_id :: string
  ii_status :: instance_status
  ii_displayName :: "string option"

record session_item =
  si_id :: string
  si_instanceId :: string
  si_status :: session_status

record message_item =
  mit_id :: string
  mit_instanceId :: string
  mit_direction :: message_direction
  mit_type :: message_type
  mit_status :: message_status

record chat_item =
  ci_id :: string
  ci_instanceId :: string
  ci_status :: chat_status
  ci_type :: chat_kind
  ci_unreadCount :: int
  ci_labelIds :: "string list"
  ci_muted :: bool
  ci_pinned :: bool

record contact_item =
  cti_id :: string
  cti_instanceId :: string
  cti_status :: contact_status
  cti_displayName :: "string option"

record group_item =
  gi_id :: string
  gi_instanceId :: string
  gi_status :: group_status
  gi_subject :: string
  gi_description :: "string option"
  gi_memberCount :: nat
  gi_adminCount :: nat
  gi_muted :: bool
  gi_archived :: bool
  gi_pinned :: bool

record group_member_item =
  gmb_id :: string
  gmb_groupId :: string
  gmb_memberRef :: string
  gmb_role :: group_member_role
  gmb_joinedAt :: "string option"

record event_item =
  ei_id :: string
  ei_type :: string
  ei_source :: string
  ei_timestamp :: string
  ei_resourceRef :: "string option"
  ei_correlationId :: "string option"

record worker_job_item =
  wji_id :: string
  wji_status :: job_status
  wji_workType :: string
  wji_ownerContext :: domain_owner_context
  wji_attemptCount :: "int option"
  wji_resourceRef :: "string option"

record subscription_item =
  wsi_id :: string
  wsi_status :: webhook_subscription_status

record delivery_item =
  wdi_id :: string
  wdi_webhookId :: string
  wdi_status :: webhook_delivery_status
  wdi_eventType :: string
  wdi_attemptCount :: "int option"
  wdi_failureCategory :: "failure_category option"
  wdi_reasonCode :: "string option"

record queue_item =
  qi_status :: string
  qi_totalJobCount :: nat
  qi_queuedJobCount :: nat
  qi_reservedJobCount :: nat
  qi_runningJobCount :: nat
  qi_retryingJobCount :: nat
  qi_completedJobCount :: nat
  qi_deadJobCount :: nat
  qi_activeJobCount :: nat

datatype query_item =
    Item_instance instance_item
  | Item_session session_item
  | Item_message message_item
  | Item_chat chat_item
  | Item_contact contact_item
  | Item_group group_item
  | Item_member group_member_item
  | Item_event event_item
  | Item_job worker_job_item
  | Item_subscription subscription_item
  | Item_delivery delivery_item
  | Item_queue queue_item

record read_freshness =
  rf_stale :: bool
  rf_refreshedAt :: int

record query_outcome =
  qo_queryRef :: string
  qo_outcome :: query_outcome_name
  qo_consistency :: read_consistency
  qo_freshness :: read_freshness
  qo_resultRef :: "string option"
  qo_reasonCode :: "string option"
  qo_resource :: "query_item option"
  qo_items :: "query_item list option"

definition createApplicationQueryOutcome :: "query_outcome \<Rightarrow> query_outcome" where
  "createApplicationQueryOutcome input = input"

text \<open>What a handler says beside the outcome.\<close>

record query_result =
  qx_resultRef :: "string option"
  qx_reasonCode :: "string option"
  qx_resource :: "query_item option"
  qx_items :: "query_item list option"

definition with_reason :: "string \<Rightarrow> query_result" where
  "with_reason code =
     \<lparr>qx_resultRef = None, qx_reasonCode = Some code, qx_resource = None, qx_items = None\<rparr>"

definition with_ref :: "string \<Rightarrow> query_result" where
  "with_ref ref = \<lparr>qx_resultRef = Some ref, qx_reasonCode = None, qx_resource = None, qx_items = None\<rparr>"

definition with_resource :: "string \<Rightarrow> query_item \<Rightarrow> query_result" where
  "with_resource ref item =
     \<lparr>qx_resultRef = Some ref, qx_reasonCode = None, qx_resource = Some item, qx_items = None\<rparr>"

definition with_items :: "string \<Rightarrow> query_item list \<Rightarrow> query_result" where
  "with_items ref items =
     \<lparr>qx_resultRef = Some ref, qx_reasonCode = None, qx_resource = None, qx_items = Some items\<rparr>"

section \<open>Times\<close>

text \<open>
  \<open>new Date(t).toISOString()\<close>: the date of a day since 1970 in the proleptic Gregorian calendar,
  and a \<open>RangeError\<close> outside the range of a date.
\<close>

definition civil_from_days :: "int \<Rightarrow> int \<times> int \<times> int" where
  "civil_from_days days =
     (let z = days + 719468;
          era = z div 146097;
          doe = z mod 146097;
          yoe = (doe - doe div 1460 + doe div 36524 - doe div 146096) div 365;
          doy = doe - (365 * yoe + yoe div 4 - yoe div 100);
          mp = (5 * doy + 2) div 153;
          d = doy - (153 * mp + 2) div 5 + 1;
          m = if mp < 10 then mp + 3 else mp - 9
      in (yoe + era * 400 + (if m \<le> 2 then 1 else 0), m, d))"

definition digits :: "nat \<Rightarrow> int \<Rightarrow> string" where
  "digits n i = padStart n CHR ''0'' (show_int i)"

definition iso_year :: "int \<Rightarrow> string" where
  "iso_year y =
     (if 0 \<le> y \<and> y \<le> 9999 then digits 4 y
      else if y < 0 then ''-'' @ digits 6 (- y) else ''+'' @ digits 6 y)"

definition toISOString :: "int \<Rightarrow> string option" where
  "toISOString t =
     (if 8640000000000000 < \<bar>t\<bar> then None
      else
        let (y, m, d) = civil_from_days (t div 86400000);
            ms = t mod 86400000
        in Some (iso_year y @ ''-'' @ digits 2 m @ ''-'' @ digits 2 d @ ''T'' @
             digits 2 (ms div 3600000) @ '':'' @ digits 2 (ms div 60000 mod 60) @ '':'' @
             digits 2 (ms div 1000 mod 60) @ ''.'' @ digits 3 (ms mod 1000) @ ''Z''))"

section \<open>Items\<close>

definition instanceQueryItem :: "wa_instance \<Rightarrow> instance_item" where
  "instanceQueryItem i =
     \<lparr>ii_id = inst_id i, ii_status = inst_status i, ii_displayName = im_displayName (inst_metadata i)\<rparr>"

definition sessionQueryItem :: "session \<Rightarrow> session_item" where
  "sessionQueryItem s =
     \<lparr>si_id = sess_id s, si_instanceId = sess_instanceId s, si_status = sess_status s\<rparr>"

definition messageQueryItem :: "message \<Rightarrow> message_item" where
  "messageQueryItem m =
     \<lparr>mit_id = msg_id m, mit_instanceId = msg_instanceId m, mit_direction = msg_direction m,
      mit_type = msg_type m, mit_status = msg_status m\<rparr>"

definition chatQueryItem :: "chat \<Rightarrow> chat_item" where
  "chatQueryItem c =
     \<lparr>ci_id = chat_id c, ci_instanceId = chat_instanceId c, ci_status = chat_status c,
      ci_type = chat_kind c, ci_unreadCount = chat_unreadCount c, ci_labelIds = chat_labelIds c,
      ci_muted = chat_muted c, ci_pinned = chat_pinned c\<rparr>"

definition contactQueryItem :: "contact \<Rightarrow> contact_item" where
  "contactQueryItem c =
     \<lparr>cti_id = con_id c, cti_instanceId = con_instanceId c, cti_status = con_status c,
      cti_displayName = con_displayName c\<rparr>"

definition groupQueryItem :: "wa_group \<Rightarrow> group_item" where
  "groupQueryItem g =
     \<lparr>gi_id = grp_id g, gi_instanceId = grp_instanceId g, gi_status = grp_status g,
      gi_subject = gmd_subject (grp_metadata g), gi_description = gmd_description (grp_metadata g),
      gi_memberCount = length (grp_members g),
      gi_adminCount = length (filter (\<lambda>m. mem_role m = Role_admin \<or> mem_role m = Role_owner) (grp_members g)),
      gi_muted = grp_muted g, gi_archived = grp_archived g, gi_pinned = grp_pinned g\<rparr>"

text \<open>The date of a member who joined out of the range of a date throws.\<close>

definition groupMemberQueryItem :: "wa_group \<Rightarrow> group_member \<Rightarrow> nat \<Rightarrow> group_member_item option" where
  "groupMemberQueryItem g m index =
     (let memberRef = grp_id g @ '':member:'' @ show_nat (index + 1);
          item = (\<lambda>joinedAt. \<lparr>gmb_id = memberRef, gmb_groupId = grp_id g, gmb_memberRef = memberRef,
            gmb_role = mem_role m, gmb_joinedAt = joinedAt\<rparr>)
      in case mem_joinedAt m of
           None \<Rightarrow> Some (item None)
         | Some t \<Rightarrow> map_option (\<lambda>text. item (Some text)) (toISOString t))"

definition eventQueryItem :: "platform_event \<Rightarrow> event_item" where
  "eventQueryItem e =
     \<lparr>ei_id = pe_id e, ei_type = pe_type e, ei_source = pe_source e, ei_timestamp = pe_timestamp e,
      ei_resourceRef = pe_resourceRef e, ei_correlationId = pe_correlationId e\<rparr>"

definition workerJobQueryItem :: "worker_job \<Rightarrow> worker_job_item" where
  "workerJobQueryItem w =
     \<lparr>wji_id = job_id w, wji_status = job_status w, wji_workType = job_workType w,
      wji_ownerContext = job_ownerContext w, wji_attemptCount = job_attemptNumber w,
      wji_resourceRef =
        nullish (Option.bind (job_safeMetadata w) sm_messageId) (Option.bind (job_safeMetadata w) sm_instanceId)\<rparr>"

definition webhookSubscriptionQueryItem :: "webhook_subscription \<Rightarrow> subscription_item" where
  "webhookSubscriptionQueryItem s = \<lparr>wsi_id = subs_id s, wsi_status = subs_status s\<rparr>"

definition webhookDeliveryQueryItem :: "webhook_delivery \<Rightarrow> delivery_item" where
  "webhookDeliveryQueryItem d =
     \<lparr>wdi_id = del_id d, wdi_webhookId = del_webhookId d, wdi_status = del_status d,
      wdi_eventType = del_sourceSignalRef d, wdi_attemptCount = del_attemptNumber d,
      wdi_failureCategory = del_failureCategory d,
      wdi_reasonCode = map_option dlr_code (del_deadLetterReason d)\<rparr>"

section \<open>Ports\<close>

record ('w, 's, 'a) reader =
  rd_load :: "identity \<Rightarrow> ('w, 'a option) prog"
  rd_findByInstance :: "identity \<Rightarrow> ('w, 'a list) prog"
  rd_findByStatus :: "'s \<Rightarrow> ('w, 'a list) prog"

record 'w query_ports =
  qy_instances_load :: "identity \<Rightarrow> ('w, wa_instance option) prog"
  qy_findNonTerminal :: "('w, wa_instance list) prog"
  qy_sessions :: "(identity \<Rightarrow> ('w, session list) prog) option"
  qy_messages :: "('w, message_status, message) reader option"
  qy_chats :: "('w, chat_status, chat) reader option"
  qy_contacts :: "('w, contact_status, contact) reader option"
  qy_groups :: "('w, group_status, wa_group) reader option"
  qy_health :: "(string \<Rightarrow> ('w, health_status option) prog) option"
  qy_jobs :: "('w, job_status, worker_job) reader option"
  qy_subscriptions :: "('w, webhook_subscription_status, webhook_subscription) reader option"
  qy_deliveries :: "('w, webhook_delivery_status, webhook_delivery) reader option"
  qy_replayEvents :: "(replay_request \<Rightarrow> ('w, replay_result port_result) prog) option"
  qy_now :: "'w \<Rightarrow> int"
  qy_healthSubjectRef :: string

text \<open>\<open>Promise.all\<close>: every program runs; the first one that throws decides.\<close>

fun prog_all :: "('w, 'a) prog list \<Rightarrow> ('w, 'a list) prog" where
  "prog_all [] w = (Inr [], w)"
| "prog_all (p # ps) w =
     (case p w of (x, w1) \<Rightarrow>
        case prog_all ps w1 of (xs, w2) \<Rightarrow>
          (case x of Inl e \<Rightarrow> Inl e | Inr a \<Rightarrow> (case xs of Inl e \<Rightarrow> Inl e | Inr as \<Rightarrow> Inr (a # as)), w2))"

definition by_status :: "('w, 's, 'a) reader \<Rightarrow> 's list \<Rightarrow> ('w, 'a list) prog" where
  "by_status R statuses =
     prog_bind (prog_all (map (rd_findByStatus R) statuses)) (\<lambda>lists. prog_return (concat lists))"

text \<open>Every query of the catalogue has a definition, so the fallback of the lookup is never used.\<close>

definition consistency_of :: "query_envelope \<Rightarrow> read_consistency" where
  "consistency_of envelope =
     value_or (qen_requestedConsistency envelope)
       (case getApplicationQueryDefinition (qen_name envelope) of
          None \<Rightarrow> Read_strong_owner | Some definition \<Rightarrow> qd_consistency definition)"

definition queryOutcome ::
    "'w query_ports \<Rightarrow> query_envelope \<Rightarrow> query_outcome_name \<Rightarrow> query_result \<Rightarrow> ('w, query_outcome) prog" where
  "queryOutcome P envelope outcome x w =
     (Inr (createApplicationQueryOutcome
        \<lparr>qo_queryRef = qen_queryRef envelope, qo_outcome = outcome,
         qo_consistency = consistency_of envelope,
         qo_freshness = \<lparr>rf_stale = False, rf_refreshedAt = qy_now P w\<rparr>,
         qo_resultRef = qx_resultRef x, qo_reasonCode = qx_reasonCode x,
         qo_resource = qx_resource x, qo_items = qx_items x\<rparr>), w)"

section \<open>The common steps\<close>

text \<open>\<open>if (repository === undefined)\<close> and \<open>if (envelope.targetRef === undefined)\<close>.\<close>

definition when_configured ::
    "'w query_ports \<Rightarrow> query_envelope \<Rightarrow> 'r option \<Rightarrow> string \<Rightarrow> ('r \<Rightarrow> ('w, query_outcome) prog) \<Rightarrow>
     ('w, query_outcome) prog" where
  "when_configured P envelope repository code k =
     (case repository of
        None \<Rightarrow> queryOutcome P envelope Answer_unavailable (with_reason code)
      | Some R \<Rightarrow> k R)"

definition when_targeted ::
    "'w query_ports \<Rightarrow> query_envelope \<Rightarrow> string \<Rightarrow> (string \<Rightarrow> ('w, query_outcome) prog) \<Rightarrow>
     ('w, query_outcome) prog" where
  "when_targeted P envelope code k =
     (case qen_targetRef envelope of
        None \<Rightarrow> queryOutcome P envelope Answer_empty (with_reason code)
      | Some target \<Rightarrow> k target)"

definition list_outcome ::
    "'w query_ports \<Rightarrow> query_envelope \<Rightarrow> string \<Rightarrow> query_item list \<Rightarrow> ('w, query_outcome) prog" where
  "list_outcome P envelope prefix items =
     queryOutcome P envelope (if items = [] then Answer_empty else Answer_result)
       (with_items (prefix @ show_nat (length items)) items)"

definition status_outcome ::
    "'w query_ports \<Rightarrow> query_envelope \<Rightarrow> string \<Rightarrow> string \<Rightarrow> (string \<times> query_item) option \<Rightarrow>
     ('w, query_outcome) prog" where
  "status_outcome P envelope kind target found =
     (case found of
        None \<Rightarrow> queryOutcome P envelope Answer_empty (with_ref (kind @ '':'' @ target @ '':empty''))
      | Some (ref, item) \<Rightarrow>
          queryOutcome P envelope Answer_result (with_resource (kind @ '':'' @ ref) item))"

definition find_target ::
    "'w query_ports \<Rightarrow> query_envelope \<Rightarrow> string \<Rightarrow> string \<Rightarrow> string \<Rightarrow>
     (identity \<Rightarrow> ('w, 'a option) prog) \<Rightarrow> ('a \<Rightarrow> (string \<times> query_item) option) \<Rightarrow>
     ('w, query_outcome) prog" where
  "find_target P envelope code kind label load describe =
     when_targeted P envelope code (\<lambda>target.
     prog_bind (prog_lift (createDomainIdentity target label)) (\<lambda>i.
     prog_bind (load i) (\<lambda>found.
     status_outcome P envelope kind target (Option.bind found describe))))"

section \<open>The handlers\<close>

definition listInstances :: "'w query_ports \<Rightarrow> query_envelope \<Rightarrow> ('w, query_outcome) prog" where
  "listInstances P envelope =
     prog_bind (qy_findNonTerminal P) (\<lambda>instances.
     list_outcome P envelope ''instances:list:'' (map (Item_instance \<circ> instanceQueryItem) instances))"

definition describe_instance :: "wa_instance \<Rightarrow> (string \<times> query_item) option" where
  "describe_instance i =
     Some (inst_id i @ '':'' @ instance_status_name (inst_status i), Item_instance (instanceQueryItem i))"

definition getInstanceStatus :: "'w query_ports \<Rightarrow> query_envelope \<Rightarrow> ('w, query_outcome) prog" where
  "getInstanceStatus P envelope =
     find_target P envelope ''instance_target_required'' ''instance'' ''InstanceId''
       (qy_instances_load P) describe_instance"

definition listInstanceSessions :: "'w query_ports \<Rightarrow> query_envelope \<Rightarrow> ('w, query_outcome) prog" where
  "listInstanceSessions P envelope =
     when_configured P envelope (qy_sessions P) ''session_repository_not_configured'' (\<lambda>findByInstance.
     when_targeted P envelope ''instance_target_required'' (\<lambda>target.
     prog_bind (prog_lift (createDomainIdentity target ''InstanceId'')) (\<lambda>i.
     prog_bind (findByInstance i) (\<lambda>sessions.
     list_outcome P envelope (''sessions:'' @ target @ '':list:'')
       (map (Item_session \<circ> sessionQueryItem) sessions)))))"

definition listInstanceMessages :: "'w query_ports \<Rightarrow> query_envelope \<Rightarrow> ('w, query_outcome) prog" where
  "listInstanceMessages P envelope =
     when_configured P envelope (qy_messages P) ''message_repository_not_configured'' (\<lambda>R.
     when_targeted P envelope ''instance_target_required'' (\<lambda>target.
     prog_bind (by_status R messageStatuses) (\<lambda>all.
     let messages = filter (\<lambda>m. msg_instanceId m = target) all
     in list_outcome P envelope (''messages:'' @ target @ '':'')
          (map (Item_message \<circ> messageQueryItem) messages))))"

definition describe_message :: "message \<Rightarrow> (string \<times> query_item) option" where
  "describe_message m =
     Some (msg_id m @ '':'' @ message_status_name (msg_status m), Item_message (messageQueryItem m))"

definition getMessageStatus :: "'w query_ports \<Rightarrow> query_envelope \<Rightarrow> ('w, query_outcome) prog" where
  "getMessageStatus P envelope =
     when_configured P envelope (qy_messages P) ''message_repository_not_configured'' (\<lambda>R.
     find_target P envelope ''message_target_required'' ''message'' ''MessageId'' (rd_load R) describe_message)"

definition listChats :: "'w query_ports \<Rightarrow> query_envelope \<Rightarrow> ('w, query_outcome) prog" where
  "listChats P envelope =
     when_configured P envelope (qy_chats P) ''chat_repository_not_configured'' (\<lambda>R.
     prog_bind (by_status R chatStatuses) (\<lambda>all.
     let chats = filter (\<lambda>c. chat_status c \<noteq> Chat_deleted) all
     in list_outcome P envelope ''chats:list:'' (map (Item_chat \<circ> chatQueryItem) chats)))"

definition listInstanceChats :: "'w query_ports \<Rightarrow> query_envelope \<Rightarrow> ('w, query_outcome) prog" where
  "listInstanceChats P envelope =
     when_configured P envelope (qy_chats P) ''chat_repository_not_configured'' (\<lambda>R.
     when_targeted P envelope ''instance_target_required'' (\<lambda>target.
     prog_bind (prog_lift (createDomainIdentity target ''InstanceId'')) (\<lambda>i.
     prog_bind (rd_findByInstance R i) (\<lambda>all.
     let chats = filter (\<lambda>c. chat_status c \<noteq> Chat_deleted) all
     in list_outcome P envelope (''chats:'' @ target @ '':list:'')
          (map (Item_chat \<circ> chatQueryItem) chats)))))"

definition describe_chat :: "chat \<Rightarrow> (string \<times> query_item) option" where
  "describe_chat c =
     (if chat_status c = Chat_deleted then None
      else Some (chat_id c @ '':'' @ chat_status_name (chat_status c), Item_chat (chatQueryItem c)))"

definition getChatStatus :: "'w query_ports \<Rightarrow> query_envelope \<Rightarrow> ('w, query_outcome) prog" where
  "getChatStatus P envelope =
     when_configured P envelope (qy_chats P) ''chat_repository_not_configured'' (\<lambda>R.
     find_target P envelope ''chat_target_required'' ''chat'' ''ChatId'' (rd_load R) describe_chat)"

definition listContacts :: "'w query_ports \<Rightarrow> query_envelope \<Rightarrow> ('w, query_outcome) prog" where
  "listContacts P envelope =
     when_configured P envelope (qy_contacts P) ''contact_repository_not_configured'' (\<lambda>R.
     prog_bind (by_status R contactStatuses) (\<lambda>all.
     let contacts = filter (\<lambda>c. con_status c \<noteq> Contact_deleted) all
     in list_outcome P envelope ''contacts:list:'' (map (Item_contact \<circ> contactQueryItem) contacts)))"

definition listInstanceContacts :: "'w query_ports \<Rightarrow> query_envelope \<Rightarrow> ('w, query_outcome) prog" where
  "listInstanceContacts P envelope =
     when_configured P envelope (qy_contacts P) ''contact_repository_not_configured'' (\<lambda>R.
     when_targeted P envelope ''instance_target_required'' (\<lambda>target.
     prog_bind (prog_lift (createDomainIdentity target ''InstanceId'')) (\<lambda>i.
     prog_bind (rd_findByInstance R i) (\<lambda>all.
     let contacts = filter (\<lambda>c. con_status c \<noteq> Contact_deleted) all
     in list_outcome P envelope (''contacts:'' @ target @ '':list:'')
          (map (Item_contact \<circ> contactQueryItem) contacts)))))"

definition describe_contact :: "contact \<Rightarrow> (string \<times> query_item) option" where
  "describe_contact c =
     (if con_status c = Contact_deleted then None
      else Some (con_id c @ '':'' @ contact_status_name (con_status c), Item_contact (contactQueryItem c)))"

definition getContactStatus :: "'w query_ports \<Rightarrow> query_envelope \<Rightarrow> ('w, query_outcome) prog" where
  "getContactStatus P envelope =
     when_configured P envelope (qy_contacts P) ''contact_repository_not_configured'' (\<lambda>R.
     find_target P envelope ''contact_target_required'' ''contact'' ''ContactId'' (rd_load R) describe_contact)"

definition listInstanceGroups :: "'w query_ports \<Rightarrow> query_envelope \<Rightarrow> ('w, query_outcome) prog" where
  "listInstanceGroups P envelope =
     when_configured P envelope (qy_groups P) ''group_repository_not_configured'' (\<lambda>R.
     when_targeted P envelope ''instance_target_required'' (\<lambda>target.
     prog_bind (prog_lift (createDomainIdentity target ''InstanceId'')) (\<lambda>i.
     prog_bind (rd_findByInstance R i) (\<lambda>all.
     let groups = filter (\<lambda>g. grp_status g \<noteq> Group_deleted) all
     in list_outcome P envelope (''groups:'' @ target @ '':list:'')
          (map (Item_group \<circ> groupQueryItem) groups)))))"

definition describe_group :: "wa_group \<Rightarrow> (string \<times> query_item) option" where
  "describe_group g =
     (if grp_status g = Group_deleted then None
      else Some (grp_id g @ '':'' @ group_status_name (grp_status g), Item_group (groupQueryItem g)))"

definition getGroupStatus :: "'w query_ports \<Rightarrow> query_envelope \<Rightarrow> ('w, query_outcome) prog" where
  "getGroupStatus P envelope =
     when_configured P envelope (qy_groups P) ''group_repository_not_configured'' (\<lambda>R.
     find_target P envelope ''group_target_required'' ''group'' ''GroupId'' (rd_load R) describe_group)"

definition member_items :: "wa_group \<Rightarrow> query_item list option" where
  "member_items g =
     those (map (\<lambda>(index, m). map_option Item_member (groupMemberQueryItem g m index))
       (enumerate 0 (grp_members g)))"

definition listGroupMembers :: "'w query_ports \<Rightarrow> query_envelope \<Rightarrow> ('w, query_outcome) prog" where
  "listGroupMembers P envelope =
     when_configured P envelope (qy_groups P) ''group_repository_not_configured'' (\<lambda>R.
     when_targeted P envelope ''group_target_required'' (\<lambda>target.
     prog_bind (prog_lift (createDomainIdentity target ''GroupId'')) (\<lambda>i.
     prog_bind (rd_load R i) (\<lambda>found.
     case found of
       None \<Rightarrow> queryOutcome P envelope Answer_empty (with_ref (''group-members:'' @ target @ '':empty''))
     | Some g \<Rightarrow>
         if grp_status g = Group_deleted
         then queryOutcome P envelope Answer_empty (with_ref (''group-members:'' @ target @ '':empty''))
         else case member_items g of
                None \<Rightarrow> prog_throw ''RangeError''
              | Some items \<Rightarrow> list_outcome P envelope (''group-members:'' @ grp_id g @ '':list:'') items))))"

definition getHealthStatus :: "'w query_ports \<Rightarrow> query_envelope \<Rightarrow> ('w, query_outcome) prog" where
  "getHealthStatus P envelope =
     when_configured P envelope (qy_health P) ''health_repository_not_configured'' (\<lambda>findBySubject.
     let subjectRef = value_or (qen_targetRef envelope) (qy_healthSubjectRef P)
     in prog_bind (findBySubject subjectRef) (\<lambda>found.
        case found of
          None \<Rightarrow> queryOutcome P envelope Answer_empty (with_ref (''health:'' @ subjectRef @ '':empty''))
        | Some h \<Rightarrow> queryOutcome P envelope Answer_result
            (with_ref (''health:'' @ hs_id h @ '':'' @ health_category_name (hs_category h)))))"

definition listEvents :: "'w query_ports \<Rightarrow> query_envelope \<Rightarrow> ('w, query_outcome) prog" where
  "listEvents P envelope =
     when_configured P envelope (qy_replayEvents P) ''event_log_not_configured'' (\<lambda>replayEvents.
     prog_bind (replayEvents \<lparr>rq_cursor = None, rq_limit = num_of 1000\<rparr>) (\<lambda>replay.
     case replay of
       Inl failure \<Rightarrow> queryOutcome P envelope Answer_unavailable (with_reason (pf_code failure))
     | Inr x \<Rightarrow> list_outcome P envelope ''events:list:'' (map (Item_event \<circ> eventQueryItem) (rp_events x))))"

definition listWorkerJobs :: "'w query_ports \<Rightarrow> query_envelope \<Rightarrow> ('w, query_outcome) prog" where
  "listWorkerJobs P envelope =
     when_configured P envelope (qy_jobs P) ''worker_job_repository_not_configured'' (\<lambda>R.
     prog_bind (by_status R jobStatuses) (\<lambda>jobs.
     list_outcome P envelope ''jobs:list:'' (map (Item_job \<circ> workerJobQueryItem) jobs)))"

definition describe_job :: "worker_job \<Rightarrow> (string \<times> query_item) option" where
  "describe_job w =
     Some (job_id w @ '':'' @ job_status_name (job_status w), Item_job (workerJobQueryItem w))"

definition getWorkerJobStatus :: "'w query_ports \<Rightarrow> query_envelope \<Rightarrow> ('w, query_outcome) prog" where
  "getWorkerJobStatus P envelope =
     when_configured P envelope (qy_jobs P) ''worker_job_repository_not_configured'' (\<lambda>R.
     find_target P envelope ''worker_job_target_required'' ''job'' ''JobId'' (rd_load R) describe_job)"

text \<open>The counts of a job status, read off the lists in the order of the statuses.\<close>

definition queue_snapshot :: "(job_status \<Rightarrow> nat) \<Rightarrow> queue_item" where
  "queue_snapshot counts =
     (let active = counts Job_queued + counts Job_reserved + counts Job_running + counts Job_retrying;
          total = sum_list (map counts jobStatuses);
          status = (if 0 < counts Job_dead then ''degraded'' else if 0 < active then ''active'' else ''empty'')
      in \<lparr>qi_status = status, qi_totalJobCount = total, qi_queuedJobCount = counts Job_queued,
          qi_reservedJobCount = counts Job_reserved, qi_runningJobCount = counts Job_running,
          qi_retryingJobCount = counts Job_retrying, qi_completedJobCount = counts Job_completed,
          qi_deadJobCount = counts Job_dead, qi_activeJobCount = active\<rparr>)"

definition getQueueMetricsSnapshot :: "'w query_ports \<Rightarrow> query_envelope \<Rightarrow> ('w, query_outcome) prog" where
  "getQueueMetricsSnapshot P envelope =
     when_configured P envelope (qy_jobs P) ''worker_job_repository_not_configured'' (\<lambda>R.
     prog_bind (prog_all (map (rd_findByStatus R) jobStatuses)) (\<lambda>lists.
     let counts = (\<lambda>status. value_or (map_of (zip jobStatuses (map length lists)) status) 0);
         item = queue_snapshot counts
     in queryOutcome P envelope Answer_result
          (with_resource (''queue:'' @ qi_status item @ '':'' @ show_nat (qi_totalJobCount item)) (Item_queue item))))"

definition listWebhookSubscriptions :: "'w query_ports \<Rightarrow> query_envelope \<Rightarrow> ('w, query_outcome) prog" where
  "listWebhookSubscriptions P envelope =
     when_configured P envelope (qy_subscriptions P) ''webhook_subscription_repository_not_configured'' (\<lambda>R.
     prog_bind (by_status R webhookSubscriptionStatuses) (\<lambda>webhooks.
     list_outcome P envelope ''webhooks:list:''
       (map (Item_subscription \<circ> webhookSubscriptionQueryItem) webhooks)))"

definition describe_subscription :: "webhook_subscription \<Rightarrow> (string \<times> query_item) option" where
  "describe_subscription s =
     Some (subs_id s @ '':'' @ webhook_subscription_status_name (subs_status s),
           Item_subscription (webhookSubscriptionQueryItem s))"

definition getWebhookStatus :: "'w query_ports \<Rightarrow> query_envelope \<Rightarrow> ('w, query_outcome) prog" where
  "getWebhookStatus P envelope =
     when_configured P envelope (qy_subscriptions P) ''webhook_subscription_repository_not_configured'' (\<lambda>R.
     find_target P envelope ''webhook_target_required'' ''webhook'' ''WebhookId'' (rd_load R) describe_subscription)"

definition listWebhookDeliveries :: "'w query_ports \<Rightarrow> query_envelope \<Rightarrow> ('w, query_outcome) prog" where
  "listWebhookDeliveries P envelope =
     when_configured P envelope (qy_deliveries P) ''webhook_delivery_repository_not_configured'' (\<lambda>R.
     prog_bind (by_status R webhookDeliveryStatuses) (\<lambda>deliveries.
     list_outcome P envelope ''webhook-deliveries:list:''
       (map (Item_delivery \<circ> webhookDeliveryQueryItem) deliveries)))"

definition describe_delivery :: "webhook_delivery \<Rightarrow> (string \<times> query_item) option" where
  "describe_delivery d =
     Some (del_id d @ '':'' @ webhook_delivery_status_name (del_status d),
           Item_delivery (webhookDeliveryQueryItem d))"

definition getWebhookDeliveryHistory :: "'w query_ports \<Rightarrow> query_envelope \<Rightarrow> ('w, query_outcome) prog" where
  "getWebhookDeliveryHistory P envelope =
     when_configured P envelope (qy_deliveries P) ''webhook_delivery_repository_not_configured'' (\<lambda>R.
     find_target P envelope ''webhook_delivery_target_required'' ''webhook-delivery'' ''WebhookDeliveryId''
       (rd_load R) describe_delivery)"

section \<open>The registry\<close>

fun query_handler :: "query_name \<Rightarrow> ('w query_ports \<Rightarrow> query_envelope \<Rightarrow> ('w, query_outcome) prog) option" where
  "query_handler name =
     map_of
       [(Qry_GetHealthStatus, getHealthStatus), (Qry_GetInstanceStatus, getInstanceStatus),
        (Qry_ListInstances, listInstances), (Qry_ListInstanceSessions, listInstanceSessions),
        (Qry_ListInstanceMessages, listInstanceMessages), (Qry_GetMessageStatus, getMessageStatus),
        (Qry_ListChats, listChats), (Qry_ListInstanceChats, listInstanceChats),
        (Qry_GetChatStatus, getChatStatus), (Qry_ListContacts, listContacts),
        (Qry_ListInstanceContacts, listInstanceContacts), (Qry_GetContactStatus, getContactStatus),
        (Qry_ListInstanceGroups, listInstanceGroups), (Qry_GetGroupStatus, getGroupStatus),
        (Qry_ListGroupMembers, listGroupMembers), (Qry_ListEvents, listEvents),
        (Qry_ListWorkerJobs, listWorkerJobs), (Qry_GetWorkerJobStatus, getWorkerJobStatus),
        (Qry_GetQueueMetricsSnapshot, getQueueMetricsSnapshot),
        (Qry_ListWebhookSubscriptions, listWebhookSubscriptions), (Qry_GetWebhookStatus, getWebhookStatus),
        (Qry_ListWebhookDeliveries, listWebhookDeliveries),
        (Qry_GetWebhookDeliveryHistory, getWebhookDeliveryHistory)] name"

text \<open>
  \<open>return handler(envelope)\<close> hands on the promise of the handler: its rejection is not caught by the
  surrounding \<open>try\<close>, whose \<open>catch\<close> could only see a handler that throws before it returns a promise.
  No handler does.
\<close>

definition executeQuery :: "'w query_ports \<Rightarrow> query_envelope \<Rightarrow> ('w, query_outcome) prog" where
  "executeQuery P envelope =
     (case query_handler (qen_name envelope) of
        None \<Rightarrow> queryOutcome P envelope Answer_unavailable (with_reason ''application_handler_not_implemented'')
      | Some handler \<Rightarrow> handler P envelope)"

end
