(* ===== verification/DispatcherCommands.thy ===== *)
theory DispatcherCommands
  imports DispatcherQueries GroupMutations WebhookRetry MessageHandlers "HOL-Library.AList"
begin

text \<open>
  \<open>packages/application/src/services/application-dispatcher.ts\<close>: the registry of command handlers and
  the two handlers the dispatcher implements itself, \<open>CreateInstance\<close> and \<open>DestroyInstance\<close>.
\<close>

section \<open>Ports\<close>

text \<open>The connection part of \<open>ports/messaging-provider.ts\<close>.\<close>

datatype connection_intent = Intent_connect | Intent_reconnect | Intent_disconnect | Intent_qr_pairing

datatype connection_state =
    Connection_connecting | Connection_qr_required | Connection_connected | Connection_disconnected
  | Connection_logged_out | Connection_action_required

record connection_request =
  cnr_instanceId :: identity
  cnr_providerId :: identity
  cnr_sessionId :: "identity option"
  cnr_intent :: connection_intent
  cnr_reasonCode :: string

record connection_result =
  cns_instanceId :: identity
  cns_providerId :: identity
  cns_state :: connection_state
  cns_providerSignalRef :: "string option"
  cns_failureCategory :: "failure_category option"

record 'w session_port =
  sp_findByInstance :: "identity \<Rightarrow> ('w, session list) prog"
  sp_save :: "session \<Rightarrow> ('w, unit) prog"

record 'w job_port =
  jp_findByStatus :: "job_status \<Rightarrow> ('w, worker_job list) prog"
  jp_save :: "worker_job \<Rightarrow> ('w, unit) prog"

record 'w instance_ports =
  ip_load :: "identity \<Rightarrow> ('w, wa_instance option) prog"
  ip_save :: "wa_instance \<Rightarrow> ('w, unit) prog"
  ip_sessions :: "'w session_port option"
  ip_jobs :: "'w job_port option"
  ip_disconnect :: "(connection_request \<Rightarrow> port_context \<Rightarrow> ('w, connection_result port_result) prog) option"
  ip_publishNewEvents ::
    "(publisher_input \<Rightarrow> ('w, (domain_event \<times> platform_event) list port_result) prog) option"
  ip_uuid :: "('w, string) prog"

definition defaultProviderId :: identity where
  "defaultProviderId = ''baileys''"

section \<open>CreateInstance\<close>

text \<open>A field of \<open>safeInput\<close>: a string or another value.\<close>

datatype safe_value = Safe_string string | Safe_other

definition optionalSafeInputString :: "safe_value option \<Rightarrow> nat option \<Rightarrow> (unit + string) option" where
  "optionalSafeInputString value maxLength =
     (case value of
        None \<Rightarrow> None
      | Some Safe_other \<Rightarrow> Some (Inl ())
      | Some (Safe_string text) \<Rightarrow>
          let normalized = js_trim text
          in Some (if 0 < length normalized \<and> (\<forall>n \<in> Option.set_option maxLength. length normalized \<le> n)
                   then Inr normalized else Inl ()))"

definition new_instance :: "identity \<Rightarrow> string option \<Rightarrow> wa_instance result" where
  "new_instance i displayName =
     (case displayName of
        None \<Rightarrow> createInstance i \<lparr>im_displayName = None\<rparr>
      | Some text \<Rightarrow> result_bind (createInstanceDisplayName text) (\<lambda>name.
          createInstance i \<lparr>im_displayName = Some name\<rparr>))"

definition handle_create_instance ::
    "'w instance_ports \<Rightarrow> safe_value option \<Rightarrow> command_envelope \<Rightarrow> ('w, command_outcome) prog" where
  "handle_create_instance P displayName envelope =
     prog_bind (ip_uuid P) (\<lambda>uuid.
     prog_bind (prog_lift (createDomainIdentity (''inst:'' @ uuid) ''InstanceId'')) (\<lambda>i.
     let create = (\<lambda>name.
       prog_bind (prog_lift (new_instance i name)) (\<lambda>a.
       prog_bind (ip_save P a) (\<lambda>_.
       prog_return (commandOutcome envelope Outcome_completed True False (Some (inst_id a)) None)))) in
     case optionalSafeInputString displayName (Some 120) of
       None \<Rightarrow> create None
     | Some (Inr text) \<Rightarrow> create (Some text)
     | Some (Inl _) \<Rightarrow> prog_return (commandOutcome envelope Outcome_failed False False None
         (Some ''create_instance_display_name_invalid''))))"

section \<open>DestroyInstance\<close>

definition publishCleanupEvents ::
    "'w instance_ports \<Rightarrow> domain_event list \<Rightarrow> nat \<Rightarrow> command_envelope \<Rightarrow> string \<Rightarrow> ('w, unit) prog" where
  "publishCleanupEvents P aggregateEvents baseEventCount envelope suffix =
     (case ip_publishNewEvents P of
        None \<Rightarrow> prog_return ()
      | Some publish \<Rightarrow>
          prog_bind (publish
            \<lparr>pi_aggregateEvents = aggregateEvents, pi_baseEventCount = num_of (int baseEventCount),
             pi_executionRef = ce_commandRef envelope @ '':'' @ suffix,
             pi_context = commandContext envelope\<rparr>) (\<lambda>publishResult.
          case publishResult of
            Inl failure \<Rightarrow> prog_throw ''Error''
          | Inr _ \<Rightarrow> prog_return ()))"

text \<open>\<open>None\<close> for a session that is left as it is.\<close>

definition cleaned_session :: "session \<Rightarrow> session result option" where
  "cleaned_session s =
     (if sess_status s = Sess_empty then Some (cleanupSession s None)
      else if sess_status s = Sess_revoked \<or> sess_status s = Sess_cleanup then None
      else Some (revokeSession s))"

fun cleanup_sessions ::
    "'w instance_ports \<Rightarrow> 'w session_port \<Rightarrow> command_envelope \<Rightarrow> session list \<Rightarrow> ('w, unit) prog" where
  "cleanup_sessions P R envelope [] = prog_return ()"
| "cleanup_sessions P R envelope (s # ss) =
     (case cleaned_session s of
        None \<Rightarrow> cleanup_sessions P R envelope ss
      | Some result \<Rightarrow>
          prog_bind (prog_lift result) (\<lambda>cleaned.
          prog_bind (sp_save R cleaned) (\<lambda>_.
          prog_bind (publishCleanupEvents P (sess_domainEvents cleaned) (length (sess_domainEvents s))
            envelope (''session:'' @ sess_id cleaned)) (\<lambda>_.
          cleanup_sessions P R envelope ss))))"

definition cleanupDestroyedInstanceSessions ::
    "'w instance_ports \<Rightarrow> session list \<Rightarrow> command_envelope \<Rightarrow> ('w, unit) prog" where
  "cleanupDestroyedInstanceSessions P sessions envelope =
     (case ip_sessions P of None \<Rightarrow> prog_return () | Some R \<Rightarrow> cleanup_sessions P R envelope sessions)"

definition findDestroyedInstanceSessions :: "'w instance_ports \<Rightarrow> identity \<Rightarrow> ('w, session list) prog" where
  "findDestroyedInstanceSessions P i =
     (case ip_sessions P of None \<Rightarrow> prog_return [] | Some R \<Rightarrow> sp_findByInstance R i)"

definition shouldDisconnectProviderSession :: "session \<Rightarrow> bool" where
  "shouldDisconnectProviderSession s \<longleftrightarrow>
     sess_status s = Sess_active \<or> sess_status s = Sess_expired \<or> sess_status s = Sess_pending"

fun disconnect_sessions ::
    "(connection_request \<Rightarrow> port_context \<Rightarrow> ('w, connection_result port_result) prog) \<Rightarrow> identity \<Rightarrow>
     command_envelope \<Rightarrow> session list \<Rightarrow> ('w, unit port_result) prog" where
  "disconnect_sessions disconnect i envelope [] = prog_return (Inr ())"
| "disconnect_sessions disconnect i envelope (s # ss) =
     (if \<not> shouldDisconnectProviderSession s then disconnect_sessions disconnect i envelope ss
      else
        prog_bind (disconnect
          \<lparr>cnr_instanceId = i, cnr_providerId = defaultProviderId, cnr_sessionId = Some (sess_id s),
           cnr_intent = Intent_disconnect, cnr_reasonCode = ''instance_destroyed''\<rparr>
          (commandContext envelope)) (\<lambda>result.
        case result of
          Inl failure \<Rightarrow> prog_return (Inl failure)
        | Inr _ \<Rightarrow> disconnect_sessions disconnect i envelope ss))"

definition disconnectDestroyedInstanceProviderSessions ::
    "'w instance_ports \<Rightarrow> identity \<Rightarrow> session list \<Rightarrow> command_envelope \<Rightarrow> ('w, unit port_result) prog" where
  "disconnectDestroyedInstanceProviderSessions P i sessions envelope =
     (case ip_disconnect P of
        None \<Rightarrow> prog_return (Inr ())
      | Some disconnect \<Rightarrow> disconnect_sessions disconnect i envelope sessions)"

text \<open>The four lists are read by \<open>Promise.all\<close>; the jobs go through a \<open>Map\<close> by their id.\<close>

definition jobs_by_id :: "identity \<Rightarrow> worker_job list \<Rightarrow> worker_job list" where
  "jobs_by_id i jobs =
     map snd (fold (\<lambda>j. AList.update (job_id j) j)
       (filter (\<lambda>j. Option.bind (job_safeMetadata j) sm_instanceId = Some i) jobs) [])"

definition destroyed_job :: "worker_job \<Rightarrow> worker_job result" where
  "destroyed_job j =
     result_bind (createDeadLetterReason ''instance_destroyed'' ''worker'') (markWorkerJobDead j)"

fun cleanup_jobs ::
    "'w instance_ports \<Rightarrow> 'w job_port \<Rightarrow> command_envelope \<Rightarrow> worker_job list \<Rightarrow> ('w, unit) prog" where
  "cleanup_jobs P R envelope [] = prog_return ()"
| "cleanup_jobs P R envelope (j # js) =
     prog_bind (prog_lift (destroyed_job j)) (\<lambda>dead.
     prog_bind (jp_save R dead) (\<lambda>_.
     prog_bind (publishCleanupEvents P (job_domainEvents dead) (length (job_domainEvents j)) envelope
       (''worker-job:'' @ job_id dead)) (\<lambda>_.
     cleanup_jobs P R envelope js)))"

definition cleanupDestroyedInstanceWorkerJobs ::
    "'w instance_ports \<Rightarrow> identity \<Rightarrow> command_envelope \<Rightarrow> ('w, unit) prog" where
  "cleanupDestroyedInstanceWorkerJobs P i envelope =
     (case ip_jobs P of
        None \<Rightarrow> prog_return ()
      | Some R \<Rightarrow>
          prog_bind (prog_all (map (jp_findByStatus R) [Job_queued, Job_reserved, Job_running, Job_retrying])) (\<lambda>lists.
          cleanup_jobs P R envelope (jobs_by_id i (concat lists))))"

definition publish_destroyed ::
    "'w instance_ports \<Rightarrow> command_envelope \<Rightarrow> nat \<Rightarrow> wa_instance \<Rightarrow> ('w, command_outcome) prog" where
  "publish_destroyed P envelope baseEventCount destroyed =
     (let done = commandOutcome envelope Outcome_accepted True False (Some (inst_id destroyed)) None in
      case ip_publishNewEvents P of
        None \<Rightarrow> prog_return done
      | Some publish \<Rightarrow>
          prog_bind (publish
            \<lparr>pi_aggregateEvents = inst_domainEvents destroyed,
             pi_baseEventCount = num_of (int baseEventCount),
             pi_executionRef = ce_commandRef envelope @ '':instance'',
             pi_context = commandContext envelope\<rparr>) (\<lambda>publishResult.
          prog_return
            (case publishResult of
               Inl failure \<Rightarrow> commandOutcome envelope Outcome_failed True (pf_retryable failure)
                 (Some (inst_id destroyed)) (Some (pf_code failure))
             | Inr _ \<Rightarrow> done)))"

definition destroy_loaded ::
    "'w instance_ports \<Rightarrow> command_envelope \<Rightarrow> wa_instance \<Rightarrow> ('w, command_outcome) prog" where
  "destroy_loaded P envelope a =
     prog_bind (prog_lift (destroyInstance a)) (\<lambda>destroyed.
     prog_bind (findDestroyedInstanceSessions P (inst_id destroyed)) (\<lambda>sessions.
     prog_bind (ip_save P destroyed) (\<lambda>_.
     prog_bind (cleanupDestroyedInstanceSessions P sessions envelope) (\<lambda>_.
     prog_bind (cleanupDestroyedInstanceWorkerJobs P (inst_id destroyed) envelope) (\<lambda>_.
     prog_bind (disconnectDestroyedInstanceProviderSessions P (inst_id destroyed) sessions envelope)
       (\<lambda>disconnected.
     case disconnected of
       Inl failure \<Rightarrow> prog_return (commandOutcome envelope Outcome_failed True (pf_retryable failure)
         (Some (inst_id destroyed)) (Some (pf_code failure)))
     | Inr _ \<Rightarrow> publish_destroyed P envelope (length (inst_domainEvents a)) destroyed))))))"

definition handle_destroy_instance ::
    "'w instance_ports \<Rightarrow> command_envelope \<Rightarrow> ('w, command_outcome) prog" where
  "handle_destroy_instance P envelope =
     (case ce_targetRef envelope of
        None \<Rightarrow> prog_return (commandOutcome envelope Outcome_failed False False None
          (Some ''instance_target_required''))
      | Some target \<Rightarrow>
          prog_bind (prog_lift (createDomainIdentity target ''InstanceId'')) (\<lambda>i.
          prog_bind (ip_load P i) (\<lambda>found.
          case found of
            None \<Rightarrow> prog_return (commandOutcome envelope Outcome_failed False False None
              (Some ''instance_not_found''))
          | Some a \<Rightarrow>
              if inst_status a = Inst_destroyed
              then prog_return (commandOutcome envelope Outcome_accepted True False (Some (inst_id a)) None)
              else destroy_loaded P envelope a)))"

section \<open>The registry\<close>

text \<open>What the dispatcher may be built without.\<close>

datatype dependency =
    Dep_sessions | Dep_messages | Dep_decisions | Dep_groups | Dep_deliveries | Dep_intents
  | Dep_group_intents | Dep_queue | Dep_provider | Dep_publisher

record 'w dispatcher =
  dp_instances :: "'w instance_ports"
  dp_app :: "'w app_ports"
  dp_groups :: "'w group_ports"
  dp_hooks :: "'w retry_hook_ports"
  dp_has :: "dependency \<Rightarrow> bool"

definition handler_when ::
    "'w dispatcher \<Rightarrow> dependency list \<Rightarrow> (command_envelope \<Rightarrow> ('w, command_outcome) prog) \<Rightarrow>
     (command_envelope \<Rightarrow> ('w, command_outcome) prog) option" where
  "handler_when D deps handler = (if list_all (dp_has D) deps then Some handler else None)"

definition createSendTextMessageHandler ::
    "'w dispatcher \<Rightarrow> (command_envelope \<Rightarrow> ('w, command_outcome) prog) option" where
  "createSendTextMessageHandler D =
     handler_when D [Dep_sessions, Dep_messages, Dep_decisions, Dep_intents, Dep_queue, Dep_publisher]
       (handle_send_text (dp_app D))"

definition createRetryMessageSendHandler ::
    "'w dispatcher \<Rightarrow> (command_envelope \<Rightarrow> ('w, command_outcome) prog) option" where
  "createRetryMessageSendHandler D =
     handler_when D [Dep_sessions, Dep_messages, Dep_decisions, Dep_intents, Dep_queue, Dep_publisher]
       (handle_retry_message (dp_app D))"

definition createCancelMessageHandler ::
    "'w dispatcher \<Rightarrow> (command_envelope \<Rightarrow> ('w, command_outcome) prog) option" where
  "createCancelMessageHandler D =
     handler_when D [Dep_messages, Dep_publisher] (handle_cancel_message (dp_app D))"

definition createProcessOutboundMessageWorkHandler ::
    "'w dispatcher \<Rightarrow> (command_envelope \<Rightarrow> ('w, command_outcome) prog) option" where
  "createProcessOutboundMessageWorkHandler D =
     handler_when D [Dep_sessions, Dep_messages, Dep_intents, Dep_provider, Dep_publisher]
       (handle_process_outbound (dp_app D))"

definition createGroupMutationHandler ::
    "'w dispatcher \<Rightarrow> command_name \<Rightarrow> (command_envelope \<Rightarrow> ('w, command_outcome) prog) option" where
  "createGroupMutationHandler D commandName =
     handler_when D [Dep_groups, Dep_group_intents, Dep_publisher]
       (handle_group_mutation (dp_groups D) commandName)"

definition createRetryWebhookDeliveryHandler ::
    "'w dispatcher \<Rightarrow> (command_envelope \<Rightarrow> ('w, command_outcome) prog) option" where
  "createRetryWebhookDeliveryHandler D =
     handler_when D [Dep_deliveries, Dep_queue] (handle_retry_hook (dp_hooks D))"

text \<open>The inline input of \<open>CreateInstance\<close> is an argument of the dispatcher's entry.\<close>

definition command_handler ::
    "'w dispatcher \<Rightarrow> safe_value option \<Rightarrow> command_name \<Rightarrow>
     (command_envelope \<Rightarrow> ('w, command_outcome) prog) option" where
  "command_handler D displayName name =
     (if name = Cmd_CreateInstance then Some (handle_create_instance (dp_instances D) displayName)
      else if name = Cmd_DestroyInstance then Some (handle_destroy_instance (dp_instances D))
      else if name = Cmd_SendTextMessage then createSendTextMessageHandler D
      else if name = Cmd_RetryMessageSend then createRetryMessageSendHandler D
      else if name = Cmd_CancelMessage then createCancelMessageHandler D
      else if name = Cmd_ProcessOutboundMessageWork then createProcessOutboundMessageWorkHandler D
      else if name \<in> set groupMutationCommands then createGroupMutationHandler D name
      else if name \<in> set [Cmd_RetryWebhookDelivery, Cmd_RedriveWebhookDelivery, Cmd_BulkRedriveWebhookDeliveries]
      then createRetryWebhookDeliveryHandler D
      else None)"

text \<open>As for queries, the rejection of a handler's promise is not caught by \<open>executeCommand\<close>.\<close>

definition executeCommand ::
    "'w dispatcher \<Rightarrow> safe_value option \<Rightarrow> command_envelope \<Rightarrow> ('w, command_outcome) prog" where
  "executeCommand D displayName envelope =
     (case command_handler D displayName (ce_name envelope) of
        None \<Rightarrow> prog_return (commandOutcome envelope Outcome_failed False False None
          (Some ''application_handler_not_implemented''))
      | Some handler \<Rightarrow> handler envelope)"

end
