(* ===== verification/DispatcherWorld.thy ===== *)
theory DispatcherWorld
  imports DispatcherCommands
begin

text \<open>
  \<open>DestroyInstance\<close> over the in-memory instances and sessions, any worker-job repository that keeps
  its contract, and any provider and publisher: what it cleans up, and what a failure leaves undone.
\<close>

record ('r, 'e) platform =
  pw_instances :: "wa_instance stored"
  pw_sessions :: "session stored"
  pw_jobs :: 'r
  pw_calls :: "connection_request list"
  pw_rest :: 'e

type_synonym 'e disconnect = "connection_request \<Rightarrow> ('e, connection_result port_result) prog"
type_synonym 'e event_publish = "publisher_input \<Rightarrow> ('e, (domain_event \<times> platform_event) list port_result) prog"

definition platform_sessions :: "('r, 'e) platform session_port" where
  "platform_sessions =
     \<lparr>sp_findByInstance = (\<lambda>i w. (Inr (sessions_findByInstance i (pw_sessions w)), w)),
      sp_save = (\<lambda>s w. (Inr (), w\<lparr>pw_sessions := stored_save sess_id s (pw_sessions w)\<rparr>))\<rparr>"

definition platform_jobs :: "'r job_repository \<Rightarrow> ('r, 'e) platform job_port" where
  "platform_jobs repo =
     \<lparr>jp_findByStatus = (\<lambda>s w. (Inr (jr_findByStatus repo s (pw_jobs w)), w)),
      jp_save = (\<lambda>j w. (Inr (), w\<lparr>pw_jobs := jr_save repo j (pw_jobs w)\<rparr>))\<rparr>"

text \<open>Every request to the provider is written down before it is answered.\<close>

definition platform_disconnect ::
    "'e disconnect \<Rightarrow> connection_request \<Rightarrow> ('r, 'e) platform \<Rightarrow>
     connection_result port_result call \<times> ('r, 'e) platform" where
  "platform_disconnect disconnect request w =
     (case disconnect request (pw_rest w) of
        (x, e) \<Rightarrow> (x, w\<lparr>pw_calls := pw_calls w @ [request], pw_rest := e\<rparr>))"

definition platform_publish ::
    "'e event_publish \<Rightarrow> publisher_input \<Rightarrow> ('r, 'e) platform \<Rightarrow>
     (domain_event \<times> platform_event) list port_result call \<times> ('r, 'e) platform" where
  "platform_publish publish input w =
     (case publish input (pw_rest w) of (x, e) \<Rightarrow> (x, w\<lparr>pw_rest := e\<rparr>))"

definition platform_ports ::
    "'r job_repository \<Rightarrow> 'e disconnect \<Rightarrow> 'e event_publish \<Rightarrow> string \<Rightarrow> ('r, 'e) platform instance_ports" where
  "platform_ports repo disconnect publish uuid =
     \<lparr>ip_load = (\<lambda>i w. (Inr (stored_load i (pw_instances w)), w)),
      ip_save = (\<lambda>a w. (Inr (), w\<lparr>pw_instances := stored_save inst_id a (pw_instances w)\<rparr>)),
      ip_sessions = Some platform_sessions,
      ip_jobs = Some (platform_jobs repo),
      ip_disconnect = Some (\<lambda>request c. platform_disconnect disconnect request),
      ip_publishNewEvents = Some (platform_publish publish),
      ip_uuid = prog_return uuid\<rparr>"

lemma platform_simps [simp]:
  "sp_findByInstance platform_sessions i w = (Inr (sessions_findByInstance i (pw_sessions w)), w)"
  "sp_save platform_sessions s w = (Inr (), w\<lparr>pw_sessions := stored_save sess_id s (pw_sessions w)\<rparr>)"
  "jp_findByStatus (platform_jobs repo) t w = (Inr (jr_findByStatus repo t (pw_jobs w)), w)"
  "jp_save (platform_jobs repo) j w = (Inr (), w\<lparr>pw_jobs := jr_save repo j (pw_jobs w)\<rparr>)"
  "ip_load (platform_ports repo disconnect publish uuid) i w = (Inr (stored_load i (pw_instances w)), w)"
  "ip_save (platform_ports repo disconnect publish uuid) a w =
     (Inr (), w\<lparr>pw_instances := stored_save inst_id a (pw_instances w)\<rparr>)"
  "ip_sessions (platform_ports repo disconnect publish uuid) = Some platform_sessions"
  "ip_jobs (platform_ports repo disconnect publish uuid) = Some (platform_jobs repo)"
  "ip_disconnect (platform_ports repo disconnect publish uuid) = Some (\<lambda>request c. platform_disconnect disconnect request)"
  "ip_publishNewEvents (platform_ports repo disconnect publish uuid) = Some (platform_publish publish)"
  by (simp_all add: platform_sessions_def platform_jobs_def platform_ports_def)

definition always_publishes :: "'e event_publish \<Rightarrow> bool" where
  "always_publishes publish \<longleftrightarrow> (\<forall>input e. \<exists>x e'. publish input e = (Inr (Inr x), e'))"

definition always_disconnects :: "'e disconnect \<Rightarrow> bool" where
  "always_disconnects disconnect \<longleftrightarrow> (\<forall>request e. \<exists>x e'. disconnect request e = (Inr (Inr x), e'))"

lemma published_cleanup:
  assumes "always_publishes publish"
  shows "\<exists>e. publishCleanupEvents (platform_ports repo disconnect publish uuid) evs n envelope suffix w =
    (Inr (), w\<lparr>pw_rest := e\<rparr>)"
proof -
  let ?in = "\<lparr>pi_aggregateEvents = evs, pi_baseEventCount = num_of (int n),
    pi_executionRef = ce_commandRef envelope @ '':'' @ suffix, pi_context = commandContext envelope\<rparr>"
  obtain x e where "publish ?in (pw_rest w) = (Inr (Inr x), e)"
    using assms unfolding always_publishes_def by meson
  then show ?thesis by (auto simp: publishCleanupEvents_def platform_publish_def)
qed

section \<open>Sessions\<close>

definition closed_session :: "session \<Rightarrow> bool" where
  "closed_session s \<longleftrightarrow> sess_status s = Sess_revoked \<or> sess_status s = Sess_cleanup"

definition closing_of :: "session \<Rightarrow> session" where
  "closing_of s = (case cleaned_session s of None \<Rightarrow> s | Some r \<Rightarrow> projr r)"

lemma cleaned_session_cases:
  "cleaned_session s = None \<and> closed_session s \<or>
   cleaned_session s = Some (Inr (closing_of s)) \<and> closed_session (closing_of s) \<and>
   sess_id (closing_of s) = sess_id s \<and> sess_instanceId (closing_of s) = sess_instanceId s"
  by (cases "sess_status s")
    (auto simp: cleaned_session_def closing_of_def cleanupSession_def revokeSession_def transitionSession_def
      transitionStatus_def closed_session_def)

lemma cleanup_sessions_platform:
  assumes "always_publishes publish"
  shows "\<exists>e. cleanup_sessions (platform_ports repo disconnect publish uuid) platform_sessions envelope ss w =
    (Inr (), w\<lparr>pw_sessions := fold (stored_save sess_id)
        (map closing_of (filter (\<lambda>s. cleaned_session s \<noteq> None) ss)) (pw_sessions w), pw_rest := e\<rparr>)"
proof (induction ss arbitrary: w)
  case Nil
  show ?case by (intro exI [of _ "pw_rest w"]) simp
next
  case (Cons s ss)
  show ?case
  proof (cases "cleaned_session s")
    case None
    then show ?thesis using Cons.IH [of w] by simp
  next
    case (Some r)
    then have r: "r = Inr (closing_of s)" using cleaned_session_cases [of s] by auto
    let ?w = "w\<lparr>pw_sessions := stored_save sess_id (closing_of s) (pw_sessions w)\<rparr>"
    obtain e1 where "publishCleanupEvents (platform_ports repo disconnect publish uuid)
        (sess_domainEvents (closing_of s)) (length (sess_domainEvents s)) envelope
        (''session:'' @ sess_id (closing_of s)) ?w = (Inr (), ?w\<lparr>pw_rest := e1\<rparr>)"
      using published_cleanup [OF assms] by blast
    moreover obtain e where "cleanup_sessions (platform_ports repo disconnect publish uuid) platform_sessions
        envelope ss (?w\<lparr>pw_rest := e1\<rparr>) =
      (Inr (), (?w\<lparr>pw_rest := e1\<rparr>)\<lparr>pw_sessions := fold (stored_save sess_id)
        (map closing_of (filter (\<lambda>s. cleaned_session s \<noteq> None) ss)) (pw_sessions (?w\<lparr>pw_rest := e1\<rparr>)), pw_rest := e\<rparr>)"
      using Cons.IH by blast
    ultimately show ?thesis using Some r by auto
  qed
qed

text \<open>After the cleanup every session of the instance is closed, and the others are as they were.\<close>

definition sessions_closed :: "identity \<Rightarrow> session stored \<Rightarrow> session stored \<Rightarrow> bool" where
  "sessions_closed i r r' \<longleftrightarrow>
     (\<forall>k s. stored_load k r' = Some s \<longrightarrow>
        (if sess_instanceId s = i then closed_session s else stored_load k r = Some s)) \<and>
     (\<forall>k. stored_load k r' = None \<longleftrightarrow> stored_load k r = None)"

lemma cleaned_sessions_closed:
  assumes ok: "stored_ok sess_id r"
  shows "sessions_closed i r (fold (stored_save sess_id)
    (map closing_of (filter (\<lambda>s. cleaned_session s \<noteq> None) (sessions_findByInstance i r))) r)"
proof -
  let ?as = "map closing_of (filter (\<lambda>s. cleaned_session s \<noteq> None) (sessions_findByInstance i r))"
  let ?r = "fold (stored_save sess_id) ?as r"
  have found: "s \<in> set (sessions_findByInstance i r) \<longleftrightarrow> stored_load (sess_id s) r = Some s \<and> sess_instanceId s = i" for s
    unfolding sessions_findByInstance_def by (rule findAll_iff [OF ok])
  have load: "stored_load k ?r =
      (case List.find (\<lambda>a. sess_id a = k) (rev ?as) of None \<Rightarrow> stored_load k r | Some a \<Rightarrow> Some a)" for k
    by (rule stored.load_saves [OF ok])
  have written: "closed_session a \<and> sess_instanceId a = i \<and> (\<exists>s. stored_load (sess_id a) r = Some s)"
    if "a \<in> set ?as" for a
  proof -
    note member = that
    obtain s where s: "a = closing_of s" "cleaned_session s \<noteq> None" "stored_load (sess_id s) r = Some s"
        "sess_instanceId s = i"
      using member by (auto simp: found)
    then show ?thesis using cleaned_session_cases [of s] by auto
  qed
  show ?thesis
    unfolding sessions_closed_def
  proof (intro conjI allI impI)
    fix k s
    assume s: "stored_load k ?r = Some s"
    show "if sess_instanceId s = i then closed_session s else stored_load k r = Some s"
    proof (cases "List.find (\<lambda>a. sess_id a = k) (rev ?as)")
      case None
      then have old: "stored_load k r = Some s" using s load by simp
      have "closed_session s" if "sess_instanceId s = i"
      proof (rule ccontr)
        assume open_s: "\<not> closed_session s"
        have id: "sess_id s = k" by (rule stored.load_ident [OF ok old])
        have "closing_of s \<in> set ?as" "sess_id (closing_of s) = k"
          using cleaned_session_cases [of s] open_s old id that by (auto simp: found)
        then show False using None by (auto simp: find_None_iff)
      qed
      then show ?thesis using old by simp
    next
      case (Some a)
      then have "a \<in> set ?as" "a = s" using s load by (auto dest!: find_SomeD)
      then show ?thesis using written by auto
    qed
  next
    fix k
    show "(stored_load k ?r = None) = (stored_load k r = None)"
    proof (cases "List.find (\<lambda>a. sess_id a = k) (rev ?as)")
      case (Some a)
      then have "a \<in> set ?as" "sess_id a = k" by (auto dest!: find_SomeD)
      then show ?thesis using written Some load by fastforce
    next
      case None
      show ?thesis unfolding load None by simp
    qed
  qed
qed

section \<open>The provider\<close>

definition disconnect_request :: "identity \<Rightarrow> session \<Rightarrow> connection_request" where
  "disconnect_request i s =
     \<lparr>cnr_instanceId = i, cnr_providerId = defaultProviderId, cnr_sessionId = Some (sess_id s),
      cnr_intent = Intent_disconnect, cnr_reasonCode = ''instance_destroyed''\<rparr>"

lemma disconnect_sessions_platform:
  assumes "always_disconnects disconnect"
  shows "\<exists>e. disconnect_sessions (\<lambda>request c. platform_disconnect disconnect request) i envelope ss w =
    (Inr (Inr ()), w\<lparr>pw_calls := pw_calls w @ map (disconnect_request i) (filter shouldDisconnectProviderSession ss),
       pw_rest := e\<rparr>)"
proof (induction ss arbitrary: w)
  case Nil
  show ?case by (intro exI [of _ "pw_rest w"]) simp
next
  case (Cons s ss)
  show ?case
  proof (cases "shouldDisconnectProviderSession s")
    case False
    then show ?thesis using Cons.IH [of w] by simp
  next
    case True
    obtain x e1 where "disconnect (disconnect_request i s) (pw_rest w) = (Inr (Inr x), e1)"
      using assms unfolding always_disconnects_def by meson
    then have "platform_disconnect disconnect (disconnect_request i s) w =
        (Inr (Inr x), w\<lparr>pw_calls := pw_calls w @ [disconnect_request i s], pw_rest := e1\<rparr>)"
      by (simp add: platform_disconnect_def)
    moreover obtain e where "disconnect_sessions (\<lambda>request c. platform_disconnect disconnect request) i envelope ss
        (w\<lparr>pw_calls := pw_calls w @ [disconnect_request i s], pw_rest := e1\<rparr>) =
      (Inr (Inr ()), w\<lparr>pw_calls := pw_calls w @ [disconnect_request i s] @
        map (disconnect_request i) (filter shouldDisconnectProviderSession ss), pw_rest := e\<rparr>)"
      using Cons.IH [of "w\<lparr>pw_calls := pw_calls w @ [disconnect_request i s], pw_rest := e1\<rparr>"] by auto
    ultimately show ?thesis using True by (auto simp: disconnect_request_def [symmetric])
  qed
qed

text \<open>A provider that refuses the first session it is asked to disconnect.\<close>

lemma disconnect_refused_platform:
  assumes "List.find shouldDisconnectProviderSession ss = Some s"
    and "disconnect (disconnect_request i s) (pw_rest w) = (Inr (Inl failure), e)"
  shows "disconnect_sessions (\<lambda>request c. platform_disconnect disconnect request) i envelope ss w =
    (Inr (Inl failure), w\<lparr>pw_calls := pw_calls w @ [disconnect_request i s], pw_rest := e\<rparr>)"
  using assms
proof (induction ss)
  case (Cons a ss)
  show ?case
  proof (cases "shouldDisconnectProviderSession a")
    case True
    then have "a = s" using Cons.prems by simp
    then show ?thesis
      using True Cons.prems(2) by (simp add: platform_disconnect_def disconnect_request_def)
  next
    case False
    then show ?thesis using Cons by simp
  qed
qed simp

section \<open>Jobs\<close>

lemma fold_update_map_of:
  "map_of (fold (\<lambda>j. AList.update (f j) j) xs al) k =
     (case List.find (\<lambda>j. f j = k) (rev xs) of None \<Rightarrow> map_of al k | Some j \<Rightarrow> Some j)"
  by (induction xs rule: rev_induct) (auto simp: update_conv')

lemma fold_update_distinct:
  "distinct (map fst al) \<Longrightarrow> distinct (map fst (fold (\<lambda>j. AList.update (f j) j) xs al))"
  by (induction xs arbitrary: al) (simp_all add: distinct_update)

text \<open>A \<open>Map\<close> over jobs that agree when their ids do holds each of them.\<close>

lemma jobs_by_id_set:
  assumes "\<And>a b. a \<in> set jobs \<Longrightarrow> b \<in> set jobs \<Longrightarrow> job_id a = job_id b \<Longrightarrow> a = b"
  shows "set (jobs_by_id i jobs) = {j \<in> set jobs. Option.bind (job_safeMetadata j) sm_instanceId = Some i}"
proof -
  let ?xs = "filter (\<lambda>j. Option.bind (job_safeMetadata j) sm_instanceId = Some i) jobs"
  let ?al = "fold (\<lambda>j. AList.update (job_id j) j) ?xs []"
  have "distinct (map fst ?al)" by (rule fold_update_distinct) simp
  then have "j \<in> set (map snd ?al) \<longleftrightarrow> (\<exists>k. map_of ?al k = Some j)" for j by force
  moreover have "map_of ?al k = Some j \<longleftrightarrow> j \<in> set ?xs \<and> job_id j = k" for j k
  proof
    assume "map_of ?al k = Some j"
    then show "j \<in> set ?xs \<and> job_id j = k"
      by (auto simp: fold_update_map_of dest!: find_SomeD split: option.splits)
  next
    assume j: "j \<in> set ?xs \<and> job_id j = k"
    then obtain a where a: "List.find (\<lambda>j. job_id j = k) (rev ?xs) = Some a"
      by (cases "List.find (\<lambda>j. job_id j = k) (rev ?xs)") (auto simp: find_None_iff)
    then have "a \<in> set ?xs" "job_id a = k" by (auto dest!: find_SomeD)
    then have "a = j" using j assms by auto
    then show "map_of ?al k = Some j" using a by (simp add: fold_update_map_of)
  qed
  ultimately have "j \<in> set (map snd ?al) \<longleftrightarrow> j \<in> set ?xs" for j by blast
  then show ?thesis by (auto simp: jobs_by_id_def)
qed

definition live_job :: "worker_job \<Rightarrow> bool" where
  "live_job j \<longleftrightarrow> job_status j \<in> set [Job_queued, Job_reserved, Job_running, Job_retrying]"

definition dead_of :: "worker_job \<Rightarrow> worker_job" where
  "dead_of j = projr (destroyed_job j)"

lemma destroyed_code: "createDeadLetterReason ''instance_destroyed'' ''worker'' =
    Inr \<lparr>dlr_code = ''instance_destroyed'', dlr_category = Fail_worker\<rparr>"
  by code_simp

lemma destroyed_live:
  assumes "live_job j"
  shows "destroyed_job j = Inr (dead_of j)" "job_id (dead_of j) = job_id j" "job_status (dead_of j) = Job_dead"
    "job_safeMetadata (dead_of j) = job_safeMetadata j"
  using assms
  by (auto simp: live_job_def destroyed_job_def dead_of_def destroyed_code markWorkerJobDead_def
      transitionWorkerJob_def transitionStatus_def)

lemma prog_all_reads: "(\<And>x. x \<in> set xs \<Longrightarrow> f x w = (Inr (g x), w)) \<Longrightarrow> prog_all (map f xs) w = (Inr (map g xs), w)"
  by (induction xs) auto

text \<open>After the cleanup no job of the instance is live, and the others are as they were.\<close>

definition jobs_buried ::
    "'r job_repository \<Rightarrow> identity \<Rightarrow> 'r \<Rightarrow> 'r \<Rightarrow> bool" where
  "jobs_buried repo i r r' \<longleftrightarrow>
     (\<forall>k j. jr_load repo k r' = Some j \<longrightarrow>
        (if Option.bind (job_safeMetadata j) sm_instanceId = Some i then \<not> live_job j
         else jr_load repo k r = Some j)) \<and>
     (\<forall>k. jr_load repo k r' = None \<longleftrightarrow> jr_load repo k r = None)"

context worker_job_repository
begin

lemma saves_inv: "inv r \<Longrightarrow> inv (fold (jr_save repo) js r)"
  by (induction js arbitrary: r) (simp_all add: save_inv)

lemma load_saves:
  "inv r \<Longrightarrow> jr_load repo k (fold (jr_save repo) js r) =
     (case List.find (\<lambda>j. job_id j = k) (rev js) of None \<Rightarrow> jr_load repo k r | Some j \<Rightarrow> Some j)"
proof (induction js rule: rev_induct)
  case (snoc j js)
  then show ?case by (simp add: load_save saves_inv)
qed simp

lemma cleanup_jobs_platform:
  assumes "always_publishes publish" "list_all live_job js"
  shows "\<exists>e. cleanup_jobs (platform_ports repo disconnect publish uuid) (platform_jobs repo) envelope js w =
    (Inr (), w\<lparr>pw_jobs := fold (jr_save repo) (map dead_of js) (pw_jobs w), pw_rest := e\<rparr>)"
  using assms(2)
proof (induction js arbitrary: w)
  case Nil
  show ?case by (intro exI [of _ "pw_rest w"]) simp
next
  case (Cons j js)
  have j: "destroyed_job j = Inr (dead_of j)" using Cons.prems destroyed_live by simp
  let ?w = "w\<lparr>pw_jobs := jr_save repo (dead_of j) (pw_jobs w)\<rparr>"
  obtain e1 where "publishCleanupEvents (platform_ports repo disconnect publish uuid)
      (job_domainEvents (dead_of j)) (length (job_domainEvents j)) envelope
      (''worker-job:'' @ job_id (dead_of j)) ?w = (Inr (), ?w\<lparr>pw_rest := e1\<rparr>)"
    using published_cleanup [OF assms(1)] by blast
  moreover obtain e where "cleanup_jobs (platform_ports repo disconnect publish uuid) (platform_jobs repo)
      envelope js (?w\<lparr>pw_rest := e1\<rparr>) =
    (Inr (), (?w\<lparr>pw_rest := e1\<rparr>)\<lparr>pw_jobs := fold (jr_save repo) (map dead_of js) (pw_jobs (?w\<lparr>pw_rest := e1\<rparr>)),
       pw_rest := e\<rparr>)"
    using Cons.IH [of "?w\<lparr>pw_rest := e1\<rparr>"] Cons.prems by auto
  ultimately show ?case using j by auto
qed

lemma cleaned_jobs_buried:
  assumes r: "inv r"
    and js: "set js = {j. (\<exists>k. jr_load repo k r = Some j) \<and> live_job j \<and>
      Option.bind (job_safeMetadata j) sm_instanceId = Some i}"
  shows "jobs_buried repo i r (fold (jr_save repo) (map dead_of js) r)"
proof -
  let ?r = "fold (jr_save repo) (map dead_of js) r"
  have load: "jr_load repo k ?r = (case List.find (\<lambda>j. job_id j = k) (rev (map dead_of js)) of
      None \<Rightarrow> jr_load repo k r | Some j \<Rightarrow> Some j)" for k
    by (rule load_saves [OF r])
  have written: "\<not> live_job a \<and> Option.bind (job_safeMetadata a) sm_instanceId = Some i \<and>
      jr_load repo (job_id a) r \<noteq> None" if "a \<in> dead_of ` set js" for a
  proof -
    obtain j k where j: "a = dead_of j" "jr_load repo k r = Some j" "live_job j"
        "Option.bind (job_safeMetadata j) sm_instanceId = Some i"
      using \<open>a \<in> dead_of ` set js\<close> js by auto
    then show ?thesis using destroyed_live [OF j(3)] load_id [OF r j(2)] by (auto simp: live_job_def)
  qed
  show ?thesis
    unfolding jobs_buried_def
  proof (intro conjI allI impI)
    fix k j
    assume j: "jr_load repo k ?r = Some j"
    show "if Option.bind (job_safeMetadata j) sm_instanceId = Some i then \<not> live_job j
      else jr_load repo k r = Some j"
    proof (cases "List.find (\<lambda>j. job_id j = k) (rev (map dead_of js))")
      case None
      then have old: "jr_load repo k r = Some j" using j load by simp
      have "\<not> live_job j" if "Option.bind (job_safeMetadata j) sm_instanceId = Some i"
      proof
        assume "live_job j"
        then have "j \<in> set js" using js old that by auto
        moreover have "job_id (dead_of j) = k"
          using destroyed_live(2) [OF \<open>live_job j\<close>] load_id [OF r old] by simp
        ultimately show False using None by (auto simp: find_None_iff)
      qed
      then show ?thesis using old by simp
    next
      case (Some a)
      then have "a \<in> dead_of ` set js" "a = j" using j load by (auto dest!: find_SomeD)
      then show ?thesis using written by auto
    qed
  next
    fix k
    show "(jr_load repo k ?r = None) = (jr_load repo k r = None)"
    proof (cases "List.find (\<lambda>j. job_id j = k) (rev (map dead_of js))")
      case None
      show ?thesis unfolding load None by simp
    next
      case (Some a)
      then have "a \<in> dead_of ` set js" "job_id a = k" by (auto dest!: find_SomeD)
      then show ?thesis using written Some load by fastforce
    qed
  qed
qed

lemma live_jobs_found:
  assumes r: "inv r"
  shows "set (jobs_by_id i (concat (map (\<lambda>s. jr_findByStatus repo s r)
      [Job_queued, Job_reserved, Job_running, Job_retrying]))) =
    {j. (\<exists>k. jr_load repo k r = Some j) \<and> live_job j \<and>
      Option.bind (job_safeMetadata j) sm_instanceId = Some i}"
proof -
  have "set (concat (map (\<lambda>s. jr_findByStatus repo s r) [Job_queued, Job_reserved, Job_running, Job_retrying])) =
      {j. jr_load repo (job_id j) r = Some j \<and> live_job j}"
    by (auto simp: find_status [OF r] live_job_def)
  moreover have "(\<exists>k. jr_load repo k r = Some j) \<longleftrightarrow> jr_load repo (job_id j) r = Some j" for j
    using load_id [OF r] by blast
  ultimately show ?thesis by (subst jobs_by_id_set) auto
qed

lemma cleanup_worker_jobs_platform:
  assumes "always_publishes publish" "inv (pw_jobs w)"
  shows "\<exists>r e. cleanupDestroyedInstanceWorkerJobs (platform_ports repo disconnect publish uuid) i envelope w =
    (Inr (), w\<lparr>pw_jobs := r, pw_rest := e\<rparr>) \<and> jobs_buried repo i (pw_jobs w) r"
proof -
  let ?statuses = "[Job_queued, Job_reserved, Job_running, Job_retrying]"
  let ?js = "jobs_by_id i (concat (map (\<lambda>s. jr_findByStatus repo s (pw_jobs w)) ?statuses))"
  note js = live_jobs_found [OF assms(2), of i]
  have "prog_all (map (jp_findByStatus (platform_jobs repo)) ?statuses) w =
      (Inr (map (\<lambda>s. jr_findByStatus repo s (pw_jobs w)) ?statuses), w)"
    by (rule prog_all_reads) simp
  moreover have "list_all live_job ?js" using js by (auto simp: list_all_iff)
  then obtain e where "cleanup_jobs (platform_ports repo disconnect publish uuid) (platform_jobs repo) envelope ?js w =
      (Inr (), w\<lparr>pw_jobs := fold (jr_save repo) (map dead_of ?js) (pw_jobs w), pw_rest := e\<rparr>)"
    using cleanup_jobs_platform [OF assms(1)] by blast
  moreover have "jobs_buried repo i (pw_jobs w) (fold (jr_save repo) (map dead_of ?js) (pw_jobs w))"
    by (rule cleaned_jobs_buried [OF assms(2) js])
  ultimately show ?thesis by (auto simp: cleanupDestroyedInstanceWorkerJobs_def)
qed

end

section \<open>The handler\<close>

definition destroyed_of :: "wa_instance \<Rightarrow> wa_instance" where
  "destroyed_of a = projr (destroyInstance a)"

lemma destroyed_of:
  "inst_status a \<noteq> Inst_destroyed \<Longrightarrow> destroyInstance a = Inr (destroyed_of a) \<and>
     inst_id (destroyed_of a) = inst_id a \<and> inst_status (destroyed_of a) = Inst_destroyed"
  by (cases "inst_status a")
    (auto simp: destroyed_of_def destroyInstance_def transitionInstance_def transitionStatus_def freezeInstance_def
      result_simps)

text \<open>What the cleanup leaves: the instance destroyed, its sessions closed, its jobs dead.\<close>

definition cleaned_up ::
    "'r job_repository \<Rightarrow> wa_instance \<Rightarrow> ('r, 'e) platform \<Rightarrow> ('r, 'e) platform \<Rightarrow> bool" where
  "cleaned_up repo a w w' \<longleftrightarrow>
     pw_instances w' = stored_save inst_id (destroyed_of a) (pw_instances w) \<and>
     sessions_closed (inst_id a) (pw_sessions w) (pw_sessions w') \<and>
     jobs_buried repo (inst_id a) (pw_jobs w) (pw_jobs w')"

context worker_job_repository
begin

lemma destroy_cleaned:
  assumes pub: "always_publishes publish" and ok: "stored_ok sess_id (pw_sessions w)" "inv (pw_jobs w)"
    and a: "inst_status a \<noteq> Inst_destroyed"
  shows "\<exists>w1. cleaned_up repo a w w1 \<and> pw_calls w1 = pw_calls w \<and>
     destroy_loaded (platform_ports repo disconnect publish uuid) envelope a w =
       prog_bind (disconnectDestroyedInstanceProviderSessions (platform_ports repo disconnect publish uuid)
           (inst_id a) (sessions_findByInstance (inst_id a) (pw_sessions w)) envelope) (\<lambda>disconnected.
         case disconnected of
           Inl failure \<Rightarrow> prog_return (commandOutcome envelope Outcome_failed True (pf_retryable failure)
             (Some (inst_id a)) (Some (pf_code failure)))
         | Inr _ \<Rightarrow> publish_destroyed (platform_ports repo disconnect publish uuid) envelope
             (length (inst_domainEvents a)) (destroyed_of a)) w1"
proof -
  let ?P = "platform_ports repo disconnect publish uuid"
  let ?ss = "sessions_findByInstance (inst_id a) (pw_sessions w)"
  let ?w = "w\<lparr>pw_instances := stored_save inst_id (destroyed_of a) (pw_instances w)\<rparr>"
  note d = destroyed_of [OF a]
  obtain e1 where e1: "cleanup_sessions ?P platform_sessions envelope ?ss ?w =
      (Inr (), ?w\<lparr>pw_sessions := fold (stored_save sess_id)
        (map closing_of (filter (\<lambda>s. cleaned_session s \<noteq> None) ?ss)) (pw_sessions ?w), pw_rest := e1\<rparr>)"
    (is "_ = (Inr (), ?w2)")
    using cleanup_sessions_platform [OF pub] by blast
  have closed: "sessions_closed (inst_id a) (pw_sessions w) (pw_sessions ?w2)"
    using cleaned_sessions_closed [OF ok(1)] by simp
  have "inv (pw_jobs ?w2)" using ok(2) by simp
  from cleanup_worker_jobs_platform [OF pub this] obtain r e where
    jobs: "cleanupDestroyedInstanceWorkerJobs ?P (inst_id a) envelope ?w2 =
        (Inr (), ?w2\<lparr>pw_jobs := r, pw_rest := e\<rparr>)" "jobs_buried repo (inst_id a) (pw_jobs ?w2) r"
    by blast
  let ?w3 = "?w2\<lparr>pw_jobs := r, pw_rest := e\<rparr>"
  have "cleaned_up repo a w ?w3" using closed jobs(2) by (simp add: cleaned_up_def)
  moreover have "destroy_loaded ?P envelope a w =
      prog_bind (disconnectDestroyedInstanceProviderSessions ?P (inst_id a) ?ss envelope) (\<lambda>disconnected.
         case disconnected of
           Inl failure \<Rightarrow> prog_return (commandOutcome envelope Outcome_failed True (pf_retryable failure)
             (Some (inst_id a)) (Some (pf_code failure)))
         | Inr _ \<Rightarrow> publish_destroyed ?P envelope (length (inst_domainEvents a)) (destroyed_of a)) ?w3"
    using d e1 jobs(1)
    by (simp add: destroy_loaded_def findDestroyedInstanceSessions_def cleanupDestroyedInstanceSessions_def)
  ultimately show ?thesis by (intro exI [of _ ?w3]) simp
qed

text \<open>A provider and a publisher that do what they are asked.\<close>

lemma destroy_complete:
  assumes pub: "always_publishes publish" and dis: "always_disconnects disconnect"
    and ok: "stored_ok sess_id (pw_sessions w)" "inv (pw_jobs w)" and a: "inst_status a \<noteq> Inst_destroyed"
  shows "\<exists>w'. destroy_loaded (platform_ports repo disconnect publish uuid) envelope a w =
       (Inr (commandOutcome envelope Outcome_accepted True False (Some (inst_id a)) None), w') \<and>
     cleaned_up repo a w w' \<and>
     pw_calls w' = pw_calls w @ map (disconnect_request (inst_id a))
       (filter shouldDisconnectProviderSession (sessions_findByInstance (inst_id a) (pw_sessions w)))"
proof -
  let ?P = "platform_ports repo disconnect publish uuid"
  let ?ss = "sessions_findByInstance (inst_id a) (pw_sessions w)"
  from destroy_cleaned [OF pub ok a, of disconnect uuid envelope] obtain w1 where
    w1: "cleaned_up repo a w w1" "pw_calls w1 = pw_calls w"
      "destroy_loaded ?P envelope a w = prog_bind (disconnectDestroyedInstanceProviderSessions ?P
           (inst_id a) ?ss envelope) (\<lambda>disconnected.
         case disconnected of
           Inl failure \<Rightarrow> prog_return (commandOutcome envelope Outcome_failed True (pf_retryable failure)
             (Some (inst_id a)) (Some (pf_code failure)))
         | Inr _ \<Rightarrow> publish_destroyed ?P envelope (length (inst_domainEvents a)) (destroyed_of a)) w1"
    by blast
  let ?calls = "pw_calls w1 @ map (disconnect_request (inst_id a)) (filter shouldDisconnectProviderSession ?ss)"
  obtain e where e: "disconnect_sessions (\<lambda>request c. platform_disconnect disconnect request) (inst_id a)
      envelope ?ss w1 = (Inr (Inr ()), w1\<lparr>pw_calls := ?calls, pw_rest := e\<rparr>)"
    using disconnect_sessions_platform [OF dis] by blast
  let ?in = "\<lparr>pi_aggregateEvents = inst_domainEvents (destroyed_of a),
    pi_baseEventCount = num_of (int (length (inst_domainEvents a))),
    pi_executionRef = ce_commandRef envelope @ '':instance'', pi_context = commandContext envelope\<rparr>"
  obtain x e' where x: "publish ?in e = (Inr (Inr x), e')"
    using pub unfolding always_publishes_def by meson
  have "destroy_loaded ?P envelope a w =
      (Inr (commandOutcome envelope Outcome_accepted True False (Some (inst_id a)) None),
       w1\<lparr>pw_calls := ?calls, pw_rest := e'\<rparr>)"
    using w1(3) e x destroyed_of [OF a]
    by (simp add: disconnectDestroyedInstanceProviderSessions_def publish_destroyed_def platform_publish_def Let_def)
  moreover have "cleaned_up repo a w (w1\<lparr>pw_calls := ?calls, pw_rest := e'\<rparr>)"
    using w1(1) by (simp add: cleaned_up_def)
  ultimately show ?thesis using w1(2) by auto
qed

text \<open>A provider that refuses a disconnection.\<close>

lemma destroy_refused:
  assumes pub: "always_publishes publish"
    and ok: "stored_ok sess_id (pw_sessions w)" "inv (pw_jobs w)" and a: "inst_status a \<noteq> Inst_destroyed"
    and s: "List.find shouldDisconnectProviderSession (sessions_findByInstance (inst_id a) (pw_sessions w)) = Some s"
    and refused: "\<And>e. \<exists>e'. disconnect (disconnect_request (inst_id a) s) e = (Inr (Inl failure), e')"
  shows "\<exists>w'. destroy_loaded (platform_ports repo disconnect publish uuid) envelope a w =
       (Inr (commandOutcome envelope Outcome_failed True (pf_retryable failure) (Some (inst_id a))
          (Some (pf_code failure))), w') \<and>
     cleaned_up repo a w w' \<and> pw_calls w' = pw_calls w @ [disconnect_request (inst_id a) s]"
proof -
  let ?P = "platform_ports repo disconnect publish uuid"
  let ?ss = "sessions_findByInstance (inst_id a) (pw_sessions w)"
  from destroy_cleaned [OF pub ok a, of disconnect uuid envelope] obtain w1 where
    w1: "cleaned_up repo a w w1" "pw_calls w1 = pw_calls w"
      "destroy_loaded ?P envelope a w = prog_bind (disconnectDestroyedInstanceProviderSessions ?P
           (inst_id a) ?ss envelope) (\<lambda>disconnected.
         case disconnected of
           Inl failure \<Rightarrow> prog_return (commandOutcome envelope Outcome_failed True (pf_retryable failure)
             (Some (inst_id a)) (Some (pf_code failure)))
         | Inr _ \<Rightarrow> publish_destroyed ?P envelope (length (inst_domainEvents a)) (destroyed_of a)) w1"
    by blast
  obtain e' where "disconnect (disconnect_request (inst_id a) s) (pw_rest w1) = (Inr (Inl failure), e')"
    using refused by blast
  from disconnect_refused_platform [where disconnect = disconnect, OF s this] have "destroy_loaded ?P envelope a w =
      (Inr (commandOutcome envelope Outcome_failed True (pf_retryable failure) (Some (inst_id a))
          (Some (pf_code failure))),
       w1\<lparr>pw_calls := pw_calls w1 @ [disconnect_request (inst_id a) s], pw_rest := e'\<rparr>)"
    using w1(3) by (simp add: disconnectDestroyedInstanceProviderSessions_def)
  then show ?thesis using w1(1,2) by (auto simp: cleaned_up_def)
qed

end

lemma destroyed_answered:
  assumes "ce_targetRef envelope = Some target" "createDomainIdentity target ''InstanceId'' = Inr i"
    and "stored_load i (pw_instances w) = Some a" "inst_status a = Inst_destroyed"
  shows "handle_destroy_instance (platform_ports repo disconnect publish uuid) envelope w =
    (Inr (commandOutcome envelope Outcome_accepted True False (Some (inst_id a)) None), w)"
  using assms by (simp add: handle_destroy_instance_def)

end
