(* ===== verification/QueryWorld.thy ===== *)
theory QueryWorld
  imports DispatcherQueries MemoryRepositories JobRepositories "HOL-Library.Multiset"
begin

text \<open>
  The queries of the dispatcher over the in-memory repositories and the event log: they leave every
  repository as it is, and a listing that collects the aggregates status by status has each stored
  aggregate exactly once.
\<close>

record query_world =
  qs_instances :: "wa_instance stored"
  qs_sessions :: "session stored"
  qs_messages :: message_store
  qs_chats :: "chat stored"
  qs_contacts :: "contact stored"
  qs_groups :: "wa_group stored"
  qs_health :: "health_status stored"
  qs_jobs :: mem_jobs
  qs_subscriptions :: subscription_store
  qs_deliveries :: delivery_store
  qs_log :: "unit log_store"
  qs_now :: int

definition reading :: "('w \<Rightarrow> 'a) \<Rightarrow> ('w, 'a) prog" where
  "reading f w = (Inr (f w), w)"

text \<open>The in-memory message, job, subscription and delivery repositories have no \<open>findByInstance\<close>.\<close>

definition world_queries :: "string \<Rightarrow> query_world query_ports" where
  "world_queries healthSubjectRef =
     \<lparr>qy_instances_load = (\<lambda>i. reading (\<lambda>w. stored_load i (qs_instances w))),
      qy_findNonTerminal = reading (\<lambda>w. findNonTerminal (qs_instances w)),
      qy_sessions = Some (\<lambda>i. reading (\<lambda>w. sessions_findByInstance i (qs_sessions w))),
      qy_messages = Some
        \<lparr>rd_load = (\<lambda>i. reading (\<lambda>w. messages_load i (qs_messages w))),
         rd_findByInstance = (\<lambda>i. prog_throw ''TypeError''),
         rd_findByStatus = (\<lambda>s. reading (\<lambda>w. messages_findByStatus s (qs_messages w)))\<rparr>,
      qy_chats = Some
        \<lparr>rd_load = (\<lambda>i. reading (\<lambda>w. stored_load i (qs_chats w))),
         rd_findByInstance = (\<lambda>i. reading (\<lambda>w. chats_findByInstance i (qs_chats w))),
         rd_findByStatus = (\<lambda>s. reading (\<lambda>w. chats_findByStatus s (qs_chats w)))\<rparr>,
      qy_contacts = Some
        \<lparr>rd_load = (\<lambda>i. reading (\<lambda>w. stored_load i (qs_contacts w))),
         rd_findByInstance = (\<lambda>i. reading (\<lambda>w. contacts_findByInstance i (qs_contacts w))),
         rd_findByStatus = (\<lambda>s. reading (\<lambda>w. contacts_findByStatus s (qs_contacts w)))\<rparr>,
      qy_groups = Some
        \<lparr>rd_load = (\<lambda>i. reading (\<lambda>w. stored_load i (qs_groups w))),
         rd_findByInstance = (\<lambda>i. reading (\<lambda>w. groups_findByInstance i (qs_groups w))),
         rd_findByStatus = (\<lambda>s. reading (\<lambda>w. groups_findByStatus s (qs_groups w)))\<rparr>,
      qy_health = Some (\<lambda>ref. reading (\<lambda>w. findBySubject ref (qs_health w))),
      qy_jobs = Some
        \<lparr>rd_load = (\<lambda>i. reading (\<lambda>w. mem_load i (qs_jobs w))),
         rd_findByInstance = (\<lambda>i. prog_throw ''TypeError''),
         rd_findByStatus = (\<lambda>s. reading (\<lambda>w. mem_findByStatus s (qs_jobs w)))\<rparr>,
      qy_subscriptions = Some
        \<lparr>rd_load = (\<lambda>i. reading (\<lambda>w. stored_load i (sst_records (qs_subscriptions w)))),
         rd_findByInstance = (\<lambda>i. prog_throw ''TypeError''),
         rd_findByStatus = (\<lambda>s. reading (\<lambda>w. subscriptions_findByStatus s (qs_subscriptions w)))\<rparr>,
      qy_deliveries = Some
        \<lparr>rd_load = (\<lambda>i. reading (\<lambda>w. stored_load i (dst_records (qs_deliveries w)))),
         rd_findByInstance = (\<lambda>i. prog_throw ''TypeError''),
         rd_findByStatus = (\<lambda>s. reading (\<lambda>w. deliveries_findByStatus s (qs_deliveries w)))\<rparr>,
      qy_replayEvents = Some (\<lambda>request. reading (\<lambda>w. replayEvents request (qs_log w))),
      qy_now = qs_now,
      qy_healthSubjectRef = healthSubjectRef\<rparr>"

section \<open>Reading only\<close>

definition read_only :: "('w, 'a) prog \<Rightarrow> bool" where
  "read_only m \<longleftrightarrow> (\<forall>w. snd (m w) = w)"

named_theorems read_only_rules

lemma read_only_basic [read_only_rules]:
  "read_only (reading f)" "read_only (prog_return x)" "read_only (prog_throw c)" "read_only (prog_lift r)"
  "read_only (queryOutcome P envelope a answer)"
  by (auto simp: read_only_def reading_def prog_lift_def queryOutcome_def split: sum.split)

lemma read_only_bind [read_only_rules]:
  assumes "read_only m" "\<And>x. read_only (f x)"
  shows "read_only (prog_bind m f)"
  unfolding read_only_def
proof
  fix w
  have "snd (m w) = w" using assms(1) by (simp add: read_only_def)
  then show "snd (prog_bind m f w) = w"
    using assms(2) by (cases "m w"; cases "fst (m w)") (auto simp: prog_bind_def read_only_def)
qed

lemma read_only_all:
  assumes "\<And>p. p \<in> set ps \<Longrightarrow> read_only p"
  shows "read_only (prog_all ps)"
  unfolding read_only_def
proof
  fix w
  show "snd (prog_all ps w) = w"
    using assms
  proof (induction ps)
    case (Cons p ps)
    have "snd (p w) = w" "snd (prog_all ps w) = w" using Cons by (auto simp: read_only_def)
    then show ?case by (simp add: case_prod_beta)
  qed simp
qed

lemma read_only_by_status [read_only_rules]:
  "(\<And>s. read_only (rd_findByStatus R s)) \<Longrightarrow> read_only (by_status R statuses)"
  unfolding by_status_def
  by (rule read_only_bind, rule read_only_all) (auto simp: read_only_basic)

lemma read_only_steps [read_only_rules]:
  "(\<And>r. repository = Some r \<Longrightarrow> read_only (k r)) \<Longrightarrow> read_only (when_configured P envelope repository code k)"
  "(\<And>t. read_only (k' t)) \<Longrightarrow> read_only (when_targeted P envelope code k')"
  "read_only (list_outcome P envelope prefix items)"
  "read_only (status_outcome P envelope kind target found)"
  unfolding when_configured_def when_targeted_def list_outcome_def status_outcome_def
  by (auto intro: read_only_rules split: option.split)

lemma read_only_find_target [read_only_rules]:
  "(\<And>i. read_only (load i)) \<Longrightarrow> read_only (find_target P envelope code kind label load describe)"
  unfolding find_target_def by (intro read_only_rules)

lemma world_queries_sel [simp]:
  "qy_instances_load (world_queries h) = (\<lambda>i. reading (\<lambda>w. stored_load i (qs_instances w)))"
  "qy_findNonTerminal (world_queries h) = reading (\<lambda>w. findNonTerminal (qs_instances w))"
  "qy_now (world_queries h) = qs_now"
  by (simp_all add: world_queries_def)

lemma world_readers:
  "qy_sessions (world_queries h) = Some R1 \<Longrightarrow> read_only (R1 i)"
  "qy_messages (world_queries h) = Some R2 \<Longrightarrow> read_only (rd_load R2 i) \<and> read_only (rd_findByStatus R2 s2)"
  "qy_chats (world_queries h) = Some R3 \<Longrightarrow>
     read_only (rd_load R3 i) \<and> read_only (rd_findByStatus R3 s3) \<and> read_only (rd_findByInstance R3 i)"
  "qy_contacts (world_queries h) = Some R4 \<Longrightarrow>
     read_only (rd_load R4 i) \<and> read_only (rd_findByStatus R4 s4) \<and> read_only (rd_findByInstance R4 i)"
  "qy_groups (world_queries h) = Some R5 \<Longrightarrow> read_only (rd_load R5 i) \<and> read_only (rd_findByInstance R5 i)"
  "qy_health (world_queries h) = Some R6 \<Longrightarrow> read_only (R6 ref)"
  "qy_jobs (world_queries h) = Some R7 \<Longrightarrow> read_only (rd_load R7 i) \<and> read_only (rd_findByStatus R7 s7)"
  "qy_subscriptions (world_queries h) = Some R8 \<Longrightarrow> read_only (rd_load R8 i) \<and> read_only (rd_findByStatus R8 s8)"
  "qy_deliveries (world_queries h) = Some R9 \<Longrightarrow> read_only (rd_load R9 i) \<and> read_only (rd_findByStatus R9 s9)"
  "qy_replayEvents (world_queries h) = Some R10 \<Longrightarrow> read_only (R10 request)"
  by (auto simp: world_queries_def read_only_basic)

lemma read_only_case:
  "read_only m \<Longrightarrow> (\<And>x. read_only (f x)) \<Longrightarrow> read_only (case v of None \<Rightarrow> m | Some x \<Rightarrow> f x)"
  "(\<And>e. read_only (g e)) \<Longrightarrow> (\<And>x. read_only (f x)) \<Longrightarrow> read_only (case u of Inl e \<Rightarrow> g e | Inr x \<Rightarrow> f x)"
  "read_only m \<Longrightarrow> read_only m' \<Longrightarrow> read_only (if b then m else m')"
  by (simp_all split: option.split sum.split)

lemmas query_defs =
  listInstances_def getInstanceStatus_def listInstanceSessions_def listInstanceMessages_def
  getMessageStatus_def listChats_def listInstanceChats_def getChatStatus_def listContacts_def
  listInstanceContacts_def getContactStatus_def listInstanceGroups_def getGroupStatus_def
  listGroupMembers_def getHealthStatus_def listEvents_def listWorkerJobs_def getWorkerJobStatus_def
  getQueueMetricsSnapshot_def listWebhookSubscriptions_def getWebhookStatus_def
  listWebhookDeliveries_def getWebhookDeliveryHistory_def

lemma read_only_handlers:
  "read_only (listInstances (world_queries h) envelope)"
  "read_only (getInstanceStatus (world_queries h) envelope)"
  "read_only (listInstanceSessions (world_queries h) envelope)"
  "read_only (listInstanceMessages (world_queries h) envelope)"
  "read_only (getMessageStatus (world_queries h) envelope)"
  "read_only (listChats (world_queries h) envelope)"
  "read_only (listInstanceChats (world_queries h) envelope)"
  "read_only (getChatStatus (world_queries h) envelope)"
  "read_only (listContacts (world_queries h) envelope)"
  "read_only (listInstanceContacts (world_queries h) envelope)"
  "read_only (getContactStatus (world_queries h) envelope)"
  "read_only (listInstanceGroups (world_queries h) envelope)"
  "read_only (getGroupStatus (world_queries h) envelope)"
  "read_only (listGroupMembers (world_queries h) envelope)"
  "read_only (getHealthStatus (world_queries h) envelope)"
  "read_only (listEvents (world_queries h) envelope)"
  "read_only (listWorkerJobs (world_queries h) envelope)"
  "read_only (getWorkerJobStatus (world_queries h) envelope)"
  "read_only (getQueueMetricsSnapshot (world_queries h) envelope)"
  "read_only (listWebhookSubscriptions (world_queries h) envelope)"
  "read_only (getWebhookStatus (world_queries h) envelope)"
  "read_only (listWebhookDeliveries (world_queries h) envelope)"
  "read_only (getWebhookDeliveryHistory (world_queries h) envelope)"
  unfolding query_defs Let_def world_queries_sel
  by (intro read_only_rules read_only_case read_only_all; auto dest: world_readers)+

lemma executeQuery_read_only: "read_only (executeQuery (world_queries h) envelope)"
  by (cases "qen_name envelope") (simp_all add: executeQuery_def read_only_handlers read_only_basic)

section \<open>Listings\<close>

lemma mset_by_value:
  assumes "distinct vs" "\<And>x. x \<in> set xs \<Longrightarrow> f x \<in> set vs"
  shows "mset (concat (map (\<lambda>v. filter (\<lambda>x. f x = v) xs) vs)) = mset xs"
  using assms
proof (induction vs arbitrary: xs)
  case (Cons v vs)
  let ?ys = "filter (\<lambda>x. f x \<noteq> v) xs"
  have eq: "map (\<lambda>u. filter (\<lambda>x. f x = u) xs) vs = map (\<lambda>u. filter (\<lambda>x. f x = u) ?ys) vs"
    using Cons.prems(1) by (auto intro!: filter_cong)
  have rest: "mset (concat (map (\<lambda>u. filter (\<lambda>x. f x = u) ?ys) vs)) = mset ?ys"
    by (rule Cons.IH) (use Cons.prems in auto)
  have "mset (concat (map (\<lambda>u. filter (\<lambda>x. f x = u) xs) (v # vs))) =
      mset (filter (\<lambda>x. f x = v) xs) + mset (concat (map (\<lambda>u. filter (\<lambda>x. f x = u) xs) vs))"
    by (simp only: list.map concat.simps mset_append)
  also have "\<dots> = mset (filter (\<lambda>x. f x = v) xs) + mset ?ys"
    unfolding eq rest ..
  also have "\<dots> = mset xs"
    by (metis mset_filter multiset_partition)
  finally show ?case .
next
  case Nil
  then show ?case by (cases xs) auto
qed

text \<open>The aggregates that a listing by status collects, when the repository reads them off one list.\<close>

definition by_statuses :: "('a \<Rightarrow> 's) \<Rightarrow> 's list \<Rightarrow> 'a list \<Rightarrow> 'a list" where
  "by_statuses status statuses as = concat (map (\<lambda>s. filter (\<lambda>a. status a = s) as) statuses)"

lemma prog_all_reading:
  "prog_all (map (\<lambda>s. reading (g s)) ss) w = (Inr (map (\<lambda>s. g s w) ss), w)"
  by (induction ss) (simp_all add: reading_def)

lemma by_status_reading:
  assumes "\<And>s. rd_findByStatus R s = reading (\<lambda>w. filter (\<lambda>a. status a = s) (all w))"
  shows "by_status R statuses w = (Inr (by_statuses status statuses (all w)), w)"
proof -
  have "rd_findByStatus R = (\<lambda>s. reading (\<lambda>w. filter (\<lambda>a. status a = s) (all w)))"
    by (intro ext) (simp add: assms)
  then show ?thesis
    by (simp add: by_status_def prog_bind_def prog_all_reading by_statuses_def)
qed

context string_union begin

lemma by_values: "mset (by_statuses status vals as) = mset as"
proof -
  have "distinct vals" using distinct_names by (simp add: distinct_map)
  then show ?thesis unfolding by_statuses_def by (rule mset_by_value) (rule complete)
qed

end

lemmas by_statuses_mset =
  job_status.by_values message_status.by_values chat_status.by_values contact_status.by_values
  webhook_subscription_status.by_values webhook_delivery_status.by_values

text \<open>The items of an answer.\<close>

definition answered_items :: "string + query_outcome \<Rightarrow> query_item list option" where
  "answered_items answer = (case answer of Inl _ \<Rightarrow> None | Inr outcome \<Rightarrow> qo_items outcome)"

lemma answered_list_outcome [simp]:
  "answered_items (fst (list_outcome (world_queries h) envelope prefix items w)) = Some items"
  by (simp add: answered_items_def list_outcome_def queryOutcome_def with_items_def
      createApplicationQueryOutcome_def)

lemma world_by_status:
  "qy_messages (world_queries h) = Some M \<Longrightarrow>
     by_status M messageStatuses w =
       (Inr (by_statuses msg_status messageStatuses (stored_list (mst_records (qs_messages w)))), w)"
  "qy_chats (world_queries h) = Some C \<Longrightarrow>
     by_status C chatStatuses w =
       (Inr (by_statuses chat_status chatStatuses (stored_list (qs_chats w))), w)"
  "qy_contacts (world_queries h) = Some D \<Longrightarrow>
     by_status D contactStatuses w =
       (Inr (by_statuses con_status contactStatuses (stored_list (qs_contacts w))), w)"
  "qy_jobs (world_queries h) = Some J \<Longrightarrow>
     by_status J jobStatuses w =
       (Inr (by_statuses job_status jobStatuses (mj_records (qs_jobs w))), w)"
  "qy_subscriptions (world_queries h) = Some S \<Longrightarrow>
     by_status S webhookSubscriptionStatuses w =
       (Inr (by_statuses subs_status webhookSubscriptionStatuses (stored_list (sst_records (qs_subscriptions w)))), w)"
  "qy_deliveries (world_queries h) = Some E \<Longrightarrow>
     by_status E webhookDeliveryStatuses w =
       (Inr (by_statuses del_status webhookDeliveryStatuses (stored_list (dst_records (qs_deliveries w)))), w)"
  by (rule by_status_reading,
      auto simp: world_queries_def messages_findByStatus_def chats_findByStatus_def contacts_findByStatus_def
        mem_findByStatus_def subscriptions_findByStatus_def deliveries_findByStatus_def findAll_def)+

lemma world_configured:
  "\<exists>M. qy_messages (world_queries h) = Some M" "\<exists>C. qy_chats (world_queries h) = Some C"
  "\<exists>D. qy_contacts (world_queries h) = Some D" "\<exists>J. qy_jobs (world_queries h) = Some J"
  "\<exists>S. qy_subscriptions (world_queries h) = Some S" "\<exists>E. qy_deliveries (world_queries h) = Some E"
  by (auto simp: world_queries_def)

lemma listings_items:
  "map_option mset (answered_items (fst (listWorkerJobs (world_queries h) envelope w))) =
     Some (image_mset (Item_job \<circ> workerJobQueryItem) (mset (mj_records (qs_jobs w))))"
  "map_option mset (answered_items (fst (listChats (world_queries h) envelope w))) =
     Some (image_mset (Item_chat \<circ> chatQueryItem)
       (filter_mset (\<lambda>c. chat_status c \<noteq> Chat_deleted) (mset (stored_list (qs_chats w)))))"
  "map_option mset (answered_items (fst (listContacts (world_queries h) envelope w))) =
     Some (image_mset (Item_contact \<circ> contactQueryItem)
       (filter_mset (\<lambda>c. con_status c \<noteq> Contact_deleted) (mset (stored_list (qs_contacts w)))))"
  "map_option mset (answered_items (fst (listWebhookSubscriptions (world_queries h) envelope w))) =
     Some (image_mset (Item_subscription \<circ> webhookSubscriptionQueryItem)
       (mset (stored_list (sst_records (qs_subscriptions w)))))"
  "map_option mset (answered_items (fst (listWebhookDeliveries (world_queries h) envelope w))) =
     Some (image_mset (Item_delivery \<circ> webhookDeliveryQueryItem)
       (mset (stored_list (dst_records (qs_deliveries w)))))"
  "qen_targetRef envelope = Some target \<Longrightarrow>
   map_option mset (answered_items (fst (listInstanceMessages (world_queries h) envelope w))) =
     Some (image_mset (Item_message \<circ> messageQueryItem)
       (filter_mset (\<lambda>m. msg_instanceId m = target) (mset (stored_list (mst_records (qs_messages w))))))"
  using world_configured [of h]
  by (auto simp: listWorkerJobs_def listChats_def listContacts_def listWebhookSubscriptions_def
      listWebhookDeliveries_def listInstanceMessages_def when_configured_def when_targeted_def
      prog_bind_def world_by_status by_statuses_mset Let_def mset_map mset_filter simp del: map_map)

section \<open>Malformed references\<close>

lemma unsafe_target_throws:
  assumes "qen_targetRef envelope = Some target" "\<not> safe_token (js_trim target)"
  shows "find_target P envelope code kind label load describe w = (Inl ''TypeError'', w)"
  using assms
  by (simp add: find_target_def when_targeted_def createDomainIdentity_def prog_bind_def prog_lift_def)

end
