(* ===== verification/DispatcherScenarios.thy ===== *)
theory DispatcherScenarios
  imports GroupMutationLaws DispatcherWorld QueryWorld ScenarioInputs
begin

text \<open>
  The dispatcher, evaluated: a group with one member to add, under two idempotency keys whose action
  tokens are the same, and an instance with one active session and one queued job.
\<close>

section \<open>A group\<close>

definition grp_demo_group :: wa_group where
  "grp_demo_group =
     \<lparr>grp_id = ''g'', grp_instanceId = ''i'', grp_jid = ''1@g.us'', grp_status = Group_active,
      grp_metadata = \<lparr>gmd_subject = ''team'', gmd_description = None\<rparr>, grp_members = [],
      grp_actions = [], grp_inviteLink = None, grp_muted = False, grp_archived = False,
      grp_pinned = False, grp_domainEvents = []\<rparr>"

definition grp_demo_store :: "wa_group stored" where
  "grp_demo_store = stored_save grp_id grp_demo_group []"

definition grp_demo_intents :: "(group_mutation, unit) operation_store" where
  "grp_demo_intents =
     \<lparr>os_intents = [\<lparr>so_ref = ''add.1'', so_payload = Mutation_add_member ''551@s.whatsapp.net'',
        so_createdAt = 0, so_expiresAt = None\<rparr>], os_disk = ()\<rparr>"

definition grp_demo_envelope :: "string \<Rightarrow> command_envelope" where
  "grp_demo_envelope key =
     \<lparr>ce_name = Cmd_AddGroupMember, ce_commandRef = ''cmd'',
      ce_requestContext = \<lparr>rc_correlationId = ''c'', rc_requestId = None, rc_traceId = None\<rparr>,
      ce_targetRef = Some ''g'', ce_actorRef = Some ''operator'', ce_idempotencyKey = Some key,
      ce_safeInputRef = Some ''add.1'', ce_dataClassification = None\<rparr>"

text \<open>The event log is down.\<close>

definition demo_failure :: "string \<Rightarrow> port_failure" where
  "demo_failure code =
     \<lparr>pf_category = Port_unavailable, pf_code = code, pf_message = code, pf_retryable = True,
      pf_ownerContext = None, pf_failureCategory = None, pf_safeMetadata = None\<rparr>"

definition grp_demo_publish :: "unit publish" where
  "grp_demo_publish input e = (Inr (Inl (demo_failure ''event_log_down'')), e)"

text \<open>Both keys hash to the same 32 bits.\<close>

lemma grp_demo_hash:
  "stable_hash 0x811c9dc5 ''AddGroupMember:g:k78999'' = 0x88b13acb"
  "stable_hash 0x811c9dc5 ''AddGroupMember:g:k365994'' = 0x88b13acb"
  by simp_all

lemma grp_demo_digits:
  "char_of (56 :: nat) = CHR ''8''" "char_of (98 :: nat) = CHR ''b''" "char_of (49 :: nat) = CHR ''1''"
  "char_of (51 :: nat) = CHR ''3''" "char_of (97 :: nat) = CHR ''a''" "char_of (99 :: nat) = CHR ''c''"
  by code_simp+

lemma grp_demo_token:
  "action_token Cmd_AddGroupMember ''g'' ''k78999'' = ''group_action:88b13acb''"
  "action_token Cmd_AddGroupMember ''g'' ''k365994'' = ''group_action:88b13acb''"
  by (simp_all add: action_token_def stableToken_def grp_demo_hash show_hex.simps padStart_def hex_digit_def
      grp_demo_digits del: stable_hash.simps)

lemma grp_demo_names:
  "createDomainIdentity ''g'' ''GroupId'' = Inr ''g''"
  "createDomainIdentity ''group_action:88b13acb'' ''GroupActionId'' = Inr ''group_action:88b13acb''"
  "createGroupMutationIntentRef ''add.1'' = Inr ''add.1''"
  by code_simp+

lemma grp_demo_input:
  "resolveInput_group Cmd_AddGroupMember (grp_demo_envelope ''k78999'') =
     Inr \<lparr>gin_groupId = ''g'', gin_intentRef = ''add.1'', gin_actionId = ''group_action:88b13acb''\<rparr>"
  by (simp add: resolveInput_group_def grp_demo_envelope_def grp_demo_token grp_demo_names)

lemma grp_demo_intent:
  "map_sum id so_payload (resolveGroupMutationIntent 10 ''add.1'' grp_demo_intents) =
     Inr (Mutation_add_member ''551@s.whatsapp.net'')"
  by code_simp

definition grp_demo_applied :: "string + wa_group" where
  "grp_demo_applied = applyGroupMutation grp_demo_group (Mutation_add_member ''551@s.whatsapp.net'')
     (''group_action:88b13acb'', ''operator'')"

lemma grp_demo_applies: "case grp_demo_applied of Inl _ \<Rightarrow> False | Inr _ \<Rightarrow> True"
  by code_simp

lemma grp_demo_ran:
  "\<exists>out gs'. handle_group_mutation (group_world_ports 10 grp_demo_publish) Cmd_AddGroupMember
     (grp_demo_envelope ''k78999'') (grp_demo_store, grp_demo_intents, ()) = (Inr out, gs') \<and>
     co_accepted out \<and> co_outcome out = Outcome_failed \<and> co_retryable out"
proof -
  obtain g' where g': "applyGroupMutation grp_demo_group (Mutation_add_member ''551@s.whatsapp.net'')
     (''group_action:88b13acb'', ''operator'') = Inr g'"
    using grp_demo_applies unfolding grp_demo_applied_def by (auto split: sum.splits)
  have "stored_load ''g'' grp_demo_store = Some grp_demo_group"
    by (simp add: grp_demo_store_def stored_load_def stored_save_def grp_demo_group_def)
  moreover have "grp_status grp_demo_group = Group_active" "\<not> hasAction grp_demo_group i" for i
    by (simp_all add: grp_demo_group_def hasAction_def)
  moreover have "ce_actorRef (grp_demo_envelope ''k78999'') = Some ''operator''"
    by (simp add: grp_demo_envelope_def)
  ultimately show ?thesis
    using g' grp_demo_intent
    by (simp add: handle_group_mutation_def grp_demo_input mutate_loaded_def save_mutated_def
        grp_demo_publish_def demo_failure_def commandOutcome_def createApplicationCommandOutcome_def)
qed

lemma grp_demo_ok: "stored_ok grp_id grp_demo_store"
  unfolding grp_demo_store_def stored_save_def by (rule stored_ok_update) (simp add: stored_ok_def)

section \<open>An instance\<close>

definition dest_demo_instance :: wa_instance where
  "dest_demo_instance =
     \<lparr>inst_id = ''i1'', inst_status = Inst_connected, inst_metadata = \<lparr>im_displayName = None\<rparr>,
      inst_currentSessionId = Some ''s1'', inst_actionRequiredReason = None, inst_domainEvents = []\<rparr>"

definition dest_demo_session :: session where
  "dest_demo_session =
     \<lparr>sess_id = ''s1'', sess_instanceId = ''i1'', sess_status = Sess_active,
      sess_requiresRecovery = False, sess_retentionPolicy = None, sess_domainEvents = []\<rparr>"

definition dest_demo_world :: "'r \<Rightarrow> ('r, unit) platform" where
  "dest_demo_world jobs =
     \<lparr>pw_instances = [(''i1'', dest_demo_instance)], pw_sessions = [(''s1'', dest_demo_session)],
      pw_jobs = jobs, pw_calls = [], pw_rest = ()\<rparr>"

definition dest_demo_envelope :: command_envelope where
  "dest_demo_envelope =
     \<lparr>ce_name = Cmd_DestroyInstance, ce_commandRef = ''cmd'',
      ce_requestContext = \<lparr>rc_correlationId = ''c'', rc_requestId = None, rc_traceId = None\<rparr>,
      ce_targetRef = Some ''i1'', ce_actorRef = None, ce_idempotencyKey = None,
      ce_safeInputRef = None, ce_dataClassification = None\<rparr>"

definition dest_demo_publish :: "unit event_publish" where
  "dest_demo_publish input e = (Inr (Inr []), e)"

definition dest_demo_refuse :: "unit disconnect" where
  "dest_demo_refuse request e = (Inr (Inl (demo_failure ''provider_down'')), e)"

definition dest_demo_disconnect :: "unit disconnect" where
  "dest_demo_disconnect request e =
     (Inr (Inr \<lparr>cns_instanceId = cnr_instanceId request, cns_providerId = cnr_providerId request,
        cns_state = Connection_disconnected, cns_providerSignalRef = None, cns_failureCategory = None\<rparr>), e)"

lemma dest_demo_ports:
  "always_publishes dest_demo_publish" "always_disconnects dest_demo_disconnect"
  by (simp_all add: always_publishes_def always_disconnects_def dest_demo_publish_def dest_demo_disconnect_def)

lemma dest_demo_world_ok:
  "stored_ok sess_id (pw_sessions (dest_demo_world jobs))" "pw_jobs (dest_demo_world jobs) = jobs"
  "ce_targetRef dest_demo_envelope = Some ''i1''"
  "stored_load ''i1'' (pw_instances (dest_demo_world jobs)) = Some dest_demo_instance"
  "inst_status dest_demo_instance \<noteq> Inst_destroyed" "inst_id dest_demo_instance = ''i1''"
  "List.find shouldDisconnectProviderSession (sessions_findByInstance ''i1'' (pw_sessions (dest_demo_world jobs))) =
     Some dest_demo_session"
  "filter shouldDisconnectProviderSession (sessions_findByInstance ''i1'' (pw_sessions (dest_demo_world jobs))) =
     [dest_demo_session]" "pw_calls (dest_demo_world jobs) = []"
  by (simp_all add: dest_demo_world_def dest_demo_instance_def dest_demo_session_def dest_demo_envelope_def
      stored_ok_def stored_load_def sessions_findByInstance_def findAll_def stored_list_def
      shouldDisconnectProviderSession_def)

lemma dest_demo_identity: "createDomainIdentity ''i1'' ''InstanceId'' = Inr ''i1''"
  by code_simp

section \<open>Queries\<close>

definition read_demo_job :: worker_job where
  "read_demo_job =
     \<lparr>job_id = ''j1'', job_ownerContext = Owner_webhook_delivery, job_workType = ''webhook_delivery'',
      job_safeMetadata = None, job_status = Job_queued, job_retryPolicy = demo_policy,
      job_attemptNumber = None, job_failureCategory = None, job_deadLetterReason = None,
      job_recoveryActionRequired = False, job_domainEvents = []\<rparr>"

definition read_demo_world :: query_world where
  "read_demo_world =
     \<lparr>qs_instances = [], qs_sessions = [], qs_messages = \<lparr>mst_records = [], mst_keys = (\<lambda>_. None)\<rparr>,
      qs_chats = [], qs_contacts = [], qs_groups = [], qs_health = [],
      qs_jobs = \<lparr>mj_records = [read_demo_job], mj_keys = (\<lambda>_. None)\<rparr>,
      qs_subscriptions = \<lparr>sst_records = [], sst_signalRefs = (\<lambda>_. None)\<rparr>,
      qs_deliveries = \<lparr>dst_records = [], dst_keys = (\<lambda>_. None)\<rparr>,
      qs_log = createInMemoryEventLogStore,
      qs_now = 0\<rparr>"

definition read_demo_envelope :: "query_name \<Rightarrow> query_envelope" where
  "read_demo_envelope name =
     \<lparr>qen_name = name, qen_queryRef = ''q'',
      qen_requestContext = \<lparr>rc_correlationId = ''c'', rc_requestId = None, rc_traceId = None\<rparr>,
      qen_targetRef = Some ''i1'', qen_actorRef = None, qen_requestedConsistency = None,
      qen_safeCriteriaRef = None, qen_dataClassification = None\<rparr>"

lemma unsafe_demo: "\<not> safe_token (js_trim ''a b'')"
  by code_simp

end
