(* ===== verification/DomainFacts.thy ===== *)
theory DomainFacts
  imports Specifications Policies Factories Navigation Governance MediaAssets Scenarios MoreScenarios LogScenarios AppCommands Instances GroupAggregate
begin

text \<open>
  More facts of the domain: what the redaction of telemetry leaves, what
  the factories decide, and the budget of deliveries.
\<close>

text \<open>
  Whatever is attempted on a freshly created instance: connected means it has a session and no
  pending action, a status that closes the session has none, logged out or action required
  carries a safe reason code.
\<close>

theorem instance_history_consistent:
  assumes "createInstanceAggregate i md = Inr a"
  shows "let b = history instance_step cs a in
     (inst_status b = Inst_connected \<longrightarrow>
        inst_currentSessionId b \<noteq> None \<and> inst_actionRequiredReason b = None) \<and>
     (sessionless_status (inst_status b) \<longrightarrow> inst_currentSessionId b = None) \<and>
     (reasoned_status (inst_status b) \<longrightarrow> inst_actionRequiredReason b \<noteq> None) \<and>
     (\<forall>r. inst_actionRequiredReason b = Some r \<longrightarrow> isSafeDomainCode r)"
  using instance_history_wf [OF createInstanceAggregate_ok [OF assms], of cs]
  by (simp add: Let_def instance_wf_def)

text \<open>
  A revoked session can only be cleaned up: no sequence of operations makes it active, and so
  usable, again.
\<close>

theorem revoked_session_stays_closed:
  assumes "sess_status s = Sess_revoked"
  shows "sess_status (history session_step cs s) \<in> {Sess_revoked, Sess_cleanup} \<and>
     \<not> isSessionSendCapable (history session_step cs s)"
  using session_revoked_follows [of "sess_status (history session_step cs s)"]
    session.history_status [of s cs] assms
  by (auto simp: isSessionSendCapable_def)

text \<open>
  A webhook subscription that is active, suspended or validated has its validation among its
  events, whatever was attempted since it was proposed.
\<close>

theorem subscription_active_after_validation:
  assumes "createWebhookSubscription i url = Inr s"
    and "subs_status (history subscription_step cs s) \<in> {Subs_validated, Subs_active, Subs_suspended}"
  shows "SubscriptionEvent WebhookSubscriptionValidated
     \<in> set (map ev_name (subs_domainEvents (history subscription_step cs s)))"
proof -
  have "subscription_wf (history subscription_step cs s)"
    by (rule subscription_history_wf [OF createWebhookSubscription_wf [OF assms(1)]])
  then show ?thesis using assms(2) by (auto simp: subscription_wf_def was_validated_def)
qed

text \<open>
  From a created group on, whatever is attempted: no JID is a member twice, the subject stays
  trimmed and non-empty, and whoever owns the group keeps owning it.
\<close>

theorem group_history_consistent:
  assumes "createGroup i inst jid md ms = Inr g"
  shows "distinct (map mem_jid (grp_members (history group_step cs g))) \<and>
     gmd_subject (grp_metadata (history group_step cs g)) \<noteq> [] \<and>
     js_trim (gmd_subject (grp_metadata (history group_step cs g))) =
       gmd_subject (grp_metadata (history group_step cs g)) \<and>
     (role_of g j = Some Role_owner \<longrightarrow> role_of (history group_step cs g) j = Some Role_owner)"
proof -
  have "group_wf (history group_step cs g)"
    by (rule group_history_wf [OF createGroup_wf [OF assms]])
  moreover have "role_of (history group_step cs g) j = Some Role_owner" if "role_of g j = Some Role_owner"
    by (rule history_invariant [where P = "\<lambda>g. role_of g j = Some Role_owner"])
      (use that group_step_owner in auto)
  ultimately show ?thesis by (auto simp: group_wf_def trimmed_text_def)
qed

text \<open>
  decideRetryEligibility says a worker job may be retried exactly when retryWorkerJob then
  accepts that attempt on a job that is not finished.
\<close>

theorem retry_decision_matches_job:
  "(\<exists>d. decideRetryEligibility (JobEligibility job (num_of k)) = Inr d \<and> red_retryable d) \<longleftrightarrow>
     (\<exists>job'. retryWorkerJob job k c = Inr job')"
proof -
  have "(\<exists>job'. retryWorkerJob job k c = Inr job') \<longleftrightarrow>
      job_status job \<noteq> Job_completed \<and> job_status job \<noteq> Job_dead \<and>
      k \<le> rp_maxAttempts (job_retryPolicy job)"
    by (cases "job_status job")
      (auto simp: retryWorkerJob_def assertAttemptWithinRetryBudget_def transitionWorkerJob_eq)
  then show ?thesis by (auto simp: decideRetryEligibility_job)
qed

text \<open>
  A configuration snapshot that is validated, active or superseded was classified valid, and a
  rejected one is eligible for audit, whatever was attempted on it since it was proposed.
\<close>

theorem configuration_active_is_safe:
  "let s = history configuration_step cs (proposeConfigurationSnapshot i safety) in
     (cs_status s \<in> {Config_validated, Config_active, Config_superseded} \<longrightarrow> cs_safety s = Safety_valid) \<and>
     (cs_status s = Config_rejected \<longrightarrow> cs_auditEligible s)"
  using configuration_history_wf [OF proposeConfigurationSnapshot_wf, of cs i safety]
  by (auto simp: configuration_wf_def Let_def)

text \<open>
  Telemetry that has left the captured state (sanitized, projected or dropped) is marked
  redacted.
\<close>

theorem telemetry_leaves_redacted:
  assumes "captureTelemetrySignal i ref = Inr s"
    and "ts_status (history telemetry_step cs s) \<noteq> Tele_captured"
  shows "ts_redacted (history telemetry_step cs s)"
  using telemetry_history_wf [OF captureTelemetrySignal_wf [OF assms(1)], of cs] assms(2)
  by (simp add: telemetry_wf_def)

text \<open>
  Two contacts that differ only in JID, display name and phone number are the same after
  redactContact, as long as the same optional fields are present.
\<close>

theorem redaction_hides_contact:
  assumes "con_id c = con_id d" "con_instanceId c = con_instanceId d" "con_status c = con_status d"
    and "con_displayName c = None \<longleftrightarrow> con_displayName d = None"
    and "con_phoneNumber c = None \<longleftrightarrow> con_phoneNumber d = None"
  shows "redactContact c = redactContact d"
  using assms by (rule redactContact_hides)

text \<open>
  A scheduled webhook delivery whose starts stay within its budget keeps its attempt number
  within it, has an attempt number once started, and is dead-lettered exactly when it has a
  reason.
\<close>

theorem delivery_within_budget:
  assumes "scheduleWebhookDelivery i w ref p = Inr d"
    and "list_all (starts_within (rp_maxAttempts p)) cs"
  shows "let e = history delivery_step cs d in
     (\<forall>n. del_attemptNumber e = Some n \<longrightarrow> n \<le> rp_maxAttempts p) \<and>
     (del_status e \<in> {Deliv_delivering, Deliv_delivered, Deliv_retrying} \<longrightarrow> del_attemptNumber e \<noteq> None) \<and>
     (del_status e = Deliv_dead_letter \<longleftrightarrow> del_deadLetterReason e \<noteq> None)"
proof -
  have "delivery_wf d \<and> del_retryPolicy d = p"
    using scheduleWebhookDelivery_wf [OF assms(1)] assms(1)
    by (auto simp: scheduleWebhookDelivery_def result_simps)
  then have "delivery_wf (history delivery_step cs d) \<and> del_retryPolicy (history delivery_step cs d) = p"
    using assms(2) by (rule delivery_history_wf)
  then show ?thesis by (auto simp: Let_def delivery_wf_def)
qed

text \<open>
  A guardrail decision built by its factory carries the requested outcome, and passes the send
  specification exactly when that outcome is to allow.
\<close>

theorem guardrail_factory_decides:
  assumes "createGuardrailDecisionAggregate i ref outcome code = Inr d"
  shows "gd_outcome d = Some outcome \<and> gd_reasonCode d \<noteq> None \<and>
     (isGuardrailDecisionPassing (Some d) None = Inr Passed \<longleftrightarrow> outcome = Guardrail_allow)"
proof -
  have ok: "guardrail_wf d" "gd_outcome d = Some outcome"
      "guardrail_passing (Some d) None \<longleftrightarrow> outcome = Guardrail_allow"
    using createGuardrailDecisionAggregate_ok [OF assms] by auto
  moreover have "gd_reasonCode d \<noteq> None"
    using assms
    by (cases outcome)
      (auto simp: createGuardrailDecisionAggregate_def guardrail_op_defs result_simps)
  ultimately show ?thesis by (simp add: isGuardrailDecisionPassing_eq)
qed

text \<open>
  Command names: an envelope is created exactly for the text of an approved command with the
  idempotency key it requires, and writing the name of the envelope gives back that text; the
  texts of two commands differ, and each command has one definition, of its own name.
\<close>

theorem command_names_roundtrip:
  "((\<exists>e. createApplicationCommandEnvelope input = Inr e \<and> ce_name e = n) \<longleftrightarrow>
      cei_name input = command_name_text n \<and>
      (\<exists>d. getApplicationCommandDefinition n = Some d \<and> cd_name d = n \<and>
        \<not> (cd_idempotencyRequired d \<and> cei_idempotencyKey input = None))) \<and>
   (command_name_text n = command_name_text m \<longleftrightarrow> n = m) \<and>
   (isApplicationCommandName s \<longleftrightarrow> (\<exists>k. s = command_name_text k)) \<and>
   (\<exists>d \<in> set applicationCommandDefinitions. cd_name d = n \<and>
      getApplicationCommandDefinition n = Some d)"
proof -
  obtain d where d: "getApplicationCommandDefinition n = Some d" "cd_name d = n"
    using getApplicationCommandDefinition_total [of n] by blast
  then have "(n, d) \<in> set (rev (map (\<lambda>d. (cd_name d, d)) applicationCommandDefinitions))"
    unfolding getApplicationCommandDefinition_def commandDefinitionByName_def by (auto dest: map_of_SomeD)
  then have known: "\<exists>d \<in> set applicationCommandDefinitions. cd_name d = n \<and>
      getApplicationCommandDefinition n = Some d"
    using d by (intro bexI [of _ d]) auto
  have narrow: "narrow command_name_text applicationCommandNames t = Some n \<longleftrightarrow>
      t = command_name_text n" for t
    using narrow_SomeD [of command_name_text applicationCommandNames t n] by auto
  have "(\<exists>e. createApplicationCommandEnvelope input = Inr e \<and> ce_name e = n) \<longleftrightarrow>
      cei_name input = command_name_text n \<and>
      \<not> (cd_idempotencyRequired d \<and> cei_idempotencyKey input = None)"
  proof (cases "narrow command_name_text applicationCommandNames (cei_name input)")
    case None
    then show ?thesis
      using narrow [of "cei_name input"] by (auto simp: createApplicationCommandEnvelope_def)
  next
    case (Some m)
    then show ?thesis
      using narrow [of "cei_name input"] d(1)
      by (cases "m = n") (auto simp: createApplicationCommandEnvelope_def)
  qed
  moreover have "(\<exists>d. getApplicationCommandDefinition n = Some d \<and> cd_name d = n \<and>
        \<not> (cd_idempotencyRequired d \<and> cei_idempotencyKey input = None)) \<longleftrightarrow>
      \<not> (cd_idempotencyRequired d \<and> cei_idempotencyKey input = None)"
    using d by simp
  moreover have "isApplicationCommandName s \<longleftrightarrow> (\<exists>k. s = command_name_text k)"
    using command_name.complete by (auto simp: isApplicationCommandName_def)
  ultimately show ?thesis using known command_name.name_inject by presburger
qed

end
