(* ===== verification/Spec2Isabelle.thy ===== *)
theory Spec2Isabelle
  imports Specifications Policies Factories Navigation Governance MediaAssets Scenarios MoreScenarios LogScenarios
    PollingLoop MemoryRepositories MessageScenarios WebhookScenarios DispatcherScenarios DomainFacts
begin

text \<open>
  A verification development for the core of OmniWA, a WhatsApp API platform in TypeScript.

  The program.  \<open>packages/domain\<close> holds the aggregates (messages, instances and sessions, worker
  jobs, webhook subscriptions and deliveries, groups, chats, contacts, labels, media, and the
  governance aggregates), each a frozen record with a status, a transition table and a list of
  domain events; the specifications and policies that decide on them; and the factories.
  \<open>packages/infrastructure-queue\<close> runs worker jobs through a queue provider over a worker-job
  repository of \<open>packages/infrastructure-persistence\<close>; the runtimes under \<open>apps\<close> call it.

  The theories, in the order of their imports.
    \<^item> \<open>Prelude\<close>: results, \<open>nullish\<close> and \<open>value_or\<close>, the \<open>result_simps\<close> collection.
    \<^item> \<open>JsText\<close>: strings and the value objects made from them (\<open>common\<close>, \<open>references\<close>,
      \<open>identity\<close>, \<open>idempotency\<close>, and \<open>packages/shared\<close>).
    \<^item> \<open>Vocabulary\<close>: every string union of \<open>status\<close> and \<open>common\<close>; the locale of a union and
      its interpretations give that reading a name is the inverse of writing it.
    \<^item> \<open>DomainEvents\<close>, \<open>StatusMachine\<close>: events, \<open>transitionStatus\<close>, and the locale
      \<open>aggregate_lifecycle\<close>, whose laws every aggregate keeps; its lemmas speak of histories,
      sequences of operations of which the failing ones leave the aggregate as it was.
    \<^item> \<open>PolicyValues\<close>: retry and retention policies, attempts, domain errors.
    \<^item> \<open>Messages\<close>, \<open>Instances\<close>, \<open>WorkerJobs\<close>, \<open>Webhooks\<close>, \<open>MediaAssets\<close>, \<open>GroupAggregate\<close>,
      \<open>Navigation\<close>, \<open>Governance\<close>: the aggregates, one operation per exported function; for each
      a well-formedness invariant and that every operation keeps it.
    \<^item> \<open>Specifications\<close>, \<open>Policies\<close>, \<open>Factories\<close>: \<open>domain-specifications.ts\<close>,
      \<open>domain-policies.ts\<close> with \<open>domain-services.ts\<close>, and \<open>domain-factories.ts\<close>; each
      specification with the condition under which it passes.
    \<^item> \<open>JobStore\<close>, \<open>JobRepositories\<close>: the queue port, the worker-job repository as a record of
      its methods with its contract as a locale, and the in-memory and the PostgreSQL repository,
      which interpret it.
    \<^item> \<open>DurableQueue\<close>, \<open>DurableQueueLaws\<close>, \<open>DurableQueueHistory\<close>: the durable queue provider,
      the effect of each operation, and histories of operations at given clock readings.
    \<^item> \<open>InMemoryQueue\<close>, \<open>InMemoryQueueLaws\<close>: the in-memory queue provider, whose entries mirror
      the jobs of its repository, and the same laws for it.
    \<^item> \<open>EventContracts\<close>: the table of event contracts, complete and well formed.
    \<^item> \<open>EventLog\<close>, \<open>EventLogLaws\<close>: the event log with its outbox, in memory and in a JSON file
      whose writes may fail; the locale \<open>replay_log\<close> of a log that can be read page by page.
    \<^item> \<open>OutboxConsumer\<close>, \<open>OutboxConsumerLaws\<close>: draining the outbox to a publisher, over the locale
      \<open>outbox_store\<close> of an outbox port.
    \<^item> \<open>AppCommands\<close>: the command catalogue, envelopes and outcomes.
    \<^item> \<open>Programs\<close>, \<open>EventPublishing\<close>, \<open>EventPublishingLaws\<close>: programs that may throw; the domain event
      publisher with its 32-bit hash, the internal event bus, the provider signal publisher.
    \<^item> \<open>WorkerRuntime\<close>, \<open>WorkerRuntimeLaws\<close>: the worker runtime and the handlers that turn a job
      into a command.
    \<^item> \<open>PollingLoop\<close>: the timer loop of the runtimes as a step relation.
    \<^item> \<open>RateLimiter\<close>, \<open>RateLimiterLaws\<close>: the API rate limiter over its own buckets, a memory store or
      Redis, related to a window count by the locale \<open>fixed_window_store\<close>.
    \<^item> \<open>MemoryRepositories\<close>: the in-memory repositories of all aggregates but worker jobs with their
      finders, over the locale \<open>aggregate_repository\<close>.
    \<^item> \<open>IntentStore\<close>: the store of outbound intents, in memory and in a JSON file.
    \<^item> \<open>MessageServices\<close>, \<open>MessageHandlers\<close>: the ports of the message handlers, the active session
      resolver, the message guardrail, and the handlers of \<open>SendTextMessage\<close>, \<open>RetryMessageSend\<close>,
      \<open>CancelMessage\<close> and \<open>ProcessOutboundMessageWork\<close> as programs over the ports.
    \<^item> \<open>MessageHandlersLaws\<close>: a weakest-precondition calculus for programs over the ports; what is
      observed of the state (messages, keys, decisions) as the locale \<open>observed\<close>, the laws of the
      ports as the locale \<open>outbound_ports\<close>, and what every handler keeps, whatever a port answers.
    \<^item> \<open>MessageWorld\<close>, \<open>MessageWorldLaws\<close>: the handlers over the in-memory repositories and intent
      store, beside any queue, publisher and provider; runs of commands, and what becomes of one
      message on each answer of the provider.
    \<^item> \<open>IntentStoreLaws\<close>: what is read back from the intent store.
    \<^item> \<open>MessageRaces\<close>: a cancellation that runs while the send handler awaits the queue.
    \<^item> \<open>OperationIntents\<close>: the stores of group mutations and of webhook operations.
    \<^item> \<open>WebhookSigning\<close>, \<open>WebhookDelivery\<close>, \<open>WebhookRetry\<close>: signing and verifying webhook bodies, the
      transport, the dispatcher runtime with the handler that keeps the delivery, and the handler of
      the retry and redrive commands; \<open>WebhookLaws\<close> and \<open>WebhookDispatch\<close> run them over the durable
      queue and the in-memory deliveries.
    \<^item> \<open>AppQueries\<close>, \<open>DispatcherQueries\<close>, \<open>QueryWorld\<close>: the query catalogue, the query handlers of the
      dispatcher with the items they answer, and the queries over the in-memory repositories.
    \<^item> \<open>GroupMutations\<close>, \<open>GroupMutationLaws\<close>: the handler of the commands that change a group, and what
      it does over the in-memory groups with any publisher.
    \<^item> \<open>DispatcherCommands\<close>, \<open>DispatcherWorld\<close>: the registry of commands, \<open>CreateInstance\<close> and
      \<open>DestroyInstance\<close>; the latter over any worker-job repository, with a provider that may refuse.
    \<^item> \<open>DomainFacts\<close>: further facts of the domain.
    \<^item> \<open>ScenarioInputs\<close>, \<open>Scenarios\<close>, \<open>MoreScenarios\<close>, \<open>LogScenarios\<close>,
      \<open>MessageScenarios\<close>: the concrete inputs of the
      witnesses.

  Conventions.  A string is a list of Latin-1 code units.  A \<open>TypeError\<close> is the left of a
  result, any value the right; a record with an optional field has an option.  A number that is
  checked by the code is a \<open>jsnum\<close> (a rational, an infinity or NaN), afterwards an integer.  Time
  is an argument.  An \<open>async\<close> operation is one step: the operations of two callers do not
  interleave within it, which the PostgreSQL repository ensures with its transactions.

  Parameters.  The order the database gives \<open>ORDER BY id\<close> is an argument \<open>le\<close> of the PostgreSQL
  repository, with no hypothesis.  A URL is the record of what the platform's parser says of it;
  \<open>Date.parse\<close> and SHA-256 are arguments, the latter assumed injective on the bucket keys in use
  where Redis is involved.

  Not modelled: HTTP, SQL text and JSON encoding, metrics, the messaging library, the processes
  that compose the packages.  Every loop of the modelled
  code is structural; \<open>read_pages\<close>, a client that reads the log page by page, has fuel, and one
  page more than there are events is enough.
\<close>



text \<open>
  C2: Outbound messages, composed: over the in-memory repositories, after any sequence of send,
  retry, cancel and process commands, stored intents, saved instances and sessions, with any
  queue, publisher and provider (failing ones included), every message that was handed to the
  provider was, when it was, stored, outbound and processing, under a stored guardrail decision
  that passes.
\<close>

theorem sent_messages_cleared:
  assumes "(request, m, d) \<in> set (ow_sent (world_run en cs (empty_world q l)))"
  shows "\<exists>a g. m = Some a \<and> d = Some g \<and> msg_id a = prq_messageId request \<and>
     msg_direction a = Dir_outbound \<and> msg_status a = Msg_processing \<and>
     msg_guardrailDecisionId a = Some (gd_id g) \<and>
     isGuardrailDecisionPassing (Some g) None = Inr Passed"
proof -
  have "world_fine (world_run en cs (empty_world q l))"
    by (rule seen.kept_fine [OF kept_reached])
  then have sent: "sent_cleared (request, m, d)"
    using assms by (auto simp: world_fine_def list_all_iff)
  then obtain a g where "m = Some a" "d = Some g"
    by (cases m; cases d) auto
  then show ?thesis
    using sent by (auto simp: isGuardrailDecisionPassing_eq allowing_iff)
qed

lemma sent_messages_cleared_witness:
  "\<exists>a g. snd sent_demo_sent = (Some a, Some g) \<and> msg_status a = Msg_processing \<and>
     isGuardrailDecisionPassing (Some g) None = Inr Passed"
proof -
  have "sent_demo_sent \<in> set (ow_sent (world_run sent_demo_environment sent_demo_commands (empty_world [] [])))"
    by (rule sent_demo_sent_in)
  then have "(fst sent_demo_sent, fst (snd sent_demo_sent), snd (snd sent_demo_sent)) \<in>
      set (ow_sent (world_run sent_demo_environment sent_demo_commands (empty_world [] [])))"
    by simp
  from sent_messages_cleared [OF this] show ?thesis
    by (metis prod.collapse)
qed





text \<open>
  C5: Once a work request with an idempotency key was accepted, enqueueing any request with that
  key later, after any history that does not reuse the job id, returns a receipt for the same
  job and changes nothing.
\<close>

theorem enqueue_once:
  assumes "list_all command_ok cs0" "0 < rp_maxAttempts (qw_retryPolicy work)"
    and "enqueue (pg_repository le) now work (durable_reached le timeout cs0) = (Inr rcpt, u)"
    and "list_all command_ok cs" "\<forall>c \<in> set cs. enqueues (snd c) \<noteq> Some (rec_jobId rcpt)"
    and "createIdempotencyKey (qw_idempotencyKey work') = createIdempotencyKey (qw_idempotencyKey work)"
  shows "\<exists>rcpt'. enqueue (pg_repository le) now' work'
       (queue_history (pg_repository le) timeout cs u) =
       (Inr rcpt', queue_history (pg_repository le) timeout cs u) \<and> rec_jobId rcpt' = rec_jobId rcpt"
  by (rule pg_repo.enqueue_idempotent [OF durable_reached_ok [OF assms(1)] assms(2-6)])

lemma enqueue_once_witness:
  "\<exists>rcpt'. enqueue (pg_repository demo_le) 9 (demo_work ''j3'' ''k1'')
       (queue_history (pg_repository demo_le) 30 [(5, Reserve Work_outbound_message)]
         (snd (demo_enqueue demo_start))) =
       (Inr rcpt', queue_history (pg_repository demo_le) 30 [(5, Reserve Work_outbound_message)]
         (snd (demo_enqueue demo_start))) \<and> rec_jobId rcpt' = ''j1''"
  using enqueue_once [OF _ _ demo_accepted,
      of "[(5, Reserve Work_outbound_message)]" "demo_work ''j3'' ''k1''" 9]
  by (simp add: demo_work_def demo_policy_def)

text \<open>
  C6: Sending a text is idempotent: once a send command in a reached state is answered with a
  message, a second send with the same key, after any further commands, is answered with the
  same message and changes nothing, whatever became of the message meanwhile.
\<close>

theorem send_text_once:
  assumes first: "handle_send_text (world_ports en) envelope (world_run en cs (empty_world q l)) = (Inr out, w1)"
    and named: "co_resultRef out = Some i" "resolveInput_send envelope = Inr input"
    and again: "resolveInput_send again = Inr input'"
      "sti_idempotencyKey input' = sti_idempotencyKey input"
  shows "\<exists>m. stored_message (world_run en cs' w1) i = Some m \<and>
     handle_send_text (world_ports en) again (world_run en cs' w1) =
       (Inr (outcomeForExistingMessage again m), world_run en cs' w1) \<and>
     co_resultRef (outcomeForExistingMessage again m) = Some i"
proof -
  let ?k = "sti_idempotencyKey input" and ?w = "world_run en cs' w1"
  have "wp (handle_send_text (world_ports en) envelope)
      (\<lambda>x. outbound.names_key Map.empty ?k x) (\<lambda>_. seen.kept Map.empty) (world_run en cs (empty_world q l))"
    by (rule outbound.wp_handle_send_text [OF kept_reached]) (simp_all add: named(2))
  from wp_ok [OF this first] have w1: "seen.kept Map.empty w1" "recorded_key w1 ?k = Some i"
    using named(1) by (simp_all add: outbound.names_key_def)
  then have "seen.kept [?k \<mapsto> i] w1" by (simp add: seen.kept_def map_le_def)
  then have kept: "seen.kept [?k \<mapsto> i] ?w" by (rule kept_run)
  then have key: "recorded_key ?w ?k = Some i" by (simp add: seen.kept_def map_le_def)
  then obtain m where m: "stored_message ?w i = Some m" "msg_id m = i"
    using outbound.kept_key [OF kept] by blast
  then have "po_findByIdempotencyKey (world_ports en) ?k ?w = (Inr (Some m), ?w)"
    by (simp add: findByIdempotencyKey_seen key)
  then show ?thesis
    using again m by (auto simp: handle_send_text_def)
qed

lemma send_text_once_witness:
  "\<exists>m. stored_message (world_run sent_demo_environment sent_demo_rest (snd sent_demo_queued)) ''msg:uuu'' = Some m \<and>
     fst (handle_send_text (world_ports sent_demo_environment) sent_demo_send
       (world_run sent_demo_environment sent_demo_rest (snd sent_demo_queued))) = Inr (outcomeForExistingMessage sent_demo_send m)"
proof -
  have "handle_send_text (world_ports sent_demo_environment) sent_demo_send
      (world_run sent_demo_environment sent_demo_start (empty_world [] [])) =
      (Inr (commandOutcome sent_demo_send Outcome_queued True False (Some ''msg:uuu'') None), snd sent_demo_queued)"
    using sent_demo_answer by (simp add: sent_demo_queued_def sent_demo_ready_def prod_eq_iff)
  from send_text_once [OF this _ sent_demo_inputs sent_demo_inputs refl, where i = "''msg:uuu''" and cs' = sent_demo_rest]
  show ?thesis by (auto simp: commandOutcome_def createApplicationCommandOutcome_def)
qed



text \<open>
  C8: The receiver of a webhook, for every MAC: after a signature was verified, by any receiver
  history whose clock stays below the end of the tolerance, the signature is that of the body
  under the secret and close enough in time, and presenting it again at any later time is
  refused: as out of tolerance once the tolerance is over, as a replay before, except at exactly
  the last moment of the tolerance, when the replay store has already dropped the key and the
  signature is verified a second time.
\<close>

theorem webhook_replay_window:
  assumes first: "verifyWebhookSignature hmac input (Some (verify_all hmac earlier [])) = (Inr (Verified key), Some store)"
    and stamp: "timestamp_of (vi_timestamp input) = Some timestamp"
    and tol: "assertNonNegativeInteger_tolerance (value_or (vi_tolerance input)
          (num_of defaultWebhookSignatureToleranceMilliseconds)) = Inr tolerance"
    and between: "list_all (\<lambda>i. vi_now i < timestamp + tolerance) others"
  shows "vi_signature input = signWebhookBody hmac (vi_body input) (vi_timestamp input) (vi_secret input) \<and>
     \<bar>vi_now input - timestamp\<bar> \<le> tolerance \<and>
     fst (verifyWebhookSignature hmac (input\<lparr>vi_now := later\<rparr>) (Some (verify_all hmac others store))) =
       Inr (if tolerance < \<bar>later - timestamp\<bar> then Refused Timestamp_out_of_tolerance
            else if later = timestamp + tolerance then Verified key
            else Refused Replay_detected)"
proof -
  obtain t n where v: "timestamp_of (vi_timestamp input) = Some t"
      "assertNonNegativeInteger_tolerance (value_or (vi_tolerance input)
          (num_of defaultWebhookSignatureToleranceMilliseconds)) = Inr n"
      "\<bar>vi_now input - t\<bar> \<le> n"
      "vi_signature input = signWebhookBody hmac (vi_body input) (vi_timestamp input) (vi_secret input)"
      "key = vi_timestamp input @ '':'' @ vi_signature input" "map_of store key = Some (t + n)"
    using first by (rule verified_remembers)
  have same: "t = timestamp" "n = tolerance" using v(1,2) stamp tol by simp_all
  note facts = v(3-5) [unfolded same]
  have kept: "map_of (verify_all hmac others store) key = Some (timestamp + tolerance)"
    by (rule verify_all_keeps [OF v(6) [unfolded same] between])
  have "distinct (map fst store)"
    using verify_distinct [OF verify_all_distinct [of "[]" hmac earlier], of hmac input] first by simp
  then have "fst (replay_has key later (verify_all hmac others store)) \<longleftrightarrow> later < timestamp + tolerance"
    using unexpired_iff [OF verify_all_distinct kept] by (simp add: replay_has_def)
  then obtain s where "replay_has key later (verify_all hmac others store) = (later < timestamp + tolerance, s)"
    by (cases "replay_has key later (verify_all hmac others store)") simp
  then show ?thesis
    using facts stamp tol by (auto simp: verifyWebhookSignature_def Let_def)
qed

lemma webhook_replay_window_witness:
  "fst (verifyWebhookSignature hook_demo_mac hook_demo_signed (Some (verify_all hook_demo_mac [] []))) = Inr (Verified ''1000:v1=s1000.b'') \<and>
   fst (verifyWebhookSignature hook_demo_mac (hook_demo_signed\<lparr>vi_now := 1500\<rparr>)
     (Some (verify_all hook_demo_mac [] (the (snd (verifyWebhookSignature hook_demo_mac hook_demo_signed (Some []))))))) =
       Inr (Verified ''1000:v1=s1000.b'')"
proof -
  have run: "verifyWebhookSignature hook_demo_mac hook_demo_signed (Some (verify_all hook_demo_mac [] [])) =
      (Inr (Verified ''1000:v1=s1000.b''), Some (the (snd (verifyWebhookSignature hook_demo_mac hook_demo_signed (Some [])))))"
    by code_simp
  have "timestamp_of (vi_timestamp hook_demo_signed) = Some 1000"
    "assertNonNegativeInteger_tolerance (value_or (vi_tolerance hook_demo_signed)
       (num_of defaultWebhookSignatureToleranceMilliseconds)) = Inr 500"
    by code_simp+
  from webhook_replay_window [OF run this, of "[]" 1500] run show ?thesis by simp
qed

text \<open>
  C9: reserve never fails on a queue reached by any history: it returns a job whenever, after
  expired leases are taken back, some job of the work type is queued or a retry that has become
  visible, and nothing otherwise.
\<close>

theorem reserve_finds_visible:
  assumes "list_all command_ok cs" "0 \<le> now"
  shows "let tab = dq_repo (durable_reached le timeout cs);
       vis0 = (\<lambda>i. pg_getWorkerJobVisibleAt i tab); jobs0 = (\<lambda>i. pg_load i tab);
       vis = recovered_vis now vis0 jobs0; jobs = recovered_jobs now vis0 jobs0
     in \<exists>a u. reserve (pg_repository le) timeout now t (durable_reached le timeout cs) = (Inr a, u) \<and>
     (a \<noteq> None \<longleftrightarrow> (\<exists>i w. jobs i = Some w \<and> job_workType w = queue_work_type_name t \<and>
        (job_status w = Job_queued \<or> job_status w = Job_retrying \<and> value_or (vis (job_id w)) 0 \<le> now)))"
proof -
  let ?q = "durable_reached le timeout cs"
  have "visibleAtFor (pg_repository le) ?q = (\<lambda>i. pg_getWorkerJobVisibleAt i (dq_repo ?q))"
      "dq_job (pg_repository le) ?q = (\<lambda>i. pg_load i (dq_repo ?q))"
    by (simp_all add: fun_eq_iff pg_visibleAtFor pg_dq_job)
  moreover have "dq_ok (pg_repository le) pg_inv ?q" using assms(1) by (rule durable_reached_ok)
  ultimately show ?thesis
    using pg_repo.reserve_answers [of le ?q now timeout t] assms(2)
    unfolding reservable_def Let_def by (auto; blast)
qed

lemma reserve_finds_visible_witness:
  "\<exists>a u. reserve (pg_repository demo_le) 30 10 Work_outbound_message demo_queue = (Inr a, u)"
  using reserve_finds_visible [OF demo_history_ok, of 10 demo_le 30 Work_outbound_message]
  by (auto simp: Let_def)





text \<open>
  C12: Group mutations are idempotent by their token. Once a command was accepted, the same
  command handled again, at any later time, with the intent expired or gone and any publisher,
  is answered as done, names the same group and changes nothing: the group, the intents and the
  event log are as they were. This holds as well when the first call could not publish its
  events, so the retry that its failed outcome asks for does not publish them: they are lost.
\<close>

theorem group_mutation_once:
  assumes "handle_group_mutation (group_world_ports now publish) name envelope (gs, ms, e) =
      (Inr out, (gs', ms', e'))"
    and "co_accepted out" "stored_ok grp_id gs"
  shows "handle_group_mutation (group_world_ports later republish) name envelope (gs', ms2, e2) =
    (Inr (commandOutcome envelope (successfulOutcomeForGroupMutation name) True False (co_resultRef out) None),
     (gs', ms2, e2))"
proof -
  obtain input actor g where g: "resolveInput_group name envelope = Inr input" "ce_actorRef envelope = Some actor"
      "stored_load (gin_groupId input) gs' = Some g" "grp_status g \<noteq> Group_deleted"
      "hasAction g (gin_actionId input)" "co_resultRef out = Some (grp_id g)"
    using accepted_mutation_leaves [OF assms] by blast
  show ?thesis
    using carried_action_answered [OF g(1-5), of later republish ms2 e2] g(6) by (simp add: group_succeeded_def)
qed

lemma group_mutation_once_witness:
  "\<exists>(out :: command_outcome) gs' (ms' :: (group_mutation, unit) operation_store). co_outcome out = Outcome_failed \<and> co_retryable out \<and>
     handle_group_mutation (group_world_ports 99 (\<lambda>input e. (Inr (Inr []), e))) Cmd_AddGroupMember
       (grp_demo_envelope ''k78999'') (gs', ms', True) =
     (Inr (commandOutcome (grp_demo_envelope ''k78999'') Outcome_accepted True False (co_resultRef out) None),
      (gs', ms', True))"
proof -
  obtain out gs' ms' where run: "handle_group_mutation (group_world_ports 10 grp_demo_publish) Cmd_AddGroupMember
      (grp_demo_envelope ''k78999'') (grp_demo_store, grp_demo_intents, ()) = (Inr out, (gs', ms', ()))"
      "co_accepted out" "co_outcome out = Outcome_failed" "co_retryable out"
    using grp_demo_ran by auto
  from group_mutation_once [OF run(1,2) grp_demo_ok, of 99 "\<lambda>input e. (Inr (Inr []), e)" ms' True] run(3,4)
  show ?thesis
    by - (rule exI [of _ out], rule exI [of _ gs'], rule exI [of _ ms'],
      simp add: successfulOutcomeForGroupMutation_def isMemberMutationCommand_def)
qed

text \<open>
  C13: Releasing a held job for retry either schedules the next attempt after the delay, or,
  when that attempt would exceed the budget, moves the job to the dead letters; a reservation
  that is not held is refused and changes nothing.
\<close>

theorem release_retries_or_buries:
  assumes "list_all command_ok cs" "0 \<le> d"
    and "pg_load (rsv_jobId r) (dq_repo (durable_reached le timeout cs)) = Some w"
    and "isSupportedWorkerJob w"
  shows "(if \<not> holds r w
     then \<exists>e. releaseForRetry (pg_repository le) now r (num_of d) (durable_reached le timeout cs) =
       (Inl e, durable_reached le timeout cs)
     else \<exists>rcpt u w'. releaseForRetry (pg_repository le) now r (num_of d) (durable_reached le timeout cs) =
         (Inr rcpt, u) \<and> pg_load (rsv_jobId r) (dq_repo u) = Some w' \<and>
       (if rsv_attempt r < rp_maxAttempts (job_retryPolicy w)
        then job_status w' = Job_retrying \<and> job_attemptNumber w' = Some (rsv_attempt r + 1) \<and>
          pg_getWorkerJobVisibleAt (rsv_jobId r) (dq_repo u) = Some (now + d)
        else job_status w' = Job_dead \<and>
          map_option dlr_code (job_deadLetterReason w') = Some ''retry_budget_exhausted''))"
proof (cases "holds r w")
  case False
  have "\<exists>e. releaseForRetry (pg_repository le) now r (num_of d) (durable_reached le timeout cs) =
      (Inl e, durable_reached le timeout cs)"
    by (rule pg_repo.releaseForRetry_refused) (use False assms(3) in \<open>auto simp: pg_dq_job\<close>)
  with False show ?thesis by simp
next
  case True
  have w: "dq_job (pg_repository le) (durable_reached le timeout cs) (rsv_jobId r) = Some w"
    using assms(3) by (simp add: pg_dq_job)
  note release = pg_repo.releaseForRetry_holds [OF durable_reached_ok [OF assms(1)] w assms(4) True
      assms(2), of now, unfolded budget_exhausted_def becomes_def]
  show ?thesis
  proof (cases "rsv_attempt r < rp_maxAttempts (job_retryPolicy w)")
    case True
    with release(2) \<open>holds r w\<close> show ?thesis
      by (auto simp: pg_dq_job [of le, symmetric] pg_visibleAtFor [of le, symmetric] rescheduled_def)
  next
    case False
    with release(1) \<open>holds r w\<close> show ?thesis
      by (auto simp: pg_dq_job [of le, symmetric] buried_def)
  qed
qed

lemma release_retries_or_buries_witness:
  "\<exists>e. releaseForRetry (pg_repository demo_le) 5 demo_stale (num_of 0) demo_single = (Inl e, demo_single)"
proof -
  obtain w where "pg_load (rsv_jobId demo_stale) (dq_repo demo_single) = Some w"
      "isSupportedWorkerJob w" "\<not> holds demo_stale w"
    using demo_stale_job by blast
  then show ?thesis
    using release_retries_or_buries [OF demo_single_ok, of 0 demo_stale demo_le 30 w 5] by simp
qed



text \<open>
  C15: A RetryWebhookDelivery command that is queued under a new key writes the job of the
  delivery anew, whoever holds it: over any queue state reached on PostgreSQL the job is
  afterwards queued, visible at once and without attempts, and the acknowledgement of every
  reservation of it that was made before is refused.
\<close>

theorem retry_takes_over_job:
  assumes "list_all command_ok cs" and input: "resolveInput_hook envelope = Inr input" "rhi_mode input = Mode_retry"
    and d: "stored_load (rhi_deliveryId input) (dst_records ds) = Some d" "safe_token (del_id d)"
    and new: "jr_findByIdempotencyKey (pg_repository le) (rhi_idempotencyKey input)
      (dq_repo (durable_reached le timeout cs)) = None"
    and policy: "0 < rp_maxAttempts (del_retryPolicy d)"
    and out: "handle_retry_hook (queue_hook_ports (pg_repository le) now) envelope
        (durable_reached le timeout cs, ds, e) = (Inr out, (q', h))" "co_outcome out = Outcome_queued"
    and r: "rsv_jobId r = del_id d"
  shows "h = (ds, e) \<and> visibleAtFor (pg_repository le) q' (del_id d) = Some now \<and>
     (\<exists>w. pg_load (del_id d) (dq_repo q') = Some w \<and> job_status w = Job_queued \<and> job_attemptNumber w = None) \<and>
     (\<exists>f. acknowledge (pg_repository le) later r q' = (Inl f, q'))"
  using pg_repo.retry_requeues [OF durable_reached_ok [OF assms(1)] input d new policy out, of r later] r
  by (simp add: pg_dq_job)

lemma retry_takes_over_job_witness:
  "\<exists>q' h. snd (handle_retry_hook (queue_hook_ports (pg_repository demo_le) 12) hook_demo_retry
       (durable_reached demo_le 30 hook_demo_second, hook_demo_store Deliv_pending None, ())) = (q', h) \<and>
     visibleAtFor (pg_repository demo_le) q' ''d1'' = Some 12 \<and>
     (\<exists>f. acknowledge (pg_repository demo_le) 13 hook_demo_r1 q' = (Inl f, q'))"
proof -
  have ok: "list_all command_ok hook_demo_second"
    using hook_demo_runs(2) by (simp add: hook_demo_answers_def)
  obtain q' h where run: "handle_retry_hook (queue_hook_ports (pg_repository demo_le) 12) hook_demo_retry
       (durable_reached demo_le 30 hook_demo_second, hook_demo_store Deliv_pending None, ()) =
       (Inr (commandOutcome hook_demo_retry Outcome_queued True False (Some ''d1'') None), (q', h))"
    using hook_demo_retry_answer by (metis prod.collapse)
  have "visibleAtFor (pg_repository demo_le) q' ''d1'' = Some 12 \<and>
     (\<exists>f. acknowledge (pg_repository demo_le) 13 hook_demo_r1 q' = (Inl f, q'))"
    using retry_takes_over_job [OF ok hook_demo_retry_input _ _ _ _ _ run, of "hook_demo_delivery Deliv_pending None" hook_demo_r1 13]
      hook_demo_retry_answer
    by (simp add: hook_demo_ident hook_demo_delivery_def demo_policy_def commandOutcome_def createApplicationCommandOutcome_def)
  then show ?thesis using run by (intro exI [of _ q'] exI [of _ h]) simp
qed

text \<open>
  C16: Where the webhook job and its delivery come apart: a delivery that an earlier attempt
  left delivering, because its worker lost the lease or its transport threw, keeps the old
  attempt number. When the last attempt of the job then asks for a retry, the job dies while the
  delivery is answered as one that will be retried; no job is left to do it.
\<close>

theorem lagging_delivery_stranded:
  assumes "list_all command_ok cs" "0 \<le> now" "0 \<le> delay"
    and "reserve (pg_repository le) timeout now Work_webhook_delivery (durable_reached le timeout cs) =
      (Inr (Some r), u)"
    and "pg_load (rsv_jobId r) (dq_repo u) = Some w"
    and "stored_load (rsv_jobId r) (dst_records ds) = Some d" "del_id d = rsv_jobId r"
    and "safe_token (rsv_jobId r)" "del_retryPolicy d = job_retryPolicy w"
    and lags: "del_status d = Deliv_delivering" "del_attemptNumber d = Some n" "0 < n" "n < rsv_attempt r"
    and last: "rsv_attempt r = rp_maxAttempts (job_retryPolicy w)"
    and "inner r c e = (Inr work, e')" "safe_hook work" and again: "hr_outcome work = Hook_retry"
  shows "\<exists>out q' ds' w' d'. dispatch_stored le timeout now delay inner c (durable_reached le timeout cs, ds, e) =
       (Inr out, (q', ds', e')) \<and> di_outcome out = Dispatch_retry_scheduled \<and>
     pg_load (rsv_jobId r) (dq_repo q') = Some w' \<and> job_status w' = Job_dead \<and>
     stored_load (rsv_jobId r) (dst_records ds') = Some d' \<and> del_status d' = Deliv_retrying \<and>
     del_attemptNumber d' = Some (n + 1)"
proof -
  have next_number: "next_attempt (delivering_of r d) = n + 1" using lags by (simp add: next_attempt_def)
  obtain out q' where run: "dispatch_stored le timeout now delay inner c (durable_reached le timeout cs, ds, e) =
       (Inr out, (q', save_into (delivery_after work r d) ds, e'))"
     "di_outcome out = hook_reported (hr_outcome (hook_answer work (delivering_of r d)))"
     "pg_load (rsv_jobId r) (dq_repo q') = Some (hook_job (hook_answer work (delivering_of r d)) r w)"
    using dispatch_stored_settles [where inner = inner and c = c and e = e, OF assms(1-9) _ _ assms(15,16)] lags(1-3) by auto
  have "stored_load (rsv_jobId r) (dst_records (save_into (delivery_after work r d) ds)) =
      Some (delivery_after work r d)"
    using assms(7) by (simp add: save_into_def delivery_after_id)
  with run assms(9) lags(4) last again show ?thesis
    by (intro exI [of _ out] exI [of _ q'] exI [of _ "save_into (delivery_after work r d) ds"]
        exI [of _ "hook_job (hook_answer work (delivering_of r d)) r w"] exI [of _ "delivery_after work r d"])
      (simp add: hook_answer_outcome hook_job_status delivery_after_status delivery_after_attempt next_number)
qed

lemma lagging_delivery_stranded_witness:
  "\<exists>out q' ds' w' d'. dispatch_stored demo_le 30 50 5 (hook_demo_inner Hook_retry) hook_demo_context
       (durable_reached demo_le 30 hook_demo_second, hook_demo_store Deliv_delivering (Some 1), ()) =
       (Inr out, (q', ds', ())) \<and>
     pg_load ''d1'' (dq_repo q') = Some w' \<and> job_status w' = Job_dead \<and>
     stored_load ''d1'' (dst_records ds') = Some d' \<and> del_status d' = Deliv_retrying"
proof -
  obtain u w where uw: "hook_demo_reserve hook_demo_second 50 = (Inr (Some hook_demo_r2), u)"
      "pg_load ''d1'' (dq_repo u) = Some w" "job_retryPolicy w = demo_policy" "list_all command_ok hook_demo_second"
    using hook_demo_reserved [OF hook_demo_runs(2)] by blast
  have "hook_demo_inner Hook_retry hook_demo_r2 hook_demo_context () = (Inr (hook_demo_answer Hook_retry), ())"
    by (simp add: hook_demo_inner_def)
  from lagging_delivery_stranded [where inner = "hook_demo_inner Hook_retry" and c = hook_demo_context and e = "()", OF uw(4) _ _ uw(1) _ _ _ _ _ _ _ _ _ _ this hook_demo_safe,
      of 5 w "hook_demo_store Deliv_delivering (Some 1)" "hook_demo_delivery Deliv_delivering (Some 1)" 1] uw(2,3)
  show ?thesis
    by (auto simp: hook_demo_ident hook_demo_delivery_def hook_demo_answer_def demo_policy_def)
qed

text \<open>
  C17: A cancellation can be lost: when it runs while the send handler awaits the queue, the
  send handler still answers queued for the same message and leaves it queued, so that it will
  be sent; the cancellation is on record as done, and repeating it with its key is answered
  accepted without changing anything.
\<close>

theorem cancel_during_enqueue_lost:
  assumes "publishes en" "resolveInput_send envelope = Inr input"
    and "recorded_key w (sti_idempotencyKey input) = None"
    and "handle_send_text (world_ports en) envelope w = (Inr out, w1)" "co_outcome out = Outcome_queued"
    and "resolveInput_cancel cancel = Inr cinput" "co_resultRef out = Some (mci_messageId cinput)"
    and "recorded_key w (mci_idempotencyKey cinput) = None"
    and "mci_idempotencyKey cinput \<noteq> sti_idempotencyKey input"
  shows "\<exists>out' w' m c. handle_send_text (cancelling en cancel) envelope w = (Inr out', w') \<and>
     co_outcome out' = Outcome_queued \<and> co_resultRef out' = co_resultRef out \<and>
     stored_message w' (mci_messageId cinput) = Some m \<and> msg_status m = Msg_queued \<and>
     handle_cancel_message (world_ports en) cancel w' = (Inr c, w') \<and> co_outcome c = Outcome_accepted"
  by (rule cancel_during_enqueue [OF assms])

lemma cancel_during_enqueue_lost_witness:
  "\<exists>out' w' m. handle_send_text (cancelling sent_demo_environment sent_demo_cancel) sent_demo_send sent_demo_ready = (Inr out', w') \<and>
     stored_message w' ''msg:uuu'' = Some m \<and> msg_status m = Msg_queued"
proof -
  have "handle_send_text (world_ports sent_demo_environment) sent_demo_send sent_demo_ready =
      (Inr (commandOutcome sent_demo_send Outcome_queued True False (Some ''msg:uuu'') None), snd sent_demo_queued)"
    using sent_demo_answer by (simp add: sent_demo_queued_def prod_eq_iff)
  from cancel_during_enqueue_lost [OF sent_demo_publishes sent_demo_inputs _ this _ sent_demo_cancel_input]
  show ?thesis
    by (auto simp: sent_demo_no_keys commandOutcome_def createApplicationCommandOutcome_def)
qed

text \<open>
  C18: The queries that list aggregates status by status answer with each stored aggregate
  exactly once: the worker jobs, the subscriptions and the deliveries all of them, the chats and
  contacts those that are not deleted, and the messages those of the instance asked for. No
  aggregate is lost or listed twice, whatever its status.
\<close>

theorem listings_exact:
  "(qen_name envelope = Qry_ListWorkerJobs \<longrightarrow>
     map_option mset (answered_items (fst (executeQuery (world_queries h) envelope w))) =
     Some (image_mset (Item_job \<circ> workerJobQueryItem) (mset (mj_records (qs_jobs w))))) \<and>
   (qen_name envelope = Qry_ListChats \<longrightarrow>
     map_option mset (answered_items (fst (executeQuery (world_queries h) envelope w))) =
     Some (image_mset (Item_chat \<circ> chatQueryItem)
       (filter_mset (\<lambda>c. chat_status c \<noteq> Chat_deleted) (mset (stored_list (qs_chats w)))))) \<and>
   (qen_name envelope = Qry_ListContacts \<longrightarrow>
     map_option mset (answered_items (fst (executeQuery (world_queries h) envelope w))) =
     Some (image_mset (Item_contact \<circ> contactQueryItem)
       (filter_mset (\<lambda>c. con_status c \<noteq> Contact_deleted) (mset (stored_list (qs_contacts w)))))) \<and>
   (qen_name envelope = Qry_ListWebhookSubscriptions \<longrightarrow>
     map_option mset (answered_items (fst (executeQuery (world_queries h) envelope w))) =
     Some (image_mset (Item_subscription \<circ> webhookSubscriptionQueryItem)
       (mset (stored_list (sst_records (qs_subscriptions w)))))) \<and>
   (qen_name envelope = Qry_ListWebhookDeliveries \<longrightarrow>
     map_option mset (answered_items (fst (executeQuery (world_queries h) envelope w))) =
     Some (image_mset (Item_delivery \<circ> webhookDeliveryQueryItem)
       (mset (stored_list (dst_records (qs_deliveries w)))))) \<and>
   (qen_name envelope = Qry_ListInstanceMessages \<longrightarrow> qen_targetRef envelope = Some target \<longrightarrow>
     map_option mset (answered_items (fst (executeQuery (world_queries h) envelope w))) =
     Some (image_mset (Item_message \<circ> messageQueryItem)
       (filter_mset (\<lambda>m. msg_instanceId m = target) (mset (stored_list (mst_records (qs_messages w)))))))"
  by (simp add: executeQuery_def listings_items)

lemma listings_exact_witness:
  "map_option mset (answered_items (fst (executeQuery (world_queries ''h'')
     (read_demo_envelope Qry_ListWorkerJobs) read_demo_world))) =
   Some {#Item_job (workerJobQueryItem read_demo_job)#} \<and>
   map_option mset (answered_items (fst (executeQuery (world_queries ''h'')
     (read_demo_envelope Qry_ListInstanceMessages) read_demo_world))) = Some {#}"
  using listings_exact [of "read_demo_envelope Qry_ListWorkerJobs" "''h''" read_demo_world]
    listings_exact [of "read_demo_envelope Qry_ListInstanceMessages" "''h''" read_demo_world "''i1''"]
  by (simp add: read_demo_envelope_def read_demo_world_def stored_list_def)



text \<open>
  C20: canSendMessage never throws and passes exactly when the type is supported, the scope is a
  single message, the session is active without pending recovery, a guardrail decision
  explicitly allows, the provider supports the type, and any needed media is of that type and
  processed or attached.
\<close>

theorem send_permission:
  "\<exists>r. canSendMessage input = Inr r \<and>
     (r = Passed \<longleftrightarrow>
       (\<exists>t s d p. csi_messageType input = message_type_name t \<and>
          csi_intentScope input = Scope_single_message \<and>
          csi_session input = Some s \<and> sess_status s = Sess_active \<and> \<not> sess_requiresRecovery s \<and>
          csi_guardrailDecision input = Some d \<and> gd_outcome d = Some Guardrail_allow \<and>
          gd_status d = Guard_passed \<and>
          csi_providerProfile input = Some p \<and> pp_status p \<in> {Prov_supported, Prov_degraded} \<and>
          t \<in> set (pp_supportedMessageTypes p) \<and>
          (t = Type_text \<or> (\<exists>m. csi_mediaAsset input = Some m \<and>
             media_category_name (ma_category m) = message_type_name t \<and>
             ma_status m \<in> {Asset_processed, Asset_attached}))))"
proof -
  obtain r where r: "canSendMessage input = Inr r" using canSendMessage_answers by blast
  have "r = Passed \<longleftrightarrow> (\<exists>t. csi_messageType input = message_type_name t \<and> send_permitted input t)"
    using canSendMessage_passes [of input] r by simp
  then show ?thesis
    using r
    by (cases "csi_session input"; cases "csi_guardrailDecision input")
      (auto simp: send_permitted_def session_usable_def guardrail_passing_def provider_sends_def
        provider_available_def media_ready_def media_matches_def)
qed

text \<open>
  C21: Whatever operations are attempted on an outbound message intent, it is past its
  evaluation (queued, processing, sent, delivered or read) only with a guardrail decision
  recorded on it.
\<close>

theorem outbound_needs_guardrail:
  assumes "needs_guardrail (msg_status (history message_step cs (createOutboundMessageIntent input)))"
  shows "msg_guardrailDecisionId (history message_step cs (createOutboundMessageIntent input)) \<noteq> None"
proof -
  have "message_wf (history message_step cs (createOutboundMessageIntent input))"
    by (rule message_history_wf [OF message_wf_created(1)])
  then show ?thesis using assms by (simp add: message_wf_def)
qed

lemma outbound_needs_guardrail_witness:
  "msg_guardrailDecisionId (history message_step [AcceptMessage ''g'', QueueMessage]
     (createOutboundMessageIntent \<lparr>mi_id = ''m'', mi_instanceId = ''i'', mi_type = Type_text,
        mi_mediaId = None, mi_retentionPolicy = None\<rparr>)) \<noteq> None"
  by (rule outbound_needs_guardrail) code_simp

text \<open>
  C22: An inbound message is never evaluated, queued, processed or sent, whatever operations are
  attempted on it.
\<close>

theorem inbound_never_sent:
  assumes "createInboundMessage input = Inr m"
  shows "\<not> needs_guardrail (msg_status (history message_step cs m))"
proof -
  let ?n = "history message_step cs m"
  have "message_wf ?n" by (rule message_history_wf [OF message_wf_created(2) [OF assms]])
  moreover have "msg_direction ?n = Dir_inbound"
    using assms
    by (auto simp: message_history_direction createInboundMessage_def baseMessage_def result_simps)
  ultimately show ?thesis by (simp add: message_wf_def)
qed

lemma inbound_never_sent_witness:
  "\<not> needs_guardrail (msg_status (history message_step [QueueMessage, MarkMessageSent]
     (projr (createInboundMessage \<lparr>mi_id = ''m'', mi_instanceId = ''i'', mi_type = Type_text,
        mi_mediaId = None, mi_retentionPolicy = None\<rparr>))))"
  by (rule inbound_never_sent
      [of "\<lparr>mi_id = ''m'', mi_instanceId = ''i'', mi_type = Type_text,
        mi_mediaId = None, mi_retentionPolicy = None\<rparr>"])
    (simp add: createInboundMessage_def)

text \<open>
  C23: A history of message operations, failing ones included, follows the transition table,
  never returns to an earlier status, and only appends the message's own events.
\<close>

theorem message_history_forward:
  "follows messageTransitions (msg_status m) (msg_status (history message_step cs m)) \<and>
   (msg_status (history message_step cs m) = msg_status m \<or>
      message_rank (msg_status m) < message_rank (msg_status (history message_step cs m))) \<and>
   (\<exists>es. msg_domainEvents (history message_step cs m) = msg_domainEvents m @ es \<and>
      list_all (own_event Agg_Message (msg_id m)) es)"
  using message.history_status [of m cs] message.history_events [of cs m]
    message.follows_rank [OF message.history_status [of m cs]]
  by auto

text \<open>
  C24: Read as a map from JIDs to roles, the member list is changed by the four membership
  operations exactly as a map update: add a new key, remove one that is not the owner's, set a
  non-owner's role to admin or member.
\<close>

theorem group_roles_as_map:
  "(addGroupMember g m a = Inr g1 \<longrightarrow>
      role_of g (mem_jid m) = None \<and> role_of g1 = (role_of g)(mem_jid m \<mapsto> mem_role m)) \<and>
   (removeGroupMember g j a = Inr g2 \<longrightarrow>
      role_of g j \<notin> {None, Some Role_owner} \<and> role_of g2 = (role_of g)(j := None)) \<and>
   (promoteGroupMember g j a = Inr g3 \<longrightarrow>
      role_of g j \<noteq> Some Role_owner \<and> role_of g3 = (role_of g)(j \<mapsto> Role_admin)) \<and>
   (demoteGroupMember g j a = Inr g4 \<longrightarrow>
      role_of g j \<noteq> Some Role_owner \<and> role_of g4 = (role_of g)(j \<mapsto> Role_member))"
  using addGroupMember_role [of g m a g1] removeGroupMember_role [of g j a g2]
    promoteGroupMember_role [of g j a g3] demoteGroupMember_role [of g j a g4]
  by auto

lemma group_roles_as_map_witness:
  "role_of (projr (addGroupMember demo_group demo_member demo_action)) (mem_jid demo_member) =
     Some (mem_role demo_member)"
proof -
  have "addGroupMember demo_group demo_member demo_action =
      Inr (projr (addGroupMember demo_group demo_member demo_action))" by code_simp
  then show ?thesis
    using group_roles_as_map [of demo_group demo_member demo_action
        "projr (addGroupMember demo_group demo_member demo_action)"] by simp
qed



text \<open>
  C26: When the in-memory provider starts over a repository with no queued job, and the first
  retrying job it adopts is scheduled for its last attempt, then every reservation of that work
  type fails and changes nothing: the attempt is counted once more on adoption, so it exceeds
  the budget, and the job stays at the head.
\<close>

theorem restart_blocks_exhausted:
  assumes "jr_findByStatus repo Job_queued r = []"
    and "jr_findByStatus repo Job_retrying r = w # ws"
    and "job_workType w = queue_work_type_name t"
    and "job_attemptNumber w = Some (rp_maxAttempts (job_retryPolicy w))"
    and "jr_load repo (job_id w) r = Some w" "started \<le> now"
  shows "\<exists>f s. snd (recoverVisibleJobs_mq repo started (memory_empty r)) = s \<and>
     reserve_mq repo timeout now t s = (Inl f, s)"
proof -
  obtain m u zs where u: "recoverVisibleJobs_mq repo started (memory_empty r) = (Inr m, u)" "mq_repo u = r"
      "mq_entries u = (job_id w, adopted_entry started w t) # zs"
      "\<forall>(i, e) \<in> set (mq_entries u). qe_state e = Entry_available"
    using recoverVisibleJobs_mq_fresh [OF assms(1-3)] by blast
  have "\<exists>f. reserve_mq repo timeout now t u = (Inl f, u)"
    by (rule reserve_mq_exhausted_head [OF u(3,4), where w = w])
      (simp_all add: adopted_entry_def assms(4-6) u(2))
  then show ?thesis using u(1) by auto
qed

lemma restart_blocks_exhausted_witness:
  "\<exists>f s. snd (recoverVisibleJobs_mq mem_repository 0 (memory_empty mq_demo_store)) = s \<and>
     reserve_mq mem_repository 30 5 Work_outbound_message s = (Inl f, s)"
  by (rule restart_blocks_exhausted [OF mq_demo_store_facts]) simp_all



text \<open>
  C28: When time does not go backwards, the limiter that starts empty allows a request exactly
  when fewer than the limit of its endpoint class have been allowed so far under its bucket key
  in its window.
\<close>

theorem limiter_exact:
  assumes "0 < lo_windowMilliseconds opts" "sorted (map fst rs)"
    and "i < length rs" "rs ! i = (now, request)"
    and "ds = fst (run_checks (check_local opts) rs \<lparr>ll_buckets = [], ll_descriptors = []\<rparr>)"
  shows "is_allowed (ds ! i) \<longleftrightarrow>
     length (filter (\<lambda>((earlier, other), d). is_allowed d \<and>
         createRateLimitBucketKey (createRateLimitBucketDescriptor other) =
           createRateLimitBucketKey (createRateLimitBucketDescriptor request) \<and>
         getWindowStart earlier (lo_windowMilliseconds opts) = getWindowStart now (lo_windowMilliseconds opts))
       (zip (take i rs) (take i ds))) < limitFor opts (rr_endpointClass request)"
proof -
  have "stored_count [] = (\<lambda>_ _. 0)" by (simp add: stored_count_def fun_eq_iff)
  then have "ds = fst (run_checks (window_check opts) rs (\<lambda>_ _. 0))"
    using assms(5) by (simp add: run_local_eq)
  then show ?thesis
    using window_allows [OF assms(1-4)] by (simp add: admitted_def request_key_def)
qed

lemma limiter_exact_witness:
  "\<not> is_allowed (fst (run_checks (check_local limiter_demo) limiter_demo_requests
     \<lparr>ll_buckets = [], ll_descriptors = []\<rparr>) ! 2)"
proof -
  let ?ds = "fst (run_checks (check_local limiter_demo) limiter_demo_requests
     \<lparr>ll_buckets = [], ll_descriptors = []\<rparr>)"
  have "\<not> length (filter (\<lambda>((earlier, other), d). is_allowed d \<and>
         createRateLimitBucketKey (createRateLimitBucketDescriptor other) =
           createRateLimitBucketKey (createRateLimitBucketDescriptor limiter_demo_request) \<and>
         getWindowStart earlier (lo_windowMilliseconds limiter_demo) =
           getWindowStart 9 (lo_windowMilliseconds limiter_demo))
       (zip (take 2 limiter_demo_requests) (take 2 ?ds)))
      < limitFor limiter_demo (rr_endpointClass limiter_demo_request)"
    by code_simp
  moreover have "0 < lo_windowMilliseconds limiter_demo" "sorted (map fst limiter_demo_requests)"
      "2 < length limiter_demo_requests" "limiter_demo_requests ! 2 = (9, limiter_demo_request)"
    by (simp_all add: limiter_demo_def limiter_demo_requests_def)
  ultimately show ?thesis using limiter_exact [of limiter_demo limiter_demo_requests 2] by blast
qed


text \<open>
  C30: Reading the event log page by page, each page from the last cursor of the one before,
  ends after at most one more page than there are retained events and returns all of them in
  order, whatever positive page size is used and whatever was appended and published before.
\<close>

theorem replay_terminates_complete:
  assumes "0 < limit" "0 < n" "s = log_run date_ok limit calls createInMemoryEventLogStore"
    and "length (el_events (ls_state s)) < pages"
  shows "read_pages replayEvents pages (num_of n) None s = Some (el_events (ls_state s))"
proof -
  have "log_ok (ls_state s)"
    using log_ok_run [of createInMemoryEventLogStore] log_ok_empty assms(1,3)
    by (simp add: createInMemoryEventLogStore_def)
  then show ?thesis by (rule memory_log.read_pages_all [OF _ assms(2,4)])
qed

lemma replay_terminates_complete_witness:
  "map pe_id (the (read_pages replayEvents 4 (num_of 1) None log_demo)) = [''e1'', ''e2'', ''e3'']"
proof -
  have "read_pages replayEvents 4 (num_of 1) None log_demo = Some (el_events (ls_state log_demo))"
    by (rule replay_terminates_complete [where limit = 10 and calls = log_demo_calls
          and date_ok = "\<lambda>_. True"]) (simp_all add: log_demo_reached log_demo_events(2))
  then show ?thesis by (simp add: log_demo_events(1))
qed

text \<open>
  C31: A cursor the event log ever issued stays usable: replaying from it later, after any
  appends and publications, returns exactly the events recorded after it, up to the limit, or,
  when its event is no longer retained, says that the cursor has expired and returns nothing; it
  never skips an event silently.
\<close>

theorem replay_after_cursor:
  assumes "0 < limit" "0 < n" "s = log_run date_ok limit calls createInMemoryEventLogStore"
    and "i < length (outbox_entries (ls_state s))" "outbox_entries (ls_state s) ! i = (eventId, c)"
    and "s' = log_run date_ok limit calls' s" "el_nextSequence (ls_state s') \<le> max_safe_integer"
  shows "\<exists>r. replayEvents \<lparr>rq_cursor = Some c, rq_limit = num_of n\<rparr> s' = Inr r \<and>
    (if c \<in> pe_cursor ` set (el_events (ls_state s'))
     then rp_cursorStatus r = Cursor_ok \<and>
       map event_entry (rp_events r) = take (nat n) (drop (Suc i) (outbox_entries (ls_state s')))
     else rp_cursorStatus r = Cursor_expired \<and> rp_events r = [])"
proof -
  have "log_ok (ls_state s)"
    using log_ok_run [of createInMemoryEventLogStore] log_ok_empty assms(1,3)
    by (simp add: createInMemoryEventLogStore_def)
  then have ok: "log_ok (ls_state s')" unfolding assms(6) by (rule log_ok_run [OF _ assms(1)])
  obtain more where "outbox_entries (ls_state s') = outbox_entries (ls_state s) @ more"
    using outbox_entries_run [of date_ok limit calls' s] unfolding assms(6) by blast
  then have "i < length (outbox_entries (ls_state s'))" "outbox_entries (ls_state s') ! i = (eventId, c)"
    using assms(4,5) by (simp_all add: nth_append)
  then show ?thesis by (rule replay_resumes [OF ok assms(7,2)])
qed

lemma replay_after_cursor_witness:
  "\<exists>r. replayEvents \<lparr>rq_cursor = Some ''eventlog:1'', rq_limit = num_of 5\<rparr> log_demo = Inr r \<and>
     rp_cursorStatus r = Cursor_ok \<and>
     map event_entry (rp_events r) = [(''e2'', ''eventlog:2''), (''e3'', ''eventlog:3'')]"
  using replay_after_cursor [where limit = 10 and n = 5 and date_ok = "\<lambda>_. True" and calls = log_demo_calls
      and s = log_demo and i = 0 and eventId = "''e1''" and c = "''eventlog:1''" and calls' = "[]"
      and s' = log_demo]
  by (auto simp: log_demo_reached log_demo_facts)



text \<open>
  C33: When an append to the JSON event log fails to write, it reports a failure, but the same
  append asked for again is answered as recorded, with nothing written: the file still lacks the
  event.
\<close>

theorem failed_append_masked:
  assumes "fresh_id input (ls_state s)"
    and "createPlatformEventRecord date_ok
      (event_at input (cursorFromSequence (el_nextSequence (ls_state s)))) = Inr e"
    and "w \<noteq> Written" "0 < limit"
  shows "\<exists>f s1. appendEvent date_ok (write_json w) limit input s = (Inl f, s1) \<and>
     appendEvent date_ok persist limit input s1 = (Inr e, s1) \<and>
     read_json (ls_disk s1) = read_json (ls_disk s)"
  using failed_write_masked [OF assms] by (metis prod.collapse)

lemma failed_append_masked_witness:
  "\<exists>f s1. appendEvent (\<lambda>_. True) (write_json Write_failed) 10 (log_demo_input ''e1'')
      (createDurableJsonEventLogStore \<lparr>jf_file = None, jf_temporary = None\<rparr>) = (Inl f, s1) \<and>
     appendEvent (\<lambda>_. True) (write_json Written) 10 (log_demo_input ''e1'') s1 =
       (Inr (event_at (log_demo_input ''e1'') ''eventlog:1''), s1) \<and>
     read_json (ls_disk s1) = emptyState"
  using failed_append_masked [of "log_demo_input ''e1''"
      "createDurableJsonEventLogStore \<lparr>jf_file = None, jf_temporary = None\<rparr>" "\<lambda>_. True" _ Write_failed 10]
  by (auto simp: createDurableJsonEventLogStore_def read_json_def emptyState_def fresh_id_def log_demo_record)

text \<open>
  C34: Draining the outbox of the event log to the line publisher: after enough drains of a
  batch no record is pending, and the lines written are the pending events, each once and in the
  order they were recorded.
\<close>

theorem outbox_drained:
  assumes "0 < limit" "s = log_run date_ok limit calls createInMemoryEventLogStore"
    and "pending = filter (\<lambda>r. ob_status r = Outbox_pending) (el_outbox (ls_state s))"
    and "length pending \<le> rounds * nat batchSize"
    and "w = drain_times (log_outbox_port persist_nothing) (line_publisher iso_now) iso_now batchSize c rounds (s, [])"
  shows "(\<forall>r \<in> set (el_outbox (ls_state (fst w))). ob_status r = Outbox_published) \<and>
     map pl_eventId (snd w) = map ob_eventId pending"
proof -
  have "log_ok (ls_state s)"
    using log_ok_run [of createInMemoryEventLogStore] log_ok_empty assms(1,2)
    by (simp add: createInMemoryEventLogStore_def)
  then have "filter (\<lambda>r. ob_status r = Outbox_pending) (el_outbox (ls_state (fst w))) = [] \<and>
      map pl_eventId (snd w) = map ob_eventId pending"
    using memory_lines.accepted_drains [of "(s, [])" iso_now iso_now batchSize c rounds] assms(3-5)
    by simp
  then show ?thesis by (metis (mono_tags, lifting) filter_empty_conv outbox_status.exhaust)
qed

lemma outbox_drained_witness:
  "map pl_eventId (snd (drain_times (log_outbox_port persist_nothing) (line_publisher (\<lambda>_. ''t''))
      (\<lambda>_. ''t'') 2 log_demo_context 2 (log_demo, []))) = [''e1'', ''e2'', ''e3'']"
  using conjunct2 [OF outbox_drained [OF _ log_demo_reached(1) [symmetric] refl _ refl,
      of 2 2 "\<lambda>_. ''t''" log_demo_context]]
  by (simp add: log_demo_pending log_demo_length del: drain_times.simps)

text \<open>
  C35: The polling loop, as long as it is not started again while a stop waits for the run in
  flight: there is never more than one armed timer or run, exactly one while it runs, and no
  timer once it is stopped.
\<close>

theorem loop_single_run:
  assumes "orderly s"
  shows "length (pl_armed s) + length (pl_active s) \<le> 1 \<and>
     (pl_running s \<longrightarrow> length (pl_armed s) + length (pl_active s) = 1) \<and>
     (\<not> pl_running s \<longrightarrow> pl_armed s = [])"
  by (rule loop_ok_single [OF loop_ok_orderly [OF assms]])

lemma loop_single_run_witness:
  "length (pl_armed (stop (timer_fires 0 (start polling_start)))) +
     length (pl_active (stop (timer_fires 0 (start polling_start)))) \<le> 1"
proof -
  have "orderly (start polling_start)"
    by (rule orderly_next [OF orderly_init orderly_step.intros(1)]) (simp add: polling_start_def)
  then have "orderly (timer_fires 0 (start polling_start))"
    by (rule orderly_next [OF _ orderly_step.intros(3)])
      (simp add: polling_start_def start_def schedule_def)
  then have "orderly (stop (timer_fires 0 (start polling_start)))"
    by (rule orderly_next [OF _ orderly_step.intros(2)])
  then show ?thesis using loop_single_run by blast
qed

text \<open>
  C36: Publishing the new events of an aggregate into the event log, with ids not recorded yet:
  every event after the base count is appended once, in order, under its deterministic id, and
  publishing the same input again while they are retained returns the same records and changes
  nothing.
\<close>

theorem publish_records_events:
  assumes "0 < limit" "s = log_run date_ok limit calls createInMemoryEventLogStore" "\<forall>w. date_ok (iso_now w)"
    and "k = clampBaseEventCount (pi_baseEventCount input) (length (pi_aggregateEvents input))"
    and "es = drop k (pi_aggregateEvents input)"
    and "ids = map (\<lambda>(e, i). createDeterministicEventId (pi_executionRef input) e i) (zip es [k..<k + length es])"
    and "set ids \<inter> set (map ob_eventId (el_outbox (ls_state s))) = {}"
  shows "\<exists>pub s'. publishNewEvents (log_append date_ok persist_nothing limit) iso_now input s = (Inr (Inr pub), s') \<and>
     map fst pub = es \<and> map (pe_id \<circ> snd) pub = ids \<and>
     map ob_eventId (el_outbox (ls_state s')) = map ob_eventId (el_outbox (ls_state s)) @ ids \<and>
     (set (map snd pub) \<subseteq> set (el_events (ls_state s')) \<longrightarrow>
        publishNewEvents (log_append date_ok persist_nothing limit) iso_now input s' = (Inr (Inr pub), s'))"
proof -
  have ids: "event_ids (pi_executionRef input) k es = ids"
    unfolding assms(6) by (rule event_ids_zip)
  have "log_ok (ls_state s)"
    using log_ok_run [of createInMemoryEventLogStore] log_ok_empty assms(1,2)
    by (simp add: createInMemoryEventLogStore_def)
  then obtain pub s' where pub: "publish_from (log_append date_ok persist_nothing limit) iso_now
        (pi_executionRef input) (pi_context input) k es [] s = (Inr (Inr pub), s')"
      "map fst pub = es" "map (pe_id \<circ> snd) pub = ids" "log_ok (ls_state s')"
      "map ob_eventId (el_outbox (ls_state s')) = map ob_eventId (el_outbox (ls_state s)) @ ids"
    using publish_fresh [of s limit date_ok iso_now "pi_executionRef input" k es "pi_context input" "[]"]
      assms(1,3,7) ids by auto
  have "publish_from (log_append date_ok persist_nothing limit) iso_now
        (pi_executionRef input) (pi_context input) k es [] s' = (Inr (Inr pub), s')"
    if "set (map snd pub) \<subseteq> set (el_events (ls_state s'))"
    using publish_known [OF pub(4,2), of "pi_executionRef input" k date_ok persist_nothing limit iso_now
        "pi_context input" "[]"] that pub(3) ids by simp
  with pub show ?thesis unfolding publishNewEvents_def Let_def assms(4,5) by auto
qed

lemma publish_records_events_witness:
  "\<exists>pub s'. publishNewEvents (log_append (\<lambda>_. True) persist_nothing 10) (\<lambda>_. ''t'') publish_demo log_demo =
      (Inr (Inr pub), s') \<and> map fst pub = pi_aggregateEvents publish_demo"
  using publish_records_events [where limit = 10 and s = log_demo and date_ok = "\<lambda>_. True"
      and calls = log_demo_calls and iso_now = "\<lambda>_. ''t''" and input = publish_demo and k = 0
      and es = "pi_aggregateEvents publish_demo"
      and ids = "[createDeterministicEventId ''r'' publish_demo_event 0]"]
  by (auto simp: log_demo_reached publish_demo_facts)



text \<open>
  C38: The action token of a group mutation has 32 bits: a second command for the same group
  with another idempotency key whose token happens to be the same is answered as done after the
  first was accepted, although nothing of it was done.
\<close>

theorem group_mutation_collision:
  assumes "handle_group_mutation (group_world_ports now publish) name envelope (gs, ms, e) =
      (Inr out, (gs', ms', e'))"
    and "co_accepted out" "stored_ok grp_id gs"
    and "ce_name second = name" "ce_targetRef second = ce_targetRef envelope"
    and "ce_safeInputRef second = Some ref" "createGroupMutationIntentRef ref = Inr intentRef"
    and "ce_actorRef second = Some operator"
    and "ce_targetRef envelope = Some target" "ce_idempotencyKey envelope = Some key"
    and "ce_idempotencyKey second = Some other"
    and "action_token name target other = action_token name target key"
  shows "handle_group_mutation (group_world_ports later publish) name second (gs', ms', e') =
    (Inr (commandOutcome second (successfulOutcomeForGroupMutation name) True False (co_resultRef out) None),
     (gs', ms', e'))"
proof -
  obtain input actor g where g: "resolveInput_group name envelope = Inr input"
      "stored_load (gin_groupId input) gs' = Some g" "grp_status g \<noteq> Group_deleted"
      "hasAction g (gin_actionId input)" "co_resultRef out = Some (grp_id g)"
    using accepted_mutation_leaves [OF assms(1-3)] by blast
  have k: "createDomainIdentity target ''GroupId'' = Inr (gin_groupId input)"
      "createDomainIdentity (action_token name target key) ''GroupActionId'' = Inr (gin_actionId input)"
    by (rule resolveInput_group_Inr [OF g(1)]; use assms(9,10) in simp)+
  have "resolveInput_group name second = Inr (input\<lparr>gin_intentRef := intentRef\<rparr>)"
    using assms(4-12) k by (simp add: resolveInput_group_def)
  from carried_action_answered [OF this assms(8), of gs' g later publish ms' e'] g(2-5)
  show ?thesis by (simp add: group_succeeded_def)
qed

lemma group_mutation_collision_witness:
  "\<exists>(out :: command_outcome) gs' (ms' :: (group_mutation, unit) operation_store). co_accepted out \<and>
     handle_group_mutation (group_world_ports 20 grp_demo_publish) Cmd_AddGroupMember
       (grp_demo_envelope ''k365994'') (gs', ms', ()) =
     (Inr (commandOutcome (grp_demo_envelope ''k365994'') Outcome_accepted True False (co_resultRef out) None),
      (gs', ms', ()))"
proof -
  obtain out gs' ms' where run: "handle_group_mutation (group_world_ports 10 grp_demo_publish) Cmd_AddGroupMember
      (grp_demo_envelope ''k78999'') (grp_demo_store, grp_demo_intents, ()) = (Inr out, (gs', ms', ()))"
      "co_accepted out"
    using grp_demo_ran by auto
  have "handle_group_mutation (group_world_ports 20 grp_demo_publish) Cmd_AddGroupMember
       (grp_demo_envelope ''k365994'') (gs', ms', ()) =
     (Inr (commandOutcome (grp_demo_envelope ''k365994'')
       (successfulOutcomeForGroupMutation Cmd_AddGroupMember) True False (co_resultRef out) None), (gs', ms', ()))"
    by (rule group_mutation_collision [OF run grp_demo_ok, where target = "''g''" and key = "''k78999''" and ref = "''add.1''" and intentRef = "''add.1''"
          and operator = "''operator''" and other = "''k365994''"])
      (simp_all add: grp_demo_envelope_def grp_demo_token grp_demo_names)
  then show ?thesis
    using run(2) by - (rule exI [of _ out], rule exI [of _ gs'], rule exI [of _ ms'],
      simp add: successfulOutcomeForGroupMutation_def isMemberMutationCommand_def)
qed





end
